(* ===== verification/Prelude.thy ===== *)
theory Prelude
  imports Main "HOL-Library.Word"
begin

text \<open>
  Shared vocabulary of the development: bytes and Rust strings, the string and number
  routines of the Rust standard library that the crate calls, durations and futures with a
  deadline, and the outcome of a computation that may fail or never return.

  A Rust \<open>u8\<close> is a \<open>char\<close> (an 8-bit value), a \<open>Vec<u8>\<close> or a \<open>&[u8]\<close> is a list of them,
  and a Rust \<open>String\<close> is the list of its UTF-8 bytes, so that \<open>as_bytes\<close> is the identity and
  a length is a length in bytes.
\<close>

type_synonym byte = char
type_synonym bytes = "char list"
type_synonym u8 = "8 word"
type_synonym u16 = "16 word"
type_synonym u32 = "32 word"
type_synonym i32 = "32 word"
type_synonym u64 = "64 word"

named_theorems outcome_simps "how the bind of outcomes evaluates"
named_theorems io_simps "how the stream operations evaluate"

section \<open>ASCII routines of str and u8\<close>

abbreviation code_of :: "char \<Rightarrow> nat" where
  "code_of c \<equiv> of_char c"

definition ascii_lower :: "char \<Rightarrow> char" where
  "ascii_lower c = (if 65 \<le> code_of c \<and> code_of c \<le> 90 then char_of (code_of c + 32) else c)"

definition to_ascii_lowercase :: "string \<Rightarrow> string" where
  "to_ascii_lowercase s = map ascii_lower s"

definition eq_ignore_ascii_case :: "string \<Rightarrow> string \<Rightarrow> bool" where
  "eq_ignore_ascii_case a b = (to_ascii_lowercase a = to_ascii_lowercase b)"

definition is_ascii_whitespace :: "byte \<Rightarrow> bool" where
  "is_ascii_whitespace b = (code_of b = 32 \<or> code_of b = 9 \<or> code_of b = 10 \<or> code_of b = 12 \<or> code_of b = 13)"

definition CR :: char where
  "CR = CHR 0x0D"

definition LF :: char where
  "LF = CHR 0x0A"

definition CRLF :: string where
  "CRLF = [CR, LF]"

section \<open>Prefixes, substrings, trimming\<close>

fun starts_with :: "string \<Rightarrow> string \<Rightarrow> bool" where
  "starts_with s [] = True"
| "starts_with [] (p # ps) = False"
| "starts_with (c # s) (p # ps) = (c = p \<and> starts_with s ps)"

definition strip_prefix :: "string \<Rightarrow> string \<Rightarrow> string option" where
  "strip_prefix p s = (if starts_with s p then Some (drop (length p) s) else None)"

fun find_str :: "string \<Rightarrow> string \<Rightarrow> nat option" where
  "find_str needle [] = (if needle = [] then Some 0 else None)"
| "find_str needle (c # s) =
     (if starts_with (c # s) needle then Some 0 else map_option Suc (find_str needle s))"

definition contains_str :: "string \<Rightarrow> string \<Rightarrow> bool" where
  "contains_str s needle = (find_str needle s \<noteq> None)"

definition trim_end_matches :: "char \<Rightarrow> string \<Rightarrow> string" where
  "trim_end_matches c s = rev (dropWhile (\<lambda>x. x = c) (rev s))"

lemma starts_with_iff: "starts_with s p \<longleftrightarrow> (\<exists>t. s = p @ t)"
  by (induction s p rule: starts_with.induct) auto

lemma starts_with_append [simp]: "starts_with (p @ s) p"
  by (auto simp: starts_with_iff)

lemma strip_prefix_append [simp]: "strip_prefix p (p @ s) = Some s"
  by (simp add: strip_prefix_def)

lemma strip_prefix_Some_iff: "strip_prefix p s = Some t \<longleftrightarrow> s = p @ t"
  by (auto simp: strip_prefix_def starts_with_iff)

lemma find_str_Some_split:
  "find_str needle s = Some i \<Longrightarrow> \<exists>t. s = take i s @ needle @ t \<and> i + length needle \<le> length s"
proof (induction s arbitrary: i)
  case Nil
  then show ?case by (simp split: if_splits)
next
  case (Cons c s)
  show ?case
  proof (cases "starts_with (c # s) needle")
    case True
    with Cons.prems have "i = 0" by simp
    with True show ?thesis
      by (metis append_Nil le_add1 length_append plus_nat.add_0 starts_with_iff take_0)
  next
    case False
    with Cons.prems obtain j where j: "find_str needle s = Some j" "i = Suc j" by auto
    from Cons.IH [OF j(1)] show ?thesis by (auto simp: j(2))
  qed
qed

lemma find_str_append: "find_str needle (needle @ s) = Some 0"
  by (cases "needle @ s") (metis find_str.simps(1) append_is_Nil_conv, metis find_str.simps(2) starts_with_append)

lemma find_str_None_not_prefix: "find_str needle s = None \<Longrightarrow> s \<noteq> a @ needle @ b"
proof (induction s arbitrary: a)
  case Nil
  then show ?case by (auto split: if_splits)
next
  case (Cons c s)
  from Cons.prems have ns: "\<not> starts_with (c # s) needle" and rest: "find_str needle s = None"
    by (auto split: if_splits)
  show ?case
  proof (cases a)
    case Nil
    with ns show ?thesis by (metis append_Nil starts_with_append)
  next
    case (Cons x a')
    with Cons.IH [OF rest, of a'] show ?thesis by auto
  qed
qed

text \<open>The first position at which a single character occurs.\<close>

lemma find_char_split:
  "c \<notin> set a \<Longrightarrow> find_str [c] (a @ c # b) = Some (length a)"
  by (induction a) auto

lemma trim_end_matches_last: "trim_end_matches c s = [] \<or> last (trim_end_matches c s) \<noteq> c"
  unfolding trim_end_matches_def
  by (metis (mono_tags, lifting) dropWhile_eq_Nil_conv hd_dropWhile last_rev rev_is_Nil_conv rev.simps(1))

section \<open>Decimal rendering and parsing of unsigned integers\<close>

definition digit_char :: "nat \<Rightarrow> char" where
  "digit_char d = char_of (48 + d)"

fun dec :: "nat \<Rightarrow> string" where
  "dec n = (if n < 10 then [digit_char n] else dec (n div 10) @ [digit_char (n mod 10)])"

declare dec.simps [simp del]

definition is_digit :: "char \<Rightarrow> bool" where
  "is_digit c = (48 \<le> code_of c \<and> code_of c \<le> 57)"

definition digit_val :: "char \<Rightarrow> nat" where
  "digit_val c = code_of c - 48"

text \<open>
  \<open>str::parse::<u64>\<close>: an optional plus sign, then at least one decimal digit and nothing
  else; each step is a checked multiplication and a checked addition.
\<close>

fun parse_digits :: "nat \<Rightarrow> string \<Rightarrow> nat option" where
  "parse_digits acc [] = Some acc"
| "parse_digits acc (c # cs) =
     (if \<not> is_digit c then None
      else if 2 ^ 64 \<le> acc * 10 then None
      else if 2 ^ 64 \<le> acc * 10 + digit_val c then None
      else parse_digits (acc * 10 + digit_val c) cs)"

definition parse_u64 :: "string \<Rightarrow> nat option" where
  "parse_u64 s =
     (case s of [] \<Rightarrow> None
      | c # cs \<Rightarrow> if code_of c = 43 then (if cs = [] then None else parse_digits 0 cs)
                 else parse_digits 0 s)"

lemma parse_digits_bound: "parse_digits acc s = Some n \<Longrightarrow> acc < 2 ^ 64 \<Longrightarrow> n < 2 ^ 64"
proof (induction s arbitrary: acc)
  case (Cons c cs)
  then show ?case by (simp split: if_splits)
qed simp

lemma parse_u64_bound: "parse_u64 s = Some n \<Longrightarrow> n < 2 ^ 64"
  using parse_digits_bound [of 0 "tl s" n] parse_digits_bound [of 0 s n]
  by (auto simp: parse_u64_def simp del: parse_digits.simps split: list.splits if_splits)

lemma parse_digits_mono: "parse_digits acc s = Some n \<Longrightarrow> acc \<le> n"
proof (induction s arbitrary: acc)
  case (Cons c cs)
  then have "acc * 10 + digit_val c \<le> n" by (auto split: if_splits)
  then show ?case by simp
qed simp

lemma parse_digits_append:
  "parse_digits acc (s @ t) = Option.bind (parse_digits acc s) (\<lambda>a. parse_digits a t)"
  by (induction s arbitrary: acc) auto

lemma code_of_digit_char: "d < 10 \<Longrightarrow> code_of (digit_char d) = 48 + d"
  by (simp add: digit_char_def)

lemma is_digit_digit_char [simp]: "d < 10 \<Longrightarrow> is_digit (digit_char d)"
  by (simp add: is_digit_def code_of_digit_char)

lemma digit_val_digit_char [simp]: "d < 10 \<Longrightarrow> digit_val (digit_char d) = d"
  by (simp add: digit_val_def code_of_digit_char)

lemma parse_digits_dec: "n < 2 ^ 64 \<Longrightarrow> parse_digits 0 (dec n) = Some n"
proof (induction n rule: dec.induct)
  case (1 n)
  show ?case
  proof (cases "n < 10")
    case True
    with "1.prems" show ?thesis by (simp add: dec.simps [of n])
  next
    case False
    then have "parse_digits 0 (dec (n div 10)) = Some (n div 10)"
      using "1.IH" "1.prems" by simp
    moreover have "n div 10 * 10 + n mod 10 = n" by simp
    ultimately show ?thesis
      using "1.prems" False
      by (simp add: dec.simps [of n] parse_digits_append)
  qed
qed

lemma dec_not_Nil [simp]: "dec n \<noteq> []"
  by (subst dec.simps) simp

lemma dec_digits: "c \<in> set (dec n) \<Longrightarrow> is_digit c"
proof (induction n rule: dec.induct)
  case (1 n)
  then show ?case by (subst (asm) (2) dec.simps) (auto split: if_splits)
qed

text \<open>Rendering a number and parsing it back is the identity on the 64-bit range.\<close>

lemma parse_u64_dec: "n < 2 ^ 64 \<Longrightarrow> parse_u64 (dec n) = Some n"
proof -
  assume n: "n < 2 ^ 64"
  obtain c cs where ds: "dec n = c # cs" by (cases "dec n") simp_all
  then have "is_digit c" using dec_digits [of c n] by simp
  then have "code_of c \<noteq> 43" by (simp add: is_digit_def)
  then show ?thesis using parse_digits_dec [OF n] by (simp add: parse_u64_def ds)
qed

section \<open>UTF-8 validation and lossy decoding\<close>

definition utf8_cont :: "byte \<Rightarrow> bool" where
  "utf8_cont b = (128 \<le> code_of b \<and> code_of b \<le> 191)"

text \<open>The second byte of a three-byte and of a four-byte sequence, by its first byte.\<close>

definition utf8_second3 :: "nat \<Rightarrow> byte \<Rightarrow> bool" where
  "utf8_second3 x c =
     (if x = 224 then 160 \<le> code_of c \<and> code_of c \<le> 191
      else if x = 237 then 128 \<le> code_of c \<and> code_of c \<le> 159
      else utf8_cont c)"

definition utf8_second4 :: "nat \<Rightarrow> byte \<Rightarrow> bool" where
  "utf8_second4 x c =
     (if x = 240 then 144 \<le> code_of c \<and> code_of c \<le> 191
      else if x = 244 then 128 \<le> code_of c \<and> code_of c \<le> 143
      else utf8_cont c)"

text \<open>
  The first chunk of a byte string: whether it is one well-formed character, and how many
  bytes it takes (for an ill-formed one, the longest prefix that could have started one).
\<close>

definition utf8_chunk :: "byte \<Rightarrow> bytes \<Rightarrow> bool \<times> nat" where
  "utf8_chunk b bs =
     (let x = code_of b in
      if x < 128 then (True, 1)
      else if 194 \<le> x \<and> x \<le> 223 then
        (case bs of c # _ \<Rightarrow> if utf8_cont c then (True, 2) else (False, 1) | [] \<Rightarrow> (False, 1))
      else if 224 \<le> x \<and> x \<le> 239 then
        (case bs of [] \<Rightarrow> (False, 1)
         | c # cs \<Rightarrow> if \<not> utf8_second3 x c then (False, 1)
             else (case cs of d # _ \<Rightarrow> if utf8_cont d then (True, 3) else (False, 2) | [] \<Rightarrow> (False, 2)))
      else if 240 \<le> x \<and> x \<le> 244 then
        (case bs of [] \<Rightarrow> (False, 1)
         | c # cs \<Rightarrow> if \<not> utf8_second4 x c then (False, 1)
             else (case cs of [] \<Rightarrow> (False, 2)
                   | d # ds \<Rightarrow> if \<not> utf8_cont d then (False, 2)
                       else (case ds of e # _ \<Rightarrow> if utf8_cont e then (True, 4) else (False, 3)
                             | [] \<Rightarrow> (False, 3))))
      else (False, 1))"

lemma utf8_chunk_pos: "0 < snd (utf8_chunk b bs)"
  by (simp add: utf8_chunk_def Let_def split: list.splits)

definition utf8_replacement :: string where
  "utf8_replacement = [CHR 0xEF, CHR 0xBF, CHR 0xBD]"

function from_utf8_lossy :: "bytes \<Rightarrow> string" where
  "from_utf8_lossy [] = []"
| "from_utf8_lossy (b # bs) =
     (let (ok, n) = utf8_chunk b bs in
      (if ok then take n (b # bs) else utf8_replacement) @ from_utf8_lossy (drop n (b # bs)))"
  by pat_completeness auto
termination
proof (relation "measure length", goal_cases)
  case (2 b bs p ok n)
  then have "0 < n" using utf8_chunk_pos [of b bs] by (metis snd_conv)
  then show ?case by simp
qed simp

function utf8_ok :: "bytes \<Rightarrow> bool" where
  "utf8_ok [] = True"
| "utf8_ok (b # bs) =
     (let (ok, n) = utf8_chunk b bs in ok \<and> utf8_ok (drop n (b # bs)))"
  by pat_completeness auto
termination
proof (relation "measure length", goal_cases)
  case (2 b bs p ok n)
  then have "0 < n" using utf8_chunk_pos [of b bs] by (metis snd_conv)
  then show ?case by simp
qed simp

declare from_utf8_lossy.simps(2) [simp del] utf8_ok.simps(2) [simp del]

text \<open>\<open>String::from_utf8\<close> and \<open>str::from_utf8\<close>: the bytes themselves, when they are UTF-8.\<close>

definition from_utf8 :: "bytes \<Rightarrow> string option" where
  "from_utf8 bs = (if utf8_ok bs then Some bs else None)"

lemma from_utf8_lossy_valid: "utf8_ok bs \<Longrightarrow> from_utf8_lossy bs = bs"
proof (induction bs rule: utf8_ok.induct)
  case (2 b bs)
  obtain ok n where c: "utf8_chunk b bs = (ok, n)" by fastforce
  with "2.prems" have ok: ok and rest: "utf8_ok (drop n (b # bs))"
    by (simp_all add: utf8_ok.simps(2))
  from "2.IH" [OF refl c [symmetric] rest] ok c show ?case
    by (simp add: from_utf8_lossy.simps(2))
qed simp

lemma utf8_ok_ascii: "\<forall>b \<in> set bs. code_of b < 128 \<Longrightarrow> utf8_ok bs"
  by (induction bs) (simp_all add: utf8_ok.simps(2) utf8_chunk_def)

section \<open>Durations, futures and deadlines\<close>

text \<open>
  A \<open>Duration\<close> and an \<open>Instant\<close> are numbers of nanoseconds. A future is what the runtime
  makes of it: a value that is ready after some time, or one that never comes.
  \<open>tokio::time::timeout\<close> polls the future before the deadline, so a value that is ready at
  the deadline itself wins.
\<close>

type_synonym duration = nat
type_synonym instant = nat

definition from_secs :: "nat \<Rightarrow> duration" where
  "from_secs s = s * 1000000000"

definition DURATION_MAX :: duration where
  "DURATION_MAX = (2 ^ 64 - 1) * 1000000000 + 999999999"

definition saturating_mul :: "duration \<Rightarrow> nat \<Rightarrow> duration" where
  "saturating_mul d n = min (d * n) DURATION_MAX"

definition elapsed :: "instant \<Rightarrow> instant \<Rightarrow> duration" where
  "elapsed now t = now - t"

datatype 'a fut = Ready duration 'a | Never

definition timeout :: "duration \<Rightarrow> 'a fut \<Rightarrow> 'a option" where
  "timeout d f = (case f of Ready t a \<Rightarrow> if t \<le> d then Some a else None | Never \<Rightarrow> None)"

lemma timeout_Some_iff: "timeout d f = Some a \<longleftrightarrow> (\<exists>t \<le> d. f = Ready t a)"
  by (auto simp: timeout_def split: fut.splits)

text \<open>
  \<open>await\<close> continues an asynchronous computation with the value of the future it waits for, and
  \<open>timeout_fut\<close> is the future that \<open>tokio::time::timeout\<close> makes: it is ready at the deadline at the latest.
\<close>

definition delay :: "duration \<Rightarrow> 'a fut \<Rightarrow> 'a fut" where
  "delay d f = (case f of Ready t a \<Rightarrow> Ready (d + t) a | Never \<Rightarrow> Never)"

definition await :: "'a fut \<Rightarrow> ('a \<Rightarrow> 'b fut) \<Rightarrow> 'b fut" where
  "await f k = (case f of Ready t a \<Rightarrow> delay t (k a) | Never \<Rightarrow> Never)"

definition timeout_fut :: "duration \<Rightarrow> 'a fut \<Rightarrow> 'a option fut" where
  "timeout_fut d f =
     (case f of
        Ready t a \<Rightarrow> if t \<le> d then Ready t (Some a) else Ready d None
      | Never \<Rightarrow> Ready d None)"

lemma delay_simps [simp]: "delay d (Ready t a) = Ready (d + t) a" "delay d Never = Never"
  by (simp_all add: delay_def)

lemma await_simps [simp]: "await (Ready t a) k = delay t (k a)" "await Never k = Never"
  by (simp_all add: await_def)

lemma delay_Ready_iff: "delay d f = Ready t a \<longleftrightarrow> (\<exists>u. f = Ready u a \<and> t = d + u)"
  by (cases f) auto

lemma await_Ready_iff: "await f k = Ready t b \<longleftrightarrow> (\<exists>u a v. f = Ready u a \<and> k a = Ready v b \<and> t = u + v)"
  by (cases f) (auto simp: delay_Ready_iff)

text \<open>The question mark behind an \<open>await\<close>.\<close>

lemma await_try_iff:
  "await f (\<lambda>r. Ready 0 (case r of Inl e \<Rightarrow> Inl e | Inr x \<Rightarrow> k x)) = Ready t (Inr y) \<longleftrightarrow>
   (\<exists>x. f = Ready t (Inr x) \<and> k x = Inr y)"
  by (cases f) (auto split: sum.splits)

lemma from_secs_mono [simp]: "from_secs a \<le> from_secs b \<longleftrightarrow> a \<le> b"
  by (simp add: from_secs_def)

lemma from_secs_less [simp]: "from_secs a < from_secs b \<longleftrightarrow> a < b"
  by (simp add: from_secs_def)

lemma from_secs_inject [simp]: "from_secs a = from_secs b \<longleftrightarrow> a = b"
  by (simp add: from_secs_def)

lemma from_secs_add: "from_secs a + from_secs b = from_secs (a + b)"
  by (simp add: from_secs_def)

lemma sum_list_from_secs: "sum_list (map from_secs xs) = from_secs (sum_list xs)"
  by (induction xs) (simp_all add: from_secs_def)

section \<open>Outcomes of asynchronous code\<close>

text \<open>
  An \<open>async fn\<close> that returns a \<open>Result\<close> ends with a value, ends with an error, or is still
  pending because something it awaits never happens. The state it has changed by then is
  kept in all three cases.
\<close>

datatype ('e, 'a) outcome = Done 'a | Failed 'e | Pending

definition and_then ::
  "('e, 'a) outcome \<times> 's \<Rightarrow> ('a \<Rightarrow> 's \<Rightarrow> ('e, 'b) outcome \<times> 's) \<Rightarrow> ('e, 'b) outcome \<times> 's" where
  "and_then r k =
     (case r of (Done a, s) \<Rightarrow> k a s | (Failed e, s) \<Rightarrow> (Failed e, s) | (Pending, s) \<Rightarrow> (Pending, s))"

lemma and_then_simps [simp, outcome_simps]:
  "and_then (Done a, s) k = k a s"
  "and_then (Failed e, s) k = (Failed e, s)"
  "and_then (Pending, s) k = (Pending, s)"
  by (simp_all add: and_then_def)

lemma and_then_Done_iff:
  "and_then r k = (Done b, t) \<longleftrightarrow> (\<exists>a s. r = (Done a, s) \<and> k a s = (Done b, t))"
  by (cases r; cases "fst r") (auto simp: and_then_def)

definition of_result :: "'e + 'a \<Rightarrow> ('e, 'a) outcome" where
  "of_result r = (case r of Inl e \<Rightarrow> Failed e | Inr a \<Rightarrow> Done a)"

definition map_err :: "('e \<Rightarrow> 'f) \<Rightarrow> 'e + 'a \<Rightarrow> 'f + 'a" where
  "map_err f r = (case r of Inl e \<Rightarrow> Inl (f e) | Inr a \<Rightarrow> Inr a)"

definition ok_or :: "'e \<Rightarrow> 'a option \<Rightarrow> 'e + 'a" where
  "ok_or e x = (case x of None \<Rightarrow> Inl e | Some a \<Rightarrow> Inr a)"

definition unwrap_or :: "'a \<Rightarrow> 'a option \<Rightarrow> 'a" where
  "unwrap_or d x = (case x of None \<Rightarrow> d | Some a \<Rightarrow> a)"

lemma map_err_simps [simp]:
  "map_err f (Inl e) = Inl (f e)" "map_err f (Inr a) = Inr a"
  by (simp_all add: map_err_def)

lemma map_err_Inr_iff [simp]: "map_err f r = Inr a \<longleftrightarrow> r = Inr a"
  by (cases r) simp_all

lemma ok_or_simps [simp]: "ok_or e None = Inl e" "ok_or e (Some a) = Inr a"
  by (simp_all add: ok_or_def)

lemma unwrap_or_simps [simp]: "unwrap_or d None = d" "unwrap_or d (Some a) = a"
  by (simp_all add: unwrap_or_def)

lemma of_result_simps [simp]: "of_result (Inl e) = Failed e" "of_result (Inr a) = Done a"
  by (simp_all add: of_result_def)

end
