(* ===== verification/Tunnel_Error.thy ===== *)
theory Tunnel_Error
  imports Prelude
begin

text \<open>
  \<^verbatim>\<open>src/error.rs\<close>: the error model every part of the crate shares, and
  \<open>TunnelError::is_transient\<close> of \<^verbatim>\<open>src/api.rs\<close>.

  \<open>reqwest::Error\<close> belongs to the HTTP library. The crate observes it through four methods
  and its display text, so it is the record of these five observations.
\<close>

record http_error =
  is_timeout :: bool
  is_connect :: bool
  is_request :: bool
  err_status :: "u16 option"
  err_text :: string

record api_error =
  code :: i32
  message :: string

datatype tunnel_error =
    Api http_error
  | ApiBusiness "api_error list"
  | ApiNonJson u16 string
  | Discovery string
  | QuicDial nat string
  | Register string
  | PermanentFailure u32
  | Shutdown
  | Internal string

text \<open>
  The derived \<open>Display\<close>. The list of business errors is shown with the derived \<open>Debug\<close>,
  whose rendering of strings escapes them; it stays a parameter.
\<close>

fun display :: "(api_error list \<Rightarrow> string) \<Rightarrow> tunnel_error \<Rightarrow> string" where
  "display dbg (Api e) = ''quick-tunnel API request failed: '' @ err_text e"
| "display dbg (ApiBusiness errs) = ''quick-tunnel API returned business errors: '' @ dbg errs"
| "display dbg (ApiNonJson st body) =
     ''quick-tunnel API responded non-JSON ('' @ dec (unat st) @ ''): '' @ body"
| "display dbg (Discovery m) = ''edge discovery failed: '' @ m"
| "display dbg (QuicDial n l) =
     ''QUIC dial failed after '' @ dec n @ '' attempt(s); last: '' @ l"
| "display dbg (Register m) = ''capnp-RPC RegisterConnection failed: '' @ m"
| "display dbg (PermanentFailure n) =
     ''connection lost; supervisor giving up after '' @ dec (unat n) @ '' attempts''"
| "display dbg Shutdown = ''shutdown requested''"
| "display dbg (Internal m) = ''internal invariant violated: '' @ m"

definition is_server_error :: "u16 \<Rightarrow> bool" where
  "is_server_error st = (500 \<le> unat st \<and> unat st < 600)"

fun is_transient :: "tunnel_error \<Rightarrow> bool" where
  "is_transient (Api e) =
     (is_timeout e \<or> is_connect e \<or> is_request e
      \<or> (case err_status e of None \<Rightarrow> False | Some s \<Rightarrow> is_server_error s))"
| "is_transient (ApiNonJson st _) = (500 \<le> unat st \<and> unat st < 600)"
| "is_transient _ = False"

lemma is_transient_cases:
  "is_transient e \<Longrightarrow> (\<exists>h. e = Api h) \<or> (\<exists>st b. e = ApiNonJson st b \<and> is_server_error st)"
  by (cases e) (auto simp: is_server_error_def)

end
