(* ===== verification/Backoff.thy ===== *)
theory Backoff
  imports Prelude
begin

text \<open>
  The contract of a backoff schedule, which the tunnel request and the reactors share: the
  delay before retry number \<open>a\<close> (counted from 1) is positive, never shrinks and stays below
  a ceiling. The lemmas bound what a run of consecutive retries waits in total.
\<close>

definition total_delay :: "(nat \<Rightarrow> duration) \<Rightarrow> nat \<Rightarrow> duration" where
  "total_delay f n = sum_list (map f [1..<Suc n])"

lemma total_delay_0 [simp]: "total_delay f 0 = 0"
  by (simp add: total_delay_def)

lemma total_delay_Suc [simp]: "total_delay f (Suc n) = total_delay f n + f (Suc n)"
  by (simp add: total_delay_def)

locale backoff_policy =
  fixes delay :: "nat \<Rightarrow> duration" and ceiling :: duration
  assumes delay_pos: "1 \<le> a \<Longrightarrow> 0 < delay a"
    and delay_step: "1 \<le> a \<Longrightarrow> delay a \<le> delay (Suc a)"
    and delay_ceiling: "1 \<le> a \<Longrightarrow> delay a \<le> ceiling"
begin

lemma delay_mono: "1 \<le> a \<Longrightarrow> a \<le> b \<Longrightarrow> delay a \<le> delay b"
proof (induction b)
  case (Suc b)
  show ?case
  proof (cases "a = Suc b")
    case False
    with Suc have "delay a \<le> delay b" "1 \<le> b" by auto
    with delay_step [of b] show ?thesis by linarith
  qed simp
qed simp

lemma total_delay_upper: "total_delay delay n \<le> n * ceiling"
proof (induction n)
  case (Suc n)
  with delay_ceiling [of "Suc n"] show ?case by simp
qed simp

lemma total_delay_lower: "n * delay 1 \<le> total_delay delay n"
proof (induction n)
  case (Suc n)
  with delay_mono [of 1 "Suc n"] show ?case by simp
qed simp

lemma total_delay_strict: "m < n \<Longrightarrow> total_delay delay m < total_delay delay n"
proof (induction n)
  case (Suc n)
  with delay_pos [of "Suc n"] show ?case by (cases "m = n") auto
qed simp

end

end
