(* ===== verification/Tunnel_Api.thy ===== *)
theory Tunnel_Api
  imports Tunnel_Error Backoff
begin

text \<open>
  \<^verbatim>\<open>src/api.rs\<close>: the POST to \<open>/tunnel\<close> that yields the tunnel's credentials.

  The HTTP library and the JSON library are parameters: \<open>reply\<close> is what one POST produces (a
  transport error, or a status and either the body or an error while reading it) and
  \<open>from_json\<close> is the deserialiser of the envelope.
\<close>

record quick_tunnel =
  qt_id :: string
  qt_name :: string
  qt_hostname :: string
  qt_account_tag :: string
  qt_secret :: bytes

record quick_tunnel_response =
  success :: bool
  result :: "quick_tunnel option"
  errors :: "api_error list"

definition DEFAULT_SERVICE_URL :: string where
  "DEFAULT_SERVICE_URL = ''https://api.trycloudflare.com''"

definition DEFAULT_USER_AGENT :: string where
  "DEFAULT_USER_AGENT = ''cloudflared/2024.12.0''"

definition DEFAULT_HTTP_TIMEOUT :: duration where
  "DEFAULT_HTTP_TIMEOUT = from_secs 15"

definition MAX_RETRIES :: nat where
  "MAX_RETRIES = 3"

type_synonym reply = "http_error + (u16 \<times> (http_error + bytes))"

section \<open>One attempt\<close>

definition looks_like_json :: "bytes \<Rightarrow> bool" where
  "looks_like_json body =
     (case find (\<lambda>b. \<not> is_ascii_whitespace b) body of
        None \<Rightarrow> False
      | Some b \<Rightarrow> b = CHR ''{'' \<or> b = CHR ''['')"

definition try_once ::
  "(bytes \<Rightarrow> string + quick_tunnel_response) \<Rightarrow> reply \<Rightarrow> tunnel_error + quick_tunnel" where
  "try_once from_json reply =
     (case reply of
        Inl e \<Rightarrow> Inl (Api e)
      | Inr (status, Inl e) \<Rightarrow> Inl (Api e)
      | Inr (status, Inr body) \<Rightarrow>
          if is_server_error status \<and> \<not> looks_like_json body
          then (let snippet_len = min 200 (length body);
                    body_snippet = from_utf8_lossy (take snippet_len body)
                in Inl (ApiNonJson status body_snippet))
          else if \<not> looks_like_json body
          then (let snippet_len = min 200 (length body);
                    body_snippet = from_utf8_lossy (take snippet_len body)
                in Inl (ApiNonJson status body_snippet))
          else
            (case from_json body of
               Inl e \<Rightarrow> Inl (Internal (''malformed JSON from /tunnel: '' @ e))
             | Inr envelope \<Rightarrow>
                 if \<not> success envelope then Inl (ApiBusiness (errors envelope))
                 else ok_or (Internal ''POST /tunnel returned success=true but no `result` body'')
                        (result envelope)))"

text \<open>\<open>serde_bytes_b64::deserialize\<close>, over the string deserialiser and the base64 engine.\<close>

definition b64_deserialize ::
  "(string \<Rightarrow> string + bytes) \<Rightarrow> string + string \<Rightarrow> string + bytes" where
  "b64_deserialize decode d = (case d of Inl e \<Rightarrow> Inl e | Inr s \<Rightarrow> decode s)"

lemma looks_like_json_cons:
  "looks_like_json (b # bs) =
     (if is_ascii_whitespace b then looks_like_json bs else b = CHR ''{'' \<or> b = CHR ''['')"
  by (simp add: looks_like_json_def)

lemma looks_like_json_Nil [simp]: "\<not> looks_like_json []"
  by (simp add: looks_like_json_def)

text \<open>A successful attempt rests on a JSON body whose envelope says so and carries a tunnel.\<close>

lemma try_once_Inr_iff:
  "try_once from_json reply = Inr t \<longleftrightarrow>
   (\<exists>status body envelope. reply = Inr (status, Inr body) \<and> looks_like_json body
      \<and> from_json body = Inr envelope \<and> success envelope \<and> result envelope = Some t)"
  by (auto simp: try_once_def ok_or_def Let_def split: sum.splits if_splits option.splits)

text \<open>The attempts worth repeating: transport errors of the retryable kinds, and 5xx replies without JSON.\<close>

lemma try_once_transient_iff:
  "(\<exists>e. try_once from_json reply = Inl e \<and> is_transient e) \<longleftrightarrow>
   (\<exists>e. (reply = Inl e \<or> (\<exists>status. reply = Inr (status, Inl e))) \<and> is_transient (Api e))
   \<or> (\<exists>status body. reply = Inr (status, Inr body) \<and> is_server_error status \<and> \<not> looks_like_json body)"
  by (auto simp: try_once_def ok_or_def Let_def is_server_error_def
           split: sum.splits if_splits option.splits)

section \<open>The retry loop\<close>

text \<open>
  The loop over \<open>0..=MAX_RETRIES\<close>. The list of attempts still to make drives the recursion;
  the result comes with the pauses that were slept, in order. \<open>attempt_fn\<close> is \<open>try_once\<close> on
  the reply to that attempt's POST.
\<close>

fun retry_loop ::
  "(nat \<Rightarrow> tunnel_error + quick_tunnel) \<Rightarrow> nat list \<Rightarrow> duration \<Rightarrow> tunnel_error option
   \<Rightarrow> (tunnel_error + quick_tunnel) \<times> duration list" where
  "retry_loop attempt_fn [] backoff last_err =
     (Inl (unwrap_or (Internal ''request_tunnel: retry loop fell through without an error'') last_err), [])"
| "retry_loop attempt_fn (attempt # rest) backoff last_err =
     (case attempt_fn attempt of
        Inr tunnel \<Rightarrow> (Inr tunnel, [])
      | Inl err \<Rightarrow>
          if \<not> is_transient err \<or> attempt = MAX_RETRIES then (Inl err, [])
          else (let (r, sleeps) = retry_loop attempt_fn rest (saturating_mul backoff 2) (Some err)
                in (r, backoff # sleeps)))"

definition tunnel_url :: "string \<Rightarrow> string" where
  "tunnel_url service_url = trim_end_matches (CHR ''/'') service_url @ ''/tunnel''"

text \<open>
  \<open>client\<close> is what the HTTP client builder returns, \<open>post\<close> the reply to POST number
  \<open>attempt\<close> at a URL.
\<close>

definition request_tunnel ::
  "(bytes \<Rightarrow> string + quick_tunnel_response) \<Rightarrow> (string \<Rightarrow> http_error option)
   \<Rightarrow> (string \<Rightarrow> nat \<Rightarrow> reply) \<Rightarrow> string \<Rightarrow> string
   \<Rightarrow> (tunnel_error + quick_tunnel) \<times> duration list" where
  "request_tunnel from_json client post service_url user_agent =
     (let url = tunnel_url service_url in
      case client user_agent of
        Some e \<Rightarrow> (Inl (Api e), [])
      | None \<Rightarrow>
          retry_loop (\<lambda>attempt. try_once from_json (post url attempt))
            [0..<Suc MAX_RETRIES] (from_secs 1) None)"

text \<open>The pause before retry number \<open>a\<close>, as the loop computes it.\<close>

definition api_delay :: "nat \<Rightarrow> duration" where
  "api_delay a = ((\<lambda>d. saturating_mul d 2) ^^ (a - 1)) (from_secs 1)"

lemma api_delay_closed: "api_delay (Suc a) = min (from_secs (2 ^ a)) DURATION_MAX"
proof (induction a)
  case 0
  show ?case by (simp add: api_delay_def from_secs_def DURATION_MAX_def)
next
  case (Suc a)
  have "api_delay (Suc (Suc a)) = saturating_mul (api_delay (Suc a)) 2"
    by (simp add: api_delay_def)
  then show ?case by (auto simp: Suc.IH saturating_mul_def from_secs_def min_def)
qed

interpretation api_policy: backoff_policy api_delay DURATION_MAX
proof
  fix a :: nat assume "1 \<le> a"
  then obtain b where b: "a = Suc b" by (cases a) simp_all
  show "0 < api_delay a" by (simp add: b api_delay_closed from_secs_def DURATION_MAX_def)
  show "api_delay a \<le> api_delay (Suc a)"
    unfolding b api_delay_closed by (rule min.mono) (simp_all add: from_secs_def)
  show "api_delay a \<le> DURATION_MAX" by (simp add: b api_delay_closed)
qed

text \<open>
  The abstract view of the loop: it makes attempts while they fail transiently, up to the
  last one; what the last attempt made returned is the result, and the pauses are the first
  entries of the schedule.
\<close>

definition retries :: "(nat \<Rightarrow> tunnel_error + quick_tunnel) \<Rightarrow> nat \<Rightarrow> bool" where
  "retries f a = (a < MAX_RETRIES \<and> (\<exists>e. f a = Inl e \<and> is_transient e))"

lemma retry_loop_from:
  "a \<le> MAX_RETRIES \<Longrightarrow>
   \<exists>k. a \<le> k \<and> k \<le> MAX_RETRIES \<and> (\<forall>j. a \<le> j \<and> j < k \<longrightarrow> retries f j) \<and> \<not> retries f k
     \<and> retry_loop f [a..<Suc MAX_RETRIES] (api_delay (Suc a)) le
        = (f k, map api_delay [Suc a..<Suc k])"
proof (induction "MAX_RETRIES - a" arbitrary: a le)
  case 0
  then have a: "a = MAX_RETRIES" by simp
  have "retry_loop f [a..<Suc MAX_RETRIES] (api_delay (Suc a)) le = (f a, [])"
    by (auto simp: a split: sum.splits)
  then show ?case by (intro exI [of _ a]) (auto simp: a retries_def)
next
  case (Suc n)
  then have lt: "a < MAX_RETRIES" by simp
  then have upt: "[a..<Suc MAX_RETRIES] = a # [Suc a..<Suc MAX_RETRIES]"
    by (simp add: upt_conv_Cons)
  show ?case
  proof (cases "retries f a")
    case False
    then have "retry_loop f [a..<Suc MAX_RETRIES] (api_delay (Suc a)) le = (f a, [])"
      using lt by (auto simp: upt retries_def simp del: upt_Suc split: sum.splits)
    with False lt show ?thesis by (intro exI [of _ a]) auto
  next
    case True
    then obtain e where e: "f a = Inl e" "is_transient e" by (auto simp: retries_def)
    have "n = MAX_RETRIES - Suc a" "Suc a \<le> MAX_RETRIES" using Suc.hyps(2) lt by simp_all
    from Suc.hyps(1) [OF this, of "Some e"] obtain k where k:
      "Suc a \<le> k" "k \<le> MAX_RETRIES" "\<forall>j. Suc a \<le> j \<and> j < k \<longrightarrow> retries f j" "\<not> retries f k"
      "retry_loop f [Suc a..<Suc MAX_RETRIES] (api_delay (Suc (Suc a))) (Some e)
        = (f k, map api_delay [Suc (Suc a)..<Suc k])" by blast
    have "saturating_mul (api_delay (Suc a)) 2 = api_delay (Suc (Suc a))"
      by (simp add: api_delay_def)
    with k(5) e lt have "retry_loop f [a..<Suc MAX_RETRIES] (api_delay (Suc a)) le
        = (f k, api_delay (Suc a) # map api_delay [Suc (Suc a)..<Suc k])"
      by (simp add: upt del: upt_Suc)
    moreover have "api_delay (Suc a) # map api_delay [Suc (Suc a)..<Suc k] = map api_delay [Suc a..<Suc k]"
      using k(1) by (simp add: upt_conv_Cons del: upt_Suc)
    moreover have "\<forall>j. a \<le> j \<and> j < k \<longrightarrow> retries f j"
      using k(3) True by (metis Suc_leI le_neq_implies_less)
    ultimately show ?thesis using k(1,2,4) by (intro exI [of _ k]) simp
  qed
qed

lemma request_tunnel_attempts:
  assumes "client ua = None"
  obtains k where "k \<le> MAX_RETRIES"
    "\<forall>j < k. retries (\<lambda>a. try_once from_json (post (tunnel_url u) a)) j"
    "\<not> retries (\<lambda>a. try_once from_json (post (tunnel_url u) a)) k"
    "request_tunnel from_json client post u ua
       = (try_once from_json (post (tunnel_url u) k), map api_delay [1..<Suc k])"
proof -
  have "api_delay (Suc 0) = from_secs 1" by (simp add: api_delay_def)
  with retry_loop_from [of 0 "\<lambda>a. try_once from_json (post (tunnel_url u) a)" None] assms that
  show thesis by (auto simp: request_tunnel_def Let_def simp del: upt_Suc)
qed

section \<open>Properties\<close>

text \<open>C25: \<open>request_tunnel\<close> posts to the tunnel URL at most four times. It goes on while an attempt fails
  with a transient error, the first other outcome (or the fourth) is the result, and before retry
  number a it has slept 2^(a-1) seconds.\<close>

theorem request_tunnel_retries:
  assumes "client ua = None"
  shows "\<exists>k \<le> 3.
    (\<forall>j < k. \<exists>e. try_once from_json (post (tunnel_url url) j) = Inl e \<and> is_transient e)
    \<and> (k < 3 \<longrightarrow> \<not> (\<exists>e. try_once from_json (post (tunnel_url url) k) = Inl e \<and> is_transient e))
    \<and> request_tunnel from_json client post url ua
       = (try_once from_json (post (tunnel_url url) k), map (\<lambda>a. from_secs (2 ^ (a - 1))) [1..<Suc k])"
proof -
  obtain k where k: "k \<le> MAX_RETRIES"
    "\<forall>j < k. retries (\<lambda>a. try_once from_json (post (tunnel_url url) a)) j"
    "\<not> retries (\<lambda>a. try_once from_json (post (tunnel_url url) a)) k"
    "request_tunnel from_json client post url ua
       = (try_once from_json (post (tunnel_url url) k), map api_delay [1..<Suc k])"
    using request_tunnel_attempts [of client ua from_json post url] assms by blast
  have "map api_delay [1..<Suc k] = map (\<lambda>a. from_secs (2 ^ (a - 1))) [1..<Suc k]"
  proof (rule map_cong [OF refl])
    fix a assume "a \<in> set [1..<Suc k]"
    then have "1 \<le> a" "a \<le> 3" using k(1) by (auto simp: MAX_RETRIES_def simp del: upt_Suc)
    then obtain b where b: "a = Suc b" "b \<le> 3" by (cases a) auto
    then have "(2 :: nat) ^ b \<le> 2 ^ 3" by (intro power_increasing) simp_all
    then show "api_delay a = from_secs (2 ^ (a - 1))"
      by (simp add: b(1) api_delay_closed from_secs_def DURATION_MAX_def)
  qed
  with k show ?thesis by (intro exI [of _ k]) (auto simp: retries_def MAX_RETRIES_def)
qed

theorem request_tunnel_retries_witness:
  "\<exists>k \<le> 3.
    (\<forall>j < k. \<exists>e. try_once (\<lambda>_. Inl ''no'') (Inr (503, Inr ''busy'')) = Inl e \<and> is_transient e)
    \<and> (k < 3 \<longrightarrow> \<not> (\<exists>e. try_once (\<lambda>_. Inl ''no'') (Inr (503, Inr ''busy'')) = Inl e \<and> is_transient e))
    \<and> request_tunnel (\<lambda>_. Inl ''no'') (\<lambda>_. None) (\<lambda>_ _. Inr (503, Inr ''busy'')) ''http://api/'' ''ua''
       = (try_once (\<lambda>_. Inl ''no'') (Inr (503, Inr ''busy'')), map (\<lambda>a. from_secs (2 ^ (a - 1))) [1..<Suc k])"
  using request_tunnel_retries [of "\<lambda>_. None" "''ua''" "\<lambda>_. Inl ''no''" "\<lambda>_ _. Inr (503, Inr ''busy'')" "''http://api/''"]
  by simp

text \<open>One attempt yields a tunnel exactly when the reply's body looks like JSON, decodes to an
  envelope marked as a success, and that envelope carries a tunnel; it is worth a retry exactly when
  the HTTP library failed in a retryable way or the server answered 5xx with a body that is not JSON.\<close>

theorem try_once_outcomes:
  "(try_once from_json reply = Inr t \<longleftrightarrow>
      (\<exists>status body envelope. reply = Inr (status, Inr body) \<and> looks_like_json body
         \<and> from_json body = Inr envelope \<and> success envelope \<and> result envelope = Some t))
   \<and> ((\<exists>e. try_once from_json reply = Inl e \<and> is_transient e) \<longleftrightarrow>
      (\<exists>e. (reply = Inl e \<or> (\<exists>status. reply = Inr (status, Inl e))) \<and> is_transient (Api e))
      \<or> (\<exists>status body. reply = Inr (status, Inr body) \<and> is_server_error status \<and> \<not> looks_like_json body))"
  by (intro conjI try_once_Inr_iff try_once_transient_iff)

end
