(* ===== verification/Edge.thy ===== *)
theory Edge
  imports Tunnel_Error "HOL-Library.Multiset"
begin

text \<open>
  \<^verbatim>\<open>src/edge.rs\<close>: discovery of the edge's addresses over DNS SRV with a DNS-over-TLS
  fallback, and the cache in front of it.

  A resolver belongs to the DNS library: \<open>srv_lookup\<close> answers an SRV query with its records
  (target and port), \<open>lookup_ip\<close> an address query.
\<close>

datatype ip_addr = IpV4 u32 | IpV6 "128 word"

datatype ip_version_filter = Auto | V4Only | V6Only

datatype edge_ip_version = V4 | V6

record edge_addr =
  ea_ip :: ip_addr
  ea_port :: u16
  ea_version :: edge_ip_version

record resolver =
  srv_lookup :: "string \<Rightarrow> string + (string \<times> u16) list"
  lookup_ip :: "string \<Rightarrow> string + ip_addr list"

definition SRV_NAME :: string where
  "SRV_NAME = ''_v2-origintunneld._tcp.argotunnel.com''"

definition DOT_SERVER_NAME :: string where
  "DOT_SERVER_NAME = ''cloudflare-dns.com''"

definition DOT_SERVER_ADDR :: string where
  "DOT_SERVER_ADDR = ''1.1.1.1:853''"

definition DEFAULT_CACHE_TTL :: duration where
  "DEFAULT_CACHE_TTL = from_secs 3600"

section \<open>Addresses\<close>

fun is_ipv4 :: "ip_addr \<Rightarrow> bool" where
  "is_ipv4 (IpV4 _) = True"
| "is_ipv4 (IpV6 _) = False"

definition edge_socket :: "edge_addr \<Rightarrow> ip_addr \<times> u16" where
  "edge_socket e = (ea_ip e, ea_port e)"

definition from_ip :: "ip_addr \<Rightarrow> u16 \<Rightarrow> edge_addr" where
  "from_ip ip port =
     (let version = (if is_ipv4 ip then V4 else V6)
      in \<lparr>ea_ip = ip, ea_port = port, ea_version = version\<rparr>)"

fun edge_matches :: "edge_addr \<Rightarrow> ip_version_filter \<Rightarrow> bool" where
  "edge_matches e Auto = True"
| "edge_matches e V4Only = (ea_version e = V4)"
| "edge_matches e V6Only = (ea_version e = V6)"

lemma edge_matches_from_ip:
  "edge_matches (from_ip ip port) flt \<longleftrightarrow>
   (case flt of Auto \<Rightarrow> True | V4Only \<Rightarrow> is_ipv4 ip | V6Only \<Rightarrow> \<not> is_ipv4 ip)"
  by (cases flt) (simp_all add: from_ip_def Let_def)

lemma from_ip_fields [simp]:
  "ea_ip (from_ip ip port) = ip" "ea_port (from_ip ip port) = port"
  "edge_socket (from_ip ip port) = (ip, port)"
  by (simp_all add: from_ip_def Let_def edge_socket_def)

section \<open>Resolution\<close>

text \<open>The inner loop: the addresses of one target that pass the filter.\<close>

fun push_ips :: "ip_version_filter \<Rightarrow> u16 \<Rightarrow> ip_addr list \<Rightarrow> edge_addr list \<Rightarrow> edge_addr list" where
  "push_ips flt port [] edges = edges"
| "push_ips flt port (ip # ips) edges =
     (let edge = from_ip ip port in
      push_ips flt port ips (if edge_matches edge flt then edges @ [edge] else edges))"

text \<open>The outer loop over the SRV records; a target that does not resolve is skipped.\<close>

fun resolve_records ::
  "resolver \<Rightarrow> ip_version_filter \<Rightarrow> (string \<times> u16) list \<Rightarrow> edge_addr list \<Rightarrow> edge_addr list" where
  "resolve_records r flt [] edges = edges"
| "resolve_records r flt ((target, port) # recs) edges =
     (case lookup_ip r (trim_end_matches (CHR ''.'') target) of
        Inr ips \<Rightarrow> resolve_records r flt recs (push_ips flt port ips edges)
      | Inl e \<Rightarrow> resolve_records r flt recs edges)"

definition resolve_srv :: "resolver \<Rightarrow> ip_version_filter \<Rightarrow> tunnel_error + edge_addr list" where
  "resolve_srv r flt =
     (case srv_lookup r SRV_NAME of
        Inl e \<Rightarrow> Inl (Discovery (''SRV '' @ SRV_NAME @ '': '' @ e))
      | Inr recs \<Rightarrow> Inr (resolve_records r flt recs []))"

lemma push_ips_eq:
  "push_ips flt port ips edges =
   edges @ filter (\<lambda>e. edge_matches e flt) (map (\<lambda>ip. from_ip ip port) ips)"
  by (induction ips arbitrary: edges) (simp_all add: Let_def)

text \<open>The reference definition of the resolution: one pass over records and addresses.\<close>

definition resolved :: "resolver \<Rightarrow> string \<times> u16 \<Rightarrow> edge_addr list" where
  "resolved r rec =
     (case lookup_ip r (trim_end_matches (CHR ''.'') (fst rec)) of
        Inl e \<Rightarrow> [] | Inr ips \<Rightarrow> map (\<lambda>ip. from_ip ip (snd rec)) ips)"

lemma resolve_records_eq:
  "resolve_records r flt recs edges =
   edges @ filter (\<lambda>e. edge_matches e flt) (concat (map (resolved r) recs))"
  by (induction recs arbitrary: edges)
    (auto simp: push_ips_eq resolved_def split: sum.splits)

lemma resolve_srv_Inr:
  "resolve_srv r flt = Inr edges \<longleftrightarrow>
   (\<exists>recs. srv_lookup r SRV_NAME = Inr recs
      \<and> edges = filter (\<lambda>e. edge_matches e flt) (concat (map (resolved r) recs)))"
  by (auto simp: resolve_srv_def resolve_records_eq split: sum.splits)

section \<open>The fallback resolver and discovery\<close>

text \<open>
  What the DoT resolver is configured with. \<open>parse_socket\<close> is the standard library's parser of
  a socket address, \<open>make_resolver\<close> the DNS library's constructor.
\<close>

record dot_config =
  dot_ips :: "ip_addr list"
  dot_port :: u16
  dot_tls_name :: string
  dot_trust_nx :: bool
  dot_timeout :: duration

definition build_dot_resolver ::
  "(string \<Rightarrow> string + (ip_addr \<times> u16)) \<Rightarrow> (dot_config \<Rightarrow> resolver) \<Rightarrow> tunnel_error + resolver" where
  "build_dot_resolver parse_socket make_resolver =
     (case parse_socket DOT_SERVER_ADDR of
        Inl e \<Rightarrow> Inl (Discovery (''DoT addr parse: '' @ e))
      | Inr (ip, port) \<Rightarrow>
          Inr (make_resolver \<lparr>dot_ips = [ip], dot_port = port, dot_tls_name = DOT_SERVER_NAME,
                             dot_trust_nx = True, dot_timeout = from_secs 15\<rparr>))"

definition discover ::
  "resolver \<Rightarrow> tunnel_error + resolver \<Rightarrow> ip_version_filter \<Rightarrow> tunnel_error + edge_addr list" where
  "discover primary dot flt =
     (let fallback =
        (case dot of
           Inl e \<Rightarrow> Inl e
         | Inr d \<Rightarrow>
             (case resolve_srv d flt of
                Inl e \<Rightarrow> Inl e
              | Inr edges \<Rightarrow>
                  if edges = []
                  then Inl (Discovery (''DoT fallback also returned no edges for '' @ SRV_NAME))
                  else Inr edges))
      in case resolve_srv primary flt of
           Inr edges \<Rightarrow> if edges \<noteq> [] then Inr edges else fallback
         | Inl e \<Rightarrow> fallback)"

lemma discover_Inr_cases:
  assumes "discover primary dot flt = Inr edges"
  obtains (primary) "resolve_srv primary flt = Inr edges" "edges \<noteq> []"
    | (fallback) d where "dot = Inr d" "resolve_srv d flt = Inr edges" "edges \<noteq> []"
        "\<And>es. resolve_srv primary flt = Inr es \<Longrightarrow> es = []"
  using assms
  by (auto simp: discover_def Let_def split: sum.splits if_splits)

lemma discover_nonempty: "discover primary dot flt = Inr edges \<Longrightarrow> edges \<noteq> []"
  by (erule discover_Inr_cases)

lemma discover_matches:
  "discover primary dot flt = Inr edges \<Longrightarrow> e \<in> set edges \<Longrightarrow> edge_matches e flt"
  by (erule discover_Inr_cases) (auto simp: resolve_srv_Inr)

section \<open>The shuffle\<close>

text \<open>\<open>h\<close> is the finished hash; on a 64-bit target \<open>as usize\<close> keeps it.\<close>

definition shuffled :: "u64 \<Rightarrow> 'a list \<Rightarrow> 'a list" where
  "shuffled h input =
     (let n = max (length input) 1;
          offset = unat h mod n
      in drop offset input @ take offset input)"

lemma shuffled_rotate: "shuffled h xs = rotate (unat h) xs"
  by (cases xs) (simp_all add: shuffled_def Let_def rotate_drop_take)

lemma mset_shuffled [simp]: "mset (shuffled h xs) = mset xs"
  unfolding shuffled_def Let_def
  by (metis append_take_drop_id mset_append union_commute)

lemma set_shuffled [simp]: "set (shuffled h xs) = set xs"
  by (simp add: shuffled_rotate)

lemma length_shuffled [simp]: "length (shuffled h xs) = length xs"
  by (simp add: shuffled_rotate)

section \<open>The registry\<close>

record cached =
  ca_edges :: "edge_addr list"
  ca_expires_at :: instant
  ca_filter :: ip_version_filter

record edge_registry =
  reg_inner :: "cached option"
  reg_ttl :: duration

definition with_ttl :: "duration \<Rightarrow> edge_registry" where
  "with_ttl ttl = \<lparr>reg_inner = None, reg_ttl = ttl\<rparr>"

definition registry_new :: edge_registry where
  "registry_new = with_ttl DEFAULT_CACHE_TTL"

text \<open>
  One call: \<open>now\<close> is the clock at the lookup, \<open>now'\<close> the clock after the discovery, \<open>h\<close> the
  hash that shuffles the answer, \<open>disc\<close> what \<open>discover\<close> would answer. The third component says
  whether it was asked.
\<close>

definition get_or_refresh ::
  "ip_version_filter \<Rightarrow> instant \<Rightarrow> instant \<Rightarrow> u64 \<Rightarrow> (ip_version_filter \<Rightarrow> tunnel_error + edge_addr list)
   \<Rightarrow> edge_registry \<Rightarrow> (tunnel_error + edge_addr list) \<times> edge_registry \<times> bool" where
  "get_or_refresh flt now now' h disc reg =
     (let refresh =
        (case disc flt of
           Inl e \<Rightarrow> (Inl e, reg, True)
         | Inr edges \<Rightarrow>
             (Inr (shuffled h edges),
              reg\<lparr>reg_inner := Some \<lparr>ca_edges = edges, ca_expires_at = now' + reg_ttl reg, ca_filter = flt\<rparr>\<rparr>,
              True))
      in case reg_inner reg of
           None \<Rightarrow> refresh
         | Some c \<Rightarrow>
             if ca_filter c = flt \<and> now < ca_expires_at c
             then (Inr (shuffled h (ca_edges c)), reg, False)
             else refresh)"

text \<open>
  The contract of an expiring cache, as the registry offers it: a fetched answer is served,
  in some order, to every request for the same key until it expires, without another fetch;
  another key or a later time fetches again; a failed fetch changes nothing.
\<close>

locale expiring_cache =
  fixes get :: "'k \<Rightarrow> instant \<Rightarrow> instant \<Rightarrow> u64 \<Rightarrow> ('k \<Rightarrow> 'e + 'v list) \<Rightarrow> 'c \<Rightarrow> ('e + 'v list) \<times> 'c \<times> bool"
    and entry :: "'c \<Rightarrow> ('k \<times> instant \<times> 'v list) option"
    and ttl :: "'c \<Rightarrow> duration"
  assumes hit: "entry c = Some (k, x, vs) \<Longrightarrow> now < x \<Longrightarrow>
      \<exists>vs'. get k now now' h fetch c = (Inr vs', c, False) \<and> mset vs' = mset vs"
    and miss: "\<forall>x vs. entry c = Some (k, x, vs) \<longrightarrow> x \<le> now \<Longrightarrow> fetch k = Inr vs \<Longrightarrow>
      \<exists>vs' c'. get k now now' h fetch c = (Inr vs', c', True) \<and> mset vs' = mset vs
         \<and> entry c' = Some (k, now' + ttl c, vs) \<and> ttl c' = ttl c"
    and failed: "\<forall>x vs. entry c = Some (k, x, vs) \<longrightarrow> x \<le> now \<Longrightarrow> fetch k = Inl e \<Longrightarrow>
      get k now now' h fetch c = (Inl e, c, True)"
begin

text \<open>After a fetch, requests for the key within the time to live see what was fetched.\<close>

lemma fresh_after_fetch:
  assumes "get k now now' h fetch c = (Inr vs, c', True)" and "t < now' + ttl c"
  shows "\<exists>vs'. get k t t' h' fetch' c' = (Inr vs', c', False) \<and> mset vs' = mset vs"
proof -
  have old: "\<forall>x ws. entry c = Some (k, x, ws) \<longrightarrow> x \<le> now"
  proof (intro allI impI, rule ccontr)
    fix x ws assume "entry c = Some (k, x, ws)" "\<not> x \<le> now"
    then obtain vs' where "get k now now' h fetch c = (Inr vs', c, False)"
      using hit [of c k x ws now now' h fetch] by auto
    with assms(1) show False by simp
  qed
  show ?thesis
  proof (cases "fetch k")
    case (Inl e)
    with failed [where fetch = fetch, OF old Inl, of now' h] assms(1) show ?thesis by auto
  next
    case (Inr ws)
    from miss [where fetch = fetch, OF old Inr, of now' h] assms(1)
    have "mset vs = mset ws" "entry c' = Some (k, now' + ttl c, ws)" by auto
    with hit [of c' k "now' + ttl c" ws t t' h' fetch'] assms(2) show ?thesis by auto
  qed
qed

text \<open>A request that fetched nothing left the cache as it was.\<close>

lemma no_fetch_no_change:
  assumes "get k now now' h fetch c = (r, c', False)"
  shows "c' = c"
proof (cases "\<exists>x vs. entry c = Some (k, x, vs) \<and> now < x")
  case True
  with hit assms show ?thesis by (metis Pair_inject)
next
  case False
  then have old: "\<forall>x ws. entry c = Some (k, x, ws) \<longrightarrow> x \<le> now" by (meson not_le)
  show ?thesis
  proof (cases "fetch k")
    case (Inl e)
    with failed [where fetch = fetch, OF old Inl, of now' h] assms show ?thesis by simp
  next
    case (Inr ws)
    with miss [where fetch = fetch, OF old Inr, of now' h] assms show ?thesis by auto
  qed
qed

end

definition registry_entry :: "edge_registry \<Rightarrow> (ip_version_filter \<times> instant \<times> edge_addr list) option" where
  "registry_entry reg = map_option (\<lambda>c. (ca_filter c, ca_expires_at c, ca_edges c)) (reg_inner reg)"

interpretation edge_cache: expiring_cache get_or_refresh registry_entry reg_ttl
  by unfold_locales
    (auto simp: get_or_refresh_def registry_entry_def Let_def split: option.splits if_splits)

text \<open>A lookup of the registry, and lookups one after the other: what each answers, and whether it asked.\<close>

record lookup =
  lk_filter :: ip_version_filter
  lk_now :: instant
  lk_stored :: instant
  lk_hash :: u64
  lk_discover :: "ip_version_filter \<Rightarrow> tunnel_error + edge_addr list"

definition run_lookup :: "lookup \<Rightarrow> edge_registry \<Rightarrow> (tunnel_error + edge_addr list) \<times> edge_registry \<times> bool" where
  "run_lookup q = get_or_refresh (lk_filter q) (lk_now q) (lk_stored q) (lk_hash q) (lk_discover q)"

fun run_lookups ::
  "lookup list \<Rightarrow> edge_registry \<Rightarrow> ((tunnel_error + edge_addr list) \<times> bool) list \<times> edge_registry" where
  "run_lookups [] reg = ([], reg)"
| "run_lookups (q # qs) reg =
     (let (r, reg1, asked) = run_lookup q reg; (rs, reg2) = run_lookups qs reg1 in ((r, asked) # rs, reg2))"

text \<open>The lookups that leave an entry for \<open>flt\<close> that expires at \<open>x\<close> in place.\<close>

definition keeps_entry :: "ip_version_filter \<Rightarrow> instant \<Rightarrow> lookup \<Rightarrow> bool" where
  "keeps_entry flt x q \<longleftrightarrow>
     (if lk_filter q = flt then lk_now q < x else \<exists>e. lk_discover q (lk_filter q) = Inl e)"

lemma run_lookups_cached:
  assumes "registry_entry reg = Some (flt, x, edges)"
  shows "list_all (keeps_entry flt x) qs \<Longrightarrow>
    \<exists>rs. run_lookups qs reg = (rs, reg)
      \<and> list_all2 (\<lambda>q (r, asked). if lk_filter q = flt then \<not> asked \<and> (\<exists>es. r = Inr es \<and> mset es = mset edges)
          else asked \<and> r = lk_discover q (lk_filter q)) qs rs"
proof (induction qs)
  case (Cons q qs)
  then obtain rs where rs: "run_lookups qs reg = (rs, reg)"
    "list_all2 (\<lambda>q (r, asked). if lk_filter q = flt then \<not> asked \<and> (\<exists>es. r = Inr es \<and> mset es = mset edges)
          else asked \<and> r = lk_discover q (lk_filter q)) qs rs" by auto
  show ?case
  proof (cases "lk_filter q = flt")
    case True
    with Cons.prems have "lk_now q < x" by (simp add: keeps_entry_def)
    from edge_cache.hit [OF assms this, of "lk_stored q" "lk_hash q" "lk_discover q"]
    obtain es where "run_lookup q reg = (Inr es, reg, False)" "mset es = mset edges"
      by (auto simp: run_lookup_def True)
    with rs True show ?thesis by (intro exI [of _ "(Inr es, False) # rs"]) simp
  next
    case False
    with Cons.prems obtain e where e: "lk_discover q (lk_filter q) = Inl e" by (auto simp: keeps_entry_def)
    have "\<forall>y vs. registry_entry reg = Some (lk_filter q, y, vs) \<longrightarrow> y \<le> lk_now q" using assms False by simp
    from edge_cache.failed [where fetch = "lk_discover q", OF this e] have "run_lookup q reg = (Inl e, reg, True)" by (simp add: run_lookup_def)
    with rs False e show ?thesis by (intro exI [of _ "(Inl e, True) # rs"]) simp
  qed
qed simp

lemma run_lookup_evicts:
  assumes "registry_entry reg = Some (flt, x, edges)" and "lk_filter q \<noteq> flt"
    and "lk_discover q (lk_filter q) = Inr es" and "run_lookup q reg = (r, reg', asked)" and "lk_filter q' = flt"
  shows "asked \<and> snd (snd (run_lookup q' reg'))"
proof -
  have "\<forall>y vs. registry_entry reg = Some (lk_filter q, y, vs) \<longrightarrow> y \<le> lk_now q" using assms(1,2) by simp
  from edge_cache.miss [where fetch = "lk_discover q", OF this assms(3), of "lk_stored q" "lk_hash q"] assms(4)
  have asked: asked and e: "registry_entry reg' = Some (lk_filter q, lk_stored q + reg_ttl reg, es)"
    by (auto simp: run_lookup_def)
  have old: "\<forall>y vs. registry_entry reg' = Some (lk_filter q', y, vs) \<longrightarrow> y \<le> lk_now q'" using assms(2,5) e by simp
  show ?thesis
  proof (cases "lk_discover q' (lk_filter q')")
    case (Inl err)
    from edge_cache.failed [where fetch = "lk_discover q'", OF old Inl, of "lk_stored q'" "lk_hash q'"] asked show ?thesis by (simp add: run_lookup_def)
  next
    case (Inr vs)
    from edge_cache.miss [where fetch = "lk_discover q'", OF old Inr, of "lk_stored q'" "lk_hash q'"] asked
    show ?thesis by (auto simp: run_lookup_def)
  qed
qed

lemma run_lookups_append:
  "run_lookups (qs @ qs') reg =
     (let (rs, reg1) = run_lookups qs reg; (rs', reg2) = run_lookups qs' reg1 in (rs @ rs', reg2))"
  by (induction qs arbitrary: reg) (simp_all add: Let_def split: prod.splits)

section \<open>Properties\<close>

text \<open>Discovery answers with the primary resolver's edges when there are any, in the order of the
  SRV records and their addresses and restricted to the asked IP version; otherwise with those of the
  DNS-over-TLS fallback. It never answers with an empty list.\<close>

theorem discover_answer:
  "discover primary dot flt = Inr edges \<longleftrightarrow>
   edges \<noteq> [] \<and>
   ((\<exists>recs. srv_lookup primary SRV_NAME = Inr recs
       \<and> edges = filter (\<lambda>e. edge_matches e flt) (concat (map (resolved primary) recs)))
    \<or> (\<nexists>recs. srv_lookup primary SRV_NAME = Inr recs
         \<and> filter (\<lambda>e. edge_matches e flt) (concat (map (resolved primary) recs)) \<noteq> [])
      \<and> (\<exists>d recs. dot = Inr d \<and> srv_lookup d SRV_NAME = Inr recs
          \<and> edges = filter (\<lambda>e. edge_matches e flt) (concat (map (resolved d) recs))))"
proof -
  have eq: "(\<exists>recs. srv_lookup r SRV_NAME = Inr recs
       \<and> es = filter (\<lambda>e. edge_matches e flt) (concat (map (resolved r) recs))) \<longleftrightarrow> resolve_srv r flt = Inr es" for r es
    by (auto simp: resolve_srv_Inr)
  have some: "(\<exists>recs. srv_lookup primary SRV_NAME = Inr recs
         \<and> filter (\<lambda>e. edge_matches e flt) (concat (map (resolved primary) recs)) \<noteq> [])
      \<longleftrightarrow> (\<exists>es. resolve_srv primary flt = Inr es \<and> es \<noteq> [])"
    using eq [of primary] by metis
  show ?thesis
    unfolding some using eq [of primary edges] eq [of _ edges]
    by (auto simp: discover_def Let_def split: sum.splits if_splits)
qed

text \<open>C26: The registry holds the answer of one filter. After a lookup has fetched for a filter, any lookups that
  follow one after the other leave that answer in place as long as those for the same filter come before it
  expires and those for other filters fail to discover: every one for the filter is answered from the cache,
  with the same edges in some order and without asking, whatever the resolver would say by then, and the
  others report their failure. A lookup for another filter that does discover takes the place: then the first
  filter is asked for again, whether or not its answer had expired.\<close>

theorem registry_serves_fetched:
  assumes "run_lookup q reg = (Inr edges, reg', True)"
    and "list_all (keeps_entry (lk_filter q) (lk_stored q + reg_ttl reg)) qs"
    and "lk_filter other \<noteq> lk_filter q" and "lk_discover other (lk_filter other) = Inr found"
    and "lk_filter again = lk_filter q"
  shows "\<exists>rs. run_lookups qs reg' = (rs, reg')
      \<and> list_all2 (\<lambda>q' (r, asked).
            if lk_filter q' = lk_filter q then \<not> asked \<and> (\<exists>es. r = Inr es \<and> mset es = mset edges)
            else asked \<and> r = lk_discover q' (lk_filter q')) qs rs
      \<and> map snd (fst (run_lookups (qs @ [other, again]) reg')) = map snd rs @ [True, True]"
proof -
  have ent: "\<exists>es. registry_entry reg' = Some (lk_filter q, lk_stored q + reg_ttl reg, es) \<and> mset es = mset edges"
    using assms(1)
    by (auto simp: run_lookup_def get_or_refresh_def registry_entry_def Let_def
        split: option.splits if_splits sum.splits)
  then obtain es where es: "registry_entry reg' = Some (lk_filter q, lk_stored q + reg_ttl reg, es)"
    "mset es = mset edges" by blast
  from run_lookups_cached [OF es(1) assms(2)] obtain rs where rs: "run_lookups qs reg' = (rs, reg')"
    "list_all2 (\<lambda>q' (r, asked).
            if lk_filter q' = lk_filter q then \<not> asked \<and> (\<exists>es. r = Inr es \<and> mset es = mset edges)
            else asked \<and> r = lk_discover q' (lk_filter q')) qs rs"
    unfolding es(2) by blast
  obtain r1 reg1 b1 where one: "run_lookup other reg' = (r1, reg1, b1)" by (metis prod_cases3)
  obtain r2 reg2 b2 where two: "run_lookup again reg1 = (r2, reg2, b2)" by (metis prod_cases3)
  have "b1 \<and> b2" using run_lookup_evicts [OF es(1) assms(3,4) one assms(5)] two by simp
  then have "map snd (fst (run_lookups (qs @ [other, again]) reg')) = map snd rs @ [True, True]"
    using rs(1) by (simp add: run_lookups_append one two)
  with rs show ?thesis by blast
qed

definition sample_lookup :: "ip_version_filter \<Rightarrow> instant \<Rightarrow> tunnel_error + edge_addr list \<Rightarrow> lookup" where
  "sample_lookup flt t answer =
     \<lparr>lk_filter = flt, lk_now = t, lk_stored = t + 1, lk_hash = 3, lk_discover = (\<lambda>_. answer)\<rparr>"

lemma sample_lookup_fields [simp]:
  "lk_filter (sample_lookup flt t answer) = flt" "lk_now (sample_lookup flt t answer) = t"
  "lk_stored (sample_lookup flt t answer) = t + 1" "lk_discover (sample_lookup flt t answer) f = answer"
  by (simp_all add: sample_lookup_def)

text \<open>A cached answer survives a failed lookup of another filter, and not a successful one.\<close>

theorem registry_serves_fetched_witness:
  "map snd (fst (run_lookups
      [sample_lookup Auto 5 (Inl Shutdown), sample_lookup V6Only 6 (Inl Shutdown), sample_lookup Auto 7 (Inl Shutdown),
       sample_lookup V6Only 8 (Inr [from_ip (IpV6 1) 7844]), sample_lookup Auto 9 (Inl Shutdown)]
      \<lparr>reg_inner = Some \<lparr>ca_edges = [from_ip (IpV4 1) 7844], ca_expires_at = DEFAULT_CACHE_TTL + 1, ca_filter = Auto\<rparr>,
       reg_ttl = DEFAULT_CACHE_TTL\<rparr>)) = [False, True, False, True, True]"
proof -
  let ?qs = "[sample_lookup Auto 5 (Inl Shutdown), sample_lookup V6Only 6 (Inl Shutdown),
    sample_lookup Auto 7 (Inl Shutdown)]"
  let ?reg = "\<lparr>reg_inner = Some \<lparr>ca_edges = [from_ip (IpV4 1) 7844], ca_expires_at = DEFAULT_CACHE_TTL + 1,
      ca_filter = Auto\<rparr>, reg_ttl = DEFAULT_CACHE_TTL\<rparr>"
  have "run_lookup (sample_lookup Auto 0 (Inr [from_ip (IpV4 1) 7844])) registry_new
    = (Inr [from_ip (IpV4 1) 7844], ?reg, True)"
    by (simp add: run_lookup_def sample_lookup_def get_or_refresh_def registry_new_def with_ttl_def shuffled_def)
  moreover have "list_all (keeps_entry Auto (1 + reg_ttl registry_new)) ?qs"
    by (simp add: keeps_entry_def registry_new_def with_ttl_def DEFAULT_CACHE_TTL_def from_secs_def)
  ultimately obtain rs where
    "list_all2 (\<lambda>q' (r, asked). if lk_filter q' = Auto then \<not> asked \<and> (\<exists>es. r = Inr es \<and> mset es = mset [from_ip (IpV4 1) 7844])
            else asked \<and> r = lk_discover q' (lk_filter q')) ?qs rs"
    "map snd (fst (run_lookups (?qs @ [sample_lookup V6Only 8 (Inr [from_ip (IpV6 1) 7844]),
        sample_lookup Auto 9 (Inl Shutdown)]) ?reg)) = map snd rs @ [True, True]"
    using registry_serves_fetched [of "sample_lookup Auto 0 (Inr [from_ip (IpV4 1) 7844])" registry_new
        "[from_ip (IpV4 1) 7844]" ?reg ?qs
        "sample_lookup V6Only 8 (Inr [from_ip (IpV6 1) 7844])" "[from_ip (IpV6 1) 7844]"
        "sample_lookup Auto 9 (Inl Shutdown)"]
    by (elim meta_impE) (simp_all del: run_lookups.simps append.simps, blast)
  then show ?thesis by (auto simp: list_all2_Cons1 simp del: run_lookups.simps)
qed

end
