(* ===== verification/Quic_Dial.thy ===== *)
theory Quic_Dial
  imports Edge
begin

text \<open>
  \<^verbatim>\<open>src/quic_dial.rs\<close>: dialling the edge, and the configuration of the QUIC client.

  The QUIC library's endpoint is a parameter: connecting to a socket under a server name is
  refused at once or gives a future handshake. The TLS and certificate libraries enter
  \<open>build_client_config\<close> as what they answer: the native roots, the items of the embedded PEM
  file, which certificates the root store accepts, and whether the QUIC library takes the TLS
  configuration.
\<close>

definition ALPN :: bytes where
  "ALPN = ''argotunnel''"

definition EDGE_SNI :: string where
  "EDGE_SNI = ''quic.cftunnel.com''"

definition DIAL_HANDSHAKE_TIMEOUT :: duration where
  "DIAL_HANDSHAKE_TIMEOUT = from_secs 10"

type_synonym 'c endpoint = "ip_addr \<times> u16 \<Rightarrow> string \<Rightarrow> string + (string + 'c) fut"

section \<open>Dialling\<close>

text \<open>Both functions are futures: their value and how long the caller waits for it.\<close>

definition dial :: "'c endpoint \<Rightarrow> edge_addr \<Rightarrow> (tunnel_error + 'c) fut" where
  "dial endpoint edge =
     (case endpoint (edge_socket edge) EDGE_SNI of
        Inl e \<Rightarrow> Ready 0 (Inl (QuicDial 1 (''connect builder: '' @ e)))
      | Inr connecting \<Rightarrow>
          await (timeout_fut DIAL_HANDSHAKE_TIMEOUT connecting) (\<lambda>r.
            case r of
              Some (Inr conn) \<Rightarrow> Ready 0 (Inr conn)
            | Some (Inl e) \<Rightarrow> Ready 0 (Inl (QuicDial 1 (''handshake: '' @ e)))
            | None \<Rightarrow> Ready 0 (Inl (QuicDial 1 ''handshake timed out''))))"

fun dial_loop ::
  "(tunnel_error \<Rightarrow> string) \<Rightarrow> 'c endpoint \<Rightarrow> edge_addr list \<Rightarrow> string \<Rightarrow> (string + 'c) fut" where
  "dial_loop to_string endpoint [] last_err = Ready 0 (Inl last_err)"
| "dial_loop to_string endpoint (edge # edges) last_err =
     await (dial endpoint edge) (\<lambda>r.
       case r of
         Inr c \<Rightarrow> Ready 0 (Inr c)
       | Inl e \<Rightarrow> dial_loop to_string endpoint edges (to_string e))"

definition dial_any ::
  "(tunnel_error \<Rightarrow> string) \<Rightarrow> 'c endpoint \<Rightarrow> edge_addr list \<Rightarrow> (tunnel_error + 'c) fut" where
  "dial_any to_string endpoint edges =
     (if edges = [] then Ready 0 (Inl (QuicDial 0 ''no edges provided''))
      else await (dial_loop to_string endpoint edges []) (\<lambda>r.
        case r of
          Inr c \<Rightarrow> Ready 0 (Inr c)
        | Inl last_err \<Rightarrow> Ready 0 (Inl (QuicDial (length edges) last_err))))"

text \<open>What a dial comes to: the edge answers within the limit, or the error says what it did instead.\<close>

definition answers :: "'c endpoint \<Rightarrow> edge_addr \<Rightarrow> 'c \<Rightarrow> bool" where
  "answers endpoint edge c \<longleftrightarrow>
     (\<exists>t \<le> from_secs 10. endpoint (edge_socket edge) EDGE_SNI = Inr (Ready t (Inr c)))"

definition refusal :: "'c endpoint \<Rightarrow> edge_addr \<Rightarrow> string \<Rightarrow> bool" where
  "refusal endpoint edge msg \<longleftrightarrow>
     (case endpoint (edge_socket edge) EDGE_SNI of
        Inl e \<Rightarrow> msg = ''connect builder: '' @ e
      | Inr (Ready t (Inl e)) \<Rightarrow> msg = (if t \<le> from_secs 10 then ''handshake: '' @ e else ''handshake timed out'')
      | Inr (Ready t (Inr c)) \<Rightarrow> from_secs 10 < t \<and> msg = ''handshake timed out''
      | Inr Never \<Rightarrow> msg = ''handshake timed out'')"

lemmas dial_defs = dial_def timeout_fut_def DIAL_HANDSHAKE_TIMEOUT_def refusal_def answers_def

lemma dial_cases:
  obtains (answered) t c where "dial ep edge = Ready t (Inr c)" "t \<le> from_secs 10" "answers ep edge c"
      "\<And>m. \<not> refusal ep edge m"
    | (refused) t m where "dial ep edge = Ready t (Inl (QuicDial 1 m))" "t \<le> from_secs 10"
      "\<And>m'. refusal ep edge m' \<longleftrightarrow> m' = m" "\<And>c. \<not> answers ep edge c"
proof (cases "ep (edge_socket edge) EDGE_SNI")
  case (Inl e)
  then show thesis by (intro refused [of 0 "''connect builder: '' @ e"]) (auto simp: dial_defs)
next
  case f: (Inr f)
  show thesis
  proof (cases "timeout (from_secs 10) f")
    case None
    with f show thesis
      by (intro refused [of "from_secs 10" "''handshake timed out''"])
        (auto simp: dial_defs timeout_def split: fut.splits sum.splits if_splits)
  next
    case (Some r)
    then obtain t where t: "f = Ready t r" "t \<le> from_secs 10" by (auto simp: timeout_Some_iff)
    show thesis
    proof (cases r)
      case (Inl e)
      with f t show thesis by (intro refused [of t "''handshake: '' @ e"]) (auto simp: dial_defs)
    next
      case (Inr c)
      with f t show thesis by (intro answered [of t c]) (auto simp: dial_defs)
    qed
  qed
qed

lemma dial_loop_ends: "\<exists>t \<le> length edges * from_secs 10. \<exists>r. dial_loop ts ep edges l = Ready t r"
proof (induction edges arbitrary: l)
  case (Cons e edges)
  show ?case
  proof (cases ep e rule: dial_cases)
    case (refused t m)
    from Cons.IH [of "ts (QuicDial 1 m)"] obtain u r' where
      "dial_loop ts ep edges (ts (QuicDial 1 m)) = Ready u r'" "u \<le> length edges * from_secs 10" by auto
    with refused show ?thesis by simp
  qed simp
qed simp

lemma dial_any_ends: "\<exists>t \<le> length edges * from_secs 10. \<exists>r. dial_any ts ep edges = Ready t r"
proof (cases "edges = []")
  case False
  obtain t r where "dial_loop ts ep edges [] = Ready t r" "t \<le> length edges * from_secs 10"
    using dial_loop_ends [of edges ts ep "[]"] by auto
  with False show ?thesis by (cases r) (simp_all add: dial_any_def)
qed (simp add: dial_any_def)

lemma dial_loop_Inr_iff:
  "(\<exists>t. dial_loop ts ep edges l = Ready t (Inr c)) \<longleftrightarrow>
   (\<exists>pre e post. edges = pre @ e # post \<and> answers ep e c \<and> list_all (\<lambda>x. \<exists>m. refusal ep x m) pre)"
proof (induction edges arbitrary: l)
  case (Cons e edges)
  show ?case
  proof (cases ep e rule: dial_cases)
    case (answered t d)
    have "answers ep e c \<longleftrightarrow> c = d" using answered(3) by (auto simp: answers_def)
    moreover have "(\<exists>pre x post. e # edges = pre @ x # post \<and> answers ep x c \<and> list_all (\<lambda>x. \<exists>m. refusal ep x m) pre)
      \<longleftrightarrow> answers ep e c" (is "?L \<longleftrightarrow> _")
    proof
      assume ?L
      with answered(4) show "answers ep e c" by (auto simp: Cons_eq_append_conv)
    next
      assume "answers ep e c"
      then show ?L by (intro exI [of _ "[]"] exI [of _ e] exI [of _ edges]) simp
    qed
    ultimately show ?thesis using answered(1) by auto
  next
    case (refused t m)
    have "(\<exists>pre x post. e # edges = pre @ x # post \<and> answers ep x c \<and> list_all (\<lambda>x. \<exists>m. refusal ep x m) pre)
      \<longleftrightarrow> (\<exists>pre x post. edges = pre @ x # post \<and> answers ep x c \<and> list_all (\<lambda>x. \<exists>m. refusal ep x m) pre)"
      (is "?L \<longleftrightarrow> ?R")
    proof
      assume ?L
      then obtain pre x post where h: "e # edges = pre @ x # post" "answers ep x c"
        "list_all (\<lambda>x. \<exists>m. refusal ep x m) pre" by blast
      with refused(4) obtain pre' where "pre = e # pre'" by (cases pre) auto
      with h show ?R by auto
    next
      assume ?R
      then obtain pre x post where "edges = pre @ x # post" "answers ep x c" "list_all (\<lambda>x. \<exists>m. refusal ep x m) pre"
        by blast
      with refused(3) show ?L by (intro exI [of _ "e # pre"]) auto
    qed
    with Cons.IH [of "ts (QuicDial 1 m)"] refused(1) show ?thesis
      by (simp add: delay_Ready_iff)
  qed
qed simp

lemma dial_loop_Inl_last:
  "dial_loop ts ep edges l = Ready t (Inl m) \<Longrightarrow> edges \<noteq> [] \<Longrightarrow>
   list_all (\<lambda>x. \<exists>m. refusal ep x m) edges \<and> (\<exists>m'. refusal ep (last edges) m' \<and> m = ts (QuicDial 1 m'))"
proof (induction edges arbitrary: l t)
  case (Cons e edges)
  show ?case
  proof (cases ep e rule: dial_cases)
    case (answered u c)
    with Cons.prems show ?thesis by simp
  next
    case (refused u k)
    with Cons.prems(1) obtain v where "dial_loop ts ep edges (ts (QuicDial 1 k)) = Ready v (Inl m)"
      by (auto simp: delay_Ready_iff)
    with Cons.IH [OF this] refused(3) show ?thesis by (cases edges) auto
  qed
qed simp

section \<open>The client configuration\<close>

record 'r tls_config =
  tls_roots :: "'r list"
  tls_alpn :: "bytes list"

record transport_config =
  tp_max_idle :: "duration option"
  tp_keep_alive :: "duration option"

record 'r client_config =
  cc_tls :: "'r tls_config"
  cc_transport :: transport_config

text \<open>\<open>RootCertStore::add\<close>: appends a certificate it accepts, and refuses another.\<close>

definition add_root :: "('r \<Rightarrow> bool) \<Rightarrow> 'r \<Rightarrow> 'r list \<Rightarrow> bool \<times> 'r list" where
  "add_root accepts c roots = (if accepts c then (True, roots @ [c]) else (False, roots))"

definition load_native :: "('r \<Rightarrow> bool) \<Rightarrow> string + 'r list \<Rightarrow> 'r list \<Rightarrow> 'r list" where
  "load_native accepts native roots =
     (case native of
        Inr certs \<Rightarrow> fold (\<lambda>c rs. snd (add_root accepts c rs)) certs roots
      | Inl e \<Rightarrow> roots)"

text \<open>The loop over the PEM items: the roots so far and how many of ours were added.\<close>

fun load_embedded ::
  "('r \<Rightarrow> bool) \<Rightarrow> (string + 'r) list \<Rightarrow> 'r list \<Rightarrow> nat \<Rightarrow> tunnel_error + ('r list \<times> nat)" where
  "load_embedded accepts [] roots cf_added = Inr (roots, cf_added)"
| "load_embedded accepts (item # items) roots cf_added =
     (case item of
        Inl e \<Rightarrow> Inl (Internal (''CF root PEM malformed: '' @ e))
      | Inr cert \<Rightarrow>
          (let (ok, roots') = add_root accepts cert roots
           in load_embedded accepts items roots' (if ok then cf_added + 1 else cf_added)))"

definition build_client_config ::
  "('r \<Rightarrow> bool) \<Rightarrow> string + 'r list \<Rightarrow> (string + 'r) list \<Rightarrow> ('r tls_config \<Rightarrow> string option)
   \<Rightarrow> tunnel_error + 'r client_config" where
  "build_client_config accepts native pem quic_refuses =
     (case load_embedded accepts pem (load_native accepts native []) 0 of
        Inl e \<Rightarrow> Inl e
      | Inr (roots, cf_added) \<Rightarrow>
          (let tls = \<lparr>tls_roots = roots, tls_alpn = [ALPN]\<rparr> in
           case quic_refuses tls of
             Some e \<Rightarrow> Inl (Internal (''rustls'' @ [CHR 0xE2, CHR 0x86, CHR 0x92] @ ''quinn: '' @ e))
           | None \<Rightarrow>
               Inr \<lparr>cc_tls = tls,
                    cc_transport = \<lparr>tp_max_idle = Some (from_secs 30), tp_keep_alive = Some (from_secs 1)\<rparr>\<rparr>))"

text \<open>
  \<open>install_crypto_provider\<close> runs its closure at most once per process: whether it has run, and
  how often the provider was installed.
\<close>

record once_state =
  once_done :: bool
  installs :: nat

definition install_crypto_provider :: "once_state \<Rightarrow> once_state" where
  "install_crypto_provider s =
     (if once_done s then s else \<lparr>once_done = True, installs = Suc (installs s)\<rparr>)"

text \<open>\<open>bind\<close> is what binding the UDP socket answers, \<open>'s\<close> its type.\<close>

definition build_endpoint ::
  "once_state \<Rightarrow> tunnel_error + 'r client_config \<Rightarrow> (string \<Rightarrow> string + 's)
   \<Rightarrow> (tunnel_error + ('s \<times> 'r client_config)) \<times> once_state" where
  "build_endpoint once cfg bind =
     (let once' = install_crypto_provider once in
      (case cfg of
         Inl e \<Rightarrow> Inl e
       | Inr config \<Rightarrow>
           (case bind ''0.0.0.0:0'' of
              Inl e \<Rightarrow> Inl (Internal (''Endpoint::client bind: '' @ e))
            | Inr sock \<Rightarrow> Inr (sock, config)),
       once'))"

lemma fold_add_root: "fold (\<lambda>c rs. snd (add_root ok c rs)) cs rs = rs @ filter ok cs"
  by (induction cs arbitrary: rs) (auto simp: add_root_def)

lemma load_native_eq:
  "load_native ok native rs = rs @ (case native of Inl e \<Rightarrow> [] | Inr cs \<Rightarrow> filter ok cs)"
  by (simp add: load_native_def fold_add_root split: sum.splits)

lemma load_embedded_Inr_iff:
  "load_embedded ok items rs n = Inr (rs', n') \<longleftrightarrow>
   (\<exists>cs. items = map Inr cs \<and> rs' = rs @ filter ok cs \<and> n' = n + length (filter ok cs))"
proof (induction items arbitrary: rs n)
  case (Cons item items)
  show ?case
  proof (cases item)
    case (Inr c)
    show ?thesis
      by (auto simp: Inr Cons.IH add_root_def Cons_eq_map_conv)
  qed auto
qed auto

lemma installs_once:
  "once_done s \<longrightarrow> installs s = 1 \<Longrightarrow> \<not> once_done s \<longrightarrow> installs s = 0 \<Longrightarrow>
   once_done (install_crypto_provider s) \<and> installs (install_crypto_provider s) = 1"
  by (auto simp: install_crypto_provider_def)

section \<open>Properties\<close>

text \<open>C27: Dialling a list of edges always returns, after at most ten seconds per edge. It returns the
  connection of the first edge in the list that completes the handshake within ten seconds, all before it
  having refused or run out of time; when all do, the error counts the edges and shows the last failure.\<close>

theorem dial_any_first:
  "(\<exists>t \<le> length edges * from_secs 10. \<exists>r. dial_any show_err endpoint edges = Ready t r)
   \<and> ((\<exists>t. dial_any show_err endpoint edges = Ready t (Inr c)) \<longleftrightarrow>
      (\<exists>pre e post. edges = pre @ e # post \<and> answers endpoint e c
         \<and> list_all (\<lambda>x. \<exists>m. refusal endpoint x m) pre))
   \<and> ((\<exists>t. dial_any show_err endpoint edges = Ready t (Inl err)) \<longleftrightarrow>
        edges = [] \<and> err = QuicDial 0 ''no edges provided''
        \<or> edges \<noteq> [] \<and> list_all (\<lambda>x. \<exists>m. refusal endpoint x m) edges
          \<and> (\<exists>m. refusal endpoint (last edges) m \<and> err = QuicDial (length edges) (show_err (QuicDial 1 m))))"
proof (intro conjI)
  show "\<exists>t \<le> length edges * from_secs 10. \<exists>r. dial_any show_err endpoint edges = Ready t r"
    by (rule dial_any_ends)
  have "(\<exists>t. dial_any show_err endpoint edges = Ready t (Inr c)) \<longleftrightarrow>
      (\<exists>t. dial_loop show_err endpoint edges [] = Ready t (Inr c))"
    by (cases "dial_loop show_err endpoint edges []") (auto simp: dial_any_def split: sum.splits)
  then show "(\<exists>t. dial_any show_err endpoint edges = Ready t (Inr c)) \<longleftrightarrow>
      (\<exists>pre e post. edges = pre @ e # post \<and> answers endpoint e c
         \<and> list_all (\<lambda>x. \<exists>m. refusal endpoint x m) pre)"
    unfolding dial_loop_Inr_iff .
  show "(\<exists>t. dial_any show_err endpoint edges = Ready t (Inl err)) \<longleftrightarrow>
        edges = [] \<and> err = QuicDial 0 ''no edges provided''
        \<or> edges \<noteq> [] \<and> list_all (\<lambda>x. \<exists>m. refusal endpoint x m) edges
          \<and> (\<exists>m. refusal endpoint (last edges) m \<and> err = QuicDial (length edges) (show_err (QuicDial 1 m)))"
  proof (cases "edges = []")
    case True
    then show ?thesis by (auto simp: dial_any_def)
  next
    case False
    obtain t r where r: "dial_loop show_err endpoint edges [] = Ready t r"
      using dial_loop_ends [of edges show_err endpoint "[]"] by auto
    show ?thesis
    proof (cases r)
      case (Inl m)
      from dial_loop_Inl_last [OF r [unfolded Inl] False] obtain m' where m':
        "list_all (\<lambda>x. \<exists>m. refusal endpoint x m) edges" "refusal endpoint (last edges) m'"
        "m = show_err (QuicDial 1 m')" by blast
      have "refusal endpoint (last edges) k \<longleftrightarrow> k = m'" for k
        using m'(2) by (cases endpoint "last edges" rule: dial_cases) auto
      with m' False r Inl show ?thesis by (auto simp: dial_any_def)
    next
      case (Inr d)
      with r dial_loop_Inr_iff [of show_err endpoint edges "[]" d] obtain pre e post where
        "edges = pre @ e # post" "answers endpoint e d" by blast
      then have "\<not> list_all (\<lambda>x. \<exists>m. refusal endpoint x m) edges"
        by (cases endpoint e rule: dial_cases) auto
      with False r Inr show ?thesis by (simp add: dial_any_def)
    qed
  qed
qed

text \<open>The client configuration trusts the accepted native roots and, after them, the accepted
  certificates of the embedded PEM file, offers the tunnel's ALPN only, keeps connections alive every
  second with a thirty second idle limit, and is refused only for a malformed PEM item or by the QUIC
  library.\<close>

theorem client_config_roots:
  "build_client_config accepts native pem refuses = Inr cfg \<longleftrightarrow>
   (\<exists>certs. pem = map Inr certs
      \<and> tls_roots (cc_tls cfg) = filter accepts (case native of Inl e \<Rightarrow> [] | Inr cs \<Rightarrow> cs) @ filter accepts certs
      \<and> tls_alpn (cc_tls cfg) = [ALPN] \<and> refuses (cc_tls cfg) = None
      \<and> cc_transport cfg = \<lparr>tp_max_idle = Some (from_secs 30), tp_keep_alive = Some (from_secs 1)\<rparr>)"
proof -
  have nat: "load_native accepts native [] = filter accepts (case native of Inl e \<Rightarrow> [] | Inr cs \<Rightarrow> cs)"
    by (simp add: load_native_eq split: sum.splits)
  show ?thesis
  proof (cases "\<exists>certs. pem = map Inr certs")
    case False
    then obtain e where "load_embedded accepts pem (load_native accepts native []) 0 = Inl e"
      by (cases "load_embedded accepts pem (load_native accepts native []) 0")
        (auto simp: load_embedded_Inr_iff)
    with False show ?thesis by (simp add: build_client_config_def)
  next
    case True
    then obtain certs where certs: "pem = map Inr certs" by blast
    let ?roots = "filter accepts (case native of Inl e \<Rightarrow> [] | Inr cs \<Rightarrow> cs) @ filter accepts certs"
    have "load_embedded accepts pem (load_native accepts native []) 0 = Inr (?roots, length (filter accepts certs))"
      by (auto simp: load_embedded_Inr_iff certs nat)
    moreover have "map Inr certs = map Inr certs' \<longleftrightarrow> certs' = certs" for certs'
      by (auto dest: map_injective [OF _ inj_Inr])
    ultimately show ?thesis
      by (cases cfg; cases "cc_tls cfg") (auto simp: build_client_config_def certs Let_def split: option.splits)
  qed
qed

end
