(* ===== verification/Spike.thy ===== *)
theory Spike
  imports Quic_Dial
begin

text \<open>
  \<^verbatim>\<open>src/spike/src/main.rs\<close>: the experiment that preceded the library. It finds the edges by SRV, dials at
  most three of them and stops at the first that completes the handshake. What it shares with the
  library is proved equal to it; unlike \<open>dial\<close> it ends at an edge that the client refuses to dial.
\<close>

text \<open>An error of the \<open>anyhow\<close> crate: its messages, the outermost context first.\<close>

type_synonym anyhow = "string list"

definition with_context :: "string \<Rightarrow> string + 'a \<Rightarrow> anyhow + 'a" where
  "with_context c r = (case r of Inl e \<Rightarrow> Inl [c, e] | Inr x \<Rightarrow> Inr x)"

definition SPIKE_SRV_NAME :: string where
  "SPIKE_SRV_NAME = ''_v2-origintunneld._tcp.argotunnel.com''"

definition SPIKE_ALPN :: bytes where
  "SPIKE_ALPN = ''argotunnel''"

definition SPIKE_EDGE_SNI :: string where
  "SPIKE_EDGE_SNI = ''quic.cftunnel.com''"

definition HANDSHAKE_TIMEOUT :: duration where
  "HANDSHAKE_TIMEOUT = from_secs 10"

record spike_edge =
  se_ip :: ip_addr
  se_port :: u16

section \<open>Discovery\<close>

fun spike_records :: "resolver \<Rightarrow> (string \<times> u16) list \<Rightarrow> spike_edge list \<Rightarrow> spike_edge list" where
  "spike_records r [] edges = edges"
| "spike_records r ((target, port) # recs) edges =
     (case lookup_ip r (trim_end_matches (CHR ''.'') target) of
        Inr ips \<Rightarrow> spike_records r recs (edges @ map (\<lambda>ip. \<lparr>se_ip = ip, se_port = port\<rparr>) ips)
      | Inl e \<Rightarrow> spike_records r recs edges)"

definition discover_edges :: "resolver \<Rightarrow> anyhow + spike_edge list" where
  "discover_edges r =
     (case with_context (''SRV lookup for '' @ SPIKE_SRV_NAME) (srv_lookup r SPIKE_SRV_NAME) of
        Inl e \<Rightarrow> Inl e
      | Inr srv \<Rightarrow>
          (let edges = spike_records r srv [] in
           if edges = [] then Inl [''SRV '' @ SPIKE_SRV_NAME @ '' resolved to zero edges''] else Inr edges))"

text \<open>The library resolves the same addresses in the same order.\<close>

definition spike_edge_of :: "edge_addr \<Rightarrow> spike_edge" where
  "spike_edge_of e = \<lparr>se_ip = ea_ip e, se_port = ea_port e\<rparr>"

lemma spike_records_eq: "spike_records r recs edges = edges @ map spike_edge_of (concat (map (resolved r) recs))"
proof (induction recs arbitrary: edges)
  case (Cons rec recs)
  then show ?case by (cases rec) (simp add: resolved_def spike_edge_of_def comp_def split: sum.splits)
qed simp

lemma discover_edges_resolves:
  "discover_edges r = Inr edges \<longleftrightarrow>
   (\<exists>found. resolve_srv r Auto = Inr found \<and> found \<noteq> [] \<and> edges = map spike_edge_of found)"
  by (auto simp: discover_edges_def with_context_def SPIKE_SRV_NAME_def SRV_NAME_def resolve_srv_def
      spike_records_eq resolve_records_eq Let_def split: sum.splits)

section \<open>The client configuration\<close>

fun spike_embedded :: "('r \<Rightarrow> bool) \<Rightarrow> (string + 'r) list \<Rightarrow> 'r list \<Rightarrow> nat \<Rightarrow> anyhow + ('r list \<times> nat)" where
  "spike_embedded accepts [] roots cf_added = Inr (roots, cf_added)"
| "spike_embedded accepts (item # items) roots cf_added =
     (case with_context ''malformed CF root PEM'' item of
        Inl e \<Rightarrow> Inl e
      | Inr cert \<Rightarrow>
          (let (ok, roots') = add_root accepts cert roots
           in spike_embedded accepts items roots' (if ok then cf_added + 1 else cf_added)))"

definition spike_client_config ::
  "('r \<Rightarrow> bool) \<Rightarrow> string + 'r list \<Rightarrow> (string + 'r) list \<Rightarrow> ('r tls_config \<Rightarrow> string option)
   \<Rightarrow> anyhow + 'r client_config" where
  "spike_client_config accepts native pem quic_refuses =
     (case native of
        Inl e \<Rightarrow> Inl [e]
      | Inr certs \<Rightarrow>
          (let roots = fold (\<lambda>c rs. snd (add_root accepts c rs)) certs [] in
           case spike_embedded accepts pem roots 0 of
             Inl e \<Rightarrow> Inl e
           | Inr (roots, cf_added) \<Rightarrow>
               (let tls = \<lparr>tls_roots = roots, tls_alpn = [SPIKE_ALPN]\<rparr> in
                case quic_refuses tls of
                  Some e \<Rightarrow> Inl [''rustls config not QUIC-compatible'', e]
                | None \<Rightarrow>
                    Inr \<lparr>cc_tls = tls,
                         cc_transport = \<lparr>tp_max_idle = Some (from_secs 30), tp_keep_alive = None\<rparr>\<rparr>)))"

lemma spike_embedded_Inr_iff:
  "spike_embedded ok items rs n = Inr (rs', n') \<longleftrightarrow> load_embedded ok items rs n = Inr (rs', n')"
  by (induction items arbitrary: rs n) (auto simp: with_context_def split: sum.splits prod.splits)

text \<open>It differs from the library's: no keep-alive, and no native roots is an error.\<close>

lemma spike_client_config_library:
  "spike_client_config accepts native pem refuses = Inr cfg \<longleftrightarrow>
   (\<exists>certs lib. native = Inr certs \<and> build_client_config accepts native pem refuses = Inr lib
      \<and> cfg = lib\<lparr>cc_transport := (cc_transport lib)\<lparr>tp_keep_alive := None\<rparr>\<rparr>)"
proof (cases native)
  case (Inr certs)
  show ?thesis
  proof (cases "load_embedded accepts pem (fold (\<lambda>c rs. snd (add_root accepts c rs)) certs []) 0")
    case (Inl e)
    then have "spike_embedded accepts pem (fold (\<lambda>c rs. snd (add_root accepts c rs)) certs []) 0 \<noteq> Inr p" for p
      by (cases p) (simp add: spike_embedded_Inr_iff)
    then obtain e' where "spike_embedded accepts pem (fold (\<lambda>c rs. snd (add_root accepts c rs)) certs []) 0 = Inl e'"
      by (cases "spike_embedded accepts pem (fold (\<lambda>c rs. snd (add_root accepts c rs)) certs []) 0") auto
    with Inl \<open>native = Inr certs\<close> show ?thesis
      by (simp add: spike_client_config_def build_client_config_def load_native_def)
  next
    case (Inr p)
    then have "spike_embedded accepts pem (fold (\<lambda>c rs. snd (add_root accepts c rs)) certs []) 0 = Inr p"
      by (cases p) (simp add: spike_embedded_Inr_iff)
    with Inr \<open>native = Inr certs\<close> show ?thesis
      by (auto simp: spike_client_config_def build_client_config_def load_native_def SPIKE_ALPN_def ALPN_def Let_def
          split: option.splits prod.splits)
  qed
qed (simp add: spike_client_config_def)

section \<open>Dialling\<close>

text \<open>
  The loop over the edges. \<open>endpoint.connect\<close> carries a question mark, so an edge that the client
  refuses at once ends the program, the edges after it untried.
\<close>

fun try_edges :: "'c endpoint \<Rightarrow> spike_edge list \<Rightarrow> string option \<Rightarrow> anyhow + 'c" where
  "try_edges endpoint [] last_err =
     Inl [''all edges failed; last error: '' @ (case last_err of Some e \<Rightarrow> e | None \<Rightarrow> ''<unknown>'')]"
| "try_edges endpoint (edge # edges) last_err =
     (let addr = (se_ip edge, se_port edge) in
      case endpoint addr SPIKE_EDGE_SNI of
        Inl e \<Rightarrow> Inl [e]
      | Inr connecting \<Rightarrow>
          (case timeout HANDSHAKE_TIMEOUT connecting of
             Some (Inr conn) \<Rightarrow> Inr conn
           | Some (Inl e) \<Rightarrow> try_edges endpoint edges (Some e)
           | None \<Rightarrow> try_edges endpoint edges (Some ''timeout'')))"

text \<open>
  The program: \<open>installed\<close> says whether a crypto provider was there already, \<open>mk_endpoint\<close> makes the
  endpoint of a bound socket and a configuration. On success it closes the connection and returns.
\<close>

definition spike_main ::
  "bool \<Rightarrow> resolver \<Rightarrow> anyhow + 'r client_config \<Rightarrow> (string \<Rightarrow> string + 's)
   \<Rightarrow> ('s \<Rightarrow> 'r client_config \<Rightarrow> 'c endpoint) \<Rightarrow> anyhow + 'c" where
  "spike_main installed r config bind mk_endpoint =
     (if installed then Inl [''rustls default crypto provider already installed'']
      else case discover_edges r of
        Inl e \<Rightarrow> Inl e
      | Inr edges \<Rightarrow>
          (case config of
             Inl e \<Rightarrow> Inl e
           | Inr client_config \<Rightarrow>
               (case with_context ''bind UDP socket for QUIC client'' (bind ''0.0.0.0:0'') of
                  Inl e \<Rightarrow> Inl e
                | Inr sock \<Rightarrow> try_edges (mk_endpoint sock client_config) (take 3 edges) None)))"

text \<open>When no edge is refused at once, it comes to the connection that the library's \<open>dial_any\<close> would.\<close>

lemma try_edges_dial_loop:
  "(\<And>e. e \<in> set found \<Longrightarrow> \<exists>f. endpoint (edge_socket e) EDGE_SNI = Inr f) \<Longrightarrow>
   try_edges endpoint (map spike_edge_of found) le = Inr c \<longleftrightarrow>
     (\<exists>t. dial_loop show_err endpoint found l = Ready t (Inr c))"
proof (induction found arbitrary: le l)
  case (Cons e found)
  from Cons.prems [of e] obtain f where f: "endpoint (edge_socket e) EDGE_SNI = Inr f" by auto
  have IH: "try_edges endpoint (map spike_edge_of found) le' = Inr c \<longleftrightarrow>
      (\<exists>t. dial_loop show_err endpoint found l' = Ready t (Inr c))" for le' l'
    using Cons by simp
  have "(se_ip (spike_edge_of e), se_port (spike_edge_of e)) = edge_socket e"
    by (simp add: spike_edge_of_def edge_socket_def)
  then show ?case
    by (auto simp: Let_def f IH dial_def SPIKE_EDGE_SNI_def EDGE_SNI_def [symmetric] HANDSHAKE_TIMEOUT_def
        DIAL_HANDSHAKE_TIMEOUT_def timeout_def timeout_fut_def delay_Ready_iff split: fut.splits sum.splits)
qed simp

lemma spike_main_dials:
  assumes "resolve_srv r Auto = Inr found" and "bind ''0.0.0.0:0'' = Inr sock"
    and "\<And>e. e \<in> set (take 3 found) \<Longrightarrow> \<exists>f. mk sock cfg (edge_socket e) EDGE_SNI = Inr f"
  shows "spike_main False r (Inr cfg) bind mk = Inr c \<longleftrightarrow>
    (\<exists>t. dial_any show_err (mk sock cfg) (take 3 found) = Ready t (Inr c))"
proof (cases "found = []")
  case True
  then have "discover_edges r \<noteq> Inr edges" for edges
    using assms(1) by (simp add: discover_edges_resolves)
  then obtain e where "discover_edges r = Inl e" by (cases "discover_edges r") auto
  with True show ?thesis by (simp add: spike_main_def dial_any_def)
next
  case False
  then have "discover_edges r = Inr (map spike_edge_of found)"
    using assms(1) by (simp add: discover_edges_resolves)
  with False assms(2) try_edges_dial_loop [of "take 3 found" "mk sock cfg" None c show_err "[]", OF assms(3)]
  show ?thesis
    by (cases "dial_loop show_err (mk sock cfg) (take 3 found) []")
      (auto simp: spike_main_def with_context_def dial_any_def take_map split: sum.splits)
qed

end
