(* ===== verification/Io.thy ===== *)
theory Io
  imports Prelude
begin

text \<open>
  The byte streams the crate reads and writes (\<open>AsyncRead\<close>, \<open>AsyncWrite\<close> of futures-io and of
  tokio). A source is the script of what its peer does: chunks that arrive, an error, or
  silence on an open connection; past the end of the script the peer has closed. A read takes
  at most the room in the buffer from the first chunk, so one chunk may need several reads and
  a read may return less than was asked for. A read of no bytes is the end of the stream.
\<close>

section \<open>Sources\<close>

datatype rd_event = Data bytes | ReadErr string | Stall

type_synonym source = "rd_event list"

fun read_some :: "nat \<Rightarrow> source \<Rightarrow> (string, bytes) outcome \<times> source" where
  "read_some cap [] = (Done [], [])"
| "read_some cap (Data bs # es) =
     (if length bs \<le> cap then (Done bs, es) else (Done (take cap bs), Data (drop cap bs) # es))"
| "read_some cap (ReadErr e # es) = (Failed e, es)"
| "read_some cap (Stall # es) = (Pending, Stall # es)"

text \<open>
  What a reader can get out of a source, whatever the sizes of the chunks: the bytes up to the
  point where the stream ends, fails or falls silent, and which of the three it is.
\<close>

datatype ending = AtEof | AtErr string | AtStall

fun avail :: "source \<Rightarrow> bytes" where
  "avail [] = []"
| "avail (Data bs # es) = (if bs = [] then [] else bs @ avail es)"
| "avail (ReadErr e # es) = []"
| "avail (Stall # es) = []"

fun ending_of :: "source \<Rightarrow> ending" where
  "ending_of [] = AtEof"
| "ending_of (Data bs # es) = (if bs = [] then AtEof else ending_of es)"
| "ending_of (ReadErr e # es) = AtErr e"
| "ending_of (Stall # es) = AtStall"

fun ended :: "ending \<Rightarrow> (string, bytes) outcome" where
  "ended AtEof = Done []"
| "ended (AtErr e) = Failed e"
| "ended AtStall = Pending"

fun source_size :: "source \<Rightarrow> nat" where
  "source_size [] = 0"
| "source_size (Data bs # es) = Suc (length bs) + source_size es"
| "source_size (e # es) = Suc (source_size es)"

lemma read_some_size:
  "read_some cap s = (Done bs, s') \<Longrightarrow> bs \<noteq> [] \<Longrightarrow> source_size s' < source_size s"
  by (induction cap s rule: read_some.induct) (auto split: if_splits)

lemma read_some_length: "read_some cap s = (Done bs, s') \<Longrightarrow> length bs \<le> cap"
  by (induction cap s rule: read_some.induct) (auto split: if_splits)

lemma read_some_ended: "avail s = [] \<Longrightarrow> fst (read_some cap s) = ended (ending_of s)"
  by (cases s rule: avail.cases) (auto split: if_splits)

lemma read_some_avail:
  assumes "avail s \<noteq> []" and "0 < cap"
  obtains k s' where "0 < k" "k \<le> cap" "k \<le> length (avail s)"
    "read_some cap s = (Done (take k (avail s)), s')"
    "avail s' = drop k (avail s)" "ending_of s' = ending_of s"
proof -
  from assms(1) obtain bs es where s: "s = Data bs # es" and ne: "bs \<noteq> []"
    by (cases s rule: avail.cases) (auto split: if_splits)
  show ?thesis
  proof (cases "length bs \<le> cap")
    case True
    with s ne show thesis by (intro that [of "length bs" es]) auto
  next
    case False
    with s ne assms(2) show thesis by (intro that [of cap "Data (drop cap bs) # es"]) auto
  qed
qed

lemma read_some_sound:
  assumes "read_some cap s = (Done bs, s')" and "bs \<noteq> []"
  shows "avail s = bs @ avail s' \<and> ending_of s' = ending_of s"
  using assms by (induction cap s rule: read_some.induct) (auto split: if_splits)

lemma read_some_not_Done:
  assumes "read_some cap s = (r, s')" and "\<And>b bs. r \<noteq> Done (b # bs)" and "0 < cap"
  shows "avail s = [] \<and> r = ended (ending_of s)"
  using assms
proof (induction cap s rule: read_some.induct)
  case (2 cap bs es)
  then show ?case
    by (cases bs; cases cap) (auto split: if_splits)
qed auto

text \<open>\<open>read_exact\<close>: reads until the buffer is full; an early end is an error.\<close>

definition UNEXPECTED_EOF :: string where
  "UNEXPECTED_EOF = ''unexpected end of file''"

function read_exact :: "nat \<Rightarrow> source \<Rightarrow> (string, bytes) outcome \<times> source" where
  "read_exact n s =
     (if n = 0 then (Done [], s)
      else case read_some n s of
        (Done bs, s') \<Rightarrow>
          if bs = [] then (Failed UNEXPECTED_EOF, s')
          else (case read_exact (n - length bs) s' of
                  (Done cs, s'') \<Rightarrow> (Done (bs @ cs), s'')
                | (Failed e, s'') \<Rightarrow> (Failed e, s'')
                | (Pending, s'') \<Rightarrow> (Pending, s''))
      | (Failed e, s') \<Rightarrow> (Failed e, s')
      | (Pending, s') \<Rightarrow> (Pending, s'))"
  by pat_completeness auto
termination
  by (relation "measure fst") auto

declare read_exact.simps [simp del]

lemma read_exact_enough:
  "n \<le> length (avail s) \<Longrightarrow>
   \<exists>s'. read_exact n s = (Done (take n (avail s)), s') \<and> avail s' = drop n (avail s)
        \<and> ending_of s' = ending_of s"
proof (induction n arbitrary: s rule: less_induct)
  case (less n)
  show ?case
  proof (cases "n = 0")
    case True
    then show ?thesis by (simp add: read_exact.simps)
  next
    case False
    with less.prems have "avail s \<noteq> []" "0 < n" by auto
    then obtain k s1 where k: "0 < k" "k \<le> n" "k \<le> length (avail s)"
      "read_some n s = (Done (take k (avail s)), s1)"
      "avail s1 = drop k (avail s)" "ending_of s1 = ending_of s"
      by (rule read_some_avail)
    have "n - k < n" "n - k \<le> length (avail s1)"
      using k less.prems by auto
    from less.IH [OF this] obtain s2 where s2:
      "read_exact (n - k) s1 = (Done (take (n - k) (avail s1)), s2)"
      "avail s2 = drop (n - k) (avail s1)" "ending_of s2 = ending_of s1"
      by blast
    have "take k (avail s) @ take (n - k) (drop k (avail s)) = take n (avail s)"
      using k(2) by (metis le_add_diff_inverse take_add)
    moreover have "drop (n - k) (drop k (avail s)) = drop n (avail s)"
      using k(2) by simp
    ultimately show ?thesis
      using False k s2 by (auto simp: read_exact.simps [of n s] min_def)
  qed
qed

lemma read_exact_short:
  "length (avail s) < n \<Longrightarrow>
   fst (read_exact n s) = (case ending_of s of AtEof \<Rightarrow> Failed UNEXPECTED_EOF
                           | AtErr e \<Rightarrow> Failed e | AtStall \<Rightarrow> Pending)"
proof (induction n arbitrary: s rule: less_induct)
  case (less n)
  then have n: "0 < n" by simp
  show ?case
  proof (cases "avail s = []")
    case True
    obtain r s' where r: "read_some n s = (r, s')" by fastforce
    with True have "r = ended (ending_of s)" using read_some_ended [of s n] by simp
    with r n show ?thesis
      by (cases "ending_of s") (simp_all add: read_exact.simps [of n s])
  next
    case False
    then obtain k s1 where k: "0 < k" "k \<le> n" "k \<le> length (avail s)"
      "read_some n s = (Done (take k (avail s)), s1)"
      "avail s1 = drop k (avail s)" "ending_of s1 = ending_of s"
      using n by (rule read_some_avail)
    have "n - k < n" "length (avail s1) < n - k"
      using k n less.prems by auto
    from less.IH [OF this] have "fst (read_exact (n - k) s1) =
      (case ending_of s of AtEof \<Rightarrow> Failed UNEXPECTED_EOF | AtErr e \<Rightarrow> Failed e | AtStall \<Rightarrow> Pending)"
      by (simp add: k(6))
    with False k n show ?thesis
      by (cases "read_exact (n - k) s1"; cases "ending_of s")
        (auto simp: read_exact.simps [of n s] min_def)
  qed
qed

section \<open>Sinks\<close>

text \<open>
  A sink collects what was written. Its peer may stop accepting bytes after some more of them
  (\<open>wr_budget\<close>), and a flush or a close may fail.
\<close>

record sink =
  written :: bytes
  wr_budget :: "(nat \<times> string) option"
  flush_err :: "string option"
  close_err :: "string option"
  is_closed :: bool

definition open_sink :: sink where
  "open_sink = \<lparr>written = [], wr_budget = None, flush_err = None, close_err = None, is_closed = False\<rparr>"

definition write_all :: "bytes \<Rightarrow> sink \<Rightarrow> (string, unit) outcome \<times> sink" where
  "write_all bs k =
     (case wr_budget k of
        None \<Rightarrow> (Done (), k\<lparr>written := written k @ bs\<rparr>)
      | Some (n, e) \<Rightarrow>
          if length bs \<le> n
          then (Done (), k\<lparr>written := written k @ bs, wr_budget := Some (n - length bs, e)\<rparr>)
          else (Failed e, k\<lparr>written := written k @ take n bs, wr_budget := Some (0, e)\<rparr>))"

definition flush_sink :: "sink \<Rightarrow> (string, unit) outcome \<times> sink" where
  "flush_sink k = (case flush_err k of None \<Rightarrow> (Done (), k) | Some e \<Rightarrow> (Failed e, k))"

definition close_sink :: "sink \<Rightarrow> (string, unit) outcome \<times> sink" where
  "close_sink k =
     (case close_err k of None \<Rightarrow> (Done (), k\<lparr>is_closed := True\<rparr>) | Some e \<Rightarrow> (Failed e, k))"

text \<open>A sink whose peer takes everything.\<close>

definition healthy :: "sink \<Rightarrow> bool" where
  "healthy k = (wr_budget k = None \<and> flush_err k = None \<and> close_err k = None)"

lemma open_sink_healthy [simp]: "healthy open_sink"
  by (simp add: healthy_def open_sink_def)

lemma write_all_healthy [io_simps]:
  "healthy k \<Longrightarrow> write_all bs k = (Done (), k\<lparr>written := written k @ bs\<rparr>)"
  by (simp add: write_all_def healthy_def)

lemma flush_sink_healthy [io_simps]: "healthy k \<Longrightarrow> flush_sink k = (Done (), k)"
  by (simp add: flush_sink_def healthy_def)

lemma close_sink_healthy [io_simps]:
  "healthy k \<Longrightarrow> close_sink k = (Done (), k\<lparr>is_closed := True\<rparr>)"
  by (simp add: close_sink_def healthy_def)

lemma healthy_written [simp]: "healthy (k\<lparr>written := w\<rparr>) = healthy k"
  by (simp add: healthy_def)

lemma healthy_closed [simp]: "healthy (k\<lparr>is_closed := b\<rparr>) = healthy k"
  by (simp add: healthy_def)

lemma write_all_not_pending: "fst (write_all bs k) \<noteq> Pending"
  by (auto simp: write_all_def split: option.splits)

lemma write_all_Done: "write_all bs k = (Done u, k') \<Longrightarrow> written k' = written k @ bs"
  by (auto simp: write_all_def split: option.splits if_splits)

lemma write_all_Failed: "write_all bs k = (Failed e, k') \<Longrightarrow> \<exists>j. written k' = written k @ take j bs"
  by (auto simp: write_all_def split: option.splits if_splits) (rule exI, rule refl)

lemma write_all_extends: "\<exists>ys. written (snd (write_all bs k)) = written k @ ys"
  by (auto simp: write_all_def split: option.splits)

text \<open>The error side of an operation renamed, as \<open>map_err\<close> does before a question mark.\<close>

definition io_err :: "('e \<Rightarrow> 'f) \<Rightarrow> ('e, 'a) outcome \<times> 's \<Rightarrow> ('f, 'a) outcome \<times> 's" where
  "io_err f r =
     (case r of (Done a, s) \<Rightarrow> (Done a, s) | (Failed e, s) \<Rightarrow> (Failed (f e), s) | (Pending, s) \<Rightarrow> (Pending, s))"

lemma io_err_simps [simp, io_simps]:
  "io_err f (Done a, s) = (Done a, s)"
  "io_err f (Failed e, s) = (Failed (f e), s)"
  "io_err f (Pending, s) = (Pending, s)"
  by (simp_all add: io_err_def)

lemma io_err_Done_iff [simp]: "io_err f r = (Done a, s) \<longleftrightarrow> r = (Done a, s)"
  by (cases r; cases "fst r") auto

end
