(* ===== verification/Capnp.thy ===== *)
theory Capnp
  imports Io
begin

text \<open>
  The Cap'n Proto library, which is not part of the repository: a record of the operations that
  the generated accessors and the framing code call, and the laws of them that the crate relies
  on. A struct has a data section of 64-bit words, read and written in fields of some bit width,
  and a section of pointers to texts, blobs, structs and lists. A message is written as one byte
  string; reading one off a stream gives its root pointer.

  The laws are a locale over the record. \<open>tree_api\<close> is an implementation of them that keeps a
  message as a tree whose data sections are little-endian bit strings; it shows that the laws
  can hold together.
\<close>

record ('s, 'p) capnp =
  new_struct :: "nat \<Rightarrow> nat \<Rightarrow> 's"
  data_words :: "'s \<Rightarrow> nat"
  ptr_count :: "'s \<Rightarrow> nat"
  get_field :: "nat \<Rightarrow> nat \<Rightarrow> 's \<Rightarrow> nat"
  set_field :: "nat \<Rightarrow> nat \<Rightarrow> nat \<Rightarrow> 's \<Rightarrow> 's"
  get_ptr :: "nat \<Rightarrow> 's \<Rightarrow> 'p"
  set_ptr :: "nat \<Rightarrow> 'p \<Rightarrow> 's \<Rightarrow> 's"
  ptr_null :: "'p \<Rightarrow> bool"
  text_ptr :: "string \<Rightarrow> 'p"
  ptr_text :: "'p \<Rightarrow> string + bytes"
  data_ptr :: "bytes \<Rightarrow> 'p"
  ptr_data :: "'p \<Rightarrow> string + bytes"
  struct_ptr :: "'s \<Rightarrow> 'p"
  ptr_struct :: "'p \<Rightarrow> string + 's"
  structs_ptr :: "'s list \<Rightarrow> 'p"
  ptr_structs :: "'p \<Rightarrow> string + 's list"
  texts_ptr :: "string list \<Rightarrow> 'p"
  ptr_texts :: "'p \<Rightarrow> string + bytes list"
  not_in_schema :: "nat \<Rightarrow> string"
  not_in_schema_debug :: "nat \<Rightarrow> string"
  utf8_error :: "bytes \<Rightarrow> string"
  message_fits :: "'s \<Rightarrow> bool"
  write_message :: "'s \<Rightarrow> bytes"
  read_message :: "source \<Rightarrow> (string, 'p) outcome \<times> source"

text \<open>A field of width \<open>w\<close> at index \<open>i\<close> takes the bits from \<open>i * w\<close> on.\<close>

definition field_fits :: "nat \<Rightarrow> nat \<Rightarrow> nat \<Rightarrow> bool" where
  "field_fits w i words = ((i + 1) * w \<le> 64 * words)"

definition fields_apart :: "nat \<Rightarrow> nat \<Rightarrow> nat \<Rightarrow> nat \<Rightarrow> bool" where
  "fields_apart w i w' j = ((i + 1) * w \<le> j * w' \<or> (j + 1) * w' \<le> i * w)"

text \<open>\<open>text::Reader::to_string\<close>: a text that is not UTF-8 is an error.\<close>

definition text_to_string :: "('s, 'p) capnp \<Rightarrow> bytes \<Rightarrow> string + string" where
  "text_to_string c t = (case from_utf8 t of Some s \<Rightarrow> Inr s | None \<Rightarrow> Inl (utf8_error c t))"

locale capnp_api =
  fixes c :: "('s, 'p) capnp"
  assumes new_words: "data_words c (new_struct c d p) = d"
    and new_ptrs: "ptr_count c (new_struct c d p) = p"
    and new_zero: "get_field c w i (new_struct c d p) = 0"
    and new_null: "ptr_null c (get_ptr c k (new_struct c d p))"
    and set_field_words: "data_words c (set_field c w i v s) = data_words c s"
    and set_field_ptrs: "ptr_count c (set_field c w i v s) = ptr_count c s"
    and set_ptr_words: "data_words c (set_ptr c k q s) = data_words c s"
    and set_ptr_ptrs: "ptr_count c (set_ptr c k q s) = ptr_count c s"
    and get_set_field: "field_fits w i (data_words c s) \<Longrightarrow>
      get_field c w i (set_field c w i v s) = v mod 2 ^ w"
    and get_set_field_other: "fields_apart w i w' j \<Longrightarrow>
      get_field c w' j (set_field c w i v s) = get_field c w' j s"
    and get_field_set_ptr: "get_field c w i (set_ptr c k q s) = get_field c w i s"
    and get_ptr_set_field: "get_ptr c k (set_field c w i v s) = get_ptr c k s"
    and get_set_ptr: "k < ptr_count c s \<Longrightarrow> get_ptr c k (set_ptr c k q s) = q"
    and get_set_ptr_other: "k \<noteq> l \<Longrightarrow> get_ptr c l (set_ptr c k q s) = get_ptr c l s"
    and text_back: "ptr_text c (text_ptr c t) = Inr t"
    and data_back: "ptr_data c (data_ptr c t) = Inr t"
    and struct_back: "ptr_struct c (struct_ptr c s) = Inr s"
    and structs_back: "ptr_structs c (structs_ptr c ss) = Inr ss"
    and texts_back: "ptr_texts c (texts_ptr c ts) = Inr ts"
    and null_text: "ptr_null c q \<Longrightarrow> ptr_text c q = Inr []"
    and null_data: "ptr_null c q \<Longrightarrow> ptr_data c q = Inr []"
    and null_structs: "ptr_null c q \<Longrightarrow> ptr_structs c q = Inr []"
    and read_written: "message_fits c s \<Longrightarrow> avail src = write_message c s @ rest \<Longrightarrow>
      \<exists>src'. read_message c src = (Done (struct_ptr c s), src') \<and> avail src' = rest \<and> ending_of src' = ending_of src"
    and text_present: "\<not> ptr_null c (text_ptr c t)"
    and data_present: "\<not> ptr_null c (data_ptr c t)"
    and struct_present: "\<not> ptr_null c (struct_ptr c s)"
    and structs_present: "\<not> ptr_null c (structs_ptr c ss)"
    and texts_present: "\<not> ptr_null c (texts_ptr c ts)"
begin

lemmas present_simps = text_present data_present struct_present structs_present texts_present

lemmas layout_simps =
  new_words new_ptrs new_zero new_null set_field_words set_field_ptrs set_ptr_words set_ptr_ptrs
  get_field_set_ptr get_ptr_set_field get_set_ptr get_set_ptr_other
  text_back data_back struct_back structs_back texts_back

text \<open>The fields the crate writes are one bit, one byte or two bytes wide.\<close>

lemma get_set_bool:
  "0 < data_words c s \<Longrightarrow> i < 64 \<Longrightarrow> get_field c 1 i (set_field c 1 i (of_bool b) s) = of_bool b"
  by (subst get_set_field) (simp_all add: field_fits_def)

lemma get_set_u8:
  "0 < data_words c s \<Longrightarrow> i < 8 \<Longrightarrow> v < 256 \<Longrightarrow> get_field c 8 i (set_field c 8 i v s) = v"
  by (subst get_set_field) (simp_all add: field_fits_def)

lemma get_set_u16:
  "0 < data_words c s \<Longrightarrow> i < 4 \<Longrightarrow> v < 65536 \<Longrightarrow> get_field c 16 i (set_field c 16 i v s) = v"
  by (subst get_set_field) (simp_all add: field_fits_def)

end

section \<open>Messages as trees\<close>

datatype tree_ptr =
    TNull
  | TText bytes
  | TData bytes
  | TStruct tree_struct
  | TStructs "tree_struct list"
  | TTexts "bytes list"
and tree_struct = TS "bool list" "tree_ptr list"

primrec ts_bits :: "tree_struct \<Rightarrow> bool list" where
  "ts_bits (TS bs ps) = bs"

primrec ts_ptrs :: "tree_struct \<Rightarrow> tree_ptr list" where
  "ts_ptrs (TS bs ps) = ps"

subsection \<open>A self-delimiting encoding\<close>

definition enc_nat :: "nat \<Rightarrow> bytes" where
  "enc_nat n = replicate n (CHR 0x01) @ [CHR 0x00]"

fun dec_nat :: "bytes \<Rightarrow> (nat \<times> bytes) option" where
  "dec_nat [] = None"
| "dec_nat (b # bs) =
     (if b = CHR 0x00 then Some (0, bs) else map_option (\<lambda>(n, r). (Suc n, r)) (dec_nat bs))"

lemma dec_enc_nat [simp]: "dec_nat (enc_nat n @ r) = Some (n, r)"
  by (induction n) (simp_all add: enc_nat_def)

definition enc_bytes :: "bytes \<Rightarrow> bytes" where
  "enc_bytes bs = enc_nat (length bs) @ bs"

definition dec_bytes :: "bytes \<Rightarrow> (bytes \<times> bytes) option" where
  "dec_bytes bs =
     (case dec_nat bs of None \<Rightarrow> None
      | Some (n, r) \<Rightarrow> if n \<le> length r then Some (take n r, drop n r) else None)"

lemma dec_enc_bytes [simp]: "dec_bytes (enc_bytes bs @ r) = Some (bs, r)"
  by (simp add: dec_bytes_def enc_bytes_def)

definition bit_byte :: "bool \<Rightarrow> byte" where
  "bit_byte b = (if b then CHR 0x01 else CHR 0x00)"

definition enc_bits :: "bool list \<Rightarrow> bytes" where
  "enc_bits bs = enc_bytes (map bit_byte bs)"

definition dec_bits :: "bytes \<Rightarrow> (bool list \<times> bytes) option" where
  "dec_bits bs = map_option (\<lambda>(xs, r). (map (\<lambda>b. b = CHR 0x01) xs, r)) (dec_bytes bs)"

lemma dec_enc_bits [simp]: "dec_bits (enc_bits bs @ r) = Some (bs, r)"
proof -
  have "map ((\<lambda>b. b = CHR 0x01) \<circ> bit_byte) bs = bs"
    by (induction bs) (simp_all add: bit_byte_def)
  then show ?thesis by (simp add: dec_bits_def enc_bits_def)
qed

primrec enc_many :: "bytes list \<Rightarrow> bytes" where
  "enc_many [] = []"
| "enc_many (b # bs) = b @ enc_many bs"

fun dec_many :: "(bytes \<Rightarrow> ('a \<times> bytes) option) \<Rightarrow> nat \<Rightarrow> bytes \<Rightarrow> ('a list \<times> bytes) option" where
  "dec_many d 0 bs = Some ([], bs)"
| "dec_many d (Suc n) bs =
     (case d bs of None \<Rightarrow> None
      | Some (x, r) \<Rightarrow> map_option (\<lambda>(xs, r'). (x # xs, r')) (dec_many d n r))"

lemma dec_many_enc:
  "(\<And>x r. x \<in> set xs \<Longrightarrow> d (e x @ r) = Some (x, r)) \<Longrightarrow>
   dec_many d (length xs) (enc_many (map e xs) @ r) = Some (xs, r)"
  by (induction xs arbitrary: r) simp_all

fun enc_ptr :: "tree_ptr \<Rightarrow> bytes" and enc_struct :: "tree_struct \<Rightarrow> bytes" where
  "enc_ptr TNull = [CHR 0x00]"
| "enc_ptr (TText t) = CHR 0x01 # enc_bytes t"
| "enc_ptr (TData t) = CHR 0x02 # enc_bytes t"
| "enc_ptr (TStruct s) = CHR 0x03 # enc_struct s"
| "enc_ptr (TStructs ss) = CHR 0x04 # enc_nat (length ss) @ enc_many (map enc_struct ss)"
| "enc_ptr (TTexts ts) = CHR 0x05 # enc_nat (length ts) @ enc_many (map enc_bytes ts)"
| "enc_struct (TS bs ps) = enc_bits bs @ enc_nat (length ps) @ enc_many (map enc_ptr ps)"

text \<open>The decoder's fuel bounds the depth of the tree.\<close>

fun dec_ptr :: "nat \<Rightarrow> bytes \<Rightarrow> (tree_ptr \<times> bytes) option"
  and dec_struct :: "nat \<Rightarrow> bytes \<Rightarrow> (tree_struct \<times> bytes) option" where
  "dec_ptr 0 bs = None"
| "dec_ptr (Suc f) [] = None"
| "dec_ptr (Suc f) (tag # bs) =
     (if tag = CHR 0x00 then Some (TNull, bs)
      else if tag = CHR 0x01 then map_option (\<lambda>(t, r). (TText t, r)) (dec_bytes bs)
      else if tag = CHR 0x02 then map_option (\<lambda>(t, r). (TData t, r)) (dec_bytes bs)
      else if tag = CHR 0x03 then map_option (\<lambda>(s, r). (TStruct s, r)) (dec_struct f bs)
      else if tag = CHR 0x04 then
        (case dec_nat bs of None \<Rightarrow> None
         | Some (n, r) \<Rightarrow> map_option (\<lambda>(ss, r'). (TStructs ss, r')) (dec_many (dec_struct f) n r))
      else
        (case dec_nat bs of None \<Rightarrow> None
         | Some (n, r) \<Rightarrow> map_option (\<lambda>(ts, r'). (TTexts ts, r')) (dec_many dec_bytes n r)))"
| "dec_struct 0 bs = None"
| "dec_struct (Suc f) bs =
     (case dec_bits bs of None \<Rightarrow> None
      | Some (b, r) \<Rightarrow>
          (case dec_nat r of None \<Rightarrow> None
           | Some (n, r') \<Rightarrow> map_option (\<lambda>(ps, r''). (TS b ps, r'')) (dec_many (dec_ptr f) n r')))"

lemma size_in_set: "x \<in> set xs \<Longrightarrow> size x < Suc (size_list size xs)"
  by (induction xs) auto

lemma dec_enc_tree:
  "size p < f \<Longrightarrow> dec_ptr f (enc_ptr p @ r) = Some (p, r)"
  "size s < f \<Longrightarrow> dec_struct f (enc_struct s @ r) = Some (s, r)"
proof (induction p and s arbitrary: f r and f r)
  case (TStructs ss)
  then obtain g where f: "f = Suc g" by (cases f) auto
  have "\<And>x r. x \<in> set ss \<Longrightarrow> dec_struct g (enc_struct x @ r) = Some (x, r)"
  proof -
    fix x r assume x: "x \<in> set ss"
    with TStructs.prems f have "size x < g" using size_in_set [of x ss] by simp
    with TStructs.IH x show "dec_struct g (enc_struct x @ r) = Some (x, r)" by blast
  qed
  from dec_many_enc [of ss "dec_struct g" enc_struct, OF this] show ?case by (simp add: f)
next
  case (TTexts ts)
  then obtain g where f: "f = Suc g" by (cases f) auto
  have "dec_many dec_bytes (length ts) (enc_many (map enc_bytes ts) @ r) = Some (ts, r)"
    by (rule dec_many_enc) simp
  then show ?case by (simp add: f)
next
  case (TS bs ps)
  then obtain g where f: "f = Suc g" by (cases f) auto
  have "\<And>x r. x \<in> set ps \<Longrightarrow> dec_ptr g (enc_ptr x @ r) = Some (x, r)"
  proof -
    fix x r assume x: "x \<in> set ps"
    with TS.prems f have "size x < g" using size_in_set [of x ps] by simp
    with TS.IH x show "dec_ptr g (enc_ptr x @ r) = Some (x, r)" by blast
  qed
  from dec_many_enc [of ps "dec_ptr g" enc_ptr, OF this] show ?case by (simp add: f)
next
  case TNull
  then show ?case by (cases f) simp_all
next
  case (TText t)
  then show ?case by (cases f) simp_all
next
  case (TData t)
  then show ?case by (cases f) simp_all
next
  case (TStruct s)
  then show ?case by (cases f) simp_all
qed

subsection \<open>Reading a message off a stream\<close>

fun read_unary :: "nat \<Rightarrow> source \<Rightarrow> (string, nat) outcome \<times> source" where
  "read_unary 0 src = (Pending, src)"
| "read_unary (Suc f) src =
     and_then (read_exact 1 src)
       (\<lambda>bs src'. if bs = [CHR 0x00] then (Done 0, src')
                  else and_then (read_unary f src') (\<lambda>n src''. (Done (Suc n), src'')))"

definition tree_write :: "tree_struct \<Rightarrow> bytes" where
  "tree_write s =
     (let body = enc_struct s in enc_nat (Suc (size s)) @ enc_nat (length body) @ body)"

definition tree_read :: "source \<Rightarrow> (string, tree_struct) outcome \<times> source" where
  "tree_read src =
     and_then (read_unary (Suc (source_size src)) src) (\<lambda>fuel src.
     and_then (read_unary (Suc (source_size src)) src) (\<lambda>n src.
     and_then (read_exact n src) (\<lambda>body src.
       case dec_struct fuel body of
         Some (s, []) \<Rightarrow> (Done s, src)
       | _ \<Rightarrow> (Failed ''malformed message'', src))))"

lemma avail_size: "length (avail src) \<le> source_size src"
  by (induction src rule: avail.induct) auto

lemma read_unary_enc:
  "n < f \<Longrightarrow> avail src = enc_nat n @ rest \<Longrightarrow>
   \<exists>src'. read_unary f src = (Done n, src') \<and> avail src' = rest \<and> ending_of src' = ending_of src"
proof (induction n arbitrary: f src)
  case 0
  then obtain g where f: "f = Suc g" by (cases f) auto
  from 0 have "1 \<le> length (avail src)" by (simp add: enc_nat_def)
  from read_exact_enough [OF this] 0 show ?case by (auto simp: f enc_nat_def)
next
  case (Suc n)
  then obtain g where f: "f = Suc g" "n < g" by (cases f) auto
  from Suc.prems(2) have av: "avail src = CHR 0x01 # enc_nat n @ rest" by (simp add: enc_nat_def)
  then have "1 \<le> length (avail src)" by simp
  from read_exact_enough [OF this] av obtain s1 where s1:
    "read_exact 1 src = (Done [CHR 0x01], s1)" "avail s1 = enc_nat n @ rest"
    "ending_of s1 = ending_of src" by auto
  from Suc.IH [OF f(2) s1(2)] s1 show ?case by (auto simp: f(1))
qed

lemma tree_read_write:
  assumes "avail src = tree_write s @ rest"
  shows "\<exists>src'. tree_read src = (Done s, src') \<and> avail src' = rest \<and> ending_of src' = ending_of src"
proof -
  let ?body = "enc_struct s"
  have a0: "avail src = enc_nat (Suc (size s)) @ enc_nat (length ?body) @ ?body @ rest"
    using assms by (simp add: tree_write_def Let_def)
  have enc_len: "length (enc_nat n) = Suc n" for n by (simp add: enc_nat_def)
  have "Suc (size s) < Suc (source_size src)"
    using avail_size [of src] by (simp add: a0 enc_len)
  from read_unary_enc [OF this a0] obtain s1 where s1:
    "read_unary (Suc (source_size src)) src = (Done (Suc (size s)), s1)"
    "avail s1 = enc_nat (length ?body) @ ?body @ rest" "ending_of s1 = ending_of src" by blast
  have "length ?body < Suc (source_size s1)"
    using avail_size [of s1] by (simp add: s1(2) enc_len)
  from read_unary_enc [OF this s1(2)] obtain s2 where s2:
    "read_unary (Suc (source_size s1)) s1 = (Done (length ?body), s2)"
    "avail s2 = ?body @ rest" "ending_of s2 = ending_of s1" by blast
  from read_exact_enough [of "length ?body" s2] s2 obtain s3 where s3:
    "read_exact (length ?body) s2 = (Done ?body, s3)" "avail s3 = rest" "ending_of s3 = ending_of s2"
    by auto
  have "dec_struct (Suc (size s)) ?body = Some (s, [])"
    using dec_enc_tree(2) [of s "Suc (size s)" "[]"] by simp
  with s1 s2 s3 show ?thesis by (simp add: tree_read_def)
qed

subsection \<open>The data section\<close>

definition bits_field :: "nat \<Rightarrow> nat \<Rightarrow> bool list \<Rightarrow> nat" where
  "bits_field w i bs = horner_sum of_bool 2 (take w (drop (i * w) bs))"

definition bits_update :: "nat \<Rightarrow> nat \<Rightarrow> nat \<Rightarrow> bool list \<Rightarrow> bool list" where
  "bits_update w i v bs =
     (if (i + 1) * w \<le> length bs
      then take (i * w) bs @ map (bit v) [0..<w] @ drop ((i + 1) * w) bs else bs)"

lemma length_bits_update [simp]: "length (bits_update w i v bs) = length bs"
  by (simp add: bits_update_def)

lemma bits_field_update:
  "(i + 1) * w \<le> length bs \<Longrightarrow> bits_field w i (bits_update w i v bs) = v mod 2 ^ w"
  by (simp add: bits_field_def bits_update_def horner_sum_bit_eq_take_bit take_bit_eq_mod)

lemma take_drop_update_apart:
  assumes "a + n \<le> lo \<or> hi \<le> a" and "lo \<le> hi" and "hi \<le> length bs" and "length m = hi - lo"
  shows "take n (drop a (take lo bs @ m @ drop hi bs)) = take n (drop a bs)"
  using assms(1)
proof
  assume before: "a + n \<le> lo"
  then have "take n (drop a (take lo bs)) = take n (drop a bs)"
    by (simp add: drop_take min_def)
  with before assms(2,3) show ?thesis by simp
next
  assume after: "hi \<le> a"
  have "drop a (take lo bs @ m @ drop hi bs) = drop (a - hi) (drop hi bs)"
    using after assms(2-4) by simp
  also have "\<dots> = drop a bs" using after by simp
  finally show ?thesis by simp
qed

lemma bits_field_update_other:
  assumes "fields_apart w i w' j"
  shows "bits_field w' j (bits_update w i v bs) = bits_field w' j bs"
proof (cases "(i + 1) * w \<le> length bs")
  case True
  have "take w' (drop (j * w') (bits_update w i v bs)) = take w' (drop (j * w') bs)"
    unfolding bits_update_def using True assms
    by (simp only: if_True, intro take_drop_update_apart)
      (simp_all add: fields_apart_def, linarith)
  then show ?thesis by (simp add: bits_field_def)
next
  case False
  then show ?thesis by (simp add: bits_update_def)
qed

lemma bits_field_zero: "bits_field w i (replicate n False) = 0"
proof -
  have "horner_sum of_bool (2 :: nat) (replicate k False) = 0" for k
    by (induction k) simp_all
  then show ?thesis by (simp add: bits_field_def min_def)
qed

section \<open>The tree implementation of the interface\<close>

fun tree_text :: "tree_ptr \<Rightarrow> string + bytes" where
  "tree_text TNull = Inr []"
| "tree_text (TText t) = Inr t"
| "tree_text _ = Inl ''not a text''"

fun tree_data :: "tree_ptr \<Rightarrow> string + bytes" where
  "tree_data TNull = Inr []"
| "tree_data (TData t) = Inr t"
| "tree_data _ = Inl ''not a blob''"

fun tree_sub :: "tree_ptr \<Rightarrow> string + tree_struct" where
  "tree_sub TNull = Inr (TS [] [])"
| "tree_sub (TStruct s) = Inr s"
| "tree_sub _ = Inl ''not a struct''"

fun tree_subs :: "tree_ptr \<Rightarrow> string + tree_struct list" where
  "tree_subs TNull = Inr []"
| "tree_subs (TStructs ss) = Inr ss"
| "tree_subs _ = Inl ''not a list of structs''"

fun tree_texts :: "tree_ptr \<Rightarrow> string + bytes list" where
  "tree_texts TNull = Inr []"
| "tree_texts (TTexts ts) = Inr ts"
| "tree_texts _ = Inl ''not a list of texts''"

definition tree_api :: "(tree_struct, tree_ptr) capnp" where
  "tree_api =
     \<lparr>new_struct = \<lambda>d p. TS (replicate (64 * d) False) (replicate p TNull),
      data_words = \<lambda>s. length (ts_bits s) div 64,
      ptr_count = \<lambda>s. length (ts_ptrs s),
      get_field = \<lambda>w i s. bits_field w i (ts_bits s),
      set_field = \<lambda>w i v s. TS (bits_update w i v (ts_bits s)) (ts_ptrs s),
      get_ptr = \<lambda>k s. if k < length (ts_ptrs s) then ts_ptrs s ! k else TNull,
      set_ptr = \<lambda>k q s. TS (ts_bits s) ((ts_ptrs s)[k := q]),
      ptr_null = \<lambda>q. q = TNull,
      text_ptr = TText, ptr_text = tree_text,
      data_ptr = TData, ptr_data = tree_data,
      struct_ptr = TStruct, ptr_struct = tree_sub,
      structs_ptr = TStructs, ptr_structs = tree_subs,
      texts_ptr = TTexts, ptr_texts = tree_texts,
      not_in_schema = \<lambda>n. ''enum value or union discriminant '' @ dec n @ '' was not present in the schema'',
      not_in_schema_debug = \<lambda>n. ''NotInSchema('' @ dec n @ '')'',
      utf8_error = \<lambda>_. ''invalid utf-8'',
      message_fits = \<lambda>_. True,
      write_message = tree_write,
      read_message = \<lambda>src. and_then (tree_read src) (\<lambda>s src'. (Done (TStruct s), src'))\<rparr>"

interpretation tree_capnp: capnp_api tree_api
proof (unfold_locales, goal_cases)
  case (9 w i s v)
  then have "(i + 1) * w \<le> length (ts_bits s)" by (simp add: field_fits_def tree_api_def)
  from bits_field_update [OF this] show ?case by (simp add: tree_api_def)
next
  case (10 w i w' j v s)
  then show ?case by (simp add: tree_api_def bits_field_update_other)
next
  case (23 s src rest)
  then have "avail src = tree_write s @ rest" by (simp add: tree_api_def)
  from tree_read_write [OF this] show ?case by (auto simp: tree_api_def)
qed (simp_all add: tree_api_def bits_field_zero)

end
