(* ===== verification/Tunnel_Rpc_Schema.thy ===== *)
theory Tunnel_Rpc_Schema
  imports Capnp
begin

text \<open>
  The generated accessors of \<^verbatim>\<open>src/proto_gen/tunnelrpc_capnp.rs\<close> for the messages of
  \<open>registerConnection\<close> and \<open>unregisterConnection\<close>, the union in the response, and the calls and
  dispatch tables of the interfaces the client uses or serves.
\<close>

section \<open>The struct tunnel_auth\<close>

definition tunnel_auth_STRUCT_SIZE :: "nat \<times> nat" where
  "tunnel_auth_STRUCT_SIZE = (0, 2)"

definition tunnel_auth_get_account_tag :: "('s, 'p) capnp \<Rightarrow> 's \<Rightarrow> string + bytes" where
  "tunnel_auth_get_account_tag c s = ptr_text c (get_ptr c 0 s)"

definition tunnel_auth_has_account_tag :: "('s, 'p) capnp \<Rightarrow> 's \<Rightarrow> bool" where
  "tunnel_auth_has_account_tag c s = (\<not> ptr_null c (get_ptr c 0 s))"

definition tunnel_auth_get_tunnel_secret :: "('s, 'p) capnp \<Rightarrow> 's \<Rightarrow> string + bytes" where
  "tunnel_auth_get_tunnel_secret c s = ptr_data c (get_ptr c 1 s)"

definition tunnel_auth_has_tunnel_secret :: "('s, 'p) capnp \<Rightarrow> 's \<Rightarrow> bool" where
  "tunnel_auth_has_tunnel_secret c s = (\<not> ptr_null c (get_ptr c 1 s))"

definition tunnel_auth_set_account_tag :: "('s, 'p) capnp \<Rightarrow> string \<Rightarrow> 's \<Rightarrow> 's" where
  "tunnel_auth_set_account_tag c value s = set_ptr c 0 (text_ptr c value) s"

definition tunnel_auth_set_tunnel_secret :: "('s, 'p) capnp \<Rightarrow> bytes \<Rightarrow> 's \<Rightarrow> 's" where
  "tunnel_auth_set_tunnel_secret c value s = set_ptr c 1 (data_ptr c value) s"

section \<open>The struct client_info\<close>

definition client_info_STRUCT_SIZE :: "nat \<times> nat" where
  "client_info_STRUCT_SIZE = (0, 4)"

definition client_info_get_client_id :: "('s, 'p) capnp \<Rightarrow> 's \<Rightarrow> string + bytes" where
  "client_info_get_client_id c s = ptr_data c (get_ptr c 0 s)"

definition client_info_has_client_id :: "('s, 'p) capnp \<Rightarrow> 's \<Rightarrow> bool" where
  "client_info_has_client_id c s = (\<not> ptr_null c (get_ptr c 0 s))"

definition client_info_get_features :: "('s, 'p) capnp \<Rightarrow> 's \<Rightarrow> string + bytes list" where
  "client_info_get_features c s = ptr_texts c (get_ptr c 1 s)"

definition client_info_has_features :: "('s, 'p) capnp \<Rightarrow> 's \<Rightarrow> bool" where
  "client_info_has_features c s = (\<not> ptr_null c (get_ptr c 1 s))"

definition client_info_get_version :: "('s, 'p) capnp \<Rightarrow> 's \<Rightarrow> string + bytes" where
  "client_info_get_version c s = ptr_text c (get_ptr c 2 s)"

definition client_info_has_version :: "('s, 'p) capnp \<Rightarrow> 's \<Rightarrow> bool" where
  "client_info_has_version c s = (\<not> ptr_null c (get_ptr c 2 s))"

definition client_info_get_arch :: "('s, 'p) capnp \<Rightarrow> 's \<Rightarrow> string + bytes" where
  "client_info_get_arch c s = ptr_text c (get_ptr c 3 s)"

definition client_info_has_arch :: "('s, 'p) capnp \<Rightarrow> 's \<Rightarrow> bool" where
  "client_info_has_arch c s = (\<not> ptr_null c (get_ptr c 3 s))"

definition client_info_set_client_id :: "('s, 'p) capnp \<Rightarrow> bytes \<Rightarrow> 's \<Rightarrow> 's" where
  "client_info_set_client_id c value s = set_ptr c 0 (data_ptr c value) s"

definition client_info_set_features :: "('s, 'p) capnp \<Rightarrow> string list \<Rightarrow> 's \<Rightarrow> 's" where
  "client_info_set_features c value s = set_ptr c 1 (texts_ptr c value) s"

definition client_info_init_features :: "('s, 'p) capnp \<Rightarrow> nat \<Rightarrow> (string list \<Rightarrow> string list) \<Rightarrow> 's \<Rightarrow> 's" where
  "client_info_init_features c n fill s = set_ptr c 1 (texts_ptr c (fill (replicate n []))) s"

definition client_info_set_version :: "('s, 'p) capnp \<Rightarrow> string \<Rightarrow> 's \<Rightarrow> 's" where
  "client_info_set_version c value s = set_ptr c 2 (text_ptr c value) s"

definition client_info_set_arch :: "('s, 'p) capnp \<Rightarrow> string \<Rightarrow> 's \<Rightarrow> 's" where
  "client_info_set_arch c value s = set_ptr c 3 (text_ptr c value) s"

section \<open>The struct connection_options\<close>

definition connection_options_STRUCT_SIZE :: "nat \<times> nat" where
  "connection_options_STRUCT_SIZE = (1, 2)"

definition connection_options_get_client :: "('s, 'p) capnp \<Rightarrow> 's \<Rightarrow> string + 's" where
  "connection_options_get_client c s = ptr_struct c (get_ptr c 0 s)"

definition connection_options_has_client :: "('s, 'p) capnp \<Rightarrow> 's \<Rightarrow> bool" where
  "connection_options_has_client c s = (\<not> ptr_null c (get_ptr c 0 s))"

definition connection_options_get_origin_local_ip :: "('s, 'p) capnp \<Rightarrow> 's \<Rightarrow> string + bytes" where
  "connection_options_get_origin_local_ip c s = ptr_data c (get_ptr c 1 s)"

definition connection_options_has_origin_local_ip :: "('s, 'p) capnp \<Rightarrow> 's \<Rightarrow> bool" where
  "connection_options_has_origin_local_ip c s = (\<not> ptr_null c (get_ptr c 1 s))"

definition connection_options_get_replace_existing :: "('s, 'p) capnp \<Rightarrow> 's \<Rightarrow> bool" where
  "connection_options_get_replace_existing c s = (get_field c 1 0 s = 1)"

definition connection_options_get_compression_quality :: "('s, 'p) capnp \<Rightarrow> 's \<Rightarrow> u8" where
  "connection_options_get_compression_quality c s = word_of_nat (get_field c 8 1 s)"

definition connection_options_get_num_previous_attempts :: "('s, 'p) capnp \<Rightarrow> 's \<Rightarrow> u8" where
  "connection_options_get_num_previous_attempts c s = word_of_nat (get_field c 8 2 s)"

definition connection_options_set_client :: "('s, 'p) capnp \<Rightarrow> 's \<Rightarrow> 's \<Rightarrow> 's" where
  "connection_options_set_client c value s = set_ptr c 0 (struct_ptr c value) s"

definition connection_options_init_client :: "('s, 'p) capnp \<Rightarrow> ('s \<Rightarrow> 's) \<Rightarrow> 's \<Rightarrow> 's" where
  "connection_options_init_client c fill s =
     set_ptr c 0 (struct_ptr c (fill
       (new_struct c (fst client_info_STRUCT_SIZE) (snd client_info_STRUCT_SIZE)))) s"

definition connection_options_set_origin_local_ip :: "('s, 'p) capnp \<Rightarrow> bytes \<Rightarrow> 's \<Rightarrow> 's" where
  "connection_options_set_origin_local_ip c value s = set_ptr c 1 (data_ptr c value) s"

definition connection_options_set_replace_existing :: "('s, 'p) capnp \<Rightarrow> bool \<Rightarrow> 's \<Rightarrow> 's" where
  "connection_options_set_replace_existing c value s = set_field c 1 0 (of_bool value) s"

definition connection_options_set_compression_quality :: "('s, 'p) capnp \<Rightarrow> u8 \<Rightarrow> 's \<Rightarrow> 's" where
  "connection_options_set_compression_quality c value s = set_field c 8 1 (unat value) s"

definition connection_options_set_num_previous_attempts :: "('s, 'p) capnp \<Rightarrow> u8 \<Rightarrow> 's \<Rightarrow> 's" where
  "connection_options_set_num_previous_attempts c value s = set_field c 8 2 (unat value) s"

section \<open>The struct connection_error\<close>

definition connection_error_STRUCT_SIZE :: "nat \<times> nat" where
  "connection_error_STRUCT_SIZE = (2, 1)"

definition connection_error_get_cause :: "('s, 'p) capnp \<Rightarrow> 's \<Rightarrow> string + bytes" where
  "connection_error_get_cause c s = ptr_text c (get_ptr c 0 s)"

definition connection_error_has_cause :: "('s, 'p) capnp \<Rightarrow> 's \<Rightarrow> bool" where
  "connection_error_has_cause c s = (\<not> ptr_null c (get_ptr c 0 s))"

definition connection_error_get_retry_after :: "('s, 'p) capnp \<Rightarrow> 's \<Rightarrow> int" where
  "connection_error_get_retry_after c s = sint (word_of_nat (get_field c 64 0 s) :: u64)"

definition connection_error_get_should_retry :: "('s, 'p) capnp \<Rightarrow> 's \<Rightarrow> bool" where
  "connection_error_get_should_retry c s = (get_field c 1 64 s = 1)"

definition connection_error_set_cause :: "('s, 'p) capnp \<Rightarrow> string \<Rightarrow> 's \<Rightarrow> 's" where
  "connection_error_set_cause c value s = set_ptr c 0 (text_ptr c value) s"

definition connection_error_set_retry_after :: "('s, 'p) capnp \<Rightarrow> int \<Rightarrow> 's \<Rightarrow> 's" where
  "connection_error_set_retry_after c value s = set_field c 64 0 (unat (word_of_int value :: u64)) s"

definition connection_error_set_should_retry :: "('s, 'p) capnp \<Rightarrow> bool \<Rightarrow> 's \<Rightarrow> 's" where
  "connection_error_set_should_retry c value s = set_field c 1 64 (of_bool value) s"

section \<open>The struct connection_details\<close>

definition connection_details_STRUCT_SIZE :: "nat \<times> nat" where
  "connection_details_STRUCT_SIZE = (1, 2)"

definition connection_details_get_uuid :: "('s, 'p) capnp \<Rightarrow> 's \<Rightarrow> string + bytes" where
  "connection_details_get_uuid c s = ptr_data c (get_ptr c 0 s)"

definition connection_details_has_uuid :: "('s, 'p) capnp \<Rightarrow> 's \<Rightarrow> bool" where
  "connection_details_has_uuid c s = (\<not> ptr_null c (get_ptr c 0 s))"

definition connection_details_get_location_name :: "('s, 'p) capnp \<Rightarrow> 's \<Rightarrow> string + bytes" where
  "connection_details_get_location_name c s = ptr_text c (get_ptr c 1 s)"

definition connection_details_has_location_name :: "('s, 'p) capnp \<Rightarrow> 's \<Rightarrow> bool" where
  "connection_details_has_location_name c s = (\<not> ptr_null c (get_ptr c 1 s))"

definition connection_details_get_tunnel_is_remotely_managed :: "('s, 'p) capnp \<Rightarrow> 's \<Rightarrow> bool" where
  "connection_details_get_tunnel_is_remotely_managed c s = (get_field c 1 0 s = 1)"

definition connection_details_set_uuid :: "('s, 'p) capnp \<Rightarrow> bytes \<Rightarrow> 's \<Rightarrow> 's" where
  "connection_details_set_uuid c value s = set_ptr c 0 (data_ptr c value) s"

definition connection_details_set_location_name :: "('s, 'p) capnp \<Rightarrow> string \<Rightarrow> 's \<Rightarrow> 's" where
  "connection_details_set_location_name c value s = set_ptr c 1 (text_ptr c value) s"

definition connection_details_set_tunnel_is_remotely_managed :: "('s, 'p) capnp \<Rightarrow> bool \<Rightarrow> 's \<Rightarrow> 's" where
  "connection_details_set_tunnel_is_remotely_managed c value s = set_field c 1 0 (of_bool value) s"

section \<open>The struct connection_response\<close>

definition connection_response_STRUCT_SIZE :: "nat \<times> nat" where
  "connection_response_STRUCT_SIZE = (1, 1)"

section \<open>The struct result\<close>

definition response_result_STRUCT_SIZE :: "nat \<times> nat" where
  "response_result_STRUCT_SIZE = (1, 1)"

section \<open>The struct register_connection_params\<close>

definition register_connection_params_STRUCT_SIZE :: "nat \<times> nat" where
  "register_connection_params_STRUCT_SIZE = (1, 3)"

definition register_connection_params_get_auth :: "('s, 'p) capnp \<Rightarrow> 's \<Rightarrow> string + 's" where
  "register_connection_params_get_auth c s = ptr_struct c (get_ptr c 0 s)"

definition register_connection_params_has_auth :: "('s, 'p) capnp \<Rightarrow> 's \<Rightarrow> bool" where
  "register_connection_params_has_auth c s = (\<not> ptr_null c (get_ptr c 0 s))"

definition register_connection_params_get_tunnel_id :: "('s, 'p) capnp \<Rightarrow> 's \<Rightarrow> string + bytes" where
  "register_connection_params_get_tunnel_id c s = ptr_data c (get_ptr c 1 s)"

definition register_connection_params_has_tunnel_id :: "('s, 'p) capnp \<Rightarrow> 's \<Rightarrow> bool" where
  "register_connection_params_has_tunnel_id c s = (\<not> ptr_null c (get_ptr c 1 s))"

definition register_connection_params_get_conn_index :: "('s, 'p) capnp \<Rightarrow> 's \<Rightarrow> u8" where
  "register_connection_params_get_conn_index c s = word_of_nat (get_field c 8 0 s)"

definition register_connection_params_get_options :: "('s, 'p) capnp \<Rightarrow> 's \<Rightarrow> string + 's" where
  "register_connection_params_get_options c s = ptr_struct c (get_ptr c 2 s)"

definition register_connection_params_has_options :: "('s, 'p) capnp \<Rightarrow> 's \<Rightarrow> bool" where
  "register_connection_params_has_options c s = (\<not> ptr_null c (get_ptr c 2 s))"

definition register_connection_params_set_auth :: "('s, 'p) capnp \<Rightarrow> 's \<Rightarrow> 's \<Rightarrow> 's" where
  "register_connection_params_set_auth c value s = set_ptr c 0 (struct_ptr c value) s"

definition register_connection_params_init_auth :: "('s, 'p) capnp \<Rightarrow> ('s \<Rightarrow> 's) \<Rightarrow> 's \<Rightarrow> 's" where
  "register_connection_params_init_auth c fill s =
     set_ptr c 0 (struct_ptr c (fill
       (new_struct c (fst tunnel_auth_STRUCT_SIZE) (snd tunnel_auth_STRUCT_SIZE)))) s"

definition register_connection_params_set_tunnel_id :: "('s, 'p) capnp \<Rightarrow> bytes \<Rightarrow> 's \<Rightarrow> 's" where
  "register_connection_params_set_tunnel_id c value s = set_ptr c 1 (data_ptr c value) s"

definition register_connection_params_set_conn_index :: "('s, 'p) capnp \<Rightarrow> u8 \<Rightarrow> 's \<Rightarrow> 's" where
  "register_connection_params_set_conn_index c value s = set_field c 8 0 (unat value) s"

definition register_connection_params_set_options :: "('s, 'p) capnp \<Rightarrow> 's \<Rightarrow> 's \<Rightarrow> 's" where
  "register_connection_params_set_options c value s = set_ptr c 2 (struct_ptr c value) s"

definition register_connection_params_init_options :: "('s, 'p) capnp \<Rightarrow> ('s \<Rightarrow> 's) \<Rightarrow> 's \<Rightarrow> 's" where
  "register_connection_params_init_options c fill s =
     set_ptr c 2 (struct_ptr c (fill
       (new_struct c (fst connection_options_STRUCT_SIZE) (snd connection_options_STRUCT_SIZE)))) s"

section \<open>The struct register_connection_results\<close>

definition register_connection_results_STRUCT_SIZE :: "nat \<times> nat" where
  "register_connection_results_STRUCT_SIZE = (0, 1)"

definition register_connection_results_get_result :: "('s, 'p) capnp \<Rightarrow> 's \<Rightarrow> string + 's" where
  "register_connection_results_get_result c s = ptr_struct c (get_ptr c 0 s)"

definition register_connection_results_has_result :: "('s, 'p) capnp \<Rightarrow> 's \<Rightarrow> bool" where
  "register_connection_results_has_result c s = (\<not> ptr_null c (get_ptr c 0 s))"

definition register_connection_results_set_result :: "('s, 'p) capnp \<Rightarrow> 's \<Rightarrow> 's \<Rightarrow> 's" where
  "register_connection_results_set_result c value s = set_ptr c 0 (struct_ptr c value) s"

definition register_connection_results_init_result :: "('s, 'p) capnp \<Rightarrow> ('s \<Rightarrow> 's) \<Rightarrow> 's \<Rightarrow> 's" where
  "register_connection_results_init_result c fill s =
     set_ptr c 0 (struct_ptr c (fill
       (new_struct c (fst connection_response_STRUCT_SIZE) (snd connection_response_STRUCT_SIZE)))) s"

definition unregister_connection_params_STRUCT_SIZE :: "nat \<times> nat" where
  "unregister_connection_params_STRUCT_SIZE = (0, 0)"

section \<open>The group and union of connection_response\<close>

text \<open>\<open>get_result\<close> views the same struct as the group.\<close>

definition connection_response_get_result :: "'s \<Rightarrow> 's" where
  "connection_response_get_result s = s"

text \<open>
  The union: the tag, and for each member what reading its pointer gives. An unknown tag is an
  error that carries it.
\<close>

datatype 's which_result = WhichError "string + 's" | WhichConnectionDetails "string + 's"

definition response_result_which :: "('s, 'p) capnp \<Rightarrow> 's \<Rightarrow> nat + 's which_result" where
  "response_result_which c s =
     (let tag = get_field c 16 0 s in
      if tag = 0 then Inr (WhichError (ptr_struct c (get_ptr c 0 s)))
      else if tag = 1 then Inr (WhichConnectionDetails (ptr_struct c (get_ptr c 0 s)))
      else Inl tag)"

definition response_result_has_error :: "('s, 'p) capnp \<Rightarrow> 's \<Rightarrow> bool" where
  "response_result_has_error c s =
     (if get_field c 16 0 s \<noteq> 0 then False else \<not> ptr_null c (get_ptr c 0 s))"

definition response_result_has_connection_details :: "('s, 'p) capnp \<Rightarrow> 's \<Rightarrow> bool" where
  "response_result_has_connection_details c s =
     (if get_field c 16 0 s \<noteq> 1 then False else \<not> ptr_null c (get_ptr c 0 s))"

text \<open>The setters of the union write the tag first, as the edge's side does.\<close>

definition response_result_set_error :: "('s, 'p) capnp \<Rightarrow> 's \<Rightarrow> 's \<Rightarrow> 's" where
  "response_result_set_error c value s = set_ptr c 0 (struct_ptr c value) (set_field c 16 0 0 s)"

definition response_result_set_connection_details :: "('s, 'p) capnp \<Rightarrow> 's \<Rightarrow> 's \<Rightarrow> 's" where
  "response_result_set_connection_details c value s =
     set_ptr c 0 (struct_ptr c value) (set_field c 16 0 1 s)"

definition response_result_init_error :: "('s, 'p) capnp \<Rightarrow> ('s \<Rightarrow> 's) \<Rightarrow> 's \<Rightarrow> 's" where
  "response_result_init_error c fill s =
     set_ptr c 0 (struct_ptr c (fill
       (new_struct c (fst connection_error_STRUCT_SIZE) (snd connection_error_STRUCT_SIZE))))
       (set_field c 16 0 0 s)"

definition response_result_init_connection_details :: "('s, 'p) capnp \<Rightarrow> ('s \<Rightarrow> 's) \<Rightarrow> 's \<Rightarrow> 's" where
  "response_result_init_connection_details c fill s =
     set_ptr c 0 (struct_ptr c (fill
       (new_struct c (fst connection_details_STRUCT_SIZE) (snd connection_details_STRUCT_SIZE))))
       (set_field c 16 0 1 s)"

section \<open>Interfaces\<close>

text \<open>A call to be sent: the interface, the method, and the parameter struct.\<close>

record 's rpc_request =
  rq_interface :: u64
  rq_method :: u16
  rq_params :: 's

definition registration_server_TYPE_ID :: u64 where
  "registration_server_TYPE_ID = 0xf71695ec7fe85497"

definition session_manager_TYPE_ID :: u64 where
  "session_manager_TYPE_ID = 0x839445a59fb01686"

definition configuration_manager_TYPE_ID :: u64 where
  "configuration_manager_TYPE_ID = 0xb48edfbdaa25db04"

definition cloudflared_server_TYPE_ID :: u64 where
  "cloudflared_server_TYPE_ID = 0xf548cef9dea2a4a1"

definition register_connection_request :: "('s, 'p) capnp \<Rightarrow> 's rpc_request" where
  "register_connection_request c =
     \<lparr>rq_interface = registration_server_TYPE_ID, rq_method = 0,
      rq_params = new_struct c (fst register_connection_params_STRUCT_SIZE)
                               (snd register_connection_params_STRUCT_SIZE)\<rparr>"

definition unregister_connection_request :: "('s, 'p) capnp \<Rightarrow> 's rpc_request" where
  "unregister_connection_request c =
     \<lparr>rq_interface = registration_server_TYPE_ID, rq_method = 1,
      rq_params = new_struct c (fst unregister_connection_params_STRUCT_SIZE)
                               (snd unregister_connection_params_STRUCT_SIZE)\<rparr>"

section \<open>Dispatch on the served side\<close>

datatype rpc_error = Unimplemented string

datatype server_method = RegisterUdpSession | UnregisterUdpSession | UpdateConfiguration

type_synonym 'r server = "server_method \<Rightarrow> rpc_error + 'r"

text \<open>The default methods of the generated server traits.\<close>

fun default_method :: "'r server" where
  "default_method RegisterUdpSession =
     Inl (Unimplemented ''method session_manager::Server::register_udp_session not implemented'')"
| "default_method UnregisterUdpSession =
     Inl (Unimplemented ''method session_manager::Server::unregister_udp_session not implemented'')"
| "default_method UpdateConfiguration =
     Inl (Unimplemented ''method configuration_manager::Server::update_configuration not implemented'')"

definition session_manager_dispatch :: "'r server \<Rightarrow> u16 \<Rightarrow> rpc_error + 'r" where
  "session_manager_dispatch server method_id =
     (if method_id = 0 then server RegisterUdpSession
      else if method_id = 1 then server UnregisterUdpSession
      else Inl (Unimplemented ''Method not implemented.''))"

definition configuration_manager_dispatch :: "'r server \<Rightarrow> u16 \<Rightarrow> rpc_error + 'r" where
  "configuration_manager_dispatch server method_id =
     (if method_id = 0 then server UpdateConfiguration
      else Inl (Unimplemented ''Method not implemented.''))"

definition cloudflared_server_dispatch_internal :: "'r server \<Rightarrow> u16 \<Rightarrow> rpc_error + 'r" where
  "cloudflared_server_dispatch_internal server method_id =
     Inl (Unimplemented ''Method not implemented.'')"

definition cloudflared_server_dispatch :: "'r server \<Rightarrow> u64 \<Rightarrow> u16 \<Rightarrow> rpc_error + 'r" where
  "cloudflared_server_dispatch server interface_id method_id =
     (if interface_id = cloudflared_server_TYPE_ID
      then cloudflared_server_dispatch_internal server method_id
      else if interface_id = 0x839445a59fb01686 then session_manager_dispatch server method_id
      else if interface_id = 0xb48edfbdaa25db04 then configuration_manager_dispatch server method_id
      else Inl (Unimplemented ''Method not implemented.''))"

lemmas dispatch_defs =
  session_manager_dispatch_def configuration_manager_dispatch_def
  cloudflared_server_dispatch_internal_def cloudflared_server_dispatch_def

section \<open>Initialisers of texts and blobs\<close>

text \<open>The builder of a fresh text or blob of the given length is filled in place by the caller.\<close>

definition tunnel_auth_init_account_tag :: "('s, 'p) capnp \<Rightarrow> nat \<Rightarrow> (bytes \<Rightarrow> bytes) \<Rightarrow> 's \<Rightarrow> 's" where
  "tunnel_auth_init_account_tag c n fill s = set_ptr c 0 (text_ptr c (fill (replicate n (CHR 0x00)))) s"

definition tunnel_auth_init_tunnel_secret :: "('s, 'p) capnp \<Rightarrow> nat \<Rightarrow> (bytes \<Rightarrow> bytes) \<Rightarrow> 's \<Rightarrow> 's" where
  "tunnel_auth_init_tunnel_secret c n fill s = set_ptr c 1 (data_ptr c (fill (replicate n (CHR 0x00)))) s"

definition client_info_init_client_id :: "('s, 'p) capnp \<Rightarrow> nat \<Rightarrow> (bytes \<Rightarrow> bytes) \<Rightarrow> 's \<Rightarrow> 's" where
  "client_info_init_client_id c n fill s = set_ptr c 0 (data_ptr c (fill (replicate n (CHR 0x00)))) s"

definition client_info_init_version :: "('s, 'p) capnp \<Rightarrow> nat \<Rightarrow> (bytes \<Rightarrow> bytes) \<Rightarrow> 's \<Rightarrow> 's" where
  "client_info_init_version c n fill s = set_ptr c 2 (text_ptr c (fill (replicate n (CHR 0x00)))) s"

definition client_info_init_arch :: "('s, 'p) capnp \<Rightarrow> nat \<Rightarrow> (bytes \<Rightarrow> bytes) \<Rightarrow> 's \<Rightarrow> 's" where
  "client_info_init_arch c n fill s = set_ptr c 3 (text_ptr c (fill (replicate n (CHR 0x00)))) s"

definition connection_options_init_origin_local_ip :: "('s, 'p) capnp \<Rightarrow> nat \<Rightarrow> (bytes \<Rightarrow> bytes) \<Rightarrow> 's \<Rightarrow> 's" where
  "connection_options_init_origin_local_ip c n fill s = set_ptr c 1 (data_ptr c (fill (replicate n (CHR 0x00)))) s"

definition connection_error_init_cause :: "('s, 'p) capnp \<Rightarrow> nat \<Rightarrow> (bytes \<Rightarrow> bytes) \<Rightarrow> 's \<Rightarrow> 's" where
  "connection_error_init_cause c n fill s = set_ptr c 0 (text_ptr c (fill (replicate n (CHR 0x00)))) s"

definition connection_details_init_uuid :: "('s, 'p) capnp \<Rightarrow> nat \<Rightarrow> (bytes \<Rightarrow> bytes) \<Rightarrow> 's \<Rightarrow> 's" where
  "connection_details_init_uuid c n fill s = set_ptr c 0 (data_ptr c (fill (replicate n (CHR 0x00)))) s"

definition connection_details_init_location_name :: "('s, 'p) capnp \<Rightarrow> nat \<Rightarrow> (bytes \<Rightarrow> bytes) \<Rightarrow> 's \<Rightarrow> 's" where
  "connection_details_init_location_name c n fill s = set_ptr c 1 (text_ptr c (fill (replicate n (CHR 0x00)))) s"

definition register_connection_params_init_tunnel_id :: "('s, 'p) capnp \<Rightarrow> nat \<Rightarrow> (bytes \<Rightarrow> bytes) \<Rightarrow> 's \<Rightarrow> 's" where
  "register_connection_params_init_tunnel_id c n fill s = set_ptr c 1 (data_ptr c (fill (replicate n (CHR 0x00)))) s"

lemmas tunnel_rpc_schema_init_defs =
  tunnel_auth_init_account_tag_def tunnel_auth_init_tunnel_secret_def client_info_init_client_id_def
  client_info_init_version_def client_info_init_arch_def connection_options_init_origin_local_ip_def
  connection_error_init_cause_def connection_details_init_uuid_def
  connection_details_init_location_name_def register_connection_params_init_tunnel_id_def


lemmas tunnel_rpc_defs =
  tunnel_auth_STRUCT_SIZE_def
  tunnel_auth_get_account_tag_def
  tunnel_auth_has_account_tag_def
  tunnel_auth_get_tunnel_secret_def
  tunnel_auth_has_tunnel_secret_def
  tunnel_auth_set_account_tag_def
  tunnel_auth_set_tunnel_secret_def
  client_info_STRUCT_SIZE_def
  client_info_get_client_id_def
  client_info_has_client_id_def
  client_info_get_features_def
  client_info_has_features_def
  client_info_get_version_def
  client_info_has_version_def
  client_info_get_arch_def
  client_info_has_arch_def
  client_info_set_client_id_def
  client_info_set_features_def
  client_info_init_features_def
  client_info_set_version_def
  client_info_set_arch_def
  connection_options_STRUCT_SIZE_def
  connection_options_get_client_def
  connection_options_has_client_def
  connection_options_get_origin_local_ip_def
  connection_options_has_origin_local_ip_def
  connection_options_get_replace_existing_def
  connection_options_get_compression_quality_def
  connection_options_get_num_previous_attempts_def
  connection_options_set_client_def
  connection_options_init_client_def
  connection_options_set_origin_local_ip_def
  connection_options_set_replace_existing_def
  connection_options_set_compression_quality_def
  connection_options_set_num_previous_attempts_def
  connection_error_STRUCT_SIZE_def
  connection_error_get_cause_def
  connection_error_has_cause_def
  connection_error_get_retry_after_def
  connection_error_get_should_retry_def
  connection_error_set_cause_def
  connection_error_set_retry_after_def
  connection_error_set_should_retry_def
  connection_details_STRUCT_SIZE_def
  connection_details_get_uuid_def
  connection_details_has_uuid_def
  connection_details_get_location_name_def
  connection_details_has_location_name_def
  connection_details_get_tunnel_is_remotely_managed_def
  connection_details_set_uuid_def
  connection_details_set_location_name_def
  connection_details_set_tunnel_is_remotely_managed_def
  connection_response_STRUCT_SIZE_def
  response_result_STRUCT_SIZE_def
  register_connection_params_STRUCT_SIZE_def
  register_connection_params_get_auth_def
  register_connection_params_has_auth_def
  register_connection_params_get_tunnel_id_def
  register_connection_params_has_tunnel_id_def
  register_connection_params_get_conn_index_def
  register_connection_params_get_options_def
  register_connection_params_has_options_def
  register_connection_params_set_auth_def
  register_connection_params_init_auth_def
  register_connection_params_set_tunnel_id_def
  register_connection_params_set_conn_index_def
  register_connection_params_set_options_def
  register_connection_params_init_options_def
  register_connection_results_STRUCT_SIZE_def
  register_connection_results_get_result_def
  register_connection_results_has_result_def
  register_connection_results_set_result_def
  register_connection_results_init_result_def
  connection_response_get_result_def
  response_result_which_def

end
