(* ===== verification/Connect_Request.thy ===== *)
theory Connect_Request
  imports Prelude
begin

text \<open>
  The data of \<^verbatim>\<open>src/stream.rs\<close>: what kind of stream the edge opened, the parsed request, and
  the constants of the framing.
\<close>

definition DATA_STREAM_SIGNATURE :: bytes where
  "DATA_STREAM_SIGNATURE = [CHR 0x0A, CHR 0x36, CHR 0xCD, CHR 0x12, CHR 0xA1, CHR 0x3E]"

definition RPC_STREAM_SIGNATURE :: bytes where
  "RPC_STREAM_SIGNATURE = [CHR 0x52, CHR 0xBB, CHR 0x82, CHR 0x5C, CHR 0xDB, CHR 0x65]"

definition PROTOCOL_V1 :: bytes where
  "PROTOCOL_V1 = ''01''"

datatype connection_type = Http | Websocket | Tcp

record connect_request =
  dest :: string
  conn_type :: connection_type
  metadata :: "(string \<times> string) list"

definition meta :: "connect_request \<Rightarrow> string \<Rightarrow> string option" where
  "meta req key = map_option snd (find (\<lambda>(k, v). k = key) (metadata req))"

definition HTTP_METHOD_KEY :: string where
  "HTTP_METHOD_KEY = ''HttpMethod''"

definition HTTP_HOST_KEY :: string where
  "HTTP_HOST_KEY = ''HttpHost''"

definition HTTP_HEADER_KEY :: string where
  "HTTP_HEADER_KEY = ''HttpHeader''"

definition HTTP_STATUS_KEY :: string where
  "HTTP_STATUS_KEY = ''HttpStatus''"

text \<open>The linear lookup finds the first entry of a key, as a map built from the list would.\<close>

lemma meta_map_of: "meta req key = map_of (metadata req) key"
proof -
  have "map_option snd (find (\<lambda>(k, v). k = key) xs) = map_of xs key" for xs :: "(string \<times> string) list"
    by (induction xs) auto
  then show ?thesis by (simp add: meta_def)
qed

text \<open>The headers of a request: the metadata under the header prefix, without it.\<close>

definition header_of :: "string \<times> string \<Rightarrow> (string \<times> string) option" where
  "header_of kv =
     map_option (\<lambda>name. (name, snd kv)) (strip_prefix (HTTP_HEADER_KEY @ '':'') (fst kv))"

definition request_headers :: "connect_request \<Rightarrow> (string \<times> string) list" where
  "request_headers req = List.map_filter header_of (metadata req)"

lemma request_headers_simps:
  "List.map_filter header_of [] = []"
  "List.map_filter header_of ((k, v) # kvs) =
     (case strip_prefix (HTTP_HEADER_KEY @ '':'') k of
        None \<Rightarrow> List.map_filter header_of kvs
      | Some name \<Rightarrow> (name, v) # List.map_filter header_of kvs)"
  by (simp_all add: List.map_filter_simps header_of_def split: option.splits)

end
