(* ===== verification/Quic_Metadata.thy ===== *)
theory Quic_Metadata
  imports Capnp
begin

text \<open>
  The generated accessors of \<^verbatim>\<open>src/proto_gen/quic_metadata_protocol_capnp.rs\<close>: the messages on
  a request stream. A getter reads one pointer or one field of the data section; a setter
  writes it. An \<open>init\<close> that hands out a builder of a part of the message takes, instead, the
  function by which its caller fills that part in place.
\<close>

section \<open>The enum ConnectionType\<close>

datatype wire_connection_type = WireHttp | WireWebsocket | WireTcp

text \<open>\<open>TryFrom<u16>\<close>; the error carries the unknown value.\<close>

definition connection_type_try_from :: "nat \<Rightarrow> nat + wire_connection_type" where
  "connection_type_try_from value =
     (if value = 0 then Inr WireHttp
      else if value = 1 then Inr WireWebsocket
      else if value = 2 then Inr WireTcp
      else Inl value)"

fun connection_type_into :: "wire_connection_type \<Rightarrow> nat" where
  "connection_type_into WireHttp = 0"
| "connection_type_into WireWebsocket = 1"
| "connection_type_into WireTcp = 2"

lemma connection_type_roundtrip [simp]: "connection_type_try_from (connection_type_into t) = Inr t"
  by (cases t) (simp_all add: connection_type_try_from_def)

lemma connection_type_into_bound: "connection_type_into t < 3"
  by (cases t) simp_all

section \<open>The struct metadata\<close>

definition metadata_STRUCT_SIZE :: "nat \<times> nat" where
  "metadata_STRUCT_SIZE = (0, 2)"

definition metadata_get_key :: "('s, 'p) capnp \<Rightarrow> 's \<Rightarrow> string + bytes" where
  "metadata_get_key c s = ptr_text c (get_ptr c 0 s)"

definition metadata_has_key :: "('s, 'p) capnp \<Rightarrow> 's \<Rightarrow> bool" where
  "metadata_has_key c s = (\<not> ptr_null c (get_ptr c 0 s))"

definition metadata_get_val :: "('s, 'p) capnp \<Rightarrow> 's \<Rightarrow> string + bytes" where
  "metadata_get_val c s = ptr_text c (get_ptr c 1 s)"

definition metadata_has_val :: "('s, 'p) capnp \<Rightarrow> 's \<Rightarrow> bool" where
  "metadata_has_val c s = (\<not> ptr_null c (get_ptr c 1 s))"

definition metadata_set_key :: "('s, 'p) capnp \<Rightarrow> string \<Rightarrow> 's \<Rightarrow> 's" where
  "metadata_set_key c value s = set_ptr c 0 (text_ptr c value) s"

definition metadata_set_val :: "('s, 'p) capnp \<Rightarrow> string \<Rightarrow> 's \<Rightarrow> 's" where
  "metadata_set_val c value s = set_ptr c 1 (text_ptr c value) s"

section \<open>The struct connect_request\<close>

definition connect_request_STRUCT_SIZE :: "nat \<times> nat" where
  "connect_request_STRUCT_SIZE = (1, 2)"

definition connect_request_get_dest :: "('s, 'p) capnp \<Rightarrow> 's \<Rightarrow> string + bytes" where
  "connect_request_get_dest c s = ptr_text c (get_ptr c 0 s)"

definition connect_request_has_dest :: "('s, 'p) capnp \<Rightarrow> 's \<Rightarrow> bool" where
  "connect_request_has_dest c s = (\<not> ptr_null c (get_ptr c 0 s))"

definition connect_request_get_type :: "('s, 'p) capnp \<Rightarrow> 's \<Rightarrow> nat + wire_connection_type" where
  "connect_request_get_type c s = connection_type_try_from (get_field c 16 0 s)"

definition connect_request_get_metadata :: "('s, 'p) capnp \<Rightarrow> 's \<Rightarrow> string + 's list" where
  "connect_request_get_metadata c s = ptr_structs c (get_ptr c 1 s)"

definition connect_request_has_metadata :: "('s, 'p) capnp \<Rightarrow> 's \<Rightarrow> bool" where
  "connect_request_has_metadata c s = (\<not> ptr_null c (get_ptr c 1 s))"

definition connect_request_set_dest :: "('s, 'p) capnp \<Rightarrow> string \<Rightarrow> 's \<Rightarrow> 's" where
  "connect_request_set_dest c value s = set_ptr c 0 (text_ptr c value) s"

definition connect_request_set_type :: "('s, 'p) capnp \<Rightarrow> wire_connection_type \<Rightarrow> 's \<Rightarrow> 's" where
  "connect_request_set_type c value s = set_field c 16 0 (connection_type_into value) s"

definition connect_request_set_metadata :: "('s, 'p) capnp \<Rightarrow> 's list \<Rightarrow> 's \<Rightarrow> 's" where
  "connect_request_set_metadata c value s = set_ptr c 1 (structs_ptr c value) s"

definition connect_request_init_metadata :: "('s, 'p) capnp \<Rightarrow> nat \<Rightarrow> ('s list \<Rightarrow> 's list) \<Rightarrow> 's \<Rightarrow> 's" where
  "connect_request_init_metadata c n fill s =
     set_ptr c 1 (structs_ptr c (fill (replicate n
       (new_struct c (fst metadata_STRUCT_SIZE) (snd metadata_STRUCT_SIZE))))) s"

section \<open>The struct connect_response\<close>

definition connect_response_STRUCT_SIZE :: "nat \<times> nat" where
  "connect_response_STRUCT_SIZE = (0, 2)"

definition connect_response_get_error :: "('s, 'p) capnp \<Rightarrow> 's \<Rightarrow> string + bytes" where
  "connect_response_get_error c s = ptr_text c (get_ptr c 0 s)"

definition connect_response_has_error :: "('s, 'p) capnp \<Rightarrow> 's \<Rightarrow> bool" where
  "connect_response_has_error c s = (\<not> ptr_null c (get_ptr c 0 s))"

definition connect_response_get_metadata :: "('s, 'p) capnp \<Rightarrow> 's \<Rightarrow> string + 's list" where
  "connect_response_get_metadata c s = ptr_structs c (get_ptr c 1 s)"

definition connect_response_has_metadata :: "('s, 'p) capnp \<Rightarrow> 's \<Rightarrow> bool" where
  "connect_response_has_metadata c s = (\<not> ptr_null c (get_ptr c 1 s))"

definition connect_response_set_error :: "('s, 'p) capnp \<Rightarrow> string \<Rightarrow> 's \<Rightarrow> 's" where
  "connect_response_set_error c value s = set_ptr c 0 (text_ptr c value) s"

definition connect_response_set_metadata :: "('s, 'p) capnp \<Rightarrow> 's list \<Rightarrow> 's \<Rightarrow> 's" where
  "connect_response_set_metadata c value s = set_ptr c 1 (structs_ptr c value) s"

definition connect_response_init_metadata :: "('s, 'p) capnp \<Rightarrow> nat \<Rightarrow> ('s list \<Rightarrow> 's list) \<Rightarrow> 's \<Rightarrow> 's" where
  "connect_response_init_metadata c n fill s =
     set_ptr c 1 (structs_ptr c (fill (replicate n
       (new_struct c (fst metadata_STRUCT_SIZE) (snd metadata_STRUCT_SIZE))))) s"
section \<open>Initialisers of texts and blobs\<close>

text \<open>The builder of a fresh text or blob of the given length is filled in place by the caller.\<close>

definition metadata_init_key :: "('s, 'p) capnp \<Rightarrow> nat \<Rightarrow> (bytes \<Rightarrow> bytes) \<Rightarrow> 's \<Rightarrow> 's" where
  "metadata_init_key c n fill s = set_ptr c 0 (text_ptr c (fill (replicate n (CHR 0x00)))) s"

definition metadata_init_val :: "('s, 'p) capnp \<Rightarrow> nat \<Rightarrow> (bytes \<Rightarrow> bytes) \<Rightarrow> 's \<Rightarrow> 's" where
  "metadata_init_val c n fill s = set_ptr c 1 (text_ptr c (fill (replicate n (CHR 0x00)))) s"

definition connect_request_init_dest :: "('s, 'p) capnp \<Rightarrow> nat \<Rightarrow> (bytes \<Rightarrow> bytes) \<Rightarrow> 's \<Rightarrow> 's" where
  "connect_request_init_dest c n fill s = set_ptr c 0 (text_ptr c (fill (replicate n (CHR 0x00)))) s"

definition connect_response_init_error :: "('s, 'p) capnp \<Rightarrow> nat \<Rightarrow> (bytes \<Rightarrow> bytes) \<Rightarrow> 's \<Rightarrow> 's" where
  "connect_response_init_error c n fill s = set_ptr c 0 (text_ptr c (fill (replicate n (CHR 0x00)))) s"

lemmas quic_metadata_init_defs =
  metadata_init_key_def metadata_init_val_def connect_request_init_dest_def
  connect_response_init_error_def


lemmas quic_metadata_defs =
  metadata_STRUCT_SIZE_def
  metadata_get_key_def
  metadata_has_key_def
  metadata_get_val_def
  metadata_has_val_def
  metadata_set_key_def
  metadata_set_val_def
  connect_request_STRUCT_SIZE_def
  connect_request_get_dest_def
  connect_request_has_dest_def
  connect_request_get_type_def
  connect_request_get_metadata_def
  connect_request_has_metadata_def
  connect_request_set_dest_def
  connect_request_set_type_def
  connect_request_set_metadata_def
  connect_request_init_metadata_def
  connect_response_STRUCT_SIZE_def
  connect_response_get_error_def
  connect_response_has_error_def
  connect_response_get_metadata_def
  connect_response_has_metadata_def
  connect_response_set_error_def
  connect_response_set_metadata_def
  connect_response_init_metadata_def

end
