(* ===== verification/Stream_Framing.thy ===== *)
theory Stream_Framing
  imports Connect_Request Quic_Metadata Tunnel_Error
begin

text \<open>
  The framing of \<^verbatim>\<open>src/stream.rs\<close>: reading a \<open>ConnectRequest\<close> off a stream the edge opened, and
  writing the \<open>ConnectResponse\<close> back. The Cap'n Proto library is the parameter \<open>c\<close>.
\<close>

text \<open>
  \<open>split\<close>: a QUIC stream's halves in the order in which the framing takes them. The adapters between
  the two sets of stream traits do not change the bytes.
\<close>

definition split_stream :: "sink \<Rightarrow> source \<Rightarrow> source \<times> sink" where
  "split_stream send recv = (recv, send)"

section \<open>Reading a request\<close>

definition hex_digit :: "nat \<Rightarrow> char" where
  "hex_digit d = (if d < 10 then char_of (48 + d) else char_of (87 + d))"

definition hex2 :: "byte \<Rightarrow> string" where
  "hex2 b = [hex_digit (code_of b div 16), hex_digit (code_of b mod 16)]"

text \<open>The format \<open>{:02x?}\<close> of a byte array.\<close>

fun hex_items :: "bytes \<Rightarrow> string" where
  "hex_items [] = []"
| "hex_items [b] = hex2 b"
| "hex_items (b # bs) = hex2 b @ '', '' @ hex_items bs"

definition hex_debug :: "bytes \<Rightarrow> string" where
  "hex_debug bs = ''['' @ hex_items bs @ '']''"

text \<open>\<open>.ok().and_then(|t| t.to_string().ok()).unwrap_or_default()\<close>\<close>

definition text_or_default :: "('s, 'p) capnp \<Rightarrow> string + bytes \<Rightarrow> string" where
  "text_or_default c r =
     (case r of Inl e \<Rightarrow> []
      | Inr t \<Rightarrow> (case text_to_string c t of Inl e \<Rightarrow> [] | Inr s \<Rightarrow> s))"

fun read_metadata :: "('s, 'p) capnp \<Rightarrow> 's list \<Rightarrow> (string \<times> string) list \<Rightarrow> (string \<times> string) list" where
  "read_metadata c [] acc = acc"
| "read_metadata c (m # ms) acc =
     (let k = text_or_default c (metadata_get_key c m);
          v = text_or_default c (metadata_get_val c m)
      in read_metadata c ms (acc @ [(k, v)]))"

text \<open>The part of \<open>read_connect_request\<close> after the message has arrived.\<close>

definition decode_connect_request :: "('s, 'p) capnp \<Rightarrow> 'p \<Rightarrow> tunnel_error + connect_request" where
  "decode_connect_request c msg =
     (case ptr_struct c msg of
        Inl e \<Rightarrow> Inl (Internal (''capnp root: '' @ e))
      | Inr root \<Rightarrow>
     (case connect_request_get_dest c root of
        Inl e \<Rightarrow> Inl (Internal (''dest: '' @ e))
      | Inr dest_text \<Rightarrow>
     (case text_to_string c dest_text of
        Inl e \<Rightarrow> Inl (Internal (''dest utf-8: '' @ e))
      | Inr d \<Rightarrow>
     (case connect_request_get_type c root of
        Inl n \<Rightarrow> Inl (Internal (''type: '' @ not_in_schema c n))
      | Inr ty \<Rightarrow>
          (let ct = (case ty of WireHttp \<Rightarrow> Http | WireWebsocket \<Rightarrow> Websocket | WireTcp \<Rightarrow> Tcp);
               md = (case connect_request_get_metadata c root of
                             Inl e \<Rightarrow> [] | Inr list \<Rightarrow> read_metadata c list [])
           in Inr \<lparr>dest = d, conn_type = ct, metadata = md\<rparr>)))))"

definition read_connect_request ::
  "('s, 'p) capnp \<Rightarrow> source \<Rightarrow> (tunnel_error, connect_request) outcome \<times> source" where
  "read_connect_request c reader =
     and_then (io_err (\<lambda>e. Internal (''read signature: '' @ e)) (read_exact 6 reader)) (\<lambda>sig reader.
     if sig \<noteq> DATA_STREAM_SIGNATURE
     then (Failed (Internal (''unexpected stream signature: '' @ hex_debug sig)), reader)
     else
     and_then (io_err (\<lambda>e. Internal (''read version: '' @ e)) (read_exact 2 reader)) (\<lambda>ver reader.
     and_then (io_err (\<lambda>e. Internal (''read capnp message: '' @ e)) (read_message c reader)) (\<lambda>msg reader.
     (of_result (decode_connect_request c msg), reader))))"

section \<open>Writing a response\<close>

type_synonym meta_pair = "string \<times> string"

text \<open>The loop that fills the metadata list; \<open>i\<close> is the index of the entry.\<close>

fun fill_metadata :: "('s, 'p) capnp \<Rightarrow> nat \<Rightarrow> meta_pair list \<Rightarrow> 's list \<Rightarrow> 's list" where
  "fill_metadata c i [] entries = entries"
| "fill_metadata c i ((k, v) # kvs) entries =
     (let entry = metadata_set_val c v (metadata_set_key c k (entries ! i))
      in fill_metadata c (Suc i) kvs (entries[i := entry]))"

definition build_connect_response :: "('s, 'p) capnp \<Rightarrow> string \<Rightarrow> meta_pair list \<Rightarrow> 's" where
  "build_connect_response c error md =
     (let root = new_struct c (fst connect_response_STRUCT_SIZE) (snd connect_response_STRUCT_SIZE);
          root = connect_response_set_error c error root
      in connect_response_init_metadata c (length md) (fill_metadata c 0 md) root)"

definition write_connect_response ::
  "('s, 'p) capnp \<Rightarrow> string \<Rightarrow> meta_pair list \<Rightarrow> sink \<Rightarrow> (tunnel_error, unit) outcome \<times> sink" where
  "write_connect_response c error md writer =
     and_then (io_err (\<lambda>e. Internal (''write signature: '' @ e)) (write_all DATA_STREAM_SIGNATURE writer)) (\<lambda>_ writer.
     and_then (io_err (\<lambda>e. Internal (''write version: '' @ e)) (write_all PROTOCOL_V1 writer)) (\<lambda>_ writer.
     (let msg = build_connect_response c error md in
      and_then (io_err (\<lambda>e. Internal (''write capnp: '' @ e)) (write_all (write_message c msg) writer)) (\<lambda>_ writer.
      io_err (\<lambda>e. Internal (''flush: '' @ e)) (flush_sink writer)))))"

section \<open>What goes over the wire\<close>

definition response_frame :: "('s, 'p) capnp \<Rightarrow> string \<Rightarrow> meta_pair list \<Rightarrow> bytes" where
  "response_frame c error md =
     DATA_STREAM_SIGNATURE @ PROTOCOL_V1 @ write_message c (build_connect_response c error md)"

lemma write_connect_response_healthy [io_simps]:
  "healthy k \<Longrightarrow>
   write_connect_response c error md k = (Done (), k\<lparr>written := written k @ response_frame c error md\<rparr>)"
  by (simp add: write_connect_response_def response_frame_def io_simps Let_def)

lemma write_connect_response_Done:
  "write_connect_response c error md k = (Done u, k') \<Longrightarrow>
   written k' = written k @ response_frame c error md"
  by (auto simp: write_connect_response_def response_frame_def and_then_Done_iff Let_def flush_sink_def
           dest!: write_all_Done split: option.splits)

lemma read_metadata_eq:
  "read_metadata c ms acc =
   acc @ map (\<lambda>m. (text_or_default c (metadata_get_key c m), text_or_default c (metadata_get_val c m))) ms"
  by (induction ms arbitrary: acc) (simp_all add: Let_def)

text \<open>The metadata entry a pair is written as.\<close>

definition meta_entry :: "('s, 'p) capnp \<Rightarrow> meta_pair \<Rightarrow> 's" where
  "meta_entry c kv =
     metadata_set_val c (snd kv) (metadata_set_key c (fst kv)
       (new_struct c (fst metadata_STRUCT_SIZE) (snd metadata_STRUCT_SIZE)))"

lemma fill_metadata_gen:
  "length ds = i \<Longrightarrow>
   fill_metadata c i kvs
     (ds @ replicate (length kvs) (new_struct c (fst metadata_STRUCT_SIZE) (snd metadata_STRUCT_SIZE)))
   = ds @ map (meta_entry c) kvs"
proof (induction kvs arbitrary: i ds)
  case (Cons kv kvs)
  obtain k v where kv: "kv = (k, v)" by (cases kv)
  let ?new = "new_struct c (fst metadata_STRUCT_SIZE) (snd metadata_STRUCT_SIZE)"
  let ?entry = "metadata_set_val c v (metadata_set_key c k ?new)"
  have "(ds @ replicate (length (kv # kvs)) ?new) ! i = ?new"
    using Cons.prems by (simp add: nth_append)
  moreover have "(ds @ replicate (length (kv # kvs)) ?new)[i := ?entry]
      = (ds @ [?entry]) @ replicate (length kvs) ?new"
    using Cons.prems by (simp add: list_update_append)
  ultimately show ?case
    using Cons.IH [of "ds @ [?entry]" "Suc i"] Cons.prems
    by (simp add: kv Let_def meta_entry_def)
qed simp

lemma fill_metadata_eq:
  "fill_metadata c 0 kvs
     (replicate (length kvs) (new_struct c (fst metadata_STRUCT_SIZE) (snd metadata_STRUCT_SIZE)))
   = map (meta_entry c) kvs"
  using fill_metadata_gen [of "[]" 0 c kvs] by simp

lemma build_connect_response_eq:
  "build_connect_response c error md =
   connect_response_set_metadata c (map (meta_entry c) md)
     (connect_response_set_error c error
       (new_struct c (fst connect_response_STRUCT_SIZE) (snd connect_response_STRUCT_SIZE)))"
  by (simp add: build_connect_response_def connect_response_init_metadata_def
      connect_response_set_metadata_def fill_metadata_eq Let_def)

section \<open>The message a peer would write as a request\<close>

text \<open>The generated setters, used as the edge's side uses them.\<close>

definition edge_request :: "('s, 'p) capnp \<Rightarrow> string \<Rightarrow> wire_connection_type \<Rightarrow> meta_pair list \<Rightarrow> 's" where
  "edge_request c d ty md =
     connect_request_set_metadata c (map (meta_entry c) md)
       (connect_request_set_type c ty
         (connect_request_set_dest c d
           (new_struct c (fst connect_request_STRUCT_SIZE) (snd connect_request_STRUCT_SIZE))))"

definition of_wire :: "wire_connection_type \<Rightarrow> connection_type" where
  "of_wire ty = (case ty of WireHttp \<Rightarrow> Http | WireWebsocket \<Rightarrow> Websocket | WireTcp \<Rightarrow> Tcp)"

context capnp_api
begin

lemma text_or_default_utf8: "utf8_ok t \<Longrightarrow> text_or_default c (Inr t) = t"
  by (simp add: text_or_default_def text_to_string_def from_utf8_def)

lemma meta_entry_key: "metadata_get_key c (meta_entry c kv) = Inr (fst kv)"
  by (simp add: meta_entry_def metadata_get_key_def metadata_set_key_def metadata_set_val_def
      metadata_STRUCT_SIZE_def layout_simps)

lemma meta_entry_val: "metadata_get_val c (meta_entry c kv) = Inr (snd kv)"
  by (simp add: meta_entry_def metadata_get_val_def metadata_set_key_def metadata_set_val_def
      metadata_STRUCT_SIZE_def layout_simps)

lemma read_metadata_entries:
  assumes "\<forall>(k, v) \<in> set md. utf8_ok k \<and> utf8_ok v"
  shows "read_metadata c (map (meta_entry c) md) [] = md"
  using assms
  by (induction md) (auto simp: read_metadata_eq meta_entry_key meta_entry_val text_or_default_utf8)

lemma response_error_back:
  "connect_response_get_error c (build_connect_response c error md) = Inr error"
  by (simp add: build_connect_response_eq connect_response_get_error_def connect_response_set_error_def
      connect_response_set_metadata_def connect_response_STRUCT_SIZE_def layout_simps)

lemma response_metadata_back:
  "connect_response_get_metadata c (build_connect_response c error md) = Inr (map (meta_entry c) md)"
  by (simp add: build_connect_response_eq connect_response_get_metadata_def connect_response_set_error_def
      connect_response_set_metadata_def connect_response_STRUCT_SIZE_def layout_simps)

lemma edge_request_dest: "connect_request_get_dest c (edge_request c d ty md) = Inr d"
  by (simp add: edge_request_def connect_request_get_dest_def connect_request_set_metadata_def
      connect_request_set_type_def connect_request_set_dest_def connect_request_STRUCT_SIZE_def layout_simps)

lemma edge_request_type: "connect_request_get_type c (edge_request c d ty md) = Inr ty"
proof -
  have "connection_type_into ty < 65536" using connection_type_into_bound [of ty] by simp
  then show ?thesis
    by (simp add: edge_request_def connect_request_get_type_def connect_request_set_metadata_def
        connect_request_set_type_def connect_request_set_dest_def connect_request_STRUCT_SIZE_def
        layout_simps get_set_u16)
qed

lemma edge_request_metadata:
  "connect_request_get_metadata c (edge_request c d ty md) = Inr (map (meta_entry c) md)"
  by (simp add: edge_request_def connect_request_get_metadata_def connect_request_set_metadata_def
      connect_request_set_type_def connect_request_set_dest_def connect_request_STRUCT_SIZE_def layout_simps)

lemma decode_edge_request:
  assumes "utf8_ok d" and "\<forall>(k, v) \<in> set md. utf8_ok k \<and> utf8_ok v"
  shows "decode_connect_request c (struct_ptr c (edge_request c d ty md))
    = Inr \<lparr>dest = d, conn_type = of_wire ty, metadata = md\<rparr>"
  using assms(1)
  by (simp add: decode_connect_request_def layout_simps edge_request_dest edge_request_type
      edge_request_metadata read_metadata_entries [OF assms(2)] text_to_string_def from_utf8_def of_wire_def)

text \<open>Whatever the chunks in which a request frame arrives, it is read in full and nothing past it.\<close>

lemma read_edge_request:
  assumes "avail src = DATA_STREAM_SIGNATURE @ ver @ write_message c (edge_request c d ty md) @ rest"
    and "length ver = 2" and "message_fits c (edge_request c d ty md)"
    and "utf8_ok d" and "\<forall>(k, v) \<in> set md. utf8_ok k \<and> utf8_ok v"
  shows "\<exists>src'. read_connect_request c src
      = (Done \<lparr>dest = d, conn_type = of_wire ty, metadata = md\<rparr>, src')
    \<and> avail src' = rest \<and> ending_of src' = ending_of src"
proof -
  have sig: "length DATA_STREAM_SIGNATURE = 6" by (simp add: DATA_STREAM_SIGNATURE_def)
  with read_exact_enough [of 6 src] assms(1) obtain s1 where s1:
    "read_exact 6 src = (Done DATA_STREAM_SIGNATURE, s1)"
    "avail s1 = ver @ write_message c (edge_request c d ty md) @ rest" "ending_of s1 = ending_of src"
    by auto
  with read_exact_enough [of 2 s1] assms(2) obtain s2 where s2:
    "read_exact 2 s1 = (Done ver, s2)"
    "avail s2 = write_message c (edge_request c d ty md) @ rest" "ending_of s2 = ending_of s1"
    by auto
  from read_written [OF assms(3) s2(2)] obtain s3 where s3:
    "read_message c s2 = (Done (struct_ptr c (edge_request c d ty md)), s3)"
    "avail s3 = rest" "ending_of s3 = ending_of s2" by blast
  with s1 s2 show ?thesis
    by (simp add: read_connect_request_def decode_edge_request [OF assms(4,5)])
qed

end

section \<open>Properties\<close>

text \<open>C7: However the bytes of a request stream are cut into chunks, \<open>read_connect_request\<close> returns the
  destination, the connection type and the metadata that the edge wrote with the generated setters,
  and leaves every byte after the request on the stream.\<close>

theorem connect_request_roundtrip:
  assumes "capnp_api c"
    and "avail src = DATA_STREAM_SIGNATURE @ ver @ write_message c (edge_request c d ty md) @ rest"
    and "length ver = 2" and "message_fits c (edge_request c d ty md)"
    and "utf8_ok d" and "\<forall>(k, v) \<in> set md. utf8_ok k \<and> utf8_ok v"
  shows "\<exists>src'. read_connect_request c src = (Done \<lparr>dest = d, conn_type = of_wire ty, metadata = md\<rparr>, src')
    \<and> avail src' = rest \<and> ending_of src' = ending_of src"
  by (rule capnp_api.read_edge_request [OF assms])

theorem connect_request_roundtrip_witness:
  "\<exists>src'. read_connect_request tree_api
      (map (\<lambda>b. Data [b]) (DATA_STREAM_SIGNATURE @ ''01''
         @ write_message tree_api (edge_request tree_api ''http://h/a'' WireHttp [(''HttpHost'', ''h'')]) @ ''tail''))
    = (Done \<lparr>dest = ''http://h/a'', conn_type = Http, metadata = [(''HttpHost'', ''h'')]\<rparr>, src')
    \<and> avail src' = ''tail'' \<and> ending_of src' = AtEof"
proof -
  have bytewise: "avail (map (\<lambda>b. Data [b]) bs) = bs" "ending_of (map (\<lambda>b. Data [b]) bs) = AtEof" for bs
    by (induction bs) simp_all
  have "message_fits tree_api s" for s by (simp add: tree_api_def)
  with connect_request_roundtrip [OF tree_capnp.capnp_api_axioms bytewise(1), of "''01''" "''http://h/a''" WireHttp
      "[(''HttpHost'', ''h'')]" "''tail''"]
  show ?thesis by (simp add: bytewise(2) utf8_ok_ascii of_wire_def del: map_append)
qed

text \<open>A stream that ends before the preamble, or does not begin with the data stream signature, is
  refused with an error that says so, and no request is made up.\<close>

theorem request_preamble_errors:
  "(avail src = sig @ rest \<and> length sig = 6 \<and> sig \<noteq> DATA_STREAM_SIGNATURE \<longrightarrow>
      fst (read_connect_request c src) = Failed (Internal (''unexpected stream signature: '' @ hex_debug sig)))
   \<and> (length (avail src) < 6 \<longrightarrow> fst (read_connect_request c src) =
        (case ending_of src of AtEof \<Rightarrow> Failed (Internal (''read signature: '' @ UNEXPECTED_EOF))
         | AtErr e \<Rightarrow> Failed (Internal (''read signature: '' @ e)) | AtStall \<Rightarrow> Pending))
   \<and> (avail src = DATA_STREAM_SIGNATURE @ v \<and> length v < 2 \<longrightarrow> fst (read_connect_request c src) =
        (case ending_of src of AtEof \<Rightarrow> Failed (Internal (''read version: '' @ UNEXPECTED_EOF))
         | AtErr e \<Rightarrow> Failed (Internal (''read version: '' @ e)) | AtStall \<Rightarrow> Pending))"
proof (intro conjI impI)
  assume a: "avail src = sig @ rest \<and> length sig = 6 \<and> sig \<noteq> DATA_STREAM_SIGNATURE"
  then have "6 \<le> length (avail src)" by simp
  from read_exact_enough [OF this] a obtain s1 where "read_exact 6 src = (Done sig, s1)" by auto
  with a show "fst (read_connect_request c src) = Failed (Internal (''unexpected stream signature: '' @ hex_debug sig))"
    by (simp add: read_connect_request_def)
next
  assume "length (avail src) < 6"
  from read_exact_short [OF this]
  show "fst (read_connect_request c src) =
        (case ending_of src of AtEof \<Rightarrow> Failed (Internal (''read signature: '' @ UNEXPECTED_EOF))
         | AtErr e \<Rightarrow> Failed (Internal (''read signature: '' @ e)) | AtStall \<Rightarrow> Pending)"
    by (cases "read_exact 6 src"; cases "ending_of src") (simp_all add: read_connect_request_def)
next
  assume a: "avail src = DATA_STREAM_SIGNATURE @ v \<and> length v < 2"
  then have "6 \<le> length (avail src)" by (simp add: DATA_STREAM_SIGNATURE_def)
  from read_exact_enough [OF this] a obtain s1 where s1: "read_exact 6 src = (Done DATA_STREAM_SIGNATURE, s1)"
    "avail s1 = v" "ending_of s1 = ending_of src" by (auto simp: DATA_STREAM_SIGNATURE_def)
  with a have "length (avail s1) < 2" by simp
  from read_exact_short [OF this] s1
  show "fst (read_connect_request c src) =
        (case ending_of src of AtEof \<Rightarrow> Failed (Internal (''read version: '' @ UNEXPECTED_EOF))
         | AtErr e \<Rightarrow> Failed (Internal (''read version: '' @ e)) | AtStall \<Rightarrow> Pending)"
    by (cases "read_exact 2 s1"; cases "ending_of src") (simp_all add: read_connect_request_def)
qed

theorem request_preamble_errors_witness:
  "fst (read_connect_request tree_api [Data ''GE'', Data ''T / HTTP'']) =
     Failed (Internal ''unexpected stream signature: [47, 45, 54, 20, 2f, 20]'')
   \<and> fst (read_connect_request tree_api [Data ''GE'', Stall]) = Pending
   \<and> fst (read_connect_request tree_api [Data DATA_STREAM_SIGNATURE, Data ''0'', ReadErr ''reset'']) =
       Failed (Internal ''read version: reset'')"
proof -
  have "hex_debug ''GET / '' = ''[47, 45, 54, 20, 2f, 20]''" by code_simp
  moreover have "''GET / '' \<noteq> DATA_STREAM_SIGNATURE" by (simp add: DATA_STREAM_SIGNATURE_def)
  moreover have "DATA_STREAM_SIGNATURE \<noteq> []" by (simp add: DATA_STREAM_SIGNATURE_def)
  ultimately show ?thesis
    using request_preamble_errors [of "[Data ''GE'', Data ''T / HTTP'']" "''GET / ''" "''HTTP''" tree_api]
      request_preamble_errors [of "[Data ''GE'', Stall]" "[]" "[]" tree_api]
      request_preamble_errors [of "[Data DATA_STREAM_SIGNATURE, Data ''0'', ReadErr ''reset'']" "[]" "[]" tree_api "''0''"]
    by simp
qed

text \<open>C8: A response that was written in full is the signature, the version and one message, and a reader
  of that message finds the error and the metadata that were given, in order.\<close>

theorem connect_response_roundtrip:
  assumes "capnp_api c" and "write_connect_response c error md k = (Done u, k')"
    and "message_fits c (build_connect_response c error md)"
    and "\<forall>(key, v) \<in> set md. utf8_ok key \<and> utf8_ok v"
  shows "\<exists>msg. written k' = written k @ DATA_STREAM_SIGNATURE @ PROTOCOL_V1 @ msg
    \<and> (\<forall>src rest. avail src = msg @ rest \<longrightarrow>
         (\<exists>src' root entries. read_message c src = (Done (struct_ptr c root), src') \<and> avail src' = rest
            \<and> ptr_struct c (struct_ptr c root) = Inr root
            \<and> connect_response_get_error c root = Inr error
            \<and> connect_response_get_metadata c root = Inr entries \<and> read_metadata c entries [] = md))"
proof (intro exI [of _ "write_message c (build_connect_response c error md)"] conjI allI impI)
  let ?root = "build_connect_response c error md"
  show "written k' = written k @ DATA_STREAM_SIGNATURE @ PROTOCOL_V1 @ write_message c ?root"
    using write_connect_response_Done [OF assms(2)] by (simp add: response_frame_def)
  fix src rest
  assume "avail src = write_message c ?root @ rest"
  from capnp_api.read_written [OF assms(1,3) this] obtain src' where
    "read_message c src = (Done (struct_ptr c ?root), src')" "avail src' = rest" by blast
  moreover note capnp_api.struct_back [OF assms(1), of ?root]
    capnp_api.response_error_back [OF assms(1), of error md]
    capnp_api.response_metadata_back [OF assms(1), of error md]
    capnp_api.read_metadata_entries [OF assms(1,4)]
  ultimately show "\<exists>src' root entries. read_message c src = (Done (struct_ptr c root), src') \<and> avail src' = rest
      \<and> ptr_struct c (struct_ptr c root) = Inr root \<and> connect_response_get_error c root = Inr error
      \<and> connect_response_get_metadata c root = Inr entries \<and> read_metadata c entries [] = md"
    by blast
qed

theorem connect_response_roundtrip_witness:
  "\<exists>msg. written (snd (write_connect_response tree_api ''boom'' [(''HttpStatus'', ''502'')] open_sink))
      = DATA_STREAM_SIGNATURE @ PROTOCOL_V1 @ msg
    \<and> (\<exists>root entries. fst (read_message tree_api [Data msg]) = Done (struct_ptr tree_api root)
            \<and> connect_response_get_error tree_api root = Inr ''boom''
            \<and> connect_response_get_metadata tree_api root = Inr entries
            \<and> read_metadata tree_api entries [] = [(''HttpStatus'', ''502'')])"
proof -
  let ?md = "[(''HttpStatus'', ''502'')]"
  have w: "write_connect_response tree_api ''boom'' ?md open_sink =
      (Done (), open_sink\<lparr>written := response_frame tree_api ''boom'' ?md\<rparr>)"
    by (simp add: write_connect_response_healthy) (simp add: open_sink_def)
  have "message_fits tree_api s" for s by (simp add: tree_api_def)
  with connect_response_roundtrip [OF tree_capnp.capnp_api_axioms w]
  obtain msg where m: "written (open_sink\<lparr>written := response_frame tree_api ''boom'' ?md\<rparr>)
      = written open_sink @ DATA_STREAM_SIGNATURE @ PROTOCOL_V1 @ msg"
    and rd: "\<And>src rest. avail src = msg @ rest \<Longrightarrow>
         (\<exists>src' root entries. read_message tree_api src = (Done (struct_ptr tree_api root), src') \<and> avail src' = rest
            \<and> ptr_struct tree_api (struct_ptr tree_api root) = Inr root
            \<and> connect_response_get_error tree_api root = Inr ''boom''
            \<and> connect_response_get_metadata tree_api root = Inr entries \<and> read_metadata tree_api entries [] = ?md)"
    by (auto simp: utf8_ok_ascii)
  have "avail [Data msg] = msg @ []" by simp
  from rd [OF this] m w show ?thesis by (auto simp: open_sink_def)
qed

end
