(* ===== verification/Rpc.thy ===== *)
theory Rpc
  imports Tunnel_Rpc_Schema Tunnel_Error Stream_Framing
begin

text \<open>
  \<^verbatim>\<open>src/rpc.rs\<close>: registering the connection with the edge over the control stream, the driver thread
  that keeps the RPC system alive, and the two ways a control session ends.

  A \<open>Uuid\<close> is its 16 bytes. The RPC library is a parameter: what the register call's promise gives,
  and how long the promise of the unregister call takes when the RPC system is, or is not, driven
  meanwhile.
\<close>

type_synonym uuid = bytes

definition DUPLICATE_CONNECTION_ERROR :: string where
  "DUPLICATE_CONNECTION_ERROR =
     ''edge already has connection registered for the given connection identifier''"

definition DEFAULT_RPC_TIMEOUT :: duration where
  "DEFAULT_RPC_TIMEOUT = from_secs 15"

record tunnel_auth =
  account_tag :: string
  tunnel_secret :: bytes

record connection_options =
  client_id :: bytes
  features :: "string list"
  version :: string
  arch :: string
  origin_local_ip :: bytes
  replace_existing :: bool
  compression_quality :: u8
  num_previous_attempts :: u8

text \<open>The random UUID and the target's OS and architecture names are what the platform gives.\<close>

definition default_for_quick_tunnel :: "uuid \<Rightarrow> string \<Rightarrow> string \<Rightarrow> string \<Rightarrow> connection_options" where
  "default_for_quick_tunnel new_v4 os arch_name ver =
     \<lparr>client_id = new_v4,
      features = [''allow_remote_config'', ''serialized_headers'', ''support_datagram_v2'',
                  ''support_quic_eof'', ''management_logs''],
      version = ver,
      arch = os @ ''-'' @ arch_name,
      origin_local_ip = [],
      replace_existing = False,
      compression_quality = 0,
      num_previous_attempts = 0\<rparr>"

record registration_details =
  rd_uuid :: uuid
  rd_location :: string
  tunnel_is_remotely_managed :: bool

section \<open>The register call\<close>

fun set_features_from :: "nat \<Rightarrow> string list \<Rightarrow> string list \<Rightarrow> string list" where
  "set_features_from i [] feats = feats"
| "set_features_from i (f # fs) feats = set_features_from (Suc i) fs (feats[i := f])"

definition build_register_request ::
  "('s, 'p) capnp \<Rightarrow> tunnel_auth \<Rightarrow> uuid \<Rightarrow> u8 \<Rightarrow> connection_options \<Rightarrow> tunnel_error + 's rpc_request" where
  "build_register_request c auth tunnel_id conn_index options =
     (let request = register_connection_request c;
          params = rq_params request;
          params = register_connection_params_init_auth c
            (\<lambda>a. tunnel_auth_set_tunnel_secret c (tunnel_secret auth)
                   (tunnel_auth_set_account_tag c (account_tag auth) a)) params;
          params = register_connection_params_set_tunnel_id c tunnel_id params;
          params = register_connection_params_set_conn_index c conn_index params;
          params = register_connection_params_init_options c
            (\<lambda>o'.
               (let o' = connection_options_init_client c
                      (\<lambda>client.
                         (let client = client_info_set_client_id c (client_id options) client;
                              client = client_info_set_version c (version options) client;
                              client = client_info_set_arch c (arch options) client
                          in client_info_init_features c (length (features options))
                               (set_features_from 0 (features options)) client)) o';
                    o' = connection_options_set_origin_local_ip c (origin_local_ip options) o';
                    o' = connection_options_set_replace_existing c (replace_existing options) o';
                    o' = connection_options_set_compression_quality c (compression_quality options) o'
                in connection_options_set_num_previous_attempts c (num_previous_attempts options) o')) params
      in Inr (request\<lparr>rq_params := params\<rparr>))"

section \<open>The reply\<close>

definition decode_connection_response :: "('s, 'p) capnp \<Rightarrow> 's \<Rightarrow> tunnel_error + registration_details" where
  "decode_connection_response c response =
     (case response_result_which c (connection_response_get_result response) of
        Inl n \<Rightarrow> Inl (Register (''ConnectionResponse union: '' @ not_in_schema_debug c n))
      | Inr (WhichError err_reader) \<Rightarrow>
          (case err_reader of
             Inl e \<Rightarrow> Inl (Register (''ConnectionError reader: '' @ e))
           | Inr err \<Rightarrow>
               (let cause = (case connection_error_get_cause c err of
                               Inl e \<Rightarrow> ''<missing cause>''
                             | Inr t \<Rightarrow> (case text_to_string c t of Inl e \<Rightarrow> ''<missing cause>'' | Inr s \<Rightarrow> s))
                in if cause = DUPLICATE_CONNECTION_ERROR
                   then Inl (Register (''duplicate connection (edge already has connIndex registered): '' @ cause))
                   else Inl (Register cause)))
      | Inr (WhichConnectionDetails details_reader) \<Rightarrow>
          (case details_reader of
             Inl e \<Rightarrow> Inl (Register (''ConnectionDetails reader: '' @ e))
           | Inr d \<Rightarrow>
          (case connection_details_get_uuid c d of
             Inl e \<Rightarrow> Inl (Register (''ConnectionDetails.uuid: '' @ e))
           | Inr uuid_bytes \<Rightarrow>
               if length uuid_bytes \<noteq> 16
               then Inl (Register (''ConnectionDetails.uuid wrong length: '' @ dec (length uuid_bytes)))
               else Inr \<lparr>rd_uuid = uuid_bytes,
                         rd_location = text_or_default c (connection_details_get_location_name c d),
                         tunnel_is_remotely_managed = connection_details_get_tunnel_is_remotely_managed c d\<rparr>)))"

text \<open>
  The future \<open>call\<close> of the driver, once the promise is resolved: the promise's error, or what
  getting at the results struct gives.
\<close>

definition register_call :: "('s, 'p) capnp \<Rightarrow> string + (string + 's) \<Rightarrow> tunnel_error + registration_details" where
  "register_call c reply =
     (case reply of
        Inl e \<Rightarrow> Inl (Register (''register_connection RPC: '' @ e))
      | Inr (Inl e) \<Rightarrow> Inl (Register (''response root: '' @ e))
      | Inr (Inr response_reader) \<Rightarrow>
          (case register_connection_results_get_result c response_reader of
             Inl e \<Rightarrow> Inl (Register (''response.result: '' @ e))
           | Inr res \<Rightarrow> decode_connection_response c res))"

section \<open>The driver thread\<close>

datatype shutdown_command = Immediate | Graceful duration

text \<open>
  What one poll of the select finds: the register call's result, a message on the shutdown channel
  (\<open>Some None\<close> when its sender is gone), and whether the RPC system has ended.
\<close>

record driver_poll =
  dp_call :: "(tunnel_error + registration_details) option"
  dp_cmd :: "shutdown_command option option"
  dp_system_done :: bool

record driver =
  sent_done :: bool
  done_tx :: bool
  sent :: "(tunnel_error + registration_details) list"
  shutdown_kind :: "shutdown_command option"

definition driver_start :: driver where
  "driver_start = \<lparr>sent_done = False, done_tx = True, sent = [], shutdown_kind = None\<rparr>"

text \<open>\<open>if let Some(tx) = done_tx.take() { let _ = tx.send(r); }\<close>\<close>

definition send_done :: "tunnel_error + registration_details \<Rightarrow> driver \<Rightarrow> driver" where
  "send_done r d = (if done_tx d then d\<lparr>done_tx := False, sent := sent d @ [r]\<rparr> else d)"

text \<open>The loop; the flag says whether it has been left.\<close>

fun driver_loop :: "driver_poll list \<Rightarrow> driver \<Rightarrow> bool \<times> driver" where
  "driver_loop [] d = (False, d)"
| "driver_loop (p # ps) d =
     (case (if \<not> sent_done d then dp_call p else None) of
        Some res \<Rightarrow> driver_loop ps ((send_done res d)\<lparr>sent_done := True\<rparr>)
      | None \<Rightarrow>
          (case dp_cmd p of
             Some cmd \<Rightarrow> (True, d\<lparr>shutdown_kind := cmd\<rparr>)
           | None \<Rightarrow>
               if dp_system_done p
               then (True, if \<not> sent_done d
                           then send_done (Inl (Register ''RPC system terminated before call completed'')) d
                           else d)
               else driver_loop ps d))"

text \<open>
  The RPC runtime of the library, whose state \<open>'r\<close> holds the connection and the calls in flight: sending a
  call gives the handle of its promise, the network brings \<open>'n\<close>, one poll of the RPC system works through
  what has arrived and says whether the system has ended, and a poll of a promise says whether it is settled.
\<close>

record ('s, 'r, 'h, 'n) rpc_runtime =
  rt_send :: "'s rpc_request \<Rightarrow> 'r \<Rightarrow> 'h \<times> 'r"
  rt_network :: "'n \<Rightarrow> 'r \<Rightarrow> 'r"
  rt_poll_system :: "'r \<Rightarrow> bool \<times> 'r"
  rt_poll_promise :: "'h \<Rightarrow> 'r \<Rightarrow> bool"

text \<open>
  \<open>timeout(grace, promise).await\<close>: at each wake of the task, at a time since the call and after what the
  network brought, the promise is polled and then the deadline. The result says whether the promise was
  settled, and when; \<open>None\<close> while it is still awaited.
\<close>

fun await_promise ::
  "('s, 'r, 'h, 'n) rpc_runtime \<Rightarrow> duration \<Rightarrow> (duration \<times> 'n) list \<Rightarrow> 'h \<Rightarrow> 'r \<Rightarrow> (bool \<times> duration) option" where
  "await_promise rt grace [] h r = None"
| "await_promise rt grace ((t, n) # wakes) h r =
     (let r = rt_network rt n r in
      if rt_poll_promise rt h r then Some (True, t)
      else if grace \<le> t then Some (False, t)
      else await_promise rt grace wakes h r)"

text \<open>After the loop: the unregister call, whether it was acknowledged, and how long that took.\<close>

record driver_exit =
  unregister_sent :: bool
  unregister_acked :: bool
  drained_for :: "duration option"

definition fut_cost :: "duration \<Rightarrow> 'a fut \<Rightarrow> duration" where
  "fut_cost d f = (case f of Ready t a \<Rightarrow> min t d | Never \<Rightarrow> d)"

definition driver_drain ::
  "('s, 'p) capnp \<Rightarrow> ('s, 'r, 'h, 'n) rpc_runtime \<Rightarrow> (duration \<times> 'n) list \<Rightarrow> 'r \<Rightarrow> driver \<Rightarrow> driver_exit" where
  "driver_drain c rt wakes r d =
     (case shutdown_kind d of
        Some (Graceful grace) \<Rightarrow>
          if sent_done d
          then (let (h, r) = rt_send rt (unregister_connection_request c) r;
                    res = await_promise rt grace wakes h r
                in \<lparr>unregister_sent = True, unregister_acked = (case res of Some (acked, t) \<Rightarrow> acked | None \<Rightarrow> False),
                    drained_for = map_option snd res\<rparr>)
          else \<lparr>unregister_sent = False, unregister_acked = False, drained_for = Some 0\<rparr>
      | _ \<Rightarrow> \<lparr>unregister_sent = False, unregister_acked = False, drained_for = Some 0\<rparr>)"

section \<open>Control sessions\<close>

record control_session =
  cs_shutdown :: bool
  cs_done :: bool

definition session_new :: control_session where
  "session_new = \<lparr>cs_shutdown = True, cs_done = True\<rparr>"

text \<open>\<open>Drop\<close>: the commands it sends, and the session without its sender.\<close>

definition drop_session :: "control_session \<Rightarrow> shutdown_command list \<times> control_session" where
  "drop_session s = (if cs_shutdown s then ([Immediate], s\<lparr>cs_shutdown := False\<rparr>) else ([], s))"

text \<open>
  \<open>shutdown_graceful\<close> consumes the session, so its \<open>Drop\<close> runs at the end: all commands that go to
  the driver, and how long the caller waits for \<open>finished\<close>, the driver's last message.
\<close>

definition shutdown_graceful :: "duration \<Rightarrow> unit fut \<Rightarrow> control_session \<Rightarrow> shutdown_command list \<times> duration" where
  "shutdown_graceful grace finished s =
     (let (cmds, s1) = (if cs_shutdown s then ([Graceful grace], s\<lparr>cs_shutdown := False\<rparr>) else ([], s));
          (waited, s2) = (if cs_done s1 then (fut_cost (grace + from_secs 2) finished, s1\<lparr>cs_done := False\<rparr>)
                          else (0, s1))
      in (cmds @ fst (drop_session s2), waited))"

section \<open>Registering\<close>

text \<open>
  What the platform answers: opening the control stream, spawning the thread, and what the driver's
  polls find for a request, after what time the result channel is settled.
\<close>

record 's rpc_env =
  open_bi :: "string + unit"
  spawn :: "string + unit"
  polls :: "'s rpc_request \<Rightarrow> driver_poll list"
  settled_after :: "'s rpc_request \<Rightarrow> duration"

text \<open>What arrives on the result channel: nothing yet, a dropped sender, or the one result.\<close>

definition done_rx ::
  "'s rpc_env \<Rightarrow> tunnel_error + 's rpc_request \<Rightarrow> (unit + (tunnel_error + registration_details)) fut" where
  "done_rx env request =
     (case request of
        Inl e \<Rightarrow> Ready 0 (Inr (Inl e))
      | Inr rq \<Rightarrow>
          (case driver_loop (polls env rq) driver_start of
             (left, d) \<Rightarrow>
               (case sent d of
                  r # _ \<Rightarrow> Ready (settled_after env rq) (Inr r)
                | [] \<Rightarrow> if left then Ready (settled_after env rq) (Inl ()) else Never)))"

definition register_connection ::
  "('s, 'p) capnp \<Rightarrow> 's rpc_env \<Rightarrow> tunnel_auth \<Rightarrow> uuid \<Rightarrow> u8 \<Rightarrow> connection_options
   \<Rightarrow> tunnel_error + (registration_details \<times> control_session)" where
  "register_connection c env auth tunnel_id conn_index options =
     (case open_bi env of
        Inl e \<Rightarrow> Inl (Register (''open_bi on control stream: '' @ e))
      | Inr _ \<Rightarrow>
     (case spawn env of
        Inl e \<Rightarrow> Inl (Internal (''spawn rpc driver thread: '' @ e))
      | Inr _ \<Rightarrow>
     (case timeout DEFAULT_RPC_TIMEOUT
             (done_rx env (build_register_request c auth tunnel_id conn_index options)) of
        None \<Rightarrow> Inl (Register ''register_connection RPC timed out'')
      | Some (Inl _) \<Rightarrow> Inl (Register ''RPC driver dropped result channel'')
      | Some (Inr (Inl e)) \<Rightarrow> Inl e
      | Some (Inr (Inr details)) \<Rightarrow> Inr (details, session_new))))"

definition drive :: "'a fut \<Rightarrow> string \<Rightarrow> tunnel_error + 'a" where
  "drive f label =
     (case timeout DEFAULT_RPC_TIMEOUT f of
        Some a \<Rightarrow> Inr a
      | None \<Rightarrow> Inl (Register (label @ '' timed out'')))"

section \<open>The request as the edge reads it\<close>

lemma set_features_from_gen:
  "length pre = i \<Longrightarrow>
   set_features_from i fs (pre @ replicate (length fs) []) = pre @ fs"
proof (induction fs arbitrary: i pre)
  case (Cons f fs)
  have "(pre @ replicate (length (f # fs)) [])[i := f] = (pre @ [f]) @ replicate (length fs) []"
    using Cons.prems by (simp add: list_update_append)
  with Cons.IH [of "pre @ [f]" "Suc i"] Cons.prems show ?case by simp
qed simp

lemma set_features_all: "set_features_from 0 fs (replicate (length fs) []) = fs"
  using set_features_from_gen [of "[]" 0 fs] by simp

text \<open>The client part of the options, as it is filled in.\<close>

definition filled_client :: "('s, 'p) capnp \<Rightarrow> connection_options \<Rightarrow> 's" where
  "filled_client c options =
     client_info_set_features c (features options)
       (client_info_set_arch c (arch options)
         (client_info_set_version c (version options)
           (client_info_set_client_id c (client_id options)
             (new_struct c (fst client_info_STRUCT_SIZE) (snd client_info_STRUCT_SIZE)))))"

definition filled_options :: "('s, 'p) capnp \<Rightarrow> connection_options \<Rightarrow> 's" where
  "filled_options c options =
     connection_options_set_num_previous_attempts c (num_previous_attempts options)
       (connection_options_set_compression_quality c (compression_quality options)
         (connection_options_set_replace_existing c (replace_existing options)
           (connection_options_set_origin_local_ip c (origin_local_ip options)
             (connection_options_set_client c (filled_client c options)
               (new_struct c (fst connection_options_STRUCT_SIZE) (snd connection_options_STRUCT_SIZE))))))"

definition filled_auth :: "('s, 'p) capnp \<Rightarrow> tunnel_auth \<Rightarrow> 's" where
  "filled_auth c auth =
     tunnel_auth_set_tunnel_secret c (tunnel_secret auth)
       (tunnel_auth_set_account_tag c (account_tag auth)
         (new_struct c (fst tunnel_auth_STRUCT_SIZE) (snd tunnel_auth_STRUCT_SIZE)))"

lemma build_register_request_eq:
  "build_register_request c auth tid idx options = Inr
     \<lparr>rq_interface = registration_server_TYPE_ID, rq_method = 0,
      rq_params = register_connection_params_set_options c (filled_options c options)
        (register_connection_params_set_conn_index c idx
          (register_connection_params_set_tunnel_id c tid
            (register_connection_params_set_auth c (filled_auth c auth)
              (new_struct c (fst register_connection_params_STRUCT_SIZE)
                            (snd register_connection_params_STRUCT_SIZE)))))\<rparr>"
  by (simp add: build_register_request_def register_connection_request_def filled_client_def
      filled_options_def filled_auth_def Let_def register_connection_params_init_auth_def
      register_connection_params_set_auth_def register_connection_params_init_options_def
      register_connection_params_set_options_def connection_options_init_client_def
      connection_options_set_client_def client_info_init_features_def client_info_set_features_def
      set_features_all)

lemma unat_u8_bound: "unat (w :: u8) < 256"
  using unsigned_less [of w, where ?'a = nat] by simp

context capnp_api
begin

lemma filled_auth_back:
  "tunnel_auth_get_account_tag c (filled_auth c auth) = Inr (account_tag auth)"
  "tunnel_auth_get_tunnel_secret c (filled_auth c auth) = Inr (tunnel_secret auth)"
  by (simp_all add: filled_auth_def tunnel_auth_get_account_tag_def tunnel_auth_get_tunnel_secret_def
      tunnel_auth_set_account_tag_def tunnel_auth_set_tunnel_secret_def tunnel_auth_STRUCT_SIZE_def
      layout_simps)

lemma filled_client_back:
  "client_info_get_client_id c (filled_client c o') = Inr (client_id o')"
  "client_info_get_features c (filled_client c o') = Inr (features o')"
  "client_info_get_version c (filled_client c o') = Inr (version o')"
  "client_info_get_arch c (filled_client c o') = Inr (arch o')"
  by (simp_all add: filled_client_def client_info_get_client_id_def client_info_get_features_def
      client_info_get_version_def client_info_get_arch_def client_info_set_client_id_def
      client_info_set_features_def client_info_set_version_def client_info_set_arch_def
      client_info_STRUCT_SIZE_def layout_simps)

lemmas options_set_defs =
  connection_options_set_num_previous_attempts_def connection_options_set_compression_quality_def
  connection_options_set_replace_existing_def connection_options_set_origin_local_ip_def
  connection_options_set_client_def connection_options_STRUCT_SIZE_def

lemma filled_options_back:
  "connection_options_get_client c (filled_options c o') = Inr (filled_client c o')"
  "connection_options_get_origin_local_ip c (filled_options c o') = Inr (origin_local_ip o')"
  "connection_options_get_replace_existing c (filled_options c o') = replace_existing o'"
  "connection_options_get_compression_quality c (filled_options c o') = compression_quality o'"
  "connection_options_get_num_previous_attempts c (filled_options c o') = num_previous_attempts o'"
  by (simp_all add: filled_options_def options_set_defs connection_options_get_client_def
      connection_options_get_origin_local_ip_def connection_options_get_replace_existing_def
      connection_options_get_compression_quality_def connection_options_get_num_previous_attempts_def
      layout_simps get_set_field_other fields_apart_def get_set_bool get_set_u8 unat_u8_bound
      del: One_nat_def)

lemma register_params_back:
  assumes "build_register_request c auth tid idx options = Inr rq"
  shows "rq_interface rq = registration_server_TYPE_ID" and "rq_method rq = 0"
    and "register_connection_params_get_auth c (rq_params rq) = Inr (filled_auth c auth)"
    and "register_connection_params_get_tunnel_id c (rq_params rq) = Inr tid"
    and "register_connection_params_get_conn_index c (rq_params rq) = idx"
    and "register_connection_params_get_options c (rq_params rq) = Inr (filled_options c options)"
  using assms
  by (auto simp: build_register_request_eq register_connection_params_get_auth_def
      register_connection_params_get_tunnel_id_def register_connection_params_get_conn_index_def
      register_connection_params_get_options_def register_connection_params_set_auth_def
      register_connection_params_set_tunnel_id_def register_connection_params_set_conn_index_def
      register_connection_params_set_options_def register_connection_params_STRUCT_SIZE_def
      layout_simps get_set_u8 unat_u8_bound)

end

section \<open>Replies as the edge writes them\<close>

definition reply_details :: "('s, 'p) capnp \<Rightarrow> bytes \<Rightarrow> string \<Rightarrow> bool \<Rightarrow> 's" where
  "reply_details c u loc managed =
     response_result_set_connection_details c
       (connection_details_set_tunnel_is_remotely_managed c managed
         (connection_details_set_location_name c loc
           (connection_details_set_uuid c u
             (new_struct c (fst connection_details_STRUCT_SIZE) (snd connection_details_STRUCT_SIZE)))))
       (new_struct c (fst connection_response_STRUCT_SIZE) (snd connection_response_STRUCT_SIZE))"

definition reply_error :: "('s, 'p) capnp \<Rightarrow> string \<Rightarrow> 's" where
  "reply_error c cause =
     response_result_set_error c
       (connection_error_set_cause c cause
         (new_struct c (fst connection_error_STRUCT_SIZE) (snd connection_error_STRUCT_SIZE)))
       (new_struct c (fst connection_response_STRUCT_SIZE) (snd connection_response_STRUCT_SIZE))"

definition reply_results :: "('s, 'p) capnp \<Rightarrow> 's \<Rightarrow> 's" where
  "reply_results c response =
     register_connection_results_set_result c response
       (new_struct c (fst register_connection_results_STRUCT_SIZE) (snd register_connection_results_STRUCT_SIZE))"

context capnp_api
begin

lemma decode_reply_details:
  assumes "length u = 16" and "utf8_ok loc"
  shows "decode_connection_response c (reply_details c u loc managed)
    = Inr \<lparr>rd_uuid = u, rd_location = loc, tunnel_is_remotely_managed = managed\<rparr>"
  using assms
  by (simp add: decode_connection_response_def reply_details_def connection_response_get_result_def
      response_result_which_def response_result_set_connection_details_def get_set_u16
      connection_response_STRUCT_SIZE_def connection_details_STRUCT_SIZE_def
      connection_details_get_uuid_def connection_details_set_uuid_def
      connection_details_get_location_name_def connection_details_set_location_name_def
      connection_details_get_tunnel_is_remotely_managed_def
      connection_details_set_tunnel_is_remotely_managed_def Let_def
      layout_simps get_set_bool text_or_default_utf8 del: One_nat_def)

lemma decode_reply_error:
  assumes "utf8_ok cause"
  shows "decode_connection_response c (reply_error c cause)
    = Inl (Register (if cause = DUPLICATE_CONNECTION_ERROR
        then ''duplicate connection (edge already has connIndex registered): '' @ cause else cause))"
  using assms
  by (simp add: decode_connection_response_def reply_error_def connection_response_get_result_def
      response_result_which_def response_result_set_error_def get_set_u16
      connection_response_STRUCT_SIZE_def connection_error_STRUCT_SIZE_def
      connection_error_get_cause_def connection_error_set_cause_def text_to_string_def from_utf8_def
      Let_def layout_simps)

lemma register_call_back:
  "register_call c (Inr (Inr (reply_results c response))) = decode_connection_response c response"
  by (simp add: register_call_def reply_results_def register_connection_results_get_result_def
      register_connection_results_set_result_def register_connection_results_STRUCT_SIZE_def layout_simps)

end

text \<open>Whatever the reply is, registering succeeds only with a 16-byte id.\<close>

lemma decode_uuid_length: "decode_connection_response c r = Inr d \<Longrightarrow> length (rd_uuid d) = 16"
  by (auto simp: decode_connection_response_def Let_def
      split: sum.splits which_result.splits if_splits)

lemma decode_error_Register: "decode_connection_response c r = Inl e \<Longrightarrow> \<exists>m. e = Register m"
  by (auto simp: decode_connection_response_def Let_def
      split: sum.splits which_result.splits if_splits)

section \<open>The driver's loop\<close>

text \<open>The result channel is used at most once, and \<open>sent_done\<close> means that the call's result went out.\<close>

definition driver_inv :: "driver \<Rightarrow> bool" where
  "driver_inv d \<longleftrightarrow> (done_tx d \<longleftrightarrow> sent d = []) \<and> length (sent d) \<le> 1 \<and> (sent_done d \<longrightarrow> \<not> done_tx d)"

lemma driver_inv_start: "driver_inv driver_start"
  by (simp add: driver_inv_def driver_start_def)

lemma driver_inv_send: "driver_inv d \<Longrightarrow> driver_inv (send_done r d)"
  by (auto simp: driver_inv_def send_done_def)

lemma driver_inv_loop: "driver_inv d \<Longrightarrow> driver_inv (snd (driver_loop ps d))"
proof (induction ps d rule: driver_loop.induct)
  case (2 p ps d)
  have *: "driver_inv ((send_done r d)\<lparr>sent_done := True\<rparr>)" for r
    using "2.prems" by (auto simp: driver_inv_def send_done_def)
  show ?case
  proof (cases "if \<not> sent_done d then dp_call p else None")
    case (Some res)
    with "2.IH"(2) [OF Some *] show ?thesis by simp
  next
    case None
    then show ?thesis
      using "2.IH"(1) [OF None] "2.prems" driver_inv_send [OF "2.prems"]
      by (auto simp: driver_inv_def split: option.splits)
  qed
qed simp

text \<open>The call's result is what the caller gets, when it comes before any end of the loop.\<close>

definition poll_idle :: "driver_poll \<Rightarrow> bool" where
  "poll_idle p \<longleftrightarrow> dp_call p = None \<and> dp_cmd p = None \<and> \<not> dp_system_done p"

lemma driver_loop_idle: "list_all poll_idle ps \<Longrightarrow> driver_loop (ps @ qs) d = driver_loop qs d"
  by (induction ps) (simp_all add: poll_idle_def)

lemma driver_loop_keeps_sent: "sent_done d \<Longrightarrow> sent (snd (driver_loop ps d)) = sent d"
  by (induction ps) (auto split: option.splits)

lemma driver_loop_result:
  assumes "list_all poll_idle ps" and "dp_call p = Some r"
  shows "sent (snd (driver_loop (ps @ p # qs) driver_start)) = [r]"
  using assms by (simp add: driver_loop_idle driver_start_def send_done_def driver_loop_keeps_sent)

lemma driver_loop_terminated:
  assumes "list_all poll_idle ps" and "dp_call p = None" and "dp_cmd p = None" and "dp_system_done p"
  shows "driver_loop (ps @ p # qs) driver_start =
    (True, \<lparr>sent_done = False, done_tx = False,
       sent = [Inl (Register ''RPC system terminated before call completed'')], shutdown_kind = None\<rparr>)"
  using assms by (simp add: driver_loop_idle driver_start_def send_done_def)

lemma driver_loop_cancelled:
  assumes "list_all poll_idle ps" and "dp_call p = None" and "dp_cmd p = Some cmd"
  shows "sent (snd (driver_loop (ps @ p # qs) driver_start)) = []"
  using assms by (simp add: driver_loop_idle driver_start_def)

section \<open>Ending a session\<close>

lemma shutdown_graceful_new:
  "fst (shutdown_graceful grace fin session_new) = [Graceful grace]"
  "snd (shutdown_graceful grace fin session_new) \<le> grace + from_secs 2"
  by (auto simp: shutdown_graceful_def session_new_def drop_session_def fut_cost_def split: fut.split)

lemma drop_session_new: "fst (drop_session session_new) = [Immediate]"
  by (simp add: session_new_def drop_session_def)

lemma drop_session_twice: "fst (drop_session (snd (drop_session s))) = []"
  by (simp add: drop_session_def)

text \<open>
  What the library documents of promises: one is not settled before the reply to its call is worked
  through, and only polling the RPC system does that, the arrival of bytes alone does not.
\<close>

definition settles_when_driven :: "('s, 'r, 'h, 'n) rpc_runtime \<Rightarrow> bool" where
  "settles_when_driven rt \<longleftrightarrow>
     (\<forall>rq r. \<not> rt_poll_promise rt (fst (rt_send rt rq r)) (snd (rt_send rt rq r)))
     \<and> (\<forall>n h r. rt_poll_promise rt h (rt_network rt n r) = rt_poll_promise rt h r)"

text \<open>The wait that the comment in the source describes: the RPC system is polled beside the promise.\<close>

fun await_driven ::
  "('s, 'r, 'h, 'n) rpc_runtime \<Rightarrow> duration \<Rightarrow> (duration \<times> 'n) list \<Rightarrow> 'h \<Rightarrow> 'r \<Rightarrow> (bool \<times> duration) option" where
  "await_driven rt grace [] h r = None"
| "await_driven rt grace ((t, n) # wakes) h r =
     (let r = snd (rt_poll_system rt (rt_network rt n r)) in
      if rt_poll_promise rt h r then Some (True, t)
      else if grace \<le> t then Some (False, t)
      else await_driven rt grace wakes h r)"

lemma await_promise_unsettled:
  assumes "settles_when_driven rt" and "\<not> rt_poll_promise rt h r"
    and "list_all (\<lambda>(u, n). u < grace) pre" and "grace \<le> t"
  shows "await_promise rt grace (pre @ (t, n) # post) h r = Some (False, t)"
  using assms(2,3)
proof (induction pre arbitrary: r)
  case Nil
  with assms(1,4) show ?case by (simp add: settles_when_driven_def Let_def)
next
  case (Cons p pre)
  obtain u m where p: "p = (u, m)" by (cases p)
  have "\<not> rt_poll_promise rt h (rt_network rt m r)"
    using assms(1) Cons.prems(1) by (simp add: settles_when_driven_def)
  with Cons show ?case by (simp add: p Let_def)
qed

lemma register_connection_Inr:
  "register_connection c env auth tid idx options = Inr (details, s) \<Longrightarrow>
   s = session_new \<and>
   (\<exists>rq. build_register_request c auth tid idx options = Inr rq
      \<and> sent (snd (driver_loop (polls env rq) driver_start)) = [Inr details]
      \<and> settled_after env rq \<le> DEFAULT_RPC_TIMEOUT)"
proof -
  assume a: "register_connection c env auth tid idx options = Inr (details, s)"
  obtain rq where rq: "build_register_request c auth tid idx options = Inr rq"
    by (simp add: build_register_request_eq)
  obtain left d where d: "driver_loop (polls env rq) driver_start = (left, d)" by fastforce
  have "length (sent d) \<le> 1"
    using driver_inv_loop [OF driver_inv_start, of "polls env rq"] d by (simp add: driver_inv_def)
  then have "sent d = [] \<or> (\<exists>r. sent d = [r])" by (cases "sent d") auto
  with a show ?thesis
    by (auto simp: register_connection_def rq done_rx_def d timeout_def
        split: sum.splits if_splits)
qed

section \<open>Properties\<close>

text \<open>C12: Every field that the caller gives ends up in the register call: the generated accessors read back
  the account tag, the secret, the tunnel id, the connection index, and of the options the client's
  id, features, version and architecture, the local address and the three numbers and flags.\<close>

theorem register_request_roundtrip:
  assumes "capnp_api c"
  shows "\<exists>rq a o' cl. build_register_request c auth tid idx options = Inr rq
    \<and> rq_interface rq = registration_server_TYPE_ID \<and> rq_method rq = 0
    \<and> register_connection_params_get_auth c (rq_params rq) = Inr a
    \<and> tunnel_auth_get_account_tag c a = Inr (account_tag auth)
    \<and> tunnel_auth_get_tunnel_secret c a = Inr (tunnel_secret auth)
    \<and> register_connection_params_get_tunnel_id c (rq_params rq) = Inr tid
    \<and> register_connection_params_get_conn_index c (rq_params rq) = idx
    \<and> register_connection_params_get_options c (rq_params rq) = Inr o'
    \<and> connection_options_get_client c o' = Inr cl
    \<and> client_info_get_client_id c cl = Inr (client_id options)
    \<and> client_info_get_features c cl = Inr (features options)
    \<and> client_info_get_version c cl = Inr (version options)
    \<and> client_info_get_arch c cl = Inr (arch options)
    \<and> connection_options_get_origin_local_ip c o' = Inr (origin_local_ip options)
    \<and> connection_options_get_replace_existing c o' = replace_existing options
    \<and> connection_options_get_compression_quality c o' = compression_quality options
    \<and> connection_options_get_num_previous_attempts c o' = num_previous_attempts options"
proof -
  obtain rq where rq: "build_register_request c auth tid idx options = Inr rq"
    by (simp add: build_register_request_eq)
  show ?thesis
    using rq capnp_api.register_params_back [OF assms rq] capnp_api.filled_auth_back [OF assms]
      capnp_api.filled_options_back [OF assms] capnp_api.filled_client_back [OF assms]
    by blast
qed

theorem register_request_roundtrip_witness:
  "\<exists>rq. build_register_request tree_api \<lparr>account_tag = ''acc'', tunnel_secret = ''s3''\<rparr> ''0123456789abcdef'' 3
       ((default_for_quick_tunnel ''id'' ''linux'' ''x86_64'' ''1'')\<lparr>replace_existing := True\<rparr>) = Inr rq
     \<and> register_connection_params_get_conn_index tree_api (rq_params rq) = 3
     \<and> register_connection_params_get_tunnel_id tree_api (rq_params rq) = Inr ''0123456789abcdef''"
  using register_request_roundtrip [OF tree_capnp.capnp_api_axioms] by blast

text \<open>C13: A reply with connection details decodes to exactly these; a reply with an error decodes to its cause,
  marked when it is the duplicate connection; and whatever the reply is, the call succeeds only with a
  sixteen byte id and otherwise fails as a register error.\<close>

theorem register_reply_decoded:
  assumes "capnp_api c" and "length u = 16" and "utf8_ok loc" and "utf8_ok cause"
  shows "register_call c (Inr (Inr (reply_results c (reply_details c u loc managed))))
      = Inr \<lparr>rd_uuid = u, rd_location = loc, tunnel_is_remotely_managed = managed\<rparr>
    \<and> register_call c (Inr (Inr (reply_results c (reply_error c cause))))
      = Inl (Register (if cause = DUPLICATE_CONNECTION_ERROR
          then ''duplicate connection (edge already has connIndex registered): '' @ cause else cause))
    \<and> (\<forall>reply. case register_call c reply of Inr d \<Rightarrow> length (rd_uuid d) = 16 | Inl e \<Rightarrow> \<exists>m. e = Register m)"
proof (intro conjI allI)
  fix reply
  show "case register_call c reply of Inr d \<Rightarrow> length (rd_uuid d) = 16 | Inl e \<Rightarrow> \<exists>m. e = Register m"
    by (auto simp: register_call_def split: sum.splits dest: decode_uuid_length decode_error_Register)
qed (use assms in \<open>simp_all add: capnp_api.register_call_back capnp_api.decode_reply_details
    capnp_api.decode_reply_error\<close>)

theorem register_reply_decoded_witness:
  "register_call tree_api (Inr (Inr (reply_results tree_api (reply_details tree_api ''0123456789abcdef'' ''LIS'' True))))
     = Inr \<lparr>rd_uuid = ''0123456789abcdef'', rd_location = ''LIS'', tunnel_is_remotely_managed = True\<rparr>
   \<and> register_call tree_api (Inr (Inr (reply_results tree_api (reply_error tree_api ''no'')))) = Inl (Register ''no'')"
  using register_reply_decoded [OF tree_capnp.capnp_api_axioms, of "''0123456789abcdef''" "''LIS''" "''no''" True]
  by (simp add: utf8_ok_ascii DUPLICATE_CONNECTION_ERROR_def)

text \<open>C34: The caller of the driver hears at most once. It hears the call's result, when that comes before a
  shutdown command and before the end of the RPC system; the end of the RPC system as an error, when
  that comes first; and nothing when a shutdown command comes first.\<close>

theorem driver_reports_once:
  assumes "list_all poll_idle ps"
  shows "length (sent (snd (driver_loop qs driver_start))) \<le> 1
    \<and> (dp_call p = Some r \<longrightarrow> sent (snd (driver_loop (ps @ p # qs) driver_start)) = [r])
    \<and> (dp_call p = None \<and> dp_cmd p = Some cmd \<longrightarrow>
         driver_loop (ps @ p # qs) driver_start = (True, driver_start\<lparr>shutdown_kind := cmd\<rparr>))
    \<and> (dp_call p = None \<and> dp_cmd p = None \<and> dp_system_done p \<longrightarrow>
         sent (snd (driver_loop (ps @ p # qs) driver_start))
           = [Inl (Register ''RPC system terminated before call completed'')])"
  using driver_inv_loop [OF driver_inv_start, of qs] driver_loop_result [OF assms, of p r qs]
    driver_loop_terminated [OF assms, of p qs]
  by (auto simp: driver_inv_def driver_loop_idle [OF assms])

theorem driver_reports_once_witness:
  "driver_loop [\<lparr>dp_call = None, dp_cmd = Some None, dp_system_done = True\<rparr>] driver_start
     = (True, driver_start\<lparr>shutdown_kind := None\<rparr>)
   \<and> sent (snd (driver_loop [\<lparr>dp_call = None, dp_cmd = None, dp_system_done = True\<rparr>] driver_start))
     = [Inl (Register ''RPC system terminated before call completed'')]"
  using driver_reports_once [of "[]" "[]" "\<lparr>dp_call = None, dp_cmd = Some None, dp_system_done = True\<rparr>" _ None]
    driver_reports_once [of "[]" "[]" "\<lparr>dp_call = None, dp_cmd = None, dp_system_done = True\<rparr>"]
  by simp

text \<open>C35: Registering returns a control session only for a reply of the edge that came within fifteen seconds,
  with its details, to the very request that carries the caller's options; the session has not been
  used, and dropping it or shutting it down sends the driver exactly one command.\<close>

theorem registration_from_reply:
  assumes "register_connection c env auth tid idx options = Inr (details, s)"
  shows "(\<exists>rq. build_register_request c auth tid idx options = Inr rq
      \<and> sent (snd (driver_loop (polls env rq) driver_start)) = [Inr details]
      \<and> settled_after env rq \<le> from_secs 15)
    \<and> fst (drop_session s) = [Immediate]
    \<and> fst (shutdown_graceful grace finished s) = [Graceful grace]
    \<and> snd (shutdown_graceful grace finished s) \<le> grace + from_secs 2"
  using register_connection_Inr [OF assms] drop_session_new shutdown_graceful_new
  by (auto simp: DEFAULT_RPC_TIMEOUT_def)

definition sample_env :: "registration_details \<Rightarrow> tree_struct rpc_env" where
  "sample_env d =
     \<lparr>open_bi = Inr (), spawn = Inr (),
      polls = \<lambda>_. [\<lparr>dp_call = Some (Inr d), dp_cmd = None, dp_system_done = False\<rparr>],
      settled_after = \<lambda>_. from_secs 1\<rparr>"

lemma sample_env_registers:
  "register_connection tree_api (sample_env d) auth tid idx options = Inr (d, session_new)"
  by (simp add: register_connection_def sample_env_def build_register_request_eq done_rx_def driver_start_def
      send_done_def timeout_def DEFAULT_RPC_TIMEOUT_def)

theorem registration_from_reply_witness:
  "fst (drop_session session_new) = [Immediate]
   \<and> fst (shutdown_graceful 7 Never session_new) = [Graceful 7]"
  using registration_from_reply [OF sample_env_registers, where grace = 7 and finished = Never] by blast

text \<open>C36: After its loop the driver awaits the unregister promise alone and no longer polls the RPC system. So
  whatever the edge answers and however early, a graceful shutdown sits out its grace period unacknowledged,
  up to the first wake at or after the deadline, and the caller of the shutdown waits for the driver all that
  time. Polling the system beside the promise, as the comment describes, would have taken the answer of
  an edge that replies by the first wake.\<close>

theorem unregister_never_acknowledged:
  assumes "settles_when_driven rt" and "sent_done d" and "shutdown_kind d = Some (Graceful grace)"
    and "wakes = pre @ (t, n) # post" and "list_all (\<lambda>(u, n). u < grace) pre" and "grace \<le> t"
    and "wakes = (t1, n1) # rest" and "rt_send rt (unregister_connection_request c) r = (h, r1)"
    and "rt_poll_promise rt h (snd (rt_poll_system rt (rt_network rt n1 r1)))"
  shows "driver_drain c rt wakes r d = \<lparr>unregister_sent = True, unregister_acked = False, drained_for = Some t\<rparr>
    \<and> await_driven rt grace wakes h r1 = Some (True, t1)
    \<and> snd (shutdown_graceful grace (Ready t ()) session_new) = min t (grace + from_secs 2)"
proof (intro conjI)
  have "\<not> rt_poll_promise rt h r1"
    using assms(1,8) unfolding settles_when_driven_def by (metis fst_conv snd_conv)
  from await_promise_unsettled [OF assms(1) this assms(5,6)] assms(2-4,8)
  show "driver_drain c rt wakes r d = \<lparr>unregister_sent = True, unregister_acked = False, drained_for = Some t\<rparr>"
    by (simp add: driver_drain_def)
  show "await_driven rt grace wakes h r1 = Some (True, t1)"
    using assms(7,9) by (simp add: Let_def)
  show "snd (shutdown_graceful grace (Ready t ()) session_new) = min t (grace + from_secs 2)"
    by (simp add: shutdown_graceful_def session_new_def drop_session_def fut_cost_def)
qed

text \<open>A runtime that holds whether the reply has arrived and whether it has been worked through.\<close>

definition sample_runtime :: "(tree_struct, bool \<times> bool, unit, unit) rpc_runtime" where
  "sample_runtime =
     \<lparr>rt_send = (\<lambda>rq r. ((), (False, False))), rt_network = (\<lambda>n (arrived, settled). (True, settled)),
      rt_poll_system = (\<lambda>(arrived, settled). (False, (arrived, arrived))),
      rt_poll_promise = (\<lambda>h (arrived, settled). settled)\<rparr>"

theorem unregister_never_acknowledged_witness:
  "driver_drain tree_api sample_runtime [(1, ()), (17, ()), (30, ())] (False, False)
     \<lparr>sent_done = True, done_tx = False, sent = [], shutdown_kind = Some (Graceful 30)\<rparr>
   = \<lparr>unregister_sent = True, unregister_acked = False, drained_for = Some 30\<rparr>
   \<and> await_driven sample_runtime 30 [(1, ()), (17, ()), (30, ())] () (False, False) = Some (True, 1)"
  using unregister_never_acknowledged [of sample_runtime
      "\<lparr>sent_done = True, done_tx = False, sent = [], shutdown_kind = Some (Graceful 30)\<rparr>" 30
      "[(1, ()), (17, ()), (30, ())]" "[(1, ()), (17, ())]" 30 "()" "[]" 1 "()" "[(17, ()), (30, ())]" tree_api
      "(False, False)" "()" "(False, False)"]
  by (simp add: settles_when_driven_def sample_runtime_def)

end
