(* ===== verification/Supervisor.thy ===== *)
theory Supervisor
  imports Prelude
begin

text \<open>
  \<^verbatim>\<open>src/supervisor.rs\<close>: the accept loop that owns a registered QUIC connection. The select is
  polled in the order its arms are written. What each poll finds is a \<open>sup_poll\<close>: whether the
  shutdown channel has fired (a value or a dropped sender) and what \<open>accept_bi\<close> has ready.
\<close>

record supervisor_metrics =
  streams_total :: u64
  sm_bytes_in :: u64
  sm_bytes_out :: u64

definition metrics_default :: supervisor_metrics where
  "metrics_default = \<lparr>streams_total = 0, sm_bytes_in = 0, sm_bytes_out = 0\<rparr>"

text \<open>The two byte counters every stream shares with the supervisor.\<close>

definition stream_counters :: "supervisor_metrics \<Rightarrow> u64 \<times> u64" where
  "stream_counters m = (sm_bytes_in m, sm_bytes_out m)"

definition snapshot :: "supervisor_metrics \<Rightarrow> u64 \<times> u64 \<times> u64" where
  "snapshot m = (streams_total m, sm_bytes_in m, sm_bytes_out m)"

datatype supervisor_exit = SupShutdown | ConnectionLost

datatype connection_error = ApplicationClosed string | LocallyClosed | OtherError string

record 'q sup_poll =
  sp_shutdown :: bool
  sp_accepted :: "(connection_error + 'q) option"

datatype 'q sup_action = CloseConn nat string | SpawnStream 'q

text \<open>
  The loop over the polls: how it exits (\<open>None\<close> while it still waits), the metrics, and what it did.
\<close>

fun sup_run ::
  "'q sup_poll list \<Rightarrow> supervisor_metrics \<Rightarrow> supervisor_exit option \<times> supervisor_metrics \<times> 'q sup_action list" where
  "sup_run [] m = (None, m, [])"
| "sup_run (p # ps) m =
     (if sp_shutdown p then (Some SupShutdown, m, [CloseConn 0 ''client shutdown''])
      else (case sp_accepted p of
              None \<Rightarrow> sup_run ps m
            | Some (Inr stream) \<Rightarrow>
                (let (r, m', acts) = sup_run ps (m\<lparr>streams_total := streams_total m + 1\<rparr>)
                 in (r, m', SpawnStream stream # acts))
            | Some (Inl (ApplicationClosed _)) \<Rightarrow> (Some ConnectionLost, m, [])
            | Some (Inl LocallyClosed) \<Rightarrow> (Some ConnectionLost, m, [])
            | Some (Inl (OtherError _)) \<Rightarrow> (Some ConnectionLost, m, [])))"

text \<open>The streams handed to the proxy are those accepted before the loop left, in order.\<close>

definition sup_continues :: "'q sup_poll \<Rightarrow> bool" where
  "sup_continues p \<longleftrightarrow> \<not> sp_shutdown p \<and> (\<forall>e. sp_accepted p \<noteq> Some (Inl e))"

definition accepted_stream :: "'q sup_poll \<Rightarrow> 'q option" where
  "accepted_stream p = (case sp_accepted p of Some (Inr q) \<Rightarrow> Some q | _ \<Rightarrow> None)"

definition accepted_before_exit :: "'q sup_poll list \<Rightarrow> 'q list" where
  "accepted_before_exit ps = List.map_filter accepted_stream (takeWhile sup_continues ps)"

definition sup_last :: "'q sup_poll list \<Rightarrow> 'q sup_poll option" where
  "sup_last ps = (case dropWhile sup_continues ps of [] \<Rightarrow> None | p # _ \<Rightarrow> Some p)"

lemma sup_run_eq:
  "sup_run ps m =
     (map_option (\<lambda>p. if sp_shutdown p then SupShutdown else ConnectionLost) (sup_last ps),
      m\<lparr>streams_total := streams_total m + of_nat (length (accepted_before_exit ps))\<rparr>,
      map SpawnStream (accepted_before_exit ps)
        @ (case sup_last ps of
             Some p \<Rightarrow> if sp_shutdown p then [CloseConn 0 ''client shutdown''] else []
           | None \<Rightarrow> []))"
proof (induction ps arbitrary: m)
  case Nil
  show ?case by (simp add: sup_last_def accepted_before_exit_def List.map_filter_simps)
next
  case (Cons p ps)
  show ?case
  proof (cases "sup_continues p")
    case False
    then show ?thesis
      by (auto simp: sup_last_def accepted_before_exit_def List.map_filter_simps sup_continues_def
          split: option.splits sum.splits connection_error.splits)
  next
    case True
    then show ?thesis
      by (auto simp: sup_last_def accepted_before_exit_def List.map_filter_simps sup_continues_def
          accepted_stream_def Cons.IH add.assoc split: option.splits sum.splits)
  qed
qed

section \<open>Properties\<close>

text \<open>C33: Whatever the polls find, the supervisor hands every stream that was accepted before its exit to the
  proxy, once and in order, counts exactly these, and leaves at the first poll that has a shutdown or
  a failed accept: with a close frame to the edge in the first case and as a lost connection in the
  other. A poll that has both a shutdown and a stream is a shutdown.\<close>

theorem supervisor_serves_until_exit:
  "sup_run ps m =
     (map_option (\<lambda>p. if sp_shutdown p then SupShutdown else ConnectionLost) (sup_last ps),
      m\<lparr>streams_total := streams_total m + of_nat (length (accepted_before_exit ps))\<rparr>,
      map SpawnStream (accepted_before_exit ps)
        @ (case sup_last ps of
             Some p \<Rightarrow> if sp_shutdown p then [CloseConn 0 ''client shutdown''] else []
           | None \<Rightarrow> []))"
  by (rule sup_run_eq)

end
