(* ===== verification/Reactor.thy ===== *)
theory Reactor
  imports Tunnel_Error Backoff
begin

text \<open>
  The reactors of \<^verbatim>\<open>src/manager.rs\<close>: the reconnect backoff, the two retry loops (\<open>reactor_loop\<close> after a
  lost connection, \<open>reactor_loop_after_failure\<close> for a leg whose first registration failed), and the
  life of a leg as a state machine, with the shutdown \<open>Notify\<close> that all legs share.
\<close>

definition MAX_RECONNECT_ATTEMPTS :: nat where
  "MAX_RECONNECT_ATTEMPTS = 10"

section \<open>Backoff\<close>

definition checked_shl :: "u64 \<Rightarrow> nat \<Rightarrow> u64 option" where
  "checked_shl w n = (if n < 64 then Some (push_bit n w) else None)"

definition backoff :: "nat \<Rightarrow> duration" where
  "backoff attempt =
     (let secs = unwrap_or 30 (checked_shl 1 (attempt - 1)) in from_secs (min (unat secs) 30))"

lemma unat_shl_1: "n < 64 \<Longrightarrow> unat (push_bit n (1 :: u64)) = 2 ^ n"
  by (subst unsigned_push_bit_eq)
    (simp add: take_bit_eq_mod push_bit_eq_mult power_strict_increasing [of n 64 "2 :: nat", simplified])

lemma backoff_closed: "1 \<le> a \<Longrightarrow> backoff a = from_secs (if a \<le> 5 then 2 ^ (a - 1) else 30)"
proof -
  assume a: "1 \<le> a"
  have big: "(32 :: nat) \<le> 2 ^ n" if "5 \<le> n" for n
    using power_increasing [OF that, of "2 :: nat"] by simp
  show ?thesis
  proof (cases "a - 1 < 64")
    case True
    then have "backoff a = from_secs (min (2 ^ (a - 1)) 30)"
      unfolding backoff_def checked_shl_def Let_def by (simp only: if_True unwrap_or_simps unat_shl_1)
    moreover have "min (2 ^ (a - 1)) 30 = (if a \<le> 5 then 2 ^ (a - 1) else (30 :: nat))"
    proof (cases "a \<le> 5")
      case True
      then have "(2 :: nat) ^ (a - 1) \<le> 2 ^ 4" by (intro power_increasing) simp_all
      with True show ?thesis by simp
    next
      case False
      then have "32 \<le> (2 :: nat) ^ (a - 1)" by (intro big) simp
      with False show ?thesis by simp
    qed
    ultimately show ?thesis by simp
  next
    case False
    then show ?thesis by (simp add: backoff_def checked_shl_def)
  qed
qed

interpretation reactor_policy: backoff_policy backoff "from_secs 30"
proof
  fix a :: nat assume a: "1 \<le> a"
  have small: "(2 :: nat) ^ (a - 1) \<le> 30" if "a \<le> 5"
  proof -
    have "(2 :: nat) ^ (a - 1) \<le> 2 ^ 4" using that by (intro power_increasing) simp_all
    then show ?thesis by simp
  qed
  show "0 < backoff a" using a by (simp add: backoff_closed from_secs_def)
  show "backoff a \<le> from_secs 30" using a small by (simp add: backoff_closed)
  have "(2 :: nat) ^ (a - 1) \<le> 2 ^ a" by (intro power_increasing) simp_all
  then show "backoff a \<le> backoff (Suc a)" using a small by (auto simp: backoff_closed)
qed

section \<open>The retry loops\<close>

text \<open>
  \<open>stop a\<close> says whether the shutdown notification comes before the sleep of attempt \<open>a\<close> is over
  (the select is biased towards it), \<open>connect a\<close> is what the connect cycle of attempt \<open>a\<close> gives. The
  result lists the sleeps that were completed.
\<close>

datatype 'k reconnect_end = GaveUp | StoppedInBackoff nat | Reconnected nat 'k

function reconnect_loop ::
  "(nat \<Rightarrow> bool) \<Rightarrow> (nat \<Rightarrow> tunnel_error + 'k) \<Rightarrow> nat \<Rightarrow> 'k reconnect_end \<times> duration list" where
  "reconnect_loop stop connect attempt =
     (let attempt = attempt + 1 in
      if MAX_RECONNECT_ATTEMPTS < attempt then (GaveUp, [])
      else
        (let delay = backoff attempt in
         if stop attempt then (StoppedInBackoff attempt, [])
         else (case connect attempt of
                 Inr k \<Rightarrow> (Reconnected attempt k, [delay])
               | Inl e \<Rightarrow>
                   (let (r, ds) = reconnect_loop stop connect attempt in (r, delay # ds)))))"
  by pat_completeness auto
termination
  by (relation "measure (\<lambda>(stop, connect, attempt). MAX_RECONNECT_ATTEMPTS - attempt)") auto

declare reconnect_loop.simps [simp del]

text \<open>What the loop computes: it tries until the first attempt that is stopped or connects.\<close>

definition decides :: "(nat \<Rightarrow> bool) \<Rightarrow> (nat \<Rightarrow> tunnel_error + 'k) \<Rightarrow> nat \<Rightarrow> bool" where
  "decides stop connect a \<longleftrightarrow> stop a \<or> (\<exists>k. connect a = Inr k)"

lemma reconnect_loop_from:
  assumes "n \<le> MAX_RECONNECT_ATTEMPTS"
  shows "(\<exists>a. n < a \<and> a \<le> MAX_RECONNECT_ATTEMPTS \<and> decides stop connect a
            \<and> (\<forall>b. n < b \<and> b < a \<longrightarrow> \<not> decides stop connect b)
            \<and> reconnect_loop stop connect n =
                (if stop a then (StoppedInBackoff a, map backoff [Suc n..<a])
                 else (Reconnected a (projr (connect a)), map backoff [Suc n..<Suc a])))
       \<or> ((\<forall>b. n < b \<and> b \<le> MAX_RECONNECT_ATTEMPTS \<longrightarrow> \<not> decides stop connect b)
            \<and> reconnect_loop stop connect n = (GaveUp, map backoff [Suc n..<Suc MAX_RECONNECT_ATTEMPTS]))"
  using assms
proof (induction "MAX_RECONNECT_ATTEMPTS - n" arbitrary: n)
  case 0
  then have "n = MAX_RECONNECT_ATTEMPTS" by simp
  then show ?case by (auto simp: reconnect_loop.simps [of stop connect MAX_RECONNECT_ATTEMPTS])
next
  case (Suc m)
  then have lt: "\<not> MAX_RECONNECT_ATTEMPTS < n + 1" by simp
  show ?case
  proof (cases "decides stop connect (Suc n)")
    case True
    then have "reconnect_loop stop connect n =
        (if stop (Suc n) then (StoppedInBackoff (Suc n), [])
         else (Reconnected (Suc n) (projr (connect (Suc n))), [backoff (Suc n)]))"
      using lt by (auto simp: reconnect_loop.simps [of stop connect n] decides_def Let_def)
    with True lt show ?thesis by (intro disjI1 exI [of _ "Suc n"]) auto
  next
    case False
    then obtain e where "connect (Suc n) = Inl e" "\<not> stop (Suc n)"
      by (cases "connect (Suc n)") (auto simp: decides_def)
    with lt have step: "reconnect_loop stop connect n =
        (let (r, ds) = reconnect_loop stop connect (Suc n) in (r, backoff (Suc n) # ds))"
      by (simp add: reconnect_loop.simps [of stop connect n] Let_def)
    have between: "(n < b \<and> P b) = (b = Suc n \<and> P b \<or> Suc n < b \<and> P b)" for b P by auto
    have "m = MAX_RECONNECT_ATTEMPTS - Suc n" "Suc n \<le> MAX_RECONNECT_ATTEMPTS"
      using Suc.hyps(2) lt by simp_all
    from Suc.hyps(1) [OF this] show ?thesis
    proof (elim disjE exE conjE)
      fix a
      assume h: "Suc n < a" "a \<le> MAX_RECONNECT_ATTEMPTS" "decides stop connect a"
        "\<forall>b. Suc n < b \<and> b < a \<longrightarrow> \<not> decides stop connect b"
        "reconnect_loop stop connect (Suc n) =
            (if stop a then (StoppedInBackoff a, map backoff [Suc (Suc n)..<a])
             else (Reconnected a (projr (connect a)), map backoff [Suc (Suc n)..<Suc a]))"
      have "\<forall>b. n < b \<and> b < a \<longrightarrow> \<not> decides stop connect b"
        using h(4) False by (metis Suc_lessI)
      moreover have "[Suc n..<a] = Suc n # [Suc (Suc n)..<a]" "[Suc n..<Suc a] = Suc n # [Suc (Suc n)..<Suc a]"
        using h(1) by (simp_all add: upt_conv_Cons del: upt_Suc)
      ultimately show ?thesis
        using h step by (intro disjI1 exI [of _ a]) (simp del: upt_Suc)
    next
      assume h: "\<forall>b. Suc n < b \<and> b \<le> MAX_RECONNECT_ATTEMPTS \<longrightarrow> \<not> decides stop connect b"
        "reconnect_loop stop connect (Suc n) = (GaveUp, map backoff [Suc (Suc n)..<Suc MAX_RECONNECT_ATTEMPTS])"
      have "\<forall>b. n < b \<and> b \<le> MAX_RECONNECT_ATTEMPTS \<longrightarrow> \<not> decides stop connect b"
        using h(1) False by (metis Suc_lessI)
      moreover have "[Suc n..<Suc MAX_RECONNECT_ATTEMPTS] = Suc n # [Suc (Suc n)..<Suc MAX_RECONNECT_ATTEMPTS]"
        using lt by (simp add: upt_conv_Cons del: upt_Suc)
      ultimately show ?thesis using h step by (intro disjI2) (simp del: upt_Suc)
    qed
  qed
qed

text \<open>
  The two uses of the loop: after a lost connection the cycles replace the old registration, and a leg
  whose first registration failed makes the same loop without replacing. \<open>cycle\<close> is the connect cycle
  of an attempt, for a value of the flag. On success the leg serves on, in \<open>reactor_loop\<close>.
\<close>

definition reconnect_after_loss ::
  "(nat \<Rightarrow> bool) \<Rightarrow> (bool \<Rightarrow> nat \<Rightarrow> tunnel_error + 'k) \<Rightarrow> 'k reconnect_end \<times> duration list" where
  "reconnect_after_loss stop cycle = reconnect_loop stop (cycle True) 0"

definition reactor_loop_after_failure ::
  "(nat \<Rightarrow> bool) \<Rightarrow> (bool \<Rightarrow> nat \<Rightarrow> tunnel_error + 'k) \<Rightarrow> 'k reconnect_end \<times> duration list" where
  "reactor_loop_after_failure stop cycle = reconnect_loop stop (cycle False) 0"

lemma total_backoff: "total_delay backoff MAX_RECONNECT_ATTEMPTS = from_secs 181"
  by (simp add: total_delay_def MAX_RECONNECT_ATTEMPTS_def backoff_closed from_secs_def upt_rec)

section \<open>The life of a leg\<close>

text \<open>
  A leg is one reactor task. \<open>Starting\<close> is a reactor that was spawned with its connection and not
  polled yet, \<open>Registering\<close> a further leg inside its first connect cycle. A phase is listening when
  the task holds a \<open>Notified\<close> that it polls; \<open>woken\<close> says that this one has been notified. A
  \<open>Notified\<close> of an earlier phase is never polled again.

  One step is what a task does between two awaits, and no notification falls inside a step. (On a
  runtime with several threads one could fall into the poll that finds the connection lost, after the
  \<open>Notified\<close> was polled; it would be lost too.)
\<close>

datatype leg_end = CleanShutdown | StopInBackoff | LegGaveUp

datatype phase =
    Starting
  | Registering
  | RetryWait nat
  | RetryConnect nat
  | Serving
  | Unregistering
  | BackoffWait nat
  | Reconnecting nat
  | Ended leg_end

datatype leg_event = FirstPoll | CycleOk | CycleFailed | Lost | SawNotify | SleepOver | UnregisterDone

record leg =
  leg_index :: u8
  leg_phase :: phase
  woken :: bool
  replaced :: "bool list"
  rejoined :: nat

fun listening :: "phase \<Rightarrow> bool" where
  "listening (RetryWait n) = True"
| "listening Serving = True"
| "listening (BackoffWait n) = True"
| "listening _ = False"

text \<open>The check at the head of a retry loop: attempt \<open>n\<close> is made or the leg gives up.\<close>

definition retry_or_end :: "(nat \<Rightarrow> phase) \<Rightarrow> nat \<Rightarrow> phase" where
  "retry_or_end wait n = (if MAX_RECONNECT_ATTEMPTS < n then Ended LegGaveUp else wait n)"

fun phase_step :: "leg_event \<Rightarrow> bool \<Rightarrow> phase \<Rightarrow> phase option" where
  "phase_step FirstPoll w Starting = Some Serving"
| "phase_step CycleOk w Registering = Some Serving"
| "phase_step CycleFailed w Registering = Some (retry_or_end RetryWait 1)"
| "phase_step SleepOver w (RetryWait n) = (if w then None else Some (RetryConnect n))"
| "phase_step SawNotify w (RetryWait n) = (if w then Some (Ended StopInBackoff) else None)"
| "phase_step CycleOk w (RetryConnect n) = Some Serving"
| "phase_step CycleFailed w (RetryConnect n) = Some (retry_or_end RetryWait (n + 1))"
| "phase_step Lost w Serving = (if w then None else Some (retry_or_end BackoffWait 1))"
| "phase_step SawNotify w Serving = (if w then Some Unregistering else None)"
| "phase_step UnregisterDone w Unregistering = Some (Ended CleanShutdown)"
| "phase_step SleepOver w (BackoffWait n) = (if w then None else Some (Reconnecting n))"
| "phase_step SawNotify w (BackoffWait n) = (if w then Some (Ended StopInBackoff) else None)"
| "phase_step CycleOk w (Reconnecting n) = Some Serving"
| "phase_step CycleFailed w (Reconnecting n) = Some (retry_or_end BackoffWait (n + 1))"
| "phase_step _ w _ = None"

text \<open>The \<open>replace_existing\<close> flag of the registration that a connect cycle of a phase makes.\<close>

fun cycle_replaces :: "phase \<Rightarrow> bool option" where
  "cycle_replaces Registering = Some False"
| "cycle_replaces (RetryConnect n) = Some False"
| "cycle_replaces (Reconnecting n) = Some True"
| "cycle_replaces _ = None"

definition leg_step :: "leg_event \<Rightarrow> leg \<Rightarrow> leg option" where
  "leg_step ev l =
     (case phase_step ev (woken l) (leg_phase l) of
        None \<Rightarrow> None
      | Some ph \<Rightarrow>
          Some (l\<lparr>leg_phase := ph, woken := False,
                  replaced := replaced l @
                    (if ev = CycleOk then (case cycle_replaces (leg_phase l) of Some b \<Rightarrow> [b] | None \<Rightarrow> []) else []),
                  rejoined := rejoined l +
                    (if ev = CycleOk \<and> cycle_replaces (leg_phase l) = Some True then 1 else 0)\<rparr>))"

definition wake :: "leg \<Rightarrow> leg" where
  "wake l = (if listening (leg_phase l) then l\<lparr>woken := True\<rparr> else l)"

section \<open>All legs and the handle\<close>

record tunnel_sys =
  legs :: "leg list"
  reconnects :: u64

datatype sys_event = Tick nat leg_event | NotifyAll

definition counts_reconnect :: "leg_event \<Rightarrow> leg \<Rightarrow> bool" where
  "counts_reconnect ev l \<longleftrightarrow> ev = CycleOk \<and> cycle_replaces (leg_phase l) = Some True"

fun sys_step :: "sys_event \<Rightarrow> tunnel_sys \<Rightarrow> tunnel_sys option" where
  "sys_step (Tick i ev) s =
     (if i < length (legs s)
      then (case leg_step ev (legs s ! i) of
              None \<Rightarrow> None
            | Some l \<Rightarrow>
                Some \<lparr>legs = (legs s)[i := l],
                      reconnects = (if counts_reconnect ev (legs s ! i) then reconnects s + 1 else reconnects s)\<rparr>)
      else None)"
| "sys_step NotifyAll s = Some (s\<lparr>legs := map wake (legs s)\<rparr>)"

text \<open>The legs as \<open>start_inner\<close> spawns them: the first is registered, the others begin to.\<close>

definition first_leg :: leg where
  "first_leg = \<lparr>leg_index = 0, leg_phase = Starting, woken = False, replaced = [False], rejoined = 0\<rparr>"

definition further_leg :: "u8 \<Rightarrow> leg" where
  "further_leg idx = \<lparr>leg_index = idx, leg_phase = Registering, woken = False, replaced = [], rejoined = 0\<rparr>"

definition spawn_legs :: "nat \<Rightarrow> tunnel_sys" where
  "spawn_legs ha =
     \<lparr>legs = first_leg # map (\<lambda>i. further_leg (of_nat i)) [1..<ha], reconnects = 0\<rparr>"

inductive sys_trans :: "tunnel_sys \<Rightarrow> tunnel_sys \<Rightarrow> bool" where
  trans_step: "sys_step ev s = Some t \<Longrightarrow> sys_trans s t"

inductive sys_reachable :: "nat \<Rightarrow> tunnel_sys \<Rightarrow> bool" for ha where
  reach_start: "sys_reachable ha (spawn_legs ha)"
| reach_step: "sys_reachable ha s \<Longrightarrow> sys_trans s t \<Longrightarrow> sys_reachable ha t"

inductive_cases sys_trans_cases: "sys_trans s t"

fun run_events :: "sys_event list \<Rightarrow> tunnel_sys \<Rightarrow> tunnel_sys option" where
  "run_events [] s = Some s"
| "run_events (ev # evs) s = Option.bind (sys_step ev s) (run_events evs)"

definition leg_ended :: "leg \<Rightarrow> bool" where
  "leg_ended l \<longleftrightarrow> (\<exists>e. leg_phase l = Ended e)"

text \<open>\<open>shutdown_with\<close> returns when every reactor has been joined.\<close>

definition all_joined :: "tunnel_sys \<Rightarrow> bool" where
  "all_joined s = list_all leg_ended (legs s)"

end
