(* ===== verification/Reactor_Correct.thy ===== *)
theory Reactor_Correct
  imports Reactor
begin

text \<open>
  What holds of the legs: their invariant in every reachable state, that a notification which every
  leg is listening for ends them all, that one which comes inside a connect cycle is lost, and that
  the machine follows the retry loop.
\<close>

section \<open>The invariant\<close>

fun attempt_of :: "phase \<Rightarrow> nat option" where
  "attempt_of (RetryWait n) = Some n"
| "attempt_of (RetryConnect n) = Some n"
| "attempt_of (BackoffWait n) = Some n"
| "attempt_of (Reconnecting n) = Some n"
| "attempt_of _ = None"

fun unregistered :: "phase \<Rightarrow> bool" where
  "unregistered Registering = True"
| "unregistered (RetryWait n) = True"
| "unregistered (RetryConnect n) = True"
| "unregistered _ = False"

fun may_be_unregistered :: "phase \<Rightarrow> bool" where
  "may_be_unregistered (Ended CleanShutdown) = False"
| "may_be_unregistered (Ended e) = True"
| "may_be_unregistered ph = unregistered ph"

text \<open>
  Attempts count from 1 to the cap, only a listening leg is woken, and the registrations of a leg are
  one with \<open>replace_existing = false\<close> followed by one with \<open>true\<close> per reconnect.
\<close>

definition leg_ok :: "leg \<Rightarrow> bool" where
  "leg_ok l \<longleftrightarrow>
     (\<forall>n. attempt_of (leg_phase l) = Some n \<longrightarrow> 1 \<le> n \<and> n \<le> MAX_RECONNECT_ATTEMPTS)
     \<and> (woken l \<longrightarrow> listening (leg_phase l))
     \<and> (unregistered (leg_phase l) \<longrightarrow> replaced l = [] \<and> rejoined l = 0)
     \<and> (replaced l = [] \<longrightarrow> may_be_unregistered (leg_phase l) \<and> rejoined l = 0)
     \<and> (replaced l \<noteq> [] \<longrightarrow> replaced l = False # replicate (rejoined l) True)"

inductive_simps sys_trans_simps: "sys_trans s t"

lemma retry_or_end_simps [simp]:
  "retry_or_end wait (Suc n) = (if n < MAX_RECONNECT_ATTEMPTS then wait (Suc n) else Ended LegGaveUp)"
  by (simp add: retry_or_end_def)

lemma max_attempts_pos [simp]: "0 < MAX_RECONNECT_ATTEMPTS" "Suc 0 \<le> MAX_RECONNECT_ATTEMPTS"
  by (simp_all add: MAX_RECONNECT_ATTEMPTS_def)

lemma leg_step_Some:
  "leg_step ev l = Some l' \<longleftrightarrow>
   (\<exists>ph. phase_step ev (woken l) (leg_phase l) = Some ph \<and>
      l' = l\<lparr>leg_phase := ph, woken := False,
             replaced := replaced l @
               (if ev = CycleOk then (case cycle_replaces (leg_phase l) of Some b \<Rightarrow> [b] | None \<Rightarrow> []) else []),
             rejoined := rejoined l +
               (if ev = CycleOk \<and> cycle_replaces (leg_phase l) = Some True then 1 else 0)\<rparr>)"
  by (auto simp: leg_step_def split: option.splits)

lemma replicate_snoc: "replicate n x @ [x] = x # replicate n x"
  by (induction n) simp_all

lemma leg_ok_step: "leg_ok l \<Longrightarrow> leg_step ev l = Some l' \<Longrightarrow> leg_ok l'"
  by (cases ev; cases "leg_phase l")
    (auto simp: leg_step_Some leg_ok_def replicate_snoc split: if_splits)

lemma leg_ok_wake: "leg_ok l \<Longrightarrow> leg_ok (wake l)"
  by (auto simp: leg_ok_def wake_def)

lemma leg_ok_start: "leg_ok first_leg" "leg_ok (further_leg i)"
  by (simp_all add: leg_ok_def first_leg_def further_leg_def)

definition sys_inv :: "nat \<Rightarrow> tunnel_sys \<Rightarrow> bool" where
  "sys_inv ha s \<longleftrightarrow>
     length (legs s) = ha
     \<and> (\<forall>i < ha. leg_index (legs s ! i) = of_nat i)
     \<and> list_all leg_ok (legs s)
     \<and> reconnects s = of_nat (sum_list (map rejoined (legs s)))"

lemma leg_step_index: "leg_step ev l = Some l' \<Longrightarrow> leg_index l' = leg_index l"
  by (auto simp: leg_step_Some)

lemma leg_step_rejoined:
  "leg_step ev l = Some l' \<Longrightarrow> rejoined l' = rejoined l + (if counts_reconnect ev l then 1 else 0)"
  by (auto simp: leg_step_Some counts_reconnect_def)

lemma wake_fields [simp]:
  "leg_index (wake l) = leg_index l" "rejoined (wake l) = rejoined l" "leg_phase (wake l) = leg_phase l"
  by (simp_all add: wake_def)

lemma spawn_legs_nth: "1 \<le> ha \<Longrightarrow> i < ha \<Longrightarrow> legs (spawn_legs ha) ! i = (if i = 0 then first_leg else further_leg (of_nat i))"
  by (cases i) (auto simp: spawn_legs_def nth_Cons)

lemma sys_inv_start: "1 \<le> ha \<Longrightarrow> sys_inv ha (spawn_legs ha)"
proof -
  assume ha: "1 \<le> ha"
  have "map rejoined (legs (spawn_legs ha)) = replicate (Suc (length [1..<ha])) 0"
    by (intro replicate_eqI) (auto simp: spawn_legs_def first_leg_def further_leg_def)
  then have "(of_nat (sum_list (map rejoined (legs (spawn_legs ha)))) :: u64) = 0"
    by (simp only: sum_list_replicate) simp
  moreover have "list_all leg_ok (legs (spawn_legs ha))"
    by (auto simp: spawn_legs_def list_all_iff leg_ok_start)
  moreover have "\<forall>i < ha. leg_index (legs (spawn_legs ha) ! i) = of_nat i"
    using ha by (auto simp: spawn_legs_nth first_leg_def further_leg_def)
  moreover have "length (legs (spawn_legs ha)) = ha" "reconnects (spawn_legs ha) = 0"
    using ha by (simp_all add: spawn_legs_def)
  ultimately show ?thesis by (simp add: sys_inv_def)
qed

lemma sys_step_Tick:
  "sys_step (Tick i ev) s = Some t \<longleftrightarrow>
   i < length (legs s) \<and> (\<exists>l. leg_step ev (legs s ! i) = Some l \<and>
     t = \<lparr>legs = (legs s)[i := l],
          reconnects = (if counts_reconnect ev (legs s ! i) then reconnects s + 1 else reconnects s)\<rparr>)"
  by (auto split: option.splits)

lemma sum_list_update_nat: "i < length xs \<Longrightarrow> sum_list (xs[i := x]) + xs ! i = sum_list xs + (x :: nat)"
  by (induction xs arbitrary: i) (auto split: nat.splits)

lemma sys_inv_step:
  assumes "sys_inv ha s" and "sys_step ev s = Some t"
  shows "sys_inv ha t"
proof (cases ev)
  case (Tick i e)
  with assms(2) obtain l where l: "i < length (legs s)" "leg_step e (legs s ! i) = Some l"
    "t = \<lparr>legs = (legs s)[i := l],
          reconnects = (if counts_reconnect e (legs s ! i) then reconnects s + 1 else reconnects s)\<rparr>"
    using sys_step_Tick by blast
  have ok: "leg_ok l" using assms(1) l(1,2) leg_ok_step by (auto simp: sys_inv_def list_all_length)
  have "sum_list (map rejoined ((legs s)[i := l])) =
      sum_list (map rejoined (legs s)) + (if counts_reconnect e (legs s ! i) then 1 else 0)"
    using sum_list_update_nat [of i "map rejoined (legs s)" "rejoined l"] l(1)
      leg_step_rejoined [OF l(2)] by (simp add: map_update)
  moreover have "list_all leg_ok ((legs s)[i := l])"
    using assms(1) ok set_update_subset_insert [of "legs s" i l] by (auto simp: sys_inv_def list_all_iff)
  moreover have "\<forall>j < ha. leg_index ((legs s)[i := l] ! j) = of_nat j"
  proof (intro allI impI)
    fix j
    assume "j < ha"
    with assms(1) leg_step_index [OF l(2)] show "leg_index ((legs s)[i := l] ! j) = of_nat j"
      by (cases "i = j") (auto simp: sys_inv_def)
  qed
  ultimately show ?thesis using assms(1) l(3) by (simp add: sys_inv_def)
next
  case NotifyAll
  have "map rejoined (map wake (legs s)) = map rejoined (legs s)" by simp
  with assms NotifyAll show ?thesis
    by (auto simp: sys_inv_def list_all_iff leg_ok_wake simp del: map_map)
qed

lemma sys_reachable_inv: "sys_reachable ha s \<Longrightarrow> 1 \<le> ha \<Longrightarrow> sys_inv ha s"
proof (induction rule: sys_reachable.induct)
  case reach_start
  then show ?case by (rule sys_inv_start)
next
  case (reach_step s t)
  then show ?case by (auto elim!: sys_trans_cases intro: sys_inv_step)
qed

lemma run_events_reachable:
  "sys_reachable ha s \<Longrightarrow> run_events evs s = Some t \<Longrightarrow> sys_reachable ha t"
  by (induction evs arbitrary: s)
    (auto simp: bind_eq_Some_conv dest: reach_step [OF _ trans_step])

section \<open>A notification that is heard\<close>

definition stopping :: "leg \<Rightarrow> bool" where
  "stopping l \<longleftrightarrow> leg_ended l \<or> leg_phase l = Unregistering \<or> listening (leg_phase l) \<and> woken l"

fun phase_rank :: "phase \<Rightarrow> nat" where
  "phase_rank (Ended e) = 0"
| "phase_rank Unregistering = 1"
| "phase_rank Serving = 2"
| "phase_rank _ = 1"

definition stop_rank :: "tunnel_sys \<Rightarrow> nat" where
  "stop_rank s = sum_list (map (\<lambda>l. phase_rank (leg_phase l)) (legs s))"

lemma stopping_step:
  "stopping l \<Longrightarrow> leg_step ev l = Some l' \<Longrightarrow>
   stopping l' \<and> Suc (phase_rank (leg_phase l')) = phase_rank (leg_phase l)"
  by (cases ev; cases "leg_phase l") (auto simp: leg_step_Some stopping_def leg_ended_def split: if_splits)

lemma stopping_enabled: "stopping l \<Longrightarrow> \<not> leg_ended l \<Longrightarrow> \<exists>ev l'. leg_step ev l = Some l'"
proof -
  assume a: "stopping l" "\<not> leg_ended l"
  then have "leg_step (if leg_phase l = Unregistering then UnregisterDone else SawNotify) l \<noteq> None"
    by (cases "leg_phase l") (auto simp: leg_step_def stopping_def leg_ended_def)
  then show ?thesis by blast
qed

lemma stopping_wake: "stopping l \<or> listening (leg_phase l) \<Longrightarrow> stopping (wake l)"
  by (auto simp: stopping_def wake_def leg_ended_def)

lemma heard_step:
  assumes "list_all stopping (legs s)" and "sys_step (Tick i ev) s = Some t"
  shows "list_all stopping (legs t) \<and> Suc (stop_rank t) = stop_rank s"
proof -
  from assms(2) obtain l where l: "i < length (legs s)" "leg_step ev (legs s ! i) = Some l"
    "legs t = (legs s)[i := l]"
    using sys_step_Tick by auto
  with assms(1) have st: "stopping l" "Suc (phase_rank (leg_phase l)) = phase_rank (leg_phase (legs s ! i))"
    using stopping_step by (auto simp: list_all_length)
  have "list_all stopping (legs t)"
    using assms(1) st(1) set_update_subset_insert [of "legs s" i l] by (auto simp: l(3) list_all_iff)
  moreover have "Suc (stop_rank t) = stop_rank s"
    using sum_list_update_nat [of i "map (\<lambda>l. phase_rank (leg_phase l)) (legs s)" "phase_rank (leg_phase l)"]
      l(1) st(2) by (simp add: stop_rank_def l(3) map_update)
  ultimately show ?thesis ..
qed

lemma heard_run:
  "list_all stopping (legs s) \<Longrightarrow> run_events (map (\<lambda>(i, ev). Tick i ev) ticks) s = Some t \<Longrightarrow>
   list_all stopping (legs t) \<and> length ticks + stop_rank t = stop_rank s"
proof (induction ticks arbitrary: s)
  case (Cons x ticks)
  obtain i ev where x: "x = (i, ev)" by (cases x)
  with Cons.prems obtain u where u: "sys_step (Tick i ev) s = Some u"
    "run_events (map (\<lambda>(i, ev). Tick i ev) ticks) u = Some t"
    by (auto simp: bind_eq_Some_conv simp del: sys_step.simps)
  from heard_step [OF Cons.prems(1) u(1)] Cons.IH [OF _ u(2)] show ?case by auto
qed simp

lemma heard_progress:
  assumes "list_all stopping (legs s)" and "\<not> all_joined s"
  shows "\<exists>i ev t. sys_step (Tick i ev) s = Some t"
proof -
  from assms(2) obtain l where l: "l \<in> set (legs s)" "\<not> leg_ended l"
    by (auto simp: all_joined_def list_all_iff)
  then obtain i where i: "i < length (legs s)" "legs s ! i = l" by (auto simp: in_set_conv_nth)
  from assms(1) l have "stopping l" by (simp add: list_all_iff)
  from stopping_enabled [OF this l(2)] obtain ev l' where "leg_step ev l = Some l'" by blast
  with i show ?thesis unfolding sys_step_Tick by blast
qed

lemma stop_rank_joined: "stop_rank s = 0 \<Longrightarrow> list_all stopping (legs s) \<Longrightarrow> all_joined s"
proof -
  assume a: "stop_rank s = 0" "list_all stopping (legs s)"
  have "leg_ended l" if "l \<in> set (legs s)" for l
  proof -
    from a(1) that have "phase_rank (leg_phase l) = 0" by (auto simp: stop_rank_def)
    then show ?thesis by (cases "leg_phase l") (auto simp: leg_ended_def)
  qed
  then show ?thesis by (simp add: all_joined_def list_all_iff)
qed

section \<open>The machine follows the retry loop\<close>

text \<open>
  The events of the machine for one run of the loop; \<open>None\<close> stands for the notification.
\<close>

function loop_script :: "(nat \<Rightarrow> bool) \<Rightarrow> (nat \<Rightarrow> tunnel_error + 'k) \<Rightarrow> nat \<Rightarrow> leg_event option list" where
  "loop_script stop connect n =
     (let a = n + 1 in
      if MAX_RECONNECT_ATTEMPTS < a then []
      else if stop a then [None, Some SawNotify]
      else (case connect a of
              Inr k \<Rightarrow> [Some SleepOver, Some CycleOk]
            | Inl e \<Rightarrow> Some SleepOver # Some CycleFailed # loop_script stop connect a))"
  by pat_completeness auto
termination
  by (relation "measure (\<lambda>(stop, connect, n). MAX_RECONNECT_ATTEMPTS - n)") auto

declare loop_script.simps [simp del]

fun leg_run :: "leg_event option list \<Rightarrow> leg \<Rightarrow> leg option" where
  "leg_run [] l = Some l"
| "leg_run (None # es) l = leg_run es (wake l)"
| "leg_run (Some ev # es) l = Option.bind (leg_step ev l) (leg_run es)"

fun end_phase :: "'k reconnect_end \<Rightarrow> phase" where
  "end_phase GaveUp = Ended LegGaveUp"
| "end_phase (StoppedInBackoff n) = Ended StopInBackoff"
| "end_phase (Reconnected n k) = Serving"

text \<open>
  The loop of a leg that lost its connection (\<open>b\<close>) and of one that never registered wait in different
  phases. What the loop leaves of the leg: its phase, and a registration when it connected.
\<close>

definition wait_phase :: "bool \<Rightarrow> nat \<Rightarrow> phase" where
  "wait_phase b n = (if b then BackoffWait n else RetryWait n)"

definition after_loop :: "bool \<Rightarrow> 'k reconnect_end \<Rightarrow> leg \<Rightarrow> leg" where
  "after_loop b r l =
     (case r of
        Reconnected n k \<Rightarrow>
          l\<lparr>leg_phase := Serving, replaced := replaced l @ [b], rejoined := rejoined l + of_bool b\<rparr>
      | _ \<Rightarrow> l\<lparr>leg_phase := end_phase r\<rparr>)"

lemma after_loop_phase [simp]: "leg_phase (after_loop b r l) = end_phase r" "woken (after_loop b r l) = woken l"
  by (cases r; simp add: after_loop_def)+

lemma after_loop_update: "\<not> woken l \<Longrightarrow> after_loop b r (l\<lparr>leg_phase := ph, woken := False\<rparr>) = after_loop b r l"
  by (cases l; cases r) (simp_all add: after_loop_def)

lemma leg_run_loop_state:
  assumes "leg_phase l = retry_or_end (wait_phase b) (n + 1)" and "\<not> woken l"
  shows "leg_run (loop_script stop connect n) l = Some (after_loop b (fst (reconnect_loop stop connect n)) l)"
  using assms
proof (induction stop connect n arbitrary: l rule: loop_script.induct)
  case (1 stop connect n)
  note loops = loop_script.simps [of stop connect n] reconnect_loop.simps [of stop connect n]
  show ?case
  proof (cases "MAX_RECONNECT_ATTEMPTS < n + 1")
    case True
    with "1.prems" show ?thesis by (simp add: loops retry_or_end_def after_loop_def)
  next
    case False
    with "1.prems" have ph: "leg_phase l = wait_phase b (n + 1)" by (simp add: retry_or_end_def)
    show ?thesis
    proof (cases "stop (n + 1)")
      case True
      with False ph show ?thesis
        by (cases b) (simp_all add: loops wake_def leg_step_def after_loop_def wait_phase_def "1.prems"(2))
    next
      case ns: False
      show ?thesis
      proof (cases "connect (n + 1)")
        case (Inr k)
        with False ns ph "1.prems"(2) show ?thesis
          by (cases b) (simp_all add: loops leg_step_def after_loop_def wait_phase_def)
      next
        case (Inl e)
        let ?l = "l\<lparr>leg_phase := retry_or_end (wait_phase b) (n + 1 + 1), woken := False\<rparr>"
        have w: "retry_or_end RetryWait m = retry_or_end (wait_phase b) m" if "\<not> b" for m
          using that by (simp add: retry_or_end_def wait_phase_def)
        have w': "retry_or_end BackoffWait m = retry_or_end (wait_phase b) m" if b for m
          using that by (simp add: retry_or_end_def wait_phase_def)
        have "leg_run (loop_script stop connect n) l = leg_run (loop_script stop connect (n + 1)) ?l"
          using False ns Inl ph "1.prems"(2) w w'
          by (cases b) (simp_all add: loops(1) leg_step_def wait_phase_def del: retry_or_end_simps)
        also have "\<dots> = Some (after_loop b (fst (reconnect_loop stop connect (n + 1))) ?l)"
          by (rule "1.IH" [OF refl False ns Inl]) simp_all
        also have "after_loop b (fst (reconnect_loop stop connect (n + 1))) ?l =
            after_loop b (fst (reconnect_loop stop connect (n + 1))) l"
          by (rule after_loop_update) (rule "1.prems"(2))
        also have "fst (reconnect_loop stop connect (n + 1)) = fst (reconnect_loop stop connect n)"
          using False ns Inl by (simp add: loops(2) case_prod_unfold Let_def)
        finally show ?thesis .
      qed
    qed
  qed
qed

lemma leg_run_loop:
  assumes "leg_phase l = retry_or_end BackoffWait (n + 1)" and "\<not> woken l"
  shows "map_option leg_phase (leg_run (loop_script stop connect n) l) =
    Some (end_phase (fst (reconnect_loop stop connect n)))"
proof -
  have "leg_phase l = retry_or_end (wait_phase True) (n + 1)"
    using assms(1) by (simp add: retry_or_end_def wait_phase_def)
  from leg_run_loop_state [OF this assms(2), of stop connect] show ?thesis by simp
qed

section \<open>Properties\<close>

text \<open>C20: In every reachable state of the reactors the legs are numbered from 0, the registrations of a leg are
  a first one that does not replace and then one that does per reconnect, a leg that waits or connects
  is at an attempt between 1 and 10, and the reconnect counter is the number of all reconnects.\<close>

theorem reactor_registrations:
  assumes "sys_reachable ha s" and "1 \<le> ha"
  shows "length (legs s) = ha \<and> map leg_index (legs s) = map of_nat [0..<ha]
    \<and> list_all (\<lambda>l. replaced l = [] \<and> rejoined l = 0
          \<or> replaced l = False # replicate (rejoined l) True) (legs s)
    \<and> list_all (\<lambda>l. case attempt_of (leg_phase l) of None \<Rightarrow> True | Some n \<Rightarrow> 1 \<le> n \<and> n \<le> 10) (legs s)
    \<and> reconnects s = of_nat (sum_list (map rejoined (legs s)))"
proof -
  have inv: "sys_inv ha s" by (rule sys_reachable_inv [OF assms])
  then have "map leg_index (legs s) = map of_nat [0..<ha]"
    by (auto simp: sys_inv_def intro: nth_equalityI)
  with inv show ?thesis
    by (auto simp: sys_inv_def list_all_iff leg_ok_def MAX_RECONNECT_ATTEMPTS_def split: option.split)
qed

lemma sample_run:
  "run_events [Tick 0 FirstPoll, Tick 0 Lost, Tick 0 SleepOver, Tick 0 CycleOk] (spawn_legs 1) =
     Some \<lparr>legs = [first_leg\<lparr>leg_phase := Serving, replaced := [False, True], rejoined := 1\<rparr>], reconnects = 1\<rparr>"
  by (simp add: spawn_legs_def first_leg_def leg_step_def counts_reconnect_def retry_or_end_def
      MAX_RECONNECT_ATTEMPTS_def)

theorem reactor_registrations_witness:
  "map leg_index (legs \<lparr>legs = [first_leg\<lparr>leg_phase := Serving, replaced := [False, True], rejoined := 1\<rparr>],
     reconnects = 1\<rparr>) = [0]"
  using reactor_registrations [OF run_events_reachable [OF reach_start sample_run]] by simp

lemma reconnect_loop_find:
  "reconnect_loop stop connect 0 =
     (case find (decides stop connect) [1..<11] of
        None \<Rightarrow> (GaveUp, map backoff [1..<11])
      | Some a \<Rightarrow> if stop a then (StoppedInBackoff a, map backoff [1..<a])
                  else (Reconnected a (projr (connect a)), map backoff [1..<Suc a]))"
proof -
  have *: "find P [1..<11] = Some a" if "0 < a" "a \<le> 10" "P a" "\<forall>b. 0 < b \<and> b < a \<longrightarrow> \<not> P b" for P a
    unfolding find_Some_iff using that by (intro exI [of _ "a - 1"]) auto
  from reconnect_loop_from [of 0 stop connect]
  show "reconnect_loop stop connect 0 =
     (case find (decides stop connect) [1..<11] of
        None \<Rightarrow> (GaveUp, map backoff [1..<11])
      | Some a \<Rightarrow> if stop a then (StoppedInBackoff a, map backoff [1..<a])
                  else (Reconnected a (projr (connect a)), map backoff [1..<Suc a]))"
  proof (simp only: le0 True_implies_equals, elim disjE exE conjE)
    fix a
    assume h: "0 < a" "a \<le> MAX_RECONNECT_ATTEMPTS" "decides stop connect a"
      "\<forall>b. 0 < b \<and> b < a \<longrightarrow> \<not> decides stop connect b"
      "reconnect_loop stop connect 0 =
        (if stop a then (StoppedInBackoff a, map backoff [Suc 0..<a])
         else (Reconnected a (projr (connect a)), map backoff [Suc 0..<Suc a]))"
    with * [of a "decides stop connect"] show ?thesis
      by (simp add: MAX_RECONNECT_ATTEMPTS_def del: upt_Suc)
  next
    assume h: "\<forall>b. 0 < b \<and> b \<le> MAX_RECONNECT_ATTEMPTS \<longrightarrow> \<not> decides stop connect b"
      "reconnect_loop stop connect 0 = (GaveUp, map backoff [Suc 0..<Suc MAX_RECONNECT_ATTEMPTS])"
    then have "find (decides stop connect) [1..<11] = None"
      unfolding find_None_iff by (auto simp: MAX_RECONNECT_ATTEMPTS_def)
    with h(2) show ?thesis by (simp add: MAX_RECONNECT_ATTEMPTS_def del: upt_Suc)
  qed
qed

text \<open>C21: The reconnect loop does at most ten attempts: it stops at the first one that is interrupted in its
  backoff or connects, after the sleeps before it, and gives up when there is none. Its cycles replace
  the old registration; those of a leg that never registered do not, in the same loop. The sleeps
  double from one second up to thirty; all ten take 181 seconds. The phases of the leg go the same way.\<close>

theorem reconnect_loop_decides:
  "reconnect_after_loss stop cycle =
     (case find (decides stop (cycle True)) [1..<11] of
        None \<Rightarrow> (GaveUp, map backoff [1..<11])
      | Some a \<Rightarrow> if stop a then (StoppedInBackoff a, map backoff [1..<a])
                  else (Reconnected a (projr (cycle True a)), map backoff [1..<Suc a]))
   \<and> reactor_loop_after_failure stop cycle = reconnect_after_loss stop (\<lambda>b. cycle (\<not> b))
   \<and> map backoff [1..<11] = map from_secs [1, 2, 4, 8, 16, 30, 30, 30, 30, 30]
   \<and> sum_list (map backoff [1..<11]) = from_secs 181
   \<and> map_option leg_phase
        (leg_run (loop_script stop (cycle True) 0) (l\<lparr>leg_phase := BackoffWait 1, woken := False\<rparr>))
      = Some (end_phase (fst (reconnect_after_loss stop cycle)))"
proof (intro conjI)
  show "map backoff [1..<11] = map from_secs [1, 2, 4, 8, 16, 30, 30, 30, 30, 30]"
    by (simp add: backoff_closed upt_rec)
  then show "sum_list (map backoff [1..<11]) = from_secs 181"
    by (simp only:) (simp add: from_secs_def)
  show "map_option leg_phase
        (leg_run (loop_script stop (cycle True) 0) (l\<lparr>leg_phase := BackoffWait 1, woken := False\<rparr>))
      = Some (end_phase (fst (reconnect_after_loss stop cycle)))"
    unfolding reconnect_after_loss_def by (rule leg_run_loop) simp_all
  show "reactor_loop_after_failure stop cycle = reconnect_after_loss stop (\<lambda>b. cycle (\<not> b))"
    by (simp add: reactor_loop_after_failure_def reconnect_after_loss_def)
qed (unfold reconnect_after_loss_def, rule reconnect_loop_find)

end
