(* ===== verification/Pool.thy ===== *)
theory Pool
  imports Prelude
begin

text \<open>
  \<^verbatim>\<open>src/pool.rs\<close>: the bounded pool of idle keep-alive sockets to the local origin.

  A socket is a value of type \<open>'t\<close>. The vector of idle entries keeps its order: \<open>last\<close> is its
  end, where entries are pushed and popped. The clock is read once per entry looked at, so an
  acquire is given the sequence of its readings.
\<close>

definition DEFAULT_IDLE_TTL :: duration where
  "DEFAULT_IDLE_TTL = from_secs 30"

definition DEFAULT_MAX_IDLE :: nat where
  "DEFAULT_MAX_IDLE = 16"

record 't idle_entry =
  id_stream :: 't
  released_at :: instant

record 't pool =
  pool_port :: u16
  idle_ttl :: duration
  max_idle :: nat
  idle :: "'t idle_entry list"

definition pool_new :: "u16 \<Rightarrow> 't pool" where
  "pool_new port =
     \<lparr>pool_port = port, idle_ttl = DEFAULT_IDLE_TTL, max_idle = DEFAULT_MAX_IDLE, idle = []\<rparr>"

text \<open>
  The loop of \<open>acquire\<close>: the freshest entry is handed out when it is young enough, and
  dropped otherwise. \<open>clock k\<close> is the \<open>k\<close>-th reading.
\<close>

function acquire_loop ::
  "(nat \<Rightarrow> instant) \<Rightarrow> nat \<Rightarrow> duration \<Rightarrow> 't idle_entry list \<Rightarrow> 't option \<times> 't idle_entry list" where
  "acquire_loop clock k ttl g =
     (if g = [] then (None, [])
      else let entry = last g in
        if elapsed (clock k) (released_at entry) \<le> ttl
        then (Some (id_stream entry), butlast g)
        else acquire_loop clock (Suc k) ttl (butlast g))"
  by pat_completeness auto
termination
  by (relation "measure (\<lambda>(clock, k, ttl, g). length g)") auto

declare acquire_loop.simps [simp del]

text \<open>\<open>connect\<close> is what opening a fresh connection to \<open>127.0.0.1:port\<close> answers.\<close>

definition acquire ::
  "(nat \<Rightarrow> instant) \<Rightarrow> (u16 \<Rightarrow> string + 't) \<Rightarrow> 't pool \<Rightarrow> (string + 't) \<times> 't pool" where
  "acquire clock connect p =
     (let (hit, g) = acquire_loop clock 0 (idle_ttl p) (idle p);
          p' = p\<lparr>idle := g\<rparr>
      in case hit of
           Some stream \<Rightarrow> (Inr stream, p')
         | None \<Rightarrow> (connect (pool_port p), p'))"

text \<open>
  As a future: a hit is ready at once, a miss takes as long as the connect. A caller that stops
  waiting drops the connect, but the stale entries are gone by then.
\<close>

definition acquire_fut ::
  "(nat \<Rightarrow> instant) \<Rightarrow> (u16 \<Rightarrow> (string + 't) fut) \<Rightarrow> 't pool \<Rightarrow> (string + 't) fut \<times> 't pool" where
  "acquire_fut clock connect p =
     (let (hit, g) = acquire_loop clock 0 (idle_ttl p) (idle p);
          p' = p\<lparr>idle := g\<rparr>
      in case hit of
           Some stream \<Rightarrow> (Ready 0 (Inr stream), p')
         | None \<Rightarrow> (connect (pool_port p), p'))"

lemma acquire_fut_acquire:
  "connect (pool_port p) = Ready t (connect' (pool_port p)) \<Longrightarrow>
   \<exists>t'. acquire_fut clock connect p =
     (Ready t' (fst (acquire clock connect' p)), snd (acquire clock connect' p))"
  by (auto simp: acquire_fut_def acquire_def Let_def split: prod.splits option.splits)

definition release :: "instant \<Rightarrow> 't \<Rightarrow> 't pool \<Rightarrow> 't pool" where
  "release now stream p =
     (if max_idle p \<le> length (idle p) then p
      else p\<lparr>idle := idle p @ [\<lparr>id_stream = stream, released_at = now\<rparr>]\<rparr>)"

section \<open>What the loop does to the vector\<close>

definition stale :: "instant \<Rightarrow> duration \<Rightarrow> 't idle_entry \<Rightarrow> bool" where
  "stale now ttl e = (ttl < elapsed now (released_at e))"

definition pool_sockets :: "'t pool \<Rightarrow> 't list" where
  "pool_sockets p = map id_stream (idle p)"

lemma acquire_loop_split:
  "\<exists>kept. acquire_loop clock k ttl g = (None, []) \<or>
     (\<exists>e dropped. g = kept @ e # dropped \<and> acquire_loop clock k ttl g = (Some (id_stream e), kept)
        \<and> elapsed (clock (k + length dropped)) (released_at e) \<le> ttl)"
proof (induction clock k ttl g rule: acquire_loop.induct)
  case (1 clock k ttl g)
  show ?case
  proof (cases "g = []")
    case True
    then show ?thesis by (simp add: acquire_loop.simps)
  next
    case False
    then have g: "g = butlast g @ [last g]" by simp
    show ?thesis
    proof (cases "elapsed (clock k) (released_at (last g)) \<le> ttl")
      case True
      have "acquire_loop clock k ttl g = (Some (id_stream (last g)), butlast g)"
        using False True by (simp add: acquire_loop.simps [of clock k ttl g] Let_def)
      with True g show ?thesis
        by (intro exI [of _ "butlast g"] disjI2 exI [of _ "last g"] exI [of _ "[]"]) simp
    next
      case old: False
      then have step: "acquire_loop clock k ttl g = acquire_loop clock (Suc k) ttl (butlast g)"
        using False by (simp add: acquire_loop.simps [of clock k ttl g] Let_def)
      from "1.IH" [OF False refl old] obtain kept where
        "acquire_loop clock (Suc k) ttl (butlast g) = (None, []) \<or>
         (\<exists>e dropped. butlast g = kept @ e # dropped
            \<and> acquire_loop clock (Suc k) ttl (butlast g) = (Some (id_stream e), kept)
            \<and> elapsed (clock (Suc k + length dropped)) (released_at e) \<le> ttl)" by blast
      then show ?thesis
      proof (elim disjE exE conjE)
        assume "acquire_loop clock (Suc k) ttl (butlast g) = (None, [])"
        with step show ?thesis by auto
      next
        fix e dropped
        assume h: "butlast g = kept @ e # dropped"
          "acquire_loop clock (Suc k) ttl (butlast g) = (Some (id_stream e), kept)"
          "elapsed (clock (Suc k + length dropped)) (released_at e) \<le> ttl"
        from g h(1) have "g = kept @ e # (dropped @ [last g])" by simp
        with h(2,3) step show ?thesis
          by (intro exI [of _ kept] disjI2 exI [of _ e] exI [of _ "dropped @ [last g]"]) simp
      qed
    qed
  qed
qed

lemma acquire_loop_cases:
  obtains (miss) "acquire_loop clock k ttl g = (None, [])"
    | (hit) kept e dropped where "g = kept @ e # dropped"
        "acquire_loop clock k ttl g = (Some (id_stream e), kept)"
        "elapsed (clock (k + length dropped)) (released_at e) \<le> ttl"
  using acquire_loop_split by blast

text \<open>A miss means that every entry was too old when it was looked at.\<close>

lemma acquire_loop_None:
  "fst (acquire_loop clock k ttl g) = None \<Longrightarrow> i < length g \<Longrightarrow>
   ttl < elapsed (clock (k + (length g - Suc i))) (released_at (g ! i))"
proof (induction clock k ttl g arbitrary: i rule: acquire_loop.induct)
  case (1 clock k ttl g)
  then have ne: "g \<noteq> []" by auto
  with "1.prems"(1) have old: "\<not> elapsed (clock k) (released_at (last g)) \<le> ttl"
    by (auto simp: acquire_loop.simps [of clock k ttl g] Let_def split: if_splits)
  with ne "1.prems"(1) have rest: "fst (acquire_loop clock (Suc k) ttl (butlast g)) = None"
    by (simp add: acquire_loop.simps [of clock k ttl g] Let_def)
  show ?case
  proof (cases "i = length g - 1")
    case True
    with ne old show ?thesis by (simp add: last_conv_nth)
  next
    case False
    with "1.prems"(2) have i: "i < length (butlast g)" by simp
    have idx: "Suc k + (length (butlast g) - Suc i) = k + (length g - Suc i)" using i by simp
    from "1.IH" [OF ne refl old rest i]
    have "ttl < elapsed (clock (k + (length g - Suc i))) (released_at (butlast g ! i))"
      unfolding idx .
    with i show ?thesis by (simp only: nth_butlast)
  qed
qed

section \<open>The invariant\<close>

text \<open>
  The pool never holds more than its bound, holds no socket twice, and its entries stand in
  the order of their release, none in the future of \<open>now\<close>.
\<close>

definition pool_inv :: "instant \<Rightarrow> 't pool \<Rightarrow> bool" where
  "pool_inv now p \<longleftrightarrow>
     length (idle p) \<le> max_idle p \<and> distinct (pool_sockets p)
     \<and> sorted (map released_at (idle p)) \<and> (\<forall>e \<in> set (idle p). released_at e \<le> now)"

lemma pool_inv_new: "pool_inv now (pool_new port)"
  by (simp add: pool_inv_def pool_new_def pool_sockets_def)

lemma pool_inv_later: "pool_inv now p \<Longrightarrow> now \<le> now' \<Longrightarrow> pool_inv now' p"
  by (auto simp: pool_inv_def)

lemma pool_inv_release:
  assumes "pool_inv now p" and "now \<le> now'" and "s \<notin> set (pool_sockets p)"
  shows "pool_inv now' (release now' s p)"
  using assms by (auto simp: pool_inv_def release_def pool_sockets_def sorted_append)

lemma acquire_cases:
  obtains (miss) "acquire clock connect p = (connect (pool_port p), p\<lparr>idle := []\<rparr>)"
    | (hit) kept e dropped where "idle p = kept @ e # dropped"
        "acquire clock connect p = (Inr (id_stream e), p\<lparr>idle := kept\<rparr>)"
        "elapsed (clock (length dropped)) (released_at e) \<le> idle_ttl p"
  by (rule acquire_loop_cases [of clock 0 "idle_ttl p" "idle p"])
    (auto simp: acquire_def Let_def)

lemma pool_inv_acquire:
  assumes "pool_inv now p" and "now \<le> now'"
  shows "pool_inv now' (snd (acquire clock connect p))"
proof (cases rule: acquire_cases [of clock connect p])
  case miss
  then show ?thesis by (simp add: pool_inv_def pool_sockets_def)
next
  case (hit kept e dropped)
  with assms show ?thesis by (auto simp: pool_inv_def pool_sockets_def sorted_append)
qed

lemma acquire_sockets:
  "set (pool_sockets (snd (acquire clock connect p))) \<subseteq> set (pool_sockets p)"
  by (cases rule: acquire_cases [of clock connect p]) (auto simp: pool_sockets_def)

lemma acquire_hit_removed:
  assumes "acquire clock connect p = (Inr s, p')" and "distinct (pool_sockets p)"
    and "s \<in> set (pool_sockets p)" and "\<And>t. connect (pool_port p) = Inr t \<Longrightarrow> t \<notin> set (pool_sockets p)"
  shows "s \<notin> set (pool_sockets p')"
  using assms
  by (cases rule: acquire_cases [of clock connect p]) (auto simp: pool_sockets_def)

section \<open>The contract the proxy relies on\<close>

text \<open>
  A cache of exclusive resources: what \<open>acq\<close> hands out is either fresh or no longer held by the
  cache, what \<open>rel\<close> takes back is held at most once. The lemmas say that a client that returns
  only what it was handed never shares a resource.
\<close>

locale resource_cache =
  fixes acq :: "'env \<Rightarrow> 'c \<Rightarrow> ('e + 't) \<times> 'c"
    and rel :: "'i \<Rightarrow> 't \<Rightarrow> 'c \<Rightarrow> 'c"
    and held :: "'c \<Rightarrow> 't set"
    and fresh :: "'env \<Rightarrow> 'c \<Rightarrow> 't set"
    and inv :: "'c \<Rightarrow> bool"
  assumes acq_inv: "inv c \<Longrightarrow> inv (snd (acq env c))"
    and acq_held: "held (snd (acq env c)) \<subseteq> held c"
    and acq_source: "inv c \<Longrightarrow> acq env c = (Inr t, c') \<Longrightarrow> t \<in> held c - held c' \<or> t \<in> fresh env c"
    and rel_inv: "inv c \<Longrightarrow> t \<notin> held c \<Longrightarrow> inv (rel i t c)"
    and rel_held: "held (rel i t c) \<subseteq> insert t (held c)"
begin

lemma exclusive_acquire:
  assumes "inv c" and "busy \<inter> held c = {}" and "fresh env c \<inter> (busy \<union> held c) = {}"
    and "acq env c = (Inr t, c')"
  shows "t \<notin> busy" and "insert t busy \<inter> held c' = {}" and "inv c'"
proof -
  have sub: "held c' \<subseteq> held c" using acq_held [of env c] assms(4) by simp
  from acq_source [OF assms(1,4)] have "t \<notin> busy \<and> t \<notin> held c'"
    using assms(2,3) sub by blast
  then show "t \<notin> busy" and "insert t busy \<inter> held c' = {}" using assms(2) sub by blast+
  show "inv c'" using acq_inv [OF assms(1), of env] assms(4) by simp
qed

lemma exclusive_acquire_failed:
  assumes "inv c" and "busy \<inter> held c = {}"
  shows "busy \<inter> held (snd (acq env c)) = {}" and "inv (snd (acq env c))"
  using acq_held [of env c] acq_inv [OF assms(1), of env] assms(2) by blast+

lemma exclusive_release:
  assumes "inv c" and "busy \<inter> held c = {}" and "t \<in> busy"
  shows "(busy - {t}) \<inter> held (rel i t c) = {}" and "inv (rel i t c)"
proof -
  show "(busy - {t}) \<inter> held (rel i t c) = {}" using rel_held [of i t c] assms(2) by blast
  show "inv (rel i t c)" using assms by (intro rel_inv) auto
qed

end

text \<open>
  The environment of an acquire is the clock's readings and the answer of a fresh connect;
  the invariant without the clock is the size bound and distinctness.
\<close>

definition pool_shape :: "'t pool \<Rightarrow> bool" where
  "pool_shape p \<longleftrightarrow> length (idle p) \<le> max_idle p \<and> distinct (pool_sockets p)"

interpretation pool_cache: resource_cache
  "\<lambda>(clock, connect) p. acquire clock connect p" release "\<lambda>p. set (pool_sockets p)"
  "\<lambda>(clock, connect) p. {t. connect (pool_port p) = Inr t}" pool_shape
proof (unfold_locales, goal_cases)
  case (1 p env)
  then show ?case
    by (cases env; cases rule: acquire_cases [of "fst env" "snd env" p])
      (auto simp: pool_shape_def pool_sockets_def)
next
  case (2 env p)
  then show ?case using acquire_sockets [of "fst env" "snd env" p] by (cases env) auto
next
  case (3 p env t p')
  then show ?case
    by (cases env; cases rule: acquire_cases [of "fst env" "snd env" p])
      (auto simp: pool_shape_def pool_sockets_def)
next
  case (4 p t i)
  then show ?case by (auto simp: pool_shape_def release_def pool_sockets_def)
next
  case (5 i t p)
  then show ?case by (auto simp: release_def pool_sockets_def)
qed

section \<open>All streams against one pool\<close>

text \<open>
  The inbound streams of every reactor share one pool behind a mutex, so their acquires and
  releases interleave as single steps. \<open>busy\<close> is the set of sockets some stream owns; a
  connect yields a socket that is neither owned nor pooled.
\<close>

record 't pool_sys =
  sys_pool :: "'t pool"
  busy :: "'t set"

inductive pool_step :: "'t pool_sys \<Rightarrow> 't pool_sys \<Rightarrow> bool" where
  step_acquire:
    "acquire clock connect (sys_pool s) = (Inr t, p') \<Longrightarrow>
     (\<And>u. connect (pool_port (sys_pool s)) = Inr u \<Longrightarrow> u \<notin> busy s \<union> set (pool_sockets (sys_pool s))) \<Longrightarrow>
     pool_step s \<lparr>sys_pool = p', busy = insert t (busy s)\<rparr>"
| step_acquire_failed:
    "acquire clock connect (sys_pool s) = (Inl e, p') \<Longrightarrow>
     pool_step s \<lparr>sys_pool = p', busy = busy s\<rparr>"
| step_release:
    "t \<in> busy s \<Longrightarrow>
     pool_step s \<lparr>sys_pool = release now t (sys_pool s), busy = busy s - {t}\<rparr>"
| step_drop:
    "t \<in> busy s \<Longrightarrow> pool_step s (s\<lparr>busy := busy s - {t}\<rparr>)"

inductive pool_reachable :: "u16 \<Rightarrow> 't pool_sys \<Rightarrow> bool" for port where
  pool_start: "pool_reachable port \<lparr>sys_pool = pool_new port, busy = {}\<rparr>"
| pool_more: "pool_reachable port s \<Longrightarrow> pool_step s t \<Longrightarrow> pool_reachable port t"

definition exclusive :: "'t pool_sys \<Rightarrow> bool" where
  "exclusive s \<longleftrightarrow> pool_shape (sys_pool s) \<and> busy s \<inter> set (pool_sockets (sys_pool s)) = {}"

lemma exclusive_step: "pool_step s t \<Longrightarrow> exclusive s \<Longrightarrow> exclusive t"
proof (induction rule: pool_step.induct)
  case (step_acquire clock connect s t p')
  then show ?case
    using pool_cache.exclusive_acquire [of "sys_pool s" "busy s" "(clock, connect)" t p']
    by (auto simp: exclusive_def)
next
  case (step_acquire_failed clock connect s e p')
  then show ?case
    using pool_cache.exclusive_acquire_failed [of "sys_pool s" "busy s" "(clock, connect)"]
    by (simp add: exclusive_def)
next
  case (step_release t s now)
  then show ?case
    using pool_cache.exclusive_release [of "sys_pool s" "busy s" t now]
    by (simp add: exclusive_def)
next
  case (step_drop t s)
  then show ?case by (auto simp: exclusive_def)
qed

lemma pool_reachable_exclusive: "pool_reachable port s \<Longrightarrow> exclusive s"
proof (induction rule: pool_reachable.induct)
  case pool_start
  show ?case by (simp add: exclusive_def pool_shape_def pool_new_def pool_sockets_def)
next
  case (pool_more s t)
  then show ?case by (blast intro: exclusive_step)
qed

lemma pool_step_max_idle: "pool_step s t \<Longrightarrow> max_idle (sys_pool t) = max_idle (sys_pool s)"
proof (induction rule: pool_step.induct)
  case (step_acquire clock connect s t p')
  then show ?case by (auto simp: acquire_def Let_def split: prod.splits option.splits)
next
  case (step_acquire_failed clock connect s e p')
  then show ?case by (auto simp: acquire_def Let_def split: prod.splits option.splits)
qed (simp_all add: release_def)

lemma pool_reachable_max_idle: "pool_reachable port s \<Longrightarrow> max_idle (sys_pool s) = DEFAULT_MAX_IDLE"
  by (induction rule: pool_reachable.induct) (simp_all add: pool_new_def pool_step_max_idle)

lemma acquire_loop_rev:
  "acquire_loop clock k ttl (rev (e # es)) =
     (if elapsed (clock k) (released_at e) \<le> ttl then (Some (id_stream e), rev es)
      else acquire_loop clock (Suc k) ttl (rev es))"
  by (subst acquire_loop.simps) (simp add: Let_def)

text \<open>Entry \<open>n\<close> from the end is looked at with clock reading \<open>n\<close>; the first young one is the answer.\<close>

lemma acquire_loop_first:
  "(\<exists>n < length es. (\<forall>i < n. ttl < elapsed (clock (k + i)) (released_at (es ! i)))
      \<and> elapsed (clock (k + n)) (released_at (es ! n)) \<le> ttl
      \<and> acquire_loop clock k ttl (rev es) = (Some (id_stream (es ! n)), rev (drop (Suc n) es)))
   \<or> (\<forall>i < length es. ttl < elapsed (clock (k + i)) (released_at (es ! i)))
      \<and> acquire_loop clock k ttl (rev es) = (None, [])"
proof (induction es arbitrary: k)
  case Nil
  show ?case by (simp add: acquire_loop.simps)
next
  case (Cons e es)
  show ?case
  proof (cases "elapsed (clock k) (released_at e) \<le> ttl")
    case True
    then show ?thesis using acquire_loop_rev [of clock k ttl e es] by (intro disjI1 exI [of _ 0]) simp
  next
    case False
    then have step: "acquire_loop clock k ttl (rev (e # es)) = acquire_loop clock (Suc k) ttl (rev es)"
      using acquire_loop_rev [of clock k ttl e es] by simp
    from Cons.IH [of "Suc k"] show ?thesis
    proof (elim disjE exE conjE)
      fix n
      assume h: "n < length es" "\<forall>i < n. ttl < elapsed (clock (Suc k + i)) (released_at (es ! i))"
        "elapsed (clock (Suc k + n)) (released_at (es ! n)) \<le> ttl"
        "acquire_loop clock (Suc k) ttl (rev es) = (Some (id_stream (es ! n)), rev (drop (Suc n) es))"
      have "\<forall>i < Suc n. ttl < elapsed (clock (k + i)) (released_at ((e # es) ! i))"
        using h(2) False by (auto simp: less_Suc_eq_0_disj)
      with h step show ?thesis by (intro disjI1 exI [of _ "Suc n"]) simp
    next
      assume h: "\<forall>i < length es. ttl < elapsed (clock (Suc k + i)) (released_at (es ! i))"
        "acquire_loop clock (Suc k) ttl (rev es) = (None, [])"
      have "\<forall>i < length (e # es). ttl < elapsed (clock (k + i)) (released_at ((e # es) ! i))"
        using h(1) False by (auto simp: less_Suc_eq_0_disj)
      with h(2) step show ?thesis by (intro disjI2) simp
    qed
  qed
qed

section \<open>Properties\<close>

text \<open>C4: However the acquires and releases of all streams interleave, no socket is at once owned by a
  stream and idle in the pool, none is in the pool twice, and at most 16 are idle.\<close>

theorem pool_exclusive:
  assumes "pool_reachable port s"
  shows "busy s \<inter> set (pool_sockets (sys_pool s)) = {} \<and> distinct (pool_sockets (sys_pool s))
    \<and> length (idle (sys_pool s)) \<le> 16"
  using pool_reachable_exclusive [OF assms] pool_reachable_max_idle [OF assms]
  by (simp add: exclusive_def pool_shape_def DEFAULT_MAX_IDLE_def)

theorem pool_exclusive_witness:
  "busy \<lparr>sys_pool = release 9 (7 :: nat) (pool_new 80), busy = {}\<rparr>
     \<inter> set (pool_sockets (sys_pool \<lparr>sys_pool = release 9 (7 :: nat) (pool_new 80), busy = {}\<rparr>)) = {}
   \<and> distinct (pool_sockets (sys_pool \<lparr>sys_pool = release 9 (7 :: nat) (pool_new 80), busy = {}\<rparr>))
   \<and> length (idle (sys_pool \<lparr>sys_pool = release 9 (7 :: nat) (pool_new 80), busy = {}\<rparr>)) \<le> 16"
proof -
  let ?s0 = "\<lparr>sys_pool = pool_new 80, busy = {}\<rparr> :: nat pool_sys"
  have "acquire (\<lambda>_. 0) (\<lambda>_. Inr 7) (sys_pool ?s0) = (Inr (7 :: nat), pool_new 80)"
    by (simp add: acquire_def pool_new_def acquire_loop.simps)
  then have "pool_step ?s0 \<lparr>sys_pool = pool_new 80, busy = insert 7 (busy ?s0)\<rparr>"
    by (rule step_acquire) (simp add: pool_new_def pool_sockets_def)
  moreover have "pool_step \<lparr>sys_pool = pool_new 80, busy = insert 7 (busy ?s0)\<rparr>
      \<lparr>sys_pool = release 9 7 (pool_new 80), busy = {}\<rparr>"
    using step_release [of 7 "\<lparr>sys_pool = pool_new 80, busy = {7 :: nat}\<rparr>" 9] by simp
  ultimately have "pool_reachable 80 \<lparr>sys_pool = release 9 (7 :: nat) (pool_new 80), busy = {}\<rparr>"
    by (blast intro: pool_start pool_more)
  then show ?thesis by (rule pool_exclusive)
qed

text \<open>C32: Entries are looked at from the most recently released one on. The first that is at most the time
  to live old when it is looked at is handed out, the fresher ones it passed over are dropped and the
  older ones stay; when all are too old the pool is emptied and a new connection is opened.\<close>

theorem acquire_freshness:
  "(\<exists>n < length (idle p).
      list_all (\<lambda>i. idle_ttl p < elapsed (clock i) (released_at (rev (idle p) ! i))) [0..<n]
      \<and> elapsed (clock n) (released_at (rev (idle p) ! n)) \<le> idle_ttl p
      \<and> acquire clock connect p
          = (Inr (id_stream (rev (idle p) ! n)), p\<lparr>idle := rev (drop (Suc n) (rev (idle p)))\<rparr>))
   \<or> list_all (\<lambda>i. idle_ttl p < elapsed (clock i) (released_at (rev (idle p) ! i))) [0..<length (idle p)]
      \<and> acquire clock connect p = (connect (pool_port p), p\<lparr>idle := []\<rparr>)"
  using acquire_loop_first [of "rev (idle p)" "idle_ttl p" clock 0]
  by (elim disjE exE conjE) (auto simp: acquire_def list_all_iff)

end
