(* ===== verification/Manager.thy ===== *)
theory Manager
  imports Tunnel_Api Quic_Dial Rpc Supervisor Reactor_Correct Pool
begin

text \<open>
  The orchestrator of \<^verbatim>\<open>src/manager.rs\<close>: the builder, one connect cycle, \<open>start\<close>, and the handle.
  What the platform and the libraries answer is the record \<open>world\<close>.
\<close>

definition DEFAULT_HANDSHAKE_TIMEOUT :: duration where
  "DEFAULT_HANDSHAKE_TIMEOUT = from_secs 30"

definition DEFAULT_GRACE_PERIOD :: duration where
  "DEFAULT_GRACE_PERIOD = from_secs 30"

definition DEFAULT_HA_CONNECTIONS :: u8 where
  "DEFAULT_HA_CONNECTIONS = 2"

definition MAX_HA_CONNECTIONS :: u8 where
  "MAX_HA_CONNECTIONS = 4"

definition CLIENT_VERSION :: string where
  "CLIENT_VERSION = ''cloudflare-quick-tunnel/'' @ ''0.3.1''"

section \<open>The builder\<close>

record quick_tunnel_manager =
  mgr_local_port :: u16
  discovery_timeout :: duration
  service_url :: string
  user_agent :: string
  ha_connections :: u8

definition manager_new :: "u16 \<Rightarrow> quick_tunnel_manager" where
  "manager_new port =
     \<lparr>mgr_local_port = port, discovery_timeout = DEFAULT_HANDSHAKE_TIMEOUT,
      service_url = DEFAULT_SERVICE_URL, user_agent = DEFAULT_USER_AGENT,
      ha_connections = DEFAULT_HA_CONNECTIONS\<rparr>"

definition with_timeout :: "duration \<Rightarrow> quick_tunnel_manager \<Rightarrow> quick_tunnel_manager" where
  "with_timeout d m = m\<lparr>discovery_timeout := d\<rparr>"

definition with_service_url :: "string \<Rightarrow> quick_tunnel_manager \<Rightarrow> quick_tunnel_manager" where
  "with_service_url url m = m\<lparr>service_url := url\<rparr>"

definition with_user_agent :: "string \<Rightarrow> quick_tunnel_manager \<Rightarrow> quick_tunnel_manager" where
  "with_user_agent ua m = m\<lparr>user_agent := ua\<rparr>"

definition clamp :: "u8 \<Rightarrow> u8 \<Rightarrow> u8 \<Rightarrow> u8" where
  "clamp n lo hi = (if n < lo then lo else if hi < n then hi else n)"

definition with_ha_connections :: "u8 \<Rightarrow> quick_tunnel_manager \<Rightarrow> quick_tunnel_manager" where
  "with_ha_connections n m = m\<lparr>ha_connections := clamp n 1 MAX_HA_CONNECTIONS\<rparr>"

section \<open>What the world answers\<close>

text \<open>
  The API server and its JSON decoder, the UUID parser and generator, what the TLS libraries and the
  UDP bind answer (a certificate is its bytes), the resolvers, the QUIC endpoint, and per connection
  the control stream. Each connect cycle has its own view of the
  network, so the resolvers and the endpoint are those of one cycle.
\<close>

record ('s, 'c) net_view =
  nv_primary :: resolver
  nv_dot :: "tunnel_error + resolver"
  nv_endpoint :: "'c endpoint"
  nv_rpc :: "'c \<Rightarrow> 's rpc_env"
  nv_uuid :: uuid

record ('s, 'c) world =
  w_from_json :: "bytes \<Rightarrow> string + quick_tunnel_response"
  w_client :: "string \<Rightarrow> http_error option"
  w_post :: "string \<Rightarrow> nat \<Rightarrow> reply"
  w_parse_uuid :: "string \<Rightarrow> string + uuid"
  w_once :: once_state
  w_accepts :: "bytes \<Rightarrow> bool"
  w_native :: "string + bytes list"
  w_pem :: "(string + bytes) list"
  w_quic_refuses :: "bytes tls_config \<Rightarrow> string option"
  w_bind :: "string \<Rightarrow> string + unit"
  w_os :: string
  w_arch :: string
  w_show :: "tunnel_error \<Rightarrow> string"

section \<open>A connect cycle\<close>

text \<open>The time in \<open>connect_cycle\<close> and \<open>start_inner\<close> is that of the dials.\<close>

definition connect_cycle ::
  "('s, 'p) capnp \<Rightarrow> ('s, 'c) world \<Rightarrow> ('s, 'c) net_view \<Rightarrow> tunnel_auth \<Rightarrow> uuid \<Rightarrow> string \<Rightarrow> u8 \<Rightarrow> bool
   \<Rightarrow> (tunnel_error + ('c \<times> control_session \<times> string)) fut" where
  "connect_cycle c w nv auth tunnel_id client_version conn_index replace =
     (case discover (nv_primary nv) (nv_dot nv) Auto of
        Inl e \<Rightarrow> Ready 0 (Inl e)
      | Inr edges \<Rightarrow>
     (let cap = min (length edges) 5 in
      await (dial_any (w_show w) (nv_endpoint nv) (take cap edges)) (\<lambda>r. Ready 0
     (case r of
        Inl e \<Rightarrow> Inl e
      | Inr conn \<Rightarrow>
     (let options = default_for_quick_tunnel (nv_uuid nv) (w_os w) (w_arch w) client_version;
          options = options\<lparr>replace_existing := replace\<rparr>
      in case register_connection c (nv_rpc nv conn) auth tunnel_id conn_index options of
           Inl e \<Rightarrow> Inl e
         | Inr (details, control) \<Rightarrow> Inr (conn, control, rd_location details))))))"

section \<open>Starting\<close>

text \<open>The handle: what the caller sees, and the reactors that were spawned.\<close>

record quick_tunnel_handle =
  h_url :: string
  h_tunnel_id :: uuid
  h_account_tag :: string
  h_location :: string
  h_reactors :: tunnel_sys
  h_metrics :: supervisor_metrics
  h_pool :: "unit pool"

definition tunnel_public_url :: "string \<Rightarrow> string" where
  "tunnel_public_url hostname =
     (if starts_with hostname ''https://'' then hostname else ''https://'' @ hostname)"

definition start_inner ::
  "('s, 'p) capnp \<Rightarrow> ('s, 'c) world \<Rightarrow> ('s, 'c) net_view \<Rightarrow> quick_tunnel_manager
   \<Rightarrow> (tunnel_error + quick_tunnel_handle) fut" where
  "start_inner c w nv mgr =
     (case fst (request_tunnel (w_from_json w) (w_client w) (w_post w) (service_url mgr) (user_agent mgr)) of
        Inl e \<Rightarrow> Ready 0 (Inl e)
      | Inr tunnel \<Rightarrow>
     (case w_parse_uuid w (qt_id tunnel) of
        Inl e \<Rightarrow> Ready 0 (Inl (Internal (''tunnel.id is not a uuid: '' @ e)))
      | Inr tunnel_id \<Rightarrow>
     (let url = tunnel_public_url (qt_hostname tunnel);
          auth = \<lparr>account_tag = qt_account_tag tunnel, tunnel_secret = qt_secret tunnel\<rparr>
      in case fst (build_endpoint (w_once w)
                (build_client_config (w_accepts w) (w_native w) (w_pem w) (w_quic_refuses w)) (w_bind w)) of
           Inl e \<Rightarrow> Ready 0 (Inl e)
         | Inr _ \<Rightarrow>
     await (connect_cycle c w nv auth tunnel_id CLIENT_VERSION 0 False) (\<lambda>r. Ready 0
     (case r of
        Inl e \<Rightarrow> Inl e
      | Inr (conn0, control0, location0) \<Rightarrow>
          Inr \<lparr>h_url = url, h_tunnel_id = tunnel_id, h_account_tag = qt_account_tag tunnel,
               h_location = location0, h_reactors = spawn_legs (unat (ha_connections mgr)),
               h_metrics = metrics_default, h_pool = pool_new (mgr_local_port mgr)\<rparr>)))))"

text \<open>\<open>took\<close> is how long \<open>start_inner\<close> needs beside the dials, \<open>None\<close> when it never ends.\<close>

definition start ::
  "('s, 'p) capnp \<Rightarrow> ('s, 'c) world \<Rightarrow> ('s, 'c) net_view \<Rightarrow> duration option \<Rightarrow> quick_tunnel_manager
   \<Rightarrow> tunnel_error + quick_tunnel_handle" where
  "start c w nv took mgr =
     (case timeout (discovery_timeout mgr)
             (case took of None \<Rightarrow> Never | Some t \<Rightarrow> delay t (start_inner c w nv mgr)) of
        None \<Rightarrow> Inl (Internal ''start() exceeded discovery_timeout'')
      | Some r \<Rightarrow> r)"

section \<open>The handle\<close>

record tunnel_metrics =
  tm_streams_total :: u64
  tm_bytes_in :: u64
  tm_bytes_out :: u64
  tm_reconnects :: u64

definition handle_metrics :: "supervisor_metrics \<Rightarrow> tunnel_sys \<Rightarrow> tunnel_metrics" where
  "handle_metrics m sys =
     (case snapshot m of (s, i, o') \<Rightarrow>
        \<lparr>tm_streams_total = s, tm_bytes_in = i, tm_bytes_out = o', tm_reconnects = reconnects sys\<rparr>)"

text \<open>The loop that joins the reactors one by one; a task that panicked ends it with an error.\<close>

fun join_reactors :: "(string + unit) fut list \<Rightarrow> (tunnel_error, unit) outcome" where
  "join_reactors [] = Done ()"
| "join_reactors (Never # js) = Pending"
| "join_reactors (Ready t (Inl e) # js) = Failed (Internal (''reactor join: '' @ e))"
| "join_reactors (Ready t (Inr _) # js) = join_reactors js"

text \<open>The join of one leg: it is there once the leg has ended.\<close>

definition leg_join :: "leg \<Rightarrow> (string + unit) fut" where
  "leg_join l = (if leg_ended l then Ready 0 (Inr ()) else Never)"

text \<open>\<open>shutdown_with\<close>: notify, let the legs take \<open>ticks\<close>, and join them. The grace is not used.\<close>

definition shutdown_with ::
  "duration \<Rightarrow> (nat \<times> leg_event) list \<Rightarrow> tunnel_sys \<Rightarrow> (tunnel_error, unit) outcome option" where
  "shutdown_with grace ticks sys =
     map_option (\<lambda>s. join_reactors (map leg_join (legs s)))
       (run_events (NotifyAll # map (\<lambda>(i, ev). Tick i ev) ticks) sys)"

definition shutdown :: "(nat \<times> leg_event) list \<Rightarrow> tunnel_sys \<Rightarrow> (tunnel_error, unit) outcome option" where
  "shutdown ticks sys = shutdown_with DEFAULT_GRACE_PERIOD ticks sys"

text \<open>\<open>Drop\<close> notifies without joining.\<close>

definition drop_handle :: "tunnel_sys \<Rightarrow> tunnel_sys option" where
  "drop_handle sys = sys_step NotifyAll sys"

section \<open>Lemmas\<close>

lemma clamp_bounds: "lo \<le> hi \<Longrightarrow> lo \<le> clamp n lo hi \<and> clamp n lo hi \<le> hi"
  by (auto simp: clamp_def)

lemma clamp_id: "lo \<le> n \<Longrightarrow> n \<le> hi \<Longrightarrow> clamp n lo hi = n"
  by (auto simp: clamp_def)

lemma with_ha_bounds:
  "1 \<le> unat (ha_connections (with_ha_connections n m)) \<and> unat (ha_connections (with_ha_connections n m)) \<le> 4"
proof -
  have "1 \<le> clamp n 1 4 \<and> clamp n 1 4 \<le> 4" by (rule clamp_bounds) simp
  then show ?thesis
    by (simp add: with_ha_connections_def MAX_HA_CONNECTIONS_def word_le_nat_alt)
qed

lemma connect_cycle_Inr:
  assumes "connect_cycle c w nv auth tid ver idx rep = Ready t (Inr (conn, control, loc))"
  obtains edges details where
    "discover (nv_primary nv) (nv_dot nv) Auto = Inr edges" "edges \<noteq> []"
    "dial_any (w_show w) (nv_endpoint nv) (take 5 edges) = Ready t (Inr conn)"
    "register_connection c (nv_rpc nv conn) auth tid idx
       ((default_for_quick_tunnel (nv_uuid nv) (w_os w) (w_arch w) ver)\<lparr>replace_existing := rep\<rparr>)
       = Inr (details, control)"
    "loc = rd_location details"
proof -
  from assms obtain edges where e: "discover (nv_primary nv) (nv_dot nv) Auto = Inr edges"
    by (auto simp: connect_cycle_def split: sum.splits)
  have "take (min (length edges) 5) edges = take 5 edges" by (simp add: min_def)
  with assms e obtain conn' where c: "dial_any (w_show w) (nv_endpoint nv) (take 5 edges) = Ready t (Inr conn')"
    "(case register_connection c (nv_rpc nv conn') auth tid idx
        ((default_for_quick_tunnel (nv_uuid nv) (w_os w) (w_arch w) ver)\<lparr>replace_existing := rep\<rparr>) of
      Inl e \<Rightarrow> Inl e | Inr (details, control) \<Rightarrow> Inr (conn', control, rd_location details)) = Inr (conn, control, loc)"
    by (auto simp: connect_cycle_def Let_def await_try_iff)
  from c(2) e discover_nonempty [OF e] show thesis
    by (auto simp: c(1) split: sum.splits intro!: that)
qed

text \<open>A connect cycle is never kept waiting by the edges for more than fifty seconds.\<close>

lemma connect_cycle_ends:
  "\<exists>t \<le> from_secs 50. \<exists>r. connect_cycle c w nv auth tid ver idx rep = Ready t r"
proof (cases "discover (nv_primary nv) (nv_dot nv) Auto")
  case (Inr edges)
  obtain t r where t: "t \<le> length (take (min (length edges) 5) edges) * from_secs 10"
    "dial_any (w_show w) (nv_endpoint nv) (take (min (length edges) 5) edges) = Ready t r"
    using dial_any_ends [of "take (min (length edges) 5) edges" "w_show w" "nv_endpoint nv"] by blast
  then have "t \<le> from_secs 50" by (simp add: from_secs_def min_def split: if_splits)
  with t(2) Inr show ?thesis by (simp add: connect_cycle_def Let_def)
qed (simp add: connect_cycle_def)

lemma join_reactors_Done_iff:
  "join_reactors (map leg_join ls) = Done () \<longleftrightarrow> list_all leg_ended ls"
  by (induction ls) (simp_all add: leg_join_def)

lemma join_reactors_Pending_iff:
  "join_reactors (map leg_join ls) = Pending \<longleftrightarrow> \<not> list_all leg_ended ls"
  by (induction ls) (simp_all add: leg_join_def)

section \<open>Properties\<close>

lemma run_events_append: "run_events (xs @ ys) s = Option.bind (run_events xs s) (run_events ys)"
proof (induction xs arbitrary: s)
  case (Cons x xs)
  then show ?case by (cases "sys_step x s") (simp_all del: sys_step.simps)
qed simp

lemma shutdown_run:
  "shutdown ticks s = Some r \<longleftrightarrow>
   (\<exists>t. run_events (map (\<lambda>(i, ev). Tick i ev) ticks) (s\<lparr>legs := map wake (legs s)\<rparr>) = Some t
      \<and> r = (if all_joined t then Done () else Pending))"
  using join_reactors_Done_iff join_reactors_Pending_iff
  by (auto simp: shutdown_def shutdown_with_def all_joined_def)

lemma stop_rank_bound: "stop_rank s \<le> 2 * length (legs s)"
proof -
  have two: "phase_rank ph \<le> 2" for ph by (cases ph) simp_all
  have "sum_list (map (\<lambda>l. phase_rank (leg_phase l)) ls) \<le> 2 * length ls" for ls
  proof (induction ls)
    case (Cons l ls)
    with two [of "leg_phase l"] show ?case by simp
  qed simp
  then show ?thesis by (simp add: stop_rank_def)
qed

text \<open>C18: A shutdown that comes while every leg is waiting (serving, or in a backoff) or has ended is heard by
  all of them. Whatever the order in which the legs are scheduled, there are at most two steps per
  leg, and until all are joined there is always a step to take, so \<open>shutdown\<close> returns.\<close>

theorem shutdown_joins_waiting_legs:
  assumes "list_all (\<lambda>l. listening (leg_phase l) \<or> leg_ended l) (legs s)" and "shutdown ticks s = Some r"
  shows "length ticks \<le> 2 * length (legs s)
    \<and> (r = Done () \<or> r = Pending \<and> (\<exists>i ev r'. shutdown (ticks @ [(i, ev)]) s = Some r'))"
proof -
  let ?s = "s\<lparr>legs := map wake (legs s)\<rparr>"
  obtain t where t: "run_events (map (\<lambda>(i, ev). Tick i ev) ticks) ?s = Some t"
    "r = (if all_joined t then Done () else Pending)"
    using assms(2) shutdown_run by blast
  have "stopping (wake l)" if "l \<in> set (legs s)" for l
    using assms(1) that by (intro stopping_wake) (auto simp: list_all_iff stopping_def)
  then have "list_all stopping (legs ?s)" by (simp add: list_all_iff)
  from heard_run [OF this t(1)] have h: "list_all stopping (legs t)" "length ticks + stop_rank t = stop_rank ?s"
    by blast+
  have len: "length ticks \<le> 2 * length (legs s)"
    using h(2) stop_rank_bound [of ?s] by simp
  show ?thesis
  proof (cases "all_joined t")
    case False
    then obtain i ev u where "sys_step (Tick i ev) t = Some u" using heard_progress [OF h(1)] by blast
    then have "run_events (map (\<lambda>(i, ev). Tick i ev) (ticks @ [(i, ev)])) ?s = Some u"
      using t(1) by (simp add: run_events_append del: sys_step.simps)
    then have "\<exists>r'. shutdown (ticks @ [(i, ev)]) s = Some r'" using shutdown_run by blast
    with False t(2) len show ?thesis by auto
  qed (use t(2) len in simp)
qed

theorem shutdown_joins_waiting_legs_witness:
  "shutdown [(0, SawNotify), (0, UnregisterDone)] \<lparr>legs = [first_leg\<lparr>leg_phase := Serving\<rparr>], reconnects = 0\<rparr> = Some (Done ())
   \<and> length [(0 :: nat, SawNotify), (0, UnregisterDone)] \<le> 2"
proof -
  let ?s = "\<lparr>legs = [first_leg\<lparr>leg_phase := Serving\<rparr>], reconnects = 0\<rparr>"
  have run: "shutdown [(0, SawNotify), (0, UnregisterDone)] ?s = Some (Done ())"
    by (simp add: shutdown_def shutdown_with_def wake_def leg_step_def counts_reconnect_def leg_join_def leg_ended_def)
  show ?thesis using shutdown_joins_waiting_legs [OF _ run] run by simp
qed

text \<open>C19: A shutdown that comes while a leg is inside a connect cycle is lost on that leg: when the cycle
  succeeds the leg serves on, it has nothing to hear, and the caller of \<open>shutdown\<close> keeps waiting. The same
  holds for a leg that was spawned and not polled yet.\<close>

theorem shutdown_lost_in_connect_cycle:
  assumes "i < length (legs s)"
    and "ev = CycleOk \<and> cycle_replaces (leg_phase (legs s ! i)) \<noteq> None
      \<or> ev = FirstPoll \<and> leg_phase (legs s ! i) = Starting"
  shows "\<exists>t. run_events [NotifyAll, Tick i ev] s = Some t \<and> leg_phase (legs t ! i) = Serving
    \<and> sys_step (Tick i SawNotify) t = None \<and> shutdown [(i, ev)] s = Some Pending"
proof -
  let ?l = "legs s ! i"
  have w: "\<not> listening (leg_phase ?l)" using assms(2) by (cases "leg_phase ?l") auto
  then have wk: "wake ?l = ?l" by (simp add: wake_def)
  have "phase_step ev (woken ?l) (leg_phase ?l) = Some Serving"
    using assms(2) by (cases "leg_phase ?l") auto
  then obtain l where l: "leg_step ev ?l = Some l" "leg_phase l = Serving" "\<not> woken l"
    by (auto simp: leg_step_def)
  let ?s = "s\<lparr>legs := map wake (legs s)\<rparr>"
  obtain t where t: "sys_step (Tick i ev) ?s = Some t" "legs t = (map wake (legs s))[i := l]"
    using l(1) assms(1) wk by simp
  have run: "run_events [NotifyAll, Tick i ev] s = Some t"
    using t(1) by (simp del: sys_step.simps(1))
  have ti: "legs t ! i = l" "i < length (legs t)" using t(2) assms(1) by simp_all
  have "l \<in> set (legs t)" using ti by (metis nth_mem)
  then have "\<not> all_joined t" using l(2) by (auto simp: all_joined_def list_all_iff leg_ended_def intro!: bexI [of _ l])
  then have "shutdown [(i, ev)] s = Some Pending"
    using t(1) shutdown_run [of "[(i, ev)]" s Pending] by (auto simp del: sys_step.simps)
  moreover have "sys_step (Tick i SawNotify) t = None"
    using ti l(2,3) by (simp add: leg_step_def)
  ultimately show ?thesis using run ti(1) l(2) by blast
qed

theorem shutdown_lost_in_connect_cycle_witness:
  "shutdown [(1, CycleOk)] (spawn_legs 2) = Some Pending \<and> shutdown [(0, FirstPoll)] (spawn_legs 2) = Some Pending"
proof -
  have s: "legs (spawn_legs 2) = [first_leg, further_leg 1]" by (simp add: spawn_legs_def upt_rec)
  show ?thesis
    using shutdown_lost_in_connect_cycle [of 1 "spawn_legs 2" CycleOk]
      shutdown_lost_in_connect_cycle [of 0 "spawn_legs 2" FirstPoll]
    by (simp add: s first_leg_def further_leg_def del: run_events.simps sys_step.simps) blast
qed

text \<open>However many connections the caller asks for, the manager keeps between one and four, and the
  tunnel is started with as many legs; by default these are two and the whole start may take thirty
  seconds.\<close>

theorem ha_connections_bounded:
  "unat (ha_connections (with_ha_connections n m)) = max 1 (min 4 (unat n))
   \<and> length (legs (spawn_legs (unat (ha_connections (with_ha_connections n m))))) = max 1 (min 4 (unat n))
   \<and> length (legs (spawn_legs (unat (ha_connections (manager_new port))))) = 2
   \<and> discovery_timeout (manager_new port) = from_secs 30"
proof -
  have u: "unat (ha_connections (with_ha_connections n m)) = max 1 (min 4 (unat n))"
  proof -
    have "unat (1 :: u8) = 1" "unat (4 :: u8) = 4" by simp_all
    then show ?thesis
      by (auto simp: with_ha_connections_def MAX_HA_CONNECTIONS_def clamp_def word_less_nat_alt)
  qed
  have "length (legs (spawn_legs k)) = k" if "1 \<le> k" for k using that by (simp add: spawn_legs_def)
  from this [of "max 1 (min 4 (unat n))"] this [of 2] u show ?thesis
    by (simp add: manager_new_def DEFAULT_HA_CONNECTIONS_def DEFAULT_HANDSHAKE_TIMEOUT_def)
qed

text \<open>C24: A handle is returned only when, within the time limit, the API granted a tunnel whose id is a UUID,
  the edges were discovered, the first of the first five that answers was connected, and the registration of connection 0, which
  does not replace an existing one, succeeded there. Its URL is the granted hostname as an https URL,
  and its legs are the first, registered one and the others that begin to register.\<close>

theorem started_tunnel:
  assumes "start c w nv took mgr = Inr h"
  shows "\<exists>tunnel conn control edges details dialled.
      fst (request_tunnel (w_from_json w) (w_client w) (w_post w) (service_url mgr) (user_agent mgr)) = Inr tunnel
    \<and> w_parse_uuid w (qt_id tunnel) = Inr (h_tunnel_id h)
    \<and> h_url h = (if starts_with (qt_hostname tunnel) ''https://'' then qt_hostname tunnel
                 else ''https://'' @ qt_hostname tunnel)
    \<and> starts_with (h_url h) ''https://'' \<and> h_account_tag h = qt_account_tag tunnel
    \<and> discover (nv_primary nv) (nv_dot nv) Auto = Inr edges
    \<and> dial_any (w_show w) (nv_endpoint nv) (take 5 edges) = Ready dialled (Inr conn)
    \<and> register_connection c (nv_rpc nv conn) \<lparr>account_tag = qt_account_tag tunnel, tunnel_secret = qt_secret tunnel\<rparr>
        (h_tunnel_id h) 0 ((default_for_quick_tunnel (nv_uuid nv) (w_os w) (w_arch w) CLIENT_VERSION)
           \<lparr>replace_existing := False\<rparr>) = Inr (details, control)
    \<and> h_location h = rd_location details
    \<and> h_reactors h = spawn_legs (unat (ha_connections mgr))
    \<and> dialled \<le> from_secs 50 \<and> (\<exists>t. took = Some t \<and> t + dialled \<le> discovery_timeout mgr)"
proof -
  from assms obtain t d where t: "took = Some t" "t + d \<le> discovery_timeout mgr" "start_inner c w nv mgr = Ready d (Inr h)"
    by (auto simp: start_def timeout_Some_iff delay_Ready_iff split: option.splits)
  from t(3) obtain tunnel sock conn control loc where
    a: "fst (request_tunnel (w_from_json w) (w_client w) (w_post w) (service_url mgr) (user_agent mgr)) = Inr tunnel"
      "w_parse_uuid w (qt_id tunnel) = Inr (h_tunnel_id h)"
      "connect_cycle c w nv \<lparr>account_tag = qt_account_tag tunnel, tunnel_secret = qt_secret tunnel\<rparr>
         (h_tunnel_id h) CLIENT_VERSION 0 False = Ready d (Inr (conn, control, loc))"
    and h: "h_url h = tunnel_public_url (qt_hostname tunnel)" "h_account_tag h = qt_account_tag tunnel"
      "h_location h = loc" "h_reactors h = spawn_legs (unat (ha_connections mgr))"
    by (auto simp: start_inner_def Let_def await_try_iff split: sum.splits)
  have url: "starts_with (tunnel_public_url n) ''https://''" for n
    using starts_with_append [of "''https://''" n] by (simp add: tunnel_public_url_def)
  from connect_cycle_Inr [OF a(3)] obtain edges details where
    "discover (nv_primary nv) (nv_dot nv) Auto = Inr edges"
    "dial_any (w_show w) (nv_endpoint nv) (take 5 edges) = Ready d (Inr conn)"
    "register_connection c (nv_rpc nv conn) \<lparr>account_tag = qt_account_tag tunnel, tunnel_secret = qt_secret tunnel\<rparr>
        (h_tunnel_id h) 0 ((default_for_quick_tunnel (nv_uuid nv) (w_os w) (w_arch w) CLIENT_VERSION)
           \<lparr>replace_existing := False\<rparr>) = Inr (details, control)"
    "loc = rd_location details" by blast
  moreover have "d \<le> from_secs 50" using connect_cycle_ends a(3) by (metis fut.inject)
  ultimately show ?thesis using a h t url [of "qt_hostname tunnel"]
    by (intro exI [of _ tunnel] exI [of _ conn] exI [of _ control] exI [of _ edges] exI [of _ details] exI [of _ d])
      (auto simp: tunnel_public_url_def)
qed

definition sample_tunnel :: quick_tunnel where
  "sample_tunnel = \<lparr>qt_id = ''id'', qt_name = ''n'', qt_hostname = ''x.example'', qt_account_tag = ''acc'', qt_secret = ''s''\<rparr>"

definition sample_world :: "(tree_struct, nat) world" where
  "sample_world =
     \<lparr>w_from_json = \<lambda>_. Inr \<lparr>success = True, result = Some sample_tunnel, errors = []\<rparr>,
      w_client = \<lambda>_. None, w_post = \<lambda>_ _. Inr (200, Inr ''{}''), w_parse_uuid = \<lambda>s. Inr s,
      w_once = \<lparr>once_done = False, installs = 0\<rparr>, w_accepts = \<lambda>_. True, w_native = Inr [], w_pem = [],
      w_quic_refuses = \<lambda>_. None, w_bind = \<lambda>_. Inr (), w_os = ''linux'', w_arch = ''x86_64'', w_show = \<lambda>_. []\<rparr>"

definition sample_view :: "(tree_struct, nat) net_view" where
  "sample_view =
     \<lparr>nv_primary = \<lparr>srv_lookup = \<lambda>_. Inr [(''a'', 7844)], lookup_ip = \<lambda>_. Inr [IpV4 1]\<rparr>, nv_dot = Inl Shutdown,
      nv_endpoint = \<lambda>_ _. Inr (Ready 0 (Inr 7)),
      nv_rpc = \<lambda>_. sample_env \<lparr>rd_uuid = ''0123456789abcdef'', rd_location = ''LIS'', tunnel_is_remotely_managed = False\<rparr>,
      nv_uuid = ''u''\<rparr>"

lemma sample_start:
  "start tree_api sample_world sample_view (Some 0) (manager_new 80) =
     Inr \<lparr>h_url = ''https://x.example'', h_tunnel_id = ''id'', h_account_tag = ''acc'', h_location = ''LIS'',
          h_reactors = spawn_legs 2, h_metrics = metrics_default, h_pool = pool_new 80\<rparr>"
proof -
  have rt: "fst (request_tunnel (w_from_json sample_world) (w_client sample_world) (w_post sample_world) u ua)
      = Inr sample_tunnel" for u ua
    by (simp add: sample_world_def request_tunnel_def try_once_def looks_like_json_cons is_server_error_def
        is_ascii_whitespace_def MAX_RETRIES_def upt_rec)
  have be: "fst (build_endpoint (w_once sample_world) (build_client_config (w_accepts sample_world)
      (w_native sample_world) (w_pem sample_world) (w_quic_refuses sample_world)) (w_bind sample_world))
      = Inr ((), \<lparr>cc_tls = \<lparr>tls_roots = [], tls_alpn = [ALPN]\<rparr>, cc_transport =
          \<lparr>tp_max_idle = Some (from_secs 30), tp_keep_alive = Some (from_secs 1)\<rparr>\<rparr>)"
    by (simp add: sample_world_def build_endpoint_def build_client_config_def load_native_def Let_def)
  have di: "discover (nv_primary sample_view) (nv_dot sample_view) Auto = Inr [from_ip (IpV4 1) 7844]"
    by (simp add: discover_def sample_view_def resolve_srv_def Let_def)
  have cc: "connect_cycle tree_api sample_world sample_view auth tid v 0 False = Ready 0 (Inr (7, session_new, ''LIS''))" for auth tid v
    unfolding connect_cycle_def di
    by (simp add: Let_def dial_any_def dial_def sample_view_def timeout_fut_def sample_env_registers)
  have pu: "w_parse_uuid sample_world s = Inr s" for s by (simp add: sample_world_def)
  show ?thesis
    by (simp add: start_def timeout_def start_inner_def rt pu be cc Let_def)
      (simp add: manager_new_def sample_tunnel_def sample_world_def tunnel_public_url_def DEFAULT_HA_CONNECTIONS_def)
qed

theorem started_tunnel_witness:
  "\<exists>edges conn d. discover (nv_primary sample_view) (nv_dot sample_view) Auto = Inr edges
    \<and> dial_any (w_show sample_world) (nv_endpoint sample_view) (take 5 edges) = Ready d (Inr conn)"
  using started_tunnel [OF sample_start] by blast

end
