(* ===== verification/Reactor_Loop.thy ===== *)
theory Reactor_Loop
  imports Supervisor Reactor_Correct
begin

text \<open>
  \<open>reactor_loop\<close> and \<open>reactor_loop_after_failure\<close> of \<^verbatim>\<open>src/manager.rs\<close> as whole functions: one turn of the
  outer loop supervises the connection, and then ends the leg or reconnects. They refine the phases of
  \<open>Reactor\<close>, and the phases bound how long a leg lives when the edge accepts no more registrations.
\<close>

section \<open>One connection\<close>

text \<open>
  A poll of the reactor's select: whether the shutdown was notified, and else what \<open>accept_bi\<close> gives the
  supervisor until it is pending. The sender of the supervisor's own channel lives as long as the
  select, so that channel does not fire.
\<close>

record 'q reactor_poll =
  rp_notified :: bool
  rp_accepts :: "(connection_error + 'q) option list"

definition sup_polls :: "'q reactor_poll \<Rightarrow> 'q sup_poll list" where
  "sup_polls p = map (\<lambda>a. \<lparr>sp_shutdown = False, sp_accepted = a\<rparr>) (rp_accepts p)"

fun supervise ::
  "'q reactor_poll list \<Rightarrow> supervisor_metrics \<Rightarrow> supervisor_exit option \<times> supervisor_metrics \<times> 'q sup_action list" where
  "supervise [] m = (None, m, [])"
| "supervise (p # ps) m =
     (if rp_notified p then (Some SupShutdown, m, [])
      else (case sup_run (sup_polls p) m of
              (Some e, m', acts) \<Rightarrow> (Some e, m', acts)
            | (None, m', acts) \<Rightarrow> (let (r, m'', acts') = supervise ps m' in (r, m'', acts @ acts'))))"

lemma sup_run_open: "(r, m', acts) = sup_run (sup_polls p) m \<Longrightarrow> CloseConn n t \<notin> set acts \<and> r \<noteq> Some SupShutdown"
proof -
  have "sp_shutdown q = False" if "q \<in> set (dropWhile sup_continues (sup_polls p))" for q
    using set_dropWhileD [OF that] by (auto simp: sup_polls_def)
  then have "\<forall>q. sup_last (sup_polls p) = Some q \<longrightarrow> \<not> sp_shutdown q"
    by (auto simp: sup_last_def split: list.splits)
  then show "(r, m', acts) = sup_run (sup_polls p) m \<Longrightarrow> CloseConn n t \<notin> set acts \<and> r \<noteq> Some SupShutdown"
    by (auto simp: sup_run_eq split: option.splits)
qed

text \<open>So the supervisor never closes the connection with a frame when the reactor runs it.\<close>

lemma supervise_never_closes: "CloseConn n t \<notin> set (snd (snd (supervise ps m)))"
proof (induction ps arbitrary: m)
  case (Cons p ps)
  then show ?case
    using sup_run_open [of _ _ _ p m n t]
    by (auto split: prod.splits option.splits) (metis snd_conv)
qed simp

section \<open>The life of a reactor\<close>

text \<open>
  What a turn of the outer loop meets: the polls of its connection, and for the attempts of a reconnect
  whether a notification interrupts the backoff and what the connect cycle gives. A connection \<open>'k\<close>
  comes with its control session.
\<close>

record ('q, 'k) turn =
  t_polls :: "'q reactor_poll list"
  t_stop :: "nat \<Rightarrow> bool"
  t_cycle :: "bool \<Rightarrow> nat \<Rightarrow> tunnel_error + 'k"

datatype ('q, 'k) reactor_action =
    Supervised "'q sup_action"
  | ShutGracefully 'k
  | DroppedControl 'k
  | Slept duration
  | Connected 'k

type_synonym ('q, 'k) reactor_result =
  "leg_end option \<times> supervisor_metrics \<times> u64 \<times> ('q, 'k) reactor_action list"

text \<open>\<open>None\<close>: the reactor still runs when the turns are used up.\<close>

fun reactor_loop :: "('q, 'k) turn list \<Rightarrow> 'k \<Rightarrow> supervisor_metrics \<Rightarrow> u64 \<Rightarrow> ('q, 'k) reactor_result" where
  "reactor_loop [] k m rc = (None, m, rc, [])"
| "reactor_loop (t # ts) k m rc =
     (case supervise (t_polls t) m of
        (None, m', acts) \<Rightarrow> (None, m', rc, map Supervised acts)
      | (Some SupShutdown, m', acts) \<Rightarrow>
          (Some CleanShutdown, m', rc, map Supervised acts @ [ShutGracefully k])
      | (Some ConnectionLost, m', acts) \<Rightarrow>
          (case reconnect_after_loss (t_stop t) (t_cycle t) of
             (GaveUp, ds) \<Rightarrow>
               (Some LegGaveUp, m', rc, map Supervised acts @ DroppedControl k # map Slept ds)
           | (StoppedInBackoff n, ds) \<Rightarrow>
               (Some StopInBackoff, m', rc, map Supervised acts @ DroppedControl k # map Slept ds)
           | (Reconnected n k', ds) \<Rightarrow>
               (let (r, m'', rc', acts') = reactor_loop ts k' m' (rc + 1) in
                (r, m'', rc',
                 map Supervised acts @ DroppedControl k # map Slept ds @ Connected k' # acts'))))"

text \<open>A leg whose first registration failed: the retry loop, then the life of any other.\<close>

definition late_reactor ::
  "(nat \<Rightarrow> bool) \<Rightarrow> (bool \<Rightarrow> nat \<Rightarrow> tunnel_error + 'k) \<Rightarrow> ('q, 'k) turn list \<Rightarrow> supervisor_metrics \<Rightarrow> u64
   \<Rightarrow> ('q, 'k) reactor_result" where
  "late_reactor stop cycle ts m rc =
     (case reactor_loop_after_failure stop cycle of
        (GaveUp, ds) \<Rightarrow> (Some LegGaveUp, m, rc, map Slept ds)
      | (StoppedInBackoff n, ds) \<Rightarrow> (Some StopInBackoff, m, rc, map Slept ds)
      | (Reconnected n k, ds) \<Rightarrow>
          (let (r, m', rc', acts) = reactor_loop ts k m rc in (r, m', rc', map Slept ds @ Connected k # acts)))"

section \<open>Refinement of the phases\<close>

text \<open>The events that a life is for the leg; \<open>None\<close> is the notification.\<close>

fun reactor_script :: "('q, 'k) turn list \<Rightarrow> supervisor_metrics \<Rightarrow> leg_event option list" where
  "reactor_script [] m = []"
| "reactor_script (t # ts) m =
     (case supervise (t_polls t) m of
        (None, m', acts) \<Rightarrow> []
      | (Some SupShutdown, m', acts) \<Rightarrow> [None, Some SawNotify, Some UnregisterDone]
      | (Some ConnectionLost, m', acts) \<Rightarrow>
          Some Lost # loop_script (t_stop t) (t_cycle t True) 0
          @ (case fst (reconnect_after_loss (t_stop t) (t_cycle t)) of
               Reconnected n k \<Rightarrow> reactor_script ts m' | _ \<Rightarrow> []))"

definition late_script ::
  "(nat \<Rightarrow> bool) \<Rightarrow> (bool \<Rightarrow> nat \<Rightarrow> tunnel_error + 'k) \<Rightarrow> ('q, 'k) turn list \<Rightarrow> supervisor_metrics \<Rightarrow> leg_event option list" where
  "late_script stop cycle ts m =
     Some CycleFailed # loop_script stop (cycle False) 0
     @ (case fst (reactor_loop_after_failure stop cycle) of Reconnected n k \<Rightarrow> reactor_script ts m | _ \<Rightarrow> [])"

lemma leg_run_append: "leg_run (xs @ ys) l = Option.bind (leg_run xs l) (leg_run ys)"
proof (induction xs arbitrary: l)
  case (Cons x xs)
  show ?case
  proof (cases x)
    case (Some ev)
    then show ?thesis by (cases "leg_step ev l") (simp_all add: Cons.IH)
  qed (simp add: Cons.IH)
qed simp

text \<open>What the end of a life is for the leg, and the registrations it made: one that replaces per reconnect.\<close>

definition end_of_life :: "leg_end option \<Rightarrow> phase" where
  "end_of_life r = (case r of None \<Rightarrow> Serving | Some e \<Rightarrow> Ended e)"

definition leg_after :: "leg_end option \<Rightarrow> bool list \<Rightarrow> nat \<Rightarrow> leg \<Rightarrow> leg" where
  "leg_after r flags n l =
     l\<lparr>leg_phase := end_of_life r, woken := False, replaced := replaced l @ flags, rejoined := rejoined l + n\<rparr>"

lemma leg_lost_loop:
  assumes "leg_phase l = Serving" and "\<not> woken l"
  shows "leg_run (Some Lost # loop_script stop connect 0 @ es) l =
    leg_run es (after_loop True (fst (reconnect_loop stop connect 0)) l)"
proof -
  let ?l = "l\<lparr>leg_phase := retry_or_end (wait_phase True) (0 + 1), woken := False\<rparr>"
  have "leg_step Lost l = Some ?l"
    using assms by (simp add: leg_step_def wait_phase_def)
  then have "leg_run (Some Lost # loop_script stop connect 0 @ es) l =
      leg_run es (after_loop True (fst (reconnect_loop stop connect 0)) ?l)"
    using leg_run_loop_state [of ?l True 0 stop connect] by (simp add: leg_run_append)
  then show ?thesis by (simp only: after_loop_update [OF assms(2)])
qed

lemma leg_failed_loop:
  assumes "leg_phase l = Registering" and "\<not> woken l"
  shows "leg_run (Some CycleFailed # loop_script stop connect 0 @ es) l =
    leg_run es (after_loop False (fst (reconnect_loop stop connect 0)) l)"
proof -
  let ?l = "l\<lparr>leg_phase := retry_or_end (wait_phase False) (0 + 1), woken := False\<rparr>"
  have "leg_step CycleFailed l = Some ?l"
    using assms by (simp add: leg_step_def wait_phase_def)
  then have "leg_run (Some CycleFailed # loop_script stop connect 0 @ es) l =
      leg_run es (after_loop False (fst (reconnect_loop stop connect 0)) ?l)"
    using leg_run_loop_state [of ?l False 0 stop connect] by (simp add: leg_run_append)
  then show ?thesis by (simp only: after_loop_update [OF assms(2)])
qed

lemma leg_self: "\<not> woken l \<Longrightarrow> leg_phase l = end_of_life r \<Longrightarrow> leg_after r [] 0 l = l"
  by (cases l) (simp add: leg_after_def)

lemma reactor_loop_leg:
  assumes "leg_phase l = Serving" and "\<not> woken l" and "reactor_loop ts k m rc = (r, m', rc', acts)"
  shows "\<exists>n. leg_run (reactor_script ts m) l = Some (leg_after r (replicate n True) n l) \<and> rc' = rc + of_nat n"
  using assms
proof (induction ts arbitrary: l k m rc r m' rc' acts)
  case Nil
  then show ?case using leg_self [of l None] by (auto simp: end_of_life_def intro!: exI [of _ 0])
next
  case (Cons t ts)
  obtain e m1 acts1 where sup: "supervise (t_polls t) m = (e, m1, acts1)" by (cases "supervise (t_polls t) m")
  show ?case
  proof (cases e)
    case None
    with Cons.prems sup leg_self [of l None] show ?thesis
      by (auto simp: end_of_life_def intro!: exI [of _ 0])
  next
    case (Some ex)
    show ?thesis
    proof (cases ex)
      case SupShutdown
      with Some Cons.prems sup show ?thesis
        by (auto simp: wake_def leg_step_def leg_after_def end_of_life_def intro!: exI [of _ 0])
    next
      case ConnectionLost
      obtain q ds where q: "reconnect_after_loss (t_stop t) (t_cycle t) = (q, ds)"
        by (cases "reconnect_after_loss (t_stop t) (t_cycle t)")
      then have q': "fst (reconnect_loop (t_stop t) (t_cycle t True) 0) = q"
        by (simp add: reconnect_after_loss_def)
      note run = leg_lost_loop [OF Cons.prems(1,2), of "t_stop t" "t_cycle t True", unfolded q']
      show ?thesis
      proof (cases q)
        case (Reconnected n k')
        let ?l = "after_loop True q l"
        obtain acts' where loop: "reactor_loop ts k' m1 (rc + 1) = (r, m', rc', acts')"
          using Cons.prems(3) sup Some ConnectionLost q Reconnected by (auto split: prod.splits)
        have "leg_phase ?l = Serving" "\<not> woken ?l" using Reconnected Cons.prems(2) by simp_all
        from Cons.IH [OF this loop] obtain j where
          j: "leg_run (reactor_script ts m1) ?l = Some (leg_after r (replicate j True) j ?l)" "rc' = rc + 1 + of_nat j"
          by blast
        have "leg_after r (replicate j True) j ?l = leg_after r (replicate (Suc j) True) (Suc j) l"
          using Reconnected by (simp add: leg_after_def after_loop_def)
        with j run [of "reactor_script ts m1"] sup Some ConnectionLost q Reconnected show ?thesis
          by (intro exI [of _ "Suc j"]) simp
      qed (use run [of "[]"] sup Some ConnectionLost q Cons.prems in
            \<open>auto simp: after_loop_def leg_after_def end_of_life_def intro!: exI [of _ 0]\<close>)
    qed
  qed
qed


lemma late_reactor_leg:
  assumes "leg_phase l = Registering" and "\<not> woken l" and "late_reactor stop cycle ts m rc = (r, m', rc', acts)"
  shows "(\<exists>n. leg_run (late_script stop cycle ts m) l = Some (leg_after r (False # replicate n True) n l)
              \<and> rc' = rc + of_nat n)
       \<or> leg_run (late_script stop cycle ts m) l = Some (leg_after r [] 0 l) \<and> rc' = rc \<and> r \<noteq> None"
proof -
  obtain q ds where q: "reactor_loop_after_failure stop cycle = (q, ds)"
    by (cases "reactor_loop_after_failure stop cycle")
  then have q': "fst (reconnect_loop stop (cycle False) 0) = q"
    by (simp add: reactor_loop_after_failure_def)
  note run = leg_failed_loop [OF assms(1,2), of stop "cycle False", unfolded q']
  show ?thesis
  proof (cases q)
    case (Reconnected n k)
    let ?l = "after_loop False q l"
    obtain acts' where loop: "reactor_loop ts k m rc = (r, m', rc', acts')"
      using assms(3) q Reconnected by (auto simp: late_reactor_def split: prod.splits)
    have "leg_phase ?l = Serving" "\<not> woken ?l" using Reconnected assms(2) by simp_all
    from reactor_loop_leg [OF this loop] obtain j where
      j: "leg_run (reactor_script ts m) ?l = Some (leg_after r (replicate j True) j ?l)" "rc' = rc + of_nat j"
      by blast
    have "leg_after r (replicate j True) j ?l = leg_after r (False # replicate j True) j l"
      using Reconnected by (simp add: leg_after_def after_loop_def)
    with j run [of "reactor_script ts m"] q Reconnected show ?thesis
      by (intro disjI1 exI [of _ j]) (simp add: late_script_def)
  qed (use run [of "[]"] q assms in
        \<open>auto simp: late_reactor_def late_script_def after_loop_def leg_after_def end_of_life_def\<close>)
qed

section \<open>One control session at a time\<close>

text \<open>
  Which control session the reactor holds after its actions, \<open>None\<close> when they break the discipline: it
  supervises a connection only while it holds the session, never closes it with a frame, gives up the
  one it holds before it sleeps or connects, and connects only when it holds none.
\<close>

fun held :: "'k option \<Rightarrow> ('q, 'k) reactor_action list \<Rightarrow> 'k option option" where
  "held h [] = Some h"
| "held (Some k) (Supervised a # as) = (case a of CloseConn n t \<Rightarrow> None | _ \<Rightarrow> held (Some k) as)"
| "held (Some k) (ShutGracefully j # as) = (if j = k then held None as else None)"
| "held (Some k) (DroppedControl j # as) = (if j = k then held None as else None)"
| "held None (Slept d # as) = held None as"
| "held None (Connected k # as) = held (Some k) as"
| "held _ _ = None"

lemma held_supervised:
  "\<forall>n t. CloseConn n t \<notin> set acts \<Longrightarrow> held (Some k) (map Supervised acts @ as) = held (Some k) as"
  by (induction acts) (auto split: sup_action.splits)

lemma held_slept: "held None (map Slept ds @ as) = held None as"
  by (induction ds) simp_all

lemma held_supervise:
  "supervise ps m = (e, m', acts) \<Longrightarrow> held (Some k) (map Supervised acts @ as) = held (Some k) as"
  using supervise_never_closes [of _ _ ps m] by (intro held_supervised) auto

lemma held_supervise_end:
  "supervise ps m = (e, m', acts) \<Longrightarrow> held (Some k) (map Supervised acts) = Some (Some k)"
  using held_supervise [of ps m e m' acts k "[]"] by simp

lemma held_slept_end: "held None (map Slept ds) = Some None"
  using held_slept [of ds "[]"] by simp

lemma reactor_loop_held:
  "reactor_loop ts k m rc = (r, m', rc', acts) \<Longrightarrow>
   \<exists>h. held (Some k) acts = Some h \<and> (h = None \<longleftrightarrow> r \<noteq> None)"
proof (induction ts arbitrary: k m rc acts)
  case (Cons t ts)
  obtain e m1 acts1 where sup: "supervise (t_polls t) m = (e, m1, acts1)" by (cases "supervise (t_polls t) m")
  note held = held_supervise [OF sup, where k = k] held_supervise_end [OF sup, where k = k]
  obtain q ds where q: "reconnect_after_loss (t_stop t) (t_cycle t) = (q, ds)"
    by (cases "reconnect_after_loss (t_stop t) (t_cycle t)")
  from Cons.prems sup q held Cons.IH show ?case
    by (cases q) (auto simp: held_slept held_slept_end split: option.splits supervisor_exit.splits prod.splits)
qed auto

lemma late_reactor_held:
  "late_reactor stop cycle ts m rc = (r, m', rc', acts) \<Longrightarrow>
   \<exists>h. held None acts = Some h \<and> (h = None \<longleftrightarrow> r \<noteq> None)"
  by (auto simp: late_reactor_def held_slept held_slept_end dest: reactor_loop_held
      split: reconnect_end.splits prod.splits)


text \<open>C22: \<open>reactor_loop\<close> refines the phases of a leg. Whatever its connections and its connect cycles give,
  its life is a run of the leg machine from \<open>Serving\<close>: it makes one registration that replaces per
  reconnect, the shared counter counts them (modulo \<open>2 ^ 64\<close>), and its exit is how the phases end. The
  life of a leg whose first registration failed is such a run from \<open>Registering\<close>, which begins with at
  most one registration that does not replace. In both, the task holds one control session at a time: it
  gives each up, dropped or shut down, before it sleeps, connects or returns, and never supervises
  without one.
\<close>

theorem reactor_refines_phases:
  assumes "leg_phase l = Serving" and "leg_phase l' = Registering" and "\<not> woken l" and "\<not> woken l'"
  shows
    "(case reactor_loop ts k m rc of (r, m', rc', acts) \<Rightarrow>
        (\<exists>n. leg_run (reactor_script ts m) l = Some (leg_after r (replicate n True) n l) \<and> rc' = rc + of_nat n)
        \<and> (\<exists>h. held (Some k) acts = Some h \<and> (h = None \<longleftrightarrow> r \<noteq> None)))
   \<and> (case late_reactor stop cycle ts m rc of (r, m', rc', acts) \<Rightarrow>
        ((\<exists>n. leg_run (late_script stop cycle ts m) l' = Some (leg_after r (False # replicate n True) n l')
              \<and> rc' = rc + of_nat n)
         \<or> leg_run (late_script stop cycle ts m) l' = Some (leg_after r [] 0 l') \<and> rc' = rc \<and> r \<noteq> None)
        \<and> (\<exists>h. held None acts = Some h \<and> (h = None \<longleftrightarrow> r \<noteq> None)))"
proof (intro conjI)
  obtain r m' rc' acts where run: "reactor_loop ts k m rc = (r, m', rc', acts)"
    by (cases "reactor_loop ts k m rc")
  with reactor_loop_leg [OF assms(1,3) run] reactor_loop_held [OF run]
  show "case reactor_loop ts k m rc of (r, m', rc', acts) \<Rightarrow>
      (\<exists>n. leg_run (reactor_script ts m) l = Some (leg_after r (replicate n True) n l) \<and> rc' = rc + of_nat n)
      \<and> (\<exists>h. held (Some k) acts = Some h \<and> (h = None \<longleftrightarrow> r \<noteq> None))" by simp
next
  obtain r m' rc' acts where run: "late_reactor stop cycle ts m rc = (r, m', rc', acts)"
    by (cases "late_reactor stop cycle ts m rc")
  with late_reactor_leg [OF assms(2,4) run] late_reactor_held [OF run]
  show "case late_reactor stop cycle ts m rc of (r, m', rc', acts) \<Rightarrow>
      ((\<exists>n. leg_run (late_script stop cycle ts m) l' = Some (leg_after r (False # replicate n True) n l')
            \<and> rc' = rc + of_nat n)
       \<or> leg_run (late_script stop cycle ts m) l' = Some (leg_after r [] 0 l') \<and> rc' = rc \<and> r \<noteq> None)
      \<and> (\<exists>h. held None acts = Some h \<and> (h = None \<longleftrightarrow> r \<noteq> None))" by simp
qed

text \<open>
  A leg that serves a stream, loses its connection, fails one cycle, reconnects and is then shut down;
  and one whose retry of the first registration is interrupted in its first backoff.
\<close>

definition sample_turns :: "(nat, nat) turn list" where
  "sample_turns =
     [\<lparr>t_polls = [\<lparr>rp_notified = False, rp_accepts = [Some (Inr 5), None]\<rparr>,
                  \<lparr>rp_notified = False, rp_accepts = [Some (Inl LocallyClosed)]\<rparr>],
       t_stop = (\<lambda>n. False), t_cycle = (\<lambda>b n. if n = 2 then Inr 1 else Inl Shutdown)\<rparr>,
      \<lparr>t_polls = [\<lparr>rp_notified = True, rp_accepts = []\<rparr>],
       t_stop = (\<lambda>n. False), t_cycle = (\<lambda>b n. Inl Shutdown)\<rparr>]"

lemma sample_life:
  "reactor_loop sample_turns 0 metrics_default 0 =
     (Some CleanShutdown, metrics_default\<lparr>streams_total := 1\<rparr>, 1,
      [Supervised (SpawnStream 5), DroppedControl 0, Slept (from_secs 1), Slept (from_secs 2), Connected 1,
       ShutGracefully 1])"
  by (simp add: sample_turns_def sup_polls_def metrics_default_def reconnect_after_loss_def
      reconnect_loop.simps MAX_RECONNECT_ATTEMPTS_def backoff_closed)

theorem reactor_refines_phases_witness:
  "(\<exists>n. leg_run (reactor_script sample_turns metrics_default) (first_leg\<lparr>leg_phase := Serving\<rparr>) =
          Some (leg_after (Some CleanShutdown) (replicate n True) n (first_leg\<lparr>leg_phase := Serving\<rparr>))
        \<and> (1 :: u64) = 0 + of_nat n)
   \<and> (\<exists>h. held (Some 0) (snd (snd (snd (reactor_loop sample_turns 0 metrics_default 0)))) = Some h
        \<and> (h = None \<longleftrightarrow> Some CleanShutdown \<noteq> None))
   \<and> late_reactor (\<lambda>n. True) (\<lambda>b n. Inl Shutdown) sample_turns metrics_default 0 =
       (Some StopInBackoff, metrics_default, 0, [])"
proof -
  have "leg_phase (first_leg\<lparr>leg_phase := Serving\<rparr>) = Serving" "leg_phase (further_leg 1) = Registering"
    "\<not> woken (first_leg\<lparr>leg_phase := Serving\<rparr>)" "\<not> woken (further_leg 1)"
    by (simp_all add: first_leg_def further_leg_def)
  from reactor_refines_phases [OF this, where ts = sample_turns and k = 0 and m = metrics_default and rc = 0
    and stop = "\<lambda>n. True" and cycle = "\<lambda>b n. Inl Shutdown", unfolded sample_life]
  show ?thesis
    by (simp add: sample_life late_reactor_def reactor_loop_after_failure_def reconnect_loop.simps
        MAX_RECONNECT_ATTEMPTS_def)
qed

section \<open>Legs end when nothing registers\<close>

text \<open>How many steps a leg can still make before it ends, unless a registration is accepted.\<close>

definition retry_budget :: "nat \<Rightarrow> nat" where
  "retry_budget n = 2 * (MAX_RECONNECT_ATTEMPTS - n)"

fun steps_left :: "phase \<Rightarrow> nat" where
  "steps_left Starting = 22"
| "steps_left Registering = 21"
| "steps_left Serving = 21"
| "steps_left (RetryWait n) = retry_budget n + 2"
| "steps_left (BackoffWait n) = retry_budget n + 2"
| "steps_left (RetryConnect n) = retry_budget n + 1"
| "steps_left (Reconnecting n) = retry_budget n + 1"
| "steps_left Unregistering = 1"
| "steps_left (Ended e) = 0"

definition steps_of_legs :: "tunnel_sys \<Rightarrow> nat" where
  "steps_of_legs s = sum_list (map (\<lambda>l. steps_left (leg_phase l)) (legs s))"

definition is_tick :: "sys_event \<Rightarrow> bool" where
  "is_tick ev = (case ev of Tick i e \<Rightarrow> True | NotifyAll \<Rightarrow> False)"

definition registers :: "sys_event \<Rightarrow> bool" where
  "registers ev = (case ev of Tick i e \<Rightarrow> e = CycleOk | NotifyAll \<Rightarrow> False)"

lemma retry_budget_step: "n < MAX_RECONNECT_ATTEMPTS \<Longrightarrow> retry_budget n = Suc (Suc (retry_budget (Suc n)))"
  by (simp add: retry_budget_def)

lemma retry_budget_1: "retry_budget (Suc 0) = 18"
  by (simp add: retry_budget_def MAX_RECONNECT_ATTEMPTS_def)

lemma steps_left_step:
  "leg_step ev l = Some l' \<Longrightarrow>
   Suc (steps_left (leg_phase l')) \<le> steps_left (leg_phase l) + (if ev = CycleOk then 21 else 0)"
  by (cases ev; cases "leg_phase l")
    (auto simp: leg_step_Some retry_budget_1 retry_budget_step split: if_splits)

lemma leg_not_stuck: "\<not> leg_ended l \<Longrightarrow> \<exists>ev l'. ev \<noteq> CycleOk \<and> leg_step ev l = Some l'"
proof -
  assume "\<not> leg_ended l"
  define ev where "ev =
    (case leg_phase l of
       Starting \<Rightarrow> FirstPoll
     | Unregistering \<Rightarrow> UnregisterDone
     | Serving \<Rightarrow> if woken l then SawNotify else Lost
     | RetryWait n \<Rightarrow> if woken l then SawNotify else SleepOver
     | BackoffWait n \<Rightarrow> if woken l then SawNotify else SleepOver
     | _ \<Rightarrow> CycleFailed)"
  have "ev \<noteq> CycleOk \<and> leg_step ev l \<noteq> None"
    using \<open>\<not> leg_ended l\<close> by (cases "leg_phase l") (auto simp: ev_def leg_step_def leg_ended_def)
  then show ?thesis by blast
qed

lemma steps_of_legs_step:
  assumes "sys_step ev s = Some t"
  shows "steps_of_legs t + of_bool (is_tick ev) \<le> steps_of_legs s + 21 * of_bool (registers ev)"
proof (cases ev)
  case (Tick i e)
  with assms obtain l where l: "i < length (legs s)" "leg_step e (legs s ! i) = Some l" "legs t = (legs s)[i := l]"
    using sys_step_Tick by auto
  from sum_list_update_nat [of i "map (\<lambda>l. steps_left (leg_phase l)) (legs s)" "steps_left (leg_phase l)"] l(1)
  have "steps_of_legs t + steps_left (leg_phase (legs s ! i)) = steps_of_legs s + steps_left (leg_phase l)"
    by (simp add: steps_of_legs_def l(3) map_update)
  with steps_left_step [OF l(2)] Tick show ?thesis by (simp add: is_tick_def registers_def split: if_splits)
next
  case NotifyAll
  with assms show ?thesis by (auto simp: steps_of_legs_def is_tick_def registers_def comp_def)
qed

lemma steps_of_legs_run:
  "run_events evs s = Some t \<Longrightarrow>
   steps_of_legs t + length (filter is_tick evs) \<le> steps_of_legs s + 21 * length (filter registers evs)"
proof (induction evs arbitrary: s)
  case (Cons ev evs)
  then obtain u where u: "sys_step ev s = Some u" "run_events evs u = Some t"
    by (auto simp: bind_eq_Some_conv)
  from Cons.IH [OF u(2)] steps_of_legs_step [OF u(1)] show ?case
    by (cases "is_tick ev"; cases "registers ev") simp_all
qed simp

lemma steps_left_bound: "steps_left ph \<le> 22"
  by (cases ph) (simp_all add: retry_budget_def MAX_RECONNECT_ATTEMPTS_def)

lemma steps_of_legs_bound: "steps_of_legs s \<le> 22 * length (legs s)"
  unfolding steps_of_legs_def
  using sum_list_mono [of "legs s" "\<lambda>l. steps_left (leg_phase l)" "\<lambda>l. 22"]
  by (simp add: steps_left_bound sum_list_triv mult.commute)

text \<open>C23: the reactors end when no registration is accepted. From any reachable state of a tunnel with
  \<open>ha\<close> legs, whatever the network, the timers and the handle do, a run makes at most 22 steps per leg
  and 21 more for each registration that the edge accepts; and while a leg has not ended, a step other
  than an accepted registration is possible. So a run without new registrations comes to the state in
  which \<open>shutdown_with\<close> has joined every reactor, be the handle notified or not: no leg retries for ever.
\<close>

theorem legs_end_without_registrations:
  assumes "sys_reachable ha s" and "1 \<le> ha" and "run_events evs s = Some t"
  shows "length (filter is_tick evs) \<le> 22 * ha + 21 * length (filter registers evs)
    \<and> (\<not> all_joined t \<longrightarrow> (\<exists>i ev u. ev \<noteq> CycleOk \<and> sys_step (Tick i ev) t = Some u))"
proof (intro conjI impI)
  from sys_reachable_inv [OF assms(1,2)] have "length (legs s) = ha" by (simp add: sys_inv_def)
  with steps_of_legs_run [OF assms(3)] steps_of_legs_bound [of s]
  show "length (filter is_tick evs) \<le> 22 * ha + 21 * length (filter registers evs)" by simp
next
  assume "\<not> all_joined t"
  then obtain i where i: "i < length (legs t)" "\<not> leg_ended (legs t ! i)"
    by (auto simp: all_joined_def list_all_length)
  from leg_not_stuck [OF i(2)] obtain ev l where "ev \<noteq> CycleOk" "leg_step ev (legs t ! i) = Some l" by blast
  with i(1) show "\<exists>i ev u. ev \<noteq> CycleOk \<and> sys_step (Tick i ev) t = Some u"
    unfolding sys_step_Tick by blast
qed

text \<open>One leg that loses its connection and fails every cycle: 22 steps, and all is joined.\<close>

definition doomed_run :: "sys_event list" where
  "doomed_run = map (Tick 0) (FirstPoll # Lost # concat (replicate 10 [SleepOver, CycleFailed]))"

lemma doomed_run_ends:
  "run_events doomed_run (spawn_legs 1) =
     Some \<lparr>legs = [first_leg\<lparr>leg_phase := Ended LegGaveUp\<rparr>], reconnects = 0\<rparr>"
  by (simp add: doomed_run_def spawn_legs_def first_leg_def leg_step_def counts_reconnect_def eval_nat_numeral
      MAX_RECONNECT_ATTEMPTS_def retry_or_end_def)

theorem legs_end_without_registrations_witness:
  "length (filter is_tick doomed_run) \<le> 22 * 1 + 21 * length (filter registers doomed_run)
   \<and> length (filter is_tick doomed_run) = 22 \<and> filter registers doomed_run = []"
  using legs_end_without_registrations [OF reach_start [of 1] _ doomed_run_ends]
  by (simp add: doomed_run_def is_tick_def registers_def eval_nat_numeral)

end
