(* ===== verification/Http_Shape.thy ===== *)
theory Http_Shape
  imports Connect_Request
begin

text \<open>
  The shape analysis of \<^verbatim>\<open>src/proxy.rs\<close>: what the headers of a request and of a response say
  about body length, chunking, upgrades and closing, and from it whether the local socket may be
  kept for another request.
\<close>

section \<open>Requests\<close>

record request_shape =
  rq_content_length :: "nat option"
  rq_is_chunked :: bool
  rq_is_upgrade :: bool
  rq_wants_close :: bool

definition request_poolable :: "request_shape \<Rightarrow> bool" where
  "request_poolable sh = (\<not> rq_is_chunked sh \<and> \<not> rq_is_upgrade sh \<and> \<not> rq_wants_close sh)"

text \<open>One turn of the loop of \<open>analyse_request\<close>, on one metadata pair.\<close>

definition request_step :: "request_shape \<Rightarrow> string \<times> string \<Rightarrow> request_shape" where
  "request_step sh kv =
     (case strip_prefix (HTTP_HEADER_KEY @ '':'') (fst kv) of
        None \<Rightarrow> sh
      | Some name \<Rightarrow>
          (let lname = to_ascii_lowercase name;
               lval = to_ascii_lowercase (snd kv)
           in if lname = ''content-length'' then sh\<lparr>rq_content_length := parse_u64 (snd kv)\<rparr>
              else if lname = ''transfer-encoding'' \<and> contains_str lval ''chunked''
                then sh\<lparr>rq_is_chunked := True\<rparr>
              else if lname = ''upgrade'' then sh\<lparr>rq_is_upgrade := True\<rparr>
              else if lname = ''connection'' then
                (let sh1 = if contains_str lval ''upgrade'' then sh\<lparr>rq_is_upgrade := True\<rparr> else sh
                 in if contains_str lval ''close'' then sh1\<lparr>rq_wants_close := True\<rparr> else sh1)
              else sh))"

definition analyse_request :: "connect_request \<Rightarrow> request_shape" where
  "analyse_request req =
     foldl request_step
       \<lparr>rq_content_length = None, rq_is_chunked = False, rq_is_upgrade = False, rq_wants_close = False\<rparr>
       (metadata req)"

section \<open>Responses\<close>

record response_shape =
  rs_content_length :: "nat option"
  rs_is_chunked :: bool
  rs_is_upgrade :: bool
  rs_wants_close :: bool

definition response_poolable :: "response_shape \<Rightarrow> bool" where
  "response_poolable sh =
     (rs_content_length sh \<noteq> None \<and> \<not> rs_is_chunked sh \<and> \<not> rs_is_upgrade sh \<and> \<not> rs_wants_close sh)"

definition response_step :: "response_shape \<Rightarrow> string \<times> string \<Rightarrow> response_shape" where
  "response_step sh nv =
     (let lname = to_ascii_lowercase (fst nv);
          lval = to_ascii_lowercase (snd nv)
      in if lname = ''content-length'' then sh\<lparr>rs_content_length := parse_u64 (snd nv)\<rparr>
         else if lname = ''transfer-encoding'' \<and> contains_str lval ''chunked''
           then sh\<lparr>rs_is_chunked := True\<rparr>
         else if lname = ''connection'' then
           (let sh1 = if contains_str lval ''close'' then sh\<lparr>rs_wants_close := True\<rparr> else sh
            in if contains_str lval ''upgrade'' then sh1\<lparr>rs_is_upgrade := True\<rparr> else sh1)
         else if lname = ''upgrade'' then sh\<lparr>rs_is_upgrade := True\<rparr>
         else sh)"

definition analyse_response :: "u16 \<Rightarrow> (string \<times> string) list \<Rightarrow> response_shape" where
  "analyse_response status headers =
     foldl response_step
       \<lparr>rs_content_length = None, rs_is_chunked = False, rs_is_upgrade = (status = 101),
        rs_wants_close = False\<rparr>
       headers"

section \<open>What the analysis decides, as statements about the header list\<close>

definition header_is :: "string \<Rightarrow> string \<times> string \<Rightarrow> bool" where
  "header_is name nv = (to_ascii_lowercase (fst nv) = name)"

definition header_has :: "string \<Rightarrow> string \<Rightarrow> string \<times> string \<Rightarrow> bool" where
  "header_has name tok nv = (header_is name nv \<and> contains_str (to_ascii_lowercase (snd nv)) tok)"

definition asks_chunked :: "(string \<times> string) list \<Rightarrow> bool" where
  "asks_chunked hs = list_ex (header_has ''transfer-encoding'' ''chunked'') hs"

definition asks_upgrade :: "(string \<times> string) list \<Rightarrow> bool" where
  "asks_upgrade hs = list_ex (\<lambda>nv. header_is ''upgrade'' nv \<or> header_has ''connection'' ''upgrade'' nv) hs"

definition asks_close :: "(string \<times> string) list \<Rightarrow> bool" where
  "asks_close hs = list_ex (header_has ''connection'' ''close'') hs"

text \<open>The last \<open>Content-Length\<close> decides, and an unreadable one counts as none.\<close>

definition declared_length :: "(string \<times> string) list \<Rightarrow> nat option" where
  "declared_length hs =
     (let xs = filter (header_is ''content-length'') hs
      in if xs = [] then None else parse_u64 (snd (last xs)))"

lemma declared_length_snoc:
  "declared_length (hs @ [nv]) =
     (if header_is ''content-length'' nv then parse_u64 (snd nv) else declared_length hs)"
  by (simp add: declared_length_def Let_def)

lemma asks_snoc:
  "asks_chunked (hs @ [nv]) = (asks_chunked hs \<or> header_has ''transfer-encoding'' ''chunked'' nv)"
  "asks_upgrade (hs @ [nv]) =
     (asks_upgrade hs \<or> header_is ''upgrade'' nv \<or> header_has ''connection'' ''upgrade'' nv)"
  "asks_close (hs @ [nv]) = (asks_close hs \<or> header_has ''connection'' ''close'' nv)"
  by (auto simp: asks_chunked_def asks_upgrade_def asks_close_def)

lemma asks_Nil [simp]:
  "asks_chunked [] = False" "asks_upgrade [] = False" "asks_close [] = False" "declared_length [] = None"
  by (simp_all add: asks_chunked_def asks_upgrade_def asks_close_def declared_length_def)

definition request_shape_of :: "(string \<times> string) list \<Rightarrow> request_shape" where
  "request_shape_of hs =
     \<lparr>rq_content_length = declared_length hs, rq_is_chunked = asks_chunked hs,
      rq_is_upgrade = asks_upgrade hs, rq_wants_close = asks_close hs\<rparr>"

definition response_shape_of :: "u16 \<Rightarrow> (string \<times> string) list \<Rightarrow> response_shape" where
  "response_shape_of status hs =
     \<lparr>rs_content_length = declared_length hs, rs_is_chunked = asks_chunked hs,
      rs_is_upgrade = (status = 101 \<or> asks_upgrade hs), rs_wants_close = asks_close hs\<rparr>"

lemma request_step_snoc:
  "request_step (request_shape_of (List.map_filter header_of md)) kv
   = request_shape_of (List.map_filter header_of (md @ [kv]))"
proof (cases "strip_prefix (HTTP_HEADER_KEY @ '':'') (fst kv)")
  case None
  then show ?thesis
    by (simp add: request_step_def header_of_def List.map_filter_def)
next
  case (Some name)
  have "List.map_filter header_of (md @ [kv]) = List.map_filter header_of md @ [(name, snd kv)]"
    by (simp add: List.map_filter_def header_of_def Some)
  then show ?thesis
    by (auto simp: request_step_def Some request_shape_of_def declared_length_snoc asks_snoc
        header_is_def header_has_def Let_def)
qed

lemma analyse_request_fold:
  "foldl request_step (request_shape_of (List.map_filter header_of md)) kvs
   = request_shape_of (List.map_filter header_of (md @ kvs))"
  by (induction kvs arbitrary: md) (simp_all add: request_step_snoc)

lemma analyse_request_eq: "analyse_request req = request_shape_of (request_headers req)"
  using analyse_request_fold [of "[]" "metadata req"]
  by (simp add: analyse_request_def request_shape_of_def request_headers_def List.map_filter_simps)

lemma response_step_snoc:
  "response_step (response_shape_of status hs) nv = response_shape_of status (hs @ [nv])"
  by (auto simp: response_step_def response_shape_of_def declared_length_snoc asks_snoc
      header_is_def header_has_def Let_def)

lemma analyse_response_eq: "analyse_response status hs = response_shape_of status hs"
proof -
  have "foldl response_step (response_shape_of status pre) hs = response_shape_of status (pre @ hs)" for pre
    by (induction hs arbitrary: pre) (simp_all add: response_step_snoc)
  from this [of "[]"] show ?thesis
    by (simp add: analyse_response_def response_shape_of_def)
qed

lemma request_poolable_iff:
  "request_poolable (analyse_request req) \<longleftrightarrow>
     \<not> asks_chunked (request_headers req) \<and> \<not> asks_upgrade (request_headers req)
     \<and> \<not> asks_close (request_headers req)"
  by (simp add: request_poolable_def analyse_request_eq request_shape_of_def)

lemma response_poolable_iff:
  "response_poolable (analyse_response status hs) \<longleftrightarrow>
     declared_length hs \<noteq> None \<and> status \<noteq> 101
     \<and> \<not> asks_chunked hs \<and> \<not> asks_upgrade hs \<and> \<not> asks_close hs"
  by (auto simp: response_poolable_def analyse_response_eq response_shape_of_def)

lemma declared_length_bound: "declared_length hs = Some n \<Longrightarrow> n < 2 ^ 64"
  by (auto simp: declared_length_def Let_def split: if_splits dest: parse_u64_bound)

text \<open>Header names match whatever their letter case, and metadata that is no header is ignored.\<close>

lemma ascii_lower_idem [simp]: "ascii_lower (ascii_lower c) = ascii_lower c"
  by (simp add: ascii_lower_def)

lemma to_ascii_lowercase_idem [simp]: "to_ascii_lowercase (to_ascii_lowercase s) = to_ascii_lowercase s"
  by (simp add: to_ascii_lowercase_def)

lemma header_lowercase [simp]:
  "header_is name (to_ascii_lowercase n, v) = header_is name (n, v)"
  "header_has name tok (to_ascii_lowercase n, v) = header_has name tok (n, v)"
  by (simp_all add: header_is_def header_has_def)

lemma declared_length_lowercase:
  "declared_length (map (\<lambda>(n, v). (to_ascii_lowercase n, v)) hs) = declared_length hs"
proof (induction hs rule: rev_induct)
  case (snoc nv hs)
  then show ?case by (cases nv) (simp add: declared_length_snoc)
qed simp

lemma asks_lowercase:
  "asks_chunked (map (\<lambda>(n, v). (to_ascii_lowercase n, v)) hs) = asks_chunked hs"
  "asks_upgrade (map (\<lambda>(n, v). (to_ascii_lowercase n, v)) hs) = asks_upgrade hs"
  "asks_close (map (\<lambda>(n, v). (to_ascii_lowercase n, v)) hs) = asks_close hs"
  by (induction hs) (auto simp: asks_chunked_def asks_upgrade_def asks_close_def)

lemma shape_lowercase:
  "request_shape_of (map (\<lambda>(n, v). (to_ascii_lowercase n, v)) hs) = request_shape_of hs"
  "response_shape_of status (map (\<lambda>(n, v). (to_ascii_lowercase n, v)) hs) = response_shape_of status hs"
  by (simp_all add: request_shape_of_def response_shape_of_def declared_length_lowercase asks_lowercase)

text \<open>The metadata pair that carries a header.\<close>

definition header_pair :: "string \<times> string \<Rightarrow> string \<times> string" where
  "header_pair nv = (HTTP_HEADER_KEY @ '':'' @ fst nv, snd nv)"

lemma header_of_pair: "header_of (header_pair nv) = Some nv"
  using strip_prefix_append [of "HTTP_HEADER_KEY @ '':''" "fst nv"]
  by (simp add: header_of_def header_pair_def)

lemma request_headers_pairs: "request_headers (req\<lparr>metadata := map header_pair hs\<rparr>) = hs"
proof -
  have "List.map_filter header_of (map header_pair hs) = hs"
    by (induction hs) (simp_all add: List.map_filter_simps header_of_pair)
  then show ?thesis by (simp add: request_headers_def)
qed

section \<open>Properties\<close>

text \<open>The request analysis, stated on the headers of the request: the last Content-Length, if it is
  readable, whether any header asks for chunking, an upgrade or closing, and a socket may be reused
  exactly when none of the three is asked for. Metadata that is no header and the letter case of
  header names do not matter.\<close>

lemma request_analysis:
  "analyse_request req =
     \<lparr>rq_content_length = declared_length (request_headers req), rq_is_chunked = asks_chunked (request_headers req),
      rq_is_upgrade = asks_upgrade (request_headers req), rq_wants_close = asks_close (request_headers req)\<rparr>
   \<and> (request_poolable (analyse_request req) \<longleftrightarrow>
        \<not> asks_chunked (request_headers req) \<and> \<not> asks_upgrade (request_headers req)
        \<and> \<not> asks_close (request_headers req))
   \<and> analyse_request (req\<lparr>metadata := map header_pair (map (\<lambda>(n, v). (to_ascii_lowercase n, v)) (request_headers req))\<rparr>)
      = analyse_request req"
proof (intro conjI)
  show "analyse_request (req\<lparr>metadata := map header_pair (map (\<lambda>(n, v). (to_ascii_lowercase n, v)) (request_headers req))\<rparr>)
      = analyse_request req"
    unfolding analyse_request_eq request_headers_pairs by (rule shape_lowercase)
qed (simp_all add: request_poolable_iff, simp add: analyse_request_eq request_shape_of_def)

text \<open>The response analysis likewise, with the status; a socket may be reused exactly when the response
  has a readable Content-Length, is no protocol switch and asks for none of the three.\<close>

lemma response_analysis:
  "analyse_response status hs =
     \<lparr>rs_content_length = declared_length hs, rs_is_chunked = asks_chunked hs,
      rs_is_upgrade = (status = 101 \<or> asks_upgrade hs), rs_wants_close = asks_close hs\<rparr>
   \<and> (response_poolable (analyse_response status hs) \<longleftrightarrow>
        (\<exists>n. declared_length hs = Some n) \<and> status \<noteq> 101
        \<and> \<not> asks_chunked hs \<and> \<not> asks_upgrade hs \<and> \<not> asks_close hs)
   \<and> analyse_response status (map (\<lambda>(n, v). (to_ascii_lowercase n, v)) hs) = analyse_response status hs"
  using response_poolable_iff [of status hs] shape_lowercase(2) [of status hs]
  by (simp add: analyse_response_eq) (simp add: response_shape_of_def)

text \<open>C28: The two analyses as functions of the headers. Of a request: the last readable Content-Length, and
  whether any header asks for chunking, an upgrade or closing; its socket may be reused exactly when none
  of the three is asked for. Metadata that is no header and the letter case of header names do not matter.
  Of a response likewise, with the status: its socket may be reused exactly when it has a readable
  Content-Length, is no protocol switch and asks for none of the three.
\<close>

theorem http_analyses:
  "analyse_request req =
     \<lparr>rq_content_length = declared_length (request_headers req), rq_is_chunked = asks_chunked (request_headers req),
      rq_is_upgrade = asks_upgrade (request_headers req), rq_wants_close = asks_close (request_headers req)\<rparr>
   \<and> (request_poolable (analyse_request req) \<longleftrightarrow>
        \<not> asks_chunked (request_headers req) \<and> \<not> asks_upgrade (request_headers req)
        \<and> \<not> asks_close (request_headers req))
   \<and> analyse_request (req\<lparr>metadata := map header_pair (map (\<lambda>(n, v). (to_ascii_lowercase n, v)) (request_headers req))\<rparr>)
      = analyse_request req
   \<and> analyse_response status hs =
     \<lparr>rs_content_length = declared_length hs, rs_is_chunked = asks_chunked hs,
      rs_is_upgrade = (status = 101 \<or> asks_upgrade hs), rs_wants_close = asks_close hs\<rparr>
   \<and> (response_poolable (analyse_response status hs) \<longleftrightarrow>
        (\<exists>n. declared_length hs = Some n) \<and> status \<noteq> 101
        \<and> \<not> asks_chunked hs \<and> \<not> asks_upgrade hs \<and> \<not> asks_close hs)
   \<and> analyse_response status (map (\<lambda>(n, v). (to_ascii_lowercase n, v)) hs) = analyse_response status hs"
  using request_analysis [of req] response_analysis [of status hs] by blast

end
