(* ===== verification/Http_Head.thy ===== *)
theory Http_Head
  imports Connect_Request Tunnel_Error Io
begin

text \<open>
  The HTTP/1.1 heads of \<^verbatim>\<open>src/proxy.rs\<close>: the request head written to the local origin
  (\<open>extract_path\<close>, \<open>build_request_head\<close>) with a reference parser that reads it back, and the loop
  that reads the origin's response head (\<open>read_http_response_head\<close>). The response parser of the
  httparse library is the parameter \<open>parse\<close>.
\<close>

section \<open>The request target\<close>

definition extract_path :: "string \<Rightarrow> string" where
  "extract_path d =
     (case find_str ''://'' d of
        Some after_scheme \<Rightarrow>
          (let rest = drop (after_scheme + 3) d in
           case find_str ''/'' rest of Some slash \<Rightarrow> drop slash rest | None \<Rightarrow> ''/'')
      | None \<Rightarrow> if starts_with d ''/'' then d else ''/'')"

lemma find_char_drop: "find_str [c] s = Some i \<Longrightarrow> \<exists>t. drop i s = c # t"
  using find_str_Some_split [of "[c]" s i] by (metis append_Cons append_Nil append_eq_conv_conj append_take_drop_id)

lemma extract_path_slash: "\<exists>p. extract_path d = CHR ''/'' # p"
  by (auto simp: extract_path_def starts_with_iff Let_def split: option.splits dest: find_char_drop)

lemma find_scheme: "CHR '':'' \<notin> set sch \<Longrightarrow> find_str ''://'' (sch @ ''://'' @ s) = Some (length sch)"
  by (induction sch) auto

lemma extract_path_url:
  assumes "CHR '':'' \<notin> set sch" and "CHR ''/'' \<notin> set auth"
  shows "extract_path (sch @ ''://'' @ auth @ CHR ''/'' # p) = CHR ''/'' # p"
    and "extract_path (sch @ ''://'' @ auth) = ''/''"
proof -
  have sl: "find_str ''/'' (auth @ CHR ''/'' # p) = Some (length auth)"
    using find_char_split [OF assms(2)] .
  show "extract_path (sch @ ''://'' @ auth @ CHR ''/'' # p) = CHR ''/'' # p"
    using find_scheme [OF assms(1), of "auth @ CHR ''/'' # p"] sl
    by (simp add: extract_path_def)
  have "find_str ''/'' auth = None"
    using assms(2) by (induction auth) auto
  then show "extract_path (sch @ ''://'' @ auth) = ''/''"
    using find_scheme [OF assms(1), of auth] by (simp add: extract_path_def)
qed

section \<open>The request head\<close>

text \<open>One turn of the header loop; the state is the text so far and \<open>saw_connection\<close>.\<close>

definition head_step :: "string \<times> bool \<Rightarrow> string \<times> string \<Rightarrow> string \<times> bool" where
  "head_step st kv =
     (case strip_prefix (HTTP_HEADER_KEY @ '':'') (fst kv) of
        None \<Rightarrow> st
      | Some name \<Rightarrow>
          (if eq_ignore_ascii_case name ''host'' then st
           else
             (let saw = (if eq_ignore_ascii_case name ''connection'' then True else snd st)
              in (fst st @ name @ '': '' @ snd kv @ CRLF, saw))))"

definition build_request_head :: "connect_request \<Rightarrow> bool \<Rightarrow> string" where
  "build_request_head req keep_alive =
     (let verb = unwrap_or ''GET'' (meta req HTTP_METHOD_KEY);
          host = unwrap_or '''' (meta req HTTP_HOST_KEY);
          path = extract_path (dest req);
          head = verb @ '' '' @ path @ '' HTTP/1.1'' @ CRLF;
          head = (if host \<noteq> [] then head @ ''Host: '' @ host @ CRLF else head);
          (head, saw_connection) = foldl head_step (head, False) (metadata req);
          head = (if \<not> saw_connection
                  then head @ (if keep_alive then ''Connection: keep-alive'' else ''Connection: close'') @ CRLF
                  else head)
      in head @ CRLF)"

subsection \<open>Its lines\<close>

definition is_host_header :: "string \<times> string \<Rightarrow> bool" where
  "is_host_header nv = eq_ignore_ascii_case (fst nv) ''host''"

definition is_connection_header :: "string \<times> string \<Rightarrow> bool" where
  "is_connection_header nv = eq_ignore_ascii_case (fst nv) ''connection''"

definition header_line :: "string \<times> string \<Rightarrow> string" where
  "header_line nv = fst nv @ '': '' @ snd nv"

text \<open>The headers the origin is sent, in order.\<close>

definition forwarded_headers :: "connect_request \<Rightarrow> (string \<times> string) list" where
  "forwarded_headers req = filter (\<lambda>nv. \<not> is_host_header nv) (request_headers req)"

definition head_headers :: "connect_request \<Rightarrow> bool \<Rightarrow> (string \<times> string) list" where
  "head_headers req keep_alive =
     (let host = unwrap_or '''' (meta req HTTP_HOST_KEY) in
      (if host \<noteq> [] then [(''Host'', host)] else [])
      @ forwarded_headers req
      @ (if list_ex is_connection_header (forwarded_headers req) then []
         else [(''Connection'', if keep_alive then ''keep-alive'' else ''close'')]))"

definition request_line :: "connect_request \<Rightarrow> string" where
  "request_line req =
     unwrap_or ''GET'' (meta req HTTP_METHOD_KEY) @ '' '' @ extract_path (dest req) @ '' HTTP/1.1''"

definition join_lines :: "string list \<Rightarrow> string" where
  "join_lines ls = concat (map (\<lambda>l. l @ CRLF) ls)"

lemma join_lines_simps [simp]:
  "join_lines [] = []" "join_lines (l # ls) = l @ CRLF @ join_lines ls"
  "join_lines (ls @ ls') = join_lines ls @ join_lines ls'"
  by (simp_all add: join_lines_def)

lemma head_step_eq:
  "head_step st kv =
     (case header_of kv of
        None \<Rightarrow> st
      | Some nv \<Rightarrow>
          if is_host_header nv then st
          else (fst st @ header_line nv @ CRLF, snd st \<or> is_connection_header nv))"
  by (cases "strip_prefix (HTTP_HEADER_KEY @ '':'') (fst kv)")
    (simp_all add: head_step_def header_of_def is_host_header_def is_connection_header_def
      header_line_def)

lemma head_step_fold:
  "foldl head_step (h, saw) md =
     (let hs = filter (\<lambda>nv. \<not> is_host_header nv) (List.map_filter header_of md)
      in (h @ join_lines (map header_line hs), saw \<or> list_ex is_connection_header hs))"
  by (induction md arbitrary: h saw)
    (simp_all add: List.map_filter_simps head_step_eq Let_def split: option.splits)

lemma build_request_head_eq:
  "build_request_head req ka =
     join_lines (request_line req # map header_line (head_headers req ka)) @ CRLF"
  by (simp add: build_request_head_def head_step_fold head_headers_def request_line_def
      forwarded_headers_def request_headers_def header_line_def Let_def)

subsection \<open>A reference parser of request heads\<close>

fun split_crlf :: "string \<Rightarrow> string list" where
  "split_crlf [] = [[]]"
| "split_crlf [c] = [[c]]"
| "split_crlf (c # d # s) =
     (if c = CR \<and> d = LF then [] # split_crlf s
      else (case split_crlf (d # s) of [] \<Rightarrow> [[c]] | l # ls \<Rightarrow> (c # l) # ls))"

fun break_at :: "char \<Rightarrow> string \<Rightarrow> (string \<times> string) option" where
  "break_at c [] = None"
| "break_at c (x # xs) =
     (if x = c then Some ([], xs) else map_option (\<lambda>(a, b). (x # a, b)) (break_at c xs))"

definition parse_header_line :: "string \<Rightarrow> (string \<times> string) option" where
  "parse_header_line l =
     Option.bind (break_at CHR '':'' l) (\<lambda>(n, v). map_option (\<lambda>v'. (n, v')) (strip_prefix '' '' v))"

fun parse_header_lines :: "string list \<Rightarrow> (string \<times> string) list option" where
  "parse_header_lines [[], []] = Some []"
| "parse_header_lines [] = None"
| "parse_header_lines (l # ls) =
     Option.bind (parse_header_line l) (\<lambda>h. map_option ((#) h) (parse_header_lines ls))"

definition parse_request_head :: "string \<Rightarrow> (string \<times> string \<times> (string \<times> string) list) option" where
  "parse_request_head s =
     (case split_crlf s of
        [] \<Rightarrow> None
      | l # ls \<Rightarrow>
          Option.bind (break_at CHR '' '' l) (\<lambda>(m, r).
          Option.bind (break_at CHR '' '' r) (\<lambda>(p, version).
            if version = ''HTTP/1.1'' then map_option (\<lambda>hs. (m, p, hs)) (parse_header_lines ls) else None)))"

lemma split_crlf_not_Nil [simp]: "split_crlf s \<noteq> []"
  by (cases s rule: split_crlf.cases) (auto split: list.splits)

lemma split_crlf_line: "CR \<notin> set l \<Longrightarrow> split_crlf (l @ CRLF @ s) = l # split_crlf s"
proof (induction l)
  case Nil
  then show ?case by (simp add: CRLF_def)
next
  case (Cons c l)
  then have ih: "split_crlf (l @ CRLF @ s) = l # split_crlf s" and c: "c \<noteq> CR" by auto
  obtain d t where dt: "l @ CRLF @ s = d # t" by (cases l) (auto simp: CRLF_def)
  with ih c show ?case by simp
qed

lemma split_crlf_lines:
  "\<forall>l \<in> set ls. CR \<notin> set l \<Longrightarrow> split_crlf (join_lines ls @ s) = ls @ split_crlf s"
  by (induction ls) (simp_all add: split_crlf_line [simplified])

lemma break_at_append: "c \<notin> set a \<Longrightarrow> break_at c (a @ c # b) = Some (a, b)"
  by (induction a) auto

lemma parse_header_line_back:
  "CHR '':'' \<notin> set (fst nv) \<Longrightarrow> parse_header_line (header_line nv) = Some nv"
  using strip_prefix_append [of "'' ''" "snd nv"]
  by (simp add: parse_header_line_def header_line_def break_at_append strip_prefix_def)

lemma parse_header_lines_back:
  "\<forall>nv \<in> set hs. CHR '':'' \<notin> set (fst nv) \<Longrightarrow>
   parse_header_lines (map header_line hs @ [[], []]) = Some hs"
proof (induction hs)
  case (Cons nv hs)
  then have ih: "parse_header_lines (map header_line hs @ [[], []]) = Some hs"
    and p: "parse_header_line (header_line nv) = Some nv"
    by (auto simp: parse_header_line_back)
  have "header_line nv \<noteq> []" by (simp add: header_line_def)
  then have "parse_header_lines (header_line nv # map header_line hs @ [[], []]) =
      Option.bind (parse_header_line (header_line nv))
        (\<lambda>h. map_option ((#) h) (parse_header_lines (map header_line hs @ [[], []])))"
    by (cases "header_line nv"; cases "map header_line hs @ [[], []]") simp_all
  with ih p show ?case by simp
qed simp

text \<open>No field of the request breaks the line structure of a head.\<close>

definition head_fields_clean :: "connect_request \<Rightarrow> bool" where
  "head_fields_clean req =
     (CR \<notin> set (request_line req)
      \<and> CHR '' '' \<notin> set (unwrap_or ''GET'' (meta req HTTP_METHOD_KEY))
      \<and> CHR '' '' \<notin> set (extract_path (dest req))
      \<and> CR \<notin> set (unwrap_or '''' (meta req HTTP_HOST_KEY))
      \<and> list_all (\<lambda>nv. CR \<notin> set (fst nv) \<and> CR \<notin> set (snd nv) \<and> CHR '':'' \<notin> set (fst nv))
          (request_headers req))"

lemma head_headers_clean:
  assumes "head_fields_clean req" and "nv \<in> set (head_headers req ka)"
  shows "CR \<notin> set (header_line nv) \<and> CHR '':'' \<notin> set (fst nv)"
  using assms
  by (auto simp: head_headers_def forwarded_headers_def head_fields_clean_def header_line_def
      list_all_iff CR_def Let_def split: if_splits)

lemma request_head_back:
  assumes "head_fields_clean req"
  shows "parse_request_head (build_request_head req ka) =
    Some (unwrap_or ''GET'' (meta req HTTP_METHOD_KEY), extract_path (dest req), head_headers req ka)"
proof -
  let ?ls = "request_line req # map header_line (head_headers req ka)"
  have "\<forall>l \<in> set ?ls. CR \<notin> set l"
    using assms head_headers_clean [OF assms] by (auto simp: head_fields_clean_def)
  from split_crlf_lines [OF this, of CRLF]
  have sp: "split_crlf (build_request_head req ka) = ?ls @ [[], []]"
    by (simp add: build_request_head_eq CRLF_def)
  have "parse_header_lines (map header_line (head_headers req ka) @ [[], []]) = Some (head_headers req ka)"
    using head_headers_clean [OF assms] by (intro parse_header_lines_back) blast
  with assms show ?thesis
    by (simp add: parse_request_head_def sp request_line_def head_fields_clean_def break_at_append)
qed

section \<open>Properties\<close>

lemma extract_path_query:
  assumes "CHR '':'' \<notin> set sch" and "CHR ''/'' \<notin> set host" and "CHR ''/'' \<notin> set q"
  shows "extract_path (sch @ ''://'' @ host @ CHR ''?'' # q) = ''/''"
    and "extract_path (sch @ ''://'' @ host @ CHR ''?'' # q @ CHR ''/'' # p) = CHR ''/'' # p"
  using extract_path_url [OF assms(1), of "host @ CHR ''?'' # q"] assms(2,3) by simp_all

text \<open>C6: When no field of the request has a carriage return in it, its method and target no space and no
  header name a colon, the head that is sent to the origin parses back to the method (\<open>GET\<close> when none was given), the path
  of the destination and, in order, the host the edge named, every other forwarded header, and a
  Connection header of our own exactly when none was forwarded: at most one Host header, at least one
  Connection header.\<close>

theorem request_head_roundtrip:
  assumes "head_fields_clean req"
  shows "parse_request_head (build_request_head req keep_alive) =
      Some (unwrap_or ''GET'' (meta req HTTP_METHOD_KEY), extract_path (dest req), head_headers req keep_alive)
    \<and> filter is_host_header (head_headers req keep_alive) =
        (case meta req HTTP_HOST_KEY of None \<Rightarrow> [] | Some h \<Rightarrow> if h = [] then [] else [(''Host'', h)])
    \<and> list_ex is_connection_header (head_headers req keep_alive)"
proof (intro conjI)
  have k: "is_host_header (''Host'', h)" "is_connection_header (''Connection'', h)"
    "\<not> is_host_header (''Connection'', h)" for h
    by (simp_all add: is_host_header_def is_connection_header_def eq_ignore_ascii_case_def
        to_ascii_lowercase_def ascii_lower_def) (code_simp, code_simp)
  show "parse_request_head (build_request_head req keep_alive) =
      Some (unwrap_or ''GET'' (meta req HTTP_METHOD_KEY), extract_path (dest req), head_headers req keep_alive)"
    by (rule request_head_back [OF assms])
  have "filter is_host_header (forwarded_headers req) = []"
    by (simp add: forwarded_headers_def)
  then show "filter is_host_header (head_headers req keep_alive) =
        (case meta req HTTP_HOST_KEY of None \<Rightarrow> [] | Some h \<Rightarrow> if h = [] then [] else [(''Host'', h)])"
    by (simp add: head_headers_def k Let_def unwrap_or_def split: option.split)
  show "list_ex is_connection_header (head_headers req keep_alive)"
    by (simp add: head_headers_def k Let_def)
qed

definition sample_request :: connect_request where
  "sample_request =
     \<lparr>dest = ''https://h/a'', conn_type = Http,
      metadata = [(''HttpMethod'', ''PUT''), (''HttpHost'', ''h''), (''HttpHeader:host'', ''evil''),
                  (''HttpHeader:X'', ''1''), (''HttpHeader:Content-Length'', ''2'')]\<rparr>"

lemma sample_request_fields:
  "dest sample_request = ''https://h/a''" "conn_type sample_request = Http"
  "meta sample_request HTTP_METHOD_KEY = Some ''PUT''" "meta sample_request HTTP_HOST_KEY = Some ''h''"
  "extract_path ''https://h/a'' = ''/a''"
  "request_headers sample_request = [(''host'', ''evil''), (''X'', ''1''), (''Content-Length'', ''2'')]"
  by (simp_all add: sample_request_def meta_def HTTP_METHOD_KEY_def HTTP_HOST_KEY_def extract_path_def
      request_headers_def List.map_filter_simps header_of_def HTTP_HEADER_KEY_def strip_prefix_def)

lemma sample_request_clean: "head_fields_clean sample_request"
  by (simp add: head_fields_clean_def sample_request_fields request_line_def CR_def)

theorem request_head_roundtrip_witness:
  "parse_request_head (build_request_head sample_request True) =
     Some (''PUT'', ''/a'', [(''Host'', ''h''), (''X'', ''1''), (''Content-Length'', ''2''),
                         (''Connection'', ''keep-alive'')])"
  using request_head_roundtrip [OF sample_request_clean, of True]
  by (simp add: sample_request_fields head_headers_def forwarded_headers_def is_host_header_def
      is_connection_header_def eq_ignore_ascii_case_def to_ascii_lowercase_def ascii_lower_def Let_def)

text \<open>C39: The request target is always a path. Of a destination with a scheme and an authority it is what
  follows the authority, or the root when there is nothing. A query directly behind the authority is
  lost, and one that contains a slash becomes the path.\<close>

theorem extract_path_target:
  assumes "CHR '':'' \<notin> set sch" and "CHR ''/'' \<notin> set host" and "CHR ''/'' \<notin> set q"
  shows "(\<exists>t. extract_path d = CHR ''/'' # t)
    \<and> extract_path (sch @ ''://'' @ host @ CHR ''/'' # p) = CHR ''/'' # p
    \<and> extract_path (sch @ ''://'' @ host) = ''/''
    \<and> extract_path (sch @ ''://'' @ host @ CHR ''?'' # q) = ''/''
    \<and> extract_path (sch @ ''://'' @ host @ CHR ''?'' # q @ CHR ''/'' # p) = CHR ''/'' # p"
  using extract_path_slash extract_path_url [OF assms(1,2)] extract_path_query [OF assms] by simp

theorem extract_path_target_witness:
  "extract_path ''https://h/a?b=c'' = ''/a?b=c'' \<and> extract_path ''https://h'' = ''/''
   \<and> extract_path ''https://h?next=/a'' = ''/a''"
  using extract_path_target [of "''https''" "''h''" "''next=''" "[]" "''a?b=c''"]
    extract_path_target [of "''https''" "''h''" "''next=''" "[]" "''a''"] by simp

end
