(* ===== verification/Response_Head.thy ===== *)
theory Response_Head
  imports Http_Head
begin

text \<open>
  \<open>read_http_response_head\<close> of \<^verbatim>\<open>src/proxy.rs\<close>: the loop that reads the origin's response head. The
  parser of the httparse library is the parameter \<open>parse\<close>; the laws of an incremental parser that
  the crate relies on are the locale \<open>http_parser\<close>.
\<close>

datatype http_status =
    HPartial
  | HComplete nat "u16 option" "(string \<times> bytes) list"

type_synonym http_parse = "bytes \<Rightarrow> string + http_status"

definition MAX_HEADER_BYTES :: nat where
  "MAX_HEADER_BYTES = 32 * 1024"

definition READ_HEAD_CHUNK :: nat where
  "READ_HEAD_CHUNK = 2048"

type_synonym response_head = "u16 \<times> (string \<times> string) list \<times> bytes"

definition decode_headers :: "(string \<times> bytes) list \<Rightarrow> (string \<times> string) list" where
  "decode_headers hs = map (\<lambda>(n, v). (n, from_utf8_lossy v)) hs"

text \<open>What the loop makes of the buffer after a read: a result, or \<open>None\<close> to read on.\<close>

definition judge_head :: "http_parse \<Rightarrow> bytes \<Rightarrow> (tunnel_error, response_head) outcome option" where
  "judge_head parse buf =
     (if MAX_HEADER_BYTES < length buf
      then Some (Failed (Internal (''response header exceeds '' @ dec MAX_HEADER_BYTES @ '' bytes'')))
      else (case parse buf of
              Inl e \<Rightarrow> Some (Failed (Internal (''httparse: '' @ e)))
            | Inr (HComplete consumed status headers) \<Rightarrow>
                (case status of
                   None \<Rightarrow> Some (Failed (Internal ''response had no status code''))
                 | Some st \<Rightarrow> Some (Done (st, decode_headers headers, drop consumed buf)))
            | Inr HPartial \<Rightarrow> None))"

function read_head_loop ::
  "http_parse \<Rightarrow> bytes \<Rightarrow> source \<Rightarrow> (tunnel_error, response_head) outcome \<times> source" where
  "read_head_loop parse buf src =
     (case read_some READ_HEAD_CHUNK src of
        (Failed e, src') \<Rightarrow> (Failed (Internal (''tcp read head: '' @ e)), src')
      | (Pending, src') \<Rightarrow> (Pending, src')
      | (Done bs, src') \<Rightarrow>
          if bs = [] then (Failed (Internal ''local origin closed before sending response head''), src')
          else (case judge_head parse (buf @ bs) of
                  Some r \<Rightarrow> (r, src')
                | None \<Rightarrow> read_head_loop parse (buf @ bs) src'))"
  by pat_completeness auto
termination
  by (relation "measure (\<lambda>(parse, buf, src). source_size src)")
    (simp_all, metis read_some_size)

declare read_head_loop.simps [simp del]

definition read_http_response_head ::
  "http_parse \<Rightarrow> source \<Rightarrow> (tunnel_error, response_head) outcome \<times> source" where
  "read_http_response_head parse src = read_head_loop parse [] src"

section \<open>The turns of the loop\<close>

lemma judge_head_partial:
  "parse buf = Inr HPartial \<Longrightarrow> length buf \<le> MAX_HEADER_BYTES \<Longrightarrow> judge_head parse buf = None"
  by (simp add: judge_head_def)

lemma judge_head_complete:
  "parse buf = Inr (HComplete n (Some st) hs) \<Longrightarrow> length buf \<le> MAX_HEADER_BYTES \<Longrightarrow>
   judge_head parse buf = Some (Done (st, decode_headers hs, drop n buf))"
  by (simp add: judge_head_def)

lemma judge_head_over:
  "MAX_HEADER_BYTES < length buf \<Longrightarrow> judge_head parse buf =
   Some (Failed (Internal (''response header exceeds '' @ dec MAX_HEADER_BYTES @ '' bytes'')))"
  by (simp add: judge_head_def)

lemma read_head_chunk_pos [simp]: "0 < READ_HEAD_CHUNK"
  by (simp add: READ_HEAD_CHUNK_def)

lemma read_head_ended:
  assumes "avail src = []"
  shows "fst (read_head_loop parse buf src) =
    (case ending_of src of
       AtEof \<Rightarrow> Failed (Internal ''local origin closed before sending response head'')
     | AtErr e \<Rightarrow> Failed (Internal (''tcp read head: '' @ e))
     | AtStall \<Rightarrow> Pending)"
proof -
  obtain r s' where r: "read_some READ_HEAD_CHUNK src = (r, s')" by fastforce
  with read_some_ended [OF assms, of READ_HEAD_CHUNK] have "r = ended (ending_of src)" by simp
  with r show ?thesis
    by (cases "ending_of src") (simp_all add: read_head_loop.simps [of parse buf src])
qed

lemma read_head_turn:
  assumes "avail src \<noteq> []"
  obtains k src' where "0 < k" "k \<le> READ_HEAD_CHUNK" "k \<le> length (avail src)"
    "avail src' = drop k (avail src)" "ending_of src' = ending_of src"
    "read_head_loop parse buf src =
       (case judge_head parse (buf @ take k (avail src)) of
          Some r \<Rightarrow> (r, src')
        | None \<Rightarrow> read_head_loop parse (buf @ take k (avail src)) src')"
proof -
  from assms obtain k src' where k: "0 < k" "k \<le> READ_HEAD_CHUNK" "k \<le> length (avail src)"
    "read_some READ_HEAD_CHUNK src = (Done (take k (avail src)), src')"
    "avail src' = drop k (avail src)" "ending_of src' = ending_of src"
    by (rule read_some_avail [of src READ_HEAD_CHUNK]) simp_all
  moreover from k assms have "take k (avail src) \<noteq> []" "min (length (avail src)) k = k" by auto
  ultimately show thesis
    by (intro that [of k src']) (simp_all add: read_head_loop.simps [of parse buf src])
qed

section \<open>What is buffered\<close>

text \<open>
  \<open>taken\<close> are the bytes that were read off the socket and \<open>rest\<close> those that were not: after an error of
  the socket nothing was left to read.
\<close>

definition head_within ::
  "bytes \<Rightarrow> source \<Rightarrow> (tunnel_error, response_head) outcome \<times> source \<Rightarrow> bytes \<Rightarrow> bytes \<Rightarrow> bool" where
  "head_within buf src x taken rest \<longleftrightarrow>
     avail src = taken @ rest \<and> length (buf @ taken) \<le> MAX_HEADER_BYTES + READ_HEAD_CHUNK
     \<and> (case fst x of
          Done (st, hs, leftover) \<Rightarrow>
            length (buf @ taken) \<le> MAX_HEADER_BYTES \<and> rest = avail (snd x) \<and> (\<exists>head. buf @ taken = head @ leftover)
        | _ \<Rightarrow> rest = avail (snd x) \<or> rest = [])"

lemma judge_head_Some:
  "judge_head parse buf = Some r \<Longrightarrow>
   (case r of
      Done (st, hs, leftover) \<Rightarrow> length buf \<le> MAX_HEADER_BYTES \<and> (\<exists>head. buf = head @ leftover)
    | _ \<Rightarrow> True)"
  by (auto simp: judge_head_def split: if_splits sum.splits http_status.splits option.splits)
    (metis append_take_drop_id)

lemma judge_head_None: "judge_head parse buf = None \<Longrightarrow> length buf \<le> MAX_HEADER_BYTES"
  by (auto simp: judge_head_def split: if_splits)

lemma read_head_within:
  "length buf \<le> MAX_HEADER_BYTES \<Longrightarrow> \<exists>taken rest. head_within buf src (read_head_loop parse buf src) taken rest"
proof (induction "length (avail src)" arbitrary: buf src rule: less_induct)
  case less
  show ?case
  proof (cases "avail src = []")
    case True
    from read_head_ended [OF True, of parse buf]
    have "\<forall>p. fst (read_head_loop parse buf src) \<noteq> Done p" by (cases "ending_of src") simp_all
    with True less.prems have "head_within buf src (read_head_loop parse buf src) [] []"
      by (auto simp: head_within_def split: outcome.splits)
    then show ?thesis by blast
  next
    case False
    then obtain k src' where k: "0 < k" "k \<le> READ_HEAD_CHUNK" "k \<le> length (avail src)"
      "avail src' = drop k (avail src)"
      "read_head_loop parse buf src =
         (case judge_head parse (buf @ take k (avail src)) of
            Some r \<Rightarrow> (r, src')
          | None \<Rightarrow> read_head_loop parse (buf @ take k (avail src)) src')"
      by (rule read_head_turn)
    show ?thesis
    proof (cases "judge_head parse (buf @ take k (avail src))")
      case (Some r)
      have "head_within buf src (read_head_loop parse buf src) (take k (avail src)) (drop k (avail src))"
        using judge_head_Some [OF Some] less.prems k Some
        by (auto simp: head_within_def split: outcome.splits)
      then show ?thesis by blast
    next
      case None
      have "length (avail src') < length (avail src)" using k by simp
      from less.hyps [OF this judge_head_None [OF None]] obtain taken rest where
        "head_within (buf @ take k (avail src)) src' (read_head_loop parse (buf @ take k (avail src)) src') taken rest"
        by blast
      moreover from this have "avail src = (take k (avail src) @ taken) @ rest"
        using k(4) by (simp add: head_within_def) (metis append_take_drop_id)
      ultimately have "head_within buf src (read_head_loop parse buf src) (take k (avail src) @ taken) rest"
        using k None by (auto simp: head_within_def split: outcome.splits)
      then show ?thesis by blast
    qed
  qed
qed

section \<open>An incremental parser\<close>

locale http_parser =
  fixes parse :: http_parse
  assumes consumed_pos: "parse b = Inr (HComplete n st hs) \<Longrightarrow> 0 < n"
    and consumed_bound: "parse b = Inr (HComplete n st hs) \<Longrightarrow> n \<le> length b"
    and stable: "parse b = Inr (HComplete n st hs) \<Longrightarrow> parse (take n b @ r) = Inr (HComplete n st hs)"
    and partial_before: "parse b = Inr (HComplete n st hs) \<Longrightarrow> m < n \<Longrightarrow> parse (take m b) = Inr HPartial"
begin

text \<open>
  However the origin's bytes are cut into chunks, a head that fits below the limit is read, and
  the bytes after it are split between the left-over and the socket without loss.
\<close>

lemma read_head_from:
  assumes "parse (buf @ rest) = Inr (HComplete (length (buf @ rest)) (Some st) hs)"
    and "avail src = rest @ body" and "rest \<noteq> []"
    and "length (buf @ rest) + READ_HEAD_CHUNK \<le> MAX_HEADER_BYTES + 1"
  shows "\<exists>leftover src'. read_head_loop parse buf src = (Done (st, decode_headers hs, leftover), src')
    \<and> leftover @ avail src' = body \<and> ending_of src' = ending_of src \<and> length leftover < READ_HEAD_CHUNK"
  using assms
proof (induction "length rest" arbitrary: buf rest src rule: less_induct)
  case less
  from less.prems have ne: "avail src \<noteq> []" by simp
  then obtain k src' where k: "0 < k" "k \<le> READ_HEAD_CHUNK" "k \<le> length (avail src)"
    "avail src' = drop k (avail src)" "ending_of src' = ending_of src"
    and turn: "read_head_loop parse buf src =
       (case judge_head parse (buf @ take k (avail src)) of
          Some r \<Rightarrow> (r, src')
        | None \<Rightarrow> read_head_loop parse (buf @ take k (avail src)) src')"
    by (rule read_head_turn)
  from less.prems(3,4) k(2) have lim: "length buf + k \<le> MAX_HEADER_BYTES"
    by (cases rest) auto
  show ?case
  proof (cases "k < length rest")
    case True
    then have tk: "take k (avail src) = take k rest" using less.prems(2) by simp
    have "parse (take (length buf + k) (buf @ rest)) = Inr HPartial"
      using True by (intro partial_before [OF less.prems(1)]) simp
    then have "parse (buf @ take k rest) = Inr HPartial" by simp
    with turn lim have step: "read_head_loop parse buf src = read_head_loop parse (buf @ take k rest) src'"
      using k(3) by (simp add: tk judge_head_partial)
    have "length (drop k rest) < length rest" using True k(1) by simp
    from less.hyps [OF this, of "buf @ take k rest" src'] True less.prems k
    show ?thesis by (simp add: step)
  next
    case False
    then have tk: "take k (avail src) = rest @ take (k - length rest) body"
      using less.prems(2) by simp
    have "parse (take (length (buf @ rest)) (buf @ rest) @ take (k - length rest) body)
        = Inr (HComplete (length (buf @ rest)) (Some st) hs)"
      by (rule stable [OF less.prems(1)])
    then have "parse (buf @ rest @ take (k - length rest) body)
        = Inr (HComplete (length (buf @ rest)) (Some st) hs)" by simp
    with turn lim have "read_head_loop parse buf src =
        (Done (st, decode_headers hs, take (k - length rest) body), src')"
      using False by (simp add: tk judge_head_complete)
    moreover have "take (k - length rest) body @ avail src' = body"
      using False less.prems(2) k(4) by simp
    moreover have "length (take (k - length rest) body) < READ_HEAD_CHUNK"
      using k(1,2) less.prems(3) by (cases rest) auto
    ultimately show ?thesis using k(5) by blast
  qed
qed

lemma read_head_complete:
  assumes "parse head = Inr (HComplete (length head) (Some st) hs)"
    and "avail src = head @ body"
    and "length head + READ_HEAD_CHUNK \<le> MAX_HEADER_BYTES + 1"
  shows "\<exists>leftover src'. read_http_response_head parse src = (Done (st, decode_headers hs, leftover), src')
    \<and> leftover @ avail src' = body \<and> ending_of src' = ending_of src \<and> length leftover < READ_HEAD_CHUNK"
  using read_head_from [of "[]" head st hs src body] assms consumed_pos [OF assms(1)]
  by (simp add: read_http_response_head_def)

end

text \<open>An origin that sends more than the limit without completing a head is cut off.\<close>

lemma read_head_oversize:
  assumes "\<And>m. m \<le> MAX_HEADER_BYTES \<Longrightarrow> parse (take m (buf @ avail src)) = Inr HPartial"
    and "MAX_HEADER_BYTES < length (buf @ avail src)" and "length buf \<le> MAX_HEADER_BYTES"
  shows "fst (read_head_loop parse buf src) =
    Failed (Internal (''response header exceeds '' @ dec MAX_HEADER_BYTES @ '' bytes''))"
  using assms
proof (induction "length (avail src)" arbitrary: buf src rule: less_induct)
  case less
  from less.prems have ne: "avail src \<noteq> []" by auto
  then obtain k src' where k: "0 < k" "k \<le> READ_HEAD_CHUNK" "k \<le> length (avail src)"
    "avail src' = drop k (avail src)" "ending_of src' = ending_of src"
    and turn: "read_head_loop parse buf src =
       (case judge_head parse (buf @ take k (avail src)) of
          Some r \<Rightarrow> (r, src')
        | None \<Rightarrow> read_head_loop parse (buf @ take k (avail src)) src')"
    by (rule read_head_turn)
  show ?case
  proof (cases "MAX_HEADER_BYTES < length buf + k")
    case True
    with turn k(3) show ?thesis by (simp add: judge_head_over)
  next
    case False
    have sp: "(buf @ take k (avail src)) @ avail src' = buf @ avail src" using k(4) by simp
    have "parse (buf @ take k (avail src)) = Inr HPartial"
      using less.prems(1) [of "length buf + k"] False by simp
    with turn False have step: "read_head_loop parse buf src =
        read_head_loop parse (buf @ take k (avail src)) src'" by (simp add: judge_head_partial)
    have "length (avail src') < length (avail src)" using k by simp
    from less.hyps [OF this, of "buf @ take k (avail src)", unfolded sp, OF less.prems(1,2)] False k(3)
    show ?thesis by (simp add: step)
  qed
qed

text \<open>An origin that goes away, fails or falls silent inside its head is reported as such.\<close>

lemma read_head_cut_short:
  assumes "\<And>m. parse (take m (buf @ avail src)) = Inr HPartial"
    and "length (buf @ avail src) \<le> MAX_HEADER_BYTES"
  shows "fst (read_head_loop parse buf src) =
    (case ending_of src of
       AtEof \<Rightarrow> Failed (Internal ''local origin closed before sending response head'')
     | AtErr e \<Rightarrow> Failed (Internal (''tcp read head: '' @ e))
     | AtStall \<Rightarrow> Pending)"
  using assms
proof (induction "length (avail src)" arbitrary: buf src rule: less_induct)
  case less
  show ?case
  proof (cases "avail src = []")
    case True
    then show ?thesis by (rule read_head_ended)
  next
    case False
    then obtain k src' where k: "0 < k" "k \<le> READ_HEAD_CHUNK" "k \<le> length (avail src)"
      "avail src' = drop k (avail src)" "ending_of src' = ending_of src"
      and turn: "read_head_loop parse buf src =
       (case judge_head parse (buf @ take k (avail src)) of
          Some r \<Rightarrow> (r, src')
        | None \<Rightarrow> read_head_loop parse (buf @ take k (avail src)) src')"
      by (rule read_head_turn)
    have sp: "(buf @ take k (avail src)) @ avail src' = buf @ avail src" using k(4) by simp
    have "parse (buf @ take k (avail src)) = Inr HPartial"
      using less.prems(1) [of "length buf + k"] by simp
    with turn less.prems(2) k(3) have step: "read_head_loop parse buf src =
        read_head_loop parse (buf @ take k (avail src)) src'" by (simp add: judge_head_partial)
    have "length (avail src') < length (avail src)" using k by simp
    from less.hyps [OF this, of "buf @ take k (avail src)", unfolded sp, OF less.prems] show ?thesis
      by (simp add: step k(5))
  qed
qed

section \<open>A parser that satisfies the laws\<close>

text \<open>A small parser of response heads, which waits for the empty line and then takes the head apart.\<close>

definition ref_parse :: http_parse where
  "ref_parse b =
     (case find_str (CRLF @ CRLF) b of
        None \<Rightarrow> Inr HPartial
      | Some i \<Rightarrow>
          Inr (HComplete (i + 4) (map_option of_nat (parse_u64 (take 3 (drop 9 (take i b)))))
            (List.map_filter parse_header_line (tl (split_crlf (take i b))))))"

lemma take_append_le: "m \<le> n \<Longrightarrow> n \<le> length s \<Longrightarrow> take m (take n s @ r) = take m s"
  by (simp add: min_def)

lemma starts_with_take:
  "starts_with (take (length p) s @ r) p" if "starts_with s p"
  using that by (auto simp: starts_with_iff)

lemma starts_with_take_mono: "starts_with (take m s) p \<Longrightarrow> starts_with s p"
  by (metis append_assoc append_take_drop_id starts_with_iff)

lemma starts_with_iff_take: "starts_with s p \<longleftrightarrow> take (length p) s = p"
  by (auto simp: starts_with_iff) (metis append_take_drop_id)

lemma find_str_stable:
  "find_str p b = Some i \<Longrightarrow> find_str p (take (i + length p) b @ r) = Some i"
proof (induction b arbitrary: i)
  case Nil
  then show ?case by (cases r) (auto split: if_splits)
next
  case (Cons c b)
  show ?case
  proof (cases "starts_with (c # b) p")
    case True
    with Cons.prems have "i = 0" by simp
    with starts_with_take [OF True, of r] find_str_append [of p] show ?thesis
      by (auto simp: starts_with_iff)
  next
    case False
    with Cons.prems obtain j where j: "find_str p b = Some j" "i = Suc j" by auto
    have "\<not> starts_with (take (i + length p) (c # b) @ r) p"
      using False find_str_Some_split [OF Cons.prems]
      by (auto simp del: take_append take_Cons' simp: starts_with_iff_take take_append_le)
    with Cons.IH [OF j(1)] j(2) show ?thesis by simp
  qed
qed

lemma find_str_before:
  "find_str p b = Some i \<Longrightarrow> m < i + length p \<Longrightarrow> find_str p (take m b) = None"
proof (induction b arbitrary: i m)
  case Nil
  then show ?case by (auto split: if_splits)
next
  case (Cons c b)
  show ?case
  proof (cases "starts_with (c # b) p")
    case True
    with Cons.prems have m: "m < length p" by simp
    then have "\<not> starts_with (drop n (take m (c # b))) p" for n
      by (auto simp: starts_with_iff dest!: arg_cong [of _ _ length])
    moreover have "find_str p s = None" if "\<And>n. \<not> starts_with (drop n s) p" for s
      using that
    proof (induction s)
      case Nil
      from Nil [of 0] show ?case by auto
    next
      case (Cons x s)
      from Cons.prems [of 0] have "\<not> starts_with (x # s) p" by simp
      moreover have "find_str p s = None"
        using Cons.prems [of "Suc n" for n] by (intro Cons.IH) simp
      ultimately show ?case by simp
    qed
    ultimately show ?thesis by blast
  next
    case False
    with Cons.prems obtain j where j: "find_str p b = Some j" "i = Suc j" by auto
    show ?thesis
    proof (cases m)
      case 0
      with False show ?thesis by (cases p) auto
    next
      case (Suc m')
      have "\<not> starts_with (take m (c # b)) p" using False starts_with_take_mono by blast
      with Cons.IH [OF j(1), of m'] Cons.prems(2) j(2) Suc show ?thesis by simp
    qed
  qed
qed

interpretation ref_http: http_parser ref_parse
proof
  fix b n st hs
  assume a: "ref_parse b = Inr (HComplete n st hs)"
  then obtain i where i: "find_str (CRLF @ CRLF) b = Some i" "n = i + length (CRLF @ CRLF)"
    by (auto simp: ref_parse_def CRLF_def split: option.splits)
  then show "0 < n" by (simp add: CRLF_def)
  show "n \<le> length b" using find_str_Some_split [OF i(1)] i(2) by auto
  fix r
  have "take i (take n b @ r) = take i b" using i(2) \<open>n \<le> length b\<close> by simp
  moreover have "find_str (CRLF @ CRLF) (take n b @ r) = Some i"
    using find_str_stable [OF i(1), of r] i(2) by simp
  ultimately show "ref_parse (take n b @ r) = Inr (HComplete n st hs)"
    using a i(1) by (simp only: ref_parse_def option.case)
  fix m
  assume "m < n"
  with find_str_before [OF i(1), of m] i(2) show "ref_parse (take m b) = Inr HPartial"
    by (simp add: ref_parse_def)
qed

section \<open>Properties\<close>

definition sample_head :: bytes where
  "sample_head = ''HTTP/1.1 200 OK'' @ CRLF @ ''Content-Length: 2'' @ CRLF @ CRLF"

lemma sample_head_parsed:
  "ref_parse sample_head = Inr (HComplete (length sample_head) (Some 200) [(''Content-Length'', ''2'')])"
proof -
  have "find_str (CRLF @ CRLF) sample_head = Some 34"
    by (simp add: sample_head_def CRLF_def CR_def LF_def)
  moreover have "split_crlf (''HTTP/1.1 200 OK'' @ CRLF @ ''Content-Length: 2'') = [''HTTP/1.1 200 OK'', ''Content-Length: 2'']"
    by (simp add: CRLF_def CR_def LF_def)
  moreover have "parse_u64 ''200'' = Some 200"
    by (simp add: parse_u64_def is_digit_def digit_val_def)
  ultimately show ?thesis
    by (simp add: sample_head_def ref_parse_def List.map_filter_simps CRLF_def parse_header_line_def strip_prefix_def)
qed

lemma sample_head_fields [simp]:
  "length sample_head = 38" "decode_headers [(''Content-Length'', ''2'')] = [(''Content-Length'', ''2'')]"
  "length sample_head + READ_HEAD_CHUNK \<le> MAX_HEADER_BYTES + 1"
  by (simp_all add: sample_head_def CRLF_def decode_headers_def from_utf8_lossy_valid utf8_ok_ascii
      READ_HEAD_CHUNK_def MAX_HEADER_BYTES_def)

lemma bytewise: "avail (map (\<lambda>b. Data [b]) bs) = bs" "ending_of (map (\<lambda>b. Data [b]) bs) = AtEof"
  by (induction bs) simp_all

text \<open>C15: However the origin's answer is cut into chunks, a head that fits below the limit is read to the end
  of the head and interpreted once, and the bytes after it are not lost: less than a chunk is handed
  on as the start of the body, and the rest is still on the socket.\<close>

theorem response_head_any_chunks:
  assumes "http_parser parse" and "parse head = Inr (HComplete (length head) (Some status) hs)"
    and "avail src = head @ body" and "length head + READ_HEAD_CHUNK \<le> MAX_HEADER_BYTES + 1"
  shows "\<exists>leftover src'. read_http_response_head parse src = (Done (status, decode_headers hs, leftover), src')
    \<and> leftover @ avail src' = body \<and> ending_of src' = ending_of src \<and> length leftover < READ_HEAD_CHUNK"
  by (rule http_parser.read_head_complete [OF assms])

theorem response_head_any_chunks_witness:
  "\<exists>leftover src'. read_http_response_head ref_parse (map (\<lambda>b. Data [b]) (sample_head @ ''hi'')) =
      (Done (200, [(''Content-Length'', ''2'')], leftover), src')
    \<and> leftover @ avail src' = ''hi'' \<and> length leftover < 2048"
proof -
  define src where "src = map (\<lambda>b. Data [b]) (sample_head @ ''hi'')"
  have "avail src = sample_head @ ''hi''" by (simp only: src_def bytewise)
  from response_head_any_chunks [OF ref_http.http_parser_axioms sample_head_parsed this]
  have "\<exists>leftover src'. read_http_response_head ref_parse src = (Done (200, [(''Content-Length'', ''2'')], leftover), src')
    \<and> leftover @ avail src' = ''hi'' \<and> length leftover < READ_HEAD_CHUNK"
    unfolding sample_head_fields(2) using sample_head_fields(3) by blast
  then show ?thesis by (simp only: src_def READ_HEAD_CHUNK_def)
qed

text \<open>C16: An origin that sends more than 32 KiB without completing a head is cut off with an error, and one
  that goes away or fails inside its head is reported as that. One that falls silent inside its head is not
  reported at all: the read has no deadline of its own and stays pending. A head is never made up.\<close>

theorem response_head_incomplete:
  assumes "\<And>m. m \<le> MAX_HEADER_BYTES \<Longrightarrow> parse (take m (avail src)) = Inr HPartial"
  shows "fst (read_http_response_head parse src) =
    (if 32768 < length (avail src) then Failed (Internal ''response header exceeds 32768 bytes'')
     else case ending_of src of
       AtEof \<Rightarrow> Failed (Internal ''local origin closed before sending response head'')
     | AtErr e \<Rightarrow> Failed (Internal (''tcp read head: '' @ e))
     | AtStall \<Rightarrow> Pending)"
proof (cases "MAX_HEADER_BYTES < length (avail src)")
  case True
  have lim: "MAX_HEADER_BYTES = 32768" by (simp add: MAX_HEADER_BYTES_def)
  have "fst (read_http_response_head parse src) =
      Failed (Internal (''response header exceeds '' @ dec MAX_HEADER_BYTES @ '' bytes''))"
    unfolding read_http_response_head_def
    by (rule read_head_oversize) (use assms True in \<open>simp_all only: append_Nil list.size le0\<close>)
  moreover have "dec 32768 = ''32768''"
    by (simp add: dec.simps digit_char_def) code_simp
  ultimately show ?thesis using True unfolding lim by simp
next
  case False
  have "parse (take m (avail src)) = Inr HPartial" for m
    using assms [of m] assms [of "length (avail src)"] False by (cases "m \<le> length (avail src)") auto
  with False read_head_cut_short [of parse "[]" src] show ?thesis
    by (simp add: read_http_response_head_def MAX_HEADER_BYTES_def)
qed

theorem response_head_incomplete_witness:
  "fst (read_http_response_head ref_parse (map (\<lambda>b. Data [b]) (replicate 40000 (CHR ''x'')))) =
     Failed (Internal ''response header exceeds 32768 bytes'')
   \<and> fst (read_http_response_head ref_parse (map (\<lambda>b. Data [b]) (replicate 9 (CHR ''x'')))) =
     Failed (Internal ''local origin closed before sending response head'')"
proof -
  have "find_str (CRLF @ CRLF) (replicate n (CHR ''x'')) = None" for n
    by (induction n) (simp_all add: CRLF_def CR_def)
  then have p: "ref_parse (take m (replicate n (CHR ''x''))) = Inr HPartial" for m n
    by (simp add: ref_parse_def min_def)
  have run: "fst (read_http_response_head ref_parse (map (\<lambda>b. Data [b]) (replicate n (CHR ''x'')))) =
     (if 32768 < n then Failed (Internal ''response header exceeds 32768 bytes'')
      else Failed (Internal ''local origin closed before sending response head''))" for n
    using response_head_incomplete [of ref_parse "map (\<lambda>b. Data [b]) (replicate n (CHR ''x''))", unfolded bytewise, OF p]
    by simp
  show ?thesis using run [of 40000] run [of 9] by (simp only: rel_simps if_True if_False)
qed


text \<open>C17: Whatever the origin sends, in whatever chunks, and whatever the parser makes of it, reading a head
  takes at most 34 KiB off the socket. A head that is returned came with its left-over within 32 KiB, the
  left-over is a tail of what was read, and every byte that was not read is still on the socket.\<close>

theorem response_head_buffer_bounded:
  "\<exists>taken rest. avail src = taken @ rest \<and> length taken \<le> 34 * 1024
     \<and> (case read_http_response_head parse src of
          (Done (st, hs, leftover), src') \<Rightarrow>
            length taken \<le> 32 * 1024 \<and> rest = avail src' \<and> (\<exists>head. taken = head @ leftover)
        | (_, src') \<Rightarrow> rest = avail src' \<or> rest = [])"
proof -
  obtain taken rest where within: "head_within [] src (read_http_response_head parse src) taken rest"
    using read_head_within [of "[]" src parse] by (auto simp: read_http_response_head_def)
  obtain r src' where read: "read_http_response_head parse src = (r, src')"
    by (cases "read_http_response_head parse src")
  from within [unfolded head_within_def read append_Nil fst_conv snd_conv MAX_HEADER_BYTES_def READ_HEAD_CHUNK_def]
  have "avail src = taken @ rest \<and> length taken \<le> 34 * 1024
     \<and> (case (r, src') of
          (Done (st, hs, leftover), src') \<Rightarrow>
            length taken \<le> 32 * 1024 \<and> rest = avail src' \<and> (\<exists>head. taken = head @ leftover)
        | (_, src') \<Rightarrow> rest = avail src' \<or> rest = [])"
    by (cases r) auto
  then show ?thesis unfolding read by blast
qed

end
