(* ===== verification/Pumps.thy ===== *)
theory Pumps
  imports Io Tunnel_Error
begin

text \<open>
  The byte pumps of \<^verbatim>\<open>src/proxy.rs\<close>. The pump of one direction and its counterpart of the other
  have the same body over different stream traits, so each pair is one loop here; the wrappers in
  \<open>Proxy\<close> fix the streams and the counter of each direction. A counter is an \<open>AtomicU64\<close> and wraps.
\<close>

definition PUMP_BUF :: nat where
  "PUMP_BUF = 16 * 1024"

type_synonym pump_result = "(tunnel_error, unit) outcome \<times> source \<times> sink \<times> u64"

section \<open>Until the source ends\<close>

function pump_counted :: "source \<Rightarrow> sink \<Rightarrow> u64 \<Rightarrow> pump_result" where
  "pump_counted src dst counter =
     (case read_some PUMP_BUF src of
        (Failed e, src') \<Rightarrow> (Failed (Internal (''read: '' @ e)), src', dst, counter)
      | (Pending, src') \<Rightarrow> (Pending, src', dst, counter)
      | (Done bs, src') \<Rightarrow>
          if bs = [] then (Done (), src', dst, counter)
          else (case write_all bs dst of
                  (Failed e, dst') \<Rightarrow> (Failed (Internal (''write: '' @ e)), src', dst', counter)
                | (Pending, dst') \<Rightarrow> (Pending, src', dst', counter)
                | (Done _, dst') \<Rightarrow> pump_counted src' dst' (counter + of_nat (length bs))))"
  by pat_completeness auto
termination
  by (relation "measure (\<lambda>(src, dst, counter). source_size src)")
    (simp_all, metis read_some_size)

declare pump_counted.simps [simp del]

section \<open>Exactly so many bytes\<close>

definition eof_message :: "string \<Rightarrow> nat \<Rightarrow> string" where
  "eof_message what n = what @ '' EOF with '' @ dec n @ '' bytes still expected''"

function pump_n :: "string \<Rightarrow> source \<Rightarrow> sink \<Rightarrow> nat \<Rightarrow> u64 \<Rightarrow> pump_result" where
  "pump_n what src dst n counter =
     (if n = 0 then (Done (), src, dst, counter)
      else case read_some (min PUMP_BUF n) src of
        (Failed e, src') \<Rightarrow> (Failed (Internal (''read: '' @ e)), src', dst, counter)
      | (Pending, src') \<Rightarrow> (Pending, src', dst, counter)
      | (Done bs, src') \<Rightarrow>
          if bs = [] then (Failed (Internal (eof_message what n)), src', dst, counter)
          else (case write_all bs dst of
                  (Failed e, dst') \<Rightarrow> (Failed (Internal (''write: '' @ e)), src', dst', counter)
                | (Pending, dst') \<Rightarrow> (Pending, src', dst', counter)
                | (Done _, dst') \<Rightarrow>
                    pump_n what src' dst' (n - length bs) (counter + of_nat (length bs))))"
  by pat_completeness auto
termination
  by (relation "measure (\<lambda>(what, src, dst, n, counter). source_size src)")
    (simp_all, metis read_some_size)

declare pump_n.simps [simp del]

section \<open>How they end\<close>

definition pump_end :: "ending \<Rightarrow> (tunnel_error, unit) outcome" where
  "pump_end e = (case e of AtEof \<Rightarrow> Done () | AtErr m \<Rightarrow> Failed (Internal (''read: '' @ m)) | AtStall \<Rightarrow> Pending)"

definition pump_n_end :: "string \<Rightarrow> nat \<Rightarrow> ending \<Rightarrow> (tunnel_error, unit) outcome" where
  "pump_n_end what missing e =
     (case e of AtEof \<Rightarrow> Failed (Internal (eof_message what missing))
      | AtErr m \<Rightarrow> Failed (Internal (''read: '' @ m)) | AtStall \<Rightarrow> Pending)"

lemma PUMP_BUF_pos [simp]: "0 < PUMP_BUF"
  by (simp add: PUMP_BUF_def)

lemma pump_counted_ended:
  assumes "avail src = []"
  shows "\<exists>src'. pump_counted src dst counter = (pump_end (ending_of src), src', dst, counter)"
proof -
  obtain r s' where r: "read_some PUMP_BUF src = (r, s')" by fastforce
  with read_some_ended [OF assms, of PUMP_BUF] have "r = ended (ending_of src)" by simp
  with r show ?thesis
    by (cases "ending_of src") (simp_all add: pump_counted.simps [of src] pump_end_def)
qed

text \<open>Into a sink that takes everything, every byte arrives, once and in order, and is counted.\<close>

lemma pump_counted_healthy:
  "healthy dst \<Longrightarrow>
   \<exists>src'. pump_counted src dst counter =
     (pump_end (ending_of src), src', dst\<lparr>written := written dst @ avail src\<rparr>,
      counter + of_nat (length (avail src)))"
proof (induction "length (avail src)" arbitrary: src dst counter rule: less_induct)
  case less
  show ?case
  proof (cases "avail src = []")
    case True
    with pump_counted_ended [OF True, of dst counter] show ?thesis by simp
  next
    case False
    then obtain k src' where k: "0 < k" "k \<le> length (avail src)"
      "read_some PUMP_BUF src = (Done (take k (avail src)), src')"
      "avail src' = drop k (avail src)" "ending_of src' = ending_of src"
      by (rule read_some_avail [of src PUMP_BUF]) simp_all
    let ?dst = "dst\<lparr>written := written dst @ take k (avail src)\<rparr>"
    have step: "pump_counted src dst counter = pump_counted src' ?dst (counter + of_nat k)"
      using k False less.prems
      by (simp add: pump_counted.simps [of src] write_all_healthy min_def)
    have "length (avail src') < length (avail src)" "healthy ?dst"
      using k False less.prems by simp_all
    from less.hyps [OF this, of "counter + of_nat k"]
    obtain src'' where ih: "pump_counted src' ?dst (counter + of_nat k) =
      (pump_end (ending_of src), src'', dst\<lparr>written := written dst @ avail src\<rparr>,
       counter + of_nat k + of_nat (length (avail src) - k))"
      by (auto simp: k(4,5))
    have "counter + of_nat k + of_nat (length (avail src) - k) = counter + of_nat (length (avail src))"
      using k(2) by (metis (no_types) add.assoc le_add_diff_inverse of_nat_add)
    with ih step show ?thesis by auto
  qed
qed

text \<open>Into any sink: what arrived is a prefix of the source, and only what arrived is counted.\<close>

lemma pump_counted_prefix:
  "pump_counted src dst counter = (r, src', dst', counter') \<Longrightarrow>
   \<exists>m n. n \<le> m \<and> m \<le> length (avail src) \<and> written dst' = written dst @ take m (avail src)
     \<and> counter' = counter + of_nat n \<and> (r = Done () \<longrightarrow> n = length (avail src))"
proof (induction "length (avail src)" arbitrary: src dst counter rule: less_induct)
  case less
  show ?case
  proof (cases "avail src = []")
    case True
    with pump_counted_ended [OF True, of dst counter] less.prems show ?thesis by auto
  next
    case False
    then obtain k s1 where k: "0 < k" "k \<le> length (avail src)"
      "read_some PUMP_BUF src = (Done (take k (avail src)), s1)"
      "avail s1 = drop k (avail src)" "ending_of s1 = ending_of src"
      by (rule read_some_avail [of src PUMP_BUF]) simp_all
    obtain w d1 where w: "write_all (take k (avail src)) dst = (w, d1)" by fastforce
    show ?thesis
    proof (cases "w = Done ()")
      case True
      with w have d1: "written d1 = written dst @ take k (avail src)" by (simp add: write_all_Done)
      have "pump_counted s1 d1 (counter + of_nat k) = (r, src', dst', counter')"
        using less.prems k(3) False w True min_absorb2 [OF k(2)] k(1)
        by (simp add: pump_counted.simps [of src])
      moreover have "length (avail s1) < length (avail src)" using k False by simp
      ultimately obtain m n where mn: "n \<le> m" "m \<le> length (avail s1)"
        "written dst' = written d1 @ take m (avail s1)" "counter' = counter + of_nat k + of_nat n"
        "r = Done () \<longrightarrow> n = length (avail s1)"
        using less.hyps by blast
      have "take (k + m) (avail src) = take k (avail src) @ take m (avail s1)"
        by (simp add: take_add k(4))
      with mn d1 k(2,4) show ?thesis
        by (intro exI [of _ "k + m"] exI [of _ "k + n"]) auto
    next
      case False
      then obtain e where we: "w = Failed e"
        using w write_all_not_pending [of "take k (avail src)" dst] by (cases w) auto
      then obtain j where j: "written d1 = written dst @ take j (take k (avail src))"
        using w write_all_Failed by blast
      from less.prems k \<open>avail src \<noteq> []\<close> w we
      have "r = Failed (Internal (''write: '' @ e))" "dst' = d1" "counter' = counter"
        by (simp_all add: pump_counted.simps [of src])
      with j k(2) show ?thesis by (intro exI [of _ "min j k"] exI [of _ 0]) simp
    qed
  qed
qed

section \<open>The exact pump\<close>

lemma pump_n_0 [simp]: "pump_n what src dst 0 counter = (Done (), src, dst, counter)"
  by (simp add: pump_n.simps)

lemma pump_n_enough:
  "healthy dst \<Longrightarrow> n \<le> length (avail src) \<Longrightarrow>
   \<exists>src'. pump_n what src dst n counter =
     (Done (), src', dst\<lparr>written := written dst @ take n (avail src)\<rparr>, counter + of_nat n)
   \<and> avail src' = drop n (avail src) \<and> ending_of src' = ending_of src"
proof (induction n arbitrary: src dst counter rule: less_induct)
  case (less n)
  show ?case
  proof (cases "n = 0")
    case False
    with less.prems(2) have "avail src \<noteq> []" "0 < min PUMP_BUF n" by auto
    then obtain k s1 where k: "0 < k" "k \<le> min PUMP_BUF n" "k \<le> length (avail src)"
      "read_some (min PUMP_BUF n) src = (Done (take k (avail src)), s1)"
      "avail s1 = drop k (avail src)" "ending_of s1 = ending_of src"
      by (rule read_some_avail)
    let ?dst = "dst\<lparr>written := written dst @ take k (avail src)\<rparr>"
    have step: "pump_n what src dst n counter = pump_n what s1 ?dst (n - k) (counter + of_nat k)"
      using k False less.prems by (auto simp: pump_n.simps [of what src] write_all_healthy min_def)
    have "n - k < n" "healthy ?dst" "n - k \<le> length (avail s1)"
      using k less.prems by auto
    from less.IH [OF this, of "counter + of_nat k"] obtain s2 where s2:
      "pump_n what s1 ?dst (n - k) (counter + of_nat k) =
         (Done (), s2, dst\<lparr>written := written dst @ take k (avail src) @ take (n - k) (drop k (avail src))\<rparr>,
          counter + of_nat k + of_nat (n - k))"
      "avail s2 = drop (n - k) (drop k (avail src))" "ending_of s2 = ending_of src"
      by (auto simp: k(5,6))
    have "take k (avail src) @ take (n - k) (drop k (avail src)) = take n (avail src)"
      "counter + of_nat k + of_nat (n - k) = counter + of_nat n"
      using k(2) by (simp_all add: take_add [symmetric] add.assoc flip: of_nat_add)
    with step s2 k(2) show ?thesis by auto
  qed (auto intro: exI [of _ src])
qed

lemma pump_n_short:
  "healthy dst \<Longrightarrow> length (avail src) < n \<Longrightarrow>
   \<exists>src'. pump_n what src dst n counter =
     (pump_n_end what (n - length (avail src)) (ending_of src), src',
      dst\<lparr>written := written dst @ avail src\<rparr>, counter + of_nat (length (avail src)))"
proof (induction n arbitrary: src dst counter rule: less_induct)
  case (less n)
  then have n: "0 < n" by simp
  show ?case
  proof (cases "avail src = []")
    case True
    obtain r s' where r: "read_some (min PUMP_BUF n) src = (r, s')" by fastforce
    with True have "r = ended (ending_of src)" using read_some_ended [of src "min PUMP_BUF n"] by simp
    with r n True show ?thesis
      by (cases "ending_of src") (simp_all add: pump_n.simps [of what src] pump_n_end_def)
  next
    case False
    then obtain k s1 where k: "0 < k" "k \<le> min PUMP_BUF n" "k \<le> length (avail src)"
      "read_some (min PUMP_BUF n) src = (Done (take k (avail src)), s1)"
      "avail s1 = drop k (avail src)" "ending_of s1 = ending_of src"
      using read_some_avail [of src "min PUMP_BUF n"] n by auto
    let ?dst = "dst\<lparr>written := written dst @ take k (avail src)\<rparr>"
    have step: "pump_n what src dst n counter = pump_n what s1 ?dst (n - k) (counter + of_nat k)"
      using k n False less.prems by (auto simp: pump_n.simps [of what src] write_all_healthy min_def)
    have "n - k < n" "healthy ?dst" "length (avail s1) < n - k"
      using k n less.prems by auto
    from less.IH [OF this, of "counter + of_nat k"] obtain s2 where s2:
      "pump_n what s1 ?dst (n - k) (counter + of_nat k) =
         (pump_n_end what (n - k - (length (avail src) - k)) (ending_of src), s2,
          dst\<lparr>written := written dst @ avail src\<rparr>,
          counter + of_nat k + of_nat (length (avail src) - k))"
      by (auto simp: k(5,6))
    have "counter + of_nat k + of_nat (length (avail src) - k) = counter + of_nat (length (avail src))"
      "n - k - (length (avail src) - k) = n - length (avail src)"
      using k(3) by (simp_all add: add.assoc flip: of_nat_add)
    with step s2 show ?thesis by auto
  qed
qed

text \<open>No more than \<open>n\<close> bytes are ever taken over, whatever the sink does.\<close>

lemma pump_n_bound:
  "pump_n what src dst n counter = (r, src', dst', counter') \<Longrightarrow>
   \<exists>m. m \<le> n \<and> written dst' = written dst @ take m (avail src) \<and> (r = Done () \<longrightarrow> m = n \<and> n \<le> length (avail src))"
proof (induction n arbitrary: src dst counter rule: less_induct)
  case (less n)
  show ?case
  proof (cases "n = 0")
    case True
    with less.prems show ?thesis by auto
  next
    case n: False
    show ?thesis
    proof (cases "avail src = []")
      case True
      obtain q s' where q: "read_some (min PUMP_BUF n) src = (q, s')" by fastforce
      with True have "q = ended (ending_of src)" using read_some_ended [of src "min PUMP_BUF n"] by simp
      with q n True less.prems show ?thesis
        by (cases "ending_of src") (auto simp: pump_n.simps [of what src])
    next
      case False
      then obtain k s1 where k: "0 < k" "k \<le> min PUMP_BUF n" "k \<le> length (avail src)"
        "read_some (min PUMP_BUF n) src = (Done (take k (avail src)), s1)"
        "avail s1 = drop k (avail src)" "ending_of s1 = ending_of src"
        using read_some_avail [of src "min PUMP_BUF n"] n by auto
      obtain w d1 where w: "write_all (take k (avail src)) dst = (w, d1)" by fastforce
      show ?thesis
      proof (cases "w = Done ()")
        case True
        with w have d1: "written d1 = written dst @ take k (avail src)" by (simp add: write_all_Done)
        have "pump_n what s1 d1 (n - k) (counter + of_nat k) = (r, src', dst', counter')"
          using less.prems k(1,4) n False w True min_absorb2 [OF k(3)]
          by (simp add: pump_n.simps [of what src])
        with less.IH [of "n - k" s1 d1 "counter + of_nat k"] k n obtain m where m:
          "m \<le> n - k" "written dst' = written d1 @ take m (avail s1)"
          "r = Done () \<longrightarrow> m = n - k \<and> n - k \<le> length (avail s1)" by auto
        have "take (k + m) (avail src) = take k (avail src) @ take m (avail s1)"
          by (simp add: take_add k(5))
        with m d1 k show ?thesis by (intro exI [of _ "k + m"]) auto
      next
        case wf: False
        then obtain e where we: "w = Failed e"
          using w write_all_not_pending [of "take k (avail src)" dst] by (cases w) auto
        then obtain j where j: "written d1 = written dst @ take j (take k (avail src))"
          using w write_all_Failed by blast
        from less.prems k n False w we
        have "r = Failed (Internal (''write: '' @ e))" "dst' = d1"
          by (simp_all add: pump_n.simps [of what src])
        with j k(2) show ?thesis by (intro exI [of _ "min j k"]) auto
      qed
    qed
  qed
qed

section \<open>Properties\<close>

text \<open>C29: The bounded pump moves exactly the announced number of bytes, in order, counts them, and leaves the
  rest on the source; when the source ends early, everything it had is moved and the error names how
  many bytes are missing.\<close>

theorem pump_n_exact:
  assumes "healthy dst"
  shows "(n \<le> length (avail src) \<longrightarrow>
      (\<exists>src'. pump_n what src dst n counter =
          (Done (), src', dst\<lparr>written := written dst @ take n (avail src)\<rparr>, counter + of_nat n)
        \<and> avail src' = drop n (avail src) \<and> ending_of src' = ending_of src))
    \<and> (length (avail src) < n \<longrightarrow>
      (\<exists>src'. pump_n what src dst n counter =
          (case ending_of src of
             AtEof \<Rightarrow> Failed (Internal (what @ '' EOF with '' @ dec (n - length (avail src)) @ '' bytes still expected''))
           | AtErr e \<Rightarrow> Failed (Internal (''read: '' @ e)) | AtStall \<Rightarrow> Pending,
           src', dst\<lparr>written := written dst @ avail src\<rparr>, counter + of_nat (length (avail src)))))"
  using pump_n_enough [OF assms, of n src what counter] pump_n_short [OF assms, of src n what counter]
  by (auto simp: pump_n_end_def eof_message_def split: ending.split)

theorem pump_n_exact_witness:
  "(\<exists>src'. pump_n ''tcp'' [Data ''ab'', Data ''cde'', Stall] open_sink 3 7 =
      (Done (), src', open_sink\<lparr>written := ''abc''\<rparr>, 10) \<and> avail src' = ''de'')
   \<and> (\<exists>src'. pump_n ''tcp'' [Data ''ab''] open_sink 3 7 =
      (Failed (Internal ''tcp EOF with 1 bytes still expected''), src', open_sink\<lparr>written := ''ab''\<rparr>, 9))"
proof -
  have d: "dec 1 = ''1''" by code_simp
  show ?thesis
    using pump_n_exact [OF open_sink_healthy, of 3 "[Data ''ab'', Data ''cde'', Stall]" "''tcp''" 7]
      pump_n_exact [OF open_sink_healthy, of 3 "[Data ''ab'']" "''tcp''" 7] d
    by (auto simp: open_sink_def)
qed

text \<open>C40: Into any sink, healthy or not, both pumps write a prefix of the source and nothing else; the bounded
  one never takes more than its limit, and reports success only after the whole of it. The open-ended
  pump counts only what it wrote, and ends well only when the whole source was written.\<close>

theorem pumps_write_prefixes:
  assumes "pump_counted src dst counter = (r, src', dst', counter')"
    and "pump_n what src dst n counter = (q, src2, dst2, counter2)"
  shows "(\<exists>m k. k \<le> m \<and> m \<le> length (avail src) \<and> written dst' = written dst @ take m (avail src)
      \<and> counter' = counter + of_nat k \<and> (r = Done () \<longrightarrow> k = length (avail src)))
    \<and> (\<exists>m. m \<le> n \<and> written dst2 = written dst @ take m (avail src)
      \<and> (q = Done () \<longrightarrow> m = n \<and> n \<le> length (avail src)))"
  using pump_counted_prefix [OF assms(1)] pump_n_bound [OF assms(2)] by blast

definition choking_sink :: sink where
  "choking_sink = open_sink\<lparr>wr_budget := Some (3, ''broken pipe'')\<rparr>"

lemma choking_runs:
  "pump_counted [Data ''ab'', Data ''cd''] choking_sink 0 =
     (Failed (Internal ''write: broken pipe''), [], choking_sink\<lparr>written := ''abc'', wr_budget := Some (0, ''broken pipe'')\<rparr>, 2)"
  "pump_n ''tcp'' [Data ''ab'', Data ''cd''] choking_sink 3 0 =
     (Done (), [Data ''d''], choking_sink\<lparr>written := ''abc'', wr_budget := Some (0, ''broken pipe'')\<rparr>, 3)"
  by (simp_all add: pump_counted.simps pump_n.simps choking_sink_def write_all_def PUMP_BUF_def open_sink_def)

theorem pumps_write_prefixes_witness:
  "\<exists>m k. k \<le> m \<and> m \<le> length ''abcd'' \<and> ''abc'' = take m ''abcd'' \<and> (2 :: u64) = of_nat k"
  using pumps_write_prefixes [OF choking_runs] by (simp add: choking_sink_def open_sink_def)

end
