(* ===== verification/Proxy.thy ===== *)
theory Proxy
  imports Stream_Framing Http_Shape Response_Head Pumps Pool
begin

text \<open>
  The per-request proxy of \<^verbatim>\<open>src/proxy.rs\<close>: \<open>handle_inbound_stream\<close> and the three ways it serves a
  stream. A local socket is its identity and its two directions; splitting it gives two halves that
  remember where they come from. The state of a request holds the edge's stream, the two byte
  counters and the pool, and for an HTTP request the two halves of the socket.

  A \<open>join\<close> of two pumps runs both to their end over disjoint parts of the state.
\<close>

section \<open>State\<close>

record tcp_stream =
  sock_id :: nat
  sock_in :: source
  sock_out :: sink

record owned_read_half =
  rh_id :: nat
  rh_src :: source

record owned_write_half =
  wh_id :: nat
  wh_sink :: sink

definition into_split :: "tcp_stream \<Rightarrow> owned_read_half \<times> owned_write_half" where
  "into_split s = (\<lparr>rh_id = sock_id s, rh_src = sock_in s\<rparr>, \<lparr>wh_id = sock_id s, wh_sink = sock_out s\<rparr>)"

definition reunite :: "owned_read_half \<Rightarrow> owned_write_half \<Rightarrow> tcp_stream option" where
  "reunite r w =
     (if rh_id r = wh_id w then Some \<lparr>sock_id = rh_id r, sock_in = rh_src r, sock_out = wh_sink w\<rparr> else None)"

record edge_state =
  from_edge :: source
  to_edge :: sink
  bytes_in :: u64
  bytes_out :: u64
  conns :: "tcp_stream pool"

record proxy_state = edge_state +
  tcp_read :: owned_read_half
  tcp_write :: owned_write_half

definition LOCAL_CONNECT_TIMEOUT :: duration where
  "LOCAL_CONNECT_TIMEOUT = from_secs 5"

section \<open>Steps on the state\<close>

definition on_to_edge ::
  "(sink \<Rightarrow> ('e, 'a) outcome \<times> sink) \<Rightarrow> 'z edge_state_scheme \<Rightarrow> ('e, 'a) outcome \<times> 'z edge_state_scheme" where
  "on_to_edge f st = (case f (to_edge st) of (r, k) \<Rightarrow> (r, st\<lparr>to_edge := k\<rparr>))"

definition on_tcp_write ::
  "(sink \<Rightarrow> ('e, 'a) outcome \<times> sink) \<Rightarrow> proxy_state \<Rightarrow> ('e, 'a) outcome \<times> proxy_state" where
  "on_tcp_write f st =
     (case f (wh_sink (tcp_write st)) of (r, k) \<Rightarrow> (r, st\<lparr>tcp_write := (tcp_write st)\<lparr>wh_sink := k\<rparr>\<rparr>))"

definition on_tcp_read ::
  "(source \<Rightarrow> ('e, 'a) outcome \<times> source) \<Rightarrow> proxy_state \<Rightarrow> ('e, 'a) outcome \<times> proxy_state" where
  "on_tcp_read f st =
     (case f (rh_src (tcp_read st)) of (r, s) \<Rightarrow> (r, st\<lparr>tcp_read := (tcp_read st)\<lparr>rh_src := s\<rparr>\<rparr>))"

definition pump_futures_to_tokio_counted :: "proxy_state \<Rightarrow> (tunnel_error, unit) outcome \<times> proxy_state" where
  "pump_futures_to_tokio_counted st =
     (case pump_counted (from_edge st) (wh_sink (tcp_write st)) (bytes_in st) of
        (r, src, dst, counter) \<Rightarrow>
          (r, st\<lparr>from_edge := src, tcp_write := (tcp_write st)\<lparr>wh_sink := dst\<rparr>, bytes_in := counter\<rparr>))"

definition pump_tokio_to_futures_counted :: "proxy_state \<Rightarrow> (tunnel_error, unit) outcome \<times> proxy_state" where
  "pump_tokio_to_futures_counted st =
     (case pump_counted (rh_src (tcp_read st)) (to_edge st) (bytes_out st) of
        (r, src, dst, counter) \<Rightarrow>
          (r, st\<lparr>tcp_read := (tcp_read st)\<lparr>rh_src := src\<rparr>, to_edge := dst, bytes_out := counter\<rparr>))"

definition pump_n_futures_to_tokio :: "nat \<Rightarrow> proxy_state \<Rightarrow> (tunnel_error, unit) outcome \<times> proxy_state" where
  "pump_n_futures_to_tokio n st =
     (case pump_n ''source'' (from_edge st) (wh_sink (tcp_write st)) n (bytes_in st) of
        (r, src, dst, counter) \<Rightarrow>
          (r, st\<lparr>from_edge := src, tcp_write := (tcp_write st)\<lparr>wh_sink := dst\<rparr>, bytes_in := counter\<rparr>))"

definition pump_n_tokio_to_futures :: "nat \<Rightarrow> proxy_state \<Rightarrow> (tunnel_error, unit) outcome \<times> proxy_state" where
  "pump_n_tokio_to_futures n st =
     (case pump_n ''tcp'' (rh_src (tcp_read st)) (to_edge st) n (bytes_out st) of
        (r, src, dst, counter) \<Rightarrow>
          (r, st\<lparr>tcp_read := (tcp_read st)\<lparr>rh_src := src\<rparr>, to_edge := dst, bytes_out := counter\<rparr>))"

definition close_to_edge :: "proxy_state \<Rightarrow> (tunnel_error, unit) outcome \<times> proxy_state" where
  "close_to_edge = on_to_edge (\<lambda>k. io_err (\<lambda>e. Internal (''close to_edge: '' @ e)) (close_sink k))"

definition write_error_response ::
  "('s, 'p) capnp \<Rightarrow> u16 \<Rightarrow> string \<Rightarrow> sink \<Rightarrow> (tunnel_error, unit) outcome \<times> sink" where
  "write_error_response c status msg writer =
     write_connect_response c msg [(HTTP_STATUS_KEY, dec (unat status))] writer"

text \<open>The metadata that echoes the origin's status and headers.\<close>

definition response_meta :: "u16 \<Rightarrow> (string \<times> string) list \<Rightarrow> meta_pair list" where
  "response_meta status headers =
     (HTTP_STATUS_KEY, dec (unat status))
     # map (\<lambda>(name, value). (HTTP_HEADER_KEY @ '':'' @ name, value)) headers"

text \<open>The start of the body that was read along with the head.\<close>

definition flush_leftover :: "bytes \<Rightarrow> proxy_state \<Rightarrow> (tunnel_error, unit) outcome \<times> proxy_state" where
  "flush_leftover leftover st =
     (if leftover = [] then (Done (), st)
      else and_then
        (on_to_edge (\<lambda>k. io_err (\<lambda>e. Internal (''write leftover body: '' @ e)) (write_all leftover k)) st)
        (\<lambda>_ st. (Done (), st\<lparr>bytes_out := bytes_out st + of_nat (length leftover)\<rparr>)))"

section \<open>The pooled path\<close>

text \<open>
  Step 5a: a response of known length, of which \<open>leftover_len\<close> bytes were forwarded already. The
  socket goes back to the pool.
\<close>

definition finish_framed :: "instant \<Rightarrow> nat \<Rightarrow> nat \<Rightarrow> proxy_state \<Rightarrow> (tunnel_error, unit) outcome \<times> proxy_state" where
  "finish_framed now len leftover_len st =
     (let remaining = len - leftover_len in
      and_then (if 0 < remaining then pump_n_tokio_to_futures remaining st else (Done (), st)) (\<lambda>_ st.
      and_then (close_to_edge st) (\<lambda>_ st.
      (case reunite (tcp_read st) (tcp_write st) of
         Some socket \<Rightarrow> (Done (), st\<lparr>conns := release now socket (conns st)\<rparr>)
       | None \<Rightarrow> (Done (), st)))))"

text \<open>Step 5b: any other response is relayed until the origin closes; errors of the pump are dropped.\<close>

definition finish_drained :: "proxy_state \<Rightarrow> (tunnel_error, unit) outcome \<times> proxy_state" where
  "finish_drained st =
     (case pump_tokio_to_futures_counted st of
        (Pending, st) \<Rightarrow> (Pending, st)
      | (_, st) \<Rightarrow> close_to_edge st)"

text \<open>What \<open>run_pooled\<close> does after the request body: steps 2 to 5.\<close>

definition relay_response ::
  "('s, 'p) capnp \<Rightarrow> http_parse \<Rightarrow> instant \<Rightarrow> proxy_state \<Rightarrow> (tunnel_error, unit) outcome \<times> proxy_state" where
  "relay_response c parse now st =
     and_then (on_tcp_read (read_http_response_head parse) st) (\<lambda>(status, headers, leftover) st.
     (let resp_shape = analyse_response status headers in
      and_then (on_to_edge (write_connect_response c '''' (response_meta status headers)) st) (\<lambda>_ st.
      and_then (flush_leftover leftover st) (\<lambda>_ st.
      (case (if response_poolable resp_shape then rs_content_length resp_shape else None) of
         Some len \<Rightarrow> finish_framed now len (length leftover) st
       | None \<Rightarrow> finish_drained st)))))"

definition run_pooled ::
  "('s, 'p) capnp \<Rightarrow> http_parse \<Rightarrow> instant \<Rightarrow> request_shape \<Rightarrow> proxy_state
   \<Rightarrow> (tunnel_error, unit) outcome \<times> proxy_state" where
  "run_pooled c parse now req_shape st =
     and_then
       (case rq_content_length req_shape of
          Some n \<Rightarrow> if 0 < n then pump_n_futures_to_tokio n st else (Done (), st)
        | None \<Rightarrow> (Done (), st))
       (\<lambda>_ st. relay_response c parse now st)"

section \<open>The two pumps\<close>

definition edge_to_local :: "proxy_state \<Rightarrow> (tunnel_error, unit) outcome \<times> proxy_state" where
  "edge_to_local st =
     (case pump_futures_to_tokio_counted st of
        (Pending, st) \<Rightarrow> (Pending, st)
      | (_, st) \<Rightarrow>
          (case on_tcp_write close_sink st of
             (Pending, st) \<Rightarrow> (Pending, st)
           | (_, st) \<Rightarrow> (Done (), st)))"

definition local_to_edge ::
  "('s, 'p) capnp \<Rightarrow> http_parse \<Rightarrow> proxy_state \<Rightarrow> (tunnel_error, unit) outcome \<times> proxy_state" where
  "local_to_edge c parse st =
     and_then (on_tcp_read (read_http_response_head parse) st) (\<lambda>(status, headers, leftover) st.
     and_then (on_to_edge (write_connect_response c '''' (response_meta status headers)) st) (\<lambda>_ st.
     and_then (flush_leftover leftover st) (\<lambda>_ st.
     pump_tokio_to_futures_counted st)))"

text \<open>\<open>join!\<close> waits for both; the question mark looks at the response only.\<close>

definition run_bidi ::
  "('s, 'p) capnp \<Rightarrow> http_parse \<Rightarrow> proxy_state \<Rightarrow> (tunnel_error, unit) outcome \<times> proxy_state" where
  "run_bidi c parse st =
     (let (request_result, st1) = edge_to_local st;
          (response_result, st2) = local_to_edge c parse st1
      in if request_result = Pending \<or> response_result = Pending then (Pending, st2)
         else and_then (response_result, st2) (\<lambda>_ st. close_to_edge st))"

section \<open>HTTP streams\<close>

definition with_tcp :: "edge_state \<Rightarrow> tcp_stream \<Rightarrow> proxy_state" where
  "with_tcp st s =
     edge_state.extend st
       \<lparr>tcp_read = fst (into_split s), tcp_write = snd (into_split s)\<rparr>"

text \<open>
  \<open>proxy_http\<close> once it has a socket. The final state of the socket is part of the result, so that
  what the origin was sent can be stated.
\<close>

definition serve_http ::
  "('s, 'p) capnp \<Rightarrow> http_parse \<Rightarrow> instant \<Rightarrow> connect_request \<Rightarrow> proxy_state
   \<Rightarrow> (tunnel_error, unit) outcome \<times> proxy_state" where
  "serve_http c parse now request st =
     (let req_shape = analyse_request request;
          head = build_request_head request (request_poolable req_shape)
      in and_then (on_tcp_write (\<lambda>k. io_err (\<lambda>e. Internal (''tcp write head: '' @ e)) (write_all head k)) st)
           (\<lambda>_ st. if request_poolable req_shape then run_pooled c parse now req_shape st
                   else run_bidi c parse st))"

definition proxy_http ::
  "('s, 'p) capnp \<Rightarrow> http_parse \<Rightarrow> (nat \<Rightarrow> instant) \<Rightarrow> instant \<Rightarrow> (u16 \<Rightarrow> (string + tcp_stream) fut)
   \<Rightarrow> connect_request \<Rightarrow> edge_state
   \<Rightarrow> (tunnel_error, unit) outcome \<times> edge_state \<times> (owned_read_half \<times> owned_write_half) option" where
  "proxy_http c parse clock now connect request st =
     (let (fut, pool) = acquire_fut clock connect (conns st);
          st = st\<lparr>conns := pool\<rparr>
      in case timeout LOCAL_CONNECT_TIMEOUT fut of
           Some (Inr s) \<Rightarrow>
             (case serve_http c parse now request (with_tcp st s) of
                (r, st) \<Rightarrow> (r, edge_state.truncate st, Some (tcp_read st, tcp_write st)))
         | Some (Inl e) \<Rightarrow>
             (case on_to_edge (write_error_response c 502 (''local connect: '' @ e)) st of
                (r, st) \<Rightarrow> (r, st, None))
         | None \<Rightarrow>
             (case on_to_edge (write_error_response c 504 ''local connect timed out'') st of
                (r, st) \<Rightarrow> (r, st, None)))"

section \<open>TCP streams\<close>

definition proxy_tcp ::
  "('s, 'p) capnp \<Rightarrow> (u16 \<Rightarrow> (string + tcp_stream) fut) \<Rightarrow> u16 \<Rightarrow> edge_state
   \<Rightarrow> (tunnel_error, unit) outcome \<times> edge_state \<times> (owned_read_half \<times> owned_write_half) option" where
  "proxy_tcp c connect local_port st =
     (case connect local_port of
        Never \<Rightarrow> (Pending, st, None)
      | Ready _ (Inl e) \<Rightarrow> (Failed (Internal (''tcp connect: '' @ e)), st, None)
      | Ready _ (Inr s) \<Rightarrow>
          (case and_then (on_to_edge (write_connect_response c '''' []) (with_tcp st s)) (\<lambda>_ st.
             (let (r1, st1) = pump_futures_to_tokio_counted st;
                  (r2, st2) = pump_tokio_to_futures_counted st1
              in if r1 = Pending \<or> r2 = Pending then (Pending, st2) else (Done (), st2))) of
             (r, st) \<Rightarrow> (r, edge_state.truncate st, Some (tcp_read st, tcp_write st))))"

section \<open>Dispatch\<close>

definition handle_inbound_stream ::
  "('s, 'p) capnp \<Rightarrow> http_parse \<Rightarrow> (nat \<Rightarrow> instant) \<Rightarrow> instant \<Rightarrow> (u16 \<Rightarrow> (string + tcp_stream) fut)
   \<Rightarrow> u16 \<Rightarrow> edge_state
   \<Rightarrow> (tunnel_error, unit) outcome \<times> edge_state \<times> (owned_read_half \<times> owned_write_half) option" where
  "handle_inbound_stream c parse clock now connect local_port st =
     (case read_connect_request c (from_edge st) of
        (Done req, reader) \<Rightarrow>
          (case conn_type req of
             Tcp \<Rightarrow> proxy_tcp c connect local_port (st\<lparr>from_edge := reader\<rparr>)
           | _ \<Rightarrow> proxy_http c parse clock now connect req (st\<lparr>from_edge := reader\<rparr>))
      | (Failed e, reader) \<Rightarrow> (Failed e, st\<lparr>from_edge := reader\<rparr>, None)
      | (Pending, reader) \<Rightarrow> (Pending, st\<lparr>from_edge := reader\<rparr>, None))"

end
