(* ===== verification/Proxy_Correct.thy ===== *)
theory Proxy_Correct
  imports Proxy
begin

text \<open>
  What the proxy delivers: when a socket returns to the pool, the pooled path in closed form, the
  two-pump path and the independence of its halves, and the whole of an inbound HTTP stream.
\<close>

section \<open>When a socket returns to the pool\<close>

text \<open>Most steps keep the pool and the identities of the two halves.\<close>

definition same_socket :: "proxy_state \<Rightarrow> proxy_state \<Rightarrow> bool" where
  "same_socket st st' \<longleftrightarrow>
     conns st' = conns st \<and> rh_id (tcp_read st') = rh_id (tcp_read st) \<and> wh_id (tcp_write st') = wh_id (tcp_write st)"

lemma same_socket_refl [simp]: "same_socket st st"
  by (simp add: same_socket_def)

lemma same_socket_read [simp]: "same_socket st (snd (on_tcp_read f st))"
  by (simp add: on_tcp_read_def same_socket_def split: prod.split)

lemma same_socket_edge [simp]: "same_socket st (snd (on_to_edge f st))"
  by (simp add: on_to_edge_def same_socket_def split: prod.split)

lemma same_socket_close [simp]: "same_socket st (snd (close_to_edge st))"
  by (simp add: close_to_edge_def)

lemma same_socket_flush [simp]: "same_socket st (snd (flush_leftover l st))"
  by (auto simp: flush_leftover_def and_then_def on_to_edge_def same_socket_def
      split: prod.splits outcome.splits)

lemma same_socket_pumps [simp]:
  "same_socket st (snd (pump_tokio_to_futures_counted st))"
  "same_socket st (snd (pump_n_tokio_to_futures m st))"
  "same_socket st (snd (pump_n_futures_to_tokio m st))"
  by (simp_all add: pump_tokio_to_futures_counted_def pump_n_tokio_to_futures_def
      pump_n_futures_to_tokio_def same_socket_def split: prod.split)

text \<open>
  Either the pool is untouched, or the request ended well: the edge's stream was closed and the very
  socket of the request went back, in the state in which it was left.
\<close>

definition pooled_back :: "instant \<Rightarrow> proxy_state \<Rightarrow> (tunnel_error, unit) outcome \<times> proxy_state \<Rightarrow> bool" where
  "pooled_back now st x \<longleftrightarrow>
     fst x = Done () \<and> is_closed (to_edge (snd x))
     \<and> conns (snd x) = release now
         \<lparr>sock_id = rh_id (tcp_read st), sock_in = rh_src (tcp_read (snd x)), sock_out = wh_sink (tcp_write (snd x))\<rparr>
         (conns st)"

definition pool_result ::
  "instant \<Rightarrow> bool \<Rightarrow> proxy_state \<Rightarrow> (tunnel_error, unit) outcome \<times> proxy_state \<Rightarrow> bool" where
  "pool_result now ok st x \<longleftrightarrow> conns (snd x) = conns st \<or> ok \<and> pooled_back now st x"

lemma pool_result_start: "same_socket st s \<Longrightarrow> pool_result now ok s x = pool_result now ok st x"
  by (simp add: pool_result_def pooled_back_def same_socket_def)

lemma pool_result_kept: "same_socket st (snd x) \<Longrightarrow> pool_result now ok st x"
  by (simp add: pool_result_def same_socket_def)

lemma pool_result_bind:
  assumes "same_socket st (snd m)" and "\<And>a s. m = (Done a, s) \<Longrightarrow> pool_result now ok s (k a s)"
  shows "pool_result now ok st (and_then m k)"
  using assms by (cases m; cases "fst m") (auto simp: pool_result_start pool_result_kept)

lemma finish_framed_pool: "pool_result now True st (finish_framed now len n st)"
proof -
  have tail: "pool_result now True s
      (and_then (close_to_edge s) (\<lambda>_ st. (case reunite (tcp_read st) (tcp_write st) of
         Some socket \<Rightarrow> (Done (), st\<lparr>conns := release now socket (conns st)\<rparr>) | None \<Rightarrow> (Done (), st))))" for s
  proof (rule pool_result_bind)
    fix a s'
    assume "close_to_edge s = (Done a, s')"
    then have "is_closed (to_edge s')"
      by (auto simp: close_to_edge_def on_to_edge_def close_sink_def split: prod.splits option.splits)
    then show "pool_result now True s' (case reunite (tcp_read s') (tcp_write s') of
         Some socket \<Rightarrow> (Done (), s'\<lparr>conns := release now socket (conns s')\<rparr>) | None \<Rightarrow> (Done (), s'))"
      by (auto simp: pool_result_def pooled_back_def reunite_def)
  qed simp
  show ?thesis
    unfolding finish_framed_def Let_def by (rule pool_result_bind, simp, rule tail)
qed

lemma finish_drained_pool: "pool_result now ok st (finish_drained st)"
proof -
  obtain r s where s: "pump_tokio_to_futures_counted st = (r, s)" by fastforce
  then have st: "same_socket st s" using same_socket_pumps(1) [of st] by simp
  have "pool_result now ok s (finish_drained st)"
    by (cases r) (simp_all add: finish_drained_def s pool_result_kept)
  with pool_result_start [OF st] show ?thesis by simp
qed

text \<open>The origin's answer had a known end.\<close>

definition framed_answer :: "http_parse \<Rightarrow> source \<Rightarrow> bool" where
  "framed_answer parse src =
     (case fst (read_http_response_head parse src) of
        Done (status, headers, leftover) \<Rightarrow> response_poolable (analyse_response status headers)
      | _ \<Rightarrow> False)"

lemma pool_result_weaken: "pool_result now ok st x \<Longrightarrow> (ok \<Longrightarrow> ok') \<Longrightarrow> pool_result now ok' st x"
  by (auto simp: pool_result_def)

lemma relay_response_pool:
  "pool_result now (framed_answer parse (rh_src (tcp_read st))) st (relay_response c parse now st)"
  unfolding relay_response_def
proof (rule pool_result_bind, simp)
  fix a s
  assume h: "on_tcp_read (read_http_response_head parse) st = (Done a, s)"
  obtain status headers leftover where a: "a = (status, headers, leftover)" by (cases a)
  have ok: "framed_answer parse (rh_src (tcp_read st)) = response_poolable (analyse_response status headers)"
    using h by (auto simp: on_tcp_read_def framed_answer_def a split: prod.splits)
  show "pool_result now (framed_answer parse (rh_src (tcp_read st))) s
    ((\<lambda>(status, headers, leftover) st.
      (let resp_shape = analyse_response status headers in
      and_then (on_to_edge (write_connect_response c '''' (response_meta status headers)) st) (\<lambda>_ st.
      and_then (flush_leftover leftover st) (\<lambda>_ st.
      (case (if response_poolable resp_shape then rs_content_length resp_shape else None) of
         Some len \<Rightarrow> finish_framed now len (length leftover) st
       | None \<Rightarrow> finish_drained st))))) a s)"
    unfolding a prod.case Let_def ok
    by (intro pool_result_bind)
      (auto intro: finish_drained_pool pool_result_weaken [OF finish_framed_pool] split: option.split)
qed

lemma run_pooled_pool:
  "conns (snd (run_pooled c parse now sh st)) = conns st
   \<or> framed_answer parse (rh_src (tcp_read st)) \<and> pooled_back now st (run_pooled c parse now sh st)"
proof -
  have "pool_result now (framed_answer parse (rh_src (tcp_read st))) st (run_pooled c parse now sh st)"
    unfolding run_pooled_def
  proof (rule pool_result_bind)
    fix a s
    assume "(case rq_content_length sh of
          Some n \<Rightarrow> if 0 < n then pump_n_futures_to_tokio n st else (Done (), st)
        | None \<Rightarrow> (Done (), st)) = (Done a, s)"
    then have "tcp_read s = tcp_read st"
      by (auto simp: pump_n_futures_to_tokio_def split: option.splits if_splits prod.splits)
    with relay_response_pool [of now parse s c]
    show "pool_result now (framed_answer parse (rh_src (tcp_read st))) s (relay_response c parse now s)"
      by simp
  qed (simp split: option.split)
  then show ?thesis by (simp add: pool_result_def)
qed

section \<open>What was moved, as one state update\<close>

text \<open>
  From the origin to the edge: the socket is left at \<open>src\<close>, \<open>out\<close> was written to the edge, of which
  \<open>n\<close> bytes were counted. The other direction likewise.
\<close>

definition forwarded :: "proxy_state \<Rightarrow> bytes \<Rightarrow> nat \<Rightarrow> source \<Rightarrow> proxy_state" where
  "forwarded st out n src =
     st\<lparr>tcp_read := (tcp_read st)\<lparr>rh_src := src\<rparr>,
        to_edge := (to_edge st)\<lparr>written := written (to_edge st) @ out\<rparr>,
        bytes_out := bytes_out st + of_nat n\<rparr>"

definition submitted :: "proxy_state \<Rightarrow> bytes \<Rightarrow> nat \<Rightarrow> source \<Rightarrow> proxy_state" where
  "submitted st out n src =
     st\<lparr>from_edge := src,
        tcp_write := (tcp_write st)\<lparr>wh_sink := (wh_sink (tcp_write st))
          \<lparr>written := written (wh_sink (tcp_write st)) @ out\<rparr>\<rparr>,
        bytes_in := bytes_in st + of_nat n\<rparr>"

definition edge_closed :: "proxy_state \<Rightarrow> proxy_state" where
  "edge_closed st = st\<lparr>to_edge := (to_edge st)\<lparr>is_closed := True\<rparr>\<rparr>"

definition socket_returned :: "instant \<Rightarrow> proxy_state \<Rightarrow> proxy_state" where
  "socket_returned now st =
     st\<lparr>conns := release now
          \<lparr>sock_id = rh_id (tcp_read st), sock_in = rh_src (tcp_read st), sock_out = wh_sink (tcp_write st)\<rparr>
          (conns st)\<rparr>"

lemma forwarded_forwarded [simp]:
  "forwarded (forwarded st a m src) b n src' = forwarded st (a @ b) (m + n) src'"
  by (simp add: forwarded_def add.assoc)

lemma forwarded_fields [simp]:
  "healthy (to_edge (forwarded st out n src)) = healthy (to_edge st)"
  "written (to_edge (forwarded st out n src)) = written (to_edge st) @ out"
  "bytes_out (forwarded st out n src) = bytes_out st + of_nat n"
  "tcp_write (forwarded st out n src) = tcp_write st"
  "from_edge (forwarded st out n src) = from_edge st"
  "bytes_in (forwarded st out n src) = bytes_in st"
  "conns (forwarded st out n src) = conns st"
  "rh_id (tcp_read (forwarded st out n src)) = rh_id (tcp_read st)"
  "rh_src (tcp_read (forwarded st out n src)) = src"
  "is_closed (to_edge (forwarded st out n src)) = is_closed (to_edge st)"
  by (simp_all add: forwarded_def)

lemma submitted_fields [simp]:
  "to_edge (submitted st out n src) = to_edge st"
  "bytes_out (submitted st out n src) = bytes_out st"
  "tcp_read (submitted st out n src) = tcp_read st"
  "from_edge (submitted st out n src) = src"
  "bytes_in (submitted st out n src) = bytes_in st + of_nat n"
  "conns (submitted st out n src) = conns st"
  "wh_id (tcp_write (submitted st out n src)) = wh_id (tcp_write st)"
  "healthy (wh_sink (tcp_write (submitted st out n src))) = healthy (wh_sink (tcp_write st))"
  "written (wh_sink (tcp_write (submitted st out n src))) = written (wh_sink (tcp_write st)) @ out"
  "is_closed (wh_sink (tcp_write (submitted st out n src))) = is_closed (wh_sink (tcp_write st))"
  by (simp_all add: submitted_def)

lemma submitted_submitted [simp]:
  "submitted (submitted st a m src) b n src' = submitted st (a @ b) (m + n) src'"
  by (simp add: submitted_def add.assoc)

lemma edge_closed_fields [simp]:
  "is_closed (to_edge (edge_closed st))"
  "written (to_edge (edge_closed st)) = written (to_edge st)"
  "bytes_out (edge_closed st) = bytes_out st" "bytes_in (edge_closed st) = bytes_in st"
  "tcp_read (edge_closed st) = tcp_read st" "tcp_write (edge_closed st) = tcp_write st"
  "from_edge (edge_closed st) = from_edge st" "conns (edge_closed st) = conns st"
  by (simp_all add: edge_closed_def)

lemma socket_returned_fields [simp]:
  "to_edge (socket_returned now st) = to_edge st" "from_edge (socket_returned now st) = from_edge st"
  "bytes_out (socket_returned now st) = bytes_out st" "bytes_in (socket_returned now st) = bytes_in st"
  "tcp_read (socket_returned now st) = tcp_read st" "tcp_write (socket_returned now st) = tcp_write st"
  "conns (socket_returned now st) = release now
     \<lparr>sock_id = rh_id (tcp_read st), sock_in = rh_src (tcp_read st), sock_out = wh_sink (tcp_write st)\<rparr>
     (conns st)"
  by (simp_all add: socket_returned_def)

subsection \<open>The steps as such updates\<close>

lemma on_tcp_read_forwarded:
  "f (rh_src (tcp_read st)) = (r, src) \<Longrightarrow> on_tcp_read f st = (r, forwarded st [] 0 src)"
  by (simp add: on_tcp_read_def forwarded_def)

lemma write_response_forwarded:
  "healthy (to_edge st) \<Longrightarrow>
   on_to_edge (write_connect_response c e md) st =
     (Done (), forwarded st (response_frame c e md) 0 (rh_src (tcp_read st)))"
  by (simp add: on_to_edge_def write_connect_response_healthy forwarded_def)

lemma flush_leftover_forwarded:
  "healthy (to_edge st) \<Longrightarrow>
   flush_leftover l st = (Done (), forwarded st l (length l) (rh_src (tcp_read st)))"
  by (simp add: flush_leftover_def on_to_edge_def io_simps forwarded_def)

lemma close_to_edge_closed: "healthy (to_edge st) \<Longrightarrow> close_to_edge st = (Done (), edge_closed st)"
  by (simp add: close_to_edge_def on_to_edge_def io_simps edge_closed_def)

lemma pump_n_out_forwarded:
  assumes "healthy (to_edge st)" and "avail (rh_src (tcp_read st)) = rest @ extra"
  obtains src where "(if 0 < length rest then pump_n_tokio_to_futures (length rest) st else (Done (), st))
      = (Done (), forwarded st rest (length rest) src)"
    "avail src = extra" "ending_of src = ending_of (rh_src (tcp_read st))"
proof (cases "rest = []")
  case True
  with assms(2) show thesis by (intro that [of "rh_src (tcp_read st)"]) (simp_all add: forwarded_def)
next
  case False
  have "length rest \<le> length (avail (rh_src (tcp_read st)))" using assms(2) by simp
  from pump_n_enough [OF assms(1) this, of "''tcp''" "bytes_out st"] assms(2)
  obtain src where p: "pump_n ''tcp'' (rh_src (tcp_read st)) (to_edge st) (length rest) (bytes_out st) =
      (Done (), src, (to_edge st)\<lparr>written := written (to_edge st) @ rest\<rparr>,
       bytes_out st + of_nat (length rest))"
    "avail src = extra" "ending_of src = ending_of (rh_src (tcp_read st))" by auto
  with False show thesis
    by (intro that [of src]) (simp_all add: pump_n_tokio_to_futures_def forwarded_def)
qed

lemma pump_n_in_submitted:
  assumes "healthy (wh_sink (tcp_write st))" and "avail (from_edge st) = body @ rest"
  obtains src where "(if 0 < length body then pump_n_futures_to_tokio (length body) st else (Done (), st))
      = (Done (), submitted st body (length body) src)"
    "avail src = rest" "ending_of src = ending_of (from_edge st)"
proof (cases "body = []")
  case True
  with assms(2) show thesis by (intro that [of "from_edge st"]) (simp_all add: submitted_def)
next
  case False
  have "length body \<le> length (avail (from_edge st))" using assms(2) by simp
  from pump_n_enough [OF assms(1) this, of "''source''" "bytes_in st"] assms(2)
  obtain src where p: "pump_n ''source'' (from_edge st) (wh_sink (tcp_write st)) (length body) (bytes_in st) =
      (Done (), src, (wh_sink (tcp_write st))\<lparr>written := written (wh_sink (tcp_write st)) @ body\<rparr>,
       bytes_in st + of_nat (length body))"
    "avail src = rest" "ending_of src = ending_of (from_edge st)" by auto
  with False show thesis
    by (intro that [of src]) (simp_all add: pump_n_futures_to_tokio_def submitted_def)
qed

lemma pump_out_forwarded:
  assumes "healthy (to_edge st)"
  obtains src where "pump_tokio_to_futures_counted st =
    (pump_end (ending_of (rh_src (tcp_read st))),
     forwarded st (avail (rh_src (tcp_read st))) (length (avail (rh_src (tcp_read st)))) src)"
  using pump_counted_healthy [OF assms, of "rh_src (tcp_read st)" "bytes_out st"]
  by (auto simp: pump_tokio_to_futures_counted_def forwarded_def)

lemma pump_in_submitted:
  assumes "healthy (wh_sink (tcp_write st))"
  obtains src where "pump_futures_to_tokio_counted st =
    (pump_end (ending_of (from_edge st)),
     submitted st (avail (from_edge st)) (length (avail (from_edge st))) src)"
  using pump_counted_healthy [OF assms, of "from_edge st" "bytes_in st"]
  by (auto simp: pump_futures_to_tokio_counted_def submitted_def)

section \<open>The pooled path in closed form\<close>

text \<open>The part of the body after the left-over is on the socket; its length is what remains.\<close>

lemma finish_framed_exact:
  assumes "healthy (to_edge st)" and "rh_id (tcp_read st) = wh_id (tcp_write st)"
    and "len = leftover_len + length rest" and "avail (rh_src (tcp_read st)) = rest @ extra"
  shows "\<exists>src. finish_framed now len leftover_len st =
      (Done (), socket_returned now (edge_closed (forwarded st rest (length rest) src)))
    \<and> avail src = extra \<and> ending_of src = ending_of (rh_src (tcp_read st))"
proof -
  obtain src where src: "(if 0 < length rest then pump_n_tokio_to_futures (length rest) st else (Done (), st))
      = (Done (), forwarded st rest (length rest) src)"
    "avail src = extra" "ending_of src = ending_of (rh_src (tcp_read st))"
    using pump_n_out_forwarded [OF assms(1,4)] .
  have "finish_framed now len leftover_len st =
      (Done (), socket_returned now (edge_closed (forwarded st rest (length rest) src)))"
    unfolding finish_framed_def Let_def assms(3) add_diff_cancel_left' src(1)
    using assms(1,2) by (simp add: close_to_edge_closed reunite_def socket_returned_def)
  with src(2,3) show ?thesis by blast
qed

context http_parser
begin

lemma head_off_socket:
  assumes "parse head = Inr (HComplete (length head) (Some status) hs)"
    and "avail (rh_src (tcp_read st)) = head @ rbody"
    and "length head + READ_HEAD_CHUNK \<le> MAX_HEADER_BYTES + 1"
  obtains leftover src where
    "on_tcp_read (read_http_response_head parse) st =
       (Done (status, decode_headers hs, leftover), forwarded st [] 0 src)"
    "leftover @ avail src = rbody" "ending_of src = ending_of (rh_src (tcp_read st))"
proof -
  from read_head_complete [OF assms] obtain leftover src where
    "read_http_response_head parse (rh_src (tcp_read st)) = (Done (status, decode_headers hs, leftover), src)"
    "leftover @ avail src = rbody" "ending_of src = ending_of (rh_src (tcp_read st))" by blast
  then show thesis
    using on_tcp_read_forwarded [of "read_http_response_head parse" st "Done (status, decode_headers hs, leftover)" src]
    by (intro that [of leftover src])
qed

text \<open>
  A framed answer: the edge gets the status, the headers and the body, its stream is closed, and the
  socket, drained of the answer, is back in the pool.
\<close>

lemma relay_framed:
  assumes "parse head = Inr (HComplete (length head) (Some status) hs)"
    and "avail (rh_src (tcp_read st)) = head @ rbody"
    and "length head + READ_HEAD_CHUNK \<le> MAX_HEADER_BYTES + 1"
    and "response_poolable (analyse_response status (decode_headers hs))"
    and "declared_length (decode_headers hs) = Some (length rbody)"
    and "healthy (to_edge st)" and "rh_id (tcp_read st) = wh_id (tcp_write st)"
  shows "\<exists>src. relay_response c parse now st =
    (Done (), socket_returned now (edge_closed (forwarded st
       (response_frame c '''' (response_meta status (decode_headers hs)) @ rbody) (length rbody) src)))
    \<and> avail src = [] \<and> ending_of src = ending_of (rh_src (tcp_read st))"
proof -
  obtain leftover src where h: "on_tcp_read (read_http_response_head parse) st =
       (Done (status, decode_headers hs, leftover), forwarded st [] 0 src)"
    "leftover @ avail src = rbody" "ending_of src = ending_of (rh_src (tcp_read st))"
    using head_off_socket [OF assms(1-3)] .
  have cl: "rs_content_length (analyse_response status (decode_headers hs)) = Some (length rbody)"
    using assms(5) by (simp add: analyse_response_eq response_shape_of_def)
  let ?st = "forwarded st (response_frame c '''' (response_meta status (decode_headers hs)) @ leftover)
    (length leftover) src"
  have run: "relay_response c parse now st = finish_framed now (length rbody) (length leftover) ?st"
    using assms(4,6)
    by (simp add: relay_response_def h(1) cl write_response_forwarded flush_leftover_forwarded)
  have "length rbody = length leftover + length (avail src)" using h(2) by auto
  from finish_framed_exact [of ?st, OF _ _ this, of "[]" now] assms(6,7)
  obtain src' where fin: "finish_framed now (length rbody) (length leftover) ?st =
      (Done (), socket_returned now (edge_closed (forwarded ?st (avail src) (length (avail src)) src')))"
    "avail src' = []" "ending_of src' = ending_of src"
    by auto
  with h(3) show ?thesis unfolding run by (auto simp flip: h(2))
qed

text \<open>Any other answer: relayed until the origin closes, and the socket is not kept.\<close>

lemma relay_drained:
  assumes "parse head = Inr (HComplete (length head) (Some status) hs)"
    and "avail (rh_src (tcp_read st)) = head @ rbody"
    and "length head + READ_HEAD_CHUNK \<le> MAX_HEADER_BYTES + 1"
    and "\<not> response_poolable (analyse_response status (decode_headers hs))"
    and "healthy (to_edge st)" and "ending_of (rh_src (tcp_read st)) \<noteq> AtStall"
  shows "\<exists>src. relay_response c parse now st =
    (Done (), edge_closed (forwarded st
       (response_frame c '''' (response_meta status (decode_headers hs)) @ rbody) (length rbody) src))"
proof -
  obtain leftover src where h: "on_tcp_read (read_http_response_head parse) st =
       (Done (status, decode_headers hs, leftover), forwarded st [] 0 src)"
    "leftover @ avail src = rbody" "ending_of src = ending_of (rh_src (tcp_read st))"
    using head_off_socket [OF assms(1-3)] .
  let ?st = "forwarded st (response_frame c '''' (response_meta status (decode_headers hs)) @ leftover)
    (length leftover) src"
  have run: "relay_response c parse now st = finish_drained ?st"
    using assms(4,5)
    by (simp add: relay_response_def h(1) write_response_forwarded flush_leftover_forwarded)
  from assms(5) obtain src' where "pump_tokio_to_futures_counted ?st =
      (pump_end (ending_of src), forwarded ?st (avail src) (length (avail src)) src')"
    using pump_out_forwarded [of ?st] by auto
  moreover have "pump_end (ending_of src) \<noteq> Pending"
    using assms(6) h(3) by (auto simp: pump_end_def split: ending.split)
  ultimately have "finish_drained ?st =
      (Done (), edge_closed (forwarded ?st (avail src) (length (avail src)) src'))"
    using assms(5) by (cases "pump_end (ending_of src)") (simp_all add: finish_drained_def close_to_edge_closed)
  then show ?thesis unfolding run by (auto simp flip: h(2))
qed

end

section \<open>The two pumps\<close>

definition local_closed :: "proxy_state \<Rightarrow> proxy_state" where
  "local_closed st =
     st\<lparr>tcp_write := (tcp_write st)\<lparr>wh_sink := (wh_sink (tcp_write st))\<lparr>is_closed := True\<rparr>\<rparr>\<rparr>"

lemma local_closed_fields [simp]:
  "to_edge (local_closed st) = to_edge st" "from_edge (local_closed st) = from_edge st"
  "bytes_out (local_closed st) = bytes_out st" "bytes_in (local_closed st) = bytes_in st"
  "tcp_read (local_closed st) = tcp_read st" "conns (local_closed st) = conns st"
  "wh_id (tcp_write (local_closed st)) = wh_id (tcp_write st)"
  "is_closed (wh_sink (tcp_write (local_closed st)))"
  "written (wh_sink (tcp_write (local_closed st))) = written (wh_sink (tcp_write st))"
  by (simp_all add: local_closed_def)

lemma pump_end_Pending_iff [simp]: "pump_end e = Pending \<longleftrightarrow> e = AtStall"
  by (simp add: pump_end_def split: ending.split)

text \<open>The request direction ends with the edge's side of the stream, and then closes the origin's.\<close>

lemma edge_to_local_healthy:
  assumes "healthy (wh_sink (tcp_write st))" and "ending_of (from_edge st) \<noteq> AtStall"
  obtains src where "edge_to_local st =
    (Done (), local_closed (submitted st (avail (from_edge st)) (length (avail (from_edge st))) src))"
proof -
  obtain src where src: "pump_futures_to_tokio_counted st =
    (pump_end (ending_of (from_edge st)),
     submitted st (avail (from_edge st)) (length (avail (from_edge st))) src)"
    using pump_in_submitted [OF assms(1)] .
  let ?s = "submitted st (avail (from_edge st)) (length (avail (from_edge st))) src"
  have "on_tcp_write close_sink ?s = (Done (), local_closed ?s)"
    using assms(1) by (simp add: on_tcp_write_def close_sink_healthy local_closed_def)
  with src assms(2) show thesis
    by (intro that [of src]) (cases "ending_of (from_edge st)"; simp add: edge_to_local_def pump_end_def)
qed

context http_parser
begin

lemma local_to_edge_healthy:
  assumes "parse head = Inr (HComplete (length head) (Some status) hs)"
    and "avail (rh_src (tcp_read st)) = head @ rbody"
    and "length head + READ_HEAD_CHUNK \<le> MAX_HEADER_BYTES + 1"
    and "healthy (to_edge st)"
  shows "\<exists>src. local_to_edge c parse st =
    (pump_end (ending_of (rh_src (tcp_read st))), forwarded st
       (response_frame c '''' (response_meta status (decode_headers hs)) @ rbody) (length rbody) src)"
proof -
  obtain leftover src where h: "on_tcp_read (read_http_response_head parse) st =
       (Done (status, decode_headers hs, leftover), forwarded st [] 0 src)"
    "leftover @ avail src = rbody" "ending_of src = ending_of (rh_src (tcp_read st))"
    using head_off_socket [OF assms(1-3)] .
  let ?st = "forwarded st (response_frame c '''' (response_meta status (decode_headers hs)) @ leftover)
    (length leftover) src"
  have run: "local_to_edge c parse st = pump_tokio_to_futures_counted ?st"
    using assms(4)
    by (simp add: local_to_edge_def h(1) write_response_forwarded flush_leftover_forwarded)
  from assms(4) obtain src' where "pump_tokio_to_futures_counted ?st =
      (pump_end (ending_of src), forwarded ?st (avail src) (length (avail src)) src')"
    using pump_out_forwarded [of ?st] by auto
  with h(3) show ?thesis unfolding run by (auto simp flip: h(2))
qed

text \<open>Both directions run to their ends: nothing is lost, and both far ends are closed.\<close>

lemma run_bidi_complete:
  assumes "parse head = Inr (HComplete (length head) (Some status) hs)"
    and "avail (rh_src (tcp_read st)) = head @ rbody"
    and "length head + READ_HEAD_CHUNK \<le> MAX_HEADER_BYTES + 1"
    and "healthy (to_edge st)" and "healthy (wh_sink (tcp_write st))"
    and "ending_of (from_edge st) \<noteq> AtStall" and "ending_of (rh_src (tcp_read st)) = AtEof"
  shows "\<exists>s1 s2. run_bidi c parse st =
    (Done (), edge_closed (forwarded
       (local_closed (submitted st (avail (from_edge st)) (length (avail (from_edge st))) s1))
       (response_frame c '''' (response_meta status (decode_headers hs)) @ rbody) (length rbody) s2))"
proof -
  obtain s1 where e: "edge_to_local st =
    (Done (), local_closed (submitted st (avail (from_edge st)) (length (avail (from_edge st))) s1))"
    using edge_to_local_healthy [OF assms(5,6)] .
  let ?st = "local_closed (submitted st (avail (from_edge st)) (length (avail (from_edge st))) s1)"
  from local_to_edge_healthy [OF assms(1), of ?st] assms(2-4,7) obtain s2 where
    "local_to_edge c parse ?st = (pump_end AtEof, forwarded ?st
       (response_frame c '''' (response_meta status (decode_headers hs)) @ rbody) (length rbody) s2)"
    by auto
  with e assms(4) show ?thesis
    by (auto simp: run_bidi_def pump_end_def close_to_edge_closed)
qed

end

subsection \<open>The halves of the join touch disjoint parts of the state\<close>

definition commutes :: "('s \<Rightarrow> 's) \<Rightarrow> ('s \<Rightarrow> ('e, 'a) outcome \<times> 's) \<Rightarrow> bool" where
  "commutes upd f \<longleftrightarrow> (\<forall>s. f (upd s) = map_prod id upd (f s))"

lemma commutes_bind:
  "commutes upd f \<Longrightarrow> (\<And>a. commutes upd (k a)) \<Longrightarrow> commutes upd (\<lambda>s. and_then (f s) k)"
  unfolding commutes_def
  by (auto simp: and_then_def map_prod_def split: prod.splits outcome.splits)

definition set_request_side :: "proxy_state \<Rightarrow> proxy_state \<Rightarrow> proxy_state" where
  "set_request_side d st =
     st\<lparr>from_edge := from_edge d, tcp_write := tcp_write d, bytes_in := bytes_in d, conns := conns d\<rparr>"

definition set_response_side :: "proxy_state \<Rightarrow> proxy_state \<Rightarrow> proxy_state" where
  "set_response_side d st =
     st\<lparr>tcp_read := tcp_read d, to_edge := to_edge d, bytes_out := bytes_out d, conns := conns d\<rparr>"

lemma response_steps_commute:
  "commutes (set_request_side d) (on_tcp_read f)"
  "commutes (set_request_side d) (on_to_edge g)"
  "commutes (set_request_side d) (flush_leftover l)"
  "commutes (set_request_side d) pump_tokio_to_futures_counted"
  by (auto simp: commutes_def on_tcp_read_def on_to_edge_def flush_leftover_def set_request_side_def
      pump_tokio_to_futures_counted_def and_then_def split: prod.splits outcome.splits)

lemma local_to_edge_commutes: "commutes (set_request_side d) (local_to_edge c parse)"
proof -
  have "commutes (set_request_side d) (\<lambda>st. and_then (on_tcp_read (read_http_response_head parse) st)
      (\<lambda>h st. and_then (on_to_edge (write_connect_response c [] (response_meta (fst h) (fst (snd h)))) st)
      (\<lambda>_ st. and_then (flush_leftover (snd (snd h)) st) (\<lambda>_ st. pump_tokio_to_futures_counted st))))"
    by (intro commutes_bind response_steps_commute)
  then show ?thesis by (simp add: commutes_def local_to_edge_def case_prod_unfold)
qed

lemma edge_to_local_commutes: "commutes (set_response_side d) edge_to_local"
  by (auto simp: commutes_def edge_to_local_def pump_futures_to_tokio_counted_def on_tcp_write_def
      set_response_side_def split: prod.splits outcome.splits)

text \<open>A step that commutes with overwriting one side of the state leaves that side alone.\<close>

lemma commutes_keeps:
  assumes "commutes upd f" and "upd s = s"
  shows "upd (snd (f s)) = snd (f s)"
  using assms unfolding commutes_def by (metis snd_map_prod)

lemma local_to_edge_keeps: "set_request_side st (snd (local_to_edge c parse st)) = snd (local_to_edge c parse st)"
  by (rule commutes_keeps [OF local_to_edge_commutes]) (simp add: set_request_side_def)

lemma edge_to_local_keeps: "set_response_side st (snd (edge_to_local st)) = snd (edge_to_local st)"
  by (rule commutes_keeps [OF edge_to_local_commutes]) (simp add: set_response_side_def)

lemma sides_swap: "set_response_side st s = s \<Longrightarrow> set_request_side s st = s"
proof -
  have "set_request_side (set_response_side st s) st = set_response_side st s"
    by (rule proxy_state.equality) (simp_all add: set_request_side_def set_response_side_def)
  then show "set_response_side st s = s \<Longrightarrow> set_request_side s st = s" by simp
qed

lemma sides_swap': "set_request_side st s = s \<Longrightarrow> set_response_side s st = s"
proof -
  have "set_response_side (set_request_side st s) st = set_request_side st s"
    by (rule proxy_state.equality) (simp_all add: set_request_side_def set_response_side_def)
  then show "set_request_side st s = s \<Longrightarrow> set_response_side s st = s" by simp
qed

lemma sides_meet:
  assumes "set_response_side st s = s" and "set_request_side st t = t"
  shows "set_request_side s t = set_response_side t s"
proof -
  have "set_request_side (set_response_side st s) (set_request_side st t)
      = set_response_side (set_request_side st t) (set_response_side st s)"
    by (rule proxy_state.equality) (simp_all add: set_request_side_def set_response_side_def)
  with assms show ?thesis by simp
qed

text \<open>So either half of the join may be scheduled first: results and final state are the same.\<close>

lemma join_order:
  "fst (local_to_edge c parse (snd (edge_to_local st))) = fst (local_to_edge c parse st)"
  "fst (edge_to_local (snd (local_to_edge c parse st))) = fst (edge_to_local st)"
  "snd (local_to_edge c parse (snd (edge_to_local st))) = snd (edge_to_local (snd (local_to_edge c parse st)))"
proof -
  let ?e = "edge_to_local" and ?l = "local_to_edge c parse"
  have e: "snd (?e st) = set_request_side (snd (?e st)) st"
    using edge_to_local_keeps [of st] by (simp add: sides_swap)
  have l: "snd (?l st) = set_response_side (snd (?l st)) st"
    using local_to_edge_keeps [of st c parse] by (simp add: sides_swap')
  have le: "?l (snd (?e st)) = map_prod id (set_request_side (snd (?e st))) (?l st)"
    using local_to_edge_commutes [of "snd (?e st)" c parse] e unfolding commutes_def by metis
  have el: "?e (snd (?l st)) = map_prod id (set_response_side (snd (?l st))) (?e st)"
    using edge_to_local_commutes [of "snd (?l st)"] l unfolding commutes_def by metis
  show "fst (?l (snd (?e st))) = fst (?l st)" by (simp add: le)
  show "fst (?e (snd (?l st))) = fst (?e st)" by (simp add: el)
  have "set_request_side (snd (?e st)) (snd (?l st)) = set_response_side (snd (?l st)) (snd (?e st))"
    by (rule sides_meet [OF edge_to_local_keeps local_to_edge_keeps])
  then show "snd (?l (snd (?e st))) = snd (?e (snd (?l st)))" by (simp add: le el)
qed

section \<open>A whole HTTP request\<close>

definition request_body_length :: "connect_request \<Rightarrow> nat" where
  "request_body_length req =
     (case declared_length (request_headers req) of Some n \<Rightarrow> n | None \<Rightarrow> 0)"

lemma on_tcp_write_submitted:
  "healthy (wh_sink (tcp_write st)) \<Longrightarrow>
   on_tcp_write (\<lambda>k. io_err g (write_all bs k)) st = (Done (), submitted st bs 0 (from_edge st))"
  by (simp add: on_tcp_write_def submitted_def io_simps)

lemma run_pooled_body:
  assumes "healthy (wh_sink (tcp_write st))" and "avail (from_edge st) = body @ rest"
    and "length body = request_body_length req"
  obtains src where "run_pooled c parse now (analyse_request req) st =
      relay_response c parse now (submitted st body (length body) src)"
    "avail src = rest" "ending_of src = ending_of (from_edge st)"
proof -
  obtain src where src: "(if 0 < length body then pump_n_futures_to_tokio (length body) st else (Done (), st))
      = (Done (), submitted st body (length body) src)"
    "avail src = rest" "ending_of src = ending_of (from_edge st)"
    using pump_n_in_submitted [OF assms(1,2)] .
  have "(case rq_content_length (analyse_request req) of
          Some n \<Rightarrow> if 0 < n then pump_n_futures_to_tokio n st else (Done (), st)
        | None \<Rightarrow> (Done (), st)) = (Done (), submitted st body (length body) src)"
    using src(1) assms(3)
    by (auto simp: analyse_request_eq request_shape_of_def request_body_length_def split: option.splits)
  with src(2,3) show thesis by (intro that [of src]) (simp_all add: run_pooled_def)
qed

context http_parser
begin

text \<open>
  A request and an answer that both announce their lengths: the origin is sent the head with
  keep-alive and exactly the body, and the edge gets the framed answer.
\<close>

lemma serve_http_framed:
  assumes "request_poolable (analyse_request req)"
    and "avail (from_edge st) = body @ rest" and "length body = request_body_length req"
    and "parse head = Inr (HComplete (length head) (Some status) hs)"
    and "avail (rh_src (tcp_read st)) = head @ rbody"
    and "length head + READ_HEAD_CHUNK \<le> MAX_HEADER_BYTES + 1"
    and "response_poolable (analyse_response status (decode_headers hs))"
    and "declared_length (decode_headers hs) = Some (length rbody)"
    and "healthy (to_edge st)" and "healthy (wh_sink (tcp_write st))"
    and "rh_id (tcp_read st) = wh_id (tcp_write st)"
  shows "\<exists>s1 s2. serve_http c parse now req st =
    (Done (), socket_returned now (edge_closed (forwarded
       (submitted st (build_request_head req True @ body) (length body) s1)
       (response_frame c '''' (response_meta status (decode_headers hs)) @ rbody) (length rbody) s2)))
    \<and> avail s1 = rest \<and> avail s2 = [] \<and> ending_of s2 = ending_of (rh_src (tcp_read st))"
proof -
  let ?h = "submitted st (build_request_head req True) 0 (from_edge st)"
  have a: "healthy (wh_sink (tcp_write ?h))" "avail (from_edge ?h) = body @ rest"
    using assms(2,10) by simp_all
  obtain s1 where s1: "run_pooled c parse now (analyse_request req) ?h =
      relay_response c parse now (submitted ?h body (length body) s1)"
    "avail s1 = rest" using run_pooled_body [OF a assms(3)] .
  let ?s = "submitted st (build_request_head req True @ body) (length body) s1"
  have b: "avail (rh_src (tcp_read ?s)) = head @ rbody" "healthy (to_edge ?s)"
    "rh_id (tcp_read ?s) = wh_id (tcp_write ?s)"
    using assms(5,9,11) by simp_all
  from relay_framed [OF assms(4) b(1) assms(6-8) b(2,3)] obtain s2 where s2:
    "relay_response c parse now ?s =
    (Done (), socket_returned now (edge_closed (forwarded ?s
       (response_frame c '''' (response_meta status (decode_headers hs)) @ rbody) (length rbody) s2)))"
    "avail s2 = []" "ending_of s2 = ending_of (rh_src (tcp_read st))" by auto
  have "serve_http c parse now req st =
    (Done (), socket_returned now (edge_closed (forwarded ?s
       (response_frame c '''' (response_meta status (decode_headers hs)) @ rbody) (length rbody) s2)))"
    using assms(1,10) s1(1) s2(1) by (simp add: serve_http_def Let_def on_tcp_write_submitted)
  with s1(2) s2(2,3) show ?thesis by blast
qed

text \<open>Every other request takes the two pumps, with a head that asks the origin to close.\<close>

lemma serve_http_bidi:
  assumes "\<not> request_poolable (analyse_request req)"
    and "parse head = Inr (HComplete (length head) (Some status) hs)"
    and "avail (rh_src (tcp_read st)) = head @ rbody"
    and "length head + READ_HEAD_CHUNK \<le> MAX_HEADER_BYTES + 1"
    and "healthy (to_edge st)" and "healthy (wh_sink (tcp_write st))"
    and "ending_of (from_edge st) \<noteq> AtStall" and "ending_of (rh_src (tcp_read st)) = AtEof"
  shows "\<exists>s1 s2. serve_http c parse now req st =
    (Done (), edge_closed (forwarded
       (local_closed (submitted st (build_request_head req False @ avail (from_edge st))
          (length (avail (from_edge st))) s1))
       (response_frame c '''' (response_meta status (decode_headers hs)) @ rbody) (length rbody) s2))"
proof -
  let ?h = "submitted st (build_request_head req False) 0 (from_edge st)"
  have "serve_http c parse now req st = run_bidi c parse ?h"
    using assms(1,6) by (simp add: serve_http_def Let_def on_tcp_write_submitted)
  with run_bidi_complete [OF assms(2), of ?h rbody c] assms(3-8) show ?thesis by simp
qed

end

section \<open>Getting a socket\<close>

lemma with_tcp_fields [simp]:
  "from_edge (with_tcp st s) = from_edge st" "to_edge (with_tcp st s) = to_edge st"
  "bytes_in (with_tcp st s) = bytes_in st" "bytes_out (with_tcp st s) = bytes_out st"
  "conns (with_tcp st s) = conns st"
  "tcp_read (with_tcp st s) = \<lparr>rh_id = sock_id s, rh_src = sock_in s\<rparr>"
  "tcp_write (with_tcp st s) = \<lparr>wh_id = sock_id s, wh_sink = sock_out s\<rparr>"
  by (simp_all add: with_tcp_def into_split_def edge_state.defs)

lemma truncate_fields [simp]:
  "from_edge (edge_state.truncate st) = from_edge st" "to_edge (edge_state.truncate st) = to_edge st"
  "bytes_in (edge_state.truncate st) = bytes_in st" "bytes_out (edge_state.truncate st) = bytes_out st"
  "conns (edge_state.truncate st) = conns st"
  by (simp_all add: edge_state.defs)

lemma proxy_http_socket:
  assumes "acquire_fut clock connect (conns st) = (Ready t (Inr s), pool)" and "t \<le> LOCAL_CONNECT_TIMEOUT"
  shows "proxy_http c parse clock now connect req st =
    (case serve_http c parse now req (with_tcp (st\<lparr>conns := pool\<rparr>) s) of
       (r, st') \<Rightarrow> (r, edge_state.truncate st', Some (tcp_read st', tcp_write st')))"
  using assms by (simp add: proxy_http_def timeout_def)

text \<open>A refused or an unanswered connect becomes an error response on the edge's stream.\<close>

lemma proxy_http_refused:
  assumes "acquire_fut clock connect (conns st) = (Ready t (Inl e), pool)" and "t \<le> LOCAL_CONNECT_TIMEOUT"
    and "healthy (to_edge st)"
  shows "proxy_http c parse clock now connect req st =
    (Done (), st\<lparr>conns := pool, to_edge := (to_edge st)\<lparr>written := written (to_edge st)
       @ response_frame c (''local connect: '' @ e) [(HTTP_STATUS_KEY, ''502'')]\<rparr>\<rparr>, None)"
proof -
  have "dec 502 = ''502''" by code_simp
  with assms show ?thesis
    by (simp add: proxy_http_def timeout_def on_to_edge_def write_error_response_def
        write_connect_response_healthy)
qed

lemma proxy_http_timed_out:
  assumes "acquire_fut clock connect (conns st) = (fut, pool)"
    and "\<And>t r. fut = Ready t r \<Longrightarrow> LOCAL_CONNECT_TIMEOUT < t" and "healthy (to_edge st)"
  shows "proxy_http c parse clock now connect req st =
    (Done (), st\<lparr>conns := pool, to_edge := (to_edge st)\<lparr>written := written (to_edge st)
       @ response_frame c ''local connect timed out'' [(HTTP_STATUS_KEY, ''504'')]\<rparr>\<rparr>, None)"
proof -
  have "dec 504 = ''504''" by code_simp
  moreover have "timeout LOCAL_CONNECT_TIMEOUT fut = None"
    using assms(2) by (cases fut) (auto simp: timeout_def)
  ultimately show ?thesis using assms(1,3)
    by (simp add: proxy_http_def on_to_edge_def write_error_response_def write_connect_response_healthy)
qed

section \<open>Responses whose announced length is wrong\<close>

text \<open>The part of a framed answer beyond its announced length that came with the head is sent on too.\<close>

lemma finish_framed_overrun:
  assumes "healthy (to_edge st)" and "rh_id (tcp_read st) = wh_id (tcp_write st)" and "len \<le> leftover_len"
  shows "finish_framed now len leftover_len st = (Done (), socket_returned now (edge_closed st))"
  using assms by (simp add: finish_framed_def close_to_edge_closed reunite_def socket_returned_def)

lemma read_head_one_chunk:
  assumes "parse (head @ extra) = Inr (HComplete (length head) (Some status) hs)"
    and "length (head @ extra) \<le> READ_HEAD_CHUNK" and "head \<noteq> []"
  shows "read_http_response_head parse (Data (head @ extra) # src) = (Done (status, decode_headers hs, extra), src)"
proof -
  have "length (head @ extra) \<le> MAX_HEADER_BYTES"
    using assms(2) by (simp add: READ_HEAD_CHUNK_def MAX_HEADER_BYTES_def)
  with assms show ?thesis
    by (simp add: read_http_response_head_def read_head_loop.simps [of parse "[]"] judge_head_complete)
qed

lemma relay_overrun:
  assumes "parse (head @ extra) = Inr (HComplete (length head) (Some status) hs)" and "head \<noteq> []"
    and "rh_src (tcp_read st) = Data (head @ extra) # src" and "length (head @ extra) \<le> READ_HEAD_CHUNK"
    and "response_poolable (analyse_response status (decode_headers hs))"
    and "declared_length (decode_headers hs) = Some len" and "len \<le> length extra"
    and "healthy (to_edge st)" and "rh_id (tcp_read st) = wh_id (tcp_write st)"
  shows "relay_response c parse now st =
    (Done (), socket_returned now (edge_closed (forwarded st
       (response_frame c '''' (response_meta status (decode_headers hs)) @ extra) (length extra) src)))"
proof -
  have "read_http_response_head parse (rh_src (tcp_read st)) = (Done (status, decode_headers hs, extra), src)"
    unfolding assms(3) using assms(1,2,4) by (intro read_head_one_chunk)
  from on_tcp_read_forwarded [of "read_http_response_head parse" st, OF this] have h: "on_tcp_read (read_http_response_head parse) st =
      (Done (status, decode_headers hs, extra), forwarded st [] 0 src)" .
  have cl: "rs_content_length (analyse_response status (decode_headers hs)) = Some len"
    using assms(6) by (simp add: analyse_response_eq response_shape_of_def)
  show ?thesis
    using assms(5,7-9)
    by (simp add: relay_response_def h cl write_response_forwarded flush_leftover_forwarded
        finish_framed_overrun)
qed

text \<open>A framed answer that stops short of its announced length leaves the stream open.\<close>

lemma pump_n_out_short:
  assumes "healthy (to_edge st)" and "length (avail (rh_src (tcp_read st))) < n"
    and "ending_of (rh_src (tcp_read st)) = AtStall"
  obtains src where "pump_n_tokio_to_futures n st =
    (Pending, forwarded st (avail (rh_src (tcp_read st))) (length (avail (rh_src (tcp_read st)))) src)"
  using pump_n_short [OF assms(1,2), of "''tcp''" "bytes_out st"] assms(3)
  by (auto simp: pump_n_tokio_to_futures_def pump_n_end_def forwarded_def)

lemma relay_short:
  assumes "http_parser parse" and "parse head = Inr (HComplete (length head) (Some status) hs)"
    and "avail (rh_src (tcp_read st)) = head @ rbody"
    and "length head + READ_HEAD_CHUNK \<le> MAX_HEADER_BYTES + 1"
    and "response_poolable (analyse_response status (decode_headers hs))"
    and "declared_length (decode_headers hs) = Some len" and "length rbody < len"
    and "ending_of (rh_src (tcp_read st)) = AtStall" and "healthy (to_edge st)"
  shows "\<exists>src. relay_response c parse now st = (Pending, forwarded st
       (response_frame c '''' (response_meta status (decode_headers hs)) @ rbody) (length rbody) src)"
proof -
  obtain leftover src where h: "on_tcp_read (read_http_response_head parse) st =
       (Done (status, decode_headers hs, leftover), forwarded st [] 0 src)"
    "leftover @ avail src = rbody" "ending_of src = ending_of (rh_src (tcp_read st))"
    using http_parser.head_off_socket [OF assms(1-4)] .
  have cl: "rs_content_length (analyse_response status (decode_headers hs)) = Some len"
    using assms(6) by (simp add: analyse_response_eq response_shape_of_def)
  let ?st = "forwarded st (response_frame c '''' (response_meta status (decode_headers hs)) @ leftover)
    (length leftover) src"
  have run: "relay_response c parse now st = finish_framed now len (length leftover) ?st"
    using assms(5,9)
    by (simp add: relay_response_def h(1) cl write_response_forwarded flush_leftover_forwarded)
  have short: "healthy (to_edge ?st)" "length (avail (rh_src (tcp_read ?st))) < len - length leftover"
    "ending_of (rh_src (tcp_read ?st)) = AtStall"
    using assms(7-9) h(2,3) by auto
  obtain src' where "pump_n_tokio_to_futures (len - length leftover) ?st =
      (Pending, forwarded ?st (avail src) (length (avail src)) src')"
    using pump_n_out_short [OF short] by auto
  moreover have "0 < len - length leftover" using short(2) by simp
  ultimately have "finish_framed now len (length leftover) ?st =
      (Pending, forwarded ?st (avail src) (length (avail src)) src')"
    by (simp add: finish_framed_def)
  then show ?thesis unfolding run by (auto simp flip: h(2))
qed

section \<open>Which requests touch the pool\<close>

lemma same_socket_bind: "same_socket st (snd m) \<Longrightarrow> (\<And>a s. m = (Done a, s) \<Longrightarrow> same_socket s (snd (k a s))) \<Longrightarrow>
   same_socket st (snd (and_then m k))"
  by (cases m; cases "fst m") (auto simp: same_socket_def)

lemma same_socket_edge_to_local: "same_socket st (snd (edge_to_local st))"
  by (auto simp: edge_to_local_def pump_futures_to_tokio_counted_def on_tcp_write_def same_socket_def
      split: prod.splits outcome.splits)

lemma same_socket_local_to_edge: "same_socket st (snd (local_to_edge c parse st))"
  unfolding local_to_edge_def
  by (rule same_socket_bind, simp, clarsimp) (intro same_socket_bind, simp_all)

lemma run_bidi_pool: "conns (snd (run_bidi c parse st)) = conns st"
proof -
  obtain r1 s1 r2 s2 where r: "edge_to_local st = (r1, s1)" "local_to_edge c parse s1 = (r2, s2)"
    by (metis surj_pair)
  have "same_socket s2 (snd (and_then (r2, s2) (\<lambda>_ st. close_to_edge st)))"
    by (rule same_socket_bind) simp_all
  then show ?thesis
    using same_socket_edge_to_local [of st] same_socket_local_to_edge [of s1 c parse] r
    by (auto simp: run_bidi_def same_socket_def)
qed

section \<open>Properties\<close>

text \<open>Serving a request changes the pool in one case only: the request left the socket reusable, the
  origin's answer had a known end, the request ended well and the edge's stream is closed. Then the
  very socket of the request goes back, in the state in which it was left.\<close>

theorem socket_kept_only_after_framed_answer:
  "conns (snd (serve_http c parse now req st)) = conns st
   \<or> request_poolable (analyse_request req) \<and> framed_answer parse (rh_src (tcp_read st))
     \<and> pooled_back now st (serve_http c parse now req st)"
proof -
  let ?ok = "request_poolable (analyse_request req) \<and> framed_answer parse (rh_src (tcp_read st))"
  have "pool_result now ?ok st (serve_http c parse now req st)"
    unfolding serve_http_def Let_def
  proof (rule pool_result_bind)
    fix a s
    assume "on_tcp_write (\<lambda>k. io_err (\<lambda>e. Internal (''tcp write head: '' @ e))
      (write_all (build_request_head req (request_poolable (analyse_request req))) k)) st = (Done a, s)"
    then have "tcp_read s = tcp_read st" by (auto simp: on_tcp_write_def split: prod.splits)
    then show "pool_result now ?ok s (if request_poolable (analyse_request req)
        then run_pooled c parse now (analyse_request req) s else run_bidi c parse s)"
      using run_pooled_pool [of c parse now "analyse_request req" s] run_bidi_pool [of c parse s]
      by (auto simp: pool_result_def)
  qed (simp add: on_tcp_write_def same_socket_def split: prod.split)
  then show ?thesis by (simp add: pool_result_def)
qed

text \<open>The two directions of the two-pump path work on disjoint parts of the state: in whichever order
  they are run, their results and the final state are the same.\<close>

theorem join_order_irrelevant:
  "fst (local_to_edge c parse (snd (edge_to_local st))) = fst (local_to_edge c parse st)
   \<and> fst (edge_to_local (snd (local_to_edge c parse st))) = fst (edge_to_local st)
   \<and> snd (local_to_edge c parse (snd (edge_to_local st))) = snd (edge_to_local (snd (local_to_edge c parse st)))"
  using join_order by blast

definition sample_edge :: "source \<Rightarrow> edge_state" where
  "sample_edge src =
     \<lparr>from_edge = src, to_edge = open_sink, bytes_in = 0, bytes_out = 0, conns = pool_new 80\<rparr>"

definition sample_socket :: "source \<Rightarrow> tcp_stream" where
  "sample_socket src = \<lparr>sock_id = 1, sock_in = src, sock_out = open_sink\<rparr>"

lemma sample_edge_fields [simp]:
  "from_edge (sample_edge src) = src" "to_edge (sample_edge src) = open_sink"
  "bytes_in (sample_edge src) = 0" "bytes_out (sample_edge src) = 0" "conns (sample_edge src) = pool_new 80"
  by (simp_all add: sample_edge_def)

lemma sample_socket_fields [simp]:
  "sock_id (sample_socket src) = 1" "sock_in (sample_socket src) = src" "sock_out (sample_socket src) = open_sink"
  by (simp_all add: sample_socket_def)

lemma acquire_fut_new: "acquire_fut clock connect (pool_new port) = (connect port, pool_new port)"
  by (simp add: acquire_fut_def pool_new_def acquire_loop.simps)

lemma open_sink_fields [simp]: "written open_sink = []" "\<not> is_closed open_sink"
  by (simp_all add: open_sink_def)

text \<open>C30: When the origin refuses the connection or does not answer within five seconds, the edge is told with
  a 502 or a 504 response that carries the reason; nothing else of the stream is touched and the pool
  has only lost what the acquire dropped.\<close>

theorem connect_failures_reported:
  assumes "acquire_fut clock connect (conns st) = (fut, pool)" and "healthy (to_edge st)"
  shows "(fut = Ready t (Inl e) \<and> t \<le> from_secs 5 \<longrightarrow>
      proxy_http c parse clock now connect req st =
        (Done (), st\<lparr>conns := pool, to_edge := (to_edge st)\<lparr>written := written (to_edge st)
           @ response_frame c (''local connect: '' @ e) [(HTTP_STATUS_KEY, ''502'')]\<rparr>\<rparr>, None))
    \<and> (fut = Never \<or> (\<exists>t r. fut = Ready t r \<and> from_secs 5 < t) \<longrightarrow>
      proxy_http c parse clock now connect req st =
        (Done (), st\<lparr>conns := pool, to_edge := (to_edge st)\<lparr>written := written (to_edge st)
           @ response_frame c ''local connect timed out'' [(HTTP_STATUS_KEY, ''504'')]\<rparr>\<rparr>, None))"
proof (intro conjI impI)
  assume f: "fut = Ready t (Inl e) \<and> t \<le> from_secs 5"
  with assms(1) have "acquire_fut clock connect (conns st) = (Ready t (Inl e), pool)" by simp
  with f assms(2) show "proxy_http c parse clock now connect req st =
        (Done (), st\<lparr>conns := pool, to_edge := (to_edge st)\<lparr>written := written (to_edge st)
           @ response_frame c (''local connect: '' @ e) [(HTTP_STATUS_KEY, ''502'')]\<rparr>\<rparr>, None)"
    by (intro proxy_http_refused [where t = t]) (simp_all add: LOCAL_CONNECT_TIMEOUT_def)
next
  assume "fut = Never \<or> (\<exists>t r. fut = Ready t r \<and> from_secs 5 < t)"
  then show "proxy_http c parse clock now connect req st =
        (Done (), st\<lparr>conns := pool, to_edge := (to_edge st)\<lparr>written := written (to_edge st)
           @ response_frame c ''local connect timed out'' [(HTTP_STATUS_KEY, ''504'')]\<rparr>\<rparr>, None)"
    by (intro proxy_http_timed_out [OF assms(1) _ assms(2)]) (auto simp: LOCAL_CONNECT_TIMEOUT_def)
qed

theorem connect_failures_reported_witness:
  "written (to_edge (fst (snd (proxy_http tree_api ref_parse (\<lambda>_. 0) 0 (\<lambda>_. Ready 0 (Inl ''refused''))
      sample_request (sample_edge []))))) = response_frame tree_api ''local connect: refused'' [(HTTP_STATUS_KEY, ''502'')]
   \<and> written (to_edge (fst (snd (proxy_http tree_api ref_parse (\<lambda>_. 0) 0 (\<lambda>_. Never)
      sample_request (sample_edge []))))) = response_frame tree_api ''local connect timed out'' [(HTTP_STATUS_KEY, ''504'')]"
  using connect_failures_reported [of "\<lambda>_. 0" "\<lambda>_. Ready 0 (Inl ''refused'')" "sample_edge []" _ _ 0 "''refused''"
      tree_api ref_parse 0 sample_request]
    connect_failures_reported [of "\<lambda>_. 0" "\<lambda>_. Never" "sample_edge []" _ _ 0 "[]" tree_api ref_parse 0 sample_request]
  by (simp add: acquire_fut_new)

text \<open>C37: An origin that sends more than it announced, together with its head, has all of it forwarded to the
  edge, and its socket is still taken back into the pool.\<close>

theorem overrun_forwarded_and_pooled:
  assumes "parse (head @ extra) = Inr (HComplete (length head) (Some status) hs)" and "head \<noteq> []"
    and "rh_src (tcp_read st) = Data (head @ extra) # src" and "length (head @ extra) \<le> READ_HEAD_CHUNK"
    and "response_poolable (analyse_response status (decode_headers hs))"
    and "declared_length (decode_headers hs) = Some len" and "len < length extra"
    and "healthy (to_edge st)" and "rh_id (tcp_read st) = wh_id (tcp_write st)"
  shows "\<exists>st'. relay_response c parse now st = (Done (), st')
    \<and> written (to_edge st') = written (to_edge st)
        @ response_frame c '''' (response_meta status (decode_headers hs)) @ extra
    \<and> bytes_out st' = bytes_out st + of_nat (length extra)
    \<and> conns st' = release now
        \<lparr>sock_id = rh_id (tcp_read st), sock_in = src, sock_out = wh_sink (tcp_write st)\<rparr> (conns st)"
  using relay_overrun [of parse head extra status hs st src len c now] assms by simp

lemma sample_shape:
  "declared_length [(''Content-Length'', ''2'')] = Some 2"
  "response_poolable (analyse_response 200 [(''Content-Length'', ''2'')])"
proof -
  have n: "parse_u64 ''2'' = Some 2" by (simp add: parse_u64_def is_digit_def digit_val_def)
  have lc: "to_ascii_lowercase ''Content-Length'' = ''content-length''"
    by (simp add: to_ascii_lowercase_def ascii_lower_def) code_simp
  show d: "declared_length [(''Content-Length'', ''2'')] = Some 2"
    by (simp add: declared_length_def header_is_def lc n)
  show "response_poolable (analyse_response 200 [(''Content-Length'', ''2'')])"
    by (simp add: response_poolable_iff d asks_chunked_def asks_upgrade_def asks_close_def header_has_def
        header_is_def lc)
qed

theorem overrun_forwarded_and_pooled_witness:
  "\<exists>st'. relay_response tree_api ref_parse 5
      (with_tcp (sample_edge []) (sample_socket [Data (sample_head @ ''high'')])) = (Done (), st')
    \<and> bytes_out st' = 4 \<and> length (idle (conns st')) = 1"
proof -
  have "ref_parse (sample_head @ ''high'') = Inr (HComplete (length sample_head) (Some 200) [(''Content-Length'', ''2'')])"
    using ref_http.stable [OF sample_head_parsed, of "''high''"] by simp
  moreover have "sample_head \<noteq> []" by (simp add: sample_head_def)
  ultimately have "\<exists>st'. relay_response tree_api ref_parse 5
      (with_tcp (sample_edge []) (sample_socket [Data (sample_head @ ''high'')])) = (Done (), st')
    \<and> bytes_out st' = of_nat 4
    \<and> conns st' = release 5 \<lparr>sock_id = 1, sock_in = [], sock_out = open_sink\<rparr> (pool_new 80)"
    using overrun_forwarded_and_pooled [of ref_parse sample_head "''high''" 200 "[(''Content-Length'', ''2'')]"
      "with_tcp (sample_edge []) (sample_socket [Data (sample_head @ ''high'')])" "[]" 2 tree_api 5]
    by (auto simp: sample_shape READ_HEAD_CHUNK_def)
  then show ?thesis by (auto simp: release_def pool_new_def DEFAULT_MAX_IDLE_def)
qed

lemma sample_head_nonempty [simp]: "sample_head \<noteq> []"
  by (simp add: sample_head_def)

text \<open>C31: A plain TCP stream is relayed both ways without loss once it has been answered with an empty response.
  The end of the edge's side alone is not passed on: while the origin keeps its side open and silent the
  stream is not over, and the origin's socket has not been shut down.\<close>

theorem tcp_stream_relayed:
  assumes "connect port = Ready t (Inr s)" and "healthy (to_edge st)" and "healthy (sock_out s)"
    and "ending_of (from_edge st) \<noteq> AtStall"
  shows "\<exists>st' r w. proxy_tcp c connect port st =
      (if ending_of (sock_in s) = AtStall then Pending else Done (), st', Some (r, w))
    \<and> written (wh_sink w) = written (sock_out s) @ avail (from_edge st)
    \<and> written (to_edge st') = written (to_edge st) @ response_frame c '''' [] @ avail (sock_in s)
    \<and> bytes_in st' = bytes_in st + of_nat (length (avail (from_edge st)))
    \<and> bytes_out st' = bytes_out st + of_nat (length (avail (sock_in s)))
    \<and> is_closed (wh_sink w) = is_closed (sock_out s) \<and> conns st' = conns st"
proof -
  let ?p = "forwarded (with_tcp st s) (response_frame c [] []) 0 (sock_in s)"
  have w: "on_to_edge (write_connect_response c [] []) (with_tcp st s) = (Done (), ?p)"
    using write_response_forwarded [of "with_tcp st s" c "[]" "[]"] assms(2) by simp
  have "healthy (wh_sink (tcp_write ?p))" using assms(3) by simp
  from pump_in_submitted [OF this] obtain s1 where s1: "pump_futures_to_tokio_counted ?p =
    (pump_end (ending_of (from_edge st)), submitted ?p (avail (from_edge st)) (length (avail (from_edge st))) s1)"
    by auto
  let ?q = "submitted ?p (avail (from_edge st)) (length (avail (from_edge st))) s1"
  have "healthy (to_edge ?q)" using assms(2) by simp
  from pump_out_forwarded [OF this] obtain s2 where s2: "pump_tokio_to_futures_counted ?q =
    (pump_end (ending_of (sock_in s)), forwarded ?q (avail (sock_in s)) (length (avail (sock_in s))) s2)"
    by auto
  have "proxy_tcp c connect port st =
    (let x = forwarded ?q (avail (sock_in s)) (length (avail (sock_in s))) s2
     in (if ending_of (sock_in s) = AtStall then Pending else Done (), edge_state.truncate x, Some (tcp_read x, tcp_write x)))"
    using assms(1,4) by (simp add: proxy_tcp_def w s1 s2 Let_def)
  then show ?thesis by (simp add: Let_def)
qed

theorem tcp_stream_relayed_witness:
  "(\<exists>st' r w. proxy_tcp tree_api (\<lambda>_. Ready 0 (Inr (sample_socket [Data ''pong'', Stall]))) 80 (sample_edge [Data ''ping''])
      = (Pending, st', Some (r, w)) \<and> written (wh_sink w) = ''ping'' \<and> \<not> is_closed (wh_sink w))"
  using tcp_stream_relayed [of "\<lambda>_. Ready 0 (Inr (sample_socket [Data ''pong'', Stall]))" 80 0
      "sample_socket [Data ''pong'', Stall]" "sample_edge [Data ''ping'']" tree_api]
  by auto

text \<open>C38: A reusable answer of which fewer body bytes come than it announced, on a connection that stays open
  (an answer to HEAD, a 304), is relayed as far as it goes and then the stream neither ends nor is closed,
  and the socket does not return to the pool: no deadline bounds it.\<close>

theorem short_framed_answer_hangs:
  assumes "http_parser parse" and "parse head = Inr (HComplete (length head) (Some status) hs)"
    and "avail (rh_src (tcp_read st)) = head @ rbody"
    and "length head + READ_HEAD_CHUNK \<le> MAX_HEADER_BYTES + 1"
    and "response_poolable (analyse_response status (decode_headers hs))"
    and "declared_length (decode_headers hs) = Some len" and "length rbody < len"
    and "ending_of (rh_src (tcp_read st)) = AtStall" and "healthy (to_edge st)"
  shows "\<exists>st'. relay_response c parse now st = (Pending, st')
    \<and> written (to_edge st') = written (to_edge st)
        @ response_frame c '''' (response_meta status (decode_headers hs)) @ rbody
    \<and> is_closed (to_edge st') = is_closed (to_edge st) \<and> conns st' = conns st"
  using relay_short [OF assms, of c now] by auto

theorem short_framed_answer_hangs_witness:
  "\<exists>st'. relay_response tree_api ref_parse 5
      (with_tcp (sample_edge []) (sample_socket [Data sample_head, Stall])) = (Pending, st')
    \<and> \<not> is_closed (to_edge st')"
  using short_framed_answer_hangs [OF ref_http.http_parser_axioms sample_head_parsed,
      of "with_tcp (sample_edge []) (sample_socket [Data sample_head, Stall])" "[]" 2 tree_api 5]
  by (auto simp: sample_shape READ_HEAD_CHUNK_def MAX_HEADER_BYTES_def simp del: One_nat_def)

end
