(* ===== verification/Keep_Alive.thy ===== *)
theory Keep_Alive
  imports Proxy_Correct Supervisor
begin

text \<open>
  The streams of a connection together: the supervisor hands every stream it accepts to
  \<open>handle_inbound_stream\<close>, with the shared counters and the shared pool. Requests and answers of known
  lengths, one after another, all use one connection to the origin.
\<close>

section \<open>One stream\<close>

lemma http_dispatch:
  assumes "read_connect_request c (from_edge st) = (Done req, reader)" and "conn_type req = of_wire ty"
    and "ty \<noteq> WireTcp"
  shows "handle_inbound_stream c parse clock now connect port st =
    proxy_http c parse clock now connect req (st\<lparr>from_edge := reader\<rparr>)"
  using assms by (cases ty) (simp_all add: handle_inbound_stream_def of_wire_def)

text \<open>
  A request of the edge and the answer of the origin, both of known length; \<open>fx_rest\<close> is what the edge
  sends after the request.
\<close>

record framed_exchange =
  fx_dest :: string
  fx_type :: wire_connection_type
  fx_metadata :: "(string \<times> string) list"
  fx_version :: bytes
  fx_body :: bytes
  fx_rest :: bytes
  fx_head :: bytes
  fx_status :: u16
  fx_headers :: "(string \<times> bytes) list"
  fx_answer :: bytes

definition fx_request :: "framed_exchange \<Rightarrow> connect_request" where
  "fx_request x = \<lparr>dest = fx_dest x, conn_type = of_wire (fx_type x), metadata = fx_metadata x\<rparr>"

definition fx_sent :: "('s, 'p) capnp \<Rightarrow> framed_exchange \<Rightarrow> bytes" where
  "fx_sent c x =
     DATA_STREAM_SIGNATURE @ fx_version x @ write_message c (edge_request c (fx_dest x) (fx_type x) (fx_metadata x))
     @ fx_body x @ fx_rest x"

definition fx_ok :: "('s, 'p) capnp \<Rightarrow> http_parse \<Rightarrow> framed_exchange \<Rightarrow> bool" where
  "fx_ok c parse x \<longleftrightarrow>
     length (fx_version x) = 2 \<and> message_fits c (edge_request c (fx_dest x) (fx_type x) (fx_metadata x))
     \<and> utf8_ok (fx_dest x) \<and> list_all (\<lambda>(k, v). utf8_ok k \<and> utf8_ok v) (fx_metadata x) \<and> fx_type x \<noteq> WireTcp
     \<and> request_poolable (analyse_request (fx_request x)) \<and> length (fx_body x) = request_body_length (fx_request x)
     \<and> parse (fx_head x) = Inr (HComplete (length (fx_head x)) (Some (fx_status x)) (fx_headers x))
     \<and> length (fx_head x) + READ_HEAD_CHUNK \<le> MAX_HEADER_BYTES + 1
     \<and> response_poolable (analyse_response (fx_status x) (decode_headers (fx_headers x)))
     \<and> declared_length (decode_headers (fx_headers x)) = Some (length (fx_answer x))"

text \<open>What the origin and the edge are sent for it.\<close>

definition fx_submitted :: "framed_exchange \<Rightarrow> bytes" where
  "fx_submitted x = build_request_head (fx_request x) True @ fx_body x"

definition fx_forwarded :: "('s, 'p) capnp \<Rightarrow> framed_exchange \<Rightarrow> bytes" where
  "fx_forwarded c x =
     response_frame c '''' (response_meta (fx_status x) (decode_headers (fx_headers x))) @ fx_answer x"

lemma framed_stream:
  assumes "capnp_api c" and "http_parser parse" and "fx_ok c parse x" and "avail (from_edge st) = fx_sent c x"
    and "acquire_fut clock connect (conns st) = (Ready t (Inr s), pool)" and "t \<le> LOCAL_CONNECT_TIMEOUT"
    and "avail (sock_in s) = fx_head x @ fx_answer x" and "healthy (to_edge st)" and "healthy (sock_out s)"
  shows "\<exists>st' r w. handle_inbound_stream c parse clock now connect port st = (Done (), st', Some (r, w))
    \<and> written (wh_sink w) = written (sock_out s) @ fx_submitted x \<and> healthy (wh_sink w)
    \<and> written (to_edge st') = written (to_edge st) @ fx_forwarded c x
    \<and> is_closed (to_edge st') \<and> avail (from_edge st') = fx_rest x
    \<and> bytes_in st' = bytes_in st + of_nat (length (fx_body x))
    \<and> bytes_out st' = bytes_out st + of_nat (length (fx_answer x))
    \<and> avail (rh_src r) = []
    \<and> conns st' = release now \<lparr>sock_id = sock_id s, sock_in = rh_src r, sock_out = wh_sink w\<rparr> pool"
proof -
  have ok: "length (fx_version x) = 2" "message_fits c (edge_request c (fx_dest x) (fx_type x) (fx_metadata x))"
    "utf8_ok (fx_dest x)" "fx_type x \<noteq> WireTcp" "list_all (\<lambda>(k, v). utf8_ok k \<and> utf8_ok v) (fx_metadata x)"
    using assms(3) by (simp_all add: fx_ok_def)
  have framed: "request_poolable (analyse_request (fx_request x))"
    "length (fx_body x) = request_body_length (fx_request x)"
    "parse (fx_head x) = Inr (HComplete (length (fx_head x)) (Some (fx_status x)) (fx_headers x))"
    "length (fx_head x) + READ_HEAD_CHUNK \<le> MAX_HEADER_BYTES + 1"
    "response_poolable (analyse_response (fx_status x) (decode_headers (fx_headers x)))"
    "declared_length (decode_headers (fx_headers x)) = Some (length (fx_answer x))"
    using assms(3) by (simp_all add: fx_ok_def)
  have md: "\<forall>(k, v) \<in> set (fx_metadata x). utf8_ok k \<and> utf8_ok v" using ok(5) by (simp add: list_all_iff)
  have sent: "avail (from_edge st) = DATA_STREAM_SIGNATURE @ fx_version x
      @ write_message c (edge_request c (fx_dest x) (fx_type x) (fx_metadata x)) @ fx_body x @ fx_rest x"
    using assms(4) by (simp add: fx_sent_def)
  obtain reader where rd: "read_connect_request c (from_edge st) = (Done (fx_request x), reader)"
    "avail reader = fx_body x @ fx_rest x"
    using capnp_api.read_edge_request [OF assms(1) sent ok(1-3) md] by (auto simp: fx_request_def)
  let ?st = "st\<lparr>from_edge := reader\<rparr>" and ?req = "fx_request x"
  let ?px = "with_tcp (?st\<lparr>conns := pool\<rparr>) s"
  have px: "avail (from_edge ?px) = fx_body x @ fx_rest x" "avail (rh_src (tcp_read ?px)) = fx_head x @ fx_answer x"
    "healthy (to_edge ?px)" "healthy (wh_sink (tcp_write ?px))" "rh_id (tcp_read ?px) = wh_id (tcp_write ?px)"
    using rd(2) assms(7-9) by simp_all
  obtain s1 s2 where serve: "serve_http c parse now ?req ?px =
      (Done (), socket_returned now (edge_closed (forwarded
         (submitted ?px (fx_submitted x) (length (fx_body x)) s1) (fx_forwarded c x) (length (fx_answer x)) s2)))"
    "avail s1 = fx_rest x" "avail s2 = []"
    using http_parser.serve_http_framed [OF assms(2) framed(1) px(1) framed(2,3) px(2) framed(4-6) px(3-5),
        where c = c and now = now]
    unfolding fx_submitted_def fx_forwarded_def by blast
  have "handle_inbound_stream c parse clock now connect port st = proxy_http c parse clock now connect ?req ?st"
    using http_dispatch [OF rd(1), of "fx_type x"] ok(4) by (simp add: fx_request_def)
  also have "\<dots> = (case serve_http c parse now ?req ?px of
       (r, st') \<Rightarrow> (r, edge_state.truncate st', Some (tcp_read st', tcp_write st')))"
    using assms(5,6) by (intro proxy_http_socket) simp_all
  finally show ?thesis using serve assms(9) by simp
qed

section \<open>The streams that a supervisor spawns\<close>

text \<open>
  A stream of the edge, and what its proxying meets: the readings of the clock, the connect, and what
  the origin sends next on the idle connection that was used last.
\<close>

record inbound =
  ib_recv :: source
  ib_send :: sink

record stream_env =
  se_clock :: "nat \<Rightarrow> instant"
  se_now :: instant
  se_connect :: "u16 \<Rightarrow> (string + tcp_stream) fut"
  se_answer :: source

definition origin_answers :: "source \<Rightarrow> tcp_stream pool \<Rightarrow> tcp_stream pool" where
  "origin_answers src p =
     (if idle p = [] then p
      else p\<lparr>idle := butlast (idle p)
               @ [(last (idle p))\<lparr>id_stream := (id_stream (last (idle p)))\<lparr>sock_in := src\<rparr>\<rparr>]\<rparr>)"

text \<open>
  The task that the supervisor spawns for a stream, with the shared counters and the shared pool: what
  \<open>handle_inbound_stream\<close> returns, the edge's side of the stream, and the counters and the pool after it.
\<close>

definition stream_task ::
  "('s, 'p) capnp \<Rightarrow> http_parse \<Rightarrow> u16 \<Rightarrow> inbound \<Rightarrow> stream_env \<Rightarrow> supervisor_metrics \<Rightarrow> tcp_stream pool
   \<Rightarrow> ((tunnel_error, unit) outcome \<times> sink) \<times> supervisor_metrics \<times> tcp_stream pool" where
  "stream_task c parse port q env m pool =
     (let (counter_in, counter_out) = stream_counters m;
          (r, st, halves) =
            handle_inbound_stream c parse (se_clock env) (se_now env) (se_connect env) port
              \<lparr>from_edge = ib_recv q, to_edge = ib_send q, bytes_in = counter_in, bytes_out = counter_out,
               conns = pool\<rparr>
      in ((r, to_edge st), m\<lparr>sm_bytes_in := bytes_in st, sm_bytes_out := bytes_out st\<rparr>, conns st))"

text \<open>
  The tasks are concurrent. This is the schedule in which each has ended before the next one is polled for
  the first time; \<open>one_after_another\<close> says so of the clock readings: each asks the pool after the one before
  has given its connection back at \<open>t\<close>, and before that connection is stale. What the origin will send
  on the idle connection is not known to the pool: \<open>origin_answers\<close> has it sent by the time the task reads.
\<close>

fun serve_one_by_one ::
  "('s, 'p) capnp \<Rightarrow> http_parse \<Rightarrow> u16 \<Rightarrow> (inbound \<times> stream_env) list \<Rightarrow> supervisor_metrics \<Rightarrow> tcp_stream pool
   \<Rightarrow> ((tunnel_error, unit) outcome \<times> sink) list \<times> supervisor_metrics \<times> tcp_stream pool" where
  "serve_one_by_one c parse port [] m pool = ([], m, pool)"
| "serve_one_by_one c parse port ((q, env) # qs) m pool =
     (let (r, m1, pool1) = stream_task c parse port q env m (origin_answers (se_answer env) pool);
          (rs, m2, pool2) = serve_one_by_one c parse port qs m1 pool1
      in (r # rs, m2, pool2))"

definition spawned :: "'q sup_action list \<Rightarrow> 'q list" where
  "spawned acts = List.map_filter (\<lambda>a. case a of SpawnStream q \<Rightarrow> Some q | _ \<Rightarrow> None) acts"

section \<open>One connection for all\<close>

definition fx_meets :: "('s, 'p) capnp \<Rightarrow> http_parse \<Rightarrow> framed_exchange \<Rightarrow> inbound \<times> stream_env \<Rightarrow> bool" where
  "fx_meets c parse x qe \<longleftrightarrow>
     fx_ok c parse x \<and> avail (ib_recv (fst qe)) = fx_sent c x \<and> healthy (ib_send (fst qe))
     \<and> avail (se_answer (snd qe)) = fx_head x @ fx_answer x"

fun one_after_another :: "duration \<Rightarrow> instant \<Rightarrow> stream_env list \<Rightarrow> bool" where
  "one_after_another ttl t [] = True"
| "one_after_another ttl t (env # envs) =
     (t \<le> se_clock env 0 \<and> elapsed (se_clock env 0) t \<le> ttl \<and> one_after_another ttl (se_now env) envs)"

lemma acquire_last:
  assumes "idle p = g @ [\<lparr>id_stream = s, released_at = t\<rparr>]" and "elapsed (clock 0) t \<le> idle_ttl p"
  shows "acquire_fut clock connect (origin_answers src p) = (Ready 0 (Inr (s\<lparr>sock_in := src\<rparr>)), p\<lparr>idle := g\<rparr>)"
  using assms
  by (simp add: acquire_fut_def origin_answers_def acquire_loop.simps [of clock 0 "idle_ttl p" "g @ [e]" for e] Let_def)

lemma serve_framed_streams:
  assumes "capnp_api c" and "http_parser parse"
  shows
  "list_all2 (fx_meets c parse) xs qs \<Longrightarrow> one_after_another (idle_ttl p) t (map snd qs) \<Longrightarrow>
   idle p = g @ [\<lparr>id_stream = s, released_at = t\<rparr>] \<Longrightarrow> length g < max_idle p \<Longrightarrow> healthy (sock_out s) \<Longrightarrow>
   \<exists>outs s' t'. serve_one_by_one c parse port qs m p =
       (outs, m\<lparr>sm_bytes_in := sm_bytes_in m + of_nat (sum_list (map (\<lambda>x. length (fx_body x)) xs)),
                sm_bytes_out := sm_bytes_out m + of_nat (sum_list (map (\<lambda>x. length (fx_answer x)) xs))\<rparr>,
        p\<lparr>idle := g @ [\<lparr>id_stream = s', released_at = t'\<rparr>]\<rparr>)
     \<and> sock_id s' = sock_id s \<and> written (sock_out s') = written (sock_out s) @ concat (map fx_submitted xs)
     \<and> map fst outs = map (\<lambda>_. Done ()) xs \<and> list_all is_closed (map snd outs)
     \<and> map (\<lambda>y. written (snd y)) outs = map2 (\<lambda>x qe. written (ib_send (fst qe)) @ fx_forwarded c x) xs qs"
proof (induction qs arbitrary: xs p t s m)
  case Nil
  then have "p\<lparr>idle := g @ [\<lparr>id_stream = s, released_at = t\<rparr>]\<rparr> = p" by (cases p) simp
  with Nil show ?case by (intro exI [of _ "[]"] exI [of _ s] exI [of _ t]) simp
next
  case (Cons qe qs)
  obtain q env where qe: "qe = (q, env)" by (cases qe)
  from Cons.prems(1) obtain x ys where xs: "xs = x # ys" "fx_meets c parse x (q, env)"
    "list_all2 (fx_meets c parse) ys qs" by (auto simp: qe list_all2_Cons2)
  let ?st = "\<lparr>from_edge = ib_recv q, to_edge = ib_send q, bytes_in = sm_bytes_in m, bytes_out = sm_bytes_out m,
    conns = origin_answers (se_answer env) p\<rparr>"
  have acq: "acquire_fut (se_clock env) (se_connect env) (conns ?st) =
      (Ready 0 (Inr (s\<lparr>sock_in := se_answer env\<rparr>)), p\<lparr>idle := g\<rparr>)"
    using acquire_last [OF Cons.prems(3), of "se_clock env"] Cons.prems(2) by (simp add: qe)
  have env: "avail (from_edge ?st) = fx_sent c x"
    "avail (sock_in (s\<lparr>sock_in := se_answer env\<rparr>)) = fx_head x @ fx_answer x" "healthy (to_edge ?st)"
    "healthy (sock_out (s\<lparr>sock_in := se_answer env\<rparr>))" "fx_ok c parse x"
    using xs(2) Cons.prems(5) by (simp_all add: fx_meets_def)
  obtain st' r w where h: "handle_inbound_stream c parse (se_clock env) (se_now env) (se_connect env) port ?st =
      (Done (), st', Some (r, w))"
    "written (wh_sink w) = written (sock_out s) @ fx_submitted x" "healthy (wh_sink w)"
    "written (to_edge st') = written (ib_send q) @ fx_forwarded c x" "is_closed (to_edge st')"
    "bytes_in st' = sm_bytes_in m + of_nat (length (fx_body x))"
    "bytes_out st' = sm_bytes_out m + of_nat (length (fx_answer x))"
    "conns st' = release (se_now env) \<lparr>sock_id = sock_id s, sock_in = rh_src r, sock_out = wh_sink w\<rparr> (p\<lparr>idle := g\<rparr>)"
    using framed_stream [OF assms env(5,1) acq _ env(2-4), of "se_now env" port] by auto
  let ?s = "\<lparr>sock_id = sock_id s, sock_in = rh_src r, sock_out = wh_sink w\<rparr>"
  let ?p = "p\<lparr>idle := g @ [\<lparr>id_stream = ?s, released_at = se_now env\<rparr>]\<rparr>"
  let ?m = "m\<lparr>sm_bytes_in := bytes_in st', sm_bytes_out := bytes_out st'\<rparr>"
  have conns: "conns st' = ?p" using h(8) Cons.prems(4) by (simp add: release_def)
  have "one_after_another (idle_ttl ?p) (se_now env) (map snd qs)" "idle ?p = g @ [\<lparr>id_stream = ?s, released_at = se_now env\<rparr>]"
    "length g < max_idle ?p" "healthy (sock_out ?s)"
    using Cons.prems(2,4) h(3) by (simp_all add: qe)
  from Cons.IH [OF xs(3) this, of ?m] obtain outs s' t' where
    rest: "serve_one_by_one c parse port qs ?m ?p =
       (outs, ?m\<lparr>sm_bytes_in := sm_bytes_in ?m + of_nat (sum_list (map (\<lambda>x. length (fx_body x)) ys)),
                sm_bytes_out := sm_bytes_out ?m + of_nat (sum_list (map (\<lambda>x. length (fx_answer x)) ys))\<rparr>,
        ?p\<lparr>idle := g @ [\<lparr>id_stream = s', released_at = t'\<rparr>]\<rparr>)"
    and left: "sock_id s' = sock_id ?s" "written (sock_out s') = written (sock_out ?s) @ concat (map fx_submitted ys)"
      "map fst outs = map (\<lambda>_. Done ()) ys" "list_all is_closed (map snd outs)"
      "map (\<lambda>y. written (snd y)) outs = map2 (\<lambda>x qe. written (ib_send (fst qe)) @ fx_forwarded c x) ys qs"
    by (elim exE conjE) (rule that, assumption+)
  have "serve_one_by_one c parse port (qe # qs) m p =
      (let (rs, m', p') = serve_one_by_one c parse port qs ?m ?p in ((Done (), to_edge st') # rs, m', p'))"
    using h(1) by (simp add: qe stream_task_def stream_counters_def conns)
  with rest h(2,4-7) left xs(1) qe show ?case
    by (intro exI [of _ "(Done (), to_edge st') # outs"] exI [of _ s'] exI [of _ t']) (simp add: add.assoc)
qed

lemma spawned_accepted:
  assumes "sup_run polls m = (r, m', acts)"
  shows "spawned acts = accepted_before_exit polls"
    and "m' = m\<lparr>streams_total := streams_total m + of_nat (length (spawned acts))\<rparr>"
proof -
  have "spawned (map SpawnStream qs @ rest) = qs @ spawned rest" for qs and rest :: "'a sup_action list"
    by (induction qs) (simp_all add: spawned_def List.map_filter_simps)
  from this [of "accepted_before_exit polls" "[]"] this [of "accepted_before_exit polls" "[CloseConn n t]" for n t] assms
  show sp: "spawned acts = accepted_before_exit polls"
    by (auto simp: sup_run_eq spawned_def List.map_filter_simps split: option.splits)
  from assms show "m' = m\<lparr>streams_total := streams_total m + of_nat (length (spawned acts))\<rparr>"
    unfolding sp by (simp add: sup_run_eq)
qed

section \<open>Sample data\<close>

text \<open>The worst cut of a byte string: one byte per chunk.\<close>

definition bytewise_source :: "bytes \<Rightarrow> source" where
  "bytewise_source bs = map (\<lambda>b. Data [b]) bs"

lemma bytewise_source: "avail (bytewise_source bs) = bs" "ending_of (bytewise_source bs) = AtEof"
  by (simp_all only: bytewise_source_def bytewise)

lemma sample_names:
  "to_ascii_lowercase ''host'' = ''host''" "to_ascii_lowercase ''X'' = ''x''"
  "to_ascii_lowercase ''Content-Length'' = ''content-length''" "to_ascii_lowercase ''Upgrade'' = ''upgrade''"
  by (simp_all add: to_ascii_lowercase_def ascii_lower_def; code_simp)+

lemma sample_request_shape:
  "request_poolable (analyse_request sample_request)" "request_body_length sample_request = 2"
proof -
  have n: "parse_u64 ''2'' = Some 2" by (simp add: parse_u64_def is_digit_def digit_val_def)
  show "request_poolable (analyse_request sample_request)"
    by (simp add: request_poolable_iff sample_request_fields asks_chunked_def asks_upgrade_def asks_close_def
        header_has_def header_is_def sample_names)
  show "request_body_length sample_request = 2"
    by (simp add: request_body_length_def sample_request_fields declared_length_def header_is_def sample_names n)
qed

text \<open>A request and an answer with two bytes of body each, and two streams that carry them.\<close>

definition sample_exchange :: framed_exchange where
  "sample_exchange =
     \<lparr>fx_dest = dest sample_request, fx_type = WireHttp, fx_metadata = metadata sample_request,
      fx_version = ''01'', fx_body = ''ok'', fx_rest = [], fx_head = sample_head, fx_status = 200,
      fx_headers = [(''Content-Length'', ''2'')], fx_answer = ''hi''\<rparr>"

definition sample_inbound :: inbound where
  "sample_inbound = \<lparr>ib_recv = bytewise_source (fx_sent tree_api sample_exchange), ib_send = open_sink\<rparr>"

definition sample_env :: "instant \<Rightarrow> stream_env" where
  "sample_env t =
     \<lparr>se_clock = (\<lambda>_. t), se_now = t, se_connect = (\<lambda>_. Never), se_answer = bytewise_source (sample_head @ ''hi'')\<rparr>"

section \<open>Properties\<close>

text \<open>C3: Streams one after another. Let the streams that the supervisor accepts be requests of known lengths
  with answers of known lengths, and let each be served when the task of the one before it has ended and
  before the connection it gave back is stale. Then all are served on the one idle connection that
  the pool held, whatever a connect would give: the origin receives the requests with keep-alive, in order
  and with nothing in between, every stream of the edge receives its own answer and its end, the pool
  holds the same connection again, and the snapshot counts the streams and the bytes of the bodies. Streams that
  overlap are not among these: the connection is then taken.
\<close>

theorem kept_alive_connection:
  assumes "capnp_api c" and "http_parser parse"
    and "sup_run polls m = (exit, m', acts)" and "map fst qs = spawned acts"
    and "list_all2 (fx_meets c parse) xs qs" and "one_after_another (idle_ttl p) t (map snd qs)"
    and "idle p = g @ [\<lparr>id_stream = s, released_at = t\<rparr>]" and "length g < max_idle p" and "healthy (sock_out s)"
  shows "\<exists>outs m'' s' t'.
       serve_one_by_one c parse port qs m' p = (outs, m'', p\<lparr>idle := g @ [\<lparr>id_stream = s', released_at = t'\<rparr>]\<rparr>)
     \<and> snapshot m'' = (streams_total m + of_nat (length xs),
         sm_bytes_in m + of_nat (sum_list (map (\<lambda>x. length (fx_body x)) xs)),
         sm_bytes_out m + of_nat (sum_list (map (\<lambda>x. length (fx_answer x)) xs)))
     \<and> sock_id s' = sock_id s \<and> written (sock_out s') = written (sock_out s) @ concat (map fx_submitted xs)
     \<and> map fst outs = map (\<lambda>_. Done ()) xs \<and> list_all is_closed (map snd outs)
     \<and> map (\<lambda>y. written (snd y)) outs = map2 (\<lambda>x qe. written (ib_send (fst qe)) @ fx_forwarded c x) xs qs"
proof -
  have "length (spawned acts) = length xs"
    using assms(4,5) by (metis length_map list_all2_lengthD)
  with spawned_accepted(2) [OF assms(3)]
  have m': "m' = m\<lparr>streams_total := streams_total m + of_nat (length xs)\<rparr>" by simp
  show ?thesis
    using serve_framed_streams [OF assms(1,2,5-9), of port m']
    by (elim exE conjE) (intro exI conjI, assumption, simp_all add: snapshot_def m')
qed

definition sample_polls :: "inbound sup_poll list" where
  "sample_polls = replicate 2 \<lparr>sp_shutdown = False, sp_accepted = Some (Inr sample_inbound)\<rparr>"

lemma sample_meets: "fx_meets tree_api ref_parse sample_exchange (sample_inbound, sample_env t)"
proof -
  have req: "fx_request sample_exchange = sample_request"
    by (simp add: fx_request_def sample_exchange_def sample_request_def of_wire_def)
  have "fx_ok tree_api ref_parse sample_exchange"
    unfolding fx_ok_def req
    by (intro conjI) (simp_all add: sample_exchange_def sample_request_shape sample_head_parsed sample_shape
        sample_head_fields(2) sample_head_fields(3) [simplified] tree_api_def utf8_ok_ascii, simp_all add: sample_request_def utf8_ok_ascii)
  moreover have "avail (ib_recv sample_inbound) = fx_sent tree_api sample_exchange"
    "avail (se_answer (sample_env t)) = sample_head @ ''hi''" "ib_send sample_inbound = open_sink"
    by (simp_all only: sample_inbound_def inbound.simps sample_env_def stream_env.simps bytewise_source)
  ultimately show ?thesis
    unfolding fx_meets_def by (simp add: sample_exchange_def)
qed

theorem kept_alive_connection_witness:
  "\<exists>outs m'' s' t'.
      serve_one_by_one tree_api ref_parse 80 [(sample_inbound, sample_env 7), (sample_inbound, sample_env 9)]
        (metrics_default\<lparr>streams_total := 2\<rparr>) (release 5 (sample_socket [Stall]) (pool_new 80))
      = (outs, m'', (pool_new 80)\<lparr>idle := [\<lparr>id_stream = s', released_at = t'\<rparr>]\<rparr>)
    \<and> snapshot m'' = (2, 4, 4)
    \<and> written (sock_out s') = fx_submitted sample_exchange @ fx_submitted sample_exchange
    \<and> map fst outs = [Done (), Done ()]"
proof -
  let ?p = "release 5 (sample_socket [Stall]) (pool_new 80)"
  let ?qs = "[(sample_inbound, sample_env 7), (sample_inbound, sample_env 9)]"
  have run: "sup_run sample_polls metrics_default =
      (None, metrics_default\<lparr>streams_total := 2\<rparr>, replicate 2 (SpawnStream sample_inbound))"
    by (simp add: sample_polls_def metrics_default_def numeral_2_eq_2)
  have pool: "?p = (pool_new 80)\<lparr>idle := [\<lparr>id_stream = sample_socket [Stall], released_at = 5\<rparr>]\<rparr>"
    by (simp add: release_def pool_new_def DEFAULT_MAX_IDLE_def)
  have "map fst ?qs = spawned (replicate 2 (SpawnStream sample_inbound))"
    by (simp add: spawned_def List.map_filter_simps numeral_2_eq_2)
  moreover have "list_all2 (fx_meets tree_api ref_parse) [sample_exchange, sample_exchange] ?qs"
    by (simp add: sample_meets)
  moreover have "one_after_another (idle_ttl ?p) 5 (map snd ?qs)"
    unfolding pool by (simp add: pool_new_def sample_env_def elapsed_def DEFAULT_IDLE_TTL_def from_secs_def)
  moreover have "idle ?p = [] @ [\<lparr>id_stream = sample_socket [Stall], released_at = 5\<rparr>]"
    "length ([] :: tcp_stream idle_entry list) < max_idle ?p"
    unfolding pool by (simp_all add: pool_new_def DEFAULT_MAX_IDLE_def)
  moreover have "healthy (sock_out (sample_socket [Stall]))" by simp
  ultimately obtain outs m'' s' t' where
    "serve_one_by_one tree_api ref_parse 80 ?qs (metrics_default\<lparr>streams_total := 2\<rparr>) ?p =
       (outs, m'', ?p\<lparr>idle := [] @ [\<lparr>id_stream = s', released_at = t'\<rparr>]\<rparr>)"
    "snapshot m'' = (streams_total metrics_default + of_nat (length [sample_exchange, sample_exchange]),
       sm_bytes_in metrics_default + of_nat (sum_list (map (\<lambda>x. length (fx_body x)) [sample_exchange, sample_exchange])),
       sm_bytes_out metrics_default
         + of_nat (sum_list (map (\<lambda>x. length (fx_answer x)) [sample_exchange, sample_exchange])))"
    "written (sock_out s') =
       written (sock_out (sample_socket [Stall])) @ concat (map fx_submitted [sample_exchange, sample_exchange])"
    "map fst outs = map (\<lambda>_. Done ()) [sample_exchange, sample_exchange]"
    using kept_alive_connection [OF tree_capnp.capnp_api_axioms ref_http.http_parser_axioms run, of ?qs
      "[sample_exchange, sample_exchange]" ?p 5 "[]" "sample_socket [Stall]" 80] by blast
  moreover have "?p\<lparr>idle := [] @ [e]\<rparr> = (pool_new 80)\<lparr>idle := [e]\<rparr>" for e by (simp add: pool)
  moreover have "streams_total metrics_default = 0" "sm_bytes_in metrics_default = 0" "sm_bytes_out metrics_default = 0"
    by (simp_all add: metrics_default_def)
  moreover have "length (fx_body sample_exchange) = 2" "length (fx_answer sample_exchange) = 2"
    by (simp_all add: sample_exchange_def)
  ultimately show ?thesis
    by (intro exI [of _ outs] exI [of _ m''] exI [of _ s'] exI [of _ t']) simp
qed

end
