(* ===== verification/Schema_Nodes.thy ===== *)
theory Schema_Nodes
  imports Quic_Metadata Tunnel_Rpc_Schema
begin

text \<open>
  The encoded schema nodes of the generated modules \<^verbatim>\<open>src/proto_gen/*.rs\<close>, word by word as the code
  has them (a \<open>::capnp::word\<close> is its eight bytes), for every struct the crate reads or writes and
  for those of the methods it serves. A reader of such nodes, after the published layout of
  \<open>schema.capnp\<close>, gives the slots of their fields; the accessors and sizes of \<open>Quic_Metadata\<close> and
  \<open>Tunnel_Rpc_Schema\<close> are compared with it.
\<close>

type_synonym encoded_node = "nat list list"

definition connect_request_ENCODED_NODE :: encoded_node where
  "connect_request_ENCODED_NODE =
   [[0, 0, 0, 0, 5, 0, 6, 0],
    [97, 64, 94, 4, 161, 22, 113, 196],
    [29, 0, 0, 0, 1, 0, 1, 0],
    [50, 204, 33, 116, 239, 33, 144, 178],
    [2, 0, 7, 0, 0, 0, 0, 0],
    [0, 0, 0, 0, 0, 0, 0, 0],
    [21, 0, 0, 0, 98, 1, 0, 0],
    [41, 0, 0, 0, 7, 0, 0, 0],
    [0, 0, 0, 0, 0, 0, 0, 0],
    [37, 0, 0, 0, 175, 0, 0, 0],
    [0, 0, 0, 0, 0, 0, 0, 0],
    [0, 0, 0, 0, 0, 0, 0, 0],
    [113, 117, 105, 99, 95, 109, 101, 116],
    [97, 100, 97, 116, 97, 95, 112, 114],
    [111, 116, 111, 99, 111, 108, 46, 99],
    [97, 112, 110, 112, 58, 67, 111, 110],
    [110, 101, 99, 116, 82, 101, 113, 117],
    [101, 115, 116, 0, 0, 0, 0, 0],
    [0, 0, 0, 0, 1, 0, 1, 0],
    [12, 0, 0, 0, 3, 0, 4, 0],
    [0, 0, 0, 0, 0, 0, 0, 0],
    [0, 0, 1, 0, 0, 0, 0, 0],
    [0, 0, 0, 0, 0, 0, 0, 0],
    [69, 0, 0, 0, 42, 0, 0, 0],
    [0, 0, 0, 0, 0, 0, 0, 0],
    [64, 0, 0, 0, 3, 0, 1, 0],
    [76, 0, 0, 0, 2, 0, 1, 0],
    [1, 0, 0, 0, 0, 0, 0, 0],
    [0, 0, 1, 0, 1, 0, 0, 0],
    [0, 0, 0, 0, 0, 0, 0, 0],
    [73, 0, 0, 0, 42, 0, 0, 0],
    [0, 0, 0, 0, 0, 0, 0, 0],
    [68, 0, 0, 0, 3, 0, 1, 0],
    [80, 0, 0, 0, 2, 0, 1, 0],
    [2, 0, 0, 0, 1, 0, 0, 0],
    [0, 0, 1, 0, 2, 0, 0, 0],
    [0, 0, 0, 0, 0, 0, 0, 0],
    [77, 0, 0, 0, 74, 0, 0, 0],
    [0, 0, 0, 0, 0, 0, 0, 0],
    [76, 0, 0, 0, 3, 0, 1, 0],
    [104, 0, 0, 0, 2, 0, 1, 0],
    [100, 101, 115, 116, 0, 0, 0, 0],
    [12, 0, 0, 0, 0, 0, 0, 0],
    [0, 0, 0, 0, 0, 0, 0, 0],
    [0, 0, 0, 0, 0, 0, 0, 0],
    [0, 0, 0, 0, 0, 0, 0, 0],
    [12, 0, 0, 0, 0, 0, 0, 0],
    [0, 0, 0, 0, 0, 0, 0, 0],
    [0, 0, 0, 0, 0, 0, 0, 0],
    [116, 121, 112, 101, 0, 0, 0, 0],
    [15, 0, 0, 0, 0, 0, 0, 0],
    [200, 121, 211, 38, 172, 27, 46, 197],
    [0, 0, 0, 0, 0, 0, 0, 0],
    [0, 0, 0, 0, 0, 0, 0, 0],
    [15, 0, 0, 0, 0, 0, 0, 0],
    [0, 0, 0, 0, 0, 0, 0, 0],
    [0, 0, 0, 0, 0, 0, 0, 0],
    [109, 101, 116, 97, 100, 97, 116, 97],
    [0, 0, 0, 0, 0, 0, 0, 0],
    [14, 0, 0, 0, 0, 0, 0, 0],
    [0, 0, 0, 0, 0, 0, 0, 0],
    [0, 0, 0, 0, 0, 0, 0, 0],
    [0, 0, 0, 0, 3, 0, 1, 0],
    [16, 0, 0, 0, 0, 0, 0, 0],
    [55, 205, 209, 191, 151, 107, 68, 225],
    [0, 0, 0, 0, 0, 0, 0, 0],
    [0, 0, 0, 0, 0, 0, 0, 0],
    [14, 0, 0, 0, 0, 0, 0, 0],
    [0, 0, 0, 0, 0, 0, 0, 0],
    [0, 0, 0, 0, 0, 0, 0, 0]]"

definition connection_type_ENCODED_NODE :: encoded_node where
  "connection_type_ENCODED_NODE =
   [[0, 0, 0, 0, 5, 0, 6, 0],
    [200, 121, 211, 38, 172, 27, 46, 197],
    [29, 0, 0, 0, 2, 0, 0, 0],
    [50, 204, 33, 116, 239, 33, 144, 178],
    [0, 0, 0, 0, 0, 0, 0, 0],
    [0, 0, 0, 0, 0, 0, 0, 0],
    [21, 0, 0, 0, 98, 1, 0, 0],
    [41, 0, 0, 0, 7, 0, 0, 0],
    [0, 0, 0, 0, 0, 0, 0, 0],
    [37, 0, 0, 0, 79, 0, 0, 0],
    [0, 0, 0, 0, 0, 0, 0, 0],
    [0, 0, 0, 0, 0, 0, 0, 0],
    [113, 117, 105, 99, 95, 109, 101, 116],
    [97, 100, 97, 116, 97, 95, 112, 114],
    [111, 116, 111, 99, 111, 108, 46, 99],
    [97, 112, 110, 112, 58, 67, 111, 110],
    [110, 101, 99, 116, 105, 111, 110, 84],
    [121, 112, 101, 0, 0, 0, 0, 0],
    [0, 0, 0, 0, 1, 0, 1, 0],
    [12, 0, 0, 0, 1, 0, 2, 0],
    [0, 0, 0, 0, 0, 0, 0, 0],
    [29, 0, 0, 0, 42, 0, 0, 0],
    [0, 0, 0, 0, 0, 0, 0, 0],
    [1, 0, 0, 0, 0, 0, 0, 0],
    [21, 0, 0, 0, 82, 0, 0, 0],
    [0, 0, 0, 0, 0, 0, 0, 0],
    [2, 0, 0, 0, 0, 0, 0, 0],
    [17, 0, 0, 0, 34, 0, 0, 0],
    [0, 0, 0, 0, 0, 0, 0, 0],
    [104, 116, 116, 112, 0, 0, 0, 0],
    [119, 101, 98, 115, 111, 99, 107, 101],
    [116, 0, 0, 0, 0, 0, 0, 0],
    [116, 99, 112, 0, 0, 0, 0, 0]]"

definition metadata_ENCODED_NODE :: encoded_node where
  "metadata_ENCODED_NODE =
   [[0, 0, 0, 0, 5, 0, 6, 0],
    [55, 205, 209, 191, 151, 107, 68, 225],
    [29, 0, 0, 0, 1, 0, 0, 0],
    [50, 204, 33, 116, 239, 33, 144, 178],
    [2, 0, 7, 0, 0, 0, 0, 0],
    [0, 0, 0, 0, 0, 0, 0, 0],
    [21, 0, 0, 0, 50, 1, 0, 0],
    [37, 0, 0, 0, 7, 0, 0, 0],
    [0, 0, 0, 0, 0, 0, 0, 0],
    [33, 0, 0, 0, 119, 0, 0, 0],
    [0, 0, 0, 0, 0, 0, 0, 0],
    [0, 0, 0, 0, 0, 0, 0, 0],
    [113, 117, 105, 99, 95, 109, 101, 116],
    [97, 100, 97, 116, 97, 95, 112, 114],
    [111, 116, 111, 99, 111, 108, 46, 99],
    [97, 112, 110, 112, 58, 77, 101, 116],
    [97, 100, 97, 116, 97, 0, 0, 0],
    [0, 0, 0, 0, 1, 0, 1, 0],
    [8, 0, 0, 0, 3, 0, 4, 0],
    [0, 0, 0, 0, 0, 0, 0, 0],
    [0, 0, 1, 0, 0, 0, 0, 0],
    [0, 0, 0, 0, 0, 0, 0, 0],
    [41, 0, 0, 0, 34, 0, 0, 0],
    [0, 0, 0, 0, 0, 0, 0, 0],
    [36, 0, 0, 0, 3, 0, 1, 0],
    [48, 0, 0, 0, 2, 0, 1, 0],
    [1, 0, 0, 0, 1, 0, 0, 0],
    [0, 0, 1, 0, 1, 0, 0, 0],
    [0, 0, 0, 0, 0, 0, 0, 0],
    [45, 0, 0, 0, 34, 0, 0, 0],
    [0, 0, 0, 0, 0, 0, 0, 0],
    [40, 0, 0, 0, 3, 0, 1, 0],
    [52, 0, 0, 0, 2, 0, 1, 0],
    [107, 101, 121, 0, 0, 0, 0, 0],
    [12, 0, 0, 0, 0, 0, 0, 0],
    [0, 0, 0, 0, 0, 0, 0, 0],
    [0, 0, 0, 0, 0, 0, 0, 0],
    [0, 0, 0, 0, 0, 0, 0, 0],
    [12, 0, 0, 0, 0, 0, 0, 0],
    [0, 0, 0, 0, 0, 0, 0, 0],
    [0, 0, 0, 0, 0, 0, 0, 0],
    [118, 97, 108, 0, 0, 0, 0, 0],
    [12, 0, 0, 0, 0, 0, 0, 0],
    [0, 0, 0, 0, 0, 0, 0, 0],
    [0, 0, 0, 0, 0, 0, 0, 0],
    [0, 0, 0, 0, 0, 0, 0, 0],
    [12, 0, 0, 0, 0, 0, 0, 0],
    [0, 0, 0, 0, 0, 0, 0, 0],
    [0, 0, 0, 0, 0, 0, 0, 0]]"

definition connect_response_ENCODED_NODE :: encoded_node where
  "connect_response_ENCODED_NODE =
   [[0, 0, 0, 0, 5, 0, 6, 0],
    [39, 135, 239, 28, 201, 46, 3, 177],
    [29, 0, 0, 0, 1, 0, 0, 0],
    [50, 204, 33, 116, 239, 33, 144, 178],
    [2, 0, 7, 0, 0, 0, 0, 0],
    [0, 0, 0, 0, 0, 0, 0, 0],
    [21, 0, 0, 0, 106, 1, 0, 0],
    [41, 0, 0, 0, 7, 0, 0, 0],
    [0, 0, 0, 0, 0, 0, 0, 0],
    [37, 0, 0, 0, 119, 0, 0, 0],
    [0, 0, 0, 0, 0, 0, 0, 0],
    [0, 0, 0, 0, 0, 0, 0, 0],
    [113, 117, 105, 99, 95, 109, 101, 116],
    [97, 100, 97, 116, 97, 95, 112, 114],
    [111, 116, 111, 99, 111, 108, 46, 99],
    [97, 112, 110, 112, 58, 67, 111, 110],
    [110, 101, 99, 116, 82, 101, 115, 112],
    [111, 110, 115, 101, 0, 0, 0, 0],
    [0, 0, 0, 0, 1, 0, 1, 0],
    [8, 0, 0, 0, 3, 0, 4, 0],
    [0, 0, 0, 0, 0, 0, 0, 0],
    [0, 0, 1, 0, 0, 0, 0, 0],
    [0, 0, 0, 0, 0, 0, 0, 0],
    [41, 0, 0, 0, 50, 0, 0, 0],
    [0, 0, 0, 0, 0, 0, 0, 0],
    [36, 0, 0, 0, 3, 0, 1, 0],
    [48, 0, 0, 0, 2, 0, 1, 0],
    [1, 0, 0, 0, 1, 0, 0, 0],
    [0, 0, 1, 0, 1, 0, 0, 0],
    [0, 0, 0, 0, 0, 0, 0, 0],
    [45, 0, 0, 0, 74, 0, 0, 0],
    [0, 0, 0, 0, 0, 0, 0, 0],
    [44, 0, 0, 0, 3, 0, 1, 0],
    [72, 0, 0, 0, 2, 0, 1, 0],
    [101, 114, 114, 111, 114, 0, 0, 0],
    [12, 0, 0, 0, 0, 0, 0, 0],
    [0, 0, 0, 0, 0, 0, 0, 0],
    [0, 0, 0, 0, 0, 0, 0, 0],
    [0, 0, 0, 0, 0, 0, 0, 0],
    [12, 0, 0, 0, 0, 0, 0, 0],
    [0, 0, 0, 0, 0, 0, 0, 0],
    [0, 0, 0, 0, 0, 0, 0, 0],
    [109, 101, 116, 97, 100, 97, 116, 97],
    [0, 0, 0, 0, 0, 0, 0, 0],
    [14, 0, 0, 0, 0, 0, 0, 0],
    [0, 0, 0, 0, 0, 0, 0, 0],
    [0, 0, 0, 0, 0, 0, 0, 0],
    [0, 0, 0, 0, 3, 0, 1, 0],
    [16, 0, 0, 0, 0, 0, 0, 0],
    [55, 205, 209, 191, 151, 107, 68, 225],
    [0, 0, 0, 0, 0, 0, 0, 0],
    [0, 0, 0, 0, 0, 0, 0, 0],
    [14, 0, 0, 0, 0, 0, 0, 0],
    [0, 0, 0, 0, 0, 0, 0, 0],
    [0, 0, 0, 0, 0, 0, 0, 0]]"

definition tunnel_auth_ENCODED_NODE :: encoded_node where
  "tunnel_auth_ENCODED_NODE =
   [[0, 0, 0, 0, 5, 0, 6, 0],
    [63, 70, 205, 185, 26, 51, 150, 148],
    [16, 0, 0, 0, 1, 0, 0, 0],
    [126, 188, 74, 20, 249, 116, 130, 219],
    [2, 0, 7, 0, 0, 0, 0, 0],
    [0, 0, 0, 0, 0, 0, 0, 0],
    [21, 0, 0, 0, 218, 0, 0, 0],
    [33, 0, 0, 0, 7, 0, 0, 0],
    [0, 0, 0, 0, 0, 0, 0, 0],
    [29, 0, 0, 0, 119, 0, 0, 0],
    [0, 0, 0, 0, 0, 0, 0, 0],
    [0, 0, 0, 0, 0, 0, 0, 0],
    [116, 117, 110, 110, 101, 108, 114, 112],
    [99, 46, 99, 97, 112, 110, 112, 58],
    [84, 117, 110, 110, 101, 108, 65, 117],
    [116, 104, 0, 0, 0, 0, 0, 0],
    [0, 0, 0, 0, 1, 0, 1, 0],
    [8, 0, 0, 0, 3, 0, 4, 0],
    [0, 0, 0, 0, 0, 0, 0, 0],
    [0, 0, 1, 0, 0, 0, 0, 0],
    [0, 0, 0, 0, 0, 0, 0, 0],
    [41, 0, 0, 0, 90, 0, 0, 0],
    [0, 0, 0, 0, 0, 0, 0, 0],
    [40, 0, 0, 0, 3, 0, 1, 0],
    [52, 0, 0, 0, 2, 0, 1, 0],
    [1, 0, 0, 0, 1, 0, 0, 0],
    [0, 0, 1, 0, 1, 0, 0, 0],
    [0, 0, 0, 0, 0, 0, 0, 0],
    [49, 0, 0, 0, 106, 0, 0, 0],
    [0, 0, 0, 0, 0, 0, 0, 0],
    [48, 0, 0, 0, 3, 0, 1, 0],
    [60, 0, 0, 0, 2, 0, 1, 0],
    [97, 99, 99, 111, 117, 110, 116, 84],
    [97, 103, 0, 0, 0, 0, 0, 0],
    [12, 0, 0, 0, 0, 0, 0, 0],
    [0, 0, 0, 0, 0, 0, 0, 0],
    [0, 0, 0, 0, 0, 0, 0, 0],
    [0, 0, 0, 0, 0, 0, 0, 0],
    [12, 0, 0, 0, 0, 0, 0, 0],
    [0, 0, 0, 0, 0, 0, 0, 0],
    [0, 0, 0, 0, 0, 0, 0, 0],
    [116, 117, 110, 110, 101, 108, 83, 101],
    [99, 114, 101, 116, 0, 0, 0, 0],
    [13, 0, 0, 0, 0, 0, 0, 0],
    [0, 0, 0, 0, 0, 0, 0, 0],
    [0, 0, 0, 0, 0, 0, 0, 0],
    [0, 0, 0, 0, 0, 0, 0, 0],
    [13, 0, 0, 0, 0, 0, 0, 0],
    [0, 0, 0, 0, 0, 0, 0, 0],
    [0, 0, 0, 0, 0, 0, 0, 0]]"

definition client_info_ENCODED_NODE :: encoded_node where
  "client_info_ENCODED_NODE =
   [[0, 0, 0, 0, 5, 0, 6, 0],
    [75, 17, 47, 91, 20, 208, 206, 131],
    [16, 0, 0, 0, 1, 0, 0, 0],
    [126, 188, 74, 20, 249, 116, 130, 219],
    [4, 0, 7, 0, 0, 0, 0, 0],
    [0, 0, 0, 0, 0, 0, 0, 0],
    [21, 0, 0, 0, 218, 0, 0, 0],
    [33, 0, 0, 0, 7, 0, 0, 0],
    [0, 0, 0, 0, 0, 0, 0, 0],
    [29, 0, 0, 0, 231, 0, 0, 0],
    [0, 0, 0, 0, 0, 0, 0, 0],
    [0, 0, 0, 0, 0, 0, 0, 0],
    [116, 117, 110, 110, 101, 108, 114, 112],
    [99, 46, 99, 97, 112, 110, 112, 58],
    [67, 108, 105, 101, 110, 116, 73, 110],
    [102, 111, 0, 0, 0, 0, 0, 0],
    [0, 0, 0, 0, 1, 0, 1, 0],
    [16, 0, 0, 0, 3, 0, 4, 0],
    [0, 0, 0, 0, 0, 0, 0, 0],
    [0, 0, 1, 0, 0, 0, 0, 0],
    [0, 0, 0, 0, 0, 0, 0, 0],
    [97, 0, 0, 0, 74, 0, 0, 0],
    [0, 0, 0, 0, 0, 0, 0, 0],
    [96, 0, 0, 0, 3, 0, 1, 0],
    [108, 0, 0, 0, 2, 0, 1, 0],
    [1, 0, 0, 0, 1, 0, 0, 0],
    [0, 0, 1, 0, 1, 0, 0, 0],
    [0, 0, 0, 0, 0, 0, 0, 0],
    [105, 0, 0, 0, 74, 0, 0, 0],
    [0, 0, 0, 0, 0, 0, 0, 0],
    [104, 0, 0, 0, 3, 0, 1, 0],
    [132, 0, 0, 0, 2, 0, 1, 0],
    [2, 0, 0, 0, 2, 0, 0, 0],
    [0, 0, 1, 0, 2, 0, 0, 0],
    [0, 0, 0, 0, 0, 0, 0, 0],
    [129, 0, 0, 0, 66, 0, 0, 0],
    [0, 0, 0, 0, 0, 0, 0, 0],
    [124, 0, 0, 0, 3, 0, 1, 0],
    [136, 0, 0, 0, 2, 0, 1, 0],
    [3, 0, 0, 0, 3, 0, 0, 0],
    [0, 0, 1, 0, 3, 0, 0, 0],
    [0, 0, 0, 0, 0, 0, 0, 0],
    [133, 0, 0, 0, 42, 0, 0, 0],
    [0, 0, 0, 0, 0, 0, 0, 0],
    [128, 0, 0, 0, 3, 0, 1, 0],
    [140, 0, 0, 0, 2, 0, 1, 0],
    [99, 108, 105, 101, 110, 116, 73, 100],
    [0, 0, 0, 0, 0, 0, 0, 0],
    [13, 0, 0, 0, 0, 0, 0, 0],
    [0, 0, 0, 0, 0, 0, 0, 0],
    [0, 0, 0, 0, 0, 0, 0, 0],
    [0, 0, 0, 0, 0, 0, 0, 0],
    [13, 0, 0, 0, 0, 0, 0, 0],
    [0, 0, 0, 0, 0, 0, 0, 0],
    [0, 0, 0, 0, 0, 0, 0, 0],
    [102, 101, 97, 116, 117, 114, 101, 115],
    [0, 0, 0, 0, 0, 0, 0, 0],
    [14, 0, 0, 0, 0, 0, 0, 0],
    [0, 0, 0, 0, 0, 0, 0, 0],
    [0, 0, 0, 0, 0, 0, 0, 0],
    [0, 0, 0, 0, 3, 0, 1, 0],
    [12, 0, 0, 0, 0, 0, 0, 0],
    [0, 0, 0, 0, 0, 0, 0, 0],
    [0, 0, 0, 0, 0, 0, 0, 0],
    [0, 0, 0, 0, 0, 0, 0, 0],
    [14, 0, 0, 0, 0, 0, 0, 0],
    [0, 0, 0, 0, 0, 0, 0, 0],
    [0, 0, 0, 0, 0, 0, 0, 0],
    [118, 101, 114, 115, 105, 111, 110, 0],
    [12, 0, 0, 0, 0, 0, 0, 0],
    [0, 0, 0, 0, 0, 0, 0, 0],
    [0, 0, 0, 0, 0, 0, 0, 0],
    [0, 0, 0, 0, 0, 0, 0, 0],
    [12, 0, 0, 0, 0, 0, 0, 0],
    [0, 0, 0, 0, 0, 0, 0, 0],
    [0, 0, 0, 0, 0, 0, 0, 0],
    [97, 114, 99, 104, 0, 0, 0, 0],
    [12, 0, 0, 0, 0, 0, 0, 0],
    [0, 0, 0, 0, 0, 0, 0, 0],
    [0, 0, 0, 0, 0, 0, 0, 0],
    [0, 0, 0, 0, 0, 0, 0, 0],
    [12, 0, 0, 0, 0, 0, 0, 0],
    [0, 0, 0, 0, 0, 0, 0, 0],
    [0, 0, 0, 0, 0, 0, 0, 0]]"

definition connection_options_ENCODED_NODE :: encoded_node where
  "connection_options_ENCODED_NODE =
   [[0, 0, 0, 0, 5, 0, 6, 0],
    [4, 93, 3, 254, 97, 152, 191, 180],
    [16, 0, 0, 0, 1, 0, 1, 0],
    [126, 188, 74, 20, 249, 116, 130, 219],
    [2, 0, 7, 0, 0, 0, 0, 0],
    [0, 0, 0, 0, 0, 0, 0, 0],
    [21, 0, 0, 0, 18, 1, 0, 0],
    [37, 0, 0, 0, 7, 0, 0, 0],
    [0, 0, 0, 0, 0, 0, 0, 0],
    [33, 0, 0, 0, 31, 1, 0, 0],
    [0, 0, 0, 0, 0, 0, 0, 0],
    [0, 0, 0, 0, 0, 0, 0, 0],
    [116, 117, 110, 110, 101, 108, 114, 112],
    [99, 46, 99, 97, 112, 110, 112, 58],
    [67, 111, 110, 110, 101, 99, 116, 105],
    [111, 110, 79, 112, 116, 105, 111, 110],
    [115, 0, 0, 0, 0, 0, 0, 0],
    [0, 0, 0, 0, 1, 0, 1, 0],
    [20, 0, 0, 0, 3, 0, 4, 0],
    [0, 0, 0, 0, 0, 0, 0, 0],
    [0, 0, 1, 0, 0, 0, 0, 0],
    [0, 0, 0, 0, 0, 0, 0, 0],
    [125, 0, 0, 0, 58, 0, 0, 0],
    [0, 0, 0, 0, 0, 0, 0, 0],
    [120, 0, 0, 0, 3, 0, 1, 0],
    [132, 0, 0, 0, 2, 0, 1, 0],
    [1, 0, 0, 0, 1, 0, 0, 0],
    [0, 0, 1, 0, 1, 0, 0, 0],
    [0, 0, 0, 0, 0, 0, 0, 0],
    [129, 0, 0, 0, 114, 0, 0, 0],
    [0, 0, 0, 0, 0, 0, 0, 0],
    [128, 0, 0, 0, 3, 0, 1, 0],
    [140, 0, 0, 0, 2, 0, 1, 0],
    [2, 0, 0, 0, 0, 0, 0, 0],
    [0, 0, 1, 0, 2, 0, 0, 0],
    [0, 0, 0, 0, 0, 0, 0, 0],
    [137, 0, 0, 0, 130, 0, 0, 0],
    [0, 0, 0, 0, 0, 0, 0, 0],
    [136, 0, 0, 0, 3, 0, 1, 0],
    [148, 0, 0, 0, 2, 0, 1, 0],
    [3, 0, 0, 0, 1, 0, 0, 0],
    [0, 0, 1, 0, 3, 0, 0, 0],
    [0, 0, 0, 0, 0, 0, 0, 0],
    [145, 0, 0, 0, 154, 0, 0, 0],
    [0, 0, 0, 0, 0, 0, 0, 0],
    [148, 0, 0, 0, 3, 0, 1, 0],
    [160, 0, 0, 0, 2, 0, 1, 0],
    [4, 0, 0, 0, 2, 0, 0, 0],
    [0, 0, 1, 0, 4, 0, 0, 0],
    [0, 0, 0, 0, 0, 0, 0, 0],
    [157, 0, 0, 0, 162, 0, 0, 0],
    [0, 0, 0, 0, 0, 0, 0, 0],
    [160, 0, 0, 0, 3, 0, 1, 0],
    [172, 0, 0, 0, 2, 0, 1, 0],
    [99, 108, 105, 101, 110, 116, 0, 0],
    [16, 0, 0, 0, 0, 0, 0, 0],
    [75, 17, 47, 91, 20, 208, 206, 131],
    [0, 0, 0, 0, 0, 0, 0, 0],
    [0, 0, 0, 0, 0, 0, 0, 0],
    [16, 0, 0, 0, 0, 0, 0, 0],
    [0, 0, 0, 0, 0, 0, 0, 0],
    [0, 0, 0, 0, 0, 0, 0, 0],
    [111, 114, 105, 103, 105, 110, 76, 111],
    [99, 97, 108, 73, 112, 0, 0, 0],
    [13, 0, 0, 0, 0, 0, 0, 0],
    [0, 0, 0, 0, 0, 0, 0, 0],
    [0, 0, 0, 0, 0, 0, 0, 0],
    [0, 0, 0, 0, 0, 0, 0, 0],
    [13, 0, 0, 0, 0, 0, 0, 0],
    [0, 0, 0, 0, 0, 0, 0, 0],
    [0, 0, 0, 0, 0, 0, 0, 0],
    [114, 101, 112, 108, 97, 99, 101, 69],
    [120, 105, 115, 116, 105, 110, 103, 0],
    [1, 0, 0, 0, 0, 0, 0, 0],
    [0, 0, 0, 0, 0, 0, 0, 0],
    [0, 0, 0, 0, 0, 0, 0, 0],
    [0, 0, 0, 0, 0, 0, 0, 0],
    [1, 0, 0, 0, 0, 0, 0, 0],
    [0, 0, 0, 0, 0, 0, 0, 0],
    [0, 0, 0, 0, 0, 0, 0, 0],
    [99, 111, 109, 112, 114, 101, 115, 115],
    [105, 111, 110, 81, 117, 97, 108, 105],
    [116, 121, 0, 0, 0, 0, 0, 0],
    [6, 0, 0, 0, 0, 0, 0, 0],
    [0, 0, 0, 0, 0, 0, 0, 0],
    [0, 0, 0, 0, 0, 0, 0, 0],
    [0, 0, 0, 0, 0, 0, 0, 0],
    [6, 0, 0, 0, 0, 0, 0, 0],
    [0, 0, 0, 0, 0, 0, 0, 0],
    [0, 0, 0, 0, 0, 0, 0, 0],
    [110, 117, 109, 80, 114, 101, 118, 105],
    [111, 117, 115, 65, 116, 116, 101, 109],
    [112, 116, 115, 0, 0, 0, 0, 0],
    [6, 0, 0, 0, 0, 0, 0, 0],
    [0, 0, 0, 0, 0, 0, 0, 0],
    [0, 0, 0, 0, 0, 0, 0, 0],
    [0, 0, 0, 0, 0, 0, 0, 0],
    [6, 0, 0, 0, 0, 0, 0, 0],
    [0, 0, 0, 0, 0, 0, 0, 0],
    [0, 0, 0, 0, 0, 0, 0, 0]]"

definition connection_error_ENCODED_NODE :: encoded_node where
  "connection_error_ENCODED_NODE =
   [[0, 0, 0, 0, 5, 0, 6, 0],
    [134, 219, 94, 120, 210, 131, 243, 245],
    [16, 0, 0, 0, 1, 0, 2, 0],
    [126, 188, 74, 20, 249, 116, 130, 219],
    [1, 0, 7, 0, 0, 0, 0, 0],
    [0, 0, 0, 0, 0, 0, 0, 0],
    [21, 0, 0, 0, 2, 1, 0, 0],
    [33, 0, 0, 0, 7, 0, 0, 0],
    [0, 0, 0, 0, 0, 0, 0, 0],
    [29, 0, 0, 0, 175, 0, 0, 0],
    [0, 0, 0, 0, 0, 0, 0, 0],
    [0, 0, 0, 0, 0, 0, 0, 0],
    [116, 117, 110, 110, 101, 108, 114, 112],
    [99, 46, 99, 97, 112, 110, 112, 58],
    [67, 111, 110, 110, 101, 99, 116, 105],
    [111, 110, 69, 114, 114, 111, 114, 0],
    [0, 0, 0, 0, 1, 0, 1, 0],
    [12, 0, 0, 0, 3, 0, 4, 0],
    [0, 0, 0, 0, 0, 0, 0, 0],
    [0, 0, 1, 0, 0, 0, 0, 0],
    [0, 0, 0, 0, 0, 0, 0, 0],
    [69, 0, 0, 0, 50, 0, 0, 0],
    [0, 0, 0, 0, 0, 0, 0, 0],
    [64, 0, 0, 0, 3, 0, 1, 0],
    [76, 0, 0, 0, 2, 0, 1, 0],
    [1, 0, 0, 0, 0, 0, 0, 0],
    [0, 0, 1, 0, 1, 0, 0, 0],
    [0, 0, 0, 0, 0, 0, 0, 0],
    [73, 0, 0, 0, 90, 0, 0, 0],
    [0, 0, 0, 0, 0, 0, 0, 0],
    [72, 0, 0, 0, 3, 0, 1, 0],
    [84, 0, 0, 0, 2, 0, 1, 0],
    [2, 0, 0, 0, 64, 0, 0, 0],
    [0, 0, 1, 0, 2, 0, 0, 0],
    [0, 0, 0, 0, 0, 0, 0, 0],
    [81, 0, 0, 0, 98, 0, 0, 0],
    [0, 0, 0, 0, 0, 0, 0, 0],
    [80, 0, 0, 0, 3, 0, 1, 0],
    [92, 0, 0, 0, 2, 0, 1, 0],
    [99, 97, 117, 115, 101, 0, 0, 0],
    [12, 0, 0, 0, 0, 0, 0, 0],
    [0, 0, 0, 0, 0, 0, 0, 0],
    [0, 0, 0, 0, 0, 0, 0, 0],
    [0, 0, 0, 0, 0, 0, 0, 0],
    [12, 0, 0, 0, 0, 0, 0, 0],
    [0, 0, 0, 0, 0, 0, 0, 0],
    [0, 0, 0, 0, 0, 0, 0, 0],
    [114, 101, 116, 114, 121, 65, 102, 116],
    [101, 114, 0, 0, 0, 0, 0, 0],
    [5, 0, 0, 0, 0, 0, 0, 0],
    [0, 0, 0, 0, 0, 0, 0, 0],
    [0, 0, 0, 0, 0, 0, 0, 0],
    [0, 0, 0, 0, 0, 0, 0, 0],
    [5, 0, 0, 0, 0, 0, 0, 0],
    [0, 0, 0, 0, 0, 0, 0, 0],
    [0, 0, 0, 0, 0, 0, 0, 0],
    [115, 104, 111, 117, 108, 100, 82, 101],
    [116, 114, 121, 0, 0, 0, 0, 0],
    [1, 0, 0, 0, 0, 0, 0, 0],
    [0, 0, 0, 0, 0, 0, 0, 0],
    [0, 0, 0, 0, 0, 0, 0, 0],
    [0, 0, 0, 0, 0, 0, 0, 0],
    [1, 0, 0, 0, 0, 0, 0, 0],
    [0, 0, 0, 0, 0, 0, 0, 0],
    [0, 0, 0, 0, 0, 0, 0, 0]]"

definition connection_details_ENCODED_NODE :: encoded_node where
  "connection_details_ENCODED_NODE =
   [[0, 0, 0, 0, 5, 0, 6, 0],
    [138, 193, 154, 43, 8, 159, 243, 181],
    [16, 0, 0, 0, 1, 0, 1, 0],
    [126, 188, 74, 20, 249, 116, 130, 219],
    [2, 0, 7, 0, 0, 0, 0, 0],
    [0, 0, 0, 0, 0, 0, 0, 0],
    [21, 0, 0, 0, 18, 1, 0, 0],
    [37, 0, 0, 0, 7, 0, 0, 0],
    [0, 0, 0, 0, 0, 0, 0, 0],
    [33, 0, 0, 0, 175, 0, 0, 0],
    [0, 0, 0, 0, 0, 0, 0, 0],
    [0, 0, 0, 0, 0, 0, 0, 0],
    [116, 117, 110, 110, 101, 108, 114, 112],
    [99, 46, 99, 97, 112, 110, 112, 58],
    [67, 111, 110, 110, 101, 99, 116, 105],
    [111, 110, 68, 101, 116, 97, 105, 108],
    [115, 0, 0, 0, 0, 0, 0, 0],
    [0, 0, 0, 0, 1, 0, 1, 0],
    [12, 0, 0, 0, 3, 0, 4, 0],
    [0, 0, 0, 0, 0, 0, 0, 0],
    [0, 0, 1, 0, 0, 0, 0, 0],
    [0, 0, 0, 0, 0, 0, 0, 0],
    [69, 0, 0, 0, 42, 0, 0, 0],
    [0, 0, 0, 0, 0, 0, 0, 0],
    [64, 0, 0, 0, 3, 0, 1, 0],
    [76, 0, 0, 0, 2, 0, 1, 0],
    [1, 0, 0, 0, 1, 0, 0, 0],
    [0, 0, 1, 0, 1, 0, 0, 0],
    [0, 0, 0, 0, 0, 0, 0, 0],
    [73, 0, 0, 0, 106, 0, 0, 0],
    [0, 0, 0, 0, 0, 0, 0, 0],
    [72, 0, 0, 0, 3, 0, 1, 0],
    [84, 0, 0, 0, 2, 0, 1, 0],
    [2, 0, 0, 0, 0, 0, 0, 0],
    [0, 0, 1, 0, 2, 0, 0, 0],
    [0, 0, 0, 0, 0, 0, 0, 0],
    [81, 0, 0, 0, 194, 0, 0, 0],
    [0, 0, 0, 0, 0, 0, 0, 0],
    [84, 0, 0, 0, 3, 0, 1, 0],
    [96, 0, 0, 0, 2, 0, 1, 0],
    [117, 117, 105, 100, 0, 0, 0, 0],
    [13, 0, 0, 0, 0, 0, 0, 0],
    [0, 0, 0, 0, 0, 0, 0, 0],
    [0, 0, 0, 0, 0, 0, 0, 0],
    [0, 0, 0, 0, 0, 0, 0, 0],
    [13, 0, 0, 0, 0, 0, 0, 0],
    [0, 0, 0, 0, 0, 0, 0, 0],
    [0, 0, 0, 0, 0, 0, 0, 0],
    [108, 111, 99, 97, 116, 105, 111, 110],
    [78, 97, 109, 101, 0, 0, 0, 0],
    [12, 0, 0, 0, 0, 0, 0, 0],
    [0, 0, 0, 0, 0, 0, 0, 0],
    [0, 0, 0, 0, 0, 0, 0, 0],
    [0, 0, 0, 0, 0, 0, 0, 0],
    [12, 0, 0, 0, 0, 0, 0, 0],
    [0, 0, 0, 0, 0, 0, 0, 0],
    [0, 0, 0, 0, 0, 0, 0, 0],
    [116, 117, 110, 110, 101, 108, 73, 115],
    [82, 101, 109, 111, 116, 101, 108, 121],
    [77, 97, 110, 97, 103, 101, 100, 0],
    [1, 0, 0, 0, 0, 0, 0, 0],
    [0, 0, 0, 0, 0, 0, 0, 0],
    [0, 0, 0, 0, 0, 0, 0, 0],
    [0, 0, 0, 0, 0, 0, 0, 0],
    [1, 0, 0, 0, 0, 0, 0, 0],
    [0, 0, 0, 0, 0, 0, 0, 0],
    [0, 0, 0, 0, 0, 0, 0, 0]]"

definition connection_response_ENCODED_NODE :: encoded_node where
  "connection_response_ENCODED_NODE =
   [[0, 0, 0, 0, 5, 0, 6, 0],
    [220, 98, 43, 213, 3, 157, 170, 219],
    [16, 0, 0, 0, 1, 0, 1, 0],
    [126, 188, 74, 20, 249, 116, 130, 219],
    [1, 0, 7, 0, 0, 0, 0, 0],
    [0, 0, 0, 0, 0, 0, 0, 0],
    [21, 0, 0, 0, 26, 1, 0, 0],
    [37, 0, 0, 0, 7, 0, 0, 0],
    [0, 0, 0, 0, 0, 0, 0, 0],
    [33, 0, 0, 0, 63, 0, 0, 0],
    [0, 0, 0, 0, 0, 0, 0, 0],
    [0, 0, 0, 0, 0, 0, 0, 0],
    [116, 117, 110, 110, 101, 108, 114, 112],
    [99, 46, 99, 97, 112, 110, 112, 58],
    [67, 111, 110, 110, 101, 99, 116, 105],
    [111, 110, 82, 101, 115, 112, 111, 110],
    [115, 101, 0, 0, 0, 0, 0, 0],
    [0, 0, 0, 0, 1, 0, 1, 0],
    [4, 0, 0, 0, 3, 0, 4, 0],
    [0, 0, 0, 0, 0, 0, 0, 0],
    [1, 0, 0, 0, 0, 0, 0, 0],
    [34, 118, 37, 96, 194, 197, 179, 151],
    [13, 0, 0, 0, 58, 0, 0, 0],
    [0, 0, 0, 0, 0, 0, 0, 0],
    [0, 0, 0, 0, 0, 0, 0, 0],
    [0, 0, 0, 0, 0, 0, 0, 0],
    [114, 101, 115, 117, 108, 116, 0, 0]]"

definition response_result_ENCODED_NODE :: encoded_node where
  "response_result_ENCODED_NODE =
   [[0, 0, 0, 0, 5, 0, 6, 0],
    [34, 118, 37, 96, 194, 197, 179, 151],
    [35, 0, 0, 0, 1, 0, 1, 0],
    [220, 98, 43, 213, 3, 157, 170, 219],
    [1, 0, 7, 0, 1, 0, 2, 0],
    [0, 0, 0, 0, 0, 0, 0, 0],
    [21, 0, 0, 0, 82, 1, 0, 0],
    [0, 0, 0, 0, 0, 0, 0, 0],
    [0, 0, 0, 0, 0, 0, 0, 0],
    [33, 0, 0, 0, 119, 0, 0, 0],
    [0, 0, 0, 0, 0, 0, 0, 0],
    [0, 0, 0, 0, 0, 0, 0, 0],
    [116, 117, 110, 110, 101, 108, 114, 112],
    [99, 46, 99, 97, 112, 110, 112, 58],
    [67, 111, 110, 110, 101, 99, 116, 105],
    [111, 110, 82, 101, 115, 112, 111, 110],
    [115, 101, 46, 114, 101, 115, 117, 108],
    [116, 0, 0, 0, 0, 0, 0, 0],
    [8, 0, 0, 0, 3, 0, 4, 0],
    [0, 0, 255, 255, 0, 0, 0, 0],
    [0, 0, 1, 0, 0, 0, 0, 0],
    [0, 0, 0, 0, 0, 0, 0, 0],
    [41, 0, 0, 0, 50, 0, 0, 0],
    [0, 0, 0, 0, 0, 0, 0, 0],
    [36, 0, 0, 0, 3, 0, 1, 0],
    [48, 0, 0, 0, 2, 0, 1, 0],
    [1, 0, 254, 255, 0, 0, 0, 0],
    [0, 0, 1, 0, 1, 0, 0, 0],
    [0, 0, 0, 0, 0, 0, 0, 0],
    [45, 0, 0, 0, 146, 0, 0, 0],
    [0, 0, 0, 0, 0, 0, 0, 0],
    [48, 0, 0, 0, 3, 0, 1, 0],
    [60, 0, 0, 0, 2, 0, 1, 0],
    [101, 114, 114, 111, 114, 0, 0, 0],
    [16, 0, 0, 0, 0, 0, 0, 0],
    [134, 219, 94, 120, 210, 131, 243, 245],
    [0, 0, 0, 0, 0, 0, 0, 0],
    [0, 0, 0, 0, 0, 0, 0, 0],
    [16, 0, 0, 0, 0, 0, 0, 0],
    [0, 0, 0, 0, 0, 0, 0, 0],
    [0, 0, 0, 0, 0, 0, 0, 0],
    [99, 111, 110, 110, 101, 99, 116, 105],
    [111, 110, 68, 101, 116, 97, 105, 108],
    [115, 0, 0, 0, 0, 0, 0, 0],
    [16, 0, 0, 0, 0, 0, 0, 0],
    [138, 193, 154, 43, 8, 159, 243, 181],
    [0, 0, 0, 0, 0, 0, 0, 0],
    [0, 0, 0, 0, 0, 0, 0, 0],
    [16, 0, 0, 0, 0, 0, 0, 0],
    [0, 0, 0, 0, 0, 0, 0, 0],
    [0, 0, 0, 0, 0, 0, 0, 0]]"

definition register_connection_params_ENCODED_NODE :: encoded_node where
  "register_connection_params_ENCODED_NODE =
   [[0, 0, 0, 0, 5, 0, 6, 0],
    [238, 166, 234, 143, 236, 109, 100, 230],
    [35, 0, 0, 0, 1, 0, 1, 0],
    [0, 0, 0, 0, 0, 0, 0, 0],
    [3, 0, 7, 0, 0, 0, 0, 0],
    [0, 0, 0, 0, 0, 0, 0, 0],
    [21, 0, 0, 0, 234, 1, 0, 0],
    [0, 0, 0, 0, 0, 0, 0, 0],
    [0, 0, 0, 0, 0, 0, 0, 0],
    [41, 0, 0, 0, 231, 0, 0, 0],
    [0, 0, 0, 0, 0, 0, 0, 0],
    [0, 0, 0, 0, 0, 0, 0, 0],
    [116, 117, 110, 110, 101, 108, 114, 112],
    [99, 46, 99, 97, 112, 110, 112, 58],
    [82, 101, 103, 105, 115, 116, 114, 97],
    [116, 105, 111, 110, 83, 101, 114, 118],
    [101, 114, 46, 114, 101, 103, 105, 115],
    [116, 101, 114, 67, 111, 110, 110, 101],
    [99, 116, 105, 111, 110, 36, 80, 97],
    [114, 97, 109, 115, 0, 0, 0, 0],
    [16, 0, 0, 0, 3, 0, 4, 0],
    [0, 0, 0, 0, 0, 0, 0, 0],
    [0, 0, 1, 0, 0, 0, 0, 0],
    [0, 0, 0, 0, 0, 0, 0, 0],
    [97, 0, 0, 0, 42, 0, 0, 0],
    [0, 0, 0, 0, 0, 0, 0, 0],
    [92, 0, 0, 0, 3, 0, 1, 0],
    [104, 0, 0, 0, 2, 0, 1, 0],
    [1, 0, 0, 0, 1, 0, 0, 0],
    [0, 0, 1, 0, 1, 0, 0, 0],
    [0, 0, 0, 0, 0, 0, 0, 0],
    [101, 0, 0, 0, 74, 0, 0, 0],
    [0, 0, 0, 0, 0, 0, 0, 0],
    [100, 0, 0, 0, 3, 0, 1, 0],
    [112, 0, 0, 0, 2, 0, 1, 0],
    [2, 0, 0, 0, 0, 0, 0, 0],
    [0, 0, 1, 0, 2, 0, 0, 0],
    [0, 0, 0, 0, 0, 0, 0, 0],
    [109, 0, 0, 0, 82, 0, 0, 0],
    [0, 0, 0, 0, 0, 0, 0, 0],
    [108, 0, 0, 0, 3, 0, 1, 0],
    [120, 0, 0, 0, 2, 0, 1, 0],
    [3, 0, 0, 0, 2, 0, 0, 0],
    [0, 0, 1, 0, 3, 0, 0, 0],
    [0, 0, 0, 0, 0, 0, 0, 0],
    [117, 0, 0, 0, 66, 0, 0, 0],
    [0, 0, 0, 0, 0, 0, 0, 0],
    [112, 0, 0, 0, 3, 0, 1, 0],
    [124, 0, 0, 0, 2, 0, 1, 0],
    [97, 117, 116, 104, 0, 0, 0, 0],
    [16, 0, 0, 0, 0, 0, 0, 0],
    [63, 70, 205, 185, 26, 51, 150, 148],
    [0, 0, 0, 0, 0, 0, 0, 0],
    [0, 0, 0, 0, 0, 0, 0, 0],
    [16, 0, 0, 0, 0, 0, 0, 0],
    [0, 0, 0, 0, 0, 0, 0, 0],
    [0, 0, 0, 0, 0, 0, 0, 0],
    [116, 117, 110, 110, 101, 108, 73, 100],
    [0, 0, 0, 0, 0, 0, 0, 0],
    [13, 0, 0, 0, 0, 0, 0, 0],
    [0, 0, 0, 0, 0, 0, 0, 0],
    [0, 0, 0, 0, 0, 0, 0, 0],
    [0, 0, 0, 0, 0, 0, 0, 0],
    [13, 0, 0, 0, 0, 0, 0, 0],
    [0, 0, 0, 0, 0, 0, 0, 0],
    [0, 0, 0, 0, 0, 0, 0, 0],
    [99, 111, 110, 110, 73, 110, 100, 101],
    [120, 0, 0, 0, 0, 0, 0, 0],
    [6, 0, 0, 0, 0, 0, 0, 0],
    [0, 0, 0, 0, 0, 0, 0, 0],
    [0, 0, 0, 0, 0, 0, 0, 0],
    [0, 0, 0, 0, 0, 0, 0, 0],
    [6, 0, 0, 0, 0, 0, 0, 0],
    [0, 0, 0, 0, 0, 0, 0, 0],
    [0, 0, 0, 0, 0, 0, 0, 0],
    [111, 112, 116, 105, 111, 110, 115, 0],
    [16, 0, 0, 0, 0, 0, 0, 0],
    [4, 93, 3, 254, 97, 152, 191, 180],
    [0, 0, 0, 0, 0, 0, 0, 0],
    [0, 0, 0, 0, 0, 0, 0, 0],
    [16, 0, 0, 0, 0, 0, 0, 0],
    [0, 0, 0, 0, 0, 0, 0, 0],
    [0, 0, 0, 0, 0, 0, 0, 0]]"

definition register_connection_results_ENCODED_NODE :: encoded_node where
  "register_connection_results_ENCODED_NODE =
   [[0, 0, 0, 0, 5, 0, 6, 0],
    [23, 31, 13, 69, 34, 216, 80, 234],
    [35, 0, 0, 0, 1, 0, 0, 0],
    [0, 0, 0, 0, 0, 0, 0, 0],
    [1, 0, 7, 0, 0, 0, 0, 0],
    [0, 0, 0, 0, 0, 0, 0, 0],
    [21, 0, 0, 0, 242, 1, 0, 0],
    [0, 0, 0, 0, 0, 0, 0, 0],
    [0, 0, 0, 0, 0, 0, 0, 0],
    [41, 0, 0, 0, 63, 0, 0, 0],
    [0, 0, 0, 0, 0, 0, 0, 0],
    [0, 0, 0, 0, 0, 0, 0, 0],
    [116, 117, 110, 110, 101, 108, 114, 112],
    [99, 46, 99, 97, 112, 110, 112, 58],
    [82, 101, 103, 105, 115, 116, 114, 97],
    [116, 105, 111, 110, 83, 101, 114, 118],
    [101, 114, 46, 114, 101, 103, 105, 115],
    [116, 101, 114, 67, 111, 110, 110, 101],
    [99, 116, 105, 111, 110, 36, 82, 101],
    [115, 117, 108, 116, 115, 0, 0, 0],
    [4, 0, 0, 0, 3, 0, 4, 0],
    [0, 0, 0, 0, 0, 0, 0, 0],
    [0, 0, 1, 0, 0, 0, 0, 0],
    [0, 0, 0, 0, 0, 0, 0, 0],
    [13, 0, 0, 0, 58, 0, 0, 0],
    [0, 0, 0, 0, 0, 0, 0, 0],
    [8, 0, 0, 0, 3, 0, 1, 0],
    [20, 0, 0, 0, 2, 0, 1, 0],
    [114, 101, 115, 117, 108, 116, 0, 0],
    [16, 0, 0, 0, 0, 0, 0, 0],
    [220, 98, 43, 213, 3, 157, 170, 219],
    [0, 0, 0, 0, 0, 0, 0, 0],
    [0, 0, 0, 0, 0, 0, 0, 0],
    [16, 0, 0, 0, 0, 0, 0, 0],
    [0, 0, 0, 0, 0, 0, 0, 0],
    [0, 0, 0, 0, 0, 0, 0, 0]]"

definition unregister_connection_params_ENCODED_NODE :: encoded_node where
  "unregister_connection_params_ENCODED_NODE =
   [[0, 0, 0, 0, 5, 0, 6, 0],
    [208, 7, 163, 49, 68, 127, 203, 249],
    [35, 0, 0, 0, 1, 0, 0, 0],
    [0, 0, 0, 0, 0, 0, 0, 0],
    [0, 0, 7, 0, 0, 0, 0, 0],
    [0, 0, 0, 0, 0, 0, 0, 0],
    [21, 0, 0, 0, 250, 1, 0, 0],
    [0, 0, 0, 0, 0, 0, 0, 0],
    [0, 0, 0, 0, 0, 0, 0, 0],
    [0, 0, 0, 0, 0, 0, 0, 0],
    [0, 0, 0, 0, 0, 0, 0, 0],
    [0, 0, 0, 0, 0, 0, 0, 0],
    [116, 117, 110, 110, 101, 108, 114, 112],
    [99, 46, 99, 97, 112, 110, 112, 58],
    [82, 101, 103, 105, 115, 116, 114, 97],
    [116, 105, 111, 110, 83, 101, 114, 118],
    [101, 114, 46, 117, 110, 114, 101, 103],
    [105, 115, 116, 101, 114, 67, 111, 110],
    [110, 101, 99, 116, 105, 111, 110, 36],
    [80, 97, 114, 97, 109, 115, 0, 0]]"

definition unregister_connection_results_ENCODED_NODE :: encoded_node where
  "unregister_connection_results_ENCODED_NODE =
   [[0, 0, 0, 0, 5, 0, 6, 0],
    [173, 30, 75, 9, 120, 229, 70, 176],
    [35, 0, 0, 0, 1, 0, 0, 0],
    [0, 0, 0, 0, 0, 0, 0, 0],
    [0, 0, 7, 0, 0, 0, 0, 0],
    [0, 0, 0, 0, 0, 0, 0, 0],
    [21, 0, 0, 0, 2, 2, 0, 0],
    [0, 0, 0, 0, 0, 0, 0, 0],
    [0, 0, 0, 0, 0, 0, 0, 0],
    [0, 0, 0, 0, 0, 0, 0, 0],
    [0, 0, 0, 0, 0, 0, 0, 0],
    [0, 0, 0, 0, 0, 0, 0, 0],
    [116, 117, 110, 110, 101, 108, 114, 112],
    [99, 46, 99, 97, 112, 110, 112, 58],
    [82, 101, 103, 105, 115, 116, 114, 97],
    [116, 105, 111, 110, 83, 101, 114, 118],
    [101, 114, 46, 117, 110, 114, 101, 103],
    [105, 115, 116, 101, 114, 67, 111, 110],
    [110, 101, 99, 116, 105, 111, 110, 36],
    [82, 101, 115, 117, 108, 116, 115, 0]]"

definition register_udp_session_params_ENCODED_NODE :: encoded_node where
  "register_udp_session_params_ENCODED_NODE =
   [[0, 0, 0, 0, 5, 0, 6, 0],
    [234, 236, 251, 135, 123, 41, 78, 144],
    [31, 0, 0, 0, 1, 0, 2, 0],
    [0, 0, 0, 0, 0, 0, 0, 0],
    [3, 0, 7, 0, 0, 0, 0, 0],
    [0, 0, 0, 0, 0, 0, 0, 0],
    [21, 0, 0, 0, 202, 1, 0, 0],
    [0, 0, 0, 0, 0, 0, 0, 0],
    [0, 0, 0, 0, 0, 0, 0, 0],
    [41, 0, 0, 0, 31, 1, 0, 0],
    [0, 0, 0, 0, 0, 0, 0, 0],
    [0, 0, 0, 0, 0, 0, 0, 0],
    [116, 117, 110, 110, 101, 108, 114, 112],
    [99, 46, 99, 97, 112, 110, 112, 58],
    [83, 101, 115, 115, 105, 111, 110, 77],
    [97, 110, 97, 103, 101, 114, 46, 114],
    [101, 103, 105, 115, 116, 101, 114, 85],
    [100, 112, 83, 101, 115, 115, 105, 111],
    [110, 36, 80, 97, 114, 97, 109, 115],
    [0, 0, 0, 0, 0, 0, 0, 0],
    [20, 0, 0, 0, 3, 0, 4, 0],
    [0, 0, 0, 0, 0, 0, 0, 0],
    [0, 0, 1, 0, 0, 0, 0, 0],
    [0, 0, 0, 0, 0, 0, 0, 0],
    [125, 0, 0, 0, 82, 0, 0, 0],
    [0, 0, 0, 0, 0, 0, 0, 0],
    [124, 0, 0, 0, 3, 0, 1, 0],
    [136, 0, 0, 0, 2, 0, 1, 0],
    [1, 0, 0, 0, 1, 0, 0, 0],
    [0, 0, 1, 0, 1, 0, 0, 0],
    [0, 0, 0, 0, 0, 0, 0, 0],
    [133, 0, 0, 0, 50, 0, 0, 0],
    [0, 0, 0, 0, 0, 0, 0, 0],
    [128, 0, 0, 0, 3, 0, 1, 0],
    [140, 0, 0, 0, 2, 0, 1, 0],
    [2, 0, 0, 0, 0, 0, 0, 0],
    [0, 0, 1, 0, 2, 0, 0, 0],
    [0, 0, 0, 0, 0, 0, 0, 0],
    [137, 0, 0, 0, 66, 0, 0, 0],
    [0, 0, 0, 0, 0, 0, 0, 0],
    [132, 0, 0, 0, 3, 0, 1, 0],
    [144, 0, 0, 0, 2, 0, 1, 0],
    [3, 0, 0, 0, 1, 0, 0, 0],
    [0, 0, 1, 0, 3, 0, 0, 0],
    [0, 0, 0, 0, 0, 0, 0, 0],
    [141, 0, 0, 0, 154, 0, 0, 0],
    [0, 0, 0, 0, 0, 0, 0, 0],
    [144, 0, 0, 0, 3, 0, 1, 0],
    [156, 0, 0, 0, 2, 0, 1, 0],
    [4, 0, 0, 0, 2, 0, 0, 0],
    [0, 0, 1, 0, 4, 0, 0, 0],
    [1, 0, 0, 0, 0, 0, 0, 0],
    [153, 0, 0, 0, 106, 0, 0, 0],
    [0, 0, 0, 0, 0, 0, 0, 0],
    [152, 0, 0, 0, 3, 0, 1, 0],
    [164, 0, 0, 0, 2, 0, 1, 0],
    [115, 101, 115, 115, 105, 111, 110, 73],
    [100, 0, 0, 0, 0, 0, 0, 0],
    [13, 0, 0, 0, 0, 0, 0, 0],
    [0, 0, 0, 0, 0, 0, 0, 0],
    [0, 0, 0, 0, 0, 0, 0, 0],
    [0, 0, 0, 0, 0, 0, 0, 0],
    [13, 0, 0, 0, 0, 0, 0, 0],
    [0, 0, 0, 0, 0, 0, 0, 0],
    [0, 0, 0, 0, 0, 0, 0, 0],
    [100, 115, 116, 73, 112, 0, 0, 0],
    [13, 0, 0, 0, 0, 0, 0, 0],
    [0, 0, 0, 0, 0, 0, 0, 0],
    [0, 0, 0, 0, 0, 0, 0, 0],
    [0, 0, 0, 0, 0, 0, 0, 0],
    [13, 0, 0, 0, 0, 0, 0, 0],
    [0, 0, 0, 0, 0, 0, 0, 0],
    [0, 0, 0, 0, 0, 0, 0, 0],
    [100, 115, 116, 80, 111, 114, 116, 0],
    [7, 0, 0, 0, 0, 0, 0, 0],
    [0, 0, 0, 0, 0, 0, 0, 0],
    [0, 0, 0, 0, 0, 0, 0, 0],
    [0, 0, 0, 0, 0, 0, 0, 0],
    [7, 0, 0, 0, 0, 0, 0, 0],
    [0, 0, 0, 0, 0, 0, 0, 0],
    [0, 0, 0, 0, 0, 0, 0, 0],
    [99, 108, 111, 115, 101, 65, 102, 116],
    [101, 114, 73, 100, 108, 101, 72, 105],
    [110, 116, 0, 0, 0, 0, 0, 0],
    [5, 0, 0, 0, 0, 0, 0, 0],
    [0, 0, 0, 0, 0, 0, 0, 0],
    [0, 0, 0, 0, 0, 0, 0, 0],
    [0, 0, 0, 0, 0, 0, 0, 0],
    [5, 0, 0, 0, 0, 0, 0, 0],
    [0, 0, 0, 0, 0, 0, 0, 0],
    [0, 0, 0, 0, 0, 0, 0, 0],
    [116, 114, 97, 99, 101, 67, 111, 110],
    [116, 101, 120, 116, 0, 0, 0, 0],
    [12, 0, 0, 0, 0, 0, 0, 0],
    [0, 0, 0, 0, 0, 0, 0, 0],
    [0, 0, 0, 0, 0, 0, 0, 0],
    [0, 0, 0, 0, 0, 0, 0, 0],
    [12, 0, 0, 0, 0, 0, 0, 0],
    [0, 0, 0, 0, 0, 0, 0, 0],
    [1, 0, 0, 0, 10, 0, 0, 0],
    [0, 0, 0, 0, 0, 0, 0, 0]]"

definition register_udp_session_results_ENCODED_NODE :: encoded_node where
  "register_udp_session_results_ENCODED_NODE =
   [[0, 0, 0, 0, 5, 0, 6, 0],
    [205, 245, 91, 244, 180, 198, 53, 134],
    [31, 0, 0, 0, 1, 0, 0, 0],
    [0, 0, 0, 0, 0, 0, 0, 0],
    [1, 0, 7, 0, 0, 0, 0, 0],
    [0, 0, 0, 0, 0, 0, 0, 0],
    [21, 0, 0, 0, 210, 1, 0, 0],
    [0, 0, 0, 0, 0, 0, 0, 0],
    [0, 0, 0, 0, 0, 0, 0, 0],
    [41, 0, 0, 0, 63, 0, 0, 0],
    [0, 0, 0, 0, 0, 0, 0, 0],
    [0, 0, 0, 0, 0, 0, 0, 0],
    [116, 117, 110, 110, 101, 108, 114, 112],
    [99, 46, 99, 97, 112, 110, 112, 58],
    [83, 101, 115, 115, 105, 111, 110, 77],
    [97, 110, 97, 103, 101, 114, 46, 114],
    [101, 103, 105, 115, 116, 101, 114, 85],
    [100, 112, 83, 101, 115, 115, 105, 111],
    [110, 36, 82, 101, 115, 117, 108, 116],
    [115, 0, 0, 0, 0, 0, 0, 0],
    [4, 0, 0, 0, 3, 0, 4, 0],
    [0, 0, 0, 0, 0, 0, 0, 0],
    [0, 0, 1, 0, 0, 0, 0, 0],
    [0, 0, 0, 0, 0, 0, 0, 0],
    [13, 0, 0, 0, 58, 0, 0, 0],
    [0, 0, 0, 0, 0, 0, 0, 0],
    [8, 0, 0, 0, 3, 0, 1, 0],
    [20, 0, 0, 0, 2, 0, 1, 0],
    [114, 101, 115, 117, 108, 116, 0, 0],
    [16, 0, 0, 0, 0, 0, 0, 0],
    [135, 102, 242, 193, 16, 82, 109, 171],
    [0, 0, 0, 0, 0, 0, 0, 0],
    [0, 0, 0, 0, 0, 0, 0, 0],
    [16, 0, 0, 0, 0, 0, 0, 0],
    [0, 0, 0, 0, 0, 0, 0, 0],
    [0, 0, 0, 0, 0, 0, 0, 0]]"

definition unregister_udp_session_params_ENCODED_NODE :: encoded_node where
  "unregister_udp_session_params_ENCODED_NODE =
   [[0, 0, 0, 0, 5, 0, 6, 0],
    [246, 14, 155, 206, 117, 67, 183, 150],
    [31, 0, 0, 0, 1, 0, 0, 0],
    [0, 0, 0, 0, 0, 0, 0, 0],
    [2, 0, 7, 0, 0, 0, 0, 0],
    [0, 0, 0, 0, 0, 0, 0, 0],
    [21, 0, 0, 0, 218, 1, 0, 0],
    [0, 0, 0, 0, 0, 0, 0, 0],
    [0, 0, 0, 0, 0, 0, 0, 0],
    [41, 0, 0, 0, 119, 0, 0, 0],
    [0, 0, 0, 0, 0, 0, 0, 0],
    [0, 0, 0, 0, 0, 0, 0, 0],
    [116, 117, 110, 110, 101, 108, 114, 112],
    [99, 46, 99, 97, 112, 110, 112, 58],
    [83, 101, 115, 115, 105, 111, 110, 77],
    [97, 110, 97, 103, 101, 114, 46, 117],
    [110, 114, 101, 103, 105, 115, 116, 101],
    [114, 85, 100, 112, 83, 101, 115, 115],
    [105, 111, 110, 36, 80, 97, 114, 97],
    [109, 115, 0, 0, 0, 0, 0, 0],
    [8, 0, 0, 0, 3, 0, 4, 0],
    [0, 0, 0, 0, 0, 0, 0, 0],
    [0, 0, 1, 0, 0, 0, 0, 0],
    [0, 0, 0, 0, 0, 0, 0, 0],
    [41, 0, 0, 0, 82, 0, 0, 0],
    [0, 0, 0, 0, 0, 0, 0, 0],
    [40, 0, 0, 0, 3, 0, 1, 0],
    [52, 0, 0, 0, 2, 0, 1, 0],
    [1, 0, 0, 0, 1, 0, 0, 0],
    [0, 0, 1, 0, 1, 0, 0, 0],
    [0, 0, 0, 0, 0, 0, 0, 0],
    [49, 0, 0, 0, 66, 0, 0, 0],
    [0, 0, 0, 0, 0, 0, 0, 0],
    [44, 0, 0, 0, 3, 0, 1, 0],
    [56, 0, 0, 0, 2, 0, 1, 0],
    [115, 101, 115, 115, 105, 111, 110, 73],
    [100, 0, 0, 0, 0, 0, 0, 0],
    [13, 0, 0, 0, 0, 0, 0, 0],
    [0, 0, 0, 0, 0, 0, 0, 0],
    [0, 0, 0, 0, 0, 0, 0, 0],
    [0, 0, 0, 0, 0, 0, 0, 0],
    [13, 0, 0, 0, 0, 0, 0, 0],
    [0, 0, 0, 0, 0, 0, 0, 0],
    [0, 0, 0, 0, 0, 0, 0, 0],
    [109, 101, 115, 115, 97, 103, 101, 0],
    [12, 0, 0, 0, 0, 0, 0, 0],
    [0, 0, 0, 0, 0, 0, 0, 0],
    [0, 0, 0, 0, 0, 0, 0, 0],
    [0, 0, 0, 0, 0, 0, 0, 0],
    [12, 0, 0, 0, 0, 0, 0, 0],
    [0, 0, 0, 0, 0, 0, 0, 0],
    [0, 0, 0, 0, 0, 0, 0, 0]]"

definition unregister_udp_session_results_ENCODED_NODE :: encoded_node where
  "unregister_udp_session_results_ENCODED_NODE =
   [[0, 0, 0, 0, 5, 0, 6, 0],
    [118, 182, 145, 88, 171, 196, 78, 242],
    [31, 0, 0, 0, 1, 0, 0, 0],
    [0, 0, 0, 0, 0, 0, 0, 0],
    [0, 0, 7, 0, 0, 0, 0, 0],
    [0, 0, 0, 0, 0, 0, 0, 0],
    [21, 0, 0, 0, 226, 1, 0, 0],
    [0, 0, 0, 0, 0, 0, 0, 0],
    [0, 0, 0, 0, 0, 0, 0, 0],
    [0, 0, 0, 0, 0, 0, 0, 0],
    [0, 0, 0, 0, 0, 0, 0, 0],
    [0, 0, 0, 0, 0, 0, 0, 0],
    [116, 117, 110, 110, 101, 108, 114, 112],
    [99, 46, 99, 97, 112, 110, 112, 58],
    [83, 101, 115, 115, 105, 111, 110, 77],
    [97, 110, 97, 103, 101, 114, 46, 117],
    [110, 114, 101, 103, 105, 115, 116, 101],
    [114, 85, 100, 112, 83, 101, 115, 115],
    [105, 111, 110, 36, 82, 101, 115, 117],
    [108, 116, 115, 0, 0, 0, 0, 0]]"

definition register_udp_session_response_ENCODED_NODE :: encoded_node where
  "register_udp_session_response_ENCODED_NODE =
   [[0, 0, 0, 0, 5, 0, 6, 0],
    [135, 102, 242, 193, 16, 82, 109, 171],
    [16, 0, 0, 0, 1, 0, 0, 0],
    [126, 188, 74, 20, 249, 116, 130, 219],
    [2, 0, 7, 0, 0, 0, 0, 0],
    [0, 0, 0, 0, 0, 0, 0, 0],
    [21, 0, 0, 0, 90, 1, 0, 0],
    [41, 0, 0, 0, 7, 0, 0, 0],
    [0, 0, 0, 0, 0, 0, 0, 0],
    [37, 0, 0, 0, 119, 0, 0, 0],
    [0, 0, 0, 0, 0, 0, 0, 0],
    [0, 0, 0, 0, 0, 0, 0, 0],
    [116, 117, 110, 110, 101, 108, 114, 112],
    [99, 46, 99, 97, 112, 110, 112, 58],
    [82, 101, 103, 105, 115, 116, 101, 114],
    [85, 100, 112, 83, 101, 115, 115, 105],
    [111, 110, 82, 101, 115, 112, 111, 110],
    [115, 101, 0, 0, 0, 0, 0, 0],
    [0, 0, 0, 0, 1, 0, 1, 0],
    [8, 0, 0, 0, 3, 0, 4, 0],
    [0, 0, 0, 0, 0, 0, 0, 0],
    [0, 0, 1, 0, 0, 0, 0, 0],
    [0, 0, 0, 0, 0, 0, 0, 0],
    [41, 0, 0, 0, 34, 0, 0, 0],
    [0, 0, 0, 0, 0, 0, 0, 0],
    [36, 0, 0, 0, 3, 0, 1, 0],
    [48, 0, 0, 0, 2, 0, 1, 0],
    [1, 0, 0, 0, 1, 0, 0, 0],
    [0, 0, 1, 0, 1, 0, 0, 0],
    [0, 0, 0, 0, 0, 0, 0, 0],
    [45, 0, 0, 0, 50, 0, 0, 0],
    [0, 0, 0, 0, 0, 0, 0, 0],
    [40, 0, 0, 0, 3, 0, 1, 0],
    [52, 0, 0, 0, 2, 0, 1, 0],
    [101, 114, 114, 0, 0, 0, 0, 0],
    [12, 0, 0, 0, 0, 0, 0, 0],
    [0, 0, 0, 0, 0, 0, 0, 0],
    [0, 0, 0, 0, 0, 0, 0, 0],
    [0, 0, 0, 0, 0, 0, 0, 0],
    [12, 0, 0, 0, 0, 0, 0, 0],
    [0, 0, 0, 0, 0, 0, 0, 0],
    [0, 0, 0, 0, 0, 0, 0, 0],
    [115, 112, 97, 110, 115, 0, 0, 0],
    [13, 0, 0, 0, 0, 0, 0, 0],
    [0, 0, 0, 0, 0, 0, 0, 0],
    [0, 0, 0, 0, 0, 0, 0, 0],
    [0, 0, 0, 0, 0, 0, 0, 0],
    [13, 0, 0, 0, 0, 0, 0, 0],
    [0, 0, 0, 0, 0, 0, 0, 0],
    [0, 0, 0, 0, 0, 0, 0, 0]]"

definition update_configuration_params_ENCODED_NODE :: encoded_node where
  "update_configuration_params_ENCODED_NODE =
   [[0, 0, 0, 0, 5, 0, 6, 0],
    [118, 202, 163, 38, 37, 202, 119, 177],
    [37, 0, 0, 0, 1, 0, 1, 0],
    [0, 0, 0, 0, 0, 0, 0, 0],
    [1, 0, 7, 0, 0, 0, 0, 0],
    [0, 0, 0, 0, 0, 0, 0, 0],
    [21, 0, 0, 0, 2, 2, 0, 0],
    [0, 0, 0, 0, 0, 0, 0, 0],
    [0, 0, 0, 0, 0, 0, 0, 0],
    [41, 0, 0, 0, 119, 0, 0, 0],
    [0, 0, 0, 0, 0, 0, 0, 0],
    [0, 0, 0, 0, 0, 0, 0, 0],
    [116, 117, 110, 110, 101, 108, 114, 112],
    [99, 46, 99, 97, 112, 110, 112, 58],
    [67, 111, 110, 102, 105, 103, 117, 114],
    [97, 116, 105, 111, 110, 77, 97, 110],
    [97, 103, 101, 114, 46, 117, 112, 100],
    [97, 116, 101, 67, 111, 110, 102, 105],
    [103, 117, 114, 97, 116, 105, 111, 110],
    [36, 80, 97, 114, 97, 109, 115, 0],
    [8, 0, 0, 0, 3, 0, 4, 0],
    [0, 0, 0, 0, 0, 0, 0, 0],
    [0, 0, 1, 0, 0, 0, 0, 0],
    [0, 0, 0, 0, 0, 0, 0, 0],
    [41, 0, 0, 0, 66, 0, 0, 0],
    [0, 0, 0, 0, 0, 0, 0, 0],
    [36, 0, 0, 0, 3, 0, 1, 0],
    [48, 0, 0, 0, 2, 0, 1, 0],
    [1, 0, 0, 0, 0, 0, 0, 0],
    [0, 0, 1, 0, 1, 0, 0, 0],
    [0, 0, 0, 0, 0, 0, 0, 0],
    [45, 0, 0, 0, 58, 0, 0, 0],
    [0, 0, 0, 0, 0, 0, 0, 0],
    [40, 0, 0, 0, 3, 0, 1, 0],
    [52, 0, 0, 0, 2, 0, 1, 0],
    [118, 101, 114, 115, 105, 111, 110, 0],
    [4, 0, 0, 0, 0, 0, 0, 0],
    [0, 0, 0, 0, 0, 0, 0, 0],
    [0, 0, 0, 0, 0, 0, 0, 0],
    [0, 0, 0, 0, 0, 0, 0, 0],
    [4, 0, 0, 0, 0, 0, 0, 0],
    [0, 0, 0, 0, 0, 0, 0, 0],
    [0, 0, 0, 0, 0, 0, 0, 0],
    [99, 111, 110, 102, 105, 103, 0, 0],
    [13, 0, 0, 0, 0, 0, 0, 0],
    [0, 0, 0, 0, 0, 0, 0, 0],
    [0, 0, 0, 0, 0, 0, 0, 0],
    [0, 0, 0, 0, 0, 0, 0, 0],
    [13, 0, 0, 0, 0, 0, 0, 0],
    [0, 0, 0, 0, 0, 0, 0, 0],
    [0, 0, 0, 0, 0, 0, 0, 0]]"

definition update_configuration_results_ENCODED_NODE :: encoded_node where
  "update_configuration_results_ENCODED_NODE =
   [[0, 0, 0, 0, 5, 0, 6, 0],
    [62, 55, 179, 142, 68, 150, 128, 149],
    [37, 0, 0, 0, 1, 0, 0, 0],
    [0, 0, 0, 0, 0, 0, 0, 0],
    [1, 0, 7, 0, 0, 0, 0, 0],
    [0, 0, 0, 0, 0, 0, 0, 0],
    [21, 0, 0, 0, 10, 2, 0, 0],
    [0, 0, 0, 0, 0, 0, 0, 0],
    [0, 0, 0, 0, 0, 0, 0, 0],
    [45, 0, 0, 0, 63, 0, 0, 0],
    [0, 0, 0, 0, 0, 0, 0, 0],
    [0, 0, 0, 0, 0, 0, 0, 0],
    [116, 117, 110, 110, 101, 108, 114, 112],
    [99, 46, 99, 97, 112, 110, 112, 58],
    [67, 111, 110, 102, 105, 103, 117, 114],
    [97, 116, 105, 111, 110, 77, 97, 110],
    [97, 103, 101, 114, 46, 117, 112, 100],
    [97, 116, 101, 67, 111, 110, 102, 105],
    [103, 117, 114, 97, 116, 105, 111, 110],
    [36, 82, 101, 115, 117, 108, 116, 115],
    [0, 0, 0, 0, 0, 0, 0, 0],
    [4, 0, 0, 0, 3, 0, 4, 0],
    [0, 0, 0, 0, 0, 0, 0, 0],
    [0, 0, 1, 0, 0, 0, 0, 0],
    [0, 0, 0, 0, 0, 0, 0, 0],
    [13, 0, 0, 0, 58, 0, 0, 0],
    [0, 0, 0, 0, 0, 0, 0, 0],
    [8, 0, 0, 0, 3, 0, 1, 0],
    [20, 0, 0, 0, 2, 0, 1, 0],
    [114, 101, 115, 117, 108, 116, 0, 0],
    [16, 0, 0, 0, 0, 0, 0, 0],
    [249, 92, 160, 75, 105, 255, 88, 219],
    [0, 0, 0, 0, 0, 0, 0, 0],
    [0, 0, 0, 0, 0, 0, 0, 0],
    [16, 0, 0, 0, 0, 0, 0, 0],
    [0, 0, 0, 0, 0, 0, 0, 0],
    [0, 0, 0, 0, 0, 0, 0, 0]]"

definition update_configuration_response_ENCODED_NODE :: encoded_node where
  "update_configuration_response_ENCODED_NODE =
   [[0, 0, 0, 0, 5, 0, 6, 0],
    [249, 92, 160, 75, 105, 255, 88, 219],
    [16, 0, 0, 0, 1, 0, 1, 0],
    [126, 188, 74, 20, 249, 116, 130, 219],
    [1, 0, 7, 0, 0, 0, 0, 0],
    [0, 0, 0, 0, 0, 0, 0, 0],
    [21, 0, 0, 0, 98, 1, 0, 0],
    [41, 0, 0, 0, 7, 0, 0, 0],
    [0, 0, 0, 0, 0, 0, 0, 0],
    [37, 0, 0, 0, 119, 0, 0, 0],
    [0, 0, 0, 0, 0, 0, 0, 0],
    [0, 0, 0, 0, 0, 0, 0, 0],
    [116, 117, 110, 110, 101, 108, 114, 112],
    [99, 46, 99, 97, 112, 110, 112, 58],
    [85, 112, 100, 97, 116, 101, 67, 111],
    [110, 102, 105, 103, 117, 114, 97, 116],
    [105, 111, 110, 82, 101, 115, 112, 111],
    [110, 115, 101, 0, 0, 0, 0, 0],
    [0, 0, 0, 0, 1, 0, 1, 0],
    [8, 0, 0, 0, 3, 0, 4, 0],
    [0, 0, 0, 0, 0, 0, 0, 0],
    [0, 0, 1, 0, 0, 0, 0, 0],
    [0, 0, 0, 0, 0, 0, 0, 0],
    [41, 0, 0, 0, 170, 0, 0, 0],
    [0, 0, 0, 0, 0, 0, 0, 0],
    [44, 0, 0, 0, 3, 0, 1, 0],
    [56, 0, 0, 0, 2, 0, 1, 0],
    [1, 0, 0, 0, 0, 0, 0, 0],
    [0, 0, 1, 0, 1, 0, 0, 0],
    [0, 0, 0, 0, 0, 0, 0, 0],
    [53, 0, 0, 0, 34, 0, 0, 0],
    [0, 0, 0, 0, 0, 0, 0, 0],
    [48, 0, 0, 0, 3, 0, 1, 0],
    [60, 0, 0, 0, 2, 0, 1, 0],
    [108, 97, 116, 101, 115, 116, 65, 112],
    [112, 108, 105, 101, 100, 86, 101, 114],
    [115, 105, 111, 110, 0, 0, 0, 0],
    [4, 0, 0, 0, 0, 0, 0, 0],
    [0, 0, 0, 0, 0, 0, 0, 0],
    [0, 0, 0, 0, 0, 0, 0, 0],
    [0, 0, 0, 0, 0, 0, 0, 0],
    [4, 0, 0, 0, 0, 0, 0, 0],
    [0, 0, 0, 0, 0, 0, 0, 0],
    [0, 0, 0, 0, 0, 0, 0, 0],
    [101, 114, 114, 0, 0, 0, 0, 0],
    [12, 0, 0, 0, 0, 0, 0, 0],
    [0, 0, 0, 0, 0, 0, 0, 0],
    [0, 0, 0, 0, 0, 0, 0, 0],
    [0, 0, 0, 0, 0, 0, 0, 0],
    [12, 0, 0, 0, 0, 0, 0, 0],
    [0, 0, 0, 0, 0, 0, 0, 0],
    [0, 0, 0, 0, 0, 0, 0, 0]]"

section \<open>Reading a node\<close>

definition le :: "nat list \<Rightarrow> nat" where
  "le bs = foldr (\<lambda>b acc. b + 256 * acc) bs 0"

definition u16_at :: "encoded_node \<Rightarrow> nat \<Rightarrow> nat \<Rightarrow> nat" where
  "u16_at node w i = le (take 2 (drop (2 * i) (node ! w)))"

definition u32_at :: "encoded_node \<Rightarrow> nat \<Rightarrow> nat \<Rightarrow> nat" where
  "u32_at node w i = le (take 4 (drop (4 * i) (node ! w)))"

text \<open>The word a pointer at word \<open>w\<close> points to (offsets are forward here).\<close>

definition ptr_target :: "encoded_node \<Rightarrow> nat \<Rightarrow> nat" where
  "ptr_target node w = w + 1 + u32_at node w 0 div 4"

definition text_at :: "encoded_node \<Rightarrow> nat \<Rightarrow> string" where
  "text_at node w =
     (let n = u32_at node w 1 div 8 in
      map char_of (take (n - 1) (concat (take (n div 8 + 1) (drop (ptr_target node w) node)))))"

definition node_id :: "encoded_node \<Rightarrow> nat" where
  "node_id node = le (node ! 1)"

text \<open>The sizes of the data section, in words, and of the pointer section of a struct.\<close>

definition node_struct_size :: "encoded_node \<Rightarrow> nat \<times> nat" where
  "node_struct_size node = (u16_at node 2 3, u16_at node 4 0)"

text \<open>A field: its name, and for a slot the kind of its type and its offset; a group is \<open>None\<close>.\<close>

definition node_field :: "encoded_node \<Rightarrow> nat \<Rightarrow> string \<times> (nat \<times> nat) option" where
  "node_field node base =
     (text_at node (base + 3),
      if u16_at node (base + 1) 0 = 0
      then Some (u16_at node (ptr_target node (base + 5)) 0, u32_at node base 1)
      else None)"

text \<open>The list of fields is behind the fourth pointer; an element is three data words and four pointers.\<close>

definition node_fields :: "encoded_node \<Rightarrow> (string \<times> (nat \<times> nat) option) list" where
  "node_fields node =
     (if u32_at node 9 1 = 0 then []
      else (let tag = ptr_target node 9 in
            map (\<lambda>i. node_field node (tag + 1 + 7 * i)) [0..<u32_at node tag 0 div 4]))"

text \<open>The discriminant a union member has (the field stores it inverted), and its place in the struct.\<close>

definition node_discriminants :: "encoded_node \<Rightarrow> nat list" where
  "node_discriminants node =
     (let tag = ptr_target node 9 in
      map (\<lambda>i. 65535 - u16_at node (tag + 1 + 7 * i) 1) [0..<u32_at node tag 0 div 4])"

definition node_discriminant_offset :: "encoded_node \<Rightarrow> nat" where
  "node_discriminant_offset node = u32_at node 5 0"

section \<open>What a slot holds\<close>

text \<open>The width in bits of a data type of \<open>schema.capnp\<close>; the kinds from text on are pointers.\<close>

definition kind_width :: "nat \<Rightarrow> nat option" where
  "kind_width k =
     (if k = 1 then Some 1
      else if k = 2 \<or> k = 6 then Some 8
      else if k = 3 \<or> k = 7 \<or> k = 15 then Some 16
      else if k = 4 \<or> k = 8 \<or> k = 10 then Some 32
      else if k = 5 \<or> k = 9 \<or> k = 11 then Some 64
      else None)"

definition slot_data :: "('s, 'p) capnp \<Rightarrow> encoded_node \<Rightarrow> string \<Rightarrow> 's \<Rightarrow> nat option" where
  "slot_data c node name s =
     (case map_of (node_fields node) name of
        Some (Some (k, off)) \<Rightarrow> map_option (\<lambda>w. get_field c w off s) (kind_width k)
      | _ \<Rightarrow> None)"

definition slot_ptr :: "('s, 'p) capnp \<Rightarrow> encoded_node \<Rightarrow> string \<Rightarrow> 's \<Rightarrow> 'p option" where
  "slot_ptr c node name s =
     (case map_of (node_fields node) name of
        Some (Some (k, off)) \<Rightarrow>
          if k \<in> {12, 13, 14, 16, 17, 18} then Some (get_ptr c off s) else None
      | _ \<Rightarrow> None)"

end
