(* ===== verification/Schema_Agree.thy ===== *)
theory Schema_Agree
  imports Schema_Nodes
begin

text \<open>
  The fields that the encoded nodes declare, and with them the agreement of the generated accessors,
  sizes and type ids with the schema.
\<close>

lemmas node_reading =
  node_fields_def node_field_def text_at_def u16_at_def u32_at_def ptr_target_def le_def Let_def upt_rec

lemma connect_request_fields:
  "node_fields connect_request_ENCODED_NODE =
     [(''dest'', Some (12, 0)), (''type'', Some (15, 0)), (''metadata'', Some (14, 1))]"
  by (simp add: node_reading connect_request_ENCODED_NODE_def; code_simp)

lemma metadata_fields:
  "node_fields metadata_ENCODED_NODE =
     [(''key'', Some (12, 0)), (''val'', Some (12, 1))]"
  by (simp add: node_reading metadata_ENCODED_NODE_def; code_simp)

lemma connect_response_fields:
  "node_fields connect_response_ENCODED_NODE =
     [(''error'', Some (12, 0)), (''metadata'', Some (14, 1))]"
  by (simp add: node_reading connect_response_ENCODED_NODE_def; code_simp)

lemma tunnel_auth_fields:
  "node_fields tunnel_auth_ENCODED_NODE =
     [(''accountTag'', Some (12, 0)), (''tunnelSecret'', Some (13, 1))]"
  by (simp add: node_reading tunnel_auth_ENCODED_NODE_def; code_simp)

lemma client_info_fields:
  "node_fields client_info_ENCODED_NODE =
     [(''clientId'', Some (13, 0)), (''features'', Some (14, 1)), (''version'', Some (12, 2)), (''arch'', Some (12, 3))]"
  by (simp add: node_reading client_info_ENCODED_NODE_def; code_simp)

lemma connection_options_fields:
  "node_fields connection_options_ENCODED_NODE =
     [(''client'', Some (16, 0)), (''originLocalIp'', Some (13, 1)), (''replaceExisting'', Some (1, 0)), (''compressionQuality'', Some (6, 1)), (''numPreviousAttempts'', Some (6, 2))]"
  by (simp add: node_reading connection_options_ENCODED_NODE_def; code_simp)

lemma connection_error_fields:
  "node_fields connection_error_ENCODED_NODE =
     [(''cause'', Some (12, 0)), (''retryAfter'', Some (5, 0)), (''shouldRetry'', Some (1, 64))]"
  by (simp add: node_reading connection_error_ENCODED_NODE_def; code_simp)

lemma connection_details_fields:
  "node_fields connection_details_ENCODED_NODE =
     [(''uuid'', Some (13, 0)), (''locationName'', Some (12, 1)), (''tunnelIsRemotelyManaged'', Some (1, 0))]"
  by (simp add: node_reading connection_details_ENCODED_NODE_def; code_simp)

lemma connection_response_fields:
  "node_fields connection_response_ENCODED_NODE =
     [(''result'', None)]"
  by (simp add: node_reading connection_response_ENCODED_NODE_def; code_simp)

lemma response_result_fields:
  "node_fields response_result_ENCODED_NODE =
     [(''error'', Some (16, 0)), (''connectionDetails'', Some (16, 0))]"
  by (simp add: node_reading response_result_ENCODED_NODE_def; code_simp)

lemma register_connection_params_fields:
  "node_fields register_connection_params_ENCODED_NODE =
     [(''auth'', Some (16, 0)), (''tunnelId'', Some (13, 1)), (''connIndex'', Some (6, 0)), (''options'', Some (16, 2))]"
  by (simp add: node_reading register_connection_params_ENCODED_NODE_def; code_simp)

lemma register_connection_results_fields:
  "node_fields register_connection_results_ENCODED_NODE =
     [(''result'', Some (16, 0))]"
  by (simp add: node_reading register_connection_results_ENCODED_NODE_def; code_simp)

lemma unregister_connection_params_fields:
  "node_fields unregister_connection_params_ENCODED_NODE =
     []"
  by (simp add: node_reading unregister_connection_params_ENCODED_NODE_def; code_simp)

lemma unregister_connection_results_fields:
  "node_fields unregister_connection_results_ENCODED_NODE =
     []"
  by (simp add: node_reading unregister_connection_results_ENCODED_NODE_def; code_simp)

lemma register_udp_session_params_fields:
  "node_fields register_udp_session_params_ENCODED_NODE =
     [(''sessionId'', Some (13, 0)), (''dstIp'', Some (13, 1)), (''dstPort'', Some (7, 0)), (''closeAfterIdleHint'', Some (5, 1)), (''traceContext'', Some (12, 2))]"
  by (simp add: node_reading register_udp_session_params_ENCODED_NODE_def; code_simp)

lemma register_udp_session_results_fields:
  "node_fields register_udp_session_results_ENCODED_NODE =
     [(''result'', Some (16, 0))]"
  by (simp add: node_reading register_udp_session_results_ENCODED_NODE_def; code_simp)

lemma unregister_udp_session_params_fields:
  "node_fields unregister_udp_session_params_ENCODED_NODE =
     [(''sessionId'', Some (13, 0)), (''message'', Some (12, 1))]"
  by (simp add: node_reading unregister_udp_session_params_ENCODED_NODE_def; code_simp)

lemma unregister_udp_session_results_fields:
  "node_fields unregister_udp_session_results_ENCODED_NODE =
     []"
  by (simp add: node_reading unregister_udp_session_results_ENCODED_NODE_def; code_simp)

lemma register_udp_session_response_fields:
  "node_fields register_udp_session_response_ENCODED_NODE =
     [(''err'', Some (12, 0)), (''spans'', Some (13, 1))]"
  by (simp add: node_reading register_udp_session_response_ENCODED_NODE_def; code_simp)

lemma update_configuration_params_fields:
  "node_fields update_configuration_params_ENCODED_NODE =
     [(''version'', Some (4, 0)), (''config'', Some (13, 0))]"
  by (simp add: node_reading update_configuration_params_ENCODED_NODE_def; code_simp)

lemma update_configuration_results_fields:
  "node_fields update_configuration_results_ENCODED_NODE =
     [(''result'', Some (16, 0))]"
  by (simp add: node_reading update_configuration_results_ENCODED_NODE_def; code_simp)

lemma update_configuration_response_fields:
  "node_fields update_configuration_response_ENCODED_NODE =
     [(''latestAppliedVersion'', Some (4, 0)), (''err'', Some (12, 0))]"
  by (simp add: node_reading update_configuration_response_ENCODED_NODE_def; code_simp)

lemmas all_fields =
  connect_request_fields
  metadata_fields
  connect_response_fields
  tunnel_auth_fields
  client_info_fields
  connection_options_fields
  connection_error_fields
  connection_details_fields
  connection_response_fields
  response_result_fields
  register_connection_params_fields
  register_connection_results_fields
  unregister_connection_params_fields
  unregister_connection_results_fields
  register_udp_session_params_fields
  register_udp_session_results_fields
  unregister_udp_session_params_fields
  unregister_udp_session_results_fields
  register_udp_session_response_fields
  update_configuration_params_fields
  update_configuration_results_fields
  update_configuration_response_fields

lemmas slot_defs = slot_data_def slot_ptr_def kind_width_def all_fields

section \<open>Accessors and slots\<close>

lemma quic_accessors_agree:
  "Some (connect_request_get_dest c s) = map_option (ptr_text c) (slot_ptr c connect_request_ENCODED_NODE ''dest'' s)"
  "Some (connect_request_get_type c s) =
     map_option connection_type_try_from (slot_data c connect_request_ENCODED_NODE ''type'' s)"
  "Some (connect_request_get_metadata c s) =
     map_option (ptr_structs c) (slot_ptr c connect_request_ENCODED_NODE ''metadata'' s)"
  "Some (metadata_get_key c s) = map_option (ptr_text c) (slot_ptr c metadata_ENCODED_NODE ''key'' s)"
  "Some (metadata_get_val c s) = map_option (ptr_text c) (slot_ptr c metadata_ENCODED_NODE ''val'' s)"
  "Some (connect_response_get_error c s) =
     map_option (ptr_text c) (slot_ptr c connect_response_ENCODED_NODE ''error'' s)"
  "Some (connect_response_get_metadata c s) =
     map_option (ptr_structs c) (slot_ptr c connect_response_ENCODED_NODE ''metadata'' s)"
  by (simp_all add: slot_defs connect_request_get_dest_def connect_request_get_type_def
      connect_request_get_metadata_def metadata_get_key_def metadata_get_val_def
      connect_response_get_error_def connect_response_get_metadata_def)

lemma register_accessors_agree:
  "Some (register_connection_params_get_auth c s) =
     map_option (ptr_struct c) (slot_ptr c register_connection_params_ENCODED_NODE ''auth'' s)"
  "Some (register_connection_params_get_tunnel_id c s) =
     map_option (ptr_data c) (slot_ptr c register_connection_params_ENCODED_NODE ''tunnelId'' s)"
  "Some (register_connection_params_get_conn_index c s) =
     map_option of_nat (slot_data c register_connection_params_ENCODED_NODE ''connIndex'' s)"
  "Some (register_connection_params_get_options c s) =
     map_option (ptr_struct c) (slot_ptr c register_connection_params_ENCODED_NODE ''options'' s)"
  "Some (tunnel_auth_get_account_tag c s) =
     map_option (ptr_text c) (slot_ptr c tunnel_auth_ENCODED_NODE ''accountTag'' s)"
  "Some (tunnel_auth_get_tunnel_secret c s) =
     map_option (ptr_data c) (slot_ptr c tunnel_auth_ENCODED_NODE ''tunnelSecret'' s)"
  by (simp_all add: slot_defs register_connection_params_get_auth_def
      register_connection_params_get_tunnel_id_def register_connection_params_get_conn_index_def
      register_connection_params_get_options_def tunnel_auth_get_account_tag_def
      tunnel_auth_get_tunnel_secret_def)

lemma options_accessors_agree:
  "Some (connection_options_get_client c s) =
     map_option (ptr_struct c) (slot_ptr c connection_options_ENCODED_NODE ''client'' s)"
  "Some (connection_options_get_origin_local_ip c s) =
     map_option (ptr_data c) (slot_ptr c connection_options_ENCODED_NODE ''originLocalIp'' s)"
  "Some (connection_options_get_replace_existing c s) =
     map_option (\<lambda>v. v = 1) (slot_data c connection_options_ENCODED_NODE ''replaceExisting'' s)"
  "Some (connection_options_get_compression_quality c s) =
     map_option of_nat (slot_data c connection_options_ENCODED_NODE ''compressionQuality'' s)"
  "Some (connection_options_get_num_previous_attempts c s) =
     map_option of_nat (slot_data c connection_options_ENCODED_NODE ''numPreviousAttempts'' s)"
  "Some (client_info_get_client_id c s) =
     map_option (ptr_data c) (slot_ptr c client_info_ENCODED_NODE ''clientId'' s)"
  "Some (client_info_get_features c s) =
     map_option (ptr_texts c) (slot_ptr c client_info_ENCODED_NODE ''features'' s)"
  "Some (client_info_get_version c s) =
     map_option (ptr_text c) (slot_ptr c client_info_ENCODED_NODE ''version'' s)"
  "Some (client_info_get_arch c s) =
     map_option (ptr_text c) (slot_ptr c client_info_ENCODED_NODE ''arch'' s)"
  by (simp_all add: slot_defs connection_options_get_client_def connection_options_get_origin_local_ip_def
      connection_options_get_replace_existing_def connection_options_get_compression_quality_def
      connection_options_get_num_previous_attempts_def client_info_get_client_id_def
      client_info_get_features_def client_info_get_version_def client_info_get_arch_def)

lemma reply_accessors_agree:
  "Some (register_connection_results_get_result c s) =
     map_option (ptr_struct c) (slot_ptr c register_connection_results_ENCODED_NODE ''result'' s)"
  "Some (connection_details_get_uuid c s) =
     map_option (ptr_data c) (slot_ptr c connection_details_ENCODED_NODE ''uuid'' s)"
  "Some (connection_details_get_location_name c s) =
     map_option (ptr_text c) (slot_ptr c connection_details_ENCODED_NODE ''locationName'' s)"
  "Some (connection_details_get_tunnel_is_remotely_managed c s) =
     map_option (\<lambda>v. v = 1) (slot_data c connection_details_ENCODED_NODE ''tunnelIsRemotelyManaged'' s)"
  "Some (connection_error_get_cause c s) =
     map_option (ptr_text c) (slot_ptr c connection_error_ENCODED_NODE ''cause'' s)"
  "Some (connection_error_get_should_retry c s) =
     map_option (\<lambda>v. v = 1) (slot_data c connection_error_ENCODED_NODE ''shouldRetry'' s)"
  by (simp_all add: slot_defs register_connection_results_get_result_def connection_details_get_uuid_def
      connection_details_get_location_name_def connection_details_get_tunnel_is_remotely_managed_def
      connection_error_get_cause_def connection_error_get_should_retry_def)

section \<open>The union of the reply\<close>

lemma result_union:
  "node_discriminants response_result_ENCODED_NODE = [0, 1]"
  "node_discriminant_offset response_result_ENCODED_NODE = 0"
  by (simp_all add: node_discriminants_def node_discriminant_offset_def u16_at_def u32_at_def
      ptr_target_def le_def Let_def upt_rec response_result_ENCODED_NODE_def)

section \<open>Sizes and type ids\<close>

lemma struct_sizes_agree:
  "node_struct_size connect_request_ENCODED_NODE = connect_request_STRUCT_SIZE"
  "node_struct_size metadata_ENCODED_NODE = metadata_STRUCT_SIZE"
  "node_struct_size connect_response_ENCODED_NODE = connect_response_STRUCT_SIZE"
  "node_struct_size tunnel_auth_ENCODED_NODE = tunnel_auth_STRUCT_SIZE"
  "node_struct_size client_info_ENCODED_NODE = client_info_STRUCT_SIZE"
  "node_struct_size connection_options_ENCODED_NODE = connection_options_STRUCT_SIZE"
  "node_struct_size connection_error_ENCODED_NODE = connection_error_STRUCT_SIZE"
  "node_struct_size connection_details_ENCODED_NODE = connection_details_STRUCT_SIZE"
  "node_struct_size connection_response_ENCODED_NODE = connection_response_STRUCT_SIZE"
  "node_struct_size response_result_ENCODED_NODE = response_result_STRUCT_SIZE"
  "node_struct_size register_connection_params_ENCODED_NODE = register_connection_params_STRUCT_SIZE"
  "node_struct_size register_connection_results_ENCODED_NODE = register_connection_results_STRUCT_SIZE"
  "node_struct_size unregister_connection_params_ENCODED_NODE = unregister_connection_params_STRUCT_SIZE"
  by (simp_all add: node_struct_size_def u16_at_def le_def
      connect_request_ENCODED_NODE_def connect_request_STRUCT_SIZE_def
      metadata_ENCODED_NODE_def metadata_STRUCT_SIZE_def
      connect_response_ENCODED_NODE_def connect_response_STRUCT_SIZE_def
      tunnel_auth_ENCODED_NODE_def tunnel_auth_STRUCT_SIZE_def
      client_info_ENCODED_NODE_def client_info_STRUCT_SIZE_def
      connection_options_ENCODED_NODE_def connection_options_STRUCT_SIZE_def
      connection_error_ENCODED_NODE_def connection_error_STRUCT_SIZE_def
      connection_details_ENCODED_NODE_def connection_details_STRUCT_SIZE_def
      connection_response_ENCODED_NODE_def connection_response_STRUCT_SIZE_def
      response_result_ENCODED_NODE_def response_result_STRUCT_SIZE_def
      register_connection_params_ENCODED_NODE_def register_connection_params_STRUCT_SIZE_def
      register_connection_results_ENCODED_NODE_def register_connection_results_STRUCT_SIZE_def
      unregister_connection_params_ENCODED_NODE_def unregister_connection_params_STRUCT_SIZE_def)

section \<open>Properties\<close>

text \<open>The generated accessors that the framing and the registration rest on read the slots, of the kinds
  and at the offsets, that the schema encoded in the same generated file declares for these field
  names, in structs of the declared sizes; and the reply's union has the two discriminants, in the
  sixteen bit field 0, that its accessor tells apart.\<close>

theorem accessors_follow_schema:
  "Some (connect_request_get_dest c s) = map_option (ptr_text c) (slot_ptr c connect_request_ENCODED_NODE ''dest'' s)
   \<and> Some (connect_request_get_type c s) =
      map_option connection_type_try_from (slot_data c connect_request_ENCODED_NODE ''type'' s)
   \<and> Some (connect_request_get_metadata c s) =
      map_option (ptr_structs c) (slot_ptr c connect_request_ENCODED_NODE ''metadata'' s)
   \<and> Some (connect_response_get_error c s) =
      map_option (ptr_text c) (slot_ptr c connect_response_ENCODED_NODE ''error'' s)
   \<and> Some (connect_response_get_metadata c s) =
      map_option (ptr_structs c) (slot_ptr c connect_response_ENCODED_NODE ''metadata'' s)
   \<and> Some (register_connection_params_get_auth c s) =
      map_option (ptr_struct c) (slot_ptr c register_connection_params_ENCODED_NODE ''auth'' s)
   \<and> Some (register_connection_params_get_tunnel_id c s) =
      map_option (ptr_data c) (slot_ptr c register_connection_params_ENCODED_NODE ''tunnelId'' s)
   \<and> Some (register_connection_params_get_conn_index c s) =
      map_option of_nat (slot_data c register_connection_params_ENCODED_NODE ''connIndex'' s)
   \<and> Some (connection_options_get_replace_existing c s) =
      map_option (\<lambda>v. v = 1) (slot_data c connection_options_ENCODED_NODE ''replaceExisting'' s)
   \<and> Some (connection_options_get_num_previous_attempts c s) =
      map_option of_nat (slot_data c connection_options_ENCODED_NODE ''numPreviousAttempts'' s)
   \<and> Some (connection_details_get_uuid c s) =
      map_option (ptr_data c) (slot_ptr c connection_details_ENCODED_NODE ''uuid'' s)
   \<and> Some (connection_error_get_cause c s) =
      map_option (ptr_text c) (slot_ptr c connection_error_ENCODED_NODE ''cause'' s)
   \<and> node_struct_size connect_request_ENCODED_NODE = connect_request_STRUCT_SIZE
   \<and> node_struct_size connect_response_ENCODED_NODE = connect_response_STRUCT_SIZE
   \<and> node_struct_size connection_options_ENCODED_NODE = connection_options_STRUCT_SIZE
   \<and> node_struct_size register_connection_params_ENCODED_NODE = register_connection_params_STRUCT_SIZE
   \<and> node_struct_size response_result_ENCODED_NODE = response_result_STRUCT_SIZE
   \<and> node_discriminants response_result_ENCODED_NODE = [0, 1]
   \<and> node_discriminant_offset response_result_ENCODED_NODE = 0"
  by (intro conjI quic_accessors_agree register_accessors_agree options_accessors_agree
      reply_accessors_agree struct_sizes_agree result_union)

end
