(* ===== verification/Legacy_Schema.thy ===== *)
theory Legacy_Schema
  imports Tunnel_Rpc_Schema
begin

text \<open>
  The generated accessors of the older tunnel protocol in \<^verbatim>\<open>src/proto_gen/tunnelrpc_capnp.rs\<close>: its
  structs, and the parameters and results of the six methods of \<open>TunnelServer\<close>. The crate does not call
  them; they are the part of the protocol a client may still speak to the edge.
\<close>

section \<open>The enum ExistingTunnelPolicy\<close>

datatype existing_tunnel_policy = PolicyIgnore | PolicyDisconnect | PolicyBalance

definition existing_tunnel_policy_try_from :: "nat \<Rightarrow> nat + existing_tunnel_policy" where
  "existing_tunnel_policy_try_from value =
     (if value = 0 then Inr PolicyIgnore
      else if value = 1 then Inr PolicyDisconnect
      else if value = 2 then Inr PolicyBalance
      else Inl value)"

fun existing_tunnel_policy_into :: "existing_tunnel_policy \<Rightarrow> nat" where
  "existing_tunnel_policy_into PolicyIgnore = 0"
| "existing_tunnel_policy_into PolicyDisconnect = 1"
| "existing_tunnel_policy_into PolicyBalance = 2"

lemma existing_tunnel_policy_roundtrip [simp]:
  "existing_tunnel_policy_try_from (existing_tunnel_policy_into p) = Inr p"
  by (cases p) (simp_all add: existing_tunnel_policy_try_from_def)

section \<open>The struct authentication\<close>

definition authentication_STRUCT_SIZE :: "nat \<times> nat" where
  "authentication_STRUCT_SIZE = (0, 3)"

definition authentication_get_key :: "('s, 'p) capnp \<Rightarrow> 's \<Rightarrow> string + bytes" where
  "authentication_get_key c s = ptr_text c (get_ptr c 0 s)"

definition authentication_has_key :: "('s, 'p) capnp \<Rightarrow> 's \<Rightarrow> bool" where
  "authentication_has_key c s = (\<not> ptr_null c (get_ptr c 0 s))"

definition authentication_get_email :: "('s, 'p) capnp \<Rightarrow> 's \<Rightarrow> string + bytes" where
  "authentication_get_email c s = ptr_text c (get_ptr c 1 s)"

definition authentication_has_email :: "('s, 'p) capnp \<Rightarrow> 's \<Rightarrow> bool" where
  "authentication_has_email c s = (\<not> ptr_null c (get_ptr c 1 s))"

definition authentication_get_origin_c_a_key :: "('s, 'p) capnp \<Rightarrow> 's \<Rightarrow> string + bytes" where
  "authentication_get_origin_c_a_key c s = ptr_text c (get_ptr c 2 s)"

definition authentication_has_origin_c_a_key :: "('s, 'p) capnp \<Rightarrow> 's \<Rightarrow> bool" where
  "authentication_has_origin_c_a_key c s = (\<not> ptr_null c (get_ptr c 2 s))"

definition authentication_set_key :: "('s, 'p) capnp \<Rightarrow> string \<Rightarrow> 's \<Rightarrow> 's" where
  "authentication_set_key c value s = set_ptr c 0 (text_ptr c value) s"

definition authentication_init_key :: "('s, 'p) capnp \<Rightarrow> nat \<Rightarrow> (bytes \<Rightarrow> bytes) \<Rightarrow> 's \<Rightarrow> 's" where
  "authentication_init_key c n fill s = set_ptr c 0 (text_ptr c (fill (replicate n (CHR 0x00)))) s"

definition authentication_set_email :: "('s, 'p) capnp \<Rightarrow> string \<Rightarrow> 's \<Rightarrow> 's" where
  "authentication_set_email c value s = set_ptr c 1 (text_ptr c value) s"

definition authentication_init_email :: "('s, 'p) capnp \<Rightarrow> nat \<Rightarrow> (bytes \<Rightarrow> bytes) \<Rightarrow> 's \<Rightarrow> 's" where
  "authentication_init_email c n fill s = set_ptr c 1 (text_ptr c (fill (replicate n (CHR 0x00)))) s"

definition authentication_set_origin_c_a_key :: "('s, 'p) capnp \<Rightarrow> string \<Rightarrow> 's \<Rightarrow> 's" where
  "authentication_set_origin_c_a_key c value s = set_ptr c 2 (text_ptr c value) s"

definition authentication_init_origin_c_a_key :: "('s, 'p) capnp \<Rightarrow> nat \<Rightarrow> (bytes \<Rightarrow> bytes) \<Rightarrow> 's \<Rightarrow> 's" where
  "authentication_init_origin_c_a_key c n fill s = set_ptr c 2 (text_ptr c (fill (replicate n (CHR 0x00)))) s"

section \<open>The struct tunnel_registration\<close>

definition tunnel_registration_STRUCT_SIZE :: "nat \<times> nat" where
  "tunnel_registration_STRUCT_SIZE = (1, 6)"

definition tunnel_registration_get_err :: "('s, 'p) capnp \<Rightarrow> 's \<Rightarrow> string + bytes" where
  "tunnel_registration_get_err c s = ptr_text c (get_ptr c 0 s)"

definition tunnel_registration_has_err :: "('s, 'p) capnp \<Rightarrow> 's \<Rightarrow> bool" where
  "tunnel_registration_has_err c s = (\<not> ptr_null c (get_ptr c 0 s))"

definition tunnel_registration_get_url :: "('s, 'p) capnp \<Rightarrow> 's \<Rightarrow> string + bytes" where
  "tunnel_registration_get_url c s = ptr_text c (get_ptr c 1 s)"

definition tunnel_registration_has_url :: "('s, 'p) capnp \<Rightarrow> 's \<Rightarrow> bool" where
  "tunnel_registration_has_url c s = (\<not> ptr_null c (get_ptr c 1 s))"

definition tunnel_registration_get_log_lines :: "('s, 'p) capnp \<Rightarrow> 's \<Rightarrow> string + bytes list" where
  "tunnel_registration_get_log_lines c s = ptr_texts c (get_ptr c 2 s)"

definition tunnel_registration_has_log_lines :: "('s, 'p) capnp \<Rightarrow> 's \<Rightarrow> bool" where
  "tunnel_registration_has_log_lines c s = (\<not> ptr_null c (get_ptr c 2 s))"

definition tunnel_registration_get_permanent_failure :: "('s, 'p) capnp \<Rightarrow> 's \<Rightarrow> bool" where
  "tunnel_registration_get_permanent_failure c s = (get_field c 1 0 s = 1)"

definition tunnel_registration_get_tunnel_i_d :: "('s, 'p) capnp \<Rightarrow> 's \<Rightarrow> string + bytes" where
  "tunnel_registration_get_tunnel_i_d c s = ptr_text c (get_ptr c 3 s)"

definition tunnel_registration_has_tunnel_i_d :: "('s, 'p) capnp \<Rightarrow> 's \<Rightarrow> bool" where
  "tunnel_registration_has_tunnel_i_d c s = (\<not> ptr_null c (get_ptr c 3 s))"

definition tunnel_registration_get_retry_after_seconds :: "('s, 'p) capnp \<Rightarrow> 's \<Rightarrow> u16" where
  "tunnel_registration_get_retry_after_seconds c s = word_of_nat (get_field c 16 1 s)"

definition tunnel_registration_get_event_digest :: "('s, 'p) capnp \<Rightarrow> 's \<Rightarrow> string + bytes" where
  "tunnel_registration_get_event_digest c s = ptr_data c (get_ptr c 4 s)"

definition tunnel_registration_has_event_digest :: "('s, 'p) capnp \<Rightarrow> 's \<Rightarrow> bool" where
  "tunnel_registration_has_event_digest c s = (\<not> ptr_null c (get_ptr c 4 s))"

definition tunnel_registration_get_conn_digest :: "('s, 'p) capnp \<Rightarrow> 's \<Rightarrow> string + bytes" where
  "tunnel_registration_get_conn_digest c s = ptr_data c (get_ptr c 5 s)"

definition tunnel_registration_has_conn_digest :: "('s, 'p) capnp \<Rightarrow> 's \<Rightarrow> bool" where
  "tunnel_registration_has_conn_digest c s = (\<not> ptr_null c (get_ptr c 5 s))"

definition tunnel_registration_set_err :: "('s, 'p) capnp \<Rightarrow> string \<Rightarrow> 's \<Rightarrow> 's" where
  "tunnel_registration_set_err c value s = set_ptr c 0 (text_ptr c value) s"

definition tunnel_registration_init_err :: "('s, 'p) capnp \<Rightarrow> nat \<Rightarrow> (bytes \<Rightarrow> bytes) \<Rightarrow> 's \<Rightarrow> 's" where
  "tunnel_registration_init_err c n fill s = set_ptr c 0 (text_ptr c (fill (replicate n (CHR 0x00)))) s"

definition tunnel_registration_set_url :: "('s, 'p) capnp \<Rightarrow> string \<Rightarrow> 's \<Rightarrow> 's" where
  "tunnel_registration_set_url c value s = set_ptr c 1 (text_ptr c value) s"

definition tunnel_registration_init_url :: "('s, 'p) capnp \<Rightarrow> nat \<Rightarrow> (bytes \<Rightarrow> bytes) \<Rightarrow> 's \<Rightarrow> 's" where
  "tunnel_registration_init_url c n fill s = set_ptr c 1 (text_ptr c (fill (replicate n (CHR 0x00)))) s"

definition tunnel_registration_set_log_lines :: "('s, 'p) capnp \<Rightarrow> string list \<Rightarrow> 's \<Rightarrow> 's" where
  "tunnel_registration_set_log_lines c value s = set_ptr c 2 (texts_ptr c value) s"

definition tunnel_registration_init_log_lines :: "('s, 'p) capnp \<Rightarrow> nat \<Rightarrow> (string list \<Rightarrow> string list) \<Rightarrow> 's \<Rightarrow> 's" where
  "tunnel_registration_init_log_lines c n fill s = set_ptr c 2 (texts_ptr c (fill (replicate n []))) s"

definition tunnel_registration_set_permanent_failure :: "('s, 'p) capnp \<Rightarrow> bool \<Rightarrow> 's \<Rightarrow> 's" where
  "tunnel_registration_set_permanent_failure c value s = set_field c 1 0 (of_bool value) s"

definition tunnel_registration_set_tunnel_i_d :: "('s, 'p) capnp \<Rightarrow> string \<Rightarrow> 's \<Rightarrow> 's" where
  "tunnel_registration_set_tunnel_i_d c value s = set_ptr c 3 (text_ptr c value) s"

definition tunnel_registration_init_tunnel_i_d :: "('s, 'p) capnp \<Rightarrow> nat \<Rightarrow> (bytes \<Rightarrow> bytes) \<Rightarrow> 's \<Rightarrow> 's" where
  "tunnel_registration_init_tunnel_i_d c n fill s = set_ptr c 3 (text_ptr c (fill (replicate n (CHR 0x00)))) s"

definition tunnel_registration_set_retry_after_seconds :: "('s, 'p) capnp \<Rightarrow> u16 \<Rightarrow> 's \<Rightarrow> 's" where
  "tunnel_registration_set_retry_after_seconds c value s = set_field c 16 1 (unat value) s"

definition tunnel_registration_set_event_digest :: "('s, 'p) capnp \<Rightarrow> bytes \<Rightarrow> 's \<Rightarrow> 's" where
  "tunnel_registration_set_event_digest c value s = set_ptr c 4 (data_ptr c value) s"

definition tunnel_registration_init_event_digest :: "('s, 'p) capnp \<Rightarrow> nat \<Rightarrow> (bytes \<Rightarrow> bytes) \<Rightarrow> 's \<Rightarrow> 's" where
  "tunnel_registration_init_event_digest c n fill s = set_ptr c 4 (data_ptr c (fill (replicate n (CHR 0x00)))) s"

definition tunnel_registration_set_conn_digest :: "('s, 'p) capnp \<Rightarrow> bytes \<Rightarrow> 's \<Rightarrow> 's" where
  "tunnel_registration_set_conn_digest c value s = set_ptr c 5 (data_ptr c value) s"

definition tunnel_registration_init_conn_digest :: "('s, 'p) capnp \<Rightarrow> nat \<Rightarrow> (bytes \<Rightarrow> bytes) \<Rightarrow> 's \<Rightarrow> 's" where
  "tunnel_registration_init_conn_digest c n fill s = set_ptr c 5 (data_ptr c (fill (replicate n (CHR 0x00)))) s"

section \<open>The struct tag\<close>

definition tag_STRUCT_SIZE :: "nat \<times> nat" where
  "tag_STRUCT_SIZE = (0, 2)"

definition tag_get_name :: "('s, 'p) capnp \<Rightarrow> 's \<Rightarrow> string + bytes" where
  "tag_get_name c s = ptr_text c (get_ptr c 0 s)"

definition tag_has_name :: "('s, 'p) capnp \<Rightarrow> 's \<Rightarrow> bool" where
  "tag_has_name c s = (\<not> ptr_null c (get_ptr c 0 s))"

definition tag_get_value :: "('s, 'p) capnp \<Rightarrow> 's \<Rightarrow> string + bytes" where
  "tag_get_value c s = ptr_text c (get_ptr c 1 s)"

definition tag_has_value :: "('s, 'p) capnp \<Rightarrow> 's \<Rightarrow> bool" where
  "tag_has_value c s = (\<not> ptr_null c (get_ptr c 1 s))"

definition tag_set_name :: "('s, 'p) capnp \<Rightarrow> string \<Rightarrow> 's \<Rightarrow> 's" where
  "tag_set_name c value s = set_ptr c 0 (text_ptr c value) s"

definition tag_init_name :: "('s, 'p) capnp \<Rightarrow> nat \<Rightarrow> (bytes \<Rightarrow> bytes) \<Rightarrow> 's \<Rightarrow> 's" where
  "tag_init_name c n fill s = set_ptr c 0 (text_ptr c (fill (replicate n (CHR 0x00)))) s"

definition tag_set_value :: "('s, 'p) capnp \<Rightarrow> string \<Rightarrow> 's \<Rightarrow> 's" where
  "tag_set_value c value s = set_ptr c 1 (text_ptr c value) s"

definition tag_init_value :: "('s, 'p) capnp \<Rightarrow> nat \<Rightarrow> (bytes \<Rightarrow> bytes) \<Rightarrow> 's \<Rightarrow> 's" where
  "tag_init_value c n fill s = set_ptr c 1 (text_ptr c (fill (replicate n (CHR 0x00)))) s"

section \<open>The struct registration_options\<close>

definition registration_options_STRUCT_SIZE :: "nat \<times> nat" where
  "registration_options_STRUCT_SIZE = (2, 8)"

definition registration_options_get_client_id :: "('s, 'p) capnp \<Rightarrow> 's \<Rightarrow> string + bytes" where
  "registration_options_get_client_id c s = ptr_text c (get_ptr c 0 s)"

definition registration_options_has_client_id :: "('s, 'p) capnp \<Rightarrow> 's \<Rightarrow> bool" where
  "registration_options_has_client_id c s = (\<not> ptr_null c (get_ptr c 0 s))"

definition registration_options_get_version :: "('s, 'p) capnp \<Rightarrow> 's \<Rightarrow> string + bytes" where
  "registration_options_get_version c s = ptr_text c (get_ptr c 1 s)"

definition registration_options_has_version :: "('s, 'p) capnp \<Rightarrow> 's \<Rightarrow> bool" where
  "registration_options_has_version c s = (\<not> ptr_null c (get_ptr c 1 s))"

definition registration_options_get_os :: "('s, 'p) capnp \<Rightarrow> 's \<Rightarrow> string + bytes" where
  "registration_options_get_os c s = ptr_text c (get_ptr c 2 s)"

definition registration_options_has_os :: "('s, 'p) capnp \<Rightarrow> 's \<Rightarrow> bool" where
  "registration_options_has_os c s = (\<not> ptr_null c (get_ptr c 2 s))"

definition registration_options_get_existing_tunnel_policy :: "('s, 'p) capnp \<Rightarrow> 's \<Rightarrow> nat + existing_tunnel_policy" where
  "registration_options_get_existing_tunnel_policy c s = existing_tunnel_policy_try_from (get_field c 16 0 s)"

definition registration_options_get_pool_name :: "('s, 'p) capnp \<Rightarrow> 's \<Rightarrow> string + bytes" where
  "registration_options_get_pool_name c s = ptr_text c (get_ptr c 3 s)"

definition registration_options_has_pool_name :: "('s, 'p) capnp \<Rightarrow> 's \<Rightarrow> bool" where
  "registration_options_has_pool_name c s = (\<not> ptr_null c (get_ptr c 3 s))"

definition registration_options_get_tags :: "('s, 'p) capnp \<Rightarrow> 's \<Rightarrow> string + 's list" where
  "registration_options_get_tags c s = ptr_structs c (get_ptr c 4 s)"

definition registration_options_has_tags :: "('s, 'p) capnp \<Rightarrow> 's \<Rightarrow> bool" where
  "registration_options_has_tags c s = (\<not> ptr_null c (get_ptr c 4 s))"

definition registration_options_get_connection_id :: "('s, 'p) capnp \<Rightarrow> 's \<Rightarrow> u8" where
  "registration_options_get_connection_id c s = word_of_nat (get_field c 8 2 s)"

definition registration_options_get_origin_local_ip :: "('s, 'p) capnp \<Rightarrow> 's \<Rightarrow> string + bytes" where
  "registration_options_get_origin_local_ip c s = ptr_text c (get_ptr c 5 s)"

definition registration_options_has_origin_local_ip :: "('s, 'p) capnp \<Rightarrow> 's \<Rightarrow> bool" where
  "registration_options_has_origin_local_ip c s = (\<not> ptr_null c (get_ptr c 5 s))"

definition registration_options_get_is_autoupdated :: "('s, 'p) capnp \<Rightarrow> 's \<Rightarrow> bool" where
  "registration_options_get_is_autoupdated c s = (get_field c 1 24 s = 1)"

definition registration_options_get_run_from_terminal :: "('s, 'p) capnp \<Rightarrow> 's \<Rightarrow> bool" where
  "registration_options_get_run_from_terminal c s = (get_field c 1 25 s = 1)"

definition registration_options_get_compression_quality :: "('s, 'p) capnp \<Rightarrow> 's \<Rightarrow> u64" where
  "registration_options_get_compression_quality c s = word_of_nat (get_field c 64 1 s)"

definition registration_options_get_uuid :: "('s, 'p) capnp \<Rightarrow> 's \<Rightarrow> string + bytes" where
  "registration_options_get_uuid c s = ptr_text c (get_ptr c 6 s)"

definition registration_options_has_uuid :: "('s, 'p) capnp \<Rightarrow> 's \<Rightarrow> bool" where
  "registration_options_has_uuid c s = (\<not> ptr_null c (get_ptr c 6 s))"

definition registration_options_get_num_previous_attempts :: "('s, 'p) capnp \<Rightarrow> 's \<Rightarrow> u8" where
  "registration_options_get_num_previous_attempts c s = word_of_nat (get_field c 8 4 s)"

definition registration_options_get_features :: "('s, 'p) capnp \<Rightarrow> 's \<Rightarrow> string + bytes list" where
  "registration_options_get_features c s = ptr_texts c (get_ptr c 7 s)"

definition registration_options_has_features :: "('s, 'p) capnp \<Rightarrow> 's \<Rightarrow> bool" where
  "registration_options_has_features c s = (\<not> ptr_null c (get_ptr c 7 s))"

definition registration_options_set_client_id :: "('s, 'p) capnp \<Rightarrow> string \<Rightarrow> 's \<Rightarrow> 's" where
  "registration_options_set_client_id c value s = set_ptr c 0 (text_ptr c value) s"

definition registration_options_init_client_id :: "('s, 'p) capnp \<Rightarrow> nat \<Rightarrow> (bytes \<Rightarrow> bytes) \<Rightarrow> 's \<Rightarrow> 's" where
  "registration_options_init_client_id c n fill s = set_ptr c 0 (text_ptr c (fill (replicate n (CHR 0x00)))) s"

definition registration_options_set_version :: "('s, 'p) capnp \<Rightarrow> string \<Rightarrow> 's \<Rightarrow> 's" where
  "registration_options_set_version c value s = set_ptr c 1 (text_ptr c value) s"

definition registration_options_init_version :: "('s, 'p) capnp \<Rightarrow> nat \<Rightarrow> (bytes \<Rightarrow> bytes) \<Rightarrow> 's \<Rightarrow> 's" where
  "registration_options_init_version c n fill s = set_ptr c 1 (text_ptr c (fill (replicate n (CHR 0x00)))) s"

definition registration_options_set_os :: "('s, 'p) capnp \<Rightarrow> string \<Rightarrow> 's \<Rightarrow> 's" where
  "registration_options_set_os c value s = set_ptr c 2 (text_ptr c value) s"

definition registration_options_init_os :: "('s, 'p) capnp \<Rightarrow> nat \<Rightarrow> (bytes \<Rightarrow> bytes) \<Rightarrow> 's \<Rightarrow> 's" where
  "registration_options_init_os c n fill s = set_ptr c 2 (text_ptr c (fill (replicate n (CHR 0x00)))) s"

definition registration_options_set_existing_tunnel_policy :: "('s, 'p) capnp \<Rightarrow> existing_tunnel_policy \<Rightarrow> 's \<Rightarrow> 's" where
  "registration_options_set_existing_tunnel_policy c value s = set_field c 16 0 (existing_tunnel_policy_into value) s"

definition registration_options_set_pool_name :: "('s, 'p) capnp \<Rightarrow> string \<Rightarrow> 's \<Rightarrow> 's" where
  "registration_options_set_pool_name c value s = set_ptr c 3 (text_ptr c value) s"

definition registration_options_init_pool_name :: "('s, 'p) capnp \<Rightarrow> nat \<Rightarrow> (bytes \<Rightarrow> bytes) \<Rightarrow> 's \<Rightarrow> 's" where
  "registration_options_init_pool_name c n fill s = set_ptr c 3 (text_ptr c (fill (replicate n (CHR 0x00)))) s"

definition registration_options_set_tags :: "('s, 'p) capnp \<Rightarrow> 's list \<Rightarrow> 's \<Rightarrow> 's" where
  "registration_options_set_tags c value s = set_ptr c 4 (structs_ptr c value) s"

definition registration_options_init_tags :: "('s, 'p) capnp \<Rightarrow> nat \<Rightarrow> ('s list \<Rightarrow> 's list) \<Rightarrow> 's \<Rightarrow> 's" where
  "registration_options_init_tags c n fill s =
     set_ptr c 4 (structs_ptr c (fill (replicate n
       (new_struct c (fst tag_STRUCT_SIZE) (snd tag_STRUCT_SIZE))))) s"

definition registration_options_set_connection_id :: "('s, 'p) capnp \<Rightarrow> u8 \<Rightarrow> 's \<Rightarrow> 's" where
  "registration_options_set_connection_id c value s = set_field c 8 2 (unat value) s"

definition registration_options_set_origin_local_ip :: "('s, 'p) capnp \<Rightarrow> string \<Rightarrow> 's \<Rightarrow> 's" where
  "registration_options_set_origin_local_ip c value s = set_ptr c 5 (text_ptr c value) s"

definition registration_options_init_origin_local_ip :: "('s, 'p) capnp \<Rightarrow> nat \<Rightarrow> (bytes \<Rightarrow> bytes) \<Rightarrow> 's \<Rightarrow> 's" where
  "registration_options_init_origin_local_ip c n fill s = set_ptr c 5 (text_ptr c (fill (replicate n (CHR 0x00)))) s"

definition registration_options_set_is_autoupdated :: "('s, 'p) capnp \<Rightarrow> bool \<Rightarrow> 's \<Rightarrow> 's" where
  "registration_options_set_is_autoupdated c value s = set_field c 1 24 (of_bool value) s"

definition registration_options_set_run_from_terminal :: "('s, 'p) capnp \<Rightarrow> bool \<Rightarrow> 's \<Rightarrow> 's" where
  "registration_options_set_run_from_terminal c value s = set_field c 1 25 (of_bool value) s"

definition registration_options_set_compression_quality :: "('s, 'p) capnp \<Rightarrow> u64 \<Rightarrow> 's \<Rightarrow> 's" where
  "registration_options_set_compression_quality c value s = set_field c 64 1 (unat value) s"

definition registration_options_set_uuid :: "('s, 'p) capnp \<Rightarrow> string \<Rightarrow> 's \<Rightarrow> 's" where
  "registration_options_set_uuid c value s = set_ptr c 6 (text_ptr c value) s"

definition registration_options_init_uuid :: "('s, 'p) capnp \<Rightarrow> nat \<Rightarrow> (bytes \<Rightarrow> bytes) \<Rightarrow> 's \<Rightarrow> 's" where
  "registration_options_init_uuid c n fill s = set_ptr c 6 (text_ptr c (fill (replicate n (CHR 0x00)))) s"

definition registration_options_set_num_previous_attempts :: "('s, 'p) capnp \<Rightarrow> u8 \<Rightarrow> 's \<Rightarrow> 's" where
  "registration_options_set_num_previous_attempts c value s = set_field c 8 4 (unat value) s"

definition registration_options_set_features :: "('s, 'p) capnp \<Rightarrow> string list \<Rightarrow> 's \<Rightarrow> 's" where
  "registration_options_set_features c value s = set_ptr c 7 (texts_ptr c value) s"

definition registration_options_init_features :: "('s, 'p) capnp \<Rightarrow> nat \<Rightarrow> (string list \<Rightarrow> string list) \<Rightarrow> 's \<Rightarrow> 's" where
  "registration_options_init_features c n fill s = set_ptr c 7 (texts_ptr c (fill (replicate n []))) s"

section \<open>The struct server_info\<close>

definition server_info_STRUCT_SIZE :: "nat \<times> nat" where
  "server_info_STRUCT_SIZE = (0, 1)"

definition server_info_get_location_name :: "('s, 'p) capnp \<Rightarrow> 's \<Rightarrow> string + bytes" where
  "server_info_get_location_name c s = ptr_text c (get_ptr c 0 s)"

definition server_info_has_location_name :: "('s, 'p) capnp \<Rightarrow> 's \<Rightarrow> bool" where
  "server_info_has_location_name c s = (\<not> ptr_null c (get_ptr c 0 s))"

definition server_info_set_location_name :: "('s, 'p) capnp \<Rightarrow> string \<Rightarrow> 's \<Rightarrow> 's" where
  "server_info_set_location_name c value s = set_ptr c 0 (text_ptr c value) s"

definition server_info_init_location_name :: "('s, 'p) capnp \<Rightarrow> nat \<Rightarrow> (bytes \<Rightarrow> bytes) \<Rightarrow> 's \<Rightarrow> 's" where
  "server_info_init_location_name c n fill s = set_ptr c 0 (text_ptr c (fill (replicate n (CHR 0x00)))) s"

section \<open>The struct authenticate_response\<close>

definition authenticate_response_STRUCT_SIZE :: "nat \<times> nat" where
  "authenticate_response_STRUCT_SIZE = (1, 3)"

definition authenticate_response_get_permanent_err :: "('s, 'p) capnp \<Rightarrow> 's \<Rightarrow> string + bytes" where
  "authenticate_response_get_permanent_err c s = ptr_text c (get_ptr c 0 s)"

definition authenticate_response_has_permanent_err :: "('s, 'p) capnp \<Rightarrow> 's \<Rightarrow> bool" where
  "authenticate_response_has_permanent_err c s = (\<not> ptr_null c (get_ptr c 0 s))"

definition authenticate_response_get_retryable_err :: "('s, 'p) capnp \<Rightarrow> 's \<Rightarrow> string + bytes" where
  "authenticate_response_get_retryable_err c s = ptr_text c (get_ptr c 1 s)"

definition authenticate_response_has_retryable_err :: "('s, 'p) capnp \<Rightarrow> 's \<Rightarrow> bool" where
  "authenticate_response_has_retryable_err c s = (\<not> ptr_null c (get_ptr c 1 s))"

definition authenticate_response_get_jwt :: "('s, 'p) capnp \<Rightarrow> 's \<Rightarrow> string + bytes" where
  "authenticate_response_get_jwt c s = ptr_data c (get_ptr c 2 s)"

definition authenticate_response_has_jwt :: "('s, 'p) capnp \<Rightarrow> 's \<Rightarrow> bool" where
  "authenticate_response_has_jwt c s = (\<not> ptr_null c (get_ptr c 2 s))"

definition authenticate_response_get_hours_until_refresh :: "('s, 'p) capnp \<Rightarrow> 's \<Rightarrow> u8" where
  "authenticate_response_get_hours_until_refresh c s = word_of_nat (get_field c 8 0 s)"

definition authenticate_response_set_permanent_err :: "('s, 'p) capnp \<Rightarrow> string \<Rightarrow> 's \<Rightarrow> 's" where
  "authenticate_response_set_permanent_err c value s = set_ptr c 0 (text_ptr c value) s"

definition authenticate_response_init_permanent_err :: "('s, 'p) capnp \<Rightarrow> nat \<Rightarrow> (bytes \<Rightarrow> bytes) \<Rightarrow> 's \<Rightarrow> 's" where
  "authenticate_response_init_permanent_err c n fill s = set_ptr c 0 (text_ptr c (fill (replicate n (CHR 0x00)))) s"

definition authenticate_response_set_retryable_err :: "('s, 'p) capnp \<Rightarrow> string \<Rightarrow> 's \<Rightarrow> 's" where
  "authenticate_response_set_retryable_err c value s = set_ptr c 1 (text_ptr c value) s"

definition authenticate_response_init_retryable_err :: "('s, 'p) capnp \<Rightarrow> nat \<Rightarrow> (bytes \<Rightarrow> bytes) \<Rightarrow> 's \<Rightarrow> 's" where
  "authenticate_response_init_retryable_err c n fill s = set_ptr c 1 (text_ptr c (fill (replicate n (CHR 0x00)))) s"

definition authenticate_response_set_jwt :: "('s, 'p) capnp \<Rightarrow> bytes \<Rightarrow> 's \<Rightarrow> 's" where
  "authenticate_response_set_jwt c value s = set_ptr c 2 (data_ptr c value) s"

definition authenticate_response_init_jwt :: "('s, 'p) capnp \<Rightarrow> nat \<Rightarrow> (bytes \<Rightarrow> bytes) \<Rightarrow> 's \<Rightarrow> 's" where
  "authenticate_response_init_jwt c n fill s = set_ptr c 2 (data_ptr c (fill (replicate n (CHR 0x00)))) s"

definition authenticate_response_set_hours_until_refresh :: "('s, 'p) capnp \<Rightarrow> u8 \<Rightarrow> 's \<Rightarrow> 's" where
  "authenticate_response_set_hours_until_refresh c value s = set_field c 8 0 (unat value) s"

section \<open>The struct register_tunnel_params\<close>

definition register_tunnel_params_STRUCT_SIZE :: "nat \<times> nat" where
  "register_tunnel_params_STRUCT_SIZE = (0, 3)"

definition register_tunnel_params_get_origin_cert :: "('s, 'p) capnp \<Rightarrow> 's \<Rightarrow> string + bytes" where
  "register_tunnel_params_get_origin_cert c s = ptr_data c (get_ptr c 0 s)"

definition register_tunnel_params_has_origin_cert :: "('s, 'p) capnp \<Rightarrow> 's \<Rightarrow> bool" where
  "register_tunnel_params_has_origin_cert c s = (\<not> ptr_null c (get_ptr c 0 s))"

definition register_tunnel_params_get_hostname :: "('s, 'p) capnp \<Rightarrow> 's \<Rightarrow> string + bytes" where
  "register_tunnel_params_get_hostname c s = ptr_text c (get_ptr c 1 s)"

definition register_tunnel_params_has_hostname :: "('s, 'p) capnp \<Rightarrow> 's \<Rightarrow> bool" where
  "register_tunnel_params_has_hostname c s = (\<not> ptr_null c (get_ptr c 1 s))"

definition register_tunnel_params_get_options :: "('s, 'p) capnp \<Rightarrow> 's \<Rightarrow> string + 's" where
  "register_tunnel_params_get_options c s = ptr_struct c (get_ptr c 2 s)"

definition register_tunnel_params_has_options :: "('s, 'p) capnp \<Rightarrow> 's \<Rightarrow> bool" where
  "register_tunnel_params_has_options c s = (\<not> ptr_null c (get_ptr c 2 s))"

definition register_tunnel_params_set_origin_cert :: "('s, 'p) capnp \<Rightarrow> bytes \<Rightarrow> 's \<Rightarrow> 's" where
  "register_tunnel_params_set_origin_cert c value s = set_ptr c 0 (data_ptr c value) s"

definition register_tunnel_params_init_origin_cert :: "('s, 'p) capnp \<Rightarrow> nat \<Rightarrow> (bytes \<Rightarrow> bytes) \<Rightarrow> 's \<Rightarrow> 's" where
  "register_tunnel_params_init_origin_cert c n fill s = set_ptr c 0 (data_ptr c (fill (replicate n (CHR 0x00)))) s"

definition register_tunnel_params_set_hostname :: "('s, 'p) capnp \<Rightarrow> string \<Rightarrow> 's \<Rightarrow> 's" where
  "register_tunnel_params_set_hostname c value s = set_ptr c 1 (text_ptr c value) s"

definition register_tunnel_params_init_hostname :: "('s, 'p) capnp \<Rightarrow> nat \<Rightarrow> (bytes \<Rightarrow> bytes) \<Rightarrow> 's \<Rightarrow> 's" where
  "register_tunnel_params_init_hostname c n fill s = set_ptr c 1 (text_ptr c (fill (replicate n (CHR 0x00)))) s"

definition register_tunnel_params_set_options :: "('s, 'p) capnp \<Rightarrow> 's \<Rightarrow> 's \<Rightarrow> 's" where
  "register_tunnel_params_set_options c value s = set_ptr c 2 (struct_ptr c value) s"

definition register_tunnel_params_init_options :: "('s, 'p) capnp \<Rightarrow> ('s \<Rightarrow> 's) \<Rightarrow> 's \<Rightarrow> 's" where
  "register_tunnel_params_init_options c fill s =
     set_ptr c 2 (struct_ptr c (fill
       (new_struct c (fst registration_options_STRUCT_SIZE) (snd registration_options_STRUCT_SIZE)))) s"

section \<open>The struct register_tunnel_results\<close>

definition register_tunnel_results_STRUCT_SIZE :: "nat \<times> nat" where
  "register_tunnel_results_STRUCT_SIZE = (0, 1)"

definition register_tunnel_results_get_result :: "('s, 'p) capnp \<Rightarrow> 's \<Rightarrow> string + 's" where
  "register_tunnel_results_get_result c s = ptr_struct c (get_ptr c 0 s)"

definition register_tunnel_results_has_result :: "('s, 'p) capnp \<Rightarrow> 's \<Rightarrow> bool" where
  "register_tunnel_results_has_result c s = (\<not> ptr_null c (get_ptr c 0 s))"

definition register_tunnel_results_set_result :: "('s, 'p) capnp \<Rightarrow> 's \<Rightarrow> 's \<Rightarrow> 's" where
  "register_tunnel_results_set_result c value s = set_ptr c 0 (struct_ptr c value) s"

definition register_tunnel_results_init_result :: "('s, 'p) capnp \<Rightarrow> ('s \<Rightarrow> 's) \<Rightarrow> 's \<Rightarrow> 's" where
  "register_tunnel_results_init_result c fill s =
     set_ptr c 0 (struct_ptr c (fill
       (new_struct c (fst tunnel_registration_STRUCT_SIZE) (snd tunnel_registration_STRUCT_SIZE)))) s"

section \<open>The struct get_server_info_params\<close>

definition get_server_info_params_STRUCT_SIZE :: "nat \<times> nat" where
  "get_server_info_params_STRUCT_SIZE = (0, 0)"

section \<open>The struct get_server_info_results\<close>

definition get_server_info_results_STRUCT_SIZE :: "nat \<times> nat" where
  "get_server_info_results_STRUCT_SIZE = (0, 1)"

definition get_server_info_results_get_result :: "('s, 'p) capnp \<Rightarrow> 's \<Rightarrow> string + 's" where
  "get_server_info_results_get_result c s = ptr_struct c (get_ptr c 0 s)"

definition get_server_info_results_has_result :: "('s, 'p) capnp \<Rightarrow> 's \<Rightarrow> bool" where
  "get_server_info_results_has_result c s = (\<not> ptr_null c (get_ptr c 0 s))"

definition get_server_info_results_set_result :: "('s, 'p) capnp \<Rightarrow> 's \<Rightarrow> 's \<Rightarrow> 's" where
  "get_server_info_results_set_result c value s = set_ptr c 0 (struct_ptr c value) s"

definition get_server_info_results_init_result :: "('s, 'p) capnp \<Rightarrow> ('s \<Rightarrow> 's) \<Rightarrow> 's \<Rightarrow> 's" where
  "get_server_info_results_init_result c fill s =
     set_ptr c 0 (struct_ptr c (fill
       (new_struct c (fst server_info_STRUCT_SIZE) (snd server_info_STRUCT_SIZE)))) s"

section \<open>The struct unregister_tunnel_params\<close>

definition unregister_tunnel_params_STRUCT_SIZE :: "nat \<times> nat" where
  "unregister_tunnel_params_STRUCT_SIZE = (1, 0)"

definition unregister_tunnel_params_get_grace_period_nano_sec :: "('s, 'p) capnp \<Rightarrow> 's \<Rightarrow> int" where
  "unregister_tunnel_params_get_grace_period_nano_sec c s = sint (word_of_nat (get_field c 64 0 s) :: u64)"

definition unregister_tunnel_params_set_grace_period_nano_sec :: "('s, 'p) capnp \<Rightarrow> int \<Rightarrow> 's \<Rightarrow> 's" where
  "unregister_tunnel_params_set_grace_period_nano_sec c value s = set_field c 64 0 (unat (word_of_int value :: u64)) s"

section \<open>The struct unregister_tunnel_results\<close>

definition unregister_tunnel_results_STRUCT_SIZE :: "nat \<times> nat" where
  "unregister_tunnel_results_STRUCT_SIZE = (0, 0)"

section \<open>The struct obsolete_declarative_tunnel_connect_params\<close>

definition obsolete_declarative_tunnel_connect_params_STRUCT_SIZE :: "nat \<times> nat" where
  "obsolete_declarative_tunnel_connect_params_STRUCT_SIZE = (0, 0)"

section \<open>The struct obsolete_declarative_tunnel_connect_results\<close>

definition obsolete_declarative_tunnel_connect_results_STRUCT_SIZE :: "nat \<times> nat" where
  "obsolete_declarative_tunnel_connect_results_STRUCT_SIZE = (0, 0)"

section \<open>The struct authenticate_params\<close>

definition authenticate_params_STRUCT_SIZE :: "nat \<times> nat" where
  "authenticate_params_STRUCT_SIZE = (0, 3)"

definition authenticate_params_get_origin_cert :: "('s, 'p) capnp \<Rightarrow> 's \<Rightarrow> string + bytes" where
  "authenticate_params_get_origin_cert c s = ptr_data c (get_ptr c 0 s)"

definition authenticate_params_has_origin_cert :: "('s, 'p) capnp \<Rightarrow> 's \<Rightarrow> bool" where
  "authenticate_params_has_origin_cert c s = (\<not> ptr_null c (get_ptr c 0 s))"

definition authenticate_params_get_hostname :: "('s, 'p) capnp \<Rightarrow> 's \<Rightarrow> string + bytes" where
  "authenticate_params_get_hostname c s = ptr_text c (get_ptr c 1 s)"

definition authenticate_params_has_hostname :: "('s, 'p) capnp \<Rightarrow> 's \<Rightarrow> bool" where
  "authenticate_params_has_hostname c s = (\<not> ptr_null c (get_ptr c 1 s))"

definition authenticate_params_get_options :: "('s, 'p) capnp \<Rightarrow> 's \<Rightarrow> string + 's" where
  "authenticate_params_get_options c s = ptr_struct c (get_ptr c 2 s)"

definition authenticate_params_has_options :: "('s, 'p) capnp \<Rightarrow> 's \<Rightarrow> bool" where
  "authenticate_params_has_options c s = (\<not> ptr_null c (get_ptr c 2 s))"

definition authenticate_params_set_origin_cert :: "('s, 'p) capnp \<Rightarrow> bytes \<Rightarrow> 's \<Rightarrow> 's" where
  "authenticate_params_set_origin_cert c value s = set_ptr c 0 (data_ptr c value) s"

definition authenticate_params_init_origin_cert :: "('s, 'p) capnp \<Rightarrow> nat \<Rightarrow> (bytes \<Rightarrow> bytes) \<Rightarrow> 's \<Rightarrow> 's" where
  "authenticate_params_init_origin_cert c n fill s = set_ptr c 0 (data_ptr c (fill (replicate n (CHR 0x00)))) s"

definition authenticate_params_set_hostname :: "('s, 'p) capnp \<Rightarrow> string \<Rightarrow> 's \<Rightarrow> 's" where
  "authenticate_params_set_hostname c value s = set_ptr c 1 (text_ptr c value) s"

definition authenticate_params_init_hostname :: "('s, 'p) capnp \<Rightarrow> nat \<Rightarrow> (bytes \<Rightarrow> bytes) \<Rightarrow> 's \<Rightarrow> 's" where
  "authenticate_params_init_hostname c n fill s = set_ptr c 1 (text_ptr c (fill (replicate n (CHR 0x00)))) s"

definition authenticate_params_set_options :: "('s, 'p) capnp \<Rightarrow> 's \<Rightarrow> 's \<Rightarrow> 's" where
  "authenticate_params_set_options c value s = set_ptr c 2 (struct_ptr c value) s"

definition authenticate_params_init_options :: "('s, 'p) capnp \<Rightarrow> ('s \<Rightarrow> 's) \<Rightarrow> 's \<Rightarrow> 's" where
  "authenticate_params_init_options c fill s =
     set_ptr c 2 (struct_ptr c (fill
       (new_struct c (fst registration_options_STRUCT_SIZE) (snd registration_options_STRUCT_SIZE)))) s"

section \<open>The struct authenticate_results\<close>

definition authenticate_results_STRUCT_SIZE :: "nat \<times> nat" where
  "authenticate_results_STRUCT_SIZE = (0, 1)"

definition authenticate_results_get_result :: "('s, 'p) capnp \<Rightarrow> 's \<Rightarrow> string + 's" where
  "authenticate_results_get_result c s = ptr_struct c (get_ptr c 0 s)"

definition authenticate_results_has_result :: "('s, 'p) capnp \<Rightarrow> 's \<Rightarrow> bool" where
  "authenticate_results_has_result c s = (\<not> ptr_null c (get_ptr c 0 s))"

definition authenticate_results_set_result :: "('s, 'p) capnp \<Rightarrow> 's \<Rightarrow> 's \<Rightarrow> 's" where
  "authenticate_results_set_result c value s = set_ptr c 0 (struct_ptr c value) s"

definition authenticate_results_init_result :: "('s, 'p) capnp \<Rightarrow> ('s \<Rightarrow> 's) \<Rightarrow> 's \<Rightarrow> 's" where
  "authenticate_results_init_result c fill s =
     set_ptr c 0 (struct_ptr c (fill
       (new_struct c (fst authenticate_response_STRUCT_SIZE) (snd authenticate_response_STRUCT_SIZE)))) s"

section \<open>The struct reconnect_tunnel_params\<close>

definition reconnect_tunnel_params_STRUCT_SIZE :: "nat \<times> nat" where
  "reconnect_tunnel_params_STRUCT_SIZE = (0, 5)"

definition reconnect_tunnel_params_get_jwt :: "('s, 'p) capnp \<Rightarrow> 's \<Rightarrow> string + bytes" where
  "reconnect_tunnel_params_get_jwt c s = ptr_data c (get_ptr c 0 s)"

definition reconnect_tunnel_params_has_jwt :: "('s, 'p) capnp \<Rightarrow> 's \<Rightarrow> bool" where
  "reconnect_tunnel_params_has_jwt c s = (\<not> ptr_null c (get_ptr c 0 s))"

definition reconnect_tunnel_params_get_event_digest :: "('s, 'p) capnp \<Rightarrow> 's \<Rightarrow> string + bytes" where
  "reconnect_tunnel_params_get_event_digest c s = ptr_data c (get_ptr c 1 s)"

definition reconnect_tunnel_params_has_event_digest :: "('s, 'p) capnp \<Rightarrow> 's \<Rightarrow> bool" where
  "reconnect_tunnel_params_has_event_digest c s = (\<not> ptr_null c (get_ptr c 1 s))"

definition reconnect_tunnel_params_get_conn_digest :: "('s, 'p) capnp \<Rightarrow> 's \<Rightarrow> string + bytes" where
  "reconnect_tunnel_params_get_conn_digest c s = ptr_data c (get_ptr c 2 s)"

definition reconnect_tunnel_params_has_conn_digest :: "('s, 'p) capnp \<Rightarrow> 's \<Rightarrow> bool" where
  "reconnect_tunnel_params_has_conn_digest c s = (\<not> ptr_null c (get_ptr c 2 s))"

definition reconnect_tunnel_params_get_hostname :: "('s, 'p) capnp \<Rightarrow> 's \<Rightarrow> string + bytes" where
  "reconnect_tunnel_params_get_hostname c s = ptr_text c (get_ptr c 3 s)"

definition reconnect_tunnel_params_has_hostname :: "('s, 'p) capnp \<Rightarrow> 's \<Rightarrow> bool" where
  "reconnect_tunnel_params_has_hostname c s = (\<not> ptr_null c (get_ptr c 3 s))"

definition reconnect_tunnel_params_get_options :: "('s, 'p) capnp \<Rightarrow> 's \<Rightarrow> string + 's" where
  "reconnect_tunnel_params_get_options c s = ptr_struct c (get_ptr c 4 s)"

definition reconnect_tunnel_params_has_options :: "('s, 'p) capnp \<Rightarrow> 's \<Rightarrow> bool" where
  "reconnect_tunnel_params_has_options c s = (\<not> ptr_null c (get_ptr c 4 s))"

definition reconnect_tunnel_params_set_jwt :: "('s, 'p) capnp \<Rightarrow> bytes \<Rightarrow> 's \<Rightarrow> 's" where
  "reconnect_tunnel_params_set_jwt c value s = set_ptr c 0 (data_ptr c value) s"

definition reconnect_tunnel_params_init_jwt :: "('s, 'p) capnp \<Rightarrow> nat \<Rightarrow> (bytes \<Rightarrow> bytes) \<Rightarrow> 's \<Rightarrow> 's" where
  "reconnect_tunnel_params_init_jwt c n fill s = set_ptr c 0 (data_ptr c (fill (replicate n (CHR 0x00)))) s"

definition reconnect_tunnel_params_set_event_digest :: "('s, 'p) capnp \<Rightarrow> bytes \<Rightarrow> 's \<Rightarrow> 's" where
  "reconnect_tunnel_params_set_event_digest c value s = set_ptr c 1 (data_ptr c value) s"

definition reconnect_tunnel_params_init_event_digest :: "('s, 'p) capnp \<Rightarrow> nat \<Rightarrow> (bytes \<Rightarrow> bytes) \<Rightarrow> 's \<Rightarrow> 's" where
  "reconnect_tunnel_params_init_event_digest c n fill s = set_ptr c 1 (data_ptr c (fill (replicate n (CHR 0x00)))) s"

definition reconnect_tunnel_params_set_conn_digest :: "('s, 'p) capnp \<Rightarrow> bytes \<Rightarrow> 's \<Rightarrow> 's" where
  "reconnect_tunnel_params_set_conn_digest c value s = set_ptr c 2 (data_ptr c value) s"

definition reconnect_tunnel_params_init_conn_digest :: "('s, 'p) capnp \<Rightarrow> nat \<Rightarrow> (bytes \<Rightarrow> bytes) \<Rightarrow> 's \<Rightarrow> 's" where
  "reconnect_tunnel_params_init_conn_digest c n fill s = set_ptr c 2 (data_ptr c (fill (replicate n (CHR 0x00)))) s"

definition reconnect_tunnel_params_set_hostname :: "('s, 'p) capnp \<Rightarrow> string \<Rightarrow> 's \<Rightarrow> 's" where
  "reconnect_tunnel_params_set_hostname c value s = set_ptr c 3 (text_ptr c value) s"

definition reconnect_tunnel_params_init_hostname :: "('s, 'p) capnp \<Rightarrow> nat \<Rightarrow> (bytes \<Rightarrow> bytes) \<Rightarrow> 's \<Rightarrow> 's" where
  "reconnect_tunnel_params_init_hostname c n fill s = set_ptr c 3 (text_ptr c (fill (replicate n (CHR 0x00)))) s"

definition reconnect_tunnel_params_set_options :: "('s, 'p) capnp \<Rightarrow> 's \<Rightarrow> 's \<Rightarrow> 's" where
  "reconnect_tunnel_params_set_options c value s = set_ptr c 4 (struct_ptr c value) s"

definition reconnect_tunnel_params_init_options :: "('s, 'p) capnp \<Rightarrow> ('s \<Rightarrow> 's) \<Rightarrow> 's \<Rightarrow> 's" where
  "reconnect_tunnel_params_init_options c fill s =
     set_ptr c 4 (struct_ptr c (fill
       (new_struct c (fst registration_options_STRUCT_SIZE) (snd registration_options_STRUCT_SIZE)))) s"

section \<open>The struct reconnect_tunnel_results\<close>

definition reconnect_tunnel_results_STRUCT_SIZE :: "nat \<times> nat" where
  "reconnect_tunnel_results_STRUCT_SIZE = (0, 1)"

definition reconnect_tunnel_results_get_result :: "('s, 'p) capnp \<Rightarrow> 's \<Rightarrow> string + 's" where
  "reconnect_tunnel_results_get_result c s = ptr_struct c (get_ptr c 0 s)"

definition reconnect_tunnel_results_has_result :: "('s, 'p) capnp \<Rightarrow> 's \<Rightarrow> bool" where
  "reconnect_tunnel_results_has_result c s = (\<not> ptr_null c (get_ptr c 0 s))"

definition reconnect_tunnel_results_set_result :: "('s, 'p) capnp \<Rightarrow> 's \<Rightarrow> 's \<Rightarrow> 's" where
  "reconnect_tunnel_results_set_result c value s = set_ptr c 0 (struct_ptr c value) s"

definition reconnect_tunnel_results_init_result :: "('s, 'p) capnp \<Rightarrow> ('s \<Rightarrow> 's) \<Rightarrow> 's \<Rightarrow> 's" where
  "reconnect_tunnel_results_init_result c fill s =
     set_ptr c 0 (struct_ptr c (fill
       (new_struct c (fst tunnel_registration_STRUCT_SIZE) (snd tunnel_registration_STRUCT_SIZE)))) s"

lemmas legacy_schema_defs =
  authentication_STRUCT_SIZE_def authentication_get_key_def authentication_has_key_def
  authentication_get_email_def authentication_has_email_def authentication_get_origin_c_a_key_def
  authentication_has_origin_c_a_key_def authentication_set_key_def authentication_init_key_def
  authentication_set_email_def authentication_init_email_def authentication_set_origin_c_a_key_def
  authentication_init_origin_c_a_key_def tunnel_registration_STRUCT_SIZE_def
  tunnel_registration_get_err_def tunnel_registration_has_err_def tunnel_registration_get_url_def
  tunnel_registration_has_url_def tunnel_registration_get_log_lines_def
  tunnel_registration_has_log_lines_def tunnel_registration_get_permanent_failure_def
  tunnel_registration_get_tunnel_i_d_def tunnel_registration_has_tunnel_i_d_def
  tunnel_registration_get_retry_after_seconds_def tunnel_registration_get_event_digest_def
  tunnel_registration_has_event_digest_def tunnel_registration_get_conn_digest_def
  tunnel_registration_has_conn_digest_def tunnel_registration_set_err_def
  tunnel_registration_init_err_def tunnel_registration_set_url_def tunnel_registration_init_url_def
  tunnel_registration_set_log_lines_def tunnel_registration_init_log_lines_def
  tunnel_registration_set_permanent_failure_def tunnel_registration_set_tunnel_i_d_def
  tunnel_registration_init_tunnel_i_d_def tunnel_registration_set_retry_after_seconds_def
  tunnel_registration_set_event_digest_def tunnel_registration_init_event_digest_def
  tunnel_registration_set_conn_digest_def tunnel_registration_init_conn_digest_def
  tag_STRUCT_SIZE_def tag_get_name_def tag_has_name_def tag_get_value_def tag_has_value_def
  tag_set_name_def tag_init_name_def tag_set_value_def tag_init_value_def
  registration_options_STRUCT_SIZE_def registration_options_get_client_id_def
  registration_options_has_client_id_def registration_options_get_version_def
  registration_options_has_version_def registration_options_get_os_def
  registration_options_has_os_def registration_options_get_existing_tunnel_policy_def
  registration_options_get_pool_name_def registration_options_has_pool_name_def
  registration_options_get_tags_def registration_options_has_tags_def
  registration_options_get_connection_id_def registration_options_get_origin_local_ip_def
  registration_options_has_origin_local_ip_def registration_options_get_is_autoupdated_def
  registration_options_get_run_from_terminal_def registration_options_get_compression_quality_def
  registration_options_get_uuid_def registration_options_has_uuid_def
  registration_options_get_num_previous_attempts_def registration_options_get_features_def
  registration_options_has_features_def registration_options_set_client_id_def
  registration_options_init_client_id_def registration_options_set_version_def
  registration_options_init_version_def registration_options_set_os_def
  registration_options_init_os_def registration_options_set_existing_tunnel_policy_def
  registration_options_set_pool_name_def registration_options_init_pool_name_def
  registration_options_set_tags_def registration_options_init_tags_def
  registration_options_set_connection_id_def registration_options_set_origin_local_ip_def
  registration_options_init_origin_local_ip_def registration_options_set_is_autoupdated_def
  registration_options_set_run_from_terminal_def registration_options_set_compression_quality_def
  registration_options_set_uuid_def registration_options_init_uuid_def
  registration_options_set_num_previous_attempts_def registration_options_set_features_def
  registration_options_init_features_def server_info_STRUCT_SIZE_def
  server_info_get_location_name_def server_info_has_location_name_def
  server_info_set_location_name_def server_info_init_location_name_def
  authenticate_response_STRUCT_SIZE_def authenticate_response_get_permanent_err_def
  authenticate_response_has_permanent_err_def authenticate_response_get_retryable_err_def
  authenticate_response_has_retryable_err_def authenticate_response_get_jwt_def
  authenticate_response_has_jwt_def authenticate_response_get_hours_until_refresh_def
  authenticate_response_set_permanent_err_def authenticate_response_init_permanent_err_def
  authenticate_response_set_retryable_err_def authenticate_response_init_retryable_err_def
  authenticate_response_set_jwt_def authenticate_response_init_jwt_def
  authenticate_response_set_hours_until_refresh_def register_tunnel_params_STRUCT_SIZE_def
  register_tunnel_params_get_origin_cert_def register_tunnel_params_has_origin_cert_def
  register_tunnel_params_get_hostname_def register_tunnel_params_has_hostname_def
  register_tunnel_params_get_options_def register_tunnel_params_has_options_def
  register_tunnel_params_set_origin_cert_def register_tunnel_params_init_origin_cert_def
  register_tunnel_params_set_hostname_def register_tunnel_params_init_hostname_def
  register_tunnel_params_set_options_def register_tunnel_params_init_options_def
  register_tunnel_results_STRUCT_SIZE_def register_tunnel_results_get_result_def
  register_tunnel_results_has_result_def register_tunnel_results_set_result_def
  register_tunnel_results_init_result_def get_server_info_params_STRUCT_SIZE_def
  get_server_info_results_STRUCT_SIZE_def get_server_info_results_get_result_def
  get_server_info_results_has_result_def get_server_info_results_set_result_def
  get_server_info_results_init_result_def unregister_tunnel_params_STRUCT_SIZE_def
  unregister_tunnel_params_get_grace_period_nano_sec_def
  unregister_tunnel_params_set_grace_period_nano_sec_def unregister_tunnel_results_STRUCT_SIZE_def
  obsolete_declarative_tunnel_connect_params_STRUCT_SIZE_def
  obsolete_declarative_tunnel_connect_results_STRUCT_SIZE_def authenticate_params_STRUCT_SIZE_def
  authenticate_params_get_origin_cert_def authenticate_params_has_origin_cert_def
  authenticate_params_get_hostname_def authenticate_params_has_hostname_def
  authenticate_params_get_options_def authenticate_params_has_options_def
  authenticate_params_set_origin_cert_def authenticate_params_init_origin_cert_def
  authenticate_params_set_hostname_def authenticate_params_init_hostname_def
  authenticate_params_set_options_def authenticate_params_init_options_def
  authenticate_results_STRUCT_SIZE_def authenticate_results_get_result_def
  authenticate_results_has_result_def authenticate_results_set_result_def
  authenticate_results_init_result_def reconnect_tunnel_params_STRUCT_SIZE_def
  reconnect_tunnel_params_get_jwt_def reconnect_tunnel_params_has_jwt_def
  reconnect_tunnel_params_get_event_digest_def reconnect_tunnel_params_has_event_digest_def
  reconnect_tunnel_params_get_conn_digest_def reconnect_tunnel_params_has_conn_digest_def
  reconnect_tunnel_params_get_hostname_def reconnect_tunnel_params_has_hostname_def
  reconnect_tunnel_params_get_options_def reconnect_tunnel_params_has_options_def
  reconnect_tunnel_params_set_jwt_def reconnect_tunnel_params_init_jwt_def
  reconnect_tunnel_params_set_event_digest_def reconnect_tunnel_params_init_event_digest_def
  reconnect_tunnel_params_set_conn_digest_def reconnect_tunnel_params_init_conn_digest_def
  reconnect_tunnel_params_set_hostname_def reconnect_tunnel_params_init_hostname_def
  reconnect_tunnel_params_set_options_def reconnect_tunnel_params_init_options_def
  reconnect_tunnel_results_STRUCT_SIZE_def reconnect_tunnel_results_get_result_def
  reconnect_tunnel_results_has_result_def reconnect_tunnel_results_set_result_def
  reconnect_tunnel_results_init_result_def

end
