(* ===== verification/Server_Nodes.thy ===== *)
theory Server_Nodes
  imports Schema_Nodes
begin

text \<open>
  The encoded schema nodes of \<^verbatim>\<open>src/proto_gen/tunnelrpc_capnp.rs\<close> that are not in \<open>Schema_Nodes\<close>: the
  older tunnel protocol, the method \<open>updateLocalConfiguration\<close> and the default value of a parameter.
\<close>

definition authentication_ENCODED_NODE :: encoded_node where
  "authentication_ENCODED_NODE =
   [[0, 0, 0, 0, 5, 0, 6, 0],
    [29, 237, 66, 13, 110, 239, 130, 192],
    [16, 0, 0, 0, 1, 0, 0, 0],
    [126, 188, 74, 20, 249, 116, 130, 219],
    [3, 0, 7, 0, 0, 0, 0, 0],
    [0, 0, 0, 0, 0, 0, 0, 0],
    [21, 0, 0, 0, 250, 0, 0, 0],
    [33, 0, 0, 0, 7, 0, 0, 0],
    [0, 0, 0, 0, 0, 0, 0, 0],
    [29, 0, 0, 0, 175, 0, 0, 0],
    [0, 0, 0, 0, 0, 0, 0, 0],
    [0, 0, 0, 0, 0, 0, 0, 0],
    [116, 117, 110, 110, 101, 108, 114, 112],
    [99, 46, 99, 97, 112, 110, 112, 58],
    [65, 117, 116, 104, 101, 110, 116, 105],
    [99, 97, 116, 105, 111, 110, 0, 0],
    [0, 0, 0, 0, 1, 0, 1, 0],
    [12, 0, 0, 0, 3, 0, 4, 0],
    [0, 0, 0, 0, 0, 0, 0, 0],
    [0, 0, 1, 0, 0, 0, 0, 0],
    [0, 0, 0, 0, 0, 0, 0, 0],
    [69, 0, 0, 0, 34, 0, 0, 0],
    [0, 0, 0, 0, 0, 0, 0, 0],
    [64, 0, 0, 0, 3, 0, 1, 0],
    [76, 0, 0, 0, 2, 0, 1, 0],
    [1, 0, 0, 0, 1, 0, 0, 0],
    [0, 0, 1, 0, 1, 0, 0, 0],
    [0, 0, 0, 0, 0, 0, 0, 0],
    [73, 0, 0, 0, 50, 0, 0, 0],
    [0, 0, 0, 0, 0, 0, 0, 0],
    [68, 0, 0, 0, 3, 0, 1, 0],
    [80, 0, 0, 0, 2, 0, 1, 0],
    [2, 0, 0, 0, 2, 0, 0, 0],
    [0, 0, 1, 0, 2, 0, 0, 0],
    [0, 0, 0, 0, 0, 0, 0, 0],
    [77, 0, 0, 0, 98, 0, 0, 0],
    [0, 0, 0, 0, 0, 0, 0, 0],
    [76, 0, 0, 0, 3, 0, 1, 0],
    [88, 0, 0, 0, 2, 0, 1, 0],
    [107, 101, 121, 0, 0, 0, 0, 0],
    [12, 0, 0, 0, 0, 0, 0, 0],
    [0, 0, 0, 0, 0, 0, 0, 0],
    [0, 0, 0, 0, 0, 0, 0, 0],
    [0, 0, 0, 0, 0, 0, 0, 0],
    [12, 0, 0, 0, 0, 0, 0, 0],
    [0, 0, 0, 0, 0, 0, 0, 0],
    [0, 0, 0, 0, 0, 0, 0, 0],
    [101, 109, 97, 105, 108, 0, 0, 0],
    [12, 0, 0, 0, 0, 0, 0, 0],
    [0, 0, 0, 0, 0, 0, 0, 0],
    [0, 0, 0, 0, 0, 0, 0, 0],
    [0, 0, 0, 0, 0, 0, 0, 0],
    [12, 0, 0, 0, 0, 0, 0, 0],
    [0, 0, 0, 0, 0, 0, 0, 0],
    [0, 0, 0, 0, 0, 0, 0, 0],
    [111, 114, 105, 103, 105, 110, 67, 65],
    [75, 101, 121, 0, 0, 0, 0, 0],
    [12, 0, 0, 0, 0, 0, 0, 0],
    [0, 0, 0, 0, 0, 0, 0, 0],
    [0, 0, 0, 0, 0, 0, 0, 0],
    [0, 0, 0, 0, 0, 0, 0, 0],
    [12, 0, 0, 0, 0, 0, 0, 0],
    [0, 0, 0, 0, 0, 0, 0, 0],
    [0, 0, 0, 0, 0, 0, 0, 0]]"

definition tunnel_registration_ENCODED_NODE :: encoded_node where
  "tunnel_registration_ENCODED_NODE =
   [[0, 0, 0, 0, 5, 0, 6, 0],
    [70, 158, 212, 26, 0, 15, 26, 244],
    [16, 0, 0, 0, 1, 0, 1, 0],
    [126, 188, 74, 20, 249, 116, 130, 219],
    [6, 0, 7, 0, 0, 0, 0, 0],
    [0, 0, 0, 0, 0, 0, 0, 0],
    [21, 0, 0, 0, 26, 1, 0, 0],
    [37, 0, 0, 0, 7, 0, 0, 0],
    [0, 0, 0, 0, 0, 0, 0, 0],
    [33, 0, 0, 0, 199, 1, 0, 0],
    [0, 0, 0, 0, 0, 0, 0, 0],
    [0, 0, 0, 0, 0, 0, 0, 0],
    [116, 117, 110, 110, 101, 108, 114, 112],
    [99, 46, 99, 97, 112, 110, 112, 58],
    [84, 117, 110, 110, 101, 108, 82, 101],
    [103, 105, 115, 116, 114, 97, 116, 105],
    [111, 110, 0, 0, 0, 0, 0, 0],
    [0, 0, 0, 0, 1, 0, 1, 0],
    [32, 0, 0, 0, 3, 0, 4, 0],
    [0, 0, 0, 0, 0, 0, 0, 0],
    [0, 0, 1, 0, 0, 0, 0, 0],
    [0, 0, 0, 0, 0, 0, 0, 0],
    [209, 0, 0, 0, 34, 0, 0, 0],
    [0, 0, 0, 0, 0, 0, 0, 0],
    [204, 0, 0, 0, 3, 0, 1, 0],
    [216, 0, 0, 0, 2, 0, 1, 0],
    [1, 0, 0, 0, 1, 0, 0, 0],
    [0, 0, 1, 0, 1, 0, 0, 0],
    [0, 0, 0, 0, 0, 0, 0, 0],
    [213, 0, 0, 0, 34, 0, 0, 0],
    [0, 0, 0, 0, 0, 0, 0, 0],
    [208, 0, 0, 0, 3, 0, 1, 0],
    [220, 0, 0, 0, 2, 0, 1, 0],
    [2, 0, 0, 0, 2, 0, 0, 0],
    [0, 0, 1, 0, 2, 0, 0, 0],
    [0, 0, 0, 0, 0, 0, 0, 0],
    [217, 0, 0, 0, 74, 0, 0, 0],
    [0, 0, 0, 0, 0, 0, 0, 0],
    [216, 0, 0, 0, 3, 0, 1, 0],
    [244, 0, 0, 0, 2, 0, 1, 0],
    [3, 0, 0, 0, 0, 0, 0, 0],
    [0, 0, 1, 0, 3, 0, 0, 0],
    [0, 0, 0, 0, 0, 0, 0, 0],
    [241, 0, 0, 0, 138, 0, 0, 0],
    [0, 0, 0, 0, 0, 0, 0, 0],
    [244, 0, 0, 0, 3, 0, 1, 0],
    [0, 1, 0, 0, 2, 0, 1, 0],
    [4, 0, 0, 0, 3, 0, 0, 0],
    [0, 0, 1, 0, 4, 0, 0, 0],
    [0, 0, 0, 0, 0, 0, 0, 0],
    [253, 0, 0, 0, 74, 0, 0, 0],
    [0, 0, 0, 0, 0, 0, 0, 0],
    [252, 0, 0, 0, 3, 0, 1, 0],
    [8, 1, 0, 0, 2, 0, 1, 0],
    [5, 0, 0, 0, 1, 0, 0, 0],
    [0, 0, 1, 0, 5, 0, 0, 0],
    [0, 0, 0, 0, 0, 0, 0, 0],
    [5, 1, 0, 0, 146, 0, 0, 0],
    [0, 0, 0, 0, 0, 0, 0, 0],
    [8, 1, 0, 0, 3, 0, 1, 0],
    [20, 1, 0, 0, 2, 0, 1, 0],
    [6, 0, 0, 0, 4, 0, 0, 0],
    [0, 0, 1, 0, 6, 0, 0, 0],
    [0, 0, 0, 0, 0, 0, 0, 0],
    [17, 1, 0, 0, 98, 0, 0, 0],
    [0, 0, 0, 0, 0, 0, 0, 0],
    [16, 1, 0, 0, 3, 0, 1, 0],
    [28, 1, 0, 0, 2, 0, 1, 0],
    [7, 0, 0, 0, 5, 0, 0, 0],
    [0, 0, 1, 0, 7, 0, 0, 0],
    [0, 0, 0, 0, 0, 0, 0, 0],
    [25, 1, 0, 0, 90, 0, 0, 0],
    [0, 0, 0, 0, 0, 0, 0, 0],
    [24, 1, 0, 0, 3, 0, 1, 0],
    [36, 1, 0, 0, 2, 0, 1, 0],
    [101, 114, 114, 0, 0, 0, 0, 0],
    [12, 0, 0, 0, 0, 0, 0, 0],
    [0, 0, 0, 0, 0, 0, 0, 0],
    [0, 0, 0, 0, 0, 0, 0, 0],
    [0, 0, 0, 0, 0, 0, 0, 0],
    [12, 0, 0, 0, 0, 0, 0, 0],
    [0, 0, 0, 0, 0, 0, 0, 0],
    [0, 0, 0, 0, 0, 0, 0, 0],
    [117, 114, 108, 0, 0, 0, 0, 0],
    [12, 0, 0, 0, 0, 0, 0, 0],
    [0, 0, 0, 0, 0, 0, 0, 0],
    [0, 0, 0, 0, 0, 0, 0, 0],
    [0, 0, 0, 0, 0, 0, 0, 0],
    [12, 0, 0, 0, 0, 0, 0, 0],
    [0, 0, 0, 0, 0, 0, 0, 0],
    [0, 0, 0, 0, 0, 0, 0, 0],
    [108, 111, 103, 76, 105, 110, 101, 115],
    [0, 0, 0, 0, 0, 0, 0, 0],
    [14, 0, 0, 0, 0, 0, 0, 0],
    [0, 0, 0, 0, 0, 0, 0, 0],
    [0, 0, 0, 0, 0, 0, 0, 0],
    [0, 0, 0, 0, 3, 0, 1, 0],
    [12, 0, 0, 0, 0, 0, 0, 0],
    [0, 0, 0, 0, 0, 0, 0, 0],
    [0, 0, 0, 0, 0, 0, 0, 0],
    [0, 0, 0, 0, 0, 0, 0, 0],
    [14, 0, 0, 0, 0, 0, 0, 0],
    [0, 0, 0, 0, 0, 0, 0, 0],
    [0, 0, 0, 0, 0, 0, 0, 0],
    [112, 101, 114, 109, 97, 110, 101, 110],
    [116, 70, 97, 105, 108, 117, 114, 101],
    [0, 0, 0, 0, 0, 0, 0, 0],
    [1, 0, 0, 0, 0, 0, 0, 0],
    [0, 0, 0, 0, 0, 0, 0, 0],
    [0, 0, 0, 0, 0, 0, 0, 0],
    [0, 0, 0, 0, 0, 0, 0, 0],
    [1, 0, 0, 0, 0, 0, 0, 0],
    [0, 0, 0, 0, 0, 0, 0, 0],
    [0, 0, 0, 0, 0, 0, 0, 0],
    [116, 117, 110, 110, 101, 108, 73, 68],
    [0, 0, 0, 0, 0, 0, 0, 0],
    [12, 0, 0, 0, 0, 0, 0, 0],
    [0, 0, 0, 0, 0, 0, 0, 0],
    [0, 0, 0, 0, 0, 0, 0, 0],
    [0, 0, 0, 0, 0, 0, 0, 0],
    [12, 0, 0, 0, 0, 0, 0, 0],
    [0, 0, 0, 0, 0, 0, 0, 0],
    [0, 0, 0, 0, 0, 0, 0, 0],
    [114, 101, 116, 114, 121, 65, 102, 116],
    [101, 114, 83, 101, 99, 111, 110, 100],
    [115, 0, 0, 0, 0, 0, 0, 0],
    [7, 0, 0, 0, 0, 0, 0, 0],
    [0, 0, 0, 0, 0, 0, 0, 0],
    [0, 0, 0, 0, 0, 0, 0, 0],
    [0, 0, 0, 0, 0, 0, 0, 0],
    [7, 0, 0, 0, 0, 0, 0, 0],
    [0, 0, 0, 0, 0, 0, 0, 0],
    [0, 0, 0, 0, 0, 0, 0, 0],
    [101, 118, 101, 110, 116, 68, 105, 103],
    [101, 115, 116, 0, 0, 0, 0, 0],
    [13, 0, 0, 0, 0, 0, 0, 0],
    [0, 0, 0, 0, 0, 0, 0, 0],
    [0, 0, 0, 0, 0, 0, 0, 0],
    [0, 0, 0, 0, 0, 0, 0, 0],
    [13, 0, 0, 0, 0, 0, 0, 0],
    [0, 0, 0, 0, 0, 0, 0, 0],
    [0, 0, 0, 0, 0, 0, 0, 0],
    [99, 111, 110, 110, 68, 105, 103, 101],
    [115, 116, 0, 0, 0, 0, 0, 0],
    [13, 0, 0, 0, 0, 0, 0, 0],
    [0, 0, 0, 0, 0, 0, 0, 0],
    [0, 0, 0, 0, 0, 0, 0, 0],
    [0, 0, 0, 0, 0, 0, 0, 0],
    [13, 0, 0, 0, 0, 0, 0, 0],
    [0, 0, 0, 0, 0, 0, 0, 0],
    [0, 0, 0, 0, 0, 0, 0, 0]]"

definition registration_options_ENCODED_NODE :: encoded_node where
  "registration_options_ENCODED_NODE =
   [[0, 0, 0, 0, 5, 0, 6, 0],
    [74, 91, 147, 146, 5, 229, 147, 199],
    [16, 0, 0, 0, 1, 0, 2, 0],
    [126, 188, 74, 20, 249, 116, 130, 219],
    [8, 0, 7, 0, 0, 0, 0, 0],
    [0, 0, 0, 0, 0, 0, 0, 0],
    [21, 0, 0, 0, 34, 1, 0, 0],
    [37, 0, 0, 0, 7, 0, 0, 0],
    [0, 0, 0, 0, 0, 0, 0, 0],
    [33, 0, 0, 0, 23, 3, 0, 0],
    [0, 0, 0, 0, 0, 0, 0, 0],
    [0, 0, 0, 0, 0, 0, 0, 0],
    [116, 117, 110, 110, 101, 108, 114, 112],
    [99, 46, 99, 97, 112, 110, 112, 58],
    [82, 101, 103, 105, 115, 116, 114, 97],
    [116, 105, 111, 110, 79, 112, 116, 105],
    [111, 110, 115, 0, 0, 0, 0, 0],
    [0, 0, 0, 0, 1, 0, 1, 0],
    [56, 0, 0, 0, 3, 0, 4, 0],
    [0, 0, 0, 0, 0, 0, 0, 0],
    [0, 0, 1, 0, 0, 0, 0, 0],
    [0, 0, 0, 0, 0, 0, 0, 0],
    [121, 1, 0, 0, 74, 0, 0, 0],
    [0, 0, 0, 0, 0, 0, 0, 0],
    [120, 1, 0, 0, 3, 0, 1, 0],
    [132, 1, 0, 0, 2, 0, 1, 0],
    [1, 0, 0, 0, 1, 0, 0, 0],
    [0, 0, 1, 0, 1, 0, 0, 0],
    [0, 0, 0, 0, 0, 0, 0, 0],
    [129, 1, 0, 0, 66, 0, 0, 0],
    [0, 0, 0, 0, 0, 0, 0, 0],
    [124, 1, 0, 0, 3, 0, 1, 0],
    [136, 1, 0, 0, 2, 0, 1, 0],
    [2, 0, 0, 0, 2, 0, 0, 0],
    [0, 0, 1, 0, 2, 0, 0, 0],
    [0, 0, 0, 0, 0, 0, 0, 0],
    [133, 1, 0, 0, 26, 0, 0, 0],
    [0, 0, 0, 0, 0, 0, 0, 0],
    [128, 1, 0, 0, 3, 0, 1, 0],
    [140, 1, 0, 0, 2, 0, 1, 0],
    [3, 0, 0, 0, 0, 0, 0, 0],
    [0, 0, 1, 0, 3, 0, 0, 0],
    [0, 0, 0, 0, 0, 0, 0, 0],
    [137, 1, 0, 0, 170, 0, 0, 0],
    [0, 0, 0, 0, 0, 0, 0, 0],
    [140, 1, 0, 0, 3, 0, 1, 0],
    [152, 1, 0, 0, 2, 0, 1, 0],
    [4, 0, 0, 0, 3, 0, 0, 0],
    [0, 0, 1, 0, 4, 0, 0, 0],
    [0, 0, 0, 0, 0, 0, 0, 0],
    [149, 1, 0, 0, 74, 0, 0, 0],
    [0, 0, 0, 0, 0, 0, 0, 0],
    [148, 1, 0, 0, 3, 0, 1, 0],
    [160, 1, 0, 0, 2, 0, 1, 0],
    [5, 0, 0, 0, 4, 0, 0, 0],
    [0, 0, 1, 0, 5, 0, 0, 0],
    [0, 0, 0, 0, 0, 0, 0, 0],
    [157, 1, 0, 0, 42, 0, 0, 0],
    [0, 0, 0, 0, 0, 0, 0, 0],
    [152, 1, 0, 0, 3, 0, 1, 0],
    [180, 1, 0, 0, 2, 0, 1, 0],
    [6, 0, 0, 0, 2, 0, 0, 0],
    [0, 0, 1, 0, 6, 0, 0, 0],
    [0, 0, 0, 0, 0, 0, 0, 0],
    [177, 1, 0, 0, 106, 0, 0, 0],
    [0, 0, 0, 0, 0, 0, 0, 0],
    [176, 1, 0, 0, 3, 0, 1, 0],
    [188, 1, 0, 0, 2, 0, 1, 0],
    [7, 0, 0, 0, 5, 0, 0, 0],
    [0, 0, 1, 0, 7, 0, 0, 0],
    [0, 0, 0, 0, 0, 0, 0, 0],
    [185, 1, 0, 0, 114, 0, 0, 0],
    [0, 0, 0, 0, 0, 0, 0, 0],
    [184, 1, 0, 0, 3, 0, 1, 0],
    [196, 1, 0, 0, 2, 0, 1, 0],
    [8, 0, 0, 0, 24, 0, 0, 0],
    [0, 0, 1, 0, 8, 0, 0, 0],
    [0, 0, 0, 0, 0, 0, 0, 0],
    [193, 1, 0, 0, 114, 0, 0, 0],
    [0, 0, 0, 0, 0, 0, 0, 0],
    [192, 1, 0, 0, 3, 0, 1, 0],
    [204, 1, 0, 0, 2, 0, 1, 0],
    [9, 0, 0, 0, 25, 0, 0, 0],
    [0, 0, 1, 0, 9, 0, 0, 0],
    [0, 0, 0, 0, 0, 0, 0, 0],
    [201, 1, 0, 0, 130, 0, 0, 0],
    [0, 0, 0, 0, 0, 0, 0, 0],
    [200, 1, 0, 0, 3, 0, 1, 0],
    [212, 1, 0, 0, 2, 0, 1, 0],
    [10, 0, 0, 0, 1, 0, 0, 0],
    [0, 0, 1, 0, 10, 0, 0, 0],
    [0, 0, 0, 0, 0, 0, 0, 0],
    [209, 1, 0, 0, 154, 0, 0, 0],
    [0, 0, 0, 0, 0, 0, 0, 0],
    [212, 1, 0, 0, 3, 0, 1, 0],
    [224, 1, 0, 0, 2, 0, 1, 0],
    [11, 0, 0, 0, 6, 0, 0, 0],
    [0, 0, 1, 0, 11, 0, 0, 0],
    [0, 0, 0, 0, 0, 0, 0, 0],
    [221, 1, 0, 0, 42, 0, 0, 0],
    [0, 0, 0, 0, 0, 0, 0, 0],
    [216, 1, 0, 0, 3, 0, 1, 0],
    [228, 1, 0, 0, 2, 0, 1, 0],
    [12, 0, 0, 0, 4, 0, 0, 0],
    [0, 0, 1, 0, 12, 0, 0, 0],
    [0, 0, 0, 0, 0, 0, 0, 0],
    [225, 1, 0, 0, 162, 0, 0, 0],
    [0, 0, 0, 0, 0, 0, 0, 0],
    [228, 1, 0, 0, 3, 0, 1, 0],
    [240, 1, 0, 0, 2, 0, 1, 0],
    [13, 0, 0, 0, 7, 0, 0, 0],
    [0, 0, 1, 0, 13, 0, 0, 0],
    [0, 0, 0, 0, 0, 0, 0, 0],
    [237, 1, 0, 0, 74, 0, 0, 0],
    [0, 0, 0, 0, 0, 0, 0, 0],
    [236, 1, 0, 0, 3, 0, 1, 0],
    [8, 2, 0, 0, 2, 0, 1, 0],
    [99, 108, 105, 101, 110, 116, 73, 100],
    [0, 0, 0, 0, 0, 0, 0, 0],
    [12, 0, 0, 0, 0, 0, 0, 0],
    [0, 0, 0, 0, 0, 0, 0, 0],
    [0, 0, 0, 0, 0, 0, 0, 0],
    [0, 0, 0, 0, 0, 0, 0, 0],
    [12, 0, 0, 0, 0, 0, 0, 0],
    [0, 0, 0, 0, 0, 0, 0, 0],
    [0, 0, 0, 0, 0, 0, 0, 0],
    [118, 101, 114, 115, 105, 111, 110, 0],
    [12, 0, 0, 0, 0, 0, 0, 0],
    [0, 0, 0, 0, 0, 0, 0, 0],
    [0, 0, 0, 0, 0, 0, 0, 0],
    [0, 0, 0, 0, 0, 0, 0, 0],
    [12, 0, 0, 0, 0, 0, 0, 0],
    [0, 0, 0, 0, 0, 0, 0, 0],
    [0, 0, 0, 0, 0, 0, 0, 0],
    [111, 115, 0, 0, 0, 0, 0, 0],
    [12, 0, 0, 0, 0, 0, 0, 0],
    [0, 0, 0, 0, 0, 0, 0, 0],
    [0, 0, 0, 0, 0, 0, 0, 0],
    [0, 0, 0, 0, 0, 0, 0, 0],
    [12, 0, 0, 0, 0, 0, 0, 0],
    [0, 0, 0, 0, 0, 0, 0, 0],
    [0, 0, 0, 0, 0, 0, 0, 0],
    [101, 120, 105, 115, 116, 105, 110, 103],
    [84, 117, 110, 110, 101, 108, 80, 111],
    [108, 105, 99, 121, 0, 0, 0, 0],
    [15, 0, 0, 0, 0, 0, 0, 0],
    [60, 109, 207, 162, 54, 149, 203, 132],
    [0, 0, 0, 0, 0, 0, 0, 0],
    [0, 0, 0, 0, 0, 0, 0, 0],
    [15, 0, 0, 0, 0, 0, 0, 0],
    [0, 0, 0, 0, 0, 0, 0, 0],
    [0, 0, 0, 0, 0, 0, 0, 0],
    [112, 111, 111, 108, 78, 97, 109, 101],
    [0, 0, 0, 0, 0, 0, 0, 0],
    [12, 0, 0, 0, 0, 0, 0, 0],
    [0, 0, 0, 0, 0, 0, 0, 0],
    [0, 0, 0, 0, 0, 0, 0, 0],
    [0, 0, 0, 0, 0, 0, 0, 0],
    [12, 0, 0, 0, 0, 0, 0, 0],
    [0, 0, 0, 0, 0, 0, 0, 0],
    [0, 0, 0, 0, 0, 0, 0, 0],
    [116, 97, 103, 115, 0, 0, 0, 0],
    [14, 0, 0, 0, 0, 0, 0, 0],
    [0, 0, 0, 0, 0, 0, 0, 0],
    [0, 0, 0, 0, 0, 0, 0, 0],
    [0, 0, 0, 0, 3, 0, 1, 0],
    [16, 0, 0, 0, 0, 0, 0, 0],
    [26, 176, 59, 174, 66, 100, 217, 203],
    [0, 0, 0, 0, 0, 0, 0, 0],
    [0, 0, 0, 0, 0, 0, 0, 0],
    [14, 0, 0, 0, 0, 0, 0, 0],
    [0, 0, 0, 0, 0, 0, 0, 0],
    [0, 0, 0, 0, 0, 0, 0, 0],
    [99, 111, 110, 110, 101, 99, 116, 105],
    [111, 110, 73, 100, 0, 0, 0, 0],
    [6, 0, 0, 0, 0, 0, 0, 0],
    [0, 0, 0, 0, 0, 0, 0, 0],
    [0, 0, 0, 0, 0, 0, 0, 0],
    [0, 0, 0, 0, 0, 0, 0, 0],
    [6, 0, 0, 0, 0, 0, 0, 0],
    [0, 0, 0, 0, 0, 0, 0, 0],
    [0, 0, 0, 0, 0, 0, 0, 0],
    [111, 114, 105, 103, 105, 110, 76, 111],
    [99, 97, 108, 73, 112, 0, 0, 0],
    [12, 0, 0, 0, 0, 0, 0, 0],
    [0, 0, 0, 0, 0, 0, 0, 0],
    [0, 0, 0, 0, 0, 0, 0, 0],
    [0, 0, 0, 0, 0, 0, 0, 0],
    [12, 0, 0, 0, 0, 0, 0, 0],
    [0, 0, 0, 0, 0, 0, 0, 0],
    [0, 0, 0, 0, 0, 0, 0, 0],
    [105, 115, 65, 117, 116, 111, 117, 112],
    [100, 97, 116, 101, 100, 0, 0, 0],
    [1, 0, 0, 0, 0, 0, 0, 0],
    [0, 0, 0, 0, 0, 0, 0, 0],
    [0, 0, 0, 0, 0, 0, 0, 0],
    [0, 0, 0, 0, 0, 0, 0, 0],
    [1, 0, 0, 0, 0, 0, 0, 0],
    [0, 0, 0, 0, 0, 0, 0, 0],
    [0, 0, 0, 0, 0, 0, 0, 0],
    [114, 117, 110, 70, 114, 111, 109, 84],
    [101, 114, 109, 105, 110, 97, 108, 0],
    [1, 0, 0, 0, 0, 0, 0, 0],
    [0, 0, 0, 0, 0, 0, 0, 0],
    [0, 0, 0, 0, 0, 0, 0, 0],
    [0, 0, 0, 0, 0, 0, 0, 0],
    [1, 0, 0, 0, 0, 0, 0, 0],
    [0, 0, 0, 0, 0, 0, 0, 0],
    [0, 0, 0, 0, 0, 0, 0, 0],
    [99, 111, 109, 112, 114, 101, 115, 115],
    [105, 111, 110, 81, 117, 97, 108, 105],
    [116, 121, 0, 0, 0, 0, 0, 0],
    [9, 0, 0, 0, 0, 0, 0, 0],
    [0, 0, 0, 0, 0, 0, 0, 0],
    [0, 0, 0, 0, 0, 0, 0, 0],
    [0, 0, 0, 0, 0, 0, 0, 0],
    [9, 0, 0, 0, 0, 0, 0, 0],
    [0, 0, 0, 0, 0, 0, 0, 0],
    [0, 0, 0, 0, 0, 0, 0, 0],
    [117, 117, 105, 100, 0, 0, 0, 0],
    [12, 0, 0, 0, 0, 0, 0, 0],
    [0, 0, 0, 0, 0, 0, 0, 0],
    [0, 0, 0, 0, 0, 0, 0, 0],
    [0, 0, 0, 0, 0, 0, 0, 0],
    [12, 0, 0, 0, 0, 0, 0, 0],
    [0, 0, 0, 0, 0, 0, 0, 0],
    [0, 0, 0, 0, 0, 0, 0, 0],
    [110, 117, 109, 80, 114, 101, 118, 105],
    [111, 117, 115, 65, 116, 116, 101, 109],
    [112, 116, 115, 0, 0, 0, 0, 0],
    [6, 0, 0, 0, 0, 0, 0, 0],
    [0, 0, 0, 0, 0, 0, 0, 0],
    [0, 0, 0, 0, 0, 0, 0, 0],
    [0, 0, 0, 0, 0, 0, 0, 0],
    [6, 0, 0, 0, 0, 0, 0, 0],
    [0, 0, 0, 0, 0, 0, 0, 0],
    [0, 0, 0, 0, 0, 0, 0, 0],
    [102, 101, 97, 116, 117, 114, 101, 115],
    [0, 0, 0, 0, 0, 0, 0, 0],
    [14, 0, 0, 0, 0, 0, 0, 0],
    [0, 0, 0, 0, 0, 0, 0, 0],
    [0, 0, 0, 0, 0, 0, 0, 0],
    [0, 0, 0, 0, 3, 0, 1, 0],
    [12, 0, 0, 0, 0, 0, 0, 0],
    [0, 0, 0, 0, 0, 0, 0, 0],
    [0, 0, 0, 0, 0, 0, 0, 0],
    [0, 0, 0, 0, 0, 0, 0, 0],
    [14, 0, 0, 0, 0, 0, 0, 0],
    [0, 0, 0, 0, 0, 0, 0, 0],
    [0, 0, 0, 0, 0, 0, 0, 0]]"

definition existing_tunnel_policy_ENCODED_NODE :: encoded_node where
  "existing_tunnel_policy_ENCODED_NODE =
   [[0, 0, 0, 0, 5, 0, 6, 0],
    [60, 109, 207, 162, 54, 149, 203, 132],
    [16, 0, 0, 0, 2, 0, 0, 0],
    [126, 188, 74, 20, 249, 116, 130, 219],
    [0, 0, 0, 0, 0, 0, 0, 0],
    [0, 0, 0, 0, 0, 0, 0, 0],
    [21, 0, 0, 0, 42, 1, 0, 0],
    [37, 0, 0, 0, 7, 0, 0, 0],
    [0, 0, 0, 0, 0, 0, 0, 0],
    [33, 0, 0, 0, 79, 0, 0, 0],
    [0, 0, 0, 0, 0, 0, 0, 0],
    [0, 0, 0, 0, 0, 0, 0, 0],
    [116, 117, 110, 110, 101, 108, 114, 112],
    [99, 46, 99, 97, 112, 110, 112, 58],
    [69, 120, 105, 115, 116, 105, 110, 103],
    [84, 117, 110, 110, 101, 108, 80, 111],
    [108, 105, 99, 121, 0, 0, 0, 0],
    [0, 0, 0, 0, 1, 0, 1, 0],
    [12, 0, 0, 0, 1, 0, 2, 0],
    [0, 0, 0, 0, 0, 0, 0, 0],
    [29, 0, 0, 0, 58, 0, 0, 0],
    [0, 0, 0, 0, 0, 0, 0, 0],
    [1, 0, 0, 0, 0, 0, 0, 0],
    [21, 0, 0, 0, 90, 0, 0, 0],
    [0, 0, 0, 0, 0, 0, 0, 0],
    [2, 0, 0, 0, 0, 0, 0, 0],
    [17, 0, 0, 0, 66, 0, 0, 0],
    [0, 0, 0, 0, 0, 0, 0, 0],
    [105, 103, 110, 111, 114, 101, 0, 0],
    [100, 105, 115, 99, 111, 110, 110, 101],
    [99, 116, 0, 0, 0, 0, 0, 0],
    [98, 97, 108, 97, 110, 99, 101, 0]]"

definition server_info_ENCODED_NODE :: encoded_node where
  "server_info_ENCODED_NODE =
   [[0, 0, 0, 0, 5, 0, 6, 0],
    [102, 56, 236, 71, 37, 142, 198, 242],
    [16, 0, 0, 0, 1, 0, 0, 0],
    [126, 188, 74, 20, 249, 116, 130, 219],
    [1, 0, 7, 0, 0, 0, 0, 0],
    [0, 0, 0, 0, 0, 0, 0, 0],
    [21, 0, 0, 0, 218, 0, 0, 0],
    [33, 0, 0, 0, 7, 0, 0, 0],
    [0, 0, 0, 0, 0, 0, 0, 0],
    [29, 0, 0, 0, 63, 0, 0, 0],
    [0, 0, 0, 0, 0, 0, 0, 0],
    [0, 0, 0, 0, 0, 0, 0, 0],
    [116, 117, 110, 110, 101, 108, 114, 112],
    [99, 46, 99, 97, 112, 110, 112, 58],
    [83, 101, 114, 118, 101, 114, 73, 110],
    [102, 111, 0, 0, 0, 0, 0, 0],
    [0, 0, 0, 0, 1, 0, 1, 0],
    [4, 0, 0, 0, 3, 0, 4, 0],
    [0, 0, 0, 0, 0, 0, 0, 0],
    [0, 0, 1, 0, 0, 0, 0, 0],
    [0, 0, 0, 0, 0, 0, 0, 0],
    [13, 0, 0, 0, 106, 0, 0, 0],
    [0, 0, 0, 0, 0, 0, 0, 0],
    [12, 0, 0, 0, 3, 0, 1, 0],
    [24, 0, 0, 0, 2, 0, 1, 0],
    [108, 111, 99, 97, 116, 105, 111, 110],
    [78, 97, 109, 101, 0, 0, 0, 0],
    [12, 0, 0, 0, 0, 0, 0, 0],
    [0, 0, 0, 0, 0, 0, 0, 0],
    [0, 0, 0, 0, 0, 0, 0, 0],
    [0, 0, 0, 0, 0, 0, 0, 0],
    [12, 0, 0, 0, 0, 0, 0, 0],
    [0, 0, 0, 0, 0, 0, 0, 0],
    [0, 0, 0, 0, 0, 0, 0, 0]]"

definition authenticate_response_ENCODED_NODE :: encoded_node where
  "authenticate_response_ENCODED_NODE =
   [[0, 0, 0, 0, 5, 0, 6, 0],
    [101, 42, 210, 122, 160, 37, 195, 130],
    [16, 0, 0, 0, 1, 0, 1, 0],
    [126, 188, 74, 20, 249, 116, 130, 219],
    [3, 0, 7, 0, 0, 0, 0, 0],
    [0, 0, 0, 0, 0, 0, 0, 0],
    [21, 0, 0, 0, 42, 1, 0, 0],
    [37, 0, 0, 0, 7, 0, 0, 0],
    [0, 0, 0, 0, 0, 0, 0, 0],
    [33, 0, 0, 0, 231, 0, 0, 0],
    [0, 0, 0, 0, 0, 0, 0, 0],
    [0, 0, 0, 0, 0, 0, 0, 0],
    [116, 117, 110, 110, 101, 108, 114, 112],
    [99, 46, 99, 97, 112, 110, 112, 58],
    [65, 117, 116, 104, 101, 110, 116, 105],
    [99, 97, 116, 101, 82, 101, 115, 112],
    [111, 110, 115, 101, 0, 0, 0, 0],
    [0, 0, 0, 0, 1, 0, 1, 0],
    [16, 0, 0, 0, 3, 0, 4, 0],
    [0, 0, 0, 0, 0, 0, 0, 0],
    [0, 0, 1, 0, 0, 0, 0, 0],
    [0, 0, 0, 0, 0, 0, 0, 0],
    [97, 0, 0, 0, 106, 0, 0, 0],
    [0, 0, 0, 0, 0, 0, 0, 0],
    [96, 0, 0, 0, 3, 0, 1, 0],
    [108, 0, 0, 0, 2, 0, 1, 0],
    [1, 0, 0, 0, 1, 0, 0, 0],
    [0, 0, 1, 0, 1, 0, 0, 0],
    [0, 0, 0, 0, 0, 0, 0, 0],
    [105, 0, 0, 0, 106, 0, 0, 0],
    [0, 0, 0, 0, 0, 0, 0, 0],
    [104, 0, 0, 0, 3, 0, 1, 0],
    [116, 0, 0, 0, 2, 0, 1, 0],
    [2, 0, 0, 0, 2, 0, 0, 0],
    [0, 0, 1, 0, 2, 0, 0, 0],
    [0, 0, 0, 0, 0, 0, 0, 0],
    [113, 0, 0, 0, 34, 0, 0, 0],
    [0, 0, 0, 0, 0, 0, 0, 0],
    [108, 0, 0, 0, 3, 0, 1, 0],
    [120, 0, 0, 0, 2, 0, 1, 0],
    [3, 0, 0, 0, 0, 0, 0, 0],
    [0, 0, 1, 0, 3, 0, 0, 0],
    [0, 0, 0, 0, 0, 0, 0, 0],
    [117, 0, 0, 0, 146, 0, 0, 0],
    [0, 0, 0, 0, 0, 0, 0, 0],
    [120, 0, 0, 0, 3, 0, 1, 0],
    [132, 0, 0, 0, 2, 0, 1, 0],
    [112, 101, 114, 109, 97, 110, 101, 110],
    [116, 69, 114, 114, 0, 0, 0, 0],
    [12, 0, 0, 0, 0, 0, 0, 0],
    [0, 0, 0, 0, 0, 0, 0, 0],
    [0, 0, 0, 0, 0, 0, 0, 0],
    [0, 0, 0, 0, 0, 0, 0, 0],
    [12, 0, 0, 0, 0, 0, 0, 0],
    [0, 0, 0, 0, 0, 0, 0, 0],
    [0, 0, 0, 0, 0, 0, 0, 0],
    [114, 101, 116, 114, 121, 97, 98, 108],
    [101, 69, 114, 114, 0, 0, 0, 0],
    [12, 0, 0, 0, 0, 0, 0, 0],
    [0, 0, 0, 0, 0, 0, 0, 0],
    [0, 0, 0, 0, 0, 0, 0, 0],
    [0, 0, 0, 0, 0, 0, 0, 0],
    [12, 0, 0, 0, 0, 0, 0, 0],
    [0, 0, 0, 0, 0, 0, 0, 0],
    [0, 0, 0, 0, 0, 0, 0, 0],
    [106, 119, 116, 0, 0, 0, 0, 0],
    [13, 0, 0, 0, 0, 0, 0, 0],
    [0, 0, 0, 0, 0, 0, 0, 0],
    [0, 0, 0, 0, 0, 0, 0, 0],
    [0, 0, 0, 0, 0, 0, 0, 0],
    [13, 0, 0, 0, 0, 0, 0, 0],
    [0, 0, 0, 0, 0, 0, 0, 0],
    [0, 0, 0, 0, 0, 0, 0, 0],
    [104, 111, 117, 114, 115, 85, 110, 116],
    [105, 108, 82, 101, 102, 114, 101, 115],
    [104, 0, 0, 0, 0, 0, 0, 0],
    [6, 0, 0, 0, 0, 0, 0, 0],
    [0, 0, 0, 0, 0, 0, 0, 0],
    [0, 0, 0, 0, 0, 0, 0, 0],
    [0, 0, 0, 0, 0, 0, 0, 0],
    [6, 0, 0, 0, 0, 0, 0, 0],
    [0, 0, 0, 0, 0, 0, 0, 0],
    [0, 0, 0, 0, 0, 0, 0, 0]]"

definition register_tunnel_params_ENCODED_NODE :: encoded_node where
  "register_tunnel_params_ENCODED_NODE =
   [[0, 0, 0, 0, 5, 0, 6, 0],
    [21, 73, 1, 220, 192, 49, 4, 183],
    [29, 0, 0, 0, 1, 0, 0, 0],
    [0, 0, 0, 0, 0, 0, 0, 0],
    [3, 0, 7, 0, 0, 0, 0, 0],
    [0, 0, 0, 0, 0, 0, 0, 0],
    [21, 0, 0, 0, 154, 1, 0, 0],
    [0, 0, 0, 0, 0, 0, 0, 0],
    [0, 0, 0, 0, 0, 0, 0, 0],
    [37, 0, 0, 0, 175, 0, 0, 0],
    [0, 0, 0, 0, 0, 0, 0, 0],
    [0, 0, 0, 0, 0, 0, 0, 0],
    [116, 117, 110, 110, 101, 108, 114, 112],
    [99, 46, 99, 97, 112, 110, 112, 58],
    [84, 117, 110, 110, 101, 108, 83, 101],
    [114, 118, 101, 114, 46, 114, 101, 103],
    [105, 115, 116, 101, 114, 84, 117, 110],
    [110, 101, 108, 36, 80, 97, 114, 97],
    [109, 115, 0, 0, 0, 0, 0, 0],
    [12, 0, 0, 0, 3, 0, 4, 0],
    [0, 0, 0, 0, 0, 0, 0, 0],
    [0, 0, 1, 0, 0, 0, 0, 0],
    [0, 0, 0, 0, 0, 0, 0, 0],
    [69, 0, 0, 0, 90, 0, 0, 0],
    [0, 0, 0, 0, 0, 0, 0, 0],
    [68, 0, 0, 0, 3, 0, 1, 0],
    [80, 0, 0, 0, 2, 0, 1, 0],
    [1, 0, 0, 0, 1, 0, 0, 0],
    [0, 0, 1, 0, 1, 0, 0, 0],
    [0, 0, 0, 0, 0, 0, 0, 0],
    [77, 0, 0, 0, 74, 0, 0, 0],
    [0, 0, 0, 0, 0, 0, 0, 0],
    [76, 0, 0, 0, 3, 0, 1, 0],
    [88, 0, 0, 0, 2, 0, 1, 0],
    [2, 0, 0, 0, 2, 0, 0, 0],
    [0, 0, 1, 0, 2, 0, 0, 0],
    [0, 0, 0, 0, 0, 0, 0, 0],
    [85, 0, 0, 0, 66, 0, 0, 0],
    [0, 0, 0, 0, 0, 0, 0, 0],
    [80, 0, 0, 0, 3, 0, 1, 0],
    [92, 0, 0, 0, 2, 0, 1, 0],
    [111, 114, 105, 103, 105, 110, 67, 101],
    [114, 116, 0, 0, 0, 0, 0, 0],
    [13, 0, 0, 0, 0, 0, 0, 0],
    [0, 0, 0, 0, 0, 0, 0, 0],
    [0, 0, 0, 0, 0, 0, 0, 0],
    [0, 0, 0, 0, 0, 0, 0, 0],
    [13, 0, 0, 0, 0, 0, 0, 0],
    [0, 0, 0, 0, 0, 0, 0, 0],
    [0, 0, 0, 0, 0, 0, 0, 0],
    [104, 111, 115, 116, 110, 97, 109, 101],
    [0, 0, 0, 0, 0, 0, 0, 0],
    [12, 0, 0, 0, 0, 0, 0, 0],
    [0, 0, 0, 0, 0, 0, 0, 0],
    [0, 0, 0, 0, 0, 0, 0, 0],
    [0, 0, 0, 0, 0, 0, 0, 0],
    [12, 0, 0, 0, 0, 0, 0, 0],
    [0, 0, 0, 0, 0, 0, 0, 0],
    [0, 0, 0, 0, 0, 0, 0, 0],
    [111, 112, 116, 105, 111, 110, 115, 0],
    [16, 0, 0, 0, 0, 0, 0, 0],
    [74, 91, 147, 146, 5, 229, 147, 199],
    [0, 0, 0, 0, 0, 0, 0, 0],
    [0, 0, 0, 0, 0, 0, 0, 0],
    [16, 0, 0, 0, 0, 0, 0, 0],
    [0, 0, 0, 0, 0, 0, 0, 0],
    [0, 0, 0, 0, 0, 0, 0, 0]]"

definition register_tunnel_results_ENCODED_NODE :: encoded_node where
  "register_tunnel_results_ENCODED_NODE =
   [[0, 0, 0, 0, 5, 0, 6, 0],
    [142, 126, 68, 79, 57, 34, 193, 242],
    [29, 0, 0, 0, 1, 0, 0, 0],
    [0, 0, 0, 0, 0, 0, 0, 0],
    [1, 0, 7, 0, 0, 0, 0, 0],
    [0, 0, 0, 0, 0, 0, 0, 0],
    [21, 0, 0, 0, 162, 1, 0, 0],
    [0, 0, 0, 0, 0, 0, 0, 0],
    [0, 0, 0, 0, 0, 0, 0, 0],
    [37, 0, 0, 0, 63, 0, 0, 0],
    [0, 0, 0, 0, 0, 0, 0, 0],
    [0, 0, 0, 0, 0, 0, 0, 0],
    [116, 117, 110, 110, 101, 108, 114, 112],
    [99, 46, 99, 97, 112, 110, 112, 58],
    [84, 117, 110, 110, 101, 108, 83, 101],
    [114, 118, 101, 114, 46, 114, 101, 103],
    [105, 115, 116, 101, 114, 84, 117, 110],
    [110, 101, 108, 36, 82, 101, 115, 117],
    [108, 116, 115, 0, 0, 0, 0, 0],
    [4, 0, 0, 0, 3, 0, 4, 0],
    [0, 0, 0, 0, 0, 0, 0, 0],
    [0, 0, 1, 0, 0, 0, 0, 0],
    [0, 0, 0, 0, 0, 0, 0, 0],
    [13, 0, 0, 0, 58, 0, 0, 0],
    [0, 0, 0, 0, 0, 0, 0, 0],
    [8, 0, 0, 0, 3, 0, 1, 0],
    [20, 0, 0, 0, 2, 0, 1, 0],
    [114, 101, 115, 117, 108, 116, 0, 0],
    [16, 0, 0, 0, 0, 0, 0, 0],
    [70, 158, 212, 26, 0, 15, 26, 244],
    [0, 0, 0, 0, 0, 0, 0, 0],
    [0, 0, 0, 0, 0, 0, 0, 0],
    [16, 0, 0, 0, 0, 0, 0, 0],
    [0, 0, 0, 0, 0, 0, 0, 0],
    [0, 0, 0, 0, 0, 0, 0, 0]]"

definition get_server_info_params_ENCODED_NODE :: encoded_node where
  "get_server_info_params_ENCODED_NODE =
   [[0, 0, 0, 0, 5, 0, 6, 0],
    [2, 229, 97, 25, 128, 214, 62, 220],
    [29, 0, 0, 0, 1, 0, 0, 0],
    [0, 0, 0, 0, 0, 0, 0, 0],
    [0, 0, 7, 0, 0, 0, 0, 0],
    [0, 0, 0, 0, 0, 0, 0, 0],
    [21, 0, 0, 0, 146, 1, 0, 0],
    [0, 0, 0, 0, 0, 0, 0, 0],
    [0, 0, 0, 0, 0, 0, 0, 0],
    [0, 0, 0, 0, 0, 0, 0, 0],
    [0, 0, 0, 0, 0, 0, 0, 0],
    [0, 0, 0, 0, 0, 0, 0, 0],
    [116, 117, 110, 110, 101, 108, 114, 112],
    [99, 46, 99, 97, 112, 110, 112, 58],
    [84, 117, 110, 110, 101, 108, 83, 101],
    [114, 118, 101, 114, 46, 103, 101, 116],
    [83, 101, 114, 118, 101, 114, 73, 110],
    [102, 111, 36, 80, 97, 114, 97, 109],
    [115, 0, 0, 0, 0, 0, 0, 0]]"

definition get_server_info_results_ENCODED_NODE :: encoded_node where
  "get_server_info_results_ENCODED_NODE =
   [[0, 0, 0, 0, 5, 0, 6, 0],
    [78, 86, 91, 106, 9, 125, 227, 227],
    [29, 0, 0, 0, 1, 0, 0, 0],
    [0, 0, 0, 0, 0, 0, 0, 0],
    [1, 0, 7, 0, 0, 0, 0, 0],
    [0, 0, 0, 0, 0, 0, 0, 0],
    [21, 0, 0, 0, 154, 1, 0, 0],
    [0, 0, 0, 0, 0, 0, 0, 0],
    [0, 0, 0, 0, 0, 0, 0, 0],
    [37, 0, 0, 0, 63, 0, 0, 0],
    [0, 0, 0, 0, 0, 0, 0, 0],
    [0, 0, 0, 0, 0, 0, 0, 0],
    [116, 117, 110, 110, 101, 108, 114, 112],
    [99, 46, 99, 97, 112, 110, 112, 58],
    [84, 117, 110, 110, 101, 108, 83, 101],
    [114, 118, 101, 114, 46, 103, 101, 116],
    [83, 101, 114, 118, 101, 114, 73, 110],
    [102, 111, 36, 82, 101, 115, 117, 108],
    [116, 115, 0, 0, 0, 0, 0, 0],
    [4, 0, 0, 0, 3, 0, 4, 0],
    [0, 0, 0, 0, 0, 0, 0, 0],
    [0, 0, 1, 0, 0, 0, 0, 0],
    [0, 0, 0, 0, 0, 0, 0, 0],
    [13, 0, 0, 0, 58, 0, 0, 0],
    [0, 0, 0, 0, 0, 0, 0, 0],
    [8, 0, 0, 0, 3, 0, 1, 0],
    [20, 0, 0, 0, 2, 0, 1, 0],
    [114, 101, 115, 117, 108, 116, 0, 0],
    [16, 0, 0, 0, 0, 0, 0, 0],
    [102, 56, 236, 71, 37, 142, 198, 242],
    [0, 0, 0, 0, 0, 0, 0, 0],
    [0, 0, 0, 0, 0, 0, 0, 0],
    [16, 0, 0, 0, 0, 0, 0, 0],
    [0, 0, 0, 0, 0, 0, 0, 0],
    [0, 0, 0, 0, 0, 0, 0, 0]]"

definition unregister_tunnel_params_ENCODED_NODE :: encoded_node where
  "unregister_tunnel_params_ENCODED_NODE =
   [[0, 0, 0, 0, 5, 0, 6, 0],
    [207, 44, 188, 186, 144, 179, 135, 155],
    [29, 0, 0, 0, 1, 0, 1, 0],
    [0, 0, 0, 0, 0, 0, 0, 0],
    [0, 0, 7, 0, 0, 0, 0, 0],
    [0, 0, 0, 0, 0, 0, 0, 0],
    [21, 0, 0, 0, 170, 1, 0, 0],
    [0, 0, 0, 0, 0, 0, 0, 0],
    [0, 0, 0, 0, 0, 0, 0, 0],
    [37, 0, 0, 0, 63, 0, 0, 0],
    [0, 0, 0, 0, 0, 0, 0, 0],
    [0, 0, 0, 0, 0, 0, 0, 0],
    [116, 117, 110, 110, 101, 108, 114, 112],
    [99, 46, 99, 97, 112, 110, 112, 58],
    [84, 117, 110, 110, 101, 108, 83, 101],
    [114, 118, 101, 114, 46, 117, 110, 114],
    [101, 103, 105, 115, 116, 101, 114, 84],
    [117, 110, 110, 101, 108, 36, 80, 97],
    [114, 97, 109, 115, 0, 0, 0, 0],
    [4, 0, 0, 0, 3, 0, 4, 0],
    [0, 0, 0, 0, 0, 0, 0, 0],
    [0, 0, 1, 0, 0, 0, 0, 0],
    [0, 0, 0, 0, 0, 0, 0, 0],
    [13, 0, 0, 0, 154, 0, 0, 0],
    [0, 0, 0, 0, 0, 0, 0, 0],
    [16, 0, 0, 0, 3, 0, 1, 0],
    [28, 0, 0, 0, 2, 0, 1, 0],
    [103, 114, 97, 99, 101, 80, 101, 114],
    [105, 111, 100, 78, 97, 110, 111, 83],
    [101, 99, 0, 0, 0, 0, 0, 0],
    [5, 0, 0, 0, 0, 0, 0, 0],
    [0, 0, 0, 0, 0, 0, 0, 0],
    [0, 0, 0, 0, 0, 0, 0, 0],
    [0, 0, 0, 0, 0, 0, 0, 0],
    [5, 0, 0, 0, 0, 0, 0, 0],
    [0, 0, 0, 0, 0, 0, 0, 0],
    [0, 0, 0, 0, 0, 0, 0, 0]]"

definition unregister_tunnel_results_ENCODED_NODE :: encoded_node where
  "unregister_tunnel_results_ENCODED_NODE =
   [[0, 0, 0, 0, 5, 0, 6, 0],
    [148, 216, 189, 78, 109, 145, 154, 162],
    [29, 0, 0, 0, 1, 0, 0, 0],
    [0, 0, 0, 0, 0, 0, 0, 0],
    [0, 0, 7, 0, 0, 0, 0, 0],
    [0, 0, 0, 0, 0, 0, 0, 0],
    [21, 0, 0, 0, 178, 1, 0, 0],
    [0, 0, 0, 0, 0, 0, 0, 0],
    [0, 0, 0, 0, 0, 0, 0, 0],
    [0, 0, 0, 0, 0, 0, 0, 0],
    [0, 0, 0, 0, 0, 0, 0, 0],
    [0, 0, 0, 0, 0, 0, 0, 0],
    [116, 117, 110, 110, 101, 108, 114, 112],
    [99, 46, 99, 97, 112, 110, 112, 58],
    [84, 117, 110, 110, 101, 108, 83, 101],
    [114, 118, 101, 114, 46, 117, 110, 114],
    [101, 103, 105, 115, 116, 101, 114, 84],
    [117, 110, 110, 101, 108, 36, 82, 101],
    [115, 117, 108, 116, 115, 0, 0, 0]]"

definition obsolete_declarative_tunnel_connect_params_ENCODED_NODE :: encoded_node where
  "obsolete_declarative_tunnel_connect_params_ENCODED_NODE =
   [[0, 0, 0, 0, 5, 0, 6, 0],
    [53, 218, 229, 79, 77, 178, 102, 167],
    [29, 0, 0, 0, 1, 0, 0, 0],
    [0, 0, 0, 0, 0, 0, 0, 0],
    [0, 0, 7, 0, 0, 0, 0, 0],
    [0, 0, 0, 0, 0, 0, 0, 0],
    [21, 0, 0, 0, 42, 2, 0, 0],
    [0, 0, 0, 0, 0, 0, 0, 0],
    [0, 0, 0, 0, 0, 0, 0, 0],
    [0, 0, 0, 0, 0, 0, 0, 0],
    [0, 0, 0, 0, 0, 0, 0, 0],
    [0, 0, 0, 0, 0, 0, 0, 0],
    [116, 117, 110, 110, 101, 108, 114, 112],
    [99, 46, 99, 97, 112, 110, 112, 58],
    [84, 117, 110, 110, 101, 108, 83, 101],
    [114, 118, 101, 114, 46, 111, 98, 115],
    [111, 108, 101, 116, 101, 68, 101, 99],
    [108, 97, 114, 97, 116, 105, 118, 101],
    [84, 117, 110, 110, 101, 108, 67, 111],
    [110, 110, 101, 99, 116, 36, 80, 97],
    [114, 97, 109, 115, 0, 0, 0, 0]]"

definition obsolete_declarative_tunnel_connect_results_ENCODED_NODE :: encoded_node where
  "obsolete_declarative_tunnel_connect_results_ENCODED_NODE =
   [[0, 0, 0, 0, 5, 0, 6, 0],
    [124, 239, 153, 72, 143, 92, 172, 254],
    [29, 0, 0, 0, 1, 0, 0, 0],
    [0, 0, 0, 0, 0, 0, 0, 0],
    [0, 0, 7, 0, 0, 0, 0, 0],
    [0, 0, 0, 0, 0, 0, 0, 0],
    [21, 0, 0, 0, 50, 2, 0, 0],
    [0, 0, 0, 0, 0, 0, 0, 0],
    [0, 0, 0, 0, 0, 0, 0, 0],
    [0, 0, 0, 0, 0, 0, 0, 0],
    [0, 0, 0, 0, 0, 0, 0, 0],
    [0, 0, 0, 0, 0, 0, 0, 0],
    [116, 117, 110, 110, 101, 108, 114, 112],
    [99, 46, 99, 97, 112, 110, 112, 58],
    [84, 117, 110, 110, 101, 108, 83, 101],
    [114, 118, 101, 114, 46, 111, 98, 115],
    [111, 108, 101, 116, 101, 68, 101, 99],
    [108, 97, 114, 97, 116, 105, 118, 101],
    [84, 117, 110, 110, 101, 108, 67, 111],
    [110, 110, 101, 99, 116, 36, 82, 101],
    [115, 117, 108, 116, 115, 0, 0, 0]]"

definition authenticate_params_ENCODED_NODE :: encoded_node where
  "authenticate_params_ENCODED_NODE =
   [[0, 0, 0, 0, 5, 0, 6, 0],
    [243, 148, 24, 171, 161, 206, 200, 133],
    [29, 0, 0, 0, 1, 0, 0, 0],
    [0, 0, 0, 0, 0, 0, 0, 0],
    [3, 0, 7, 0, 0, 0, 0, 0],
    [0, 0, 0, 0, 0, 0, 0, 0],
    [21, 0, 0, 0, 138, 1, 0, 0],
    [0, 0, 0, 0, 0, 0, 0, 0],
    [0, 0, 0, 0, 0, 0, 0, 0],
    [37, 0, 0, 0, 175, 0, 0, 0],
    [0, 0, 0, 0, 0, 0, 0, 0],
    [0, 0, 0, 0, 0, 0, 0, 0],
    [116, 117, 110, 110, 101, 108, 114, 112],
    [99, 46, 99, 97, 112, 110, 112, 58],
    [84, 117, 110, 110, 101, 108, 83, 101],
    [114, 118, 101, 114, 46, 97, 117, 116],
    [104, 101, 110, 116, 105, 99, 97, 116],
    [101, 36, 80, 97, 114, 97, 109, 115],
    [0, 0, 0, 0, 0, 0, 0, 0],
    [12, 0, 0, 0, 3, 0, 4, 0],
    [0, 0, 0, 0, 0, 0, 0, 0],
    [0, 0, 1, 0, 0, 0, 0, 0],
    [0, 0, 0, 0, 0, 0, 0, 0],
    [69, 0, 0, 0, 90, 0, 0, 0],
    [0, 0, 0, 0, 0, 0, 0, 0],
    [68, 0, 0, 0, 3, 0, 1, 0],
    [80, 0, 0, 0, 2, 0, 1, 0],
    [1, 0, 0, 0, 1, 0, 0, 0],
    [0, 0, 1, 0, 1, 0, 0, 0],
    [0, 0, 0, 0, 0, 0, 0, 0],
    [77, 0, 0, 0, 74, 0, 0, 0],
    [0, 0, 0, 0, 0, 0, 0, 0],
    [76, 0, 0, 0, 3, 0, 1, 0],
    [88, 0, 0, 0, 2, 0, 1, 0],
    [2, 0, 0, 0, 2, 0, 0, 0],
    [0, 0, 1, 0, 2, 0, 0, 0],
    [0, 0, 0, 0, 0, 0, 0, 0],
    [85, 0, 0, 0, 66, 0, 0, 0],
    [0, 0, 0, 0, 0, 0, 0, 0],
    [80, 0, 0, 0, 3, 0, 1, 0],
    [92, 0, 0, 0, 2, 0, 1, 0],
    [111, 114, 105, 103, 105, 110, 67, 101],
    [114, 116, 0, 0, 0, 0, 0, 0],
    [13, 0, 0, 0, 0, 0, 0, 0],
    [0, 0, 0, 0, 0, 0, 0, 0],
    [0, 0, 0, 0, 0, 0, 0, 0],
    [0, 0, 0, 0, 0, 0, 0, 0],
    [13, 0, 0, 0, 0, 0, 0, 0],
    [0, 0, 0, 0, 0, 0, 0, 0],
    [0, 0, 0, 0, 0, 0, 0, 0],
    [104, 111, 115, 116, 110, 97, 109, 101],
    [0, 0, 0, 0, 0, 0, 0, 0],
    [12, 0, 0, 0, 0, 0, 0, 0],
    [0, 0, 0, 0, 0, 0, 0, 0],
    [0, 0, 0, 0, 0, 0, 0, 0],
    [0, 0, 0, 0, 0, 0, 0, 0],
    [12, 0, 0, 0, 0, 0, 0, 0],
    [0, 0, 0, 0, 0, 0, 0, 0],
    [0, 0, 0, 0, 0, 0, 0, 0],
    [111, 112, 116, 105, 111, 110, 115, 0],
    [16, 0, 0, 0, 0, 0, 0, 0],
    [74, 91, 147, 146, 5, 229, 147, 199],
    [0, 0, 0, 0, 0, 0, 0, 0],
    [0, 0, 0, 0, 0, 0, 0, 0],
    [16, 0, 0, 0, 0, 0, 0, 0],
    [0, 0, 0, 0, 0, 0, 0, 0],
    [0, 0, 0, 0, 0, 0, 0, 0]]"

definition authenticate_results_ENCODED_NODE :: encoded_node where
  "authenticate_results_ENCODED_NODE =
   [[0, 0, 0, 0, 5, 0, 6, 0],
    [150, 7, 156, 227, 128, 223, 94, 252],
    [29, 0, 0, 0, 1, 0, 0, 0],
    [0, 0, 0, 0, 0, 0, 0, 0],
    [1, 0, 7, 0, 0, 0, 0, 0],
    [0, 0, 0, 0, 0, 0, 0, 0],
    [21, 0, 0, 0, 146, 1, 0, 0],
    [0, 0, 0, 0, 0, 0, 0, 0],
    [0, 0, 0, 0, 0, 0, 0, 0],
    [37, 0, 0, 0, 63, 0, 0, 0],
    [0, 0, 0, 0, 0, 0, 0, 0],
    [0, 0, 0, 0, 0, 0, 0, 0],
    [116, 117, 110, 110, 101, 108, 114, 112],
    [99, 46, 99, 97, 112, 110, 112, 58],
    [84, 117, 110, 110, 101, 108, 83, 101],
    [114, 118, 101, 114, 46, 97, 117, 116],
    [104, 101, 110, 116, 105, 99, 97, 116],
    [101, 36, 82, 101, 115, 117, 108, 116],
    [115, 0, 0, 0, 0, 0, 0, 0],
    [4, 0, 0, 0, 3, 0, 4, 0],
    [0, 0, 0, 0, 0, 0, 0, 0],
    [0, 0, 1, 0, 0, 0, 0, 0],
    [0, 0, 0, 0, 0, 0, 0, 0],
    [13, 0, 0, 0, 58, 0, 0, 0],
    [0, 0, 0, 0, 0, 0, 0, 0],
    [8, 0, 0, 0, 3, 0, 1, 0],
    [20, 0, 0, 0, 2, 0, 1, 0],
    [114, 101, 115, 117, 108, 116, 0, 0],
    [16, 0, 0, 0, 0, 0, 0, 0],
    [101, 42, 210, 122, 160, 37, 195, 130],
    [0, 0, 0, 0, 0, 0, 0, 0],
    [0, 0, 0, 0, 0, 0, 0, 0],
    [16, 0, 0, 0, 0, 0, 0, 0],
    [0, 0, 0, 0, 0, 0, 0, 0],
    [0, 0, 0, 0, 0, 0, 0, 0]]"

definition reconnect_tunnel_params_ENCODED_NODE :: encoded_node where
  "reconnect_tunnel_params_ENCODED_NODE =
   [[0, 0, 0, 0, 5, 0, 6, 0],
    [132, 73, 247, 109, 85, 163, 83, 163],
    [29, 0, 0, 0, 1, 0, 0, 0],
    [0, 0, 0, 0, 0, 0, 0, 0],
    [5, 0, 7, 0, 0, 0, 0, 0],
    [0, 0, 0, 0, 0, 0, 0, 0],
    [21, 0, 0, 0, 162, 1, 0, 0],
    [0, 0, 0, 0, 0, 0, 0, 0],
    [0, 0, 0, 0, 0, 0, 0, 0],
    [37, 0, 0, 0, 31, 1, 0, 0],
    [0, 0, 0, 0, 0, 0, 0, 0],
    [0, 0, 0, 0, 0, 0, 0, 0],
    [116, 117, 110, 110, 101, 108, 114, 112],
    [99, 46, 99, 97, 112, 110, 112, 58],
    [84, 117, 110, 110, 101, 108, 83, 101],
    [114, 118, 101, 114, 46, 114, 101, 99],
    [111, 110, 110, 101, 99, 116, 84, 117],
    [110, 110, 101, 108, 36, 80, 97, 114],
    [97, 109, 115, 0, 0, 0, 0, 0],
    [20, 0, 0, 0, 3, 0, 4, 0],
    [0, 0, 0, 0, 0, 0, 0, 0],
    [0, 0, 1, 0, 0, 0, 0, 0],
    [0, 0, 0, 0, 0, 0, 0, 0],
    [125, 0, 0, 0, 34, 0, 0, 0],
    [0, 0, 0, 0, 0, 0, 0, 0],
    [120, 0, 0, 0, 3, 0, 1, 0],
    [132, 0, 0, 0, 2, 0, 1, 0],
    [1, 0, 0, 0, 1, 0, 0, 0],
    [0, 0, 1, 0, 1, 0, 0, 0],
    [0, 0, 0, 0, 0, 0, 0, 0],
    [129, 0, 0, 0, 98, 0, 0, 0],
    [0, 0, 0, 0, 0, 0, 0, 0],
    [128, 0, 0, 0, 3, 0, 1, 0],
    [140, 0, 0, 0, 2, 0, 1, 0],
    [2, 0, 0, 0, 2, 0, 0, 0],
    [0, 0, 1, 0, 2, 0, 0, 0],
    [0, 0, 0, 0, 0, 0, 0, 0],
    [137, 0, 0, 0, 90, 0, 0, 0],
    [0, 0, 0, 0, 0, 0, 0, 0],
    [136, 0, 0, 0, 3, 0, 1, 0],
    [148, 0, 0, 0, 2, 0, 1, 0],
    [3, 0, 0, 0, 3, 0, 0, 0],
    [0, 0, 1, 0, 3, 0, 0, 0],
    [0, 0, 0, 0, 0, 0, 0, 0],
    [145, 0, 0, 0, 74, 0, 0, 0],
    [0, 0, 0, 0, 0, 0, 0, 0],
    [144, 0, 0, 0, 3, 0, 1, 0],
    [156, 0, 0, 0, 2, 0, 1, 0],
    [4, 0, 0, 0, 4, 0, 0, 0],
    [0, 0, 1, 0, 4, 0, 0, 0],
    [0, 0, 0, 0, 0, 0, 0, 0],
    [153, 0, 0, 0, 66, 0, 0, 0],
    [0, 0, 0, 0, 0, 0, 0, 0],
    [148, 0, 0, 0, 3, 0, 1, 0],
    [160, 0, 0, 0, 2, 0, 1, 0],
    [106, 119, 116, 0, 0, 0, 0, 0],
    [13, 0, 0, 0, 0, 0, 0, 0],
    [0, 0, 0, 0, 0, 0, 0, 0],
    [0, 0, 0, 0, 0, 0, 0, 0],
    [0, 0, 0, 0, 0, 0, 0, 0],
    [13, 0, 0, 0, 0, 0, 0, 0],
    [0, 0, 0, 0, 0, 0, 0, 0],
    [0, 0, 0, 0, 0, 0, 0, 0],
    [101, 118, 101, 110, 116, 68, 105, 103],
    [101, 115, 116, 0, 0, 0, 0, 0],
    [13, 0, 0, 0, 0, 0, 0, 0],
    [0, 0, 0, 0, 0, 0, 0, 0],
    [0, 0, 0, 0, 0, 0, 0, 0],
    [0, 0, 0, 0, 0, 0, 0, 0],
    [13, 0, 0, 0, 0, 0, 0, 0],
    [0, 0, 0, 0, 0, 0, 0, 0],
    [0, 0, 0, 0, 0, 0, 0, 0],
    [99, 111, 110, 110, 68, 105, 103, 101],
    [115, 116, 0, 0, 0, 0, 0, 0],
    [13, 0, 0, 0, 0, 0, 0, 0],
    [0, 0, 0, 0, 0, 0, 0, 0],
    [0, 0, 0, 0, 0, 0, 0, 0],
    [0, 0, 0, 0, 0, 0, 0, 0],
    [13, 0, 0, 0, 0, 0, 0, 0],
    [0, 0, 0, 0, 0, 0, 0, 0],
    [0, 0, 0, 0, 0, 0, 0, 0],
    [104, 111, 115, 116, 110, 97, 109, 101],
    [0, 0, 0, 0, 0, 0, 0, 0],
    [12, 0, 0, 0, 0, 0, 0, 0],
    [0, 0, 0, 0, 0, 0, 0, 0],
    [0, 0, 0, 0, 0, 0, 0, 0],
    [0, 0, 0, 0, 0, 0, 0, 0],
    [12, 0, 0, 0, 0, 0, 0, 0],
    [0, 0, 0, 0, 0, 0, 0, 0],
    [0, 0, 0, 0, 0, 0, 0, 0],
    [111, 112, 116, 105, 111, 110, 115, 0],
    [16, 0, 0, 0, 0, 0, 0, 0],
    [74, 91, 147, 146, 5, 229, 147, 199],
    [0, 0, 0, 0, 0, 0, 0, 0],
    [0, 0, 0, 0, 0, 0, 0, 0],
    [16, 0, 0, 0, 0, 0, 0, 0],
    [0, 0, 0, 0, 0, 0, 0, 0],
    [0, 0, 0, 0, 0, 0, 0, 0]]"

definition reconnect_tunnel_results_ENCODED_NODE :: encoded_node where
  "reconnect_tunnel_results_ENCODED_NODE =
   [[0, 0, 0, 0, 5, 0, 6, 0],
    [227, 45, 177, 123, 233, 141, 209, 212],
    [29, 0, 0, 0, 1, 0, 0, 0],
    [0, 0, 0, 0, 0, 0, 0, 0],
    [1, 0, 7, 0, 0, 0, 0, 0],
    [0, 0, 0, 0, 0, 0, 0, 0],
    [21, 0, 0, 0, 170, 1, 0, 0],
    [0, 0, 0, 0, 0, 0, 0, 0],
    [0, 0, 0, 0, 0, 0, 0, 0],
    [37, 0, 0, 0, 63, 0, 0, 0],
    [0, 0, 0, 0, 0, 0, 0, 0],
    [0, 0, 0, 0, 0, 0, 0, 0],
    [116, 117, 110, 110, 101, 108, 114, 112],
    [99, 46, 99, 97, 112, 110, 112, 58],
    [84, 117, 110, 110, 101, 108, 83, 101],
    [114, 118, 101, 114, 46, 114, 101, 99],
    [111, 110, 110, 101, 99, 116, 84, 117],
    [110, 110, 101, 108, 36, 82, 101, 115],
    [117, 108, 116, 115, 0, 0, 0, 0],
    [4, 0, 0, 0, 3, 0, 4, 0],
    [0, 0, 0, 0, 0, 0, 0, 0],
    [0, 0, 1, 0, 0, 0, 0, 0],
    [0, 0, 0, 0, 0, 0, 0, 0],
    [13, 0, 0, 0, 58, 0, 0, 0],
    [0, 0, 0, 0, 0, 0, 0, 0],
    [8, 0, 0, 0, 3, 0, 1, 0],
    [20, 0, 0, 0, 2, 0, 1, 0],
    [114, 101, 115, 117, 108, 116, 0, 0],
    [16, 0, 0, 0, 0, 0, 0, 0],
    [70, 158, 212, 26, 0, 15, 26, 244],
    [0, 0, 0, 0, 0, 0, 0, 0],
    [0, 0, 0, 0, 0, 0, 0, 0],
    [16, 0, 0, 0, 0, 0, 0, 0],
    [0, 0, 0, 0, 0, 0, 0, 0],
    [0, 0, 0, 0, 0, 0, 0, 0]]"

definition tag_ENCODED_NODE :: encoded_node where
  "tag_ENCODED_NODE =
   [[0, 0, 0, 0, 5, 0, 6, 0],
    [26, 176, 59, 174, 66, 100, 217, 203],
    [16, 0, 0, 0, 1, 0, 0, 0],
    [126, 188, 74, 20, 249, 116, 130, 219],
    [2, 0, 7, 0, 0, 0, 0, 0],
    [0, 0, 0, 0, 0, 0, 0, 0],
    [21, 0, 0, 0, 162, 0, 0, 0],
    [29, 0, 0, 0, 7, 0, 0, 0],
    [0, 0, 0, 0, 0, 0, 0, 0],
    [25, 0, 0, 0, 119, 0, 0, 0],
    [0, 0, 0, 0, 0, 0, 0, 0],
    [0, 0, 0, 0, 0, 0, 0, 0],
    [116, 117, 110, 110, 101, 108, 114, 112],
    [99, 46, 99, 97, 112, 110, 112, 58],
    [84, 97, 103, 0, 0, 0, 0, 0],
    [0, 0, 0, 0, 1, 0, 1, 0],
    [8, 0, 0, 0, 3, 0, 4, 0],
    [0, 0, 0, 0, 0, 0, 0, 0],
    [0, 0, 1, 0, 0, 0, 0, 0],
    [0, 0, 0, 0, 0, 0, 0, 0],
    [41, 0, 0, 0, 42, 0, 0, 0],
    [0, 0, 0, 0, 0, 0, 0, 0],
    [36, 0, 0, 0, 3, 0, 1, 0],
    [48, 0, 0, 0, 2, 0, 1, 0],
    [1, 0, 0, 0, 1, 0, 0, 0],
    [0, 0, 1, 0, 1, 0, 0, 0],
    [0, 0, 0, 0, 0, 0, 0, 0],
    [45, 0, 0, 0, 50, 0, 0, 0],
    [0, 0, 0, 0, 0, 0, 0, 0],
    [40, 0, 0, 0, 3, 0, 1, 0],
    [52, 0, 0, 0, 2, 0, 1, 0],
    [110, 97, 109, 101, 0, 0, 0, 0],
    [12, 0, 0, 0, 0, 0, 0, 0],
    [0, 0, 0, 0, 0, 0, 0, 0],
    [0, 0, 0, 0, 0, 0, 0, 0],
    [0, 0, 0, 0, 0, 0, 0, 0],
    [12, 0, 0, 0, 0, 0, 0, 0],
    [0, 0, 0, 0, 0, 0, 0, 0],
    [0, 0, 0, 0, 0, 0, 0, 0],
    [118, 97, 108, 117, 101, 0, 0, 0],
    [12, 0, 0, 0, 0, 0, 0, 0],
    [0, 0, 0, 0, 0, 0, 0, 0],
    [0, 0, 0, 0, 0, 0, 0, 0],
    [0, 0, 0, 0, 0, 0, 0, 0],
    [12, 0, 0, 0, 0, 0, 0, 0],
    [0, 0, 0, 0, 0, 0, 0, 0],
    [0, 0, 0, 0, 0, 0, 0, 0]]"

definition update_local_configuration_params_ENCODED_NODE :: encoded_node where
  "update_local_configuration_params_ENCODED_NODE =
   [[0, 0, 0, 0, 5, 0, 6, 0],
    [4, 54, 106, 135, 17, 227, 214, 197],
    [35, 0, 0, 0, 1, 0, 0, 0],
    [0, 0, 0, 0, 0, 0, 0, 0],
    [1, 0, 7, 0, 0, 0, 0, 0],
    [0, 0, 0, 0, 0, 0, 0, 0],
    [21, 0, 0, 0, 26, 2, 0, 0],
    [0, 0, 0, 0, 0, 0, 0, 0],
    [0, 0, 0, 0, 0, 0, 0, 0],
    [45, 0, 0, 0, 63, 0, 0, 0],
    [0, 0, 0, 0, 0, 0, 0, 0],
    [0, 0, 0, 0, 0, 0, 0, 0],
    [116, 117, 110, 110, 101, 108, 114, 112],
    [99, 46, 99, 97, 112, 110, 112, 58],
    [82, 101, 103, 105, 115, 116, 114, 97],
    [116, 105, 111, 110, 83, 101, 114, 118],
    [101, 114, 46, 117, 112, 100, 97, 116],
    [101, 76, 111, 99, 97, 108, 67, 111],
    [110, 102, 105, 103, 117, 114, 97, 116],
    [105, 111, 110, 36, 80, 97, 114, 97],
    [109, 115, 0, 0, 0, 0, 0, 0],
    [4, 0, 0, 0, 3, 0, 4, 0],
    [0, 0, 0, 0, 0, 0, 0, 0],
    [0, 0, 1, 0, 0, 0, 0, 0],
    [0, 0, 0, 0, 0, 0, 0, 0],
    [13, 0, 0, 0, 58, 0, 0, 0],
    [0, 0, 0, 0, 0, 0, 0, 0],
    [8, 0, 0, 0, 3, 0, 1, 0],
    [20, 0, 0, 0, 2, 0, 1, 0],
    [99, 111, 110, 102, 105, 103, 0, 0],
    [13, 0, 0, 0, 0, 0, 0, 0],
    [0, 0, 0, 0, 0, 0, 0, 0],
    [0, 0, 0, 0, 0, 0, 0, 0],
    [0, 0, 0, 0, 0, 0, 0, 0],
    [13, 0, 0, 0, 0, 0, 0, 0],
    [0, 0, 0, 0, 0, 0, 0, 0],
    [0, 0, 0, 0, 0, 0, 0, 0]]"

definition update_local_configuration_results_ENCODED_NODE :: encoded_node where
  "update_local_configuration_results_ENCODED_NODE =
   [[0, 0, 0, 0, 5, 0, 6, 0],
    [190, 215, 151, 104, 93, 174, 206, 229],
    [35, 0, 0, 0, 1, 0, 0, 0],
    [0, 0, 0, 0, 0, 0, 0, 0],
    [0, 0, 7, 0, 0, 0, 0, 0],
    [0, 0, 0, 0, 0, 0, 0, 0],
    [21, 0, 0, 0, 34, 2, 0, 0],
    [0, 0, 0, 0, 0, 0, 0, 0],
    [0, 0, 0, 0, 0, 0, 0, 0],
    [0, 0, 0, 0, 0, 0, 0, 0],
    [0, 0, 0, 0, 0, 0, 0, 0],
    [0, 0, 0, 0, 0, 0, 0, 0],
    [116, 117, 110, 110, 101, 108, 114, 112],
    [99, 46, 99, 97, 112, 110, 112, 58],
    [82, 101, 103, 105, 115, 116, 114, 97],
    [116, 105, 111, 110, 83, 101, 114, 118],
    [101, 114, 46, 117, 112, 100, 97, 116],
    [101, 76, 111, 99, 97, 108, 67, 111],
    [110, 102, 105, 103, 117, 114, 97, 116],
    [105, 111, 110, 36, 82, 101, 115, 117],
    [108, 116, 115, 0, 0, 0, 0, 0]]"

text \<open>A message of one word and a root pointer, whose text is the default.\<close>

definition register_udp_session_params_DEFAULT_TRACE_CONTEXT :: encoded_node where
  "register_udp_session_params_DEFAULT_TRACE_CONTEXT =
   [[1, 0, 0, 0, 10, 0, 0, 0],
    [0, 0, 0, 0, 0, 0, 0, 0]]"

end
