(* ===== verification/Edge_Calls_Schema.thy ===== *)
theory Edge_Calls_Schema
  imports Tunnel_Rpc_Schema Server_Nodes
begin

text \<open>
  The generated accessors for the calls the edge makes to the client (\<open>SessionManager\<close> and
  \<open>ConfigurationManager\<close>) and for \<open>updateLocalConfiguration\<close>, in \<^verbatim>\<open>src/proto_gen/tunnelrpc_capnp.rs\<close>.
\<close>

section \<open>The struct update_local_configuration_params\<close>

definition update_local_configuration_params_STRUCT_SIZE :: "nat \<times> nat" where
  "update_local_configuration_params_STRUCT_SIZE = (0, 1)"

definition update_local_configuration_params_get_config :: "('s, 'p) capnp \<Rightarrow> 's \<Rightarrow> string + bytes" where
  "update_local_configuration_params_get_config c s = ptr_data c (get_ptr c 0 s)"

definition update_local_configuration_params_has_config :: "('s, 'p) capnp \<Rightarrow> 's \<Rightarrow> bool" where
  "update_local_configuration_params_has_config c s = (\<not> ptr_null c (get_ptr c 0 s))"

definition update_local_configuration_params_set_config :: "('s, 'p) capnp \<Rightarrow> bytes \<Rightarrow> 's \<Rightarrow> 's" where
  "update_local_configuration_params_set_config c value s = set_ptr c 0 (data_ptr c value) s"

definition update_local_configuration_params_init_config :: "('s, 'p) capnp \<Rightarrow> nat \<Rightarrow> (bytes \<Rightarrow> bytes) \<Rightarrow> 's \<Rightarrow> 's" where
  "update_local_configuration_params_init_config c n fill s = set_ptr c 0 (data_ptr c (fill (replicate n (CHR 0x00)))) s"

section \<open>The struct update_local_configuration_results\<close>

definition update_local_configuration_results_STRUCT_SIZE :: "nat \<times> nat" where
  "update_local_configuration_results_STRUCT_SIZE = (0, 0)"

section \<open>The struct unregister_connection_results\<close>

definition unregister_connection_results_STRUCT_SIZE :: "nat \<times> nat" where
  "unregister_connection_results_STRUCT_SIZE = (0, 0)"

section \<open>The struct register_udp_session_response\<close>

definition register_udp_session_response_STRUCT_SIZE :: "nat \<times> nat" where
  "register_udp_session_response_STRUCT_SIZE = (0, 2)"

definition register_udp_session_response_get_err :: "('s, 'p) capnp \<Rightarrow> 's \<Rightarrow> string + bytes" where
  "register_udp_session_response_get_err c s = ptr_text c (get_ptr c 0 s)"

definition register_udp_session_response_has_err :: "('s, 'p) capnp \<Rightarrow> 's \<Rightarrow> bool" where
  "register_udp_session_response_has_err c s = (\<not> ptr_null c (get_ptr c 0 s))"

definition register_udp_session_response_get_spans :: "('s, 'p) capnp \<Rightarrow> 's \<Rightarrow> string + bytes" where
  "register_udp_session_response_get_spans c s = ptr_data c (get_ptr c 1 s)"

definition register_udp_session_response_has_spans :: "('s, 'p) capnp \<Rightarrow> 's \<Rightarrow> bool" where
  "register_udp_session_response_has_spans c s = (\<not> ptr_null c (get_ptr c 1 s))"

definition register_udp_session_response_set_err :: "('s, 'p) capnp \<Rightarrow> string \<Rightarrow> 's \<Rightarrow> 's" where
  "register_udp_session_response_set_err c value s = set_ptr c 0 (text_ptr c value) s"

definition register_udp_session_response_init_err :: "('s, 'p) capnp \<Rightarrow> nat \<Rightarrow> (bytes \<Rightarrow> bytes) \<Rightarrow> 's \<Rightarrow> 's" where
  "register_udp_session_response_init_err c n fill s = set_ptr c 0 (text_ptr c (fill (replicate n (CHR 0x00)))) s"

definition register_udp_session_response_set_spans :: "('s, 'p) capnp \<Rightarrow> bytes \<Rightarrow> 's \<Rightarrow> 's" where
  "register_udp_session_response_set_spans c value s = set_ptr c 1 (data_ptr c value) s"

definition register_udp_session_response_init_spans :: "('s, 'p) capnp \<Rightarrow> nat \<Rightarrow> (bytes \<Rightarrow> bytes) \<Rightarrow> 's \<Rightarrow> 's" where
  "register_udp_session_response_init_spans c n fill s = set_ptr c 1 (data_ptr c (fill (replicate n (CHR 0x00)))) s"

section \<open>The struct register_udp_session_params\<close>

definition register_udp_session_params_STRUCT_SIZE :: "nat \<times> nat" where
  "register_udp_session_params_STRUCT_SIZE = (2, 3)"

definition register_udp_session_params_get_session_id :: "('s, 'p) capnp \<Rightarrow> 's \<Rightarrow> string + bytes" where
  "register_udp_session_params_get_session_id c s = ptr_data c (get_ptr c 0 s)"

definition register_udp_session_params_has_session_id :: "('s, 'p) capnp \<Rightarrow> 's \<Rightarrow> bool" where
  "register_udp_session_params_has_session_id c s = (\<not> ptr_null c (get_ptr c 0 s))"

definition register_udp_session_params_get_dst_ip :: "('s, 'p) capnp \<Rightarrow> 's \<Rightarrow> string + bytes" where
  "register_udp_session_params_get_dst_ip c s = ptr_data c (get_ptr c 1 s)"

definition register_udp_session_params_has_dst_ip :: "('s, 'p) capnp \<Rightarrow> 's \<Rightarrow> bool" where
  "register_udp_session_params_has_dst_ip c s = (\<not> ptr_null c (get_ptr c 1 s))"

definition register_udp_session_params_get_dst_port :: "('s, 'p) capnp \<Rightarrow> 's \<Rightarrow> u16" where
  "register_udp_session_params_get_dst_port c s = word_of_nat (get_field c 16 0 s)"

definition register_udp_session_params_get_close_after_idle_hint :: "('s, 'p) capnp \<Rightarrow> 's \<Rightarrow> int" where
  "register_udp_session_params_get_close_after_idle_hint c s = sint (word_of_nat (get_field c 64 1 s) :: u64)"

definition register_udp_session_params_get_trace_context :: "('s, 'p) capnp \<Rightarrow> 's \<Rightarrow> string + bytes" where
  "register_udp_session_params_get_trace_context c s =
     (if ptr_null c (get_ptr c 2 s) then Inr (text_at register_udp_session_params_DEFAULT_TRACE_CONTEXT 0) else ptr_text c (get_ptr c 2 s))"

definition register_udp_session_params_has_trace_context :: "('s, 'p) capnp \<Rightarrow> 's \<Rightarrow> bool" where
  "register_udp_session_params_has_trace_context c s = (\<not> ptr_null c (get_ptr c 2 s))"

definition register_udp_session_params_set_session_id :: "('s, 'p) capnp \<Rightarrow> bytes \<Rightarrow> 's \<Rightarrow> 's" where
  "register_udp_session_params_set_session_id c value s = set_ptr c 0 (data_ptr c value) s"

definition register_udp_session_params_init_session_id :: "('s, 'p) capnp \<Rightarrow> nat \<Rightarrow> (bytes \<Rightarrow> bytes) \<Rightarrow> 's \<Rightarrow> 's" where
  "register_udp_session_params_init_session_id c n fill s = set_ptr c 0 (data_ptr c (fill (replicate n (CHR 0x00)))) s"

definition register_udp_session_params_set_dst_ip :: "('s, 'p) capnp \<Rightarrow> bytes \<Rightarrow> 's \<Rightarrow> 's" where
  "register_udp_session_params_set_dst_ip c value s = set_ptr c 1 (data_ptr c value) s"

definition register_udp_session_params_init_dst_ip :: "('s, 'p) capnp \<Rightarrow> nat \<Rightarrow> (bytes \<Rightarrow> bytes) \<Rightarrow> 's \<Rightarrow> 's" where
  "register_udp_session_params_init_dst_ip c n fill s = set_ptr c 1 (data_ptr c (fill (replicate n (CHR 0x00)))) s"

definition register_udp_session_params_set_dst_port :: "('s, 'p) capnp \<Rightarrow> u16 \<Rightarrow> 's \<Rightarrow> 's" where
  "register_udp_session_params_set_dst_port c value s = set_field c 16 0 (unat value) s"

definition register_udp_session_params_set_close_after_idle_hint :: "('s, 'p) capnp \<Rightarrow> int \<Rightarrow> 's \<Rightarrow> 's" where
  "register_udp_session_params_set_close_after_idle_hint c value s = set_field c 64 1 (unat (word_of_int value :: u64)) s"

definition register_udp_session_params_set_trace_context :: "('s, 'p) capnp \<Rightarrow> string \<Rightarrow> 's \<Rightarrow> 's" where
  "register_udp_session_params_set_trace_context c value s = set_ptr c 2 (text_ptr c value) s"

definition register_udp_session_params_init_trace_context :: "('s, 'p) capnp \<Rightarrow> nat \<Rightarrow> (bytes \<Rightarrow> bytes) \<Rightarrow> 's \<Rightarrow> 's" where
  "register_udp_session_params_init_trace_context c n fill s = set_ptr c 2 (text_ptr c (fill (replicate n (CHR 0x00)))) s"

section \<open>The struct register_udp_session_results\<close>

definition register_udp_session_results_STRUCT_SIZE :: "nat \<times> nat" where
  "register_udp_session_results_STRUCT_SIZE = (0, 1)"

definition register_udp_session_results_get_result :: "('s, 'p) capnp \<Rightarrow> 's \<Rightarrow> string + 's" where
  "register_udp_session_results_get_result c s = ptr_struct c (get_ptr c 0 s)"

definition register_udp_session_results_has_result :: "('s, 'p) capnp \<Rightarrow> 's \<Rightarrow> bool" where
  "register_udp_session_results_has_result c s = (\<not> ptr_null c (get_ptr c 0 s))"

definition register_udp_session_results_set_result :: "('s, 'p) capnp \<Rightarrow> 's \<Rightarrow> 's \<Rightarrow> 's" where
  "register_udp_session_results_set_result c value s = set_ptr c 0 (struct_ptr c value) s"

definition register_udp_session_results_init_result :: "('s, 'p) capnp \<Rightarrow> ('s \<Rightarrow> 's) \<Rightarrow> 's \<Rightarrow> 's" where
  "register_udp_session_results_init_result c fill s =
     set_ptr c 0 (struct_ptr c (fill
       (new_struct c (fst register_udp_session_response_STRUCT_SIZE) (snd register_udp_session_response_STRUCT_SIZE)))) s"

section \<open>The struct unregister_udp_session_params\<close>

definition unregister_udp_session_params_STRUCT_SIZE :: "nat \<times> nat" where
  "unregister_udp_session_params_STRUCT_SIZE = (0, 2)"

definition unregister_udp_session_params_get_session_id :: "('s, 'p) capnp \<Rightarrow> 's \<Rightarrow> string + bytes" where
  "unregister_udp_session_params_get_session_id c s = ptr_data c (get_ptr c 0 s)"

definition unregister_udp_session_params_has_session_id :: "('s, 'p) capnp \<Rightarrow> 's \<Rightarrow> bool" where
  "unregister_udp_session_params_has_session_id c s = (\<not> ptr_null c (get_ptr c 0 s))"

definition unregister_udp_session_params_get_message :: "('s, 'p) capnp \<Rightarrow> 's \<Rightarrow> string + bytes" where
  "unregister_udp_session_params_get_message c s = ptr_text c (get_ptr c 1 s)"

definition unregister_udp_session_params_has_message :: "('s, 'p) capnp \<Rightarrow> 's \<Rightarrow> bool" where
  "unregister_udp_session_params_has_message c s = (\<not> ptr_null c (get_ptr c 1 s))"

definition unregister_udp_session_params_set_session_id :: "('s, 'p) capnp \<Rightarrow> bytes \<Rightarrow> 's \<Rightarrow> 's" where
  "unregister_udp_session_params_set_session_id c value s = set_ptr c 0 (data_ptr c value) s"

definition unregister_udp_session_params_init_session_id :: "('s, 'p) capnp \<Rightarrow> nat \<Rightarrow> (bytes \<Rightarrow> bytes) \<Rightarrow> 's \<Rightarrow> 's" where
  "unregister_udp_session_params_init_session_id c n fill s = set_ptr c 0 (data_ptr c (fill (replicate n (CHR 0x00)))) s"

definition unregister_udp_session_params_set_message :: "('s, 'p) capnp \<Rightarrow> string \<Rightarrow> 's \<Rightarrow> 's" where
  "unregister_udp_session_params_set_message c value s = set_ptr c 1 (text_ptr c value) s"

definition unregister_udp_session_params_init_message :: "('s, 'p) capnp \<Rightarrow> nat \<Rightarrow> (bytes \<Rightarrow> bytes) \<Rightarrow> 's \<Rightarrow> 's" where
  "unregister_udp_session_params_init_message c n fill s = set_ptr c 1 (text_ptr c (fill (replicate n (CHR 0x00)))) s"

section \<open>The struct unregister_udp_session_results\<close>

definition unregister_udp_session_results_STRUCT_SIZE :: "nat \<times> nat" where
  "unregister_udp_session_results_STRUCT_SIZE = (0, 0)"

section \<open>The struct update_configuration_response\<close>

definition update_configuration_response_STRUCT_SIZE :: "nat \<times> nat" where
  "update_configuration_response_STRUCT_SIZE = (1, 1)"

definition update_configuration_response_get_latest_applied_version :: "('s, 'p) capnp \<Rightarrow> 's \<Rightarrow> int" where
  "update_configuration_response_get_latest_applied_version c s = sint (word_of_nat (get_field c 32 0 s) :: u32)"

definition update_configuration_response_get_err :: "('s, 'p) capnp \<Rightarrow> 's \<Rightarrow> string + bytes" where
  "update_configuration_response_get_err c s = ptr_text c (get_ptr c 0 s)"

definition update_configuration_response_has_err :: "('s, 'p) capnp \<Rightarrow> 's \<Rightarrow> bool" where
  "update_configuration_response_has_err c s = (\<not> ptr_null c (get_ptr c 0 s))"

definition update_configuration_response_set_latest_applied_version :: "('s, 'p) capnp \<Rightarrow> int \<Rightarrow> 's \<Rightarrow> 's" where
  "update_configuration_response_set_latest_applied_version c value s = set_field c 32 0 (unat (word_of_int value :: u32)) s"

definition update_configuration_response_set_err :: "('s, 'p) capnp \<Rightarrow> string \<Rightarrow> 's \<Rightarrow> 's" where
  "update_configuration_response_set_err c value s = set_ptr c 0 (text_ptr c value) s"

definition update_configuration_response_init_err :: "('s, 'p) capnp \<Rightarrow> nat \<Rightarrow> (bytes \<Rightarrow> bytes) \<Rightarrow> 's \<Rightarrow> 's" where
  "update_configuration_response_init_err c n fill s = set_ptr c 0 (text_ptr c (fill (replicate n (CHR 0x00)))) s"

section \<open>The struct update_configuration_params\<close>

definition update_configuration_params_STRUCT_SIZE :: "nat \<times> nat" where
  "update_configuration_params_STRUCT_SIZE = (1, 1)"

definition update_configuration_params_get_version :: "('s, 'p) capnp \<Rightarrow> 's \<Rightarrow> int" where
  "update_configuration_params_get_version c s = sint (word_of_nat (get_field c 32 0 s) :: u32)"

definition update_configuration_params_get_config :: "('s, 'p) capnp \<Rightarrow> 's \<Rightarrow> string + bytes" where
  "update_configuration_params_get_config c s = ptr_data c (get_ptr c 0 s)"

definition update_configuration_params_has_config :: "('s, 'p) capnp \<Rightarrow> 's \<Rightarrow> bool" where
  "update_configuration_params_has_config c s = (\<not> ptr_null c (get_ptr c 0 s))"

definition update_configuration_params_set_version :: "('s, 'p) capnp \<Rightarrow> int \<Rightarrow> 's \<Rightarrow> 's" where
  "update_configuration_params_set_version c value s = set_field c 32 0 (unat (word_of_int value :: u32)) s"

definition update_configuration_params_set_config :: "('s, 'p) capnp \<Rightarrow> bytes \<Rightarrow> 's \<Rightarrow> 's" where
  "update_configuration_params_set_config c value s = set_ptr c 0 (data_ptr c value) s"

definition update_configuration_params_init_config :: "('s, 'p) capnp \<Rightarrow> nat \<Rightarrow> (bytes \<Rightarrow> bytes) \<Rightarrow> 's \<Rightarrow> 's" where
  "update_configuration_params_init_config c n fill s = set_ptr c 0 (data_ptr c (fill (replicate n (CHR 0x00)))) s"

section \<open>The struct update_configuration_results\<close>

definition update_configuration_results_STRUCT_SIZE :: "nat \<times> nat" where
  "update_configuration_results_STRUCT_SIZE = (0, 1)"

definition update_configuration_results_get_result :: "('s, 'p) capnp \<Rightarrow> 's \<Rightarrow> string + 's" where
  "update_configuration_results_get_result c s = ptr_struct c (get_ptr c 0 s)"

definition update_configuration_results_has_result :: "('s, 'p) capnp \<Rightarrow> 's \<Rightarrow> bool" where
  "update_configuration_results_has_result c s = (\<not> ptr_null c (get_ptr c 0 s))"

definition update_configuration_results_set_result :: "('s, 'p) capnp \<Rightarrow> 's \<Rightarrow> 's \<Rightarrow> 's" where
  "update_configuration_results_set_result c value s = set_ptr c 0 (struct_ptr c value) s"

definition update_configuration_results_init_result :: "('s, 'p) capnp \<Rightarrow> ('s \<Rightarrow> 's) \<Rightarrow> 's \<Rightarrow> 's" where
  "update_configuration_results_init_result c fill s =
     set_ptr c 0 (struct_ptr c (fill
       (new_struct c (fst update_configuration_response_STRUCT_SIZE) (snd update_configuration_response_STRUCT_SIZE)))) s"

lemmas edge_calls_defs =
  update_local_configuration_params_STRUCT_SIZE_def update_local_configuration_params_get_config_def
  update_local_configuration_params_has_config_def update_local_configuration_params_set_config_def
  update_local_configuration_params_init_config_def
  update_local_configuration_results_STRUCT_SIZE_def unregister_connection_results_STRUCT_SIZE_def
  register_udp_session_response_STRUCT_SIZE_def register_udp_session_response_get_err_def
  register_udp_session_response_has_err_def register_udp_session_response_get_spans_def
  register_udp_session_response_has_spans_def register_udp_session_response_set_err_def
  register_udp_session_response_init_err_def register_udp_session_response_set_spans_def
  register_udp_session_response_init_spans_def register_udp_session_params_STRUCT_SIZE_def
  register_udp_session_params_get_session_id_def register_udp_session_params_has_session_id_def
  register_udp_session_params_get_dst_ip_def register_udp_session_params_has_dst_ip_def
  register_udp_session_params_get_dst_port_def
  register_udp_session_params_get_close_after_idle_hint_def
  register_udp_session_params_get_trace_context_def register_udp_session_params_has_trace_context_def
  register_udp_session_params_set_session_id_def register_udp_session_params_init_session_id_def
  register_udp_session_params_set_dst_ip_def register_udp_session_params_init_dst_ip_def
  register_udp_session_params_set_dst_port_def
  register_udp_session_params_set_close_after_idle_hint_def
  register_udp_session_params_set_trace_context_def
  register_udp_session_params_init_trace_context_def register_udp_session_results_STRUCT_SIZE_def
  register_udp_session_results_get_result_def register_udp_session_results_has_result_def
  register_udp_session_results_set_result_def register_udp_session_results_init_result_def
  unregister_udp_session_params_STRUCT_SIZE_def unregister_udp_session_params_get_session_id_def
  unregister_udp_session_params_has_session_id_def unregister_udp_session_params_get_message_def
  unregister_udp_session_params_has_message_def unregister_udp_session_params_set_session_id_def
  unregister_udp_session_params_init_session_id_def unregister_udp_session_params_set_message_def
  unregister_udp_session_params_init_message_def unregister_udp_session_results_STRUCT_SIZE_def
  update_configuration_response_STRUCT_SIZE_def
  update_configuration_response_get_latest_applied_version_def
  update_configuration_response_get_err_def update_configuration_response_has_err_def
  update_configuration_response_set_latest_applied_version_def
  update_configuration_response_set_err_def update_configuration_response_init_err_def
  update_configuration_params_STRUCT_SIZE_def update_configuration_params_get_version_def
  update_configuration_params_get_config_def update_configuration_params_has_config_def
  update_configuration_params_set_version_def update_configuration_params_set_config_def
  update_configuration_params_init_config_def update_configuration_results_STRUCT_SIZE_def
  update_configuration_results_get_result_def update_configuration_results_has_result_def
  update_configuration_results_set_result_def update_configuration_results_init_result_def

end
