(* ===== verification/Introspection.thy ===== *)
theory Introspection
  imports Legacy_Schema Edge_Calls_Schema
begin

text \<open>
  The introspection data of both generated modules: what \<open>introspect\<close>, \<open>get_field_types\<close> and
  \<open>RAW_SCHEMA\<close> of every struct hand to the dynamic part of the Cap'n Proto library. A type of another
  struct or enum is named by its type id.
\<close>

datatype introspect_type =
    TyBool
  | TyUInt8
  | TyUInt16
  | TyUInt64
  | TyInt32
  | TyInt64
  | TyText
  | TyData
  | TyStruct nat
  | TyEnum nat
  | TyList introspect_type

record raw_struct_schema =
  encoded_node :: encoded_node
  nonunion_members :: "nat list"
  members_by_discriminant :: "nat list"
  members_by_name :: "nat list"

record branded_schema =
  generic :: raw_struct_schema
  field_types :: "nat \<Rightarrow> introspect_type option"
  annotation_types :: "nat option \<Rightarrow> nat \<Rightarrow> introspect_type option"

record raw_enum_schema =
  enum_node :: encoded_node
  enum_annotation_types :: "nat option \<Rightarrow> nat \<Rightarrow> introspect_type option"

text \<open>A match on the index whose arms are numbered from 0; any other index panics.\<close>

definition match_index :: "introspect_type list \<Rightarrow> nat \<Rightarrow> introspect_type option" where
  "match_index arms index = (if index < length arms then Some (arms ! index) else None)"


section \<open>Type ids\<close>

definition connection_type_TYPE_ID :: nat where
  "connection_type_TYPE_ID = 0xc52e1bac26d379c8"

definition existing_tunnel_policy_TYPE_ID :: nat where
  "existing_tunnel_policy_TYPE_ID = 0x84cb9536a2cf6d3c"

definition connect_request_TYPE_ID :: nat where
  "connect_request_TYPE_ID = 0xc47116a1045e4061"

definition metadata_TYPE_ID :: nat where
  "metadata_TYPE_ID = 0xe1446b97bfd1cd37"

definition connect_response_TYPE_ID :: nat where
  "connect_response_TYPE_ID = 0xb1032ec91cef8727"

definition authentication_TYPE_ID :: nat where
  "authentication_TYPE_ID = 0xc082ef6e0d42ed1d"

definition tunnel_registration_TYPE_ID :: nat where
  "tunnel_registration_TYPE_ID = 0xf41a0f001ad49e46"

definition registration_options_TYPE_ID :: nat where
  "registration_options_TYPE_ID = 0xc793e50592935b4a"

definition server_info_TYPE_ID :: nat where
  "server_info_TYPE_ID = 0xf2c68e2547ec3866"

definition authenticate_response_TYPE_ID :: nat where
  "authenticate_response_TYPE_ID = 0x82c325a07ad22a65"

definition register_tunnel_params_TYPE_ID :: nat where
  "register_tunnel_params_TYPE_ID = 0xb70431c0dc014915"

definition register_tunnel_results_TYPE_ID :: nat where
  "register_tunnel_results_TYPE_ID = 0xf2c122394f447e8e"

definition get_server_info_params_TYPE_ID :: nat where
  "get_server_info_params_TYPE_ID = 0xdc3ed6801961e502"

definition get_server_info_results_TYPE_ID :: nat where
  "get_server_info_results_TYPE_ID = 0xe3e37d096a5b564e"

definition unregister_tunnel_params_TYPE_ID :: nat where
  "unregister_tunnel_params_TYPE_ID = 0x9b87b390babc2ccf"

definition unregister_tunnel_results_TYPE_ID :: nat where
  "unregister_tunnel_results_TYPE_ID = 0xa29a916d4ebdd894"

definition obsolete_declarative_tunnel_connect_params_TYPE_ID :: nat where
  "obsolete_declarative_tunnel_connect_params_TYPE_ID = 0xa766b24d4fe5da35"

definition obsolete_declarative_tunnel_connect_results_TYPE_ID :: nat where
  "obsolete_declarative_tunnel_connect_results_TYPE_ID = 0xfeac5c8f4899ef7c"

definition authenticate_params_TYPE_ID :: nat where
  "authenticate_params_TYPE_ID = 0x85c8cea1ab1894f3"

definition authenticate_results_TYPE_ID :: nat where
  "authenticate_results_TYPE_ID = 0xfc5edf80e39c0796"

definition reconnect_tunnel_params_TYPE_ID :: nat where
  "reconnect_tunnel_params_TYPE_ID = 0xa353a3556df74984"

definition reconnect_tunnel_results_TYPE_ID :: nat where
  "reconnect_tunnel_results_TYPE_ID = 0xd4d18de97bb12de3"

definition tag_TYPE_ID :: nat where
  "tag_TYPE_ID = 0xcbd96442ae3bb01a"

definition client_info_TYPE_ID :: nat where
  "client_info_TYPE_ID = 0x83ced0145b2f114b"

definition connection_options_TYPE_ID :: nat where
  "connection_options_TYPE_ID = 0xb4bf9861fe035d04"

definition connection_response_TYPE_ID :: nat where
  "connection_response_TYPE_ID = 0xdbaa9d03d52b62dc"

definition response_result_TYPE_ID :: nat where
  "response_result_TYPE_ID = 0x97b3c5c260257622"

definition connection_error_TYPE_ID :: nat where
  "connection_error_TYPE_ID = 0xf5f383d2785edb86"

definition connection_details_TYPE_ID :: nat where
  "connection_details_TYPE_ID = 0xb5f39f082b9ac18a"

definition tunnel_auth_TYPE_ID :: nat where
  "tunnel_auth_TYPE_ID = 0x9496331ab9cd463f"

definition register_connection_params_TYPE_ID :: nat where
  "register_connection_params_TYPE_ID = 0xe6646dec8feaa6ee"

definition register_connection_results_TYPE_ID :: nat where
  "register_connection_results_TYPE_ID = 0xea50d822450d1f17"

definition unregister_connection_params_TYPE_ID :: nat where
  "unregister_connection_params_TYPE_ID = 0xf9cb7f4431a307d0"

definition unregister_connection_results_TYPE_ID :: nat where
  "unregister_connection_results_TYPE_ID = 0xb046e578094b1ead"

definition update_local_configuration_params_TYPE_ID :: nat where
  "update_local_configuration_params_TYPE_ID = 0xc5d6e311876a3604"

definition update_local_configuration_results_TYPE_ID :: nat where
  "update_local_configuration_results_TYPE_ID = 0xe5ceae5d6897d7be"

definition register_udp_session_response_TYPE_ID :: nat where
  "register_udp_session_response_TYPE_ID = 0xab6d5210c1f26687"

definition register_udp_session_params_TYPE_ID :: nat where
  "register_udp_session_params_TYPE_ID = 0x904e297b87fbecea"

definition register_udp_session_results_TYPE_ID :: nat where
  "register_udp_session_results_TYPE_ID = 0x8635c6b4f45bf5cd"

definition unregister_udp_session_params_TYPE_ID :: nat where
  "unregister_udp_session_params_TYPE_ID = 0x96b74375ce9b0ef6"

definition unregister_udp_session_results_TYPE_ID :: nat where
  "unregister_udp_session_results_TYPE_ID = 0xf24ec4ab5891b676"

definition update_configuration_response_TYPE_ID :: nat where
  "update_configuration_response_TYPE_ID = 0xdb58ff694ba05cf9"

definition update_configuration_params_TYPE_ID :: nat where
  "update_configuration_params_TYPE_ID = 0xb177ca2526a3ca76"

definition update_configuration_results_TYPE_ID :: nat where
  "update_configuration_results_TYPE_ID = 0x958096448eb3373e"

section \<open>Field types\<close>

definition connect_request_get_field_types :: "nat \<Rightarrow> introspect_type option" where
  "connect_request_get_field_types = match_index [TyText, TyEnum connection_type_TYPE_ID, TyList (TyStruct metadata_TYPE_ID)]"

definition metadata_get_field_types :: "nat \<Rightarrow> introspect_type option" where
  "metadata_get_field_types = match_index [TyText, TyText]"

definition connect_response_get_field_types :: "nat \<Rightarrow> introspect_type option" where
  "connect_response_get_field_types = match_index [TyText, TyList (TyStruct metadata_TYPE_ID)]"

definition authentication_get_field_types :: "nat \<Rightarrow> introspect_type option" where
  "authentication_get_field_types = match_index [TyText, TyText, TyText]"

definition tunnel_registration_get_field_types :: "nat \<Rightarrow> introspect_type option" where
  "tunnel_registration_get_field_types = match_index [TyText, TyText, TyList TyText, TyBool, TyText, TyUInt16, TyData, TyData]"

definition registration_options_get_field_types :: "nat \<Rightarrow> introspect_type option" where
  "registration_options_get_field_types = match_index [TyText, TyText, TyText, TyEnum existing_tunnel_policy_TYPE_ID, TyText, TyList (TyStruct tag_TYPE_ID), TyUInt8, TyText, TyBool, TyBool, TyUInt64, TyText, TyUInt8, TyList TyText]"

definition server_info_get_field_types :: "nat \<Rightarrow> introspect_type option" where
  "server_info_get_field_types = match_index [TyText]"

definition authenticate_response_get_field_types :: "nat \<Rightarrow> introspect_type option" where
  "authenticate_response_get_field_types = match_index [TyText, TyText, TyData, TyUInt8]"

definition register_tunnel_params_get_field_types :: "nat \<Rightarrow> introspect_type option" where
  "register_tunnel_params_get_field_types = match_index [TyData, TyText, TyStruct registration_options_TYPE_ID]"

definition register_tunnel_results_get_field_types :: "nat \<Rightarrow> introspect_type option" where
  "register_tunnel_results_get_field_types = match_index [TyStruct tunnel_registration_TYPE_ID]"

definition get_server_info_params_get_field_types :: "nat \<Rightarrow> introspect_type option" where
  "get_server_info_params_get_field_types = match_index []"

definition get_server_info_results_get_field_types :: "nat \<Rightarrow> introspect_type option" where
  "get_server_info_results_get_field_types = match_index [TyStruct server_info_TYPE_ID]"

definition unregister_tunnel_params_get_field_types :: "nat \<Rightarrow> introspect_type option" where
  "unregister_tunnel_params_get_field_types = match_index [TyInt64]"

definition unregister_tunnel_results_get_field_types :: "nat \<Rightarrow> introspect_type option" where
  "unregister_tunnel_results_get_field_types = match_index []"

definition obsolete_declarative_tunnel_connect_params_get_field_types :: "nat \<Rightarrow> introspect_type option" where
  "obsolete_declarative_tunnel_connect_params_get_field_types = match_index []"

definition obsolete_declarative_tunnel_connect_results_get_field_types :: "nat \<Rightarrow> introspect_type option" where
  "obsolete_declarative_tunnel_connect_results_get_field_types = match_index []"

definition authenticate_params_get_field_types :: "nat \<Rightarrow> introspect_type option" where
  "authenticate_params_get_field_types = match_index [TyData, TyText, TyStruct registration_options_TYPE_ID]"

definition authenticate_results_get_field_types :: "nat \<Rightarrow> introspect_type option" where
  "authenticate_results_get_field_types = match_index [TyStruct authenticate_response_TYPE_ID]"

definition reconnect_tunnel_params_get_field_types :: "nat \<Rightarrow> introspect_type option" where
  "reconnect_tunnel_params_get_field_types = match_index [TyData, TyData, TyData, TyText, TyStruct registration_options_TYPE_ID]"

definition reconnect_tunnel_results_get_field_types :: "nat \<Rightarrow> introspect_type option" where
  "reconnect_tunnel_results_get_field_types = match_index [TyStruct tunnel_registration_TYPE_ID]"

definition tag_get_field_types :: "nat \<Rightarrow> introspect_type option" where
  "tag_get_field_types = match_index [TyText, TyText]"

definition client_info_get_field_types :: "nat \<Rightarrow> introspect_type option" where
  "client_info_get_field_types = match_index [TyData, TyList TyText, TyText, TyText]"

definition connection_options_get_field_types :: "nat \<Rightarrow> introspect_type option" where
  "connection_options_get_field_types = match_index [TyStruct client_info_TYPE_ID, TyData, TyBool, TyUInt8, TyUInt8]"

definition connection_response_get_field_types :: "nat \<Rightarrow> introspect_type option" where
  "connection_response_get_field_types = match_index [TyStruct response_result_TYPE_ID]"

definition response_result_get_field_types :: "nat \<Rightarrow> introspect_type option" where
  "response_result_get_field_types = match_index [TyStruct connection_error_TYPE_ID, TyStruct connection_details_TYPE_ID]"

definition connection_error_get_field_types :: "nat \<Rightarrow> introspect_type option" where
  "connection_error_get_field_types = match_index [TyText, TyInt64, TyBool]"

definition connection_details_get_field_types :: "nat \<Rightarrow> introspect_type option" where
  "connection_details_get_field_types = match_index [TyData, TyText, TyBool]"

definition tunnel_auth_get_field_types :: "nat \<Rightarrow> introspect_type option" where
  "tunnel_auth_get_field_types = match_index [TyText, TyData]"

definition register_connection_params_get_field_types :: "nat \<Rightarrow> introspect_type option" where
  "register_connection_params_get_field_types = match_index [TyStruct tunnel_auth_TYPE_ID, TyData, TyUInt8, TyStruct connection_options_TYPE_ID]"

definition register_connection_results_get_field_types :: "nat \<Rightarrow> introspect_type option" where
  "register_connection_results_get_field_types = match_index [TyStruct connection_response_TYPE_ID]"

definition unregister_connection_params_get_field_types :: "nat \<Rightarrow> introspect_type option" where
  "unregister_connection_params_get_field_types = match_index []"

definition unregister_connection_results_get_field_types :: "nat \<Rightarrow> introspect_type option" where
  "unregister_connection_results_get_field_types = match_index []"

definition update_local_configuration_params_get_field_types :: "nat \<Rightarrow> introspect_type option" where
  "update_local_configuration_params_get_field_types = match_index [TyData]"

definition update_local_configuration_results_get_field_types :: "nat \<Rightarrow> introspect_type option" where
  "update_local_configuration_results_get_field_types = match_index []"

definition register_udp_session_response_get_field_types :: "nat \<Rightarrow> introspect_type option" where
  "register_udp_session_response_get_field_types = match_index [TyText, TyData]"

definition register_udp_session_params_get_field_types :: "nat \<Rightarrow> introspect_type option" where
  "register_udp_session_params_get_field_types = match_index [TyData, TyData, TyUInt16, TyInt64, TyText]"

definition register_udp_session_results_get_field_types :: "nat \<Rightarrow> introspect_type option" where
  "register_udp_session_results_get_field_types = match_index [TyStruct register_udp_session_response_TYPE_ID]"

definition unregister_udp_session_params_get_field_types :: "nat \<Rightarrow> introspect_type option" where
  "unregister_udp_session_params_get_field_types = match_index [TyData, TyText]"

definition unregister_udp_session_results_get_field_types :: "nat \<Rightarrow> introspect_type option" where
  "unregister_udp_session_results_get_field_types = match_index []"

definition update_configuration_response_get_field_types :: "nat \<Rightarrow> introspect_type option" where
  "update_configuration_response_get_field_types = match_index [TyInt32, TyText]"

definition update_configuration_params_get_field_types :: "nat \<Rightarrow> introspect_type option" where
  "update_configuration_params_get_field_types = match_index [TyInt32, TyData]"

definition update_configuration_results_get_field_types :: "nat \<Rightarrow> introspect_type option" where
  "update_configuration_results_get_field_types = match_index [TyStruct update_configuration_response_TYPE_ID]"

section \<open>Raw schemas\<close>

definition connect_request_RAW_SCHEMA :: raw_struct_schema where
  "connect_request_RAW_SCHEMA =
     \<lparr>encoded_node = connect_request_ENCODED_NODE, nonunion_members = [0, 1, 2],
      members_by_discriminant = [], members_by_name = [0, 2, 1]\<rparr>"

definition metadata_RAW_SCHEMA :: raw_struct_schema where
  "metadata_RAW_SCHEMA =
     \<lparr>encoded_node = metadata_ENCODED_NODE, nonunion_members = [0, 1],
      members_by_discriminant = [], members_by_name = [0, 1]\<rparr>"

definition connect_response_RAW_SCHEMA :: raw_struct_schema where
  "connect_response_RAW_SCHEMA =
     \<lparr>encoded_node = connect_response_ENCODED_NODE, nonunion_members = [0, 1],
      members_by_discriminant = [], members_by_name = [0, 1]\<rparr>"

definition authentication_RAW_SCHEMA :: raw_struct_schema where
  "authentication_RAW_SCHEMA =
     \<lparr>encoded_node = authentication_ENCODED_NODE, nonunion_members = [0, 1, 2],
      members_by_discriminant = [], members_by_name = [1, 0, 2]\<rparr>"

definition tunnel_registration_RAW_SCHEMA :: raw_struct_schema where
  "tunnel_registration_RAW_SCHEMA =
     \<lparr>encoded_node = tunnel_registration_ENCODED_NODE, nonunion_members = [0, 1, 2, 3, 4, 5, 6, 7],
      members_by_discriminant = [], members_by_name = [7, 0, 6, 2, 3, 5, 4, 1]\<rparr>"

definition registration_options_RAW_SCHEMA :: raw_struct_schema where
  "registration_options_RAW_SCHEMA =
     \<lparr>encoded_node = registration_options_ENCODED_NODE, nonunion_members = [0, 1, 2, 3, 4, 5, 6, 7, 8, 9, 10, 11, 12, 13],
      members_by_discriminant = [], members_by_name = [0, 10, 6, 3, 13, 8, 12, 7, 2, 4, 9, 5, 11, 1]\<rparr>"

definition server_info_RAW_SCHEMA :: raw_struct_schema where
  "server_info_RAW_SCHEMA =
     \<lparr>encoded_node = server_info_ENCODED_NODE, nonunion_members = [0],
      members_by_discriminant = [], members_by_name = [0]\<rparr>"

definition authenticate_response_RAW_SCHEMA :: raw_struct_schema where
  "authenticate_response_RAW_SCHEMA =
     \<lparr>encoded_node = authenticate_response_ENCODED_NODE, nonunion_members = [0, 1, 2, 3],
      members_by_discriminant = [], members_by_name = [3, 2, 0, 1]\<rparr>"

definition register_tunnel_params_RAW_SCHEMA :: raw_struct_schema where
  "register_tunnel_params_RAW_SCHEMA =
     \<lparr>encoded_node = register_tunnel_params_ENCODED_NODE, nonunion_members = [0, 1, 2],
      members_by_discriminant = [], members_by_name = [1, 2, 0]\<rparr>"

definition register_tunnel_results_RAW_SCHEMA :: raw_struct_schema where
  "register_tunnel_results_RAW_SCHEMA =
     \<lparr>encoded_node = register_tunnel_results_ENCODED_NODE, nonunion_members = [0],
      members_by_discriminant = [], members_by_name = [0]\<rparr>"

definition get_server_info_params_RAW_SCHEMA :: raw_struct_schema where
  "get_server_info_params_RAW_SCHEMA =
     \<lparr>encoded_node = get_server_info_params_ENCODED_NODE, nonunion_members = [],
      members_by_discriminant = [], members_by_name = []\<rparr>"

definition get_server_info_results_RAW_SCHEMA :: raw_struct_schema where
  "get_server_info_results_RAW_SCHEMA =
     \<lparr>encoded_node = get_server_info_results_ENCODED_NODE, nonunion_members = [0],
      members_by_discriminant = [], members_by_name = [0]\<rparr>"

definition unregister_tunnel_params_RAW_SCHEMA :: raw_struct_schema where
  "unregister_tunnel_params_RAW_SCHEMA =
     \<lparr>encoded_node = unregister_tunnel_params_ENCODED_NODE, nonunion_members = [0],
      members_by_discriminant = [], members_by_name = [0]\<rparr>"

definition unregister_tunnel_results_RAW_SCHEMA :: raw_struct_schema where
  "unregister_tunnel_results_RAW_SCHEMA =
     \<lparr>encoded_node = unregister_tunnel_results_ENCODED_NODE, nonunion_members = [],
      members_by_discriminant = [], members_by_name = []\<rparr>"

definition obsolete_declarative_tunnel_connect_params_RAW_SCHEMA :: raw_struct_schema where
  "obsolete_declarative_tunnel_connect_params_RAW_SCHEMA =
     \<lparr>encoded_node = obsolete_declarative_tunnel_connect_params_ENCODED_NODE, nonunion_members = [],
      members_by_discriminant = [], members_by_name = []\<rparr>"

definition obsolete_declarative_tunnel_connect_results_RAW_SCHEMA :: raw_struct_schema where
  "obsolete_declarative_tunnel_connect_results_RAW_SCHEMA =
     \<lparr>encoded_node = obsolete_declarative_tunnel_connect_results_ENCODED_NODE, nonunion_members = [],
      members_by_discriminant = [], members_by_name = []\<rparr>"

definition authenticate_params_RAW_SCHEMA :: raw_struct_schema where
  "authenticate_params_RAW_SCHEMA =
     \<lparr>encoded_node = authenticate_params_ENCODED_NODE, nonunion_members = [0, 1, 2],
      members_by_discriminant = [], members_by_name = [1, 2, 0]\<rparr>"

definition authenticate_results_RAW_SCHEMA :: raw_struct_schema where
  "authenticate_results_RAW_SCHEMA =
     \<lparr>encoded_node = authenticate_results_ENCODED_NODE, nonunion_members = [0],
      members_by_discriminant = [], members_by_name = [0]\<rparr>"

definition reconnect_tunnel_params_RAW_SCHEMA :: raw_struct_schema where
  "reconnect_tunnel_params_RAW_SCHEMA =
     \<lparr>encoded_node = reconnect_tunnel_params_ENCODED_NODE, nonunion_members = [0, 1, 2, 3, 4],
      members_by_discriminant = [], members_by_name = [2, 1, 3, 0, 4]\<rparr>"

definition reconnect_tunnel_results_RAW_SCHEMA :: raw_struct_schema where
  "reconnect_tunnel_results_RAW_SCHEMA =
     \<lparr>encoded_node = reconnect_tunnel_results_ENCODED_NODE, nonunion_members = [0],
      members_by_discriminant = [], members_by_name = [0]\<rparr>"

definition tag_RAW_SCHEMA :: raw_struct_schema where
  "tag_RAW_SCHEMA =
     \<lparr>encoded_node = tag_ENCODED_NODE, nonunion_members = [0, 1],
      members_by_discriminant = [], members_by_name = [0, 1]\<rparr>"

definition client_info_RAW_SCHEMA :: raw_struct_schema where
  "client_info_RAW_SCHEMA =
     \<lparr>encoded_node = client_info_ENCODED_NODE, nonunion_members = [0, 1, 2, 3],
      members_by_discriminant = [], members_by_name = [3, 0, 1, 2]\<rparr>"

definition connection_options_RAW_SCHEMA :: raw_struct_schema where
  "connection_options_RAW_SCHEMA =
     \<lparr>encoded_node = connection_options_ENCODED_NODE, nonunion_members = [0, 1, 2, 3, 4],
      members_by_discriminant = [], members_by_name = [0, 3, 4, 1, 2]\<rparr>"

definition connection_response_RAW_SCHEMA :: raw_struct_schema where
  "connection_response_RAW_SCHEMA =
     \<lparr>encoded_node = connection_response_ENCODED_NODE, nonunion_members = [0],
      members_by_discriminant = [], members_by_name = [0]\<rparr>"

definition response_result_RAW_SCHEMA :: raw_struct_schema where
  "response_result_RAW_SCHEMA =
     \<lparr>encoded_node = response_result_ENCODED_NODE, nonunion_members = [],
      members_by_discriminant = [0, 1], members_by_name = [1, 0]\<rparr>"

definition connection_error_RAW_SCHEMA :: raw_struct_schema where
  "connection_error_RAW_SCHEMA =
     \<lparr>encoded_node = connection_error_ENCODED_NODE, nonunion_members = [0, 1, 2],
      members_by_discriminant = [], members_by_name = [0, 1, 2]\<rparr>"

definition connection_details_RAW_SCHEMA :: raw_struct_schema where
  "connection_details_RAW_SCHEMA =
     \<lparr>encoded_node = connection_details_ENCODED_NODE, nonunion_members = [0, 1, 2],
      members_by_discriminant = [], members_by_name = [1, 2, 0]\<rparr>"

definition tunnel_auth_RAW_SCHEMA :: raw_struct_schema where
  "tunnel_auth_RAW_SCHEMA =
     \<lparr>encoded_node = tunnel_auth_ENCODED_NODE, nonunion_members = [0, 1],
      members_by_discriminant = [], members_by_name = [0, 1]\<rparr>"

definition register_connection_params_RAW_SCHEMA :: raw_struct_schema where
  "register_connection_params_RAW_SCHEMA =
     \<lparr>encoded_node = register_connection_params_ENCODED_NODE, nonunion_members = [0, 1, 2, 3],
      members_by_discriminant = [], members_by_name = [0, 2, 3, 1]\<rparr>"

definition register_connection_results_RAW_SCHEMA :: raw_struct_schema where
  "register_connection_results_RAW_SCHEMA =
     \<lparr>encoded_node = register_connection_results_ENCODED_NODE, nonunion_members = [0],
      members_by_discriminant = [], members_by_name = [0]\<rparr>"

definition unregister_connection_params_RAW_SCHEMA :: raw_struct_schema where
  "unregister_connection_params_RAW_SCHEMA =
     \<lparr>encoded_node = unregister_connection_params_ENCODED_NODE, nonunion_members = [],
      members_by_discriminant = [], members_by_name = []\<rparr>"

definition unregister_connection_results_RAW_SCHEMA :: raw_struct_schema where
  "unregister_connection_results_RAW_SCHEMA =
     \<lparr>encoded_node = unregister_connection_results_ENCODED_NODE, nonunion_members = [],
      members_by_discriminant = [], members_by_name = []\<rparr>"

definition update_local_configuration_params_RAW_SCHEMA :: raw_struct_schema where
  "update_local_configuration_params_RAW_SCHEMA =
     \<lparr>encoded_node = update_local_configuration_params_ENCODED_NODE, nonunion_members = [0],
      members_by_discriminant = [], members_by_name = [0]\<rparr>"

definition update_local_configuration_results_RAW_SCHEMA :: raw_struct_schema where
  "update_local_configuration_results_RAW_SCHEMA =
     \<lparr>encoded_node = update_local_configuration_results_ENCODED_NODE, nonunion_members = [],
      members_by_discriminant = [], members_by_name = []\<rparr>"

definition register_udp_session_response_RAW_SCHEMA :: raw_struct_schema where
  "register_udp_session_response_RAW_SCHEMA =
     \<lparr>encoded_node = register_udp_session_response_ENCODED_NODE, nonunion_members = [0, 1],
      members_by_discriminant = [], members_by_name = [0, 1]\<rparr>"

definition register_udp_session_params_RAW_SCHEMA :: raw_struct_schema where
  "register_udp_session_params_RAW_SCHEMA =
     \<lparr>encoded_node = register_udp_session_params_ENCODED_NODE, nonunion_members = [0, 1, 2, 3, 4],
      members_by_discriminant = [], members_by_name = [3, 1, 2, 0, 4]\<rparr>"

definition register_udp_session_results_RAW_SCHEMA :: raw_struct_schema where
  "register_udp_session_results_RAW_SCHEMA =
     \<lparr>encoded_node = register_udp_session_results_ENCODED_NODE, nonunion_members = [0],
      members_by_discriminant = [], members_by_name = [0]\<rparr>"

definition unregister_udp_session_params_RAW_SCHEMA :: raw_struct_schema where
  "unregister_udp_session_params_RAW_SCHEMA =
     \<lparr>encoded_node = unregister_udp_session_params_ENCODED_NODE, nonunion_members = [0, 1],
      members_by_discriminant = [], members_by_name = [1, 0]\<rparr>"

definition unregister_udp_session_results_RAW_SCHEMA :: raw_struct_schema where
  "unregister_udp_session_results_RAW_SCHEMA =
     \<lparr>encoded_node = unregister_udp_session_results_ENCODED_NODE, nonunion_members = [],
      members_by_discriminant = [], members_by_name = []\<rparr>"

definition update_configuration_response_RAW_SCHEMA :: raw_struct_schema where
  "update_configuration_response_RAW_SCHEMA =
     \<lparr>encoded_node = update_configuration_response_ENCODED_NODE, nonunion_members = [0, 1],
      members_by_discriminant = [], members_by_name = [1, 0]\<rparr>"

definition update_configuration_params_RAW_SCHEMA :: raw_struct_schema where
  "update_configuration_params_RAW_SCHEMA =
     \<lparr>encoded_node = update_configuration_params_ENCODED_NODE, nonunion_members = [0, 1],
      members_by_discriminant = [], members_by_name = [1, 0]\<rparr>"

definition update_configuration_results_RAW_SCHEMA :: raw_struct_schema where
  "update_configuration_results_RAW_SCHEMA =
     \<lparr>encoded_node = update_configuration_results_ENCODED_NODE, nonunion_members = [0],
      members_by_discriminant = [], members_by_name = [0]\<rparr>"

section \<open>Annotation types\<close>

text \<open>No struct has an annotation: every index panics.\<close>

definition connect_request_get_annotation_types :: "nat option \<Rightarrow> nat \<Rightarrow> introspect_type option" where
  "connect_request_get_annotation_types child_index index = None"

definition metadata_get_annotation_types :: "nat option \<Rightarrow> nat \<Rightarrow> introspect_type option" where
  "metadata_get_annotation_types child_index index = None"

definition connect_response_get_annotation_types :: "nat option \<Rightarrow> nat \<Rightarrow> introspect_type option" where
  "connect_response_get_annotation_types child_index index = None"

definition authentication_get_annotation_types :: "nat option \<Rightarrow> nat \<Rightarrow> introspect_type option" where
  "authentication_get_annotation_types child_index index = None"

definition tunnel_registration_get_annotation_types :: "nat option \<Rightarrow> nat \<Rightarrow> introspect_type option" where
  "tunnel_registration_get_annotation_types child_index index = None"

definition registration_options_get_annotation_types :: "nat option \<Rightarrow> nat \<Rightarrow> introspect_type option" where
  "registration_options_get_annotation_types child_index index = None"

definition server_info_get_annotation_types :: "nat option \<Rightarrow> nat \<Rightarrow> introspect_type option" where
  "server_info_get_annotation_types child_index index = None"

definition authenticate_response_get_annotation_types :: "nat option \<Rightarrow> nat \<Rightarrow> introspect_type option" where
  "authenticate_response_get_annotation_types child_index index = None"

definition register_tunnel_params_get_annotation_types :: "nat option \<Rightarrow> nat \<Rightarrow> introspect_type option" where
  "register_tunnel_params_get_annotation_types child_index index = None"

definition register_tunnel_results_get_annotation_types :: "nat option \<Rightarrow> nat \<Rightarrow> introspect_type option" where
  "register_tunnel_results_get_annotation_types child_index index = None"

definition get_server_info_params_get_annotation_types :: "nat option \<Rightarrow> nat \<Rightarrow> introspect_type option" where
  "get_server_info_params_get_annotation_types child_index index = None"

definition get_server_info_results_get_annotation_types :: "nat option \<Rightarrow> nat \<Rightarrow> introspect_type option" where
  "get_server_info_results_get_annotation_types child_index index = None"

definition unregister_tunnel_params_get_annotation_types :: "nat option \<Rightarrow> nat \<Rightarrow> introspect_type option" where
  "unregister_tunnel_params_get_annotation_types child_index index = None"

definition unregister_tunnel_results_get_annotation_types :: "nat option \<Rightarrow> nat \<Rightarrow> introspect_type option" where
  "unregister_tunnel_results_get_annotation_types child_index index = None"

definition obsolete_declarative_tunnel_connect_params_get_annotation_types :: "nat option \<Rightarrow> nat \<Rightarrow> introspect_type option" where
  "obsolete_declarative_tunnel_connect_params_get_annotation_types child_index index = None"

definition obsolete_declarative_tunnel_connect_results_get_annotation_types :: "nat option \<Rightarrow> nat \<Rightarrow> introspect_type option" where
  "obsolete_declarative_tunnel_connect_results_get_annotation_types child_index index = None"

definition authenticate_params_get_annotation_types :: "nat option \<Rightarrow> nat \<Rightarrow> introspect_type option" where
  "authenticate_params_get_annotation_types child_index index = None"

definition authenticate_results_get_annotation_types :: "nat option \<Rightarrow> nat \<Rightarrow> introspect_type option" where
  "authenticate_results_get_annotation_types child_index index = None"

definition reconnect_tunnel_params_get_annotation_types :: "nat option \<Rightarrow> nat \<Rightarrow> introspect_type option" where
  "reconnect_tunnel_params_get_annotation_types child_index index = None"

definition reconnect_tunnel_results_get_annotation_types :: "nat option \<Rightarrow> nat \<Rightarrow> introspect_type option" where
  "reconnect_tunnel_results_get_annotation_types child_index index = None"

definition tag_get_annotation_types :: "nat option \<Rightarrow> nat \<Rightarrow> introspect_type option" where
  "tag_get_annotation_types child_index index = None"

definition client_info_get_annotation_types :: "nat option \<Rightarrow> nat \<Rightarrow> introspect_type option" where
  "client_info_get_annotation_types child_index index = None"

definition connection_options_get_annotation_types :: "nat option \<Rightarrow> nat \<Rightarrow> introspect_type option" where
  "connection_options_get_annotation_types child_index index = None"

definition connection_response_get_annotation_types :: "nat option \<Rightarrow> nat \<Rightarrow> introspect_type option" where
  "connection_response_get_annotation_types child_index index = None"

definition response_result_get_annotation_types :: "nat option \<Rightarrow> nat \<Rightarrow> introspect_type option" where
  "response_result_get_annotation_types child_index index = None"

definition connection_error_get_annotation_types :: "nat option \<Rightarrow> nat \<Rightarrow> introspect_type option" where
  "connection_error_get_annotation_types child_index index = None"

definition connection_details_get_annotation_types :: "nat option \<Rightarrow> nat \<Rightarrow> introspect_type option" where
  "connection_details_get_annotation_types child_index index = None"

definition tunnel_auth_get_annotation_types :: "nat option \<Rightarrow> nat \<Rightarrow> introspect_type option" where
  "tunnel_auth_get_annotation_types child_index index = None"

definition register_connection_params_get_annotation_types :: "nat option \<Rightarrow> nat \<Rightarrow> introspect_type option" where
  "register_connection_params_get_annotation_types child_index index = None"

definition register_connection_results_get_annotation_types :: "nat option \<Rightarrow> nat \<Rightarrow> introspect_type option" where
  "register_connection_results_get_annotation_types child_index index = None"

definition unregister_connection_params_get_annotation_types :: "nat option \<Rightarrow> nat \<Rightarrow> introspect_type option" where
  "unregister_connection_params_get_annotation_types child_index index = None"

definition unregister_connection_results_get_annotation_types :: "nat option \<Rightarrow> nat \<Rightarrow> introspect_type option" where
  "unregister_connection_results_get_annotation_types child_index index = None"

definition update_local_configuration_params_get_annotation_types :: "nat option \<Rightarrow> nat \<Rightarrow> introspect_type option" where
  "update_local_configuration_params_get_annotation_types child_index index = None"

definition update_local_configuration_results_get_annotation_types :: "nat option \<Rightarrow> nat \<Rightarrow> introspect_type option" where
  "update_local_configuration_results_get_annotation_types child_index index = None"

definition register_udp_session_response_get_annotation_types :: "nat option \<Rightarrow> nat \<Rightarrow> introspect_type option" where
  "register_udp_session_response_get_annotation_types child_index index = None"

definition register_udp_session_params_get_annotation_types :: "nat option \<Rightarrow> nat \<Rightarrow> introspect_type option" where
  "register_udp_session_params_get_annotation_types child_index index = None"

definition register_udp_session_results_get_annotation_types :: "nat option \<Rightarrow> nat \<Rightarrow> introspect_type option" where
  "register_udp_session_results_get_annotation_types child_index index = None"

definition unregister_udp_session_params_get_annotation_types :: "nat option \<Rightarrow> nat \<Rightarrow> introspect_type option" where
  "unregister_udp_session_params_get_annotation_types child_index index = None"

definition unregister_udp_session_results_get_annotation_types :: "nat option \<Rightarrow> nat \<Rightarrow> introspect_type option" where
  "unregister_udp_session_results_get_annotation_types child_index index = None"

definition update_configuration_response_get_annotation_types :: "nat option \<Rightarrow> nat \<Rightarrow> introspect_type option" where
  "update_configuration_response_get_annotation_types child_index index = None"

definition update_configuration_params_get_annotation_types :: "nat option \<Rightarrow> nat \<Rightarrow> introspect_type option" where
  "update_configuration_params_get_annotation_types child_index index = None"

definition update_configuration_results_get_annotation_types :: "nat option \<Rightarrow> nat \<Rightarrow> introspect_type option" where
  "update_configuration_results_get_annotation_types child_index index = None"

section \<open>Introspection\<close>

definition connect_request_introspect :: branded_schema where
  "connect_request_introspect = \<lparr>generic = connect_request_RAW_SCHEMA, field_types = connect_request_get_field_types,
     annotation_types = connect_request_get_annotation_types\<rparr>"

definition metadata_introspect :: branded_schema where
  "metadata_introspect = \<lparr>generic = metadata_RAW_SCHEMA, field_types = metadata_get_field_types,
     annotation_types = metadata_get_annotation_types\<rparr>"

definition connect_response_introspect :: branded_schema where
  "connect_response_introspect = \<lparr>generic = connect_response_RAW_SCHEMA, field_types = connect_response_get_field_types,
     annotation_types = connect_response_get_annotation_types\<rparr>"

definition authentication_introspect :: branded_schema where
  "authentication_introspect = \<lparr>generic = authentication_RAW_SCHEMA, field_types = authentication_get_field_types,
     annotation_types = authentication_get_annotation_types\<rparr>"

definition tunnel_registration_introspect :: branded_schema where
  "tunnel_registration_introspect = \<lparr>generic = tunnel_registration_RAW_SCHEMA, field_types = tunnel_registration_get_field_types,
     annotation_types = tunnel_registration_get_annotation_types\<rparr>"

definition registration_options_introspect :: branded_schema where
  "registration_options_introspect = \<lparr>generic = registration_options_RAW_SCHEMA, field_types = registration_options_get_field_types,
     annotation_types = registration_options_get_annotation_types\<rparr>"

definition server_info_introspect :: branded_schema where
  "server_info_introspect = \<lparr>generic = server_info_RAW_SCHEMA, field_types = server_info_get_field_types,
     annotation_types = server_info_get_annotation_types\<rparr>"

definition authenticate_response_introspect :: branded_schema where
  "authenticate_response_introspect = \<lparr>generic = authenticate_response_RAW_SCHEMA, field_types = authenticate_response_get_field_types,
     annotation_types = authenticate_response_get_annotation_types\<rparr>"

definition register_tunnel_params_introspect :: branded_schema where
  "register_tunnel_params_introspect = \<lparr>generic = register_tunnel_params_RAW_SCHEMA, field_types = register_tunnel_params_get_field_types,
     annotation_types = register_tunnel_params_get_annotation_types\<rparr>"

definition register_tunnel_results_introspect :: branded_schema where
  "register_tunnel_results_introspect = \<lparr>generic = register_tunnel_results_RAW_SCHEMA, field_types = register_tunnel_results_get_field_types,
     annotation_types = register_tunnel_results_get_annotation_types\<rparr>"

definition get_server_info_params_introspect :: branded_schema where
  "get_server_info_params_introspect = \<lparr>generic = get_server_info_params_RAW_SCHEMA, field_types = get_server_info_params_get_field_types,
     annotation_types = get_server_info_params_get_annotation_types\<rparr>"

definition get_server_info_results_introspect :: branded_schema where
  "get_server_info_results_introspect = \<lparr>generic = get_server_info_results_RAW_SCHEMA, field_types = get_server_info_results_get_field_types,
     annotation_types = get_server_info_results_get_annotation_types\<rparr>"

definition unregister_tunnel_params_introspect :: branded_schema where
  "unregister_tunnel_params_introspect = \<lparr>generic = unregister_tunnel_params_RAW_SCHEMA, field_types = unregister_tunnel_params_get_field_types,
     annotation_types = unregister_tunnel_params_get_annotation_types\<rparr>"

definition unregister_tunnel_results_introspect :: branded_schema where
  "unregister_tunnel_results_introspect = \<lparr>generic = unregister_tunnel_results_RAW_SCHEMA, field_types = unregister_tunnel_results_get_field_types,
     annotation_types = unregister_tunnel_results_get_annotation_types\<rparr>"

definition obsolete_declarative_tunnel_connect_params_introspect :: branded_schema where
  "obsolete_declarative_tunnel_connect_params_introspect = \<lparr>generic = obsolete_declarative_tunnel_connect_params_RAW_SCHEMA, field_types = obsolete_declarative_tunnel_connect_params_get_field_types,
     annotation_types = obsolete_declarative_tunnel_connect_params_get_annotation_types\<rparr>"

definition obsolete_declarative_tunnel_connect_results_introspect :: branded_schema where
  "obsolete_declarative_tunnel_connect_results_introspect = \<lparr>generic = obsolete_declarative_tunnel_connect_results_RAW_SCHEMA, field_types = obsolete_declarative_tunnel_connect_results_get_field_types,
     annotation_types = obsolete_declarative_tunnel_connect_results_get_annotation_types\<rparr>"

definition authenticate_params_introspect :: branded_schema where
  "authenticate_params_introspect = \<lparr>generic = authenticate_params_RAW_SCHEMA, field_types = authenticate_params_get_field_types,
     annotation_types = authenticate_params_get_annotation_types\<rparr>"

definition authenticate_results_introspect :: branded_schema where
  "authenticate_results_introspect = \<lparr>generic = authenticate_results_RAW_SCHEMA, field_types = authenticate_results_get_field_types,
     annotation_types = authenticate_results_get_annotation_types\<rparr>"

definition reconnect_tunnel_params_introspect :: branded_schema where
  "reconnect_tunnel_params_introspect = \<lparr>generic = reconnect_tunnel_params_RAW_SCHEMA, field_types = reconnect_tunnel_params_get_field_types,
     annotation_types = reconnect_tunnel_params_get_annotation_types\<rparr>"

definition reconnect_tunnel_results_introspect :: branded_schema where
  "reconnect_tunnel_results_introspect = \<lparr>generic = reconnect_tunnel_results_RAW_SCHEMA, field_types = reconnect_tunnel_results_get_field_types,
     annotation_types = reconnect_tunnel_results_get_annotation_types\<rparr>"

definition tag_introspect :: branded_schema where
  "tag_introspect = \<lparr>generic = tag_RAW_SCHEMA, field_types = tag_get_field_types,
     annotation_types = tag_get_annotation_types\<rparr>"

definition client_info_introspect :: branded_schema where
  "client_info_introspect = \<lparr>generic = client_info_RAW_SCHEMA, field_types = client_info_get_field_types,
     annotation_types = client_info_get_annotation_types\<rparr>"

definition connection_options_introspect :: branded_schema where
  "connection_options_introspect = \<lparr>generic = connection_options_RAW_SCHEMA, field_types = connection_options_get_field_types,
     annotation_types = connection_options_get_annotation_types\<rparr>"

definition connection_response_introspect :: branded_schema where
  "connection_response_introspect = \<lparr>generic = connection_response_RAW_SCHEMA, field_types = connection_response_get_field_types,
     annotation_types = connection_response_get_annotation_types\<rparr>"

definition response_result_introspect :: branded_schema where
  "response_result_introspect = \<lparr>generic = response_result_RAW_SCHEMA, field_types = response_result_get_field_types,
     annotation_types = response_result_get_annotation_types\<rparr>"

definition connection_error_introspect :: branded_schema where
  "connection_error_introspect = \<lparr>generic = connection_error_RAW_SCHEMA, field_types = connection_error_get_field_types,
     annotation_types = connection_error_get_annotation_types\<rparr>"

definition connection_details_introspect :: branded_schema where
  "connection_details_introspect = \<lparr>generic = connection_details_RAW_SCHEMA, field_types = connection_details_get_field_types,
     annotation_types = connection_details_get_annotation_types\<rparr>"

definition tunnel_auth_introspect :: branded_schema where
  "tunnel_auth_introspect = \<lparr>generic = tunnel_auth_RAW_SCHEMA, field_types = tunnel_auth_get_field_types,
     annotation_types = tunnel_auth_get_annotation_types\<rparr>"

definition register_connection_params_introspect :: branded_schema where
  "register_connection_params_introspect = \<lparr>generic = register_connection_params_RAW_SCHEMA, field_types = register_connection_params_get_field_types,
     annotation_types = register_connection_params_get_annotation_types\<rparr>"

definition register_connection_results_introspect :: branded_schema where
  "register_connection_results_introspect = \<lparr>generic = register_connection_results_RAW_SCHEMA, field_types = register_connection_results_get_field_types,
     annotation_types = register_connection_results_get_annotation_types\<rparr>"

definition unregister_connection_params_introspect :: branded_schema where
  "unregister_connection_params_introspect = \<lparr>generic = unregister_connection_params_RAW_SCHEMA, field_types = unregister_connection_params_get_field_types,
     annotation_types = unregister_connection_params_get_annotation_types\<rparr>"

definition unregister_connection_results_introspect :: branded_schema where
  "unregister_connection_results_introspect = \<lparr>generic = unregister_connection_results_RAW_SCHEMA, field_types = unregister_connection_results_get_field_types,
     annotation_types = unregister_connection_results_get_annotation_types\<rparr>"

definition update_local_configuration_params_introspect :: branded_schema where
  "update_local_configuration_params_introspect = \<lparr>generic = update_local_configuration_params_RAW_SCHEMA, field_types = update_local_configuration_params_get_field_types,
     annotation_types = update_local_configuration_params_get_annotation_types\<rparr>"

definition update_local_configuration_results_introspect :: branded_schema where
  "update_local_configuration_results_introspect = \<lparr>generic = update_local_configuration_results_RAW_SCHEMA, field_types = update_local_configuration_results_get_field_types,
     annotation_types = update_local_configuration_results_get_annotation_types\<rparr>"

definition register_udp_session_response_introspect :: branded_schema where
  "register_udp_session_response_introspect = \<lparr>generic = register_udp_session_response_RAW_SCHEMA, field_types = register_udp_session_response_get_field_types,
     annotation_types = register_udp_session_response_get_annotation_types\<rparr>"

definition register_udp_session_params_introspect :: branded_schema where
  "register_udp_session_params_introspect = \<lparr>generic = register_udp_session_params_RAW_SCHEMA, field_types = register_udp_session_params_get_field_types,
     annotation_types = register_udp_session_params_get_annotation_types\<rparr>"

definition register_udp_session_results_introspect :: branded_schema where
  "register_udp_session_results_introspect = \<lparr>generic = register_udp_session_results_RAW_SCHEMA, field_types = register_udp_session_results_get_field_types,
     annotation_types = register_udp_session_results_get_annotation_types\<rparr>"

definition unregister_udp_session_params_introspect :: branded_schema where
  "unregister_udp_session_params_introspect = \<lparr>generic = unregister_udp_session_params_RAW_SCHEMA, field_types = unregister_udp_session_params_get_field_types,
     annotation_types = unregister_udp_session_params_get_annotation_types\<rparr>"

definition unregister_udp_session_results_introspect :: branded_schema where
  "unregister_udp_session_results_introspect = \<lparr>generic = unregister_udp_session_results_RAW_SCHEMA, field_types = unregister_udp_session_results_get_field_types,
     annotation_types = unregister_udp_session_results_get_annotation_types\<rparr>"

definition update_configuration_response_introspect :: branded_schema where
  "update_configuration_response_introspect = \<lparr>generic = update_configuration_response_RAW_SCHEMA, field_types = update_configuration_response_get_field_types,
     annotation_types = update_configuration_response_get_annotation_types\<rparr>"

definition update_configuration_params_introspect :: branded_schema where
  "update_configuration_params_introspect = \<lparr>generic = update_configuration_params_RAW_SCHEMA, field_types = update_configuration_params_get_field_types,
     annotation_types = update_configuration_params_get_annotation_types\<rparr>"

definition update_configuration_results_introspect :: branded_schema where
  "update_configuration_results_introspect = \<lparr>generic = update_configuration_results_RAW_SCHEMA, field_types = update_configuration_results_get_field_types,
     annotation_types = update_configuration_results_get_annotation_types\<rparr>"

definition connection_type_get_annotation_types :: "nat option \<Rightarrow> nat \<Rightarrow> introspect_type option" where
  "connection_type_get_annotation_types child_index index = None"

definition connection_type_introspect :: raw_enum_schema where
  "connection_type_introspect =
     \<lparr>enum_node = connection_type_ENCODED_NODE, enum_annotation_types = connection_type_get_annotation_types\<rparr>"

definition existing_tunnel_policy_get_annotation_types :: "nat option \<Rightarrow> nat \<Rightarrow> introspect_type option" where
  "existing_tunnel_policy_get_annotation_types child_index index = None"

definition existing_tunnel_policy_introspect :: raw_enum_schema where
  "existing_tunnel_policy_introspect =
     \<lparr>enum_node = existing_tunnel_policy_ENCODED_NODE, enum_annotation_types = existing_tunnel_policy_get_annotation_types\<rparr>"

section \<open>All of them\<close>

text \<open>Every struct of both generated files: its type id, the size its builder allocates, its schema.\<close>

definition all_structs :: "(nat \<times> (nat \<times> nat) \<times> branded_schema) list" where
  "all_structs =
    [(connect_request_TYPE_ID, connect_request_STRUCT_SIZE, connect_request_introspect),
     (metadata_TYPE_ID, metadata_STRUCT_SIZE, metadata_introspect),
     (connect_response_TYPE_ID, connect_response_STRUCT_SIZE, connect_response_introspect),
     (authentication_TYPE_ID, authentication_STRUCT_SIZE, authentication_introspect),
     (tunnel_registration_TYPE_ID, tunnel_registration_STRUCT_SIZE, tunnel_registration_introspect),
     (registration_options_TYPE_ID, registration_options_STRUCT_SIZE, registration_options_introspect),
     (server_info_TYPE_ID, server_info_STRUCT_SIZE, server_info_introspect),
     (authenticate_response_TYPE_ID, authenticate_response_STRUCT_SIZE, authenticate_response_introspect),
     (register_tunnel_params_TYPE_ID, register_tunnel_params_STRUCT_SIZE, register_tunnel_params_introspect),
     (register_tunnel_results_TYPE_ID, register_tunnel_results_STRUCT_SIZE, register_tunnel_results_introspect),
     (get_server_info_params_TYPE_ID, get_server_info_params_STRUCT_SIZE, get_server_info_params_introspect),
     (get_server_info_results_TYPE_ID, get_server_info_results_STRUCT_SIZE, get_server_info_results_introspect),
     (unregister_tunnel_params_TYPE_ID, unregister_tunnel_params_STRUCT_SIZE, unregister_tunnel_params_introspect),
     (unregister_tunnel_results_TYPE_ID, unregister_tunnel_results_STRUCT_SIZE, unregister_tunnel_results_introspect),
     (obsolete_declarative_tunnel_connect_params_TYPE_ID, obsolete_declarative_tunnel_connect_params_STRUCT_SIZE, obsolete_declarative_tunnel_connect_params_introspect),
     (obsolete_declarative_tunnel_connect_results_TYPE_ID, obsolete_declarative_tunnel_connect_results_STRUCT_SIZE, obsolete_declarative_tunnel_connect_results_introspect),
     (authenticate_params_TYPE_ID, authenticate_params_STRUCT_SIZE, authenticate_params_introspect),
     (authenticate_results_TYPE_ID, authenticate_results_STRUCT_SIZE, authenticate_results_introspect),
     (reconnect_tunnel_params_TYPE_ID, reconnect_tunnel_params_STRUCT_SIZE, reconnect_tunnel_params_introspect),
     (reconnect_tunnel_results_TYPE_ID, reconnect_tunnel_results_STRUCT_SIZE, reconnect_tunnel_results_introspect),
     (tag_TYPE_ID, tag_STRUCT_SIZE, tag_introspect),
     (client_info_TYPE_ID, client_info_STRUCT_SIZE, client_info_introspect),
     (connection_options_TYPE_ID, connection_options_STRUCT_SIZE, connection_options_introspect),
     (connection_response_TYPE_ID, connection_response_STRUCT_SIZE, connection_response_introspect),
     (response_result_TYPE_ID, response_result_STRUCT_SIZE, response_result_introspect),
     (connection_error_TYPE_ID, connection_error_STRUCT_SIZE, connection_error_introspect),
     (connection_details_TYPE_ID, connection_details_STRUCT_SIZE, connection_details_introspect),
     (tunnel_auth_TYPE_ID, tunnel_auth_STRUCT_SIZE, tunnel_auth_introspect),
     (register_connection_params_TYPE_ID, register_connection_params_STRUCT_SIZE, register_connection_params_introspect),
     (register_connection_results_TYPE_ID, register_connection_results_STRUCT_SIZE, register_connection_results_introspect),
     (unregister_connection_params_TYPE_ID, unregister_connection_params_STRUCT_SIZE, unregister_connection_params_introspect),
     (unregister_connection_results_TYPE_ID, unregister_connection_results_STRUCT_SIZE, unregister_connection_results_introspect),
     (update_local_configuration_params_TYPE_ID, update_local_configuration_params_STRUCT_SIZE, update_local_configuration_params_introspect),
     (update_local_configuration_results_TYPE_ID, update_local_configuration_results_STRUCT_SIZE, update_local_configuration_results_introspect),
     (register_udp_session_response_TYPE_ID, register_udp_session_response_STRUCT_SIZE, register_udp_session_response_introspect),
     (register_udp_session_params_TYPE_ID, register_udp_session_params_STRUCT_SIZE, register_udp_session_params_introspect),
     (register_udp_session_results_TYPE_ID, register_udp_session_results_STRUCT_SIZE, register_udp_session_results_introspect),
     (unregister_udp_session_params_TYPE_ID, unregister_udp_session_params_STRUCT_SIZE, unregister_udp_session_params_introspect),
     (unregister_udp_session_results_TYPE_ID, unregister_udp_session_results_STRUCT_SIZE, unregister_udp_session_results_introspect),
     (update_configuration_response_TYPE_ID, update_configuration_response_STRUCT_SIZE, update_configuration_response_introspect),
     (update_configuration_params_TYPE_ID, update_configuration_params_STRUCT_SIZE, update_configuration_params_introspect),
     (update_configuration_results_TYPE_ID, update_configuration_results_STRUCT_SIZE, update_configuration_results_introspect)]"

lemmas type_id_defs =
  connect_request_TYPE_ID_def metadata_TYPE_ID_def connect_response_TYPE_ID_def
  authentication_TYPE_ID_def tunnel_registration_TYPE_ID_def registration_options_TYPE_ID_def
  server_info_TYPE_ID_def authenticate_response_TYPE_ID_def register_tunnel_params_TYPE_ID_def
  register_tunnel_results_TYPE_ID_def get_server_info_params_TYPE_ID_def
  get_server_info_results_TYPE_ID_def unregister_tunnel_params_TYPE_ID_def
  unregister_tunnel_results_TYPE_ID_def obsolete_declarative_tunnel_connect_params_TYPE_ID_def
  obsolete_declarative_tunnel_connect_results_TYPE_ID_def authenticate_params_TYPE_ID_def
  authenticate_results_TYPE_ID_def reconnect_tunnel_params_TYPE_ID_def
  reconnect_tunnel_results_TYPE_ID_def tag_TYPE_ID_def client_info_TYPE_ID_def
  connection_options_TYPE_ID_def connection_response_TYPE_ID_def response_result_TYPE_ID_def
  connection_error_TYPE_ID_def connection_details_TYPE_ID_def tunnel_auth_TYPE_ID_def
  register_connection_params_TYPE_ID_def register_connection_results_TYPE_ID_def
  unregister_connection_params_TYPE_ID_def unregister_connection_results_TYPE_ID_def
  update_local_configuration_params_TYPE_ID_def update_local_configuration_results_TYPE_ID_def
  register_udp_session_response_TYPE_ID_def register_udp_session_params_TYPE_ID_def
  register_udp_session_results_TYPE_ID_def unregister_udp_session_params_TYPE_ID_def
  unregister_udp_session_results_TYPE_ID_def update_configuration_response_TYPE_ID_def
  update_configuration_params_TYPE_ID_def update_configuration_results_TYPE_ID_def
  connection_type_TYPE_ID_def existing_tunnel_policy_TYPE_ID_def

lemmas introspect_defs =
  connect_request_introspect_def metadata_introspect_def connect_response_introspect_def
  authentication_introspect_def tunnel_registration_introspect_def
  registration_options_introspect_def server_info_introspect_def
  authenticate_response_introspect_def register_tunnel_params_introspect_def
  register_tunnel_results_introspect_def get_server_info_params_introspect_def
  get_server_info_results_introspect_def unregister_tunnel_params_introspect_def
  unregister_tunnel_results_introspect_def
  obsolete_declarative_tunnel_connect_params_introspect_def
  obsolete_declarative_tunnel_connect_results_introspect_def authenticate_params_introspect_def
  authenticate_results_introspect_def reconnect_tunnel_params_introspect_def
  reconnect_tunnel_results_introspect_def tag_introspect_def client_info_introspect_def
  connection_options_introspect_def connection_response_introspect_def
  response_result_introspect_def connection_error_introspect_def
  connection_details_introspect_def tunnel_auth_introspect_def
  register_connection_params_introspect_def register_connection_results_introspect_def
  unregister_connection_params_introspect_def unregister_connection_results_introspect_def
  update_local_configuration_params_introspect_def
  update_local_configuration_results_introspect_def register_udp_session_response_introspect_def
  register_udp_session_params_introspect_def register_udp_session_results_introspect_def
  unregister_udp_session_params_introspect_def unregister_udp_session_results_introspect_def
  update_configuration_response_introspect_def update_configuration_params_introspect_def
  update_configuration_results_introspect_def connection_type_introspect_def
  existing_tunnel_policy_introspect_def

lemmas raw_schema_defs =
  connect_request_RAW_SCHEMA_def metadata_RAW_SCHEMA_def connect_response_RAW_SCHEMA_def
  authentication_RAW_SCHEMA_def tunnel_registration_RAW_SCHEMA_def
  registration_options_RAW_SCHEMA_def server_info_RAW_SCHEMA_def
  authenticate_response_RAW_SCHEMA_def register_tunnel_params_RAW_SCHEMA_def
  register_tunnel_results_RAW_SCHEMA_def get_server_info_params_RAW_SCHEMA_def
  get_server_info_results_RAW_SCHEMA_def unregister_tunnel_params_RAW_SCHEMA_def
  unregister_tunnel_results_RAW_SCHEMA_def
  obsolete_declarative_tunnel_connect_params_RAW_SCHEMA_def
  obsolete_declarative_tunnel_connect_results_RAW_SCHEMA_def authenticate_params_RAW_SCHEMA_def
  authenticate_results_RAW_SCHEMA_def reconnect_tunnel_params_RAW_SCHEMA_def
  reconnect_tunnel_results_RAW_SCHEMA_def tag_RAW_SCHEMA_def client_info_RAW_SCHEMA_def
  connection_options_RAW_SCHEMA_def connection_response_RAW_SCHEMA_def
  response_result_RAW_SCHEMA_def connection_error_RAW_SCHEMA_def
  connection_details_RAW_SCHEMA_def tunnel_auth_RAW_SCHEMA_def
  register_connection_params_RAW_SCHEMA_def register_connection_results_RAW_SCHEMA_def
  unregister_connection_params_RAW_SCHEMA_def unregister_connection_results_RAW_SCHEMA_def
  update_local_configuration_params_RAW_SCHEMA_def
  update_local_configuration_results_RAW_SCHEMA_def register_udp_session_response_RAW_SCHEMA_def
  register_udp_session_params_RAW_SCHEMA_def register_udp_session_results_RAW_SCHEMA_def
  unregister_udp_session_params_RAW_SCHEMA_def unregister_udp_session_results_RAW_SCHEMA_def
  update_configuration_response_RAW_SCHEMA_def update_configuration_params_RAW_SCHEMA_def
  update_configuration_results_RAW_SCHEMA_def

lemmas annotation_type_defs =
  connect_request_get_annotation_types_def
  metadata_get_annotation_types_def
  connect_response_get_annotation_types_def
  authentication_get_annotation_types_def
  tunnel_registration_get_annotation_types_def
  registration_options_get_annotation_types_def
  server_info_get_annotation_types_def
  authenticate_response_get_annotation_types_def
  register_tunnel_params_get_annotation_types_def
  register_tunnel_results_get_annotation_types_def
  get_server_info_params_get_annotation_types_def
  get_server_info_results_get_annotation_types_def
  unregister_tunnel_params_get_annotation_types_def
  unregister_tunnel_results_get_annotation_types_def
  obsolete_declarative_tunnel_connect_params_get_annotation_types_def
  obsolete_declarative_tunnel_connect_results_get_annotation_types_def
  authenticate_params_get_annotation_types_def
  authenticate_results_get_annotation_types_def
  reconnect_tunnel_params_get_annotation_types_def
  reconnect_tunnel_results_get_annotation_types_def
  tag_get_annotation_types_def
  client_info_get_annotation_types_def
  connection_options_get_annotation_types_def
  connection_response_get_annotation_types_def
  response_result_get_annotation_types_def
  connection_error_get_annotation_types_def
  connection_details_get_annotation_types_def
  tunnel_auth_get_annotation_types_def
  register_connection_params_get_annotation_types_def
  register_connection_results_get_annotation_types_def
  unregister_connection_params_get_annotation_types_def
  unregister_connection_results_get_annotation_types_def
  update_local_configuration_params_get_annotation_types_def
  update_local_configuration_results_get_annotation_types_def
  register_udp_session_response_get_annotation_types_def
  register_udp_session_params_get_annotation_types_def
  register_udp_session_results_get_annotation_types_def
  unregister_udp_session_params_get_annotation_types_def
  unregister_udp_session_results_get_annotation_types_def
  update_configuration_response_get_annotation_types_def
  update_configuration_params_get_annotation_types_def
  update_configuration_results_get_annotation_types_def

lemmas field_type_defs =
  connect_request_get_field_types_def metadata_get_field_types_def
  connect_response_get_field_types_def authentication_get_field_types_def
  tunnel_registration_get_field_types_def registration_options_get_field_types_def
  server_info_get_field_types_def authenticate_response_get_field_types_def
  register_tunnel_params_get_field_types_def register_tunnel_results_get_field_types_def
  get_server_info_params_get_field_types_def get_server_info_results_get_field_types_def
  unregister_tunnel_params_get_field_types_def unregister_tunnel_results_get_field_types_def
  obsolete_declarative_tunnel_connect_params_get_field_types_def
  obsolete_declarative_tunnel_connect_results_get_field_types_def
  authenticate_params_get_field_types_def authenticate_results_get_field_types_def
  reconnect_tunnel_params_get_field_types_def reconnect_tunnel_results_get_field_types_def
  tag_get_field_types_def client_info_get_field_types_def connection_options_get_field_types_def
  connection_response_get_field_types_def response_result_get_field_types_def
  connection_error_get_field_types_def connection_details_get_field_types_def
  tunnel_auth_get_field_types_def register_connection_params_get_field_types_def
  register_connection_results_get_field_types_def
  unregister_connection_params_get_field_types_def
  unregister_connection_results_get_field_types_def
  update_local_configuration_params_get_field_types_def
  update_local_configuration_results_get_field_types_def
  register_udp_session_response_get_field_types_def
  register_udp_session_params_get_field_types_def
  register_udp_session_results_get_field_types_def
  unregister_udp_session_params_get_field_types_def
  unregister_udp_session_results_get_field_types_def
  update_configuration_response_get_field_types_def
  update_configuration_params_get_field_types_def
  update_configuration_results_get_field_types_def

lemmas node_defs =
  connect_request_ENCODED_NODE_def metadata_ENCODED_NODE_def connect_response_ENCODED_NODE_def
  authentication_ENCODED_NODE_def tunnel_registration_ENCODED_NODE_def
  registration_options_ENCODED_NODE_def server_info_ENCODED_NODE_def
  authenticate_response_ENCODED_NODE_def register_tunnel_params_ENCODED_NODE_def
  register_tunnel_results_ENCODED_NODE_def get_server_info_params_ENCODED_NODE_def
  get_server_info_results_ENCODED_NODE_def unregister_tunnel_params_ENCODED_NODE_def
  unregister_tunnel_results_ENCODED_NODE_def
  obsolete_declarative_tunnel_connect_params_ENCODED_NODE_def
  obsolete_declarative_tunnel_connect_results_ENCODED_NODE_def
  authenticate_params_ENCODED_NODE_def authenticate_results_ENCODED_NODE_def
  reconnect_tunnel_params_ENCODED_NODE_def reconnect_tunnel_results_ENCODED_NODE_def
  tag_ENCODED_NODE_def client_info_ENCODED_NODE_def connection_options_ENCODED_NODE_def
  connection_response_ENCODED_NODE_def response_result_ENCODED_NODE_def
  connection_error_ENCODED_NODE_def connection_details_ENCODED_NODE_def
  tunnel_auth_ENCODED_NODE_def register_connection_params_ENCODED_NODE_def
  register_connection_results_ENCODED_NODE_def unregister_connection_params_ENCODED_NODE_def
  unregister_connection_results_ENCODED_NODE_def
  update_local_configuration_params_ENCODED_NODE_def
  update_local_configuration_results_ENCODED_NODE_def
  register_udp_session_response_ENCODED_NODE_def register_udp_session_params_ENCODED_NODE_def
  register_udp_session_results_ENCODED_NODE_def unregister_udp_session_params_ENCODED_NODE_def
  unregister_udp_session_results_ENCODED_NODE_def update_configuration_response_ENCODED_NODE_def
  update_configuration_params_ENCODED_NODE_def update_configuration_results_ENCODED_NODE_def
  connection_type_ENCODED_NODE_def existing_tunnel_policy_ENCODED_NODE_def

lemmas size_defs =
  connect_request_STRUCT_SIZE_def metadata_STRUCT_SIZE_def connect_response_STRUCT_SIZE_def
  authentication_STRUCT_SIZE_def tunnel_registration_STRUCT_SIZE_def
  registration_options_STRUCT_SIZE_def server_info_STRUCT_SIZE_def
  authenticate_response_STRUCT_SIZE_def register_tunnel_params_STRUCT_SIZE_def
  register_tunnel_results_STRUCT_SIZE_def get_server_info_params_STRUCT_SIZE_def
  get_server_info_results_STRUCT_SIZE_def unregister_tunnel_params_STRUCT_SIZE_def
  unregister_tunnel_results_STRUCT_SIZE_def
  obsolete_declarative_tunnel_connect_params_STRUCT_SIZE_def
  obsolete_declarative_tunnel_connect_results_STRUCT_SIZE_def authenticate_params_STRUCT_SIZE_def
  authenticate_results_STRUCT_SIZE_def reconnect_tunnel_params_STRUCT_SIZE_def
  reconnect_tunnel_results_STRUCT_SIZE_def tag_STRUCT_SIZE_def client_info_STRUCT_SIZE_def
  connection_options_STRUCT_SIZE_def connection_response_STRUCT_SIZE_def
  response_result_STRUCT_SIZE_def connection_error_STRUCT_SIZE_def
  connection_details_STRUCT_SIZE_def tunnel_auth_STRUCT_SIZE_def
  register_connection_params_STRUCT_SIZE_def register_connection_results_STRUCT_SIZE_def
  unregister_connection_params_STRUCT_SIZE_def unregister_connection_results_STRUCT_SIZE_def
  update_local_configuration_params_STRUCT_SIZE_def
  update_local_configuration_results_STRUCT_SIZE_def
  register_udp_session_response_STRUCT_SIZE_def register_udp_session_params_STRUCT_SIZE_def
  register_udp_session_results_STRUCT_SIZE_def unregister_udp_session_params_STRUCT_SIZE_def
  unregister_udp_session_results_STRUCT_SIZE_def update_configuration_response_STRUCT_SIZE_def
  update_configuration_params_STRUCT_SIZE_def update_configuration_results_STRUCT_SIZE_def

end
