(* ===== verification/Schema_Reader.thy ===== *)
theory Schema_Reader
  imports Introspection "HOL-Library.List_Lexorder"
begin

text \<open>
  What the dynamic side of the Cap'n Proto library makes of the introspection data, after the published
  layout of \<open>schema.capnp\<close>: the fields an encoded node declares, with their names, types, slots, union
  tags and default texts; reading and writing a field of a message by its declaration; and the checks
  that make this sound. The generated accessors are compared with it in \<open>Schema_Accessors\<close>.
\<close>

section \<open>Declarations\<close>

record field_decl =
  fd_name :: string
  fd_tag :: "nat option"
  fd_offset :: "nat option"
  fd_type :: "introspect_type option"
  fd_default :: "string option"

text \<open>The kinds that have no parameter; then all types, lists nested at most \<open>d\<close> deep.\<close>

definition plain_type :: "nat \<Rightarrow> introspect_type option" where
  "plain_type = map_of
     [(1, TyBool), (4, TyInt32), (5, TyInt64), (6, TyUInt8), (7, TyUInt16), (9, TyUInt64),
      (12, TyText), (13, TyData)]"

primrec node_type :: "nat \<Rightarrow> encoded_node \<Rightarrow> nat \<Rightarrow> introspect_type option" where
  "node_type 0 node t = None"
| "node_type (Suc d) node t =
     (if u16_at node t 0 = 14 then map_option TyList (node_type d node (ptr_target node (t + 3)))
      else if u16_at node t 0 = 15 then Some (TyEnum (le (node ! (t + 1))))
      else if u16_at node t 0 = 16 then Some (TyStruct (le (node ! (t + 1))))
      else plain_type (u16_at node t 0))"

definition words_from :: "encoded_node \<Rightarrow> nat \<Rightarrow> nat \<Rightarrow> nat list" where
  "words_from node w k = concat (map (\<lambda>i. node ! (w + i)) [0..<k])"

text \<open>A text has a terminating zero that is counted.\<close>

definition string_at :: "encoded_node \<Rightarrow> nat \<Rightarrow> string" where
  "string_at node w =
     map char_of (take (u32_at node w 1 div 8 - 1)
       (words_from node (ptr_target node w) (u32_at node w 1 div 64 + 1)))"

definition default_text :: "encoded_node \<Rightarrow> nat \<Rightarrow> string option" where
  "default_text node v = (if u32_at node (v + 2) 1 = 0 then None else Some (string_at node (v + 2)))"

definition slot_decl :: "encoded_node \<Rightarrow> nat \<Rightarrow> field_decl \<Rightarrow> field_decl" where
  "slot_decl node base d =
     d\<lparr>fd_offset := Some (u32_at node base 1), fd_type := node_type 2 node (ptr_target node (base + 5)),
       fd_default := (if u16_at node (ptr_target node (base + 5)) 0 = 12
                      then default_text node (ptr_target node (base + 6)) else None)\<rparr>"

definition group_decl :: "encoded_node \<Rightarrow> nat \<Rightarrow> field_decl \<Rightarrow> field_decl" where
  "group_decl node base d = d\<lparr>fd_type := Some (TyStruct (le (node ! (base + 2))))\<rparr>"

definition field_decl_at :: "encoded_node \<Rightarrow> nat \<Rightarrow> field_decl" where
  "field_decl_at node base =
     (if u16_at node (base + 1) 0 = 0 then slot_decl else group_decl) node base
       \<lparr>fd_name = string_at node (base + 3),
        fd_tag = (if u16_at node base 1 = 0 then None else Some (65535 - u16_at node base 1)),
        fd_offset = None, fd_type = None, fd_default = None\<rparr>"

definition field_decls :: "encoded_node \<Rightarrow> field_decl list" where
  "field_decls node =
     (if u32_at node 9 1 = 0 then []
      else map (\<lambda>i. field_decl_at node (ptr_target node 9 + 1 + 7 * i))
             [0..<u32_at node (ptr_target node 9) 0 div 4])"

definition node_tag_count :: "encoded_node \<Rightarrow> nat" where
  "node_tag_count node = u16_at node 4 3"

section \<open>Evaluating the reader on a table\<close>

text \<open>
  A node is looked up through \<open>word_of_table\<close>, whose congruence rule keeps the simplifier out of the table.
\<close>

definition word_of_table :: "'a list \<Rightarrow> nat \<Rightarrow> 'a" where
  "word_of_table ws n = ws ! n"

lemma word_of_table_simps:
  "word_of_table (w # ws) 0 = w" "word_of_table (w # ws) (Suc n) = word_of_table ws n"
  "word_of_table (w # ws) (numeral k) = word_of_table ws (pred_numeral k)"
  by (simp_all add: word_of_table_def)

lemma table_lookup: "node = ws \<Longrightarrow> node ! n = word_of_table ws n"
  by (simp add: word_of_table_def)

lemma word_of_table_cong: "n = m \<Longrightarrow> word_of_table ws n = word_of_table ws m"
  by simp

lemma map_index_cong: "xs = ys \<Longrightarrow> map f xs = map f ys"
  by simp

lemma upt_0_numeral: "[0..<numeral k] = [0..<pred_numeral k] @ [pred_numeral k]"
  by (simp add: numeral_eq_Suc)

lemmas reader_simps =
  field_decls_def field_decl_at_def slot_decl_def group_decl_def default_text_def string_at_def
  words_from_def plain_type_def u16_at_def u32_at_def ptr_target_def le_def numeral_2_eq_2
  upt_0_numeral word_of_table_simps

lemmas reader_congs = word_of_table_cong map_index_cong

section \<open>Fields of a message by declaration\<close>

datatype 's dyn_value =
    DynBool bool
  | DynUInt8 u8
  | DynUInt16 u16
  | DynUInt64 u64
  | DynInt32 int
  | DynInt64 int
  | DynEnum nat
  | DynText "string + bytes"
  | DynData "string + bytes"
  | DynTexts "string + bytes list"
  | DynStruct "string + 's"
  | DynStructs "string + 's list"

text \<open>A text that is not there is its default.\<close>

definition text_or :: "('s, 'p) capnp \<Rightarrow> string option \<Rightarrow> 'p \<Rightarrow> string + bytes" where
  "text_or c dflt p =
     (case dflt of None \<Rightarrow> ptr_text c p
      | Some t \<Rightarrow> if ptr_null c p then Inr t else ptr_text c p)"

fun value_at :: "('s, 'p) capnp \<Rightarrow> string option \<Rightarrow> introspect_type \<Rightarrow> nat \<Rightarrow> 's \<Rightarrow> 's dyn_value option" where
  "value_at c dflt TyBool i s = Some (DynBool (get_field c 1 i s = 1))"
| "value_at c dflt TyUInt8 i s = Some (DynUInt8 (word_of_nat (get_field c 8 i s)))"
| "value_at c dflt TyUInt16 i s = Some (DynUInt16 (word_of_nat (get_field c 16 i s)))"
| "value_at c dflt TyUInt64 i s = Some (DynUInt64 (word_of_nat (get_field c 64 i s)))"
| "value_at c dflt TyInt32 i s = Some (DynInt32 (sint (word_of_nat (get_field c 32 i s) :: u32)))"
| "value_at c dflt TyInt64 i s = Some (DynInt64 (sint (word_of_nat (get_field c 64 i s) :: u64)))"
| "value_at c dflt (TyEnum e) i s = Some (DynEnum (get_field c 16 i s))"
| "value_at c dflt TyText i s = Some (DynText (text_or c dflt (get_ptr c i s)))"
| "value_at c dflt TyData i s = Some (DynData (ptr_data c (get_ptr c i s)))"
| "value_at c dflt (TyStruct t) i s = Some (DynStruct (ptr_struct c (get_ptr c i s)))"
| "value_at c dflt (TyList t) i s =
     (case t of
        TyText \<Rightarrow> Some (DynTexts (ptr_texts c (get_ptr c i s)))
      | TyStruct e \<Rightarrow> Some (DynStructs (ptr_structs c (get_ptr c i s)))
      | _ \<Rightarrow> None)"

text \<open>A group is a view of the struct it is in.\<close>

definition get_decl :: "('s, 'p) capnp \<Rightarrow> field_decl \<Rightarrow> 's \<Rightarrow> 's dyn_value option" where
  "get_decl c d s =
     (case fd_offset d of
        None \<Rightarrow> Some (DynStruct (Inr s))
      | Some i \<Rightarrow> Option.bind (fd_type d) (\<lambda>t. value_at c (fd_default d) t i s))"

fun store_at :: "('s, 'p) capnp \<Rightarrow> introspect_type \<Rightarrow> nat \<Rightarrow> 's dyn_value \<Rightarrow> 's \<Rightarrow> 's option" where
  "store_at c TyBool i v s = (case v of DynBool b \<Rightarrow> Some (set_field c 1 i (of_bool b) s) | _ \<Rightarrow> None)"
| "store_at c TyUInt8 i v s = (case v of DynUInt8 w \<Rightarrow> Some (set_field c 8 i (unat w) s) | _ \<Rightarrow> None)"
| "store_at c TyUInt16 i v s = (case v of DynUInt16 w \<Rightarrow> Some (set_field c 16 i (unat w) s) | _ \<Rightarrow> None)"
| "store_at c TyUInt64 i v s = (case v of DynUInt64 w \<Rightarrow> Some (set_field c 64 i (unat w) s) | _ \<Rightarrow> None)"
| "store_at c TyInt32 i v s = (case v of DynInt32 n \<Rightarrow> Some (set_field c 32 i (unat (word_of_int n :: u32)) s) | _ \<Rightarrow> None)"
| "store_at c TyInt64 i v s = (case v of DynInt64 n \<Rightarrow> Some (set_field c 64 i (unat (word_of_int n :: u64)) s) | _ \<Rightarrow> None)"
| "store_at c (TyEnum e) i v s = (case v of DynEnum n \<Rightarrow> Some (set_field c 16 i n s) | _ \<Rightarrow> None)"
| "store_at c TyText i v s = (case v of DynText (Inr t) \<Rightarrow> Some (set_ptr c i (text_ptr c t) s) | _ \<Rightarrow> None)"
| "store_at c TyData i v s = (case v of DynData (Inr t) \<Rightarrow> Some (set_ptr c i (data_ptr c t) s) | _ \<Rightarrow> None)"
| "store_at c (TyStruct e) i v s = (case v of DynStruct (Inr t) \<Rightarrow> Some (set_ptr c i (struct_ptr c t) s) | _ \<Rightarrow> None)"
| "store_at c (TyList t) i v s =
     (case t of
        TyText \<Rightarrow> (case v of DynTexts (Inr ts) \<Rightarrow> Some (set_ptr c i (texts_ptr c ts) s) | _ \<Rightarrow> None)
      | TyStruct e \<Rightarrow> (case v of DynStructs (Inr ss) \<Rightarrow> Some (set_ptr c i (structs_ptr c ss) s) | _ \<Rightarrow> None)
      | _ \<Rightarrow> None)"

text \<open>Storing a member of a union first sets the tag, the 16-bit field \<open>tag_at\<close>.\<close>

definition set_decl :: "('s, 'p) capnp \<Rightarrow> nat \<Rightarrow> field_decl \<Rightarrow> 's dyn_value \<Rightarrow> 's \<Rightarrow> 's option" where
  "set_decl c tag_at d v s =
     (case (fd_offset d, fd_type d) of
        (Some i, Some t) \<Rightarrow>
          store_at c t i v (case fd_tag d of None \<Rightarrow> s | Some tag \<Rightarrow> set_field c 16 tag_at tag s)
      | _ \<Rightarrow> None)"
end
