(* ===== verification/Schema_Annotations.thy ===== *)
theory Schema_Annotations
  imports Schema_Reader
begin

text \<open>
  The annotations that the encoded nodes declare: none. A node's list of annotations is behind its third
  pointer, a field's behind the field's second one, and a null pointer is the empty list.
\<close>

definition annotation_pointers :: "encoded_node \<Rightarrow> nat list list" where
  "annotation_pointers node =
     node ! 8 # (if u32_at node 9 1 = 0 then []
                 else map (\<lambda>i. node ! (ptr_target node 9 + 5 + 7 * i)) [0..<u32_at node (ptr_target node 9) 0 div 4])"

definition unannotated :: "encoded_node \<Rightarrow> bool" where
  "unannotated node = list_all (\<lambda>p. le p = 0) (annotation_pointers node)"

lemmas annotation_simps = unannotated_def annotation_pointers_def reader_simps

lemma connect_request_unannotated: "unannotated connect_request_ENCODED_NODE"
  by (simp add: annotation_simps connect_request_ENCODED_NODE_def [THEN table_lookup] cong: reader_congs)

lemma metadata_unannotated: "unannotated metadata_ENCODED_NODE"
  by (simp add: annotation_simps metadata_ENCODED_NODE_def [THEN table_lookup] cong: reader_congs)

lemma connect_response_unannotated: "unannotated connect_response_ENCODED_NODE"
  by (simp add: annotation_simps connect_response_ENCODED_NODE_def [THEN table_lookup] cong: reader_congs)

lemma authentication_unannotated: "unannotated authentication_ENCODED_NODE"
  by (simp add: annotation_simps authentication_ENCODED_NODE_def [THEN table_lookup] cong: reader_congs)

lemma tunnel_registration_unannotated: "unannotated tunnel_registration_ENCODED_NODE"
  by (simp add: annotation_simps tunnel_registration_ENCODED_NODE_def [THEN table_lookup] cong: reader_congs)

lemma registration_options_unannotated: "unannotated registration_options_ENCODED_NODE"
  by (simp add: annotation_simps registration_options_ENCODED_NODE_def [THEN table_lookup] cong: reader_congs)

lemma server_info_unannotated: "unannotated server_info_ENCODED_NODE"
  by (simp add: annotation_simps server_info_ENCODED_NODE_def [THEN table_lookup] cong: reader_congs)

lemma authenticate_response_unannotated: "unannotated authenticate_response_ENCODED_NODE"
  by (simp add: annotation_simps authenticate_response_ENCODED_NODE_def [THEN table_lookup] cong: reader_congs)

lemma register_tunnel_params_unannotated: "unannotated register_tunnel_params_ENCODED_NODE"
  by (simp add: annotation_simps register_tunnel_params_ENCODED_NODE_def [THEN table_lookup] cong: reader_congs)

lemma register_tunnel_results_unannotated: "unannotated register_tunnel_results_ENCODED_NODE"
  by (simp add: annotation_simps register_tunnel_results_ENCODED_NODE_def [THEN table_lookup] cong: reader_congs)

lemma get_server_info_params_unannotated: "unannotated get_server_info_params_ENCODED_NODE"
  by (simp add: annotation_simps get_server_info_params_ENCODED_NODE_def [THEN table_lookup] cong: reader_congs)

lemma get_server_info_results_unannotated: "unannotated get_server_info_results_ENCODED_NODE"
  by (simp add: annotation_simps get_server_info_results_ENCODED_NODE_def [THEN table_lookup] cong: reader_congs)

lemma unregister_tunnel_params_unannotated: "unannotated unregister_tunnel_params_ENCODED_NODE"
  by (simp add: annotation_simps unregister_tunnel_params_ENCODED_NODE_def [THEN table_lookup] cong: reader_congs)

lemma unregister_tunnel_results_unannotated: "unannotated unregister_tunnel_results_ENCODED_NODE"
  by (simp add: annotation_simps unregister_tunnel_results_ENCODED_NODE_def [THEN table_lookup] cong: reader_congs)

lemma obsolete_declarative_tunnel_connect_params_unannotated: "unannotated obsolete_declarative_tunnel_connect_params_ENCODED_NODE"
  by (simp add: annotation_simps obsolete_declarative_tunnel_connect_params_ENCODED_NODE_def [THEN table_lookup] cong: reader_congs)

lemma obsolete_declarative_tunnel_connect_results_unannotated: "unannotated obsolete_declarative_tunnel_connect_results_ENCODED_NODE"
  by (simp add: annotation_simps obsolete_declarative_tunnel_connect_results_ENCODED_NODE_def [THEN table_lookup] cong: reader_congs)

lemma authenticate_params_unannotated: "unannotated authenticate_params_ENCODED_NODE"
  by (simp add: annotation_simps authenticate_params_ENCODED_NODE_def [THEN table_lookup] cong: reader_congs)

lemma authenticate_results_unannotated: "unannotated authenticate_results_ENCODED_NODE"
  by (simp add: annotation_simps authenticate_results_ENCODED_NODE_def [THEN table_lookup] cong: reader_congs)

lemma reconnect_tunnel_params_unannotated: "unannotated reconnect_tunnel_params_ENCODED_NODE"
  by (simp add: annotation_simps reconnect_tunnel_params_ENCODED_NODE_def [THEN table_lookup] cong: reader_congs)

lemma reconnect_tunnel_results_unannotated: "unannotated reconnect_tunnel_results_ENCODED_NODE"
  by (simp add: annotation_simps reconnect_tunnel_results_ENCODED_NODE_def [THEN table_lookup] cong: reader_congs)

lemma tag_unannotated: "unannotated tag_ENCODED_NODE"
  by (simp add: annotation_simps tag_ENCODED_NODE_def [THEN table_lookup] cong: reader_congs)

lemma client_info_unannotated: "unannotated client_info_ENCODED_NODE"
  by (simp add: annotation_simps client_info_ENCODED_NODE_def [THEN table_lookup] cong: reader_congs)

lemma connection_options_unannotated: "unannotated connection_options_ENCODED_NODE"
  by (simp add: annotation_simps connection_options_ENCODED_NODE_def [THEN table_lookup] cong: reader_congs)

lemma connection_response_unannotated: "unannotated connection_response_ENCODED_NODE"
  by (simp add: annotation_simps connection_response_ENCODED_NODE_def [THEN table_lookup] cong: reader_congs)

lemma response_result_unannotated: "unannotated response_result_ENCODED_NODE"
  by (simp add: annotation_simps response_result_ENCODED_NODE_def [THEN table_lookup] cong: reader_congs)

lemma connection_error_unannotated: "unannotated connection_error_ENCODED_NODE"
  by (simp add: annotation_simps connection_error_ENCODED_NODE_def [THEN table_lookup] cong: reader_congs)

lemma connection_details_unannotated: "unannotated connection_details_ENCODED_NODE"
  by (simp add: annotation_simps connection_details_ENCODED_NODE_def [THEN table_lookup] cong: reader_congs)

lemma tunnel_auth_unannotated: "unannotated tunnel_auth_ENCODED_NODE"
  by (simp add: annotation_simps tunnel_auth_ENCODED_NODE_def [THEN table_lookup] cong: reader_congs)

lemma register_connection_params_unannotated: "unannotated register_connection_params_ENCODED_NODE"
  by (simp add: annotation_simps register_connection_params_ENCODED_NODE_def [THEN table_lookup] cong: reader_congs)

lemma register_connection_results_unannotated: "unannotated register_connection_results_ENCODED_NODE"
  by (simp add: annotation_simps register_connection_results_ENCODED_NODE_def [THEN table_lookup] cong: reader_congs)

lemma unregister_connection_params_unannotated: "unannotated unregister_connection_params_ENCODED_NODE"
  by (simp add: annotation_simps unregister_connection_params_ENCODED_NODE_def [THEN table_lookup] cong: reader_congs)

lemma unregister_connection_results_unannotated: "unannotated unregister_connection_results_ENCODED_NODE"
  by (simp add: annotation_simps unregister_connection_results_ENCODED_NODE_def [THEN table_lookup] cong: reader_congs)

lemma update_local_configuration_params_unannotated: "unannotated update_local_configuration_params_ENCODED_NODE"
  by (simp add: annotation_simps update_local_configuration_params_ENCODED_NODE_def [THEN table_lookup] cong: reader_congs)

lemma update_local_configuration_results_unannotated: "unannotated update_local_configuration_results_ENCODED_NODE"
  by (simp add: annotation_simps update_local_configuration_results_ENCODED_NODE_def [THEN table_lookup] cong: reader_congs)

lemma register_udp_session_response_unannotated: "unannotated register_udp_session_response_ENCODED_NODE"
  by (simp add: annotation_simps register_udp_session_response_ENCODED_NODE_def [THEN table_lookup] cong: reader_congs)

lemma register_udp_session_params_unannotated: "unannotated register_udp_session_params_ENCODED_NODE"
  by (simp add: annotation_simps register_udp_session_params_ENCODED_NODE_def [THEN table_lookup] cong: reader_congs)

lemma register_udp_session_results_unannotated: "unannotated register_udp_session_results_ENCODED_NODE"
  by (simp add: annotation_simps register_udp_session_results_ENCODED_NODE_def [THEN table_lookup] cong: reader_congs)

lemma unregister_udp_session_params_unannotated: "unannotated unregister_udp_session_params_ENCODED_NODE"
  by (simp add: annotation_simps unregister_udp_session_params_ENCODED_NODE_def [THEN table_lookup] cong: reader_congs)

lemma unregister_udp_session_results_unannotated: "unannotated unregister_udp_session_results_ENCODED_NODE"
  by (simp add: annotation_simps unregister_udp_session_results_ENCODED_NODE_def [THEN table_lookup] cong: reader_congs)

lemma update_configuration_response_unannotated: "unannotated update_configuration_response_ENCODED_NODE"
  by (simp add: annotation_simps update_configuration_response_ENCODED_NODE_def [THEN table_lookup] cong: reader_congs)

lemma update_configuration_params_unannotated: "unannotated update_configuration_params_ENCODED_NODE"
  by (simp add: annotation_simps update_configuration_params_ENCODED_NODE_def [THEN table_lookup] cong: reader_congs)

lemma update_configuration_results_unannotated: "unannotated update_configuration_results_ENCODED_NODE"
  by (simp add: annotation_simps update_configuration_results_ENCODED_NODE_def [THEN table_lookup] cong: reader_congs)

lemmas all_unannotated =
  connect_request_unannotated
  metadata_unannotated
  connect_response_unannotated
  authentication_unannotated
  tunnel_registration_unannotated
  registration_options_unannotated
  server_info_unannotated
  authenticate_response_unannotated
  register_tunnel_params_unannotated
  register_tunnel_results_unannotated
  get_server_info_params_unannotated
  get_server_info_results_unannotated
  unregister_tunnel_params_unannotated
  unregister_tunnel_results_unannotated
  obsolete_declarative_tunnel_connect_params_unannotated
  obsolete_declarative_tunnel_connect_results_unannotated
  authenticate_params_unannotated
  authenticate_results_unannotated
  reconnect_tunnel_params_unannotated
  reconnect_tunnel_results_unannotated
  tag_unannotated
  client_info_unannotated
  connection_options_unannotated
  connection_response_unannotated
  response_result_unannotated
  connection_error_unannotated
  connection_details_unannotated
  tunnel_auth_unannotated
  register_connection_params_unannotated
  register_connection_results_unannotated
  unregister_connection_params_unannotated
  unregister_connection_results_unannotated
  update_local_configuration_params_unannotated
  update_local_configuration_results_unannotated
  register_udp_session_response_unannotated
  register_udp_session_params_unannotated
  register_udp_session_results_unannotated
  unregister_udp_session_params_unannotated
  unregister_udp_session_results_unannotated
  update_configuration_response_unannotated
  update_configuration_params_unannotated
  update_configuration_results_unannotated

end
