(* ===== verification/Schema_Layout.thy ===== *)
theory Schema_Layout
  imports Schema_Annotations
begin

text \<open>
  When a schema is sound: its slots lie in the struct and do not overlap, unless they are members of the
  same union, and its tables agree with its node. From that and the laws of the library it follows that
  what is stored in a field is read back, and that no other field sees it.
\<close>

section \<open>Places\<close>

text \<open>The width in bits of a type that is in the data section; a pointer has none.\<close>

fun type_width :: "introspect_type \<Rightarrow> nat option" where
  "type_width TyBool = Some 1"
| "type_width TyUInt8 = Some 8"
| "type_width TyUInt16 = Some 16"
| "type_width TyUInt64 = Some 64"
| "type_width TyInt32 = Some 32"
| "type_width TyInt64 = Some 64"
| "type_width (TyEnum e) = Some 16"
| "type_width _ = None"

definition place_fits :: "nat \<times> nat \<Rightarrow> introspect_type \<Rightarrow> nat \<Rightarrow> bool" where
  "place_fits sz t i =
     (case type_width t of Some w \<Rightarrow> field_fits w i (fst sz) | None \<Rightarrow> i < snd sz)"

definition places_apart :: "introspect_type \<Rightarrow> nat \<Rightarrow> introspect_type \<Rightarrow> nat \<Rightarrow> bool" where
  "places_apart t i u j =
     (case (type_width t, type_width u) of
        (Some w, Some w') \<Rightarrow> fields_apart w i w' j
      | (None, None) \<Rightarrow> i \<noteq> j
      | _ \<Rightarrow> True)"

definition with_slot :: "(introspect_type \<Rightarrow> nat \<Rightarrow> bool) \<Rightarrow> field_decl \<Rightarrow> bool" where
  "with_slot P d = (case (fd_type d, fd_offset d) of (Some t, Some i) \<Rightarrow> P t i | _ \<Rightarrow> True)"

definition slot_fits :: "nat \<times> nat \<Rightarrow> field_decl \<Rightarrow> bool" where
  "slot_fits sz = with_slot (place_fits sz)"

definition slots_apart :: "field_decl \<Rightarrow> field_decl \<Rightarrow> bool" where
  "slots_apart d e = with_slot (\<lambda>t i. with_slot (places_apart t i) e) d"

text \<open>The tag of a union is a place of its own, a 16-bit field like that of an enum.\<close>

definition tag_apart :: "nat \<Rightarrow> field_decl \<Rightarrow> bool" where
  "tag_apart tag_at = with_slot (places_apart (TyEnum 0) tag_at)"

definition in_union :: "field_decl \<Rightarrow> bool" where
  "in_union d = (fd_tag d \<noteq> None)"

definition layout_ok :: "nat \<times> nat \<Rightarrow> nat \<Rightarrow> field_decl list \<Rightarrow> bool" where
  "layout_ok sz tag_at ds =
     (list_all (slot_fits sz) ds
      \<and> sorted_wrt (\<lambda>d e. in_union d \<and> in_union e \<or> slots_apart d e) ds
      \<and> (list_ex in_union ds \<longrightarrow> field_fits 16 tag_at (fst sz) \<and> list_all (tag_apart tag_at) ds))"

section \<open>Soundness of a struct's tables\<close>

text \<open>
  The types that \<open>get_field_types\<close> gives for the indices are those the node declares, and it panics on
  the next index; the members are split into those outside and those in the union, the latter in the
  order of their tags; \<open>members_by_name\<close> holds every index once, in the byte order of the names.
\<close>

definition types_agree :: "(nat \<Rightarrow> introspect_type option) \<Rightarrow> field_decl list \<Rightarrow> bool" where
  "types_agree types ds =
     (map types [0..<length ds] = map fd_type ds \<and> list_all (\<lambda>d. fd_type d \<noteq> None) ds
      \<and> types (length ds) = None)"

definition members_agree :: "raw_struct_schema \<Rightarrow> nat \<Rightarrow> field_decl list \<Rightarrow> bool" where
  "members_agree raw tags ds =
     (nonunion_members raw = filter (\<lambda>i. \<not> in_union (ds ! i)) [0..<length ds]
      \<and> map (\<lambda>i. fd_tag (ds ! i)) (members_by_discriminant raw) = map Some [0..<tags]
      \<and> length (members_by_name raw) = length ds
      \<and> list_all (\<lambda>i. i < length ds) (members_by_name raw)
      \<and> sorted_wrt (<) (map (\<lambda>i. map of_char (fd_name (ds ! i)) :: nat list) (members_by_name raw)))"

text \<open>\<open>get_annotation_types\<close> panics where the node and its fields declare no annotation.\<close>

definition annotations_agree :: "(nat option \<Rightarrow> nat \<Rightarrow> introspect_type option) \<Rightarrow> encoded_node \<Rightarrow> bool" where
  "annotations_agree types node =
     (unannotated node \<and> types None 0 = None
      \<and> list_all (\<lambda>i. types (Some i) 0 = None) [0..<length (field_decls node)])"

definition struct_sound :: "nat \<times> (nat \<times> nat) \<times> branded_schema \<Rightarrow> bool" where
  "struct_sound = (\<lambda>(tid, sz, b).
     node_id (encoded_node (generic b)) = tid
     \<and> node_struct_size (encoded_node (generic b)) = sz
     \<and> types_agree (field_types b) (field_decls (encoded_node (generic b)))
     \<and> annotations_agree (annotation_types b) (encoded_node (generic b))
     \<and> members_agree (generic b) (node_tag_count (encoded_node (generic b)))
         (field_decls (encoded_node (generic b)))
     \<and> layout_ok sz (node_discriminant_offset (encoded_node (generic b)))
         (field_decls (encoded_node (generic b))))"

lemmas layout_checks =
  layout_ok_def slot_fits_def slots_apart_def tag_apart_def in_union_def with_slot_def place_fits_def
  places_apart_def field_fits_def fields_apart_def

lemmas struct_checks = struct_sound_def types_agree_def annotations_agree_def members_agree_def layout_checks

section \<open>Storing and reading\<close>

text \<open>The values a field of Rust's type can hold.\<close>

fun dyn_fits :: "'s dyn_value \<Rightarrow> bool" where
  "dyn_fits (DynInt32 n) = (- (2 ^ 31) \<le> n \<and> n < 2 ^ 31)"
| "dyn_fits (DynInt64 n) = (- (2 ^ 63) \<le> n \<and> n < 2 ^ 63)"
| "dyn_fits (DynEnum n) = (n < 2 ^ 16)"
| "dyn_fits _ = True"

text \<open>Whether the pointer of a field is there, what the \<open>has_\<close> accessors ask.\<close>

definition decl_present :: "('s, 'p) capnp \<Rightarrow> field_decl \<Rightarrow> 's \<Rightarrow> bool" where
  "decl_present c d s = with_slot (\<lambda>t i. \<not> ptr_null c (get_ptr c i s)) d"

lemma store_at_cases:
  assumes "store_at c t i v s = Some s'"
  obtains (data) w n where "type_width t = Some w" "s' = set_field c w i n s"
    | (pointer) p where "type_width t = None" "s' = set_ptr c i p s"
  using assms by (cases t) (auto split: dyn_value.splits sum.splits introspect_type.splits)

lemma value_at_cong:
  assumes "\<And>w. type_width t = Some w \<Longrightarrow> get_field c w i s' = get_field c w i s"
    and "type_width t = None \<Longrightarrow> get_ptr c i s' = get_ptr c i s"
  shows "value_at c dflt t i s' = value_at c dflt t i s"
  using assms by (cases t) (auto split: introspect_type.splits)

lemma sint_word_of_int:
  "- (2 ^ 31) \<le> n \<Longrightarrow> n < 2 ^ 31 \<Longrightarrow> sint (word_of_int n :: u32) = n"
  "- (2 ^ 63) \<le> m \<Longrightarrow> m < 2 ^ 63 \<Longrightarrow> sint (word_of_int m :: u64) = m"
  by (simp_all add: signed_of_int signed_take_bit_int_eq_self)

lemma unat_mod:
  "unat (a :: u8) mod 256 = unat a" "unat (b :: u16) mod 65536 = unat b"
  "unat (d :: u32) mod 4294967296 = unat d" "unat (e :: u64) mod 18446744073709551616 = unat e"
  using unsigned_less [of a, where 'a = nat] unsigned_less [of b, where 'a = nat]
    unsigned_less [of d, where 'a = nat] unsigned_less [of e, where 'a = nat] by simp_all

lemma of_bool_eq_one: "(of_bool b = Suc 0) = b"
  by (cases b) simp_all

lemma places_apart_sym: "places_apart t i u j = places_apart u j t i"
  by (auto simp: places_apart_def fields_apart_def split: option.splits)

lemma slots_apart_sym: "slots_apart d e = slots_apart e d"
  by (auto simp: slots_apart_def with_slot_def places_apart_sym split: option.splits)

lemma sorted_wrt_pair:
  "sorted_wrt P xs \<Longrightarrow> x \<in> set xs \<Longrightarrow> y \<in> set xs \<Longrightarrow> x \<noteq> y \<Longrightarrow> P x y \<or> P y x"
  by (induction xs) auto

lemma layout_apart:
  assumes "layout_ok sz tag_at ds" and "d \<in> set ds" and "e \<in> set ds" and "d \<noteq> e"
    and "\<not> (in_union d \<and> in_union e)"
  shows "slots_apart d e"
  using assms sorted_wrt_pair [of _ ds d e] slots_apart_sym by (auto simp: layout_ok_def)

context capnp_api
begin

lemma value_at_stored_elsewhere:
  assumes "store_at c t i v s = Some s'" and "places_apart t i u j"
  shows "value_at c dflt u j s' = value_at c dflt u j s"
  using assms(1)
proof (cases rule: store_at_cases)
  case (data w n)
  with assms(2) show ?thesis
    by (intro value_at_cong) (auto simp: places_apart_def get_set_field_other get_ptr_set_field)
next
  case (pointer p)
  with assms(2) show ?thesis
    by (intro value_at_cong) (auto simp: places_apart_def get_field_set_ptr get_set_ptr_other)
qed

lemma value_at_stored:
  assumes "store_at c t i v s = Some s'" and "place_fits (data_words c s, ptr_count c s) t i" and "dyn_fits v"
  shows "value_at c dflt t i s' = Some v"
  using assms
  by (cases t) (auto simp: place_fits_def get_set_field get_set_ptr layout_simps text_or_def
      text_present unat_mod sint_word_of_int of_bool_eq_one simp del: One_nat_def
      split: dyn_value.splits sum.splits introspect_type.splits option.splits)

lemma stored_present:
  assumes "store_at c t i v s = Some s'" and "place_fits (data_words c s, ptr_count c s) t i"
    and "type_width t = None"
  shows "\<not> ptr_null c (get_ptr c i s')"
  using assms
  by (cases t) (auto simp: place_fits_def get_set_ptr present_simps
      split: dyn_value.splits sum.splits introspect_type.splits)

lemma stored_sizes:
  assumes "store_at c t i v s = Some s'"
  shows "data_words c s' = data_words c s" "ptr_count c s' = ptr_count c s"
  using assms by (cases rule: store_at_cases; simp add: layout_simps)+

text \<open>The store of a declaration: the tag first, then the slot.\<close>

lemma set_decl_Some:
  assumes "set_decl c tag_at d v s = Some s'"
  obtains i t s\<^sub>1 where "fd_offset d = Some i" "fd_type d = Some t" "store_at c t i v s\<^sub>1 = Some s'"
    "data_words c s\<^sub>1 = data_words c s" "ptr_count c s\<^sub>1 = ptr_count c s"
    "s\<^sub>1 = (case fd_tag d of None \<Rightarrow> s | Some tag \<Rightarrow> set_field c 16 tag_at tag s)"
  using assms by (auto simp: set_decl_def set_field_words set_field_ptrs split: option.splits)

lemma get_stored_decl:
  assumes "layout_ok (data_words c s, ptr_count c s) tag_at ds" and "d \<in> set ds"
    and "set_decl c tag_at d v s = Some s'" and "dyn_fits v"
  shows "get_decl c d s' = Some v"
proof -
  obtain i t s\<^sub>1 where d: "fd_offset d = Some i" "fd_type d = Some t" "store_at c t i v s\<^sub>1 = Some s'"
    "data_words c s\<^sub>1 = data_words c s" "ptr_count c s\<^sub>1 = ptr_count c s"
    using set_decl_Some [OF assms(3)] by metis
  from assms(1,2) d(1,2) have "place_fits (data_words c s, ptr_count c s) t i"
    by (auto simp: layout_ok_def list_all_iff slot_fits_def with_slot_def)
  with d assms(4) show ?thesis by (simp add: get_decl_def value_at_stored)
qed

lemma get_other_decl:
  assumes "layout_ok (data_words c s, ptr_count c s) tag_at ds" and "d \<in> set ds" and "e \<in> set ds"
    and "set_decl c tag_at d v s = Some s'" and "d \<noteq> e" and "\<not> (in_union d \<and> in_union e)"
    and "fd_offset e \<noteq> None"
  shows "get_decl c e s' = get_decl c e s"
proof -
  obtain i t s\<^sub>1 where d: "fd_offset d = Some i" "fd_type d = Some t" "store_at c t i v s\<^sub>1 = Some s'"
    "s\<^sub>1 = (case fd_tag d of None \<Rightarrow> s | Some tag \<Rightarrow> set_field c 16 tag_at tag s)"
    using set_decl_Some [OF assms(4)] by metis
  have apart: "slots_apart d e" using layout_apart [OF assms(1,2,3,5,6)] .
  have tag: "tag_apart tag_at e" if "in_union d"
    using that assms(1-3) by (auto simp: layout_ok_def list_all_iff list_ex_iff)
  obtain j where j: "fd_offset e = Some j" using assms(7) by blast
  have "value_at c dflt u j s' = value_at c dflt u j s" if "fd_type e = Some u" for u dflt
  proof -
    have "value_at c dflt u j s' = value_at c dflt u j s\<^sub>1"
      using apart d(1-3) j that by (intro value_at_stored_elsewhere) (auto simp: slots_apart_def with_slot_def)
    also have "\<dots> = value_at c dflt u j s"
    proof (cases "fd_tag d")
      case (Some tag)
      then have "places_apart (TyEnum 0) tag_at u j"
        using tag j that by (auto simp: tag_apart_def with_slot_def in_union_def)
      then show ?thesis
        using value_at_stored_elsewhere [of "TyEnum 0" tag_at "DynEnum tag" s] Some d(4) by simp
    qed (simp add: d(4))
    finally show ?thesis .
  qed
  with j show ?thesis by (cases "fd_type e") (simp_all add: get_decl_def)
qed

lemma stored_decl_sizes:
  assumes "set_decl c tag_at d v s = Some s'"
  shows "data_words c s' = data_words c s" "ptr_count c s' = ptr_count c s"
  using set_decl_Some [OF assms] stored_sizes by metis+

lemma stored_decl_present:
  assumes "layout_ok (data_words c s, ptr_count c s) tag_at ds" and "d \<in> set ds"
    and "set_decl c tag_at d v s = Some s'" and "Option.bind (fd_type d) type_width = None"
  shows "decl_present c d s'"
proof -
  obtain i t s\<^sub>1 where d: "fd_offset d = Some i" "fd_type d = Some t" "store_at c t i v s\<^sub>1 = Some s'"
    "data_words c s\<^sub>1 = data_words c s" "ptr_count c s\<^sub>1 = ptr_count c s"
    using set_decl_Some [OF assms(3)] by metis
  from assms(1,2) d(1,2) have "place_fits (data_words c s, ptr_count c s) t i"
    by (auto simp: layout_ok_def list_all_iff slot_fits_def with_slot_def)
  with d assms(4) stored_present show ?thesis by (simp add: decl_present_def with_slot_def)
qed

end

end
