(* ===== verification/Schema_Decls.thy ===== *)
theory Schema_Decls
  imports Schema_Reader
begin

text \<open>
  What the encoded nodes say, struct by struct: the fields, and with them the type id, the sizes and the
  tags of the union. Type ids of other structs stand as the numbers that are in the tables.
\<close>

lemma connect_request_decls:
  "field_decls connect_request_ENCODED_NODE =
    [\<lparr>fd_name = ''dest'', fd_tag = None, fd_offset = Some 0,
       fd_type = Some TyText, fd_default = None\<rparr>,
     \<lparr>fd_name = ''type'', fd_tag = None, fd_offset = Some 0,
       fd_type = Some (TyEnum 14208324300600211912), fd_default = None\<rparr>,
     \<lparr>fd_name = ''metadata'', fd_tag = None, fd_offset = Some 1,
       fd_type = Some (TyList (TyStruct 16232217256452541751)), fd_default = None\<rparr>]"
  by (simp add: reader_simps connect_request_ENCODED_NODE_def [THEN table_lookup] char_of_eq_iff cong: reader_congs)

lemma connect_request_node:
  "node_id connect_request_ENCODED_NODE = connect_request_TYPE_ID" "node_struct_size connect_request_ENCODED_NODE = connect_request_STRUCT_SIZE"
  "node_tag_count connect_request_ENCODED_NODE = 0" "node_discriminant_offset connect_request_ENCODED_NODE = 0"
  by (simp_all add: node_id_def node_struct_size_def node_tag_count_def node_discriminant_offset_def u16_at_def u32_at_def le_def
      connect_request_ENCODED_NODE_def connect_request_TYPE_ID_def connect_request_STRUCT_SIZE_def)

lemma metadata_decls:
  "field_decls metadata_ENCODED_NODE =
    [\<lparr>fd_name = ''key'', fd_tag = None, fd_offset = Some 0,
       fd_type = Some TyText, fd_default = None\<rparr>,
     \<lparr>fd_name = ''val'', fd_tag = None, fd_offset = Some 1,
       fd_type = Some TyText, fd_default = None\<rparr>]"
  by (simp add: reader_simps metadata_ENCODED_NODE_def [THEN table_lookup] char_of_eq_iff cong: reader_congs)

lemma metadata_node:
  "node_id metadata_ENCODED_NODE = metadata_TYPE_ID" "node_struct_size metadata_ENCODED_NODE = metadata_STRUCT_SIZE"
  "node_tag_count metadata_ENCODED_NODE = 0" "node_discriminant_offset metadata_ENCODED_NODE = 0"
  by (simp_all add: node_id_def node_struct_size_def node_tag_count_def node_discriminant_offset_def u16_at_def u32_at_def le_def
      metadata_ENCODED_NODE_def metadata_TYPE_ID_def metadata_STRUCT_SIZE_def)

lemma connect_response_decls:
  "field_decls connect_response_ENCODED_NODE =
    [\<lparr>fd_name = ''error'', fd_tag = None, fd_offset = Some 0,
       fd_type = Some TyText, fd_default = None\<rparr>,
     \<lparr>fd_name = ''metadata'', fd_tag = None, fd_offset = Some 1,
       fd_type = Some (TyList (TyStruct 16232217256452541751)), fd_default = None\<rparr>]"
  by (simp add: reader_simps connect_response_ENCODED_NODE_def [THEN table_lookup] char_of_eq_iff cong: reader_congs)

lemma connect_response_node:
  "node_id connect_response_ENCODED_NODE = connect_response_TYPE_ID" "node_struct_size connect_response_ENCODED_NODE = connect_response_STRUCT_SIZE"
  "node_tag_count connect_response_ENCODED_NODE = 0" "node_discriminant_offset connect_response_ENCODED_NODE = 0"
  by (simp_all add: node_id_def node_struct_size_def node_tag_count_def node_discriminant_offset_def u16_at_def u32_at_def le_def
      connect_response_ENCODED_NODE_def connect_response_TYPE_ID_def connect_response_STRUCT_SIZE_def)

lemma authentication_decls:
  "field_decls authentication_ENCODED_NODE =
    [\<lparr>fd_name = ''key'', fd_tag = None, fd_offset = Some 0,
       fd_type = Some TyText, fd_default = None\<rparr>,
     \<lparr>fd_name = ''email'', fd_tag = None, fd_offset = Some 1,
       fd_type = Some TyText, fd_default = None\<rparr>,
     \<lparr>fd_name = ''originCAKey'', fd_tag = None, fd_offset = Some 2,
       fd_type = Some TyText, fd_default = None\<rparr>]"
  by (simp add: reader_simps authentication_ENCODED_NODE_def [THEN table_lookup] char_of_eq_iff cong: reader_congs)

lemma authentication_node:
  "node_id authentication_ENCODED_NODE = authentication_TYPE_ID" "node_struct_size authentication_ENCODED_NODE = authentication_STRUCT_SIZE"
  "node_tag_count authentication_ENCODED_NODE = 0" "node_discriminant_offset authentication_ENCODED_NODE = 0"
  by (simp_all add: node_id_def node_struct_size_def node_tag_count_def node_discriminant_offset_def u16_at_def u32_at_def le_def
      authentication_ENCODED_NODE_def authentication_TYPE_ID_def authentication_STRUCT_SIZE_def)

lemma tunnel_registration_decls:
  "field_decls tunnel_registration_ENCODED_NODE =
    [\<lparr>fd_name = ''err'', fd_tag = None, fd_offset = Some 0,
       fd_type = Some TyText, fd_default = None\<rparr>,
     \<lparr>fd_name = ''url'', fd_tag = None, fd_offset = Some 1,
       fd_type = Some TyText, fd_default = None\<rparr>,
     \<lparr>fd_name = ''logLines'', fd_tag = None, fd_offset = Some 2,
       fd_type = Some (TyList TyText), fd_default = None\<rparr>,
     \<lparr>fd_name = ''permanentFailure'', fd_tag = None, fd_offset = Some 0,
       fd_type = Some TyBool, fd_default = None\<rparr>,
     \<lparr>fd_name = ''tunnelID'', fd_tag = None, fd_offset = Some 3,
       fd_type = Some TyText, fd_default = None\<rparr>,
     \<lparr>fd_name = ''retryAfterSeconds'', fd_tag = None, fd_offset = Some 1,
       fd_type = Some TyUInt16, fd_default = None\<rparr>,
     \<lparr>fd_name = ''eventDigest'', fd_tag = None, fd_offset = Some 4,
       fd_type = Some TyData, fd_default = None\<rparr>,
     \<lparr>fd_name = ''connDigest'', fd_tag = None, fd_offset = Some 5,
       fd_type = Some TyData, fd_default = None\<rparr>]"
  by (simp add: reader_simps tunnel_registration_ENCODED_NODE_def [THEN table_lookup] char_of_eq_iff cong: reader_congs)

lemma tunnel_registration_node:
  "node_id tunnel_registration_ENCODED_NODE = tunnel_registration_TYPE_ID" "node_struct_size tunnel_registration_ENCODED_NODE = tunnel_registration_STRUCT_SIZE"
  "node_tag_count tunnel_registration_ENCODED_NODE = 0" "node_discriminant_offset tunnel_registration_ENCODED_NODE = 0"
  by (simp_all add: node_id_def node_struct_size_def node_tag_count_def node_discriminant_offset_def u16_at_def u32_at_def le_def
      tunnel_registration_ENCODED_NODE_def tunnel_registration_TYPE_ID_def tunnel_registration_STRUCT_SIZE_def)

lemma registration_options_decls:
  "field_decls registration_options_ENCODED_NODE =
    [\<lparr>fd_name = ''clientId'', fd_tag = None, fd_offset = Some 0,
       fd_type = Some TyText, fd_default = None\<rparr>,
     \<lparr>fd_name = ''version'', fd_tag = None, fd_offset = Some 1,
       fd_type = Some TyText, fd_default = None\<rparr>,
     \<lparr>fd_name = ''os'', fd_tag = None, fd_offset = Some 2,
       fd_type = Some TyText, fd_default = None\<rparr>,
     \<lparr>fd_name = ''existingTunnelPolicy'', fd_tag = None, fd_offset = Some 0,
       fd_type = Some (TyEnum 9568905895171026236), fd_default = None\<rparr>,
     \<lparr>fd_name = ''poolName'', fd_tag = None, fd_offset = Some 3,
       fd_type = Some TyText, fd_default = None\<rparr>,
     \<lparr>fd_name = ''tags'', fd_tag = None, fd_offset = Some 4,
       fd_type = Some (TyList (TyStruct 14688881897199349786)), fd_default = None\<rparr>,
     \<lparr>fd_name = ''connectionId'', fd_tag = None, fd_offset = Some 2,
       fd_type = Some TyUInt8, fd_default = None\<rparr>,
     \<lparr>fd_name = ''originLocalIp'', fd_tag = None, fd_offset = Some 5,
       fd_type = Some TyText, fd_default = None\<rparr>,
     \<lparr>fd_name = ''isAutoupdated'', fd_tag = None, fd_offset = Some 24,
       fd_type = Some TyBool, fd_default = None\<rparr>,
     \<lparr>fd_name = ''runFromTerminal'', fd_tag = None, fd_offset = Some 25,
       fd_type = Some TyBool, fd_default = None\<rparr>,
     \<lparr>fd_name = ''compressionQuality'', fd_tag = None, fd_offset = Some 1,
       fd_type = Some TyUInt64, fd_default = None\<rparr>,
     \<lparr>fd_name = ''uuid'', fd_tag = None, fd_offset = Some 6,
       fd_type = Some TyText, fd_default = None\<rparr>,
     \<lparr>fd_name = ''numPreviousAttempts'', fd_tag = None, fd_offset = Some 4,
       fd_type = Some TyUInt8, fd_default = None\<rparr>,
     \<lparr>fd_name = ''features'', fd_tag = None, fd_offset = Some 7,
       fd_type = Some (TyList TyText), fd_default = None\<rparr>]"
  by (simp add: reader_simps registration_options_ENCODED_NODE_def [THEN table_lookup] char_of_eq_iff cong: reader_congs)

lemma registration_options_node:
  "node_id registration_options_ENCODED_NODE = registration_options_TYPE_ID" "node_struct_size registration_options_ENCODED_NODE = registration_options_STRUCT_SIZE"
  "node_tag_count registration_options_ENCODED_NODE = 0" "node_discriminant_offset registration_options_ENCODED_NODE = 0"
  by (simp_all add: node_id_def node_struct_size_def node_tag_count_def node_discriminant_offset_def u16_at_def u32_at_def le_def
      registration_options_ENCODED_NODE_def registration_options_TYPE_ID_def registration_options_STRUCT_SIZE_def)

lemma server_info_decls:
  "field_decls server_info_ENCODED_NODE =
    [\<lparr>fd_name = ''locationName'', fd_tag = None, fd_offset = Some 0,
       fd_type = Some TyText, fd_default = None\<rparr>]"
  by (simp add: reader_simps server_info_ENCODED_NODE_def [THEN table_lookup] char_of_eq_iff cong: reader_congs)

lemma server_info_node:
  "node_id server_info_ENCODED_NODE = server_info_TYPE_ID" "node_struct_size server_info_ENCODED_NODE = server_info_STRUCT_SIZE"
  "node_tag_count server_info_ENCODED_NODE = 0" "node_discriminant_offset server_info_ENCODED_NODE = 0"
  by (simp_all add: node_id_def node_struct_size_def node_tag_count_def node_discriminant_offset_def u16_at_def u32_at_def le_def
      server_info_ENCODED_NODE_def server_info_TYPE_ID_def server_info_STRUCT_SIZE_def)

lemma authenticate_response_decls:
  "field_decls authenticate_response_ENCODED_NODE =
    [\<lparr>fd_name = ''permanentErr'', fd_tag = None, fd_offset = Some 0,
       fd_type = Some TyText, fd_default = None\<rparr>,
     \<lparr>fd_name = ''retryableErr'', fd_tag = None, fd_offset = Some 1,
       fd_type = Some TyText, fd_default = None\<rparr>,
     \<lparr>fd_name = ''jwt'', fd_tag = None, fd_offset = Some 2,
       fd_type = Some TyData, fd_default = None\<rparr>,
     \<lparr>fd_name = ''hoursUntilRefresh'', fd_tag = None, fd_offset = Some 0,
       fd_type = Some TyUInt8, fd_default = None\<rparr>]"
  by (simp add: reader_simps authenticate_response_ENCODED_NODE_def [THEN table_lookup] char_of_eq_iff cong: reader_congs)

lemma authenticate_response_node:
  "node_id authenticate_response_ENCODED_NODE = authenticate_response_TYPE_ID" "node_struct_size authenticate_response_ENCODED_NODE = authenticate_response_STRUCT_SIZE"
  "node_tag_count authenticate_response_ENCODED_NODE = 0" "node_discriminant_offset authenticate_response_ENCODED_NODE = 0"
  by (simp_all add: node_id_def node_struct_size_def node_tag_count_def node_discriminant_offset_def u16_at_def u32_at_def le_def
      authenticate_response_ENCODED_NODE_def authenticate_response_TYPE_ID_def authenticate_response_STRUCT_SIZE_def)

lemma register_tunnel_params_decls:
  "field_decls register_tunnel_params_ENCODED_NODE =
    [\<lparr>fd_name = ''originCert'', fd_tag = None, fd_offset = Some 0,
       fd_type = Some TyData, fd_default = None\<rparr>,
     \<lparr>fd_name = ''hostname'', fd_tag = None, fd_offset = Some 1,
       fd_type = Some TyText, fd_default = None\<rparr>,
     \<lparr>fd_name = ''options'', fd_tag = None, fd_offset = Some 2,
       fd_type = Some (TyStruct 14381089847220853578), fd_default = None\<rparr>]"
  by (simp add: reader_simps register_tunnel_params_ENCODED_NODE_def [THEN table_lookup] char_of_eq_iff cong: reader_congs)

lemma register_tunnel_params_node:
  "node_id register_tunnel_params_ENCODED_NODE = register_tunnel_params_TYPE_ID" "node_struct_size register_tunnel_params_ENCODED_NODE = register_tunnel_params_STRUCT_SIZE"
  "node_tag_count register_tunnel_params_ENCODED_NODE = 0" "node_discriminant_offset register_tunnel_params_ENCODED_NODE = 0"
  by (simp_all add: node_id_def node_struct_size_def node_tag_count_def node_discriminant_offset_def u16_at_def u32_at_def le_def
      register_tunnel_params_ENCODED_NODE_def register_tunnel_params_TYPE_ID_def register_tunnel_params_STRUCT_SIZE_def)

lemma register_tunnel_results_decls:
  "field_decls register_tunnel_results_ENCODED_NODE =
    [\<lparr>fd_name = ''result'', fd_tag = None, fd_offset = Some 0,
       fd_type = Some (TyStruct 17589387787773451846), fd_default = None\<rparr>]"
  by (simp add: reader_simps register_tunnel_results_ENCODED_NODE_def [THEN table_lookup] char_of_eq_iff cong: reader_congs)

lemma register_tunnel_results_node:
  "node_id register_tunnel_results_ENCODED_NODE = register_tunnel_results_TYPE_ID" "node_struct_size register_tunnel_results_ENCODED_NODE = register_tunnel_results_STRUCT_SIZE"
  "node_tag_count register_tunnel_results_ENCODED_NODE = 0" "node_discriminant_offset register_tunnel_results_ENCODED_NODE = 0"
  by (simp_all add: node_id_def node_struct_size_def node_tag_count_def node_discriminant_offset_def u16_at_def u32_at_def le_def
      register_tunnel_results_ENCODED_NODE_def register_tunnel_results_TYPE_ID_def register_tunnel_results_STRUCT_SIZE_def)

lemma get_server_info_params_decls:
  "field_decls get_server_info_params_ENCODED_NODE =
    []"
  by (simp add: reader_simps get_server_info_params_ENCODED_NODE_def [THEN table_lookup] char_of_eq_iff cong: reader_congs)

lemma get_server_info_params_node:
  "node_id get_server_info_params_ENCODED_NODE = get_server_info_params_TYPE_ID" "node_struct_size get_server_info_params_ENCODED_NODE = get_server_info_params_STRUCT_SIZE"
  "node_tag_count get_server_info_params_ENCODED_NODE = 0" "node_discriminant_offset get_server_info_params_ENCODED_NODE = 0"
  by (simp_all add: node_id_def node_struct_size_def node_tag_count_def node_discriminant_offset_def u16_at_def u32_at_def le_def
      get_server_info_params_ENCODED_NODE_def get_server_info_params_TYPE_ID_def get_server_info_params_STRUCT_SIZE_def)

lemma get_server_info_results_decls:
  "field_decls get_server_info_results_ENCODED_NODE =
    [\<lparr>fd_name = ''result'', fd_tag = None, fd_offset = Some 0,
       fd_type = Some (TyStruct 17493826093338867814), fd_default = None\<rparr>]"
  by (simp add: reader_simps get_server_info_results_ENCODED_NODE_def [THEN table_lookup] char_of_eq_iff cong: reader_congs)

lemma get_server_info_results_node:
  "node_id get_server_info_results_ENCODED_NODE = get_server_info_results_TYPE_ID" "node_struct_size get_server_info_results_ENCODED_NODE = get_server_info_results_STRUCT_SIZE"
  "node_tag_count get_server_info_results_ENCODED_NODE = 0" "node_discriminant_offset get_server_info_results_ENCODED_NODE = 0"
  by (simp_all add: node_id_def node_struct_size_def node_tag_count_def node_discriminant_offset_def u16_at_def u32_at_def le_def
      get_server_info_results_ENCODED_NODE_def get_server_info_results_TYPE_ID_def get_server_info_results_STRUCT_SIZE_def)

lemma unregister_tunnel_params_decls:
  "field_decls unregister_tunnel_params_ENCODED_NODE =
    [\<lparr>fd_name = ''gracePeriodNanoSec'', fd_tag = None, fd_offset = Some 0,
       fd_type = Some TyInt64, fd_default = None\<rparr>]"
  by (simp add: reader_simps unregister_tunnel_params_ENCODED_NODE_def [THEN table_lookup] char_of_eq_iff cong: reader_congs)

lemma unregister_tunnel_params_node:
  "node_id unregister_tunnel_params_ENCODED_NODE = unregister_tunnel_params_TYPE_ID" "node_struct_size unregister_tunnel_params_ENCODED_NODE = unregister_tunnel_params_STRUCT_SIZE"
  "node_tag_count unregister_tunnel_params_ENCODED_NODE = 0" "node_discriminant_offset unregister_tunnel_params_ENCODED_NODE = 0"
  by (simp_all add: node_id_def node_struct_size_def node_tag_count_def node_discriminant_offset_def u16_at_def u32_at_def le_def
      unregister_tunnel_params_ENCODED_NODE_def unregister_tunnel_params_TYPE_ID_def unregister_tunnel_params_STRUCT_SIZE_def)

lemma unregister_tunnel_results_decls:
  "field_decls unregister_tunnel_results_ENCODED_NODE =
    []"
  by (simp add: reader_simps unregister_tunnel_results_ENCODED_NODE_def [THEN table_lookup] char_of_eq_iff cong: reader_congs)

lemma unregister_tunnel_results_node:
  "node_id unregister_tunnel_results_ENCODED_NODE = unregister_tunnel_results_TYPE_ID" "node_struct_size unregister_tunnel_results_ENCODED_NODE = unregister_tunnel_results_STRUCT_SIZE"
  "node_tag_count unregister_tunnel_results_ENCODED_NODE = 0" "node_discriminant_offset unregister_tunnel_results_ENCODED_NODE = 0"
  by (simp_all add: node_id_def node_struct_size_def node_tag_count_def node_discriminant_offset_def u16_at_def u32_at_def le_def
      unregister_tunnel_results_ENCODED_NODE_def unregister_tunnel_results_TYPE_ID_def unregister_tunnel_results_STRUCT_SIZE_def)

lemma obsolete_declarative_tunnel_connect_params_decls:
  "field_decls obsolete_declarative_tunnel_connect_params_ENCODED_NODE =
    []"
  by (simp add: reader_simps obsolete_declarative_tunnel_connect_params_ENCODED_NODE_def [THEN table_lookup] char_of_eq_iff cong: reader_congs)

lemma obsolete_declarative_tunnel_connect_params_node:
  "node_id obsolete_declarative_tunnel_connect_params_ENCODED_NODE = obsolete_declarative_tunnel_connect_params_TYPE_ID" "node_struct_size obsolete_declarative_tunnel_connect_params_ENCODED_NODE = obsolete_declarative_tunnel_connect_params_STRUCT_SIZE"
  "node_tag_count obsolete_declarative_tunnel_connect_params_ENCODED_NODE = 0" "node_discriminant_offset obsolete_declarative_tunnel_connect_params_ENCODED_NODE = 0"
  by (simp_all add: node_id_def node_struct_size_def node_tag_count_def node_discriminant_offset_def u16_at_def u32_at_def le_def
      obsolete_declarative_tunnel_connect_params_ENCODED_NODE_def obsolete_declarative_tunnel_connect_params_TYPE_ID_def obsolete_declarative_tunnel_connect_params_STRUCT_SIZE_def)

lemma obsolete_declarative_tunnel_connect_results_decls:
  "field_decls obsolete_declarative_tunnel_connect_results_ENCODED_NODE =
    []"
  by (simp add: reader_simps obsolete_declarative_tunnel_connect_results_ENCODED_NODE_def [THEN table_lookup] char_of_eq_iff cong: reader_congs)

lemma obsolete_declarative_tunnel_connect_results_node:
  "node_id obsolete_declarative_tunnel_connect_results_ENCODED_NODE = obsolete_declarative_tunnel_connect_results_TYPE_ID" "node_struct_size obsolete_declarative_tunnel_connect_results_ENCODED_NODE = obsolete_declarative_tunnel_connect_results_STRUCT_SIZE"
  "node_tag_count obsolete_declarative_tunnel_connect_results_ENCODED_NODE = 0" "node_discriminant_offset obsolete_declarative_tunnel_connect_results_ENCODED_NODE = 0"
  by (simp_all add: node_id_def node_struct_size_def node_tag_count_def node_discriminant_offset_def u16_at_def u32_at_def le_def
      obsolete_declarative_tunnel_connect_results_ENCODED_NODE_def obsolete_declarative_tunnel_connect_results_TYPE_ID_def obsolete_declarative_tunnel_connect_results_STRUCT_SIZE_def)

lemma authenticate_params_decls:
  "field_decls authenticate_params_ENCODED_NODE =
    [\<lparr>fd_name = ''originCert'', fd_tag = None, fd_offset = Some 0,
       fd_type = Some TyData, fd_default = None\<rparr>,
     \<lparr>fd_name = ''hostname'', fd_tag = None, fd_offset = Some 1,
       fd_type = Some TyText, fd_default = None\<rparr>,
     \<lparr>fd_name = ''options'', fd_tag = None, fd_offset = Some 2,
       fd_type = Some (TyStruct 14381089847220853578), fd_default = None\<rparr>]"
  by (simp add: reader_simps authenticate_params_ENCODED_NODE_def [THEN table_lookup] char_of_eq_iff cong: reader_congs)

lemma authenticate_params_node:
  "node_id authenticate_params_ENCODED_NODE = authenticate_params_TYPE_ID" "node_struct_size authenticate_params_ENCODED_NODE = authenticate_params_STRUCT_SIZE"
  "node_tag_count authenticate_params_ENCODED_NODE = 0" "node_discriminant_offset authenticate_params_ENCODED_NODE = 0"
  by (simp_all add: node_id_def node_struct_size_def node_tag_count_def node_discriminant_offset_def u16_at_def u32_at_def le_def
      authenticate_params_ENCODED_NODE_def authenticate_params_TYPE_ID_def authenticate_params_STRUCT_SIZE_def)

lemma authenticate_results_decls:
  "field_decls authenticate_results_ENCODED_NODE =
    [\<lparr>fd_name = ''result'', fd_tag = None, fd_offset = Some 0,
       fd_type = Some (TyStruct 9422416216574798437), fd_default = None\<rparr>]"
  by (simp add: reader_simps authenticate_results_ENCODED_NODE_def [THEN table_lookup] char_of_eq_iff cong: reader_congs)

lemma authenticate_results_node:
  "node_id authenticate_results_ENCODED_NODE = authenticate_results_TYPE_ID" "node_struct_size authenticate_results_ENCODED_NODE = authenticate_results_STRUCT_SIZE"
  "node_tag_count authenticate_results_ENCODED_NODE = 0" "node_discriminant_offset authenticate_results_ENCODED_NODE = 0"
  by (simp_all add: node_id_def node_struct_size_def node_tag_count_def node_discriminant_offset_def u16_at_def u32_at_def le_def
      authenticate_results_ENCODED_NODE_def authenticate_results_TYPE_ID_def authenticate_results_STRUCT_SIZE_def)

lemma reconnect_tunnel_params_decls:
  "field_decls reconnect_tunnel_params_ENCODED_NODE =
    [\<lparr>fd_name = ''jwt'', fd_tag = None, fd_offset = Some 0,
       fd_type = Some TyData, fd_default = None\<rparr>,
     \<lparr>fd_name = ''eventDigest'', fd_tag = None, fd_offset = Some 1,
       fd_type = Some TyData, fd_default = None\<rparr>,
     \<lparr>fd_name = ''connDigest'', fd_tag = None, fd_offset = Some 2,
       fd_type = Some TyData, fd_default = None\<rparr>,
     \<lparr>fd_name = ''hostname'', fd_tag = None, fd_offset = Some 3,
       fd_type = Some TyText, fd_default = None\<rparr>,
     \<lparr>fd_name = ''options'', fd_tag = None, fd_offset = Some 4,
       fd_type = Some (TyStruct 14381089847220853578), fd_default = None\<rparr>]"
  by (simp add: reader_simps reconnect_tunnel_params_ENCODED_NODE_def [THEN table_lookup] char_of_eq_iff cong: reader_congs)

lemma reconnect_tunnel_params_node:
  "node_id reconnect_tunnel_params_ENCODED_NODE = reconnect_tunnel_params_TYPE_ID" "node_struct_size reconnect_tunnel_params_ENCODED_NODE = reconnect_tunnel_params_STRUCT_SIZE"
  "node_tag_count reconnect_tunnel_params_ENCODED_NODE = 0" "node_discriminant_offset reconnect_tunnel_params_ENCODED_NODE = 0"
  by (simp_all add: node_id_def node_struct_size_def node_tag_count_def node_discriminant_offset_def u16_at_def u32_at_def le_def
      reconnect_tunnel_params_ENCODED_NODE_def reconnect_tunnel_params_TYPE_ID_def reconnect_tunnel_params_STRUCT_SIZE_def)

lemma reconnect_tunnel_results_decls:
  "field_decls reconnect_tunnel_results_ENCODED_NODE =
    [\<lparr>fd_name = ''result'', fd_tag = None, fd_offset = Some 0,
       fd_type = Some (TyStruct 17589387787773451846), fd_default = None\<rparr>]"
  by (simp add: reader_simps reconnect_tunnel_results_ENCODED_NODE_def [THEN table_lookup] char_of_eq_iff cong: reader_congs)

lemma reconnect_tunnel_results_node:
  "node_id reconnect_tunnel_results_ENCODED_NODE = reconnect_tunnel_results_TYPE_ID" "node_struct_size reconnect_tunnel_results_ENCODED_NODE = reconnect_tunnel_results_STRUCT_SIZE"
  "node_tag_count reconnect_tunnel_results_ENCODED_NODE = 0" "node_discriminant_offset reconnect_tunnel_results_ENCODED_NODE = 0"
  by (simp_all add: node_id_def node_struct_size_def node_tag_count_def node_discriminant_offset_def u16_at_def u32_at_def le_def
      reconnect_tunnel_results_ENCODED_NODE_def reconnect_tunnel_results_TYPE_ID_def reconnect_tunnel_results_STRUCT_SIZE_def)

lemma tag_decls:
  "field_decls tag_ENCODED_NODE =
    [\<lparr>fd_name = ''name'', fd_tag = None, fd_offset = Some 0,
       fd_type = Some TyText, fd_default = None\<rparr>,
     \<lparr>fd_name = ''value'', fd_tag = None, fd_offset = Some 1,
       fd_type = Some TyText, fd_default = None\<rparr>]"
  by (simp add: reader_simps tag_ENCODED_NODE_def [THEN table_lookup] char_of_eq_iff cong: reader_congs)

lemma tag_node:
  "node_id tag_ENCODED_NODE = tag_TYPE_ID" "node_struct_size tag_ENCODED_NODE = tag_STRUCT_SIZE"
  "node_tag_count tag_ENCODED_NODE = 0" "node_discriminant_offset tag_ENCODED_NODE = 0"
  by (simp_all add: node_id_def node_struct_size_def node_tag_count_def node_discriminant_offset_def u16_at_def u32_at_def le_def
      tag_ENCODED_NODE_def tag_TYPE_ID_def tag_STRUCT_SIZE_def)

lemma client_info_decls:
  "field_decls client_info_ENCODED_NODE =
    [\<lparr>fd_name = ''clientId'', fd_tag = None, fd_offset = Some 0,
       fd_type = Some TyData, fd_default = None\<rparr>,
     \<lparr>fd_name = ''features'', fd_tag = None, fd_offset = Some 1,
       fd_type = Some (TyList TyText), fd_default = None\<rparr>,
     \<lparr>fd_name = ''version'', fd_tag = None, fd_offset = Some 2,
       fd_type = Some TyText, fd_default = None\<rparr>,
     \<lparr>fd_name = ''arch'', fd_tag = None, fd_offset = Some 3,
       fd_type = Some TyText, fd_default = None\<rparr>]"
  by (simp add: reader_simps client_info_ENCODED_NODE_def [THEN table_lookup] char_of_eq_iff cong: reader_congs)

lemma client_info_node:
  "node_id client_info_ENCODED_NODE = client_info_TYPE_ID" "node_struct_size client_info_ENCODED_NODE = client_info_STRUCT_SIZE"
  "node_tag_count client_info_ENCODED_NODE = 0" "node_discriminant_offset client_info_ENCODED_NODE = 0"
  by (simp_all add: node_id_def node_struct_size_def node_tag_count_def node_discriminant_offset_def u16_at_def u32_at_def le_def
      client_info_ENCODED_NODE_def client_info_TYPE_ID_def client_info_STRUCT_SIZE_def)

lemma connection_options_decls:
  "field_decls connection_options_ENCODED_NODE =
    [\<lparr>fd_name = ''client'', fd_tag = None, fd_offset = Some 0,
       fd_type = Some (TyStruct 9497757450018689355), fd_default = None\<rparr>,
     \<lparr>fd_name = ''originLocalIp'', fd_tag = None, fd_offset = Some 1,
       fd_type = Some TyData, fd_default = None\<rparr>,
     \<lparr>fd_name = ''replaceExisting'', fd_tag = None, fd_offset = Some 0,
       fd_type = Some TyBool, fd_default = None\<rparr>,
     \<lparr>fd_name = ''compressionQuality'', fd_tag = None, fd_offset = Some 1,
       fd_type = Some TyUInt8, fd_default = None\<rparr>,
     \<lparr>fd_name = ''numPreviousAttempts'', fd_tag = None, fd_offset = Some 2,
       fd_type = Some TyUInt8, fd_default = None\<rparr>]"
  by (simp add: reader_simps connection_options_ENCODED_NODE_def [THEN table_lookup] char_of_eq_iff cong: reader_congs)

lemma connection_options_node:
  "node_id connection_options_ENCODED_NODE = connection_options_TYPE_ID" "node_struct_size connection_options_ENCODED_NODE = connection_options_STRUCT_SIZE"
  "node_tag_count connection_options_ENCODED_NODE = 0" "node_discriminant_offset connection_options_ENCODED_NODE = 0"
  by (simp_all add: node_id_def node_struct_size_def node_tag_count_def node_discriminant_offset_def u16_at_def u32_at_def le_def
      connection_options_ENCODED_NODE_def connection_options_TYPE_ID_def connection_options_STRUCT_SIZE_def)

lemma connection_response_decls:
  "field_decls connection_response_ENCODED_NODE =
    [\<lparr>fd_name = ''result'', fd_tag = None, fd_offset = None,
       fd_type = Some (TyStruct 10931298159185720866), fd_default = None\<rparr>]"
  by (simp add: reader_simps connection_response_ENCODED_NODE_def [THEN table_lookup] char_of_eq_iff cong: reader_congs)

lemma connection_response_node:
  "node_id connection_response_ENCODED_NODE = connection_response_TYPE_ID" "node_struct_size connection_response_ENCODED_NODE = connection_response_STRUCT_SIZE"
  "node_tag_count connection_response_ENCODED_NODE = 0" "node_discriminant_offset connection_response_ENCODED_NODE = 0"
  by (simp_all add: node_id_def node_struct_size_def node_tag_count_def node_discriminant_offset_def u16_at_def u32_at_def le_def
      connection_response_ENCODED_NODE_def connection_response_TYPE_ID_def connection_response_STRUCT_SIZE_def)

lemma response_result_decls:
  "field_decls response_result_ENCODED_NODE =
    [\<lparr>fd_name = ''error'', fd_tag = Some 0, fd_offset = Some 0,
       fd_type = Some (TyStruct 17722653898618887046), fd_default = None\<rparr>,
     \<lparr>fd_name = ''connectionDetails'', fd_tag = Some 1, fd_offset = Some 0,
       fd_type = Some (TyStruct 13110997797645762954), fd_default = None\<rparr>]"
  by (simp add: reader_simps response_result_ENCODED_NODE_def [THEN table_lookup] char_of_eq_iff cong: reader_congs)

lemma response_result_node:
  "node_id response_result_ENCODED_NODE = response_result_TYPE_ID" "node_struct_size response_result_ENCODED_NODE = response_result_STRUCT_SIZE"
  "node_tag_count response_result_ENCODED_NODE = 2" "node_discriminant_offset response_result_ENCODED_NODE = 0"
  by (simp_all add: node_id_def node_struct_size_def node_tag_count_def node_discriminant_offset_def u16_at_def u32_at_def le_def
      response_result_ENCODED_NODE_def response_result_TYPE_ID_def response_result_STRUCT_SIZE_def)

lemma connection_error_decls:
  "field_decls connection_error_ENCODED_NODE =
    [\<lparr>fd_name = ''cause'', fd_tag = None, fd_offset = Some 0,
       fd_type = Some TyText, fd_default = None\<rparr>,
     \<lparr>fd_name = ''retryAfter'', fd_tag = None, fd_offset = Some 0,
       fd_type = Some TyInt64, fd_default = None\<rparr>,
     \<lparr>fd_name = ''shouldRetry'', fd_tag = None, fd_offset = Some 64,
       fd_type = Some TyBool, fd_default = None\<rparr>]"
  by (simp add: reader_simps connection_error_ENCODED_NODE_def [THEN table_lookup] char_of_eq_iff cong: reader_congs)

lemma connection_error_node:
  "node_id connection_error_ENCODED_NODE = connection_error_TYPE_ID" "node_struct_size connection_error_ENCODED_NODE = connection_error_STRUCT_SIZE"
  "node_tag_count connection_error_ENCODED_NODE = 0" "node_discriminant_offset connection_error_ENCODED_NODE = 0"
  by (simp_all add: node_id_def node_struct_size_def node_tag_count_def node_discriminant_offset_def u16_at_def u32_at_def le_def
      connection_error_ENCODED_NODE_def connection_error_TYPE_ID_def connection_error_STRUCT_SIZE_def)

lemma connection_details_decls:
  "field_decls connection_details_ENCODED_NODE =
    [\<lparr>fd_name = ''uuid'', fd_tag = None, fd_offset = Some 0,
       fd_type = Some TyData, fd_default = None\<rparr>,
     \<lparr>fd_name = ''locationName'', fd_tag = None, fd_offset = Some 1,
       fd_type = Some TyText, fd_default = None\<rparr>,
     \<lparr>fd_name = ''tunnelIsRemotelyManaged'', fd_tag = None, fd_offset = Some 0,
       fd_type = Some TyBool, fd_default = None\<rparr>]"
  by (simp add: reader_simps connection_details_ENCODED_NODE_def [THEN table_lookup] char_of_eq_iff cong: reader_congs)

lemma connection_details_node:
  "node_id connection_details_ENCODED_NODE = connection_details_TYPE_ID" "node_struct_size connection_details_ENCODED_NODE = connection_details_STRUCT_SIZE"
  "node_tag_count connection_details_ENCODED_NODE = 0" "node_discriminant_offset connection_details_ENCODED_NODE = 0"
  by (simp_all add: node_id_def node_struct_size_def node_tag_count_def node_discriminant_offset_def u16_at_def u32_at_def le_def
      connection_details_ENCODED_NODE_def connection_details_TYPE_ID_def connection_details_STRUCT_SIZE_def)

lemma tunnel_auth_decls:
  "field_decls tunnel_auth_ENCODED_NODE =
    [\<lparr>fd_name = ''accountTag'', fd_tag = None, fd_offset = Some 0,
       fd_type = Some TyText, fd_default = None\<rparr>,
     \<lparr>fd_name = ''tunnelSecret'', fd_tag = None, fd_offset = Some 1,
       fd_type = Some TyData, fd_default = None\<rparr>]"
  by (simp add: reader_simps tunnel_auth_ENCODED_NODE_def [THEN table_lookup] char_of_eq_iff cong: reader_congs)

lemma tunnel_auth_node:
  "node_id tunnel_auth_ENCODED_NODE = tunnel_auth_TYPE_ID" "node_struct_size tunnel_auth_ENCODED_NODE = tunnel_auth_STRUCT_SIZE"
  "node_tag_count tunnel_auth_ENCODED_NODE = 0" "node_discriminant_offset tunnel_auth_ENCODED_NODE = 0"
  by (simp_all add: node_id_def node_struct_size_def node_tag_count_def node_discriminant_offset_def u16_at_def u32_at_def le_def
      tunnel_auth_ENCODED_NODE_def tunnel_auth_TYPE_ID_def tunnel_auth_STRUCT_SIZE_def)

lemma register_connection_params_decls:
  "field_decls register_connection_params_ENCODED_NODE =
    [\<lparr>fd_name = ''auth'', fd_tag = None, fd_offset = Some 0,
       fd_type = Some (TyStruct 10706801353999337023), fd_default = None\<rparr>,
     \<lparr>fd_name = ''tunnelId'', fd_tag = None, fd_offset = Some 1,
       fd_type = Some TyData, fd_default = None\<rparr>,
     \<lparr>fd_name = ''connIndex'', fd_tag = None, fd_offset = Some 0,
       fd_type = Some TyUInt8, fd_default = None\<rparr>,
     \<lparr>fd_name = ''options'', fd_tag = None, fd_offset = Some 2,
       fd_type = Some (TyStruct 13024296194019646724), fd_default = None\<rparr>]"
  by (simp add: reader_simps register_connection_params_ENCODED_NODE_def [THEN table_lookup] char_of_eq_iff cong: reader_congs)

lemma register_connection_params_node:
  "node_id register_connection_params_ENCODED_NODE = register_connection_params_TYPE_ID" "node_struct_size register_connection_params_ENCODED_NODE = register_connection_params_STRUCT_SIZE"
  "node_tag_count register_connection_params_ENCODED_NODE = 0" "node_discriminant_offset register_connection_params_ENCODED_NODE = 0"
  by (simp_all add: node_id_def node_struct_size_def node_tag_count_def node_discriminant_offset_def u16_at_def u32_at_def le_def
      register_connection_params_ENCODED_NODE_def register_connection_params_TYPE_ID_def register_connection_params_STRUCT_SIZE_def)

lemma register_connection_results_decls:
  "field_decls register_connection_results_ENCODED_NODE =
    [\<lparr>fd_name = ''result'', fd_tag = None, fd_offset = Some 0,
       fd_type = Some (TyStruct 15828636480133882588), fd_default = None\<rparr>]"
  by (simp add: reader_simps register_connection_results_ENCODED_NODE_def [THEN table_lookup] char_of_eq_iff cong: reader_congs)

lemma register_connection_results_node:
  "node_id register_connection_results_ENCODED_NODE = register_connection_results_TYPE_ID" "node_struct_size register_connection_results_ENCODED_NODE = register_connection_results_STRUCT_SIZE"
  "node_tag_count register_connection_results_ENCODED_NODE = 0" "node_discriminant_offset register_connection_results_ENCODED_NODE = 0"
  by (simp_all add: node_id_def node_struct_size_def node_tag_count_def node_discriminant_offset_def u16_at_def u32_at_def le_def
      register_connection_results_ENCODED_NODE_def register_connection_results_TYPE_ID_def register_connection_results_STRUCT_SIZE_def)

lemma unregister_connection_params_decls:
  "field_decls unregister_connection_params_ENCODED_NODE =
    []"
  by (simp add: reader_simps unregister_connection_params_ENCODED_NODE_def [THEN table_lookup] char_of_eq_iff cong: reader_congs)

lemma unregister_connection_params_node:
  "node_id unregister_connection_params_ENCODED_NODE = unregister_connection_params_TYPE_ID" "node_struct_size unregister_connection_params_ENCODED_NODE = unregister_connection_params_STRUCT_SIZE"
  "node_tag_count unregister_connection_params_ENCODED_NODE = 0" "node_discriminant_offset unregister_connection_params_ENCODED_NODE = 0"
  by (simp_all add: node_id_def node_struct_size_def node_tag_count_def node_discriminant_offset_def u16_at_def u32_at_def le_def
      unregister_connection_params_ENCODED_NODE_def unregister_connection_params_TYPE_ID_def unregister_connection_params_STRUCT_SIZE_def)

lemma unregister_connection_results_decls:
  "field_decls unregister_connection_results_ENCODED_NODE =
    []"
  by (simp add: reader_simps unregister_connection_results_ENCODED_NODE_def [THEN table_lookup] char_of_eq_iff cong: reader_congs)

lemma unregister_connection_results_node:
  "node_id unregister_connection_results_ENCODED_NODE = unregister_connection_results_TYPE_ID" "node_struct_size unregister_connection_results_ENCODED_NODE = unregister_connection_results_STRUCT_SIZE"
  "node_tag_count unregister_connection_results_ENCODED_NODE = 0" "node_discriminant_offset unregister_connection_results_ENCODED_NODE = 0"
  by (simp_all add: node_id_def node_struct_size_def node_tag_count_def node_discriminant_offset_def u16_at_def u32_at_def le_def
      unregister_connection_results_ENCODED_NODE_def unregister_connection_results_TYPE_ID_def unregister_connection_results_STRUCT_SIZE_def)

lemma update_local_configuration_params_decls:
  "field_decls update_local_configuration_params_ENCODED_NODE =
    [\<lparr>fd_name = ''config'', fd_tag = None, fd_offset = Some 0,
       fd_type = Some TyData, fd_default = None\<rparr>]"
  by (simp add: reader_simps update_local_configuration_params_ENCODED_NODE_def [THEN table_lookup] char_of_eq_iff cong: reader_congs)

lemma update_local_configuration_params_node:
  "node_id update_local_configuration_params_ENCODED_NODE = update_local_configuration_params_TYPE_ID" "node_struct_size update_local_configuration_params_ENCODED_NODE = update_local_configuration_params_STRUCT_SIZE"
  "node_tag_count update_local_configuration_params_ENCODED_NODE = 0" "node_discriminant_offset update_local_configuration_params_ENCODED_NODE = 0"
  by (simp_all add: node_id_def node_struct_size_def node_tag_count_def node_discriminant_offset_def u16_at_def u32_at_def le_def
      update_local_configuration_params_ENCODED_NODE_def update_local_configuration_params_TYPE_ID_def update_local_configuration_params_STRUCT_SIZE_def)

lemma update_local_configuration_results_decls:
  "field_decls update_local_configuration_results_ENCODED_NODE =
    []"
  by (simp add: reader_simps update_local_configuration_results_ENCODED_NODE_def [THEN table_lookup] char_of_eq_iff cong: reader_congs)

lemma update_local_configuration_results_node:
  "node_id update_local_configuration_results_ENCODED_NODE = update_local_configuration_results_TYPE_ID" "node_struct_size update_local_configuration_results_ENCODED_NODE = update_local_configuration_results_STRUCT_SIZE"
  "node_tag_count update_local_configuration_results_ENCODED_NODE = 0" "node_discriminant_offset update_local_configuration_results_ENCODED_NODE = 0"
  by (simp_all add: node_id_def node_struct_size_def node_tag_count_def node_discriminant_offset_def u16_at_def u32_at_def le_def
      update_local_configuration_results_ENCODED_NODE_def update_local_configuration_results_TYPE_ID_def update_local_configuration_results_STRUCT_SIZE_def)

lemma register_udp_session_response_decls:
  "field_decls register_udp_session_response_ENCODED_NODE =
    [\<lparr>fd_name = ''err'', fd_tag = None, fd_offset = Some 0,
       fd_type = Some TyText, fd_default = None\<rparr>,
     \<lparr>fd_name = ''spans'', fd_tag = None, fd_offset = Some 1,
       fd_type = Some TyData, fd_default = None\<rparr>]"
  by (simp add: reader_simps register_udp_session_response_ENCODED_NODE_def [THEN table_lookup] char_of_eq_iff cong: reader_congs)

lemma register_udp_session_response_node:
  "node_id register_udp_session_response_ENCODED_NODE = register_udp_session_response_TYPE_ID" "node_struct_size register_udp_session_response_ENCODED_NODE = register_udp_session_response_STRUCT_SIZE"
  "node_tag_count register_udp_session_response_ENCODED_NODE = 0" "node_discriminant_offset register_udp_session_response_ENCODED_NODE = 0"
  by (simp_all add: node_id_def node_struct_size_def node_tag_count_def node_discriminant_offset_def u16_at_def u32_at_def le_def
      register_udp_session_response_ENCODED_NODE_def register_udp_session_response_TYPE_ID_def register_udp_session_response_STRUCT_SIZE_def)

lemma register_udp_session_params_decls:
  "field_decls register_udp_session_params_ENCODED_NODE =
    [\<lparr>fd_name = ''sessionId'', fd_tag = None, fd_offset = Some 0,
       fd_type = Some TyData, fd_default = None\<rparr>,
     \<lparr>fd_name = ''dstIp'', fd_tag = None, fd_offset = Some 1,
       fd_type = Some TyData, fd_default = None\<rparr>,
     \<lparr>fd_name = ''dstPort'', fd_tag = None, fd_offset = Some 0,
       fd_type = Some TyUInt16, fd_default = None\<rparr>,
     \<lparr>fd_name = ''closeAfterIdleHint'', fd_tag = None, fd_offset = Some 1,
       fd_type = Some TyInt64, fd_default = None\<rparr>,
     \<lparr>fd_name = ''traceContext'', fd_tag = None, fd_offset = Some 2,
       fd_type = Some TyText, fd_default = Some ''''\<rparr>]"
  by (simp add: reader_simps register_udp_session_params_ENCODED_NODE_def [THEN table_lookup] char_of_eq_iff cong: reader_congs)

lemma register_udp_session_params_node:
  "node_id register_udp_session_params_ENCODED_NODE = register_udp_session_params_TYPE_ID" "node_struct_size register_udp_session_params_ENCODED_NODE = register_udp_session_params_STRUCT_SIZE"
  "node_tag_count register_udp_session_params_ENCODED_NODE = 0" "node_discriminant_offset register_udp_session_params_ENCODED_NODE = 0"
  by (simp_all add: node_id_def node_struct_size_def node_tag_count_def node_discriminant_offset_def u16_at_def u32_at_def le_def
      register_udp_session_params_ENCODED_NODE_def register_udp_session_params_TYPE_ID_def register_udp_session_params_STRUCT_SIZE_def)

lemma register_udp_session_results_decls:
  "field_decls register_udp_session_results_ENCODED_NODE =
    [\<lparr>fd_name = ''result'', fd_tag = None, fd_offset = Some 0,
       fd_type = Some (TyStruct 12352619584873981575), fd_default = None\<rparr>]"
  by (simp add: reader_simps register_udp_session_results_ENCODED_NODE_def [THEN table_lookup] char_of_eq_iff cong: reader_congs)

lemma register_udp_session_results_node:
  "node_id register_udp_session_results_ENCODED_NODE = register_udp_session_results_TYPE_ID" "node_struct_size register_udp_session_results_ENCODED_NODE = register_udp_session_results_STRUCT_SIZE"
  "node_tag_count register_udp_session_results_ENCODED_NODE = 0" "node_discriminant_offset register_udp_session_results_ENCODED_NODE = 0"
  by (simp_all add: node_id_def node_struct_size_def node_tag_count_def node_discriminant_offset_def u16_at_def u32_at_def le_def
      register_udp_session_results_ENCODED_NODE_def register_udp_session_results_TYPE_ID_def register_udp_session_results_STRUCT_SIZE_def)

lemma unregister_udp_session_params_decls:
  "field_decls unregister_udp_session_params_ENCODED_NODE =
    [\<lparr>fd_name = ''sessionId'', fd_tag = None, fd_offset = Some 0,
       fd_type = Some TyData, fd_default = None\<rparr>,
     \<lparr>fd_name = ''message'', fd_tag = None, fd_offset = Some 1,
       fd_type = Some TyText, fd_default = None\<rparr>]"
  by (simp add: reader_simps unregister_udp_session_params_ENCODED_NODE_def [THEN table_lookup] char_of_eq_iff cong: reader_congs)

lemma unregister_udp_session_params_node:
  "node_id unregister_udp_session_params_ENCODED_NODE = unregister_udp_session_params_TYPE_ID" "node_struct_size unregister_udp_session_params_ENCODED_NODE = unregister_udp_session_params_STRUCT_SIZE"
  "node_tag_count unregister_udp_session_params_ENCODED_NODE = 0" "node_discriminant_offset unregister_udp_session_params_ENCODED_NODE = 0"
  by (simp_all add: node_id_def node_struct_size_def node_tag_count_def node_discriminant_offset_def u16_at_def u32_at_def le_def
      unregister_udp_session_params_ENCODED_NODE_def unregister_udp_session_params_TYPE_ID_def unregister_udp_session_params_STRUCT_SIZE_def)

lemma unregister_udp_session_results_decls:
  "field_decls unregister_udp_session_results_ENCODED_NODE =
    []"
  by (simp add: reader_simps unregister_udp_session_results_ENCODED_NODE_def [THEN table_lookup] char_of_eq_iff cong: reader_congs)

lemma unregister_udp_session_results_node:
  "node_id unregister_udp_session_results_ENCODED_NODE = unregister_udp_session_results_TYPE_ID" "node_struct_size unregister_udp_session_results_ENCODED_NODE = unregister_udp_session_results_STRUCT_SIZE"
  "node_tag_count unregister_udp_session_results_ENCODED_NODE = 0" "node_discriminant_offset unregister_udp_session_results_ENCODED_NODE = 0"
  by (simp_all add: node_id_def node_struct_size_def node_tag_count_def node_discriminant_offset_def u16_at_def u32_at_def le_def
      unregister_udp_session_results_ENCODED_NODE_def unregister_udp_session_results_TYPE_ID_def unregister_udp_session_results_STRUCT_SIZE_def)

lemma update_configuration_response_decls:
  "field_decls update_configuration_response_ENCODED_NODE =
    [\<lparr>fd_name = ''latestAppliedVersion'', fd_tag = None, fd_offset = Some 0,
       fd_type = Some TyInt32, fd_default = None\<rparr>,
     \<lparr>fd_name = ''err'', fd_tag = None, fd_offset = Some 0,
       fd_type = Some TyText, fd_default = None\<rparr>]"
  by (simp add: reader_simps update_configuration_response_ENCODED_NODE_def [THEN table_lookup] char_of_eq_iff cong: reader_congs)

lemma update_configuration_response_node:
  "node_id update_configuration_response_ENCODED_NODE = update_configuration_response_TYPE_ID" "node_struct_size update_configuration_response_ENCODED_NODE = update_configuration_response_STRUCT_SIZE"
  "node_tag_count update_configuration_response_ENCODED_NODE = 0" "node_discriminant_offset update_configuration_response_ENCODED_NODE = 0"
  by (simp_all add: node_id_def node_struct_size_def node_tag_count_def node_discriminant_offset_def u16_at_def u32_at_def le_def
      update_configuration_response_ENCODED_NODE_def update_configuration_response_TYPE_ID_def update_configuration_response_STRUCT_SIZE_def)

lemma update_configuration_params_decls:
  "field_decls update_configuration_params_ENCODED_NODE =
    [\<lparr>fd_name = ''version'', fd_tag = None, fd_offset = Some 0,
       fd_type = Some TyInt32, fd_default = None\<rparr>,
     \<lparr>fd_name = ''config'', fd_tag = None, fd_offset = Some 0,
       fd_type = Some TyData, fd_default = None\<rparr>]"
  by (simp add: reader_simps update_configuration_params_ENCODED_NODE_def [THEN table_lookup] char_of_eq_iff cong: reader_congs)

lemma update_configuration_params_node:
  "node_id update_configuration_params_ENCODED_NODE = update_configuration_params_TYPE_ID" "node_struct_size update_configuration_params_ENCODED_NODE = update_configuration_params_STRUCT_SIZE"
  "node_tag_count update_configuration_params_ENCODED_NODE = 0" "node_discriminant_offset update_configuration_params_ENCODED_NODE = 0"
  by (simp_all add: node_id_def node_struct_size_def node_tag_count_def node_discriminant_offset_def u16_at_def u32_at_def le_def
      update_configuration_params_ENCODED_NODE_def update_configuration_params_TYPE_ID_def update_configuration_params_STRUCT_SIZE_def)

lemma update_configuration_results_decls:
  "field_decls update_configuration_results_ENCODED_NODE =
    [\<lparr>fd_name = ''result'', fd_tag = None, fd_offset = Some 0,
       fd_type = Some (TyStruct 15805663719962205433), fd_default = None\<rparr>]"
  by (simp add: reader_simps update_configuration_results_ENCODED_NODE_def [THEN table_lookup] char_of_eq_iff cong: reader_congs)

lemma update_configuration_results_node:
  "node_id update_configuration_results_ENCODED_NODE = update_configuration_results_TYPE_ID" "node_struct_size update_configuration_results_ENCODED_NODE = update_configuration_results_STRUCT_SIZE"
  "node_tag_count update_configuration_results_ENCODED_NODE = 0" "node_discriminant_offset update_configuration_results_ENCODED_NODE = 0"
  by (simp_all add: node_id_def node_struct_size_def node_tag_count_def node_discriminant_offset_def u16_at_def u32_at_def le_def
      update_configuration_results_ENCODED_NODE_def update_configuration_results_TYPE_ID_def update_configuration_results_STRUCT_SIZE_def)

lemmas all_decls =
  connect_request_decls metadata_decls connect_response_decls authentication_decls
  tunnel_registration_decls registration_options_decls server_info_decls
  authenticate_response_decls register_tunnel_params_decls register_tunnel_results_decls
  get_server_info_params_decls get_server_info_results_decls unregister_tunnel_params_decls
  unregister_tunnel_results_decls obsolete_declarative_tunnel_connect_params_decls
  obsolete_declarative_tunnel_connect_results_decls authenticate_params_decls
  authenticate_results_decls reconnect_tunnel_params_decls reconnect_tunnel_results_decls
  tag_decls client_info_decls connection_options_decls connection_response_decls
  response_result_decls connection_error_decls connection_details_decls tunnel_auth_decls
  register_connection_params_decls register_connection_results_decls
  unregister_connection_params_decls unregister_connection_results_decls
  update_local_configuration_params_decls update_local_configuration_results_decls
  register_udp_session_response_decls register_udp_session_params_decls
  register_udp_session_results_decls unregister_udp_session_params_decls
  unregister_udp_session_results_decls update_configuration_response_decls
  update_configuration_params_decls update_configuration_results_decls

lemmas all_nodes =
  connect_request_node metadata_node connect_response_node authentication_node
  tunnel_registration_node registration_options_node server_info_node authenticate_response_node
  register_tunnel_params_node register_tunnel_results_node get_server_info_params_node
  get_server_info_results_node unregister_tunnel_params_node unregister_tunnel_results_node
  obsolete_declarative_tunnel_connect_params_node
  obsolete_declarative_tunnel_connect_results_node authenticate_params_node
  authenticate_results_node reconnect_tunnel_params_node reconnect_tunnel_results_node tag_node
  client_info_node connection_options_node connection_response_node response_result_node
  connection_error_node connection_details_node tunnel_auth_node register_connection_params_node
  register_connection_results_node unregister_connection_params_node
  unregister_connection_results_node update_local_configuration_params_node
  update_local_configuration_results_node register_udp_session_response_node
  register_udp_session_params_node register_udp_session_results_node
  unregister_udp_session_params_node unregister_udp_session_results_node
  update_configuration_response_node update_configuration_params_node
  update_configuration_results_node

end
