(* ===== verification/Schema_Sound.thy ===== *)
theory Schema_Sound
  imports Schema_Layout Schema_Decls
begin

text \<open>
  The tables of every struct of both generated files are sound.
\<close>

lemmas sound_simps =
  struct_checks match_index_def upt_0_numeral type_id_defs annotation_type_defs all_nodes all_unannotated

lemma connect_request_sound: "struct_sound (connect_request_TYPE_ID, connect_request_STRUCT_SIZE, connect_request_introspect)"
  by (simp add: sound_simps connect_request_introspect_def connect_request_RAW_SCHEMA_def connect_request_get_field_types_def connect_request_STRUCT_SIZE_def connect_request_decls)

lemma metadata_sound: "struct_sound (metadata_TYPE_ID, metadata_STRUCT_SIZE, metadata_introspect)"
  by (simp add: sound_simps metadata_introspect_def metadata_RAW_SCHEMA_def metadata_get_field_types_def metadata_STRUCT_SIZE_def metadata_decls)

lemma connect_response_sound: "struct_sound (connect_response_TYPE_ID, connect_response_STRUCT_SIZE, connect_response_introspect)"
  by (simp add: sound_simps connect_response_introspect_def connect_response_RAW_SCHEMA_def connect_response_get_field_types_def connect_response_STRUCT_SIZE_def connect_response_decls)

lemma authentication_sound: "struct_sound (authentication_TYPE_ID, authentication_STRUCT_SIZE, authentication_introspect)"
  by (simp add: sound_simps authentication_introspect_def authentication_RAW_SCHEMA_def authentication_get_field_types_def authentication_STRUCT_SIZE_def authentication_decls)

lemma tunnel_registration_sound: "struct_sound (tunnel_registration_TYPE_ID, tunnel_registration_STRUCT_SIZE, tunnel_registration_introspect)"
  by (simp add: sound_simps tunnel_registration_introspect_def tunnel_registration_RAW_SCHEMA_def tunnel_registration_get_field_types_def tunnel_registration_STRUCT_SIZE_def tunnel_registration_decls)

lemma registration_options_sound: "struct_sound (registration_options_TYPE_ID, registration_options_STRUCT_SIZE, registration_options_introspect)"
  by (simp add: sound_simps registration_options_introspect_def registration_options_RAW_SCHEMA_def registration_options_get_field_types_def registration_options_STRUCT_SIZE_def registration_options_decls)

lemma server_info_sound: "struct_sound (server_info_TYPE_ID, server_info_STRUCT_SIZE, server_info_introspect)"
  by (simp add: sound_simps server_info_introspect_def server_info_RAW_SCHEMA_def server_info_get_field_types_def server_info_STRUCT_SIZE_def server_info_decls)

lemma authenticate_response_sound: "struct_sound (authenticate_response_TYPE_ID, authenticate_response_STRUCT_SIZE, authenticate_response_introspect)"
  by (simp add: sound_simps authenticate_response_introspect_def authenticate_response_RAW_SCHEMA_def authenticate_response_get_field_types_def authenticate_response_STRUCT_SIZE_def authenticate_response_decls)

lemma register_tunnel_params_sound: "struct_sound (register_tunnel_params_TYPE_ID, register_tunnel_params_STRUCT_SIZE, register_tunnel_params_introspect)"
  by (simp add: sound_simps register_tunnel_params_introspect_def register_tunnel_params_RAW_SCHEMA_def register_tunnel_params_get_field_types_def register_tunnel_params_STRUCT_SIZE_def register_tunnel_params_decls)

lemma register_tunnel_results_sound: "struct_sound (register_tunnel_results_TYPE_ID, register_tunnel_results_STRUCT_SIZE, register_tunnel_results_introspect)"
  by (simp add: sound_simps register_tunnel_results_introspect_def register_tunnel_results_RAW_SCHEMA_def register_tunnel_results_get_field_types_def register_tunnel_results_STRUCT_SIZE_def register_tunnel_results_decls)

lemma get_server_info_params_sound: "struct_sound (get_server_info_params_TYPE_ID, get_server_info_params_STRUCT_SIZE, get_server_info_params_introspect)"
  by (simp add: sound_simps get_server_info_params_introspect_def get_server_info_params_RAW_SCHEMA_def get_server_info_params_get_field_types_def get_server_info_params_STRUCT_SIZE_def get_server_info_params_decls)

lemma get_server_info_results_sound: "struct_sound (get_server_info_results_TYPE_ID, get_server_info_results_STRUCT_SIZE, get_server_info_results_introspect)"
  by (simp add: sound_simps get_server_info_results_introspect_def get_server_info_results_RAW_SCHEMA_def get_server_info_results_get_field_types_def get_server_info_results_STRUCT_SIZE_def get_server_info_results_decls)

lemma unregister_tunnel_params_sound: "struct_sound (unregister_tunnel_params_TYPE_ID, unregister_tunnel_params_STRUCT_SIZE, unregister_tunnel_params_introspect)"
  by (simp add: sound_simps unregister_tunnel_params_introspect_def unregister_tunnel_params_RAW_SCHEMA_def unregister_tunnel_params_get_field_types_def unregister_tunnel_params_STRUCT_SIZE_def unregister_tunnel_params_decls)

lemma unregister_tunnel_results_sound: "struct_sound (unregister_tunnel_results_TYPE_ID, unregister_tunnel_results_STRUCT_SIZE, unregister_tunnel_results_introspect)"
  by (simp add: sound_simps unregister_tunnel_results_introspect_def unregister_tunnel_results_RAW_SCHEMA_def unregister_tunnel_results_get_field_types_def unregister_tunnel_results_STRUCT_SIZE_def unregister_tunnel_results_decls)

lemma obsolete_declarative_tunnel_connect_params_sound: "struct_sound (obsolete_declarative_tunnel_connect_params_TYPE_ID, obsolete_declarative_tunnel_connect_params_STRUCT_SIZE, obsolete_declarative_tunnel_connect_params_introspect)"
  by (simp add: sound_simps obsolete_declarative_tunnel_connect_params_introspect_def obsolete_declarative_tunnel_connect_params_RAW_SCHEMA_def obsolete_declarative_tunnel_connect_params_get_field_types_def obsolete_declarative_tunnel_connect_params_STRUCT_SIZE_def obsolete_declarative_tunnel_connect_params_decls)

lemma obsolete_declarative_tunnel_connect_results_sound: "struct_sound (obsolete_declarative_tunnel_connect_results_TYPE_ID, obsolete_declarative_tunnel_connect_results_STRUCT_SIZE, obsolete_declarative_tunnel_connect_results_introspect)"
  by (simp add: sound_simps obsolete_declarative_tunnel_connect_results_introspect_def obsolete_declarative_tunnel_connect_results_RAW_SCHEMA_def obsolete_declarative_tunnel_connect_results_get_field_types_def obsolete_declarative_tunnel_connect_results_STRUCT_SIZE_def obsolete_declarative_tunnel_connect_results_decls)

lemma authenticate_params_sound: "struct_sound (authenticate_params_TYPE_ID, authenticate_params_STRUCT_SIZE, authenticate_params_introspect)"
  by (simp add: sound_simps authenticate_params_introspect_def authenticate_params_RAW_SCHEMA_def authenticate_params_get_field_types_def authenticate_params_STRUCT_SIZE_def authenticate_params_decls)

lemma authenticate_results_sound: "struct_sound (authenticate_results_TYPE_ID, authenticate_results_STRUCT_SIZE, authenticate_results_introspect)"
  by (simp add: sound_simps authenticate_results_introspect_def authenticate_results_RAW_SCHEMA_def authenticate_results_get_field_types_def authenticate_results_STRUCT_SIZE_def authenticate_results_decls)

lemma reconnect_tunnel_params_sound: "struct_sound (reconnect_tunnel_params_TYPE_ID, reconnect_tunnel_params_STRUCT_SIZE, reconnect_tunnel_params_introspect)"
  by (simp add: sound_simps reconnect_tunnel_params_introspect_def reconnect_tunnel_params_RAW_SCHEMA_def reconnect_tunnel_params_get_field_types_def reconnect_tunnel_params_STRUCT_SIZE_def reconnect_tunnel_params_decls)

lemma reconnect_tunnel_results_sound: "struct_sound (reconnect_tunnel_results_TYPE_ID, reconnect_tunnel_results_STRUCT_SIZE, reconnect_tunnel_results_introspect)"
  by (simp add: sound_simps reconnect_tunnel_results_introspect_def reconnect_tunnel_results_RAW_SCHEMA_def reconnect_tunnel_results_get_field_types_def reconnect_tunnel_results_STRUCT_SIZE_def reconnect_tunnel_results_decls)

lemma tag_sound: "struct_sound (tag_TYPE_ID, tag_STRUCT_SIZE, tag_introspect)"
  by (simp add: sound_simps tag_introspect_def tag_RAW_SCHEMA_def tag_get_field_types_def tag_STRUCT_SIZE_def tag_decls)

lemma client_info_sound: "struct_sound (client_info_TYPE_ID, client_info_STRUCT_SIZE, client_info_introspect)"
  by (simp add: sound_simps client_info_introspect_def client_info_RAW_SCHEMA_def client_info_get_field_types_def client_info_STRUCT_SIZE_def client_info_decls)

lemma connection_options_sound: "struct_sound (connection_options_TYPE_ID, connection_options_STRUCT_SIZE, connection_options_introspect)"
  by (simp add: sound_simps connection_options_introspect_def connection_options_RAW_SCHEMA_def connection_options_get_field_types_def connection_options_STRUCT_SIZE_def connection_options_decls)

lemma connection_response_sound: "struct_sound (connection_response_TYPE_ID, connection_response_STRUCT_SIZE, connection_response_introspect)"
  by (simp add: sound_simps connection_response_introspect_def connection_response_RAW_SCHEMA_def connection_response_get_field_types_def connection_response_STRUCT_SIZE_def connection_response_decls)

lemma response_result_sound: "struct_sound (response_result_TYPE_ID, response_result_STRUCT_SIZE, response_result_introspect)"
  by (simp add: sound_simps response_result_introspect_def response_result_RAW_SCHEMA_def response_result_get_field_types_def response_result_STRUCT_SIZE_def response_result_decls)

lemma connection_error_sound: "struct_sound (connection_error_TYPE_ID, connection_error_STRUCT_SIZE, connection_error_introspect)"
  by (simp add: sound_simps connection_error_introspect_def connection_error_RAW_SCHEMA_def connection_error_get_field_types_def connection_error_STRUCT_SIZE_def connection_error_decls)

lemma connection_details_sound: "struct_sound (connection_details_TYPE_ID, connection_details_STRUCT_SIZE, connection_details_introspect)"
  by (simp add: sound_simps connection_details_introspect_def connection_details_RAW_SCHEMA_def connection_details_get_field_types_def connection_details_STRUCT_SIZE_def connection_details_decls)

lemma tunnel_auth_sound: "struct_sound (tunnel_auth_TYPE_ID, tunnel_auth_STRUCT_SIZE, tunnel_auth_introspect)"
  by (simp add: sound_simps tunnel_auth_introspect_def tunnel_auth_RAW_SCHEMA_def tunnel_auth_get_field_types_def tunnel_auth_STRUCT_SIZE_def tunnel_auth_decls)

lemma register_connection_params_sound: "struct_sound (register_connection_params_TYPE_ID, register_connection_params_STRUCT_SIZE, register_connection_params_introspect)"
  by (simp add: sound_simps register_connection_params_introspect_def register_connection_params_RAW_SCHEMA_def register_connection_params_get_field_types_def register_connection_params_STRUCT_SIZE_def register_connection_params_decls)

lemma register_connection_results_sound: "struct_sound (register_connection_results_TYPE_ID, register_connection_results_STRUCT_SIZE, register_connection_results_introspect)"
  by (simp add: sound_simps register_connection_results_introspect_def register_connection_results_RAW_SCHEMA_def register_connection_results_get_field_types_def register_connection_results_STRUCT_SIZE_def register_connection_results_decls)

lemma unregister_connection_params_sound: "struct_sound (unregister_connection_params_TYPE_ID, unregister_connection_params_STRUCT_SIZE, unregister_connection_params_introspect)"
  by (simp add: sound_simps unregister_connection_params_introspect_def unregister_connection_params_RAW_SCHEMA_def unregister_connection_params_get_field_types_def unregister_connection_params_STRUCT_SIZE_def unregister_connection_params_decls)

lemma unregister_connection_results_sound: "struct_sound (unregister_connection_results_TYPE_ID, unregister_connection_results_STRUCT_SIZE, unregister_connection_results_introspect)"
  by (simp add: sound_simps unregister_connection_results_introspect_def unregister_connection_results_RAW_SCHEMA_def unregister_connection_results_get_field_types_def unregister_connection_results_STRUCT_SIZE_def unregister_connection_results_decls)

lemma update_local_configuration_params_sound: "struct_sound (update_local_configuration_params_TYPE_ID, update_local_configuration_params_STRUCT_SIZE, update_local_configuration_params_introspect)"
  by (simp add: sound_simps update_local_configuration_params_introspect_def update_local_configuration_params_RAW_SCHEMA_def update_local_configuration_params_get_field_types_def update_local_configuration_params_STRUCT_SIZE_def update_local_configuration_params_decls)

lemma update_local_configuration_results_sound: "struct_sound (update_local_configuration_results_TYPE_ID, update_local_configuration_results_STRUCT_SIZE, update_local_configuration_results_introspect)"
  by (simp add: sound_simps update_local_configuration_results_introspect_def update_local_configuration_results_RAW_SCHEMA_def update_local_configuration_results_get_field_types_def update_local_configuration_results_STRUCT_SIZE_def update_local_configuration_results_decls)

lemma register_udp_session_response_sound: "struct_sound (register_udp_session_response_TYPE_ID, register_udp_session_response_STRUCT_SIZE, register_udp_session_response_introspect)"
  by (simp add: sound_simps register_udp_session_response_introspect_def register_udp_session_response_RAW_SCHEMA_def register_udp_session_response_get_field_types_def register_udp_session_response_STRUCT_SIZE_def register_udp_session_response_decls)

lemma register_udp_session_params_sound: "struct_sound (register_udp_session_params_TYPE_ID, register_udp_session_params_STRUCT_SIZE, register_udp_session_params_introspect)"
  by (simp add: sound_simps register_udp_session_params_introspect_def register_udp_session_params_RAW_SCHEMA_def register_udp_session_params_get_field_types_def register_udp_session_params_STRUCT_SIZE_def register_udp_session_params_decls)

lemma register_udp_session_results_sound: "struct_sound (register_udp_session_results_TYPE_ID, register_udp_session_results_STRUCT_SIZE, register_udp_session_results_introspect)"
  by (simp add: sound_simps register_udp_session_results_introspect_def register_udp_session_results_RAW_SCHEMA_def register_udp_session_results_get_field_types_def register_udp_session_results_STRUCT_SIZE_def register_udp_session_results_decls)

lemma unregister_udp_session_params_sound: "struct_sound (unregister_udp_session_params_TYPE_ID, unregister_udp_session_params_STRUCT_SIZE, unregister_udp_session_params_introspect)"
  by (simp add: sound_simps unregister_udp_session_params_introspect_def unregister_udp_session_params_RAW_SCHEMA_def unregister_udp_session_params_get_field_types_def unregister_udp_session_params_STRUCT_SIZE_def unregister_udp_session_params_decls)

lemma unregister_udp_session_results_sound: "struct_sound (unregister_udp_session_results_TYPE_ID, unregister_udp_session_results_STRUCT_SIZE, unregister_udp_session_results_introspect)"
  by (simp add: sound_simps unregister_udp_session_results_introspect_def unregister_udp_session_results_RAW_SCHEMA_def unregister_udp_session_results_get_field_types_def unregister_udp_session_results_STRUCT_SIZE_def unregister_udp_session_results_decls)

lemma update_configuration_response_sound: "struct_sound (update_configuration_response_TYPE_ID, update_configuration_response_STRUCT_SIZE, update_configuration_response_introspect)"
  by (simp add: sound_simps update_configuration_response_introspect_def update_configuration_response_RAW_SCHEMA_def update_configuration_response_get_field_types_def update_configuration_response_STRUCT_SIZE_def update_configuration_response_decls)

lemma update_configuration_params_sound: "struct_sound (update_configuration_params_TYPE_ID, update_configuration_params_STRUCT_SIZE, update_configuration_params_introspect)"
  by (simp add: sound_simps update_configuration_params_introspect_def update_configuration_params_RAW_SCHEMA_def update_configuration_params_get_field_types_def update_configuration_params_STRUCT_SIZE_def update_configuration_params_decls)

lemma update_configuration_results_sound: "struct_sound (update_configuration_results_TYPE_ID, update_configuration_results_STRUCT_SIZE, update_configuration_results_introspect)"
  by (simp add: sound_simps update_configuration_results_introspect_def update_configuration_results_RAW_SCHEMA_def update_configuration_results_get_field_types_def update_configuration_results_STRUCT_SIZE_def update_configuration_results_decls)

lemmas all_sound =
  connect_request_sound metadata_sound connect_response_sound authentication_sound
  tunnel_registration_sound registration_options_sound server_info_sound
  authenticate_response_sound register_tunnel_params_sound register_tunnel_results_sound
  get_server_info_params_sound get_server_info_results_sound unregister_tunnel_params_sound
  unregister_tunnel_results_sound obsolete_declarative_tunnel_connect_params_sound
  obsolete_declarative_tunnel_connect_results_sound authenticate_params_sound
  authenticate_results_sound reconnect_tunnel_params_sound reconnect_tunnel_results_sound
  tag_sound client_info_sound connection_options_sound connection_response_sound
  response_result_sound connection_error_sound connection_details_sound tunnel_auth_sound
  register_connection_params_sound register_connection_results_sound
  unregister_connection_params_sound unregister_connection_results_sound
  update_local_configuration_params_sound update_local_configuration_results_sound
  register_udp_session_response_sound register_udp_session_params_sound
  register_udp_session_results_sound unregister_udp_session_params_sound
  unregister_udp_session_results_sound update_configuration_response_sound
  update_configuration_params_sound update_configuration_results_sound

lemma structs_sound: "list_all struct_sound all_structs"
  by (simp only: all_structs_def list.pred_inject all_sound simp_thms)

section \<open>Enums\<close>

text \<open>An enumerant is a data word and two pointers, the first to its name.\<close>

definition node_enumerants :: "encoded_node \<Rightarrow> string list" where
  "node_enumerants node =
     map (\<lambda>i. string_at node (ptr_target node 9 + 2 + 3 * i)) [0..<u32_at node (ptr_target node 9) 0 div 4]"

lemmas enum_simps = node_enumerants_def node_id_def reader_simps char_of_eq_iff type_id_defs

lemma connection_type_node:
  "node_id (enum_node connection_type_introspect) = connection_type_TYPE_ID"
  "node_enumerants (enum_node connection_type_introspect) = [''http'', ''websocket'', ''tcp'']"
  by (simp_all add: enum_simps connection_type_introspect_def
      connection_type_ENCODED_NODE_def [THEN table_lookup] cong: reader_congs)

lemma existing_tunnel_policy_node:
  "node_id (enum_node existing_tunnel_policy_introspect) = existing_tunnel_policy_TYPE_ID"
  "node_enumerants (enum_node existing_tunnel_policy_introspect) = [''ignore'', ''disconnect'', ''balance'']"
  by (simp_all add: enum_simps existing_tunnel_policy_introspect_def
      existing_tunnel_policy_ENCODED_NODE_def [THEN table_lookup] cong: reader_congs)

section \<open>Properties\<close>

text \<open>C10: Every struct of both generated files has sound introspection tables: its type id and the size its
  builder allocates are those of its encoded node; \<open>get_field_types\<close> gives the declared types and
  panics beyond them, \<open>get_annotation_types\<close> panics everywhere, as no node declares an annotation; the member lists split the fields into those outside and inside the union, order
  the latter by tag, and hold every field once in the order of the names; all slots lie in the struct
  and no two overlap unless both are members of the union, whose tag is a place of its own. No two
  structs have the same id.\<close>

theorem introspection_sound:
  "list_all struct_sound all_structs \<and> length all_structs = 42 \<and> distinct (map fst all_structs)"
proof (intro conjI)
  show "list_all struct_sound all_structs" by (rule structs_sound)
  show "length all_structs = 42" by (simp add: all_structs_def)
  show "distinct (map fst all_structs)" by (simp add: all_structs_def type_id_defs)
qed

lemma all_sound_layout:
  assumes "(tid, sz, b) \<in> set all_structs"
  shows "layout_ok sz (node_discriminant_offset (encoded_node (generic b))) (field_decls (encoded_node (generic b)))"
  using assms structs_sound by (auto simp: list_all_iff struct_sound_def)

end
