(* ===== verification/Schema_Accessors.thy ===== *)
theory Schema_Accessors
  imports Schema_Sound
begin

text \<open>
  The generated accessors of every struct, collected in rows, and the rows that its schema gives: the
  getters of the fields outside unions, all setters, the \<open>has_\<close> tests and the initialisers. They are the
  same, so the generated code reads and writes what the encoded schema says.
\<close>

section \<open>Rows\<close>

text \<open>An argument of each type a setter may have, and what an initialiser's caller gives.\<close>

record 's accessor_args =
  a_bool :: bool
  a_u8 :: u8
  a_u16 :: u16
  a_u64 :: u64
  a_i32 :: int
  a_i64 :: int
  a_connection_type :: wire_connection_type
  a_policy :: existing_tunnel_policy
  a_text :: string
  a_data :: bytes
  a_texts :: "string list"
  a_struct :: 's
  a_structs :: "'s list"
  i_n :: nat
  i_bytes :: "bytes \<Rightarrow> bytes"
  i_texts :: "string list \<Rightarrow> string list"
  i_struct :: "'s \<Rightarrow> 's"
  i_structs :: "'s list \<Rightarrow> 's list"

record 's accessor_rows =
  getters :: "(string \<times> 's dyn_value option) list"
  setters :: "(string \<times> 's option) list"
  presences :: "(string \<times> bool) list"
  initialisers :: "(string \<times> 's option) list"

definition arg_enum :: "'s accessor_args \<Rightarrow> nat \<Rightarrow> nat" where
  "arg_enum a e =
     (if e = connection_type_TYPE_ID then connection_type_into (a_connection_type a)
      else existing_tunnel_policy_into (a_policy a))"

fun arg_value :: "'s accessor_args \<Rightarrow> introspect_type \<Rightarrow> 's dyn_value" where
  "arg_value a TyBool = DynBool (a_bool a)"
| "arg_value a TyUInt8 = DynUInt8 (a_u8 a)"
| "arg_value a TyUInt16 = DynUInt16 (a_u16 a)"
| "arg_value a TyUInt64 = DynUInt64 (a_u64 a)"
| "arg_value a TyInt32 = DynInt32 (a_i32 a)"
| "arg_value a TyInt64 = DynInt64 (a_i64 a)"
| "arg_value a TyText = DynText (Inr (a_text a))"
| "arg_value a TyData = DynData (Inr (a_data a))"
| "arg_value a (TyStruct t) = DynStruct (Inr (a_struct a))"
| "arg_value a (TyEnum e) = DynEnum (arg_enum a e)"
| "arg_value a (TyList t) = (if t = TyText then DynTexts (Inr (a_texts a)) else DynStructs (Inr (a_structs a)))"

text \<open>What an initialiser stores: zeroes, empty texts, or fresh structs of the size of their type, as filled.\<close>

definition size_of_struct :: "nat \<Rightarrow> nat \<times> nat" where
  "size_of_struct t = the (map_of (map (\<lambda>(tid, sz, b). (tid, sz)) all_structs) t)"

definition fresh_struct :: "('s, 'p) capnp \<Rightarrow> nat \<Rightarrow> 's" where
  "fresh_struct c t = new_struct c (fst (size_of_struct t)) (snd (size_of_struct t))"

fun init_value :: "('s, 'p) capnp \<Rightarrow> 's accessor_args \<Rightarrow> introspect_type \<Rightarrow> 's dyn_value" where
  "init_value c a TyText = DynText (Inr (i_bytes a (replicate (i_n a) (CHR 0x00))))"
| "init_value c a TyData = DynData (Inr (i_bytes a (replicate (i_n a) (CHR 0x00))))"
| "init_value c a (TyStruct t) = DynStruct (Inr (i_struct a (fresh_struct c t)))"
| "init_value c a (TyList t) =
     (case t of
        TyStruct e \<Rightarrow> DynStructs (Inr (i_structs a (replicate (i_n a) (fresh_struct c e))))
      | _ \<Rightarrow> DynTexts (Inr (i_texts a (replicate (i_n a) []))))"
| "init_value c a _ = DynBool False"

definition is_pointer :: "field_decl \<Rightarrow> bool" where
  "is_pointer d = (fd_offset d \<noteq> None \<and> Option.bind (fd_type d) type_width = None)"

definition schema_accessors :: "('s, 'p) capnp \<Rightarrow> branded_schema \<Rightarrow> 's accessor_args \<Rightarrow> 's \<Rightarrow> 's accessor_rows" where
  "schema_accessors c b a s =
     (let node = encoded_node (generic b); ds = field_decls node; tag_at = node_discriminant_offset node in
      \<lparr>getters = map (\<lambda>d. (fd_name d, get_decl c d s)) (filter (\<lambda>d. \<not> in_union d) ds),
       setters = map (\<lambda>d. (fd_name d, set_decl c tag_at d (arg_value a (the (fd_type d))) s))
         (filter (\<lambda>d. fd_offset d \<noteq> None) ds),
       presences = map (\<lambda>d. (fd_name d, decl_present c d s)) (filter (\<lambda>d. is_pointer d \<and> \<not> in_union d) ds),
       initialisers = map (\<lambda>d. (fd_name d, set_decl c tag_at d (init_value c a (the (fd_type d))) s))
         (filter is_pointer ds)\<rparr>)"

text \<open>The raw value behind what an enum's getter returns.\<close>

definition enum_raw :: "('e \<Rightarrow> nat) \<Rightarrow> nat + 'e \<Rightarrow> nat" where
  "enum_raw into r = (case r of Inl n \<Rightarrow> n | Inr e \<Rightarrow> into e)"

lemma enum_raw_try_from:
  "enum_raw connection_type_into (connection_type_try_from n) = n"
  "enum_raw existing_tunnel_policy_into (existing_tunnel_policy_try_from n) = n"
  by (auto simp: enum_raw_def connection_type_try_from_def existing_tunnel_policy_try_from_def)

lemma default_trace_context: "text_at register_udp_session_params_DEFAULT_TRACE_CONTEXT 0 = []"
  by (simp add: text_at_def register_udp_session_params_DEFAULT_TRACE_CONTEXT_def u32_at_def ptr_target_def le_def Let_def)

lemma sizes_of_structs:
  "size_of_struct 9422416216574798437 = authenticate_response_STRUCT_SIZE"
  "size_of_struct 9497757450018689355 = client_info_STRUCT_SIZE"
  "size_of_struct 10706801353999337023 = tunnel_auth_STRUCT_SIZE"
  "size_of_struct 10931298159185720866 = response_result_STRUCT_SIZE"
  "size_of_struct 12352619584873981575 = register_udp_session_response_STRUCT_SIZE"
  "size_of_struct 13024296194019646724 = connection_options_STRUCT_SIZE"
  "size_of_struct 13110997797645762954 = connection_details_STRUCT_SIZE"
  "size_of_struct 14381089847220853578 = registration_options_STRUCT_SIZE"
  "size_of_struct 14688881897199349786 = tag_STRUCT_SIZE"
  "size_of_struct 15805663719962205433 = update_configuration_response_STRUCT_SIZE"
  "size_of_struct 15828636480133882588 = connection_response_STRUCT_SIZE"
  "size_of_struct 16232217256452541751 = metadata_STRUCT_SIZE"
  "size_of_struct 17493826093338867814 = server_info_STRUCT_SIZE"
  "size_of_struct 17589387787773451846 = tunnel_registration_STRUCT_SIZE"
  "size_of_struct 17722653898618887046 = connection_error_STRUCT_SIZE"
  by (simp_all add: size_of_struct_def all_structs_def type_id_defs)

lemmas by_schema_simps =
  schema_accessors_def Let_def get_decl_def set_decl_def decl_present_def is_pointer_def in_union_def
  with_slot_def text_or_def all_nodes arg_enum_def connection_type_TYPE_ID_def enum_raw_try_from
  default_trace_context fresh_struct_def sizes_of_structs

definition connect_request_accessors :: "('s, 'p) capnp \<Rightarrow> 's accessor_args \<Rightarrow> 's \<Rightarrow> 's accessor_rows" where
  "connect_request_accessors c a s =
     \<lparr>getters =
        [(''dest'', Some (DynText (connect_request_get_dest c s))),
         (''type'', Some (DynEnum (enum_raw connection_type_into (connect_request_get_type c s)))),
         (''metadata'', Some (DynStructs (connect_request_get_metadata c s)))],
      setters =
        [(''dest'', Some (connect_request_set_dest c (a_text a) s)),
         (''type'', Some (connect_request_set_type c (a_connection_type a) s)),
         (''metadata'', Some (connect_request_set_metadata c (a_structs a) s))],
      presences =
        [(''dest'', connect_request_has_dest c s),
         (''metadata'', connect_request_has_metadata c s)],
      initialisers =
        [(''dest'', Some (connect_request_init_dest c (i_n a) (i_bytes a) s)),
         (''metadata'', Some (connect_request_init_metadata c (i_n a) (i_structs a) s))]\<rparr>"

lemma connect_request_by_schema: "connect_request_accessors c a s = schema_accessors c connect_request_introspect a s"
  by (simp add: by_schema_simps connect_request_accessors_def connect_request_introspect_def connect_request_RAW_SCHEMA_def connect_request_decls
      connect_request_get_dest_def connect_request_set_dest_def connect_request_has_dest_def
      connect_request_init_dest_def connect_request_get_type_def connect_request_set_type_def
      connect_request_get_metadata_def connect_request_set_metadata_def
      connect_request_has_metadata_def connect_request_init_metadata_def)

definition metadata_accessors :: "('s, 'p) capnp \<Rightarrow> 's accessor_args \<Rightarrow> 's \<Rightarrow> 's accessor_rows" where
  "metadata_accessors c a s =
     \<lparr>getters =
        [(''key'', Some (DynText (metadata_get_key c s))),
         (''val'', Some (DynText (metadata_get_val c s)))],
      setters =
        [(''key'', Some (metadata_set_key c (a_text a) s)),
         (''val'', Some (metadata_set_val c (a_text a) s))],
      presences =
        [(''key'', metadata_has_key c s),
         (''val'', metadata_has_val c s)],
      initialisers =
        [(''key'', Some (metadata_init_key c (i_n a) (i_bytes a) s)),
         (''val'', Some (metadata_init_val c (i_n a) (i_bytes a) s))]\<rparr>"

lemma metadata_by_schema: "metadata_accessors c a s = schema_accessors c metadata_introspect a s"
  by (simp add: by_schema_simps metadata_accessors_def metadata_introspect_def metadata_RAW_SCHEMA_def metadata_decls
      metadata_get_key_def metadata_set_key_def metadata_has_key_def metadata_init_key_def
      metadata_get_val_def metadata_set_val_def metadata_has_val_def metadata_init_val_def)

definition connect_response_accessors :: "('s, 'p) capnp \<Rightarrow> 's accessor_args \<Rightarrow> 's \<Rightarrow> 's accessor_rows" where
  "connect_response_accessors c a s =
     \<lparr>getters =
        [(''error'', Some (DynText (connect_response_get_error c s))),
         (''metadata'', Some (DynStructs (connect_response_get_metadata c s)))],
      setters =
        [(''error'', Some (connect_response_set_error c (a_text a) s)),
         (''metadata'', Some (connect_response_set_metadata c (a_structs a) s))],
      presences =
        [(''error'', connect_response_has_error c s),
         (''metadata'', connect_response_has_metadata c s)],
      initialisers =
        [(''error'', Some (connect_response_init_error c (i_n a) (i_bytes a) s)),
         (''metadata'', Some (connect_response_init_metadata c (i_n a) (i_structs a) s))]\<rparr>"

lemma connect_response_by_schema: "connect_response_accessors c a s = schema_accessors c connect_response_introspect a s"
  by (simp add: by_schema_simps connect_response_accessors_def connect_response_introspect_def connect_response_RAW_SCHEMA_def connect_response_decls
      connect_response_get_error_def connect_response_set_error_def connect_response_has_error_def
      connect_response_init_error_def connect_response_get_metadata_def
      connect_response_set_metadata_def connect_response_has_metadata_def
      connect_response_init_metadata_def)

definition authentication_accessors :: "('s, 'p) capnp \<Rightarrow> 's accessor_args \<Rightarrow> 's \<Rightarrow> 's accessor_rows" where
  "authentication_accessors c a s =
     \<lparr>getters =
        [(''key'', Some (DynText (authentication_get_key c s))),
         (''email'', Some (DynText (authentication_get_email c s))),
         (''originCAKey'', Some (DynText (authentication_get_origin_c_a_key c s)))],
      setters =
        [(''key'', Some (authentication_set_key c (a_text a) s)),
         (''email'', Some (authentication_set_email c (a_text a) s)),
         (''originCAKey'', Some (authentication_set_origin_c_a_key c (a_text a) s))],
      presences =
        [(''key'', authentication_has_key c s),
         (''email'', authentication_has_email c s),
         (''originCAKey'', authentication_has_origin_c_a_key c s)],
      initialisers =
        [(''key'', Some (authentication_init_key c (i_n a) (i_bytes a) s)),
         (''email'', Some (authentication_init_email c (i_n a) (i_bytes a) s)),
         (''originCAKey'', Some (authentication_init_origin_c_a_key c (i_n a) (i_bytes a) s))]\<rparr>"

lemma authentication_by_schema: "authentication_accessors c a s = schema_accessors c authentication_introspect a s"
  by (simp add: by_schema_simps authentication_accessors_def authentication_introspect_def authentication_RAW_SCHEMA_def authentication_decls
      authentication_get_key_def authentication_set_key_def authentication_has_key_def
      authentication_init_key_def authentication_get_email_def authentication_set_email_def
      authentication_has_email_def authentication_init_email_def
      authentication_get_origin_c_a_key_def authentication_set_origin_c_a_key_def
      authentication_has_origin_c_a_key_def authentication_init_origin_c_a_key_def)

definition tunnel_registration_accessors :: "('s, 'p) capnp \<Rightarrow> 's accessor_args \<Rightarrow> 's \<Rightarrow> 's accessor_rows" where
  "tunnel_registration_accessors c a s =
     \<lparr>getters =
        [(''err'', Some (DynText (tunnel_registration_get_err c s))),
         (''url'', Some (DynText (tunnel_registration_get_url c s))),
         (''logLines'', Some (DynTexts (tunnel_registration_get_log_lines c s))),
         (''permanentFailure'', Some (DynBool (tunnel_registration_get_permanent_failure c s))),
         (''tunnelID'', Some (DynText (tunnel_registration_get_tunnel_i_d c s))),
         (''retryAfterSeconds'', Some (DynUInt16 (tunnel_registration_get_retry_after_seconds c s))),
         (''eventDigest'', Some (DynData (tunnel_registration_get_event_digest c s))),
         (''connDigest'', Some (DynData (tunnel_registration_get_conn_digest c s)))],
      setters =
        [(''err'', Some (tunnel_registration_set_err c (a_text a) s)),
         (''url'', Some (tunnel_registration_set_url c (a_text a) s)),
         (''logLines'', Some (tunnel_registration_set_log_lines c (a_texts a) s)),
         (''permanentFailure'', Some (tunnel_registration_set_permanent_failure c (a_bool a) s)),
         (''tunnelID'', Some (tunnel_registration_set_tunnel_i_d c (a_text a) s)),
         (''retryAfterSeconds'', Some (tunnel_registration_set_retry_after_seconds c (a_u16 a) s)),
         (''eventDigest'', Some (tunnel_registration_set_event_digest c (a_data a) s)),
         (''connDigest'', Some (tunnel_registration_set_conn_digest c (a_data a) s))],
      presences =
        [(''err'', tunnel_registration_has_err c s),
         (''url'', tunnel_registration_has_url c s),
         (''logLines'', tunnel_registration_has_log_lines c s),
         (''tunnelID'', tunnel_registration_has_tunnel_i_d c s),
         (''eventDigest'', tunnel_registration_has_event_digest c s),
         (''connDigest'', tunnel_registration_has_conn_digest c s)],
      initialisers =
        [(''err'', Some (tunnel_registration_init_err c (i_n a) (i_bytes a) s)),
         (''url'', Some (tunnel_registration_init_url c (i_n a) (i_bytes a) s)),
         (''logLines'', Some (tunnel_registration_init_log_lines c (i_n a) (i_texts a) s)),
         (''tunnelID'', Some (tunnel_registration_init_tunnel_i_d c (i_n a) (i_bytes a) s)),
         (''eventDigest'', Some (tunnel_registration_init_event_digest c (i_n a) (i_bytes a) s)),
         (''connDigest'', Some (tunnel_registration_init_conn_digest c (i_n a) (i_bytes a) s))]\<rparr>"

lemma tunnel_registration_by_schema: "tunnel_registration_accessors c a s = schema_accessors c tunnel_registration_introspect a s"
  by (simp add: by_schema_simps tunnel_registration_accessors_def tunnel_registration_introspect_def tunnel_registration_RAW_SCHEMA_def tunnel_registration_decls
      tunnel_registration_get_err_def tunnel_registration_set_err_def
      tunnel_registration_has_err_def tunnel_registration_init_err_def
      tunnel_registration_get_url_def tunnel_registration_set_url_def
      tunnel_registration_has_url_def tunnel_registration_init_url_def
      tunnel_registration_get_log_lines_def tunnel_registration_set_log_lines_def
      tunnel_registration_has_log_lines_def tunnel_registration_init_log_lines_def
      tunnel_registration_get_permanent_failure_def tunnel_registration_set_permanent_failure_def
      tunnel_registration_get_tunnel_i_d_def tunnel_registration_set_tunnel_i_d_def
      tunnel_registration_has_tunnel_i_d_def tunnel_registration_init_tunnel_i_d_def
      tunnel_registration_get_retry_after_seconds_def
      tunnel_registration_set_retry_after_seconds_def tunnel_registration_get_event_digest_def
      tunnel_registration_set_event_digest_def tunnel_registration_has_event_digest_def
      tunnel_registration_init_event_digest_def tunnel_registration_get_conn_digest_def
      tunnel_registration_set_conn_digest_def tunnel_registration_has_conn_digest_def
      tunnel_registration_init_conn_digest_def)

definition registration_options_accessors :: "('s, 'p) capnp \<Rightarrow> 's accessor_args \<Rightarrow> 's \<Rightarrow> 's accessor_rows" where
  "registration_options_accessors c a s =
     \<lparr>getters =
        [(''clientId'', Some (DynText (registration_options_get_client_id c s))),
         (''version'', Some (DynText (registration_options_get_version c s))),
         (''os'', Some (DynText (registration_options_get_os c s))),
         (''existingTunnelPolicy'', Some (DynEnum (enum_raw existing_tunnel_policy_into (registration_options_get_existing_tunnel_policy c s)))),
         (''poolName'', Some (DynText (registration_options_get_pool_name c s))),
         (''tags'', Some (DynStructs (registration_options_get_tags c s))),
         (''connectionId'', Some (DynUInt8 (registration_options_get_connection_id c s))),
         (''originLocalIp'', Some (DynText (registration_options_get_origin_local_ip c s))),
         (''isAutoupdated'', Some (DynBool (registration_options_get_is_autoupdated c s))),
         (''runFromTerminal'', Some (DynBool (registration_options_get_run_from_terminal c s))),
         (''compressionQuality'', Some (DynUInt64 (registration_options_get_compression_quality c s))),
         (''uuid'', Some (DynText (registration_options_get_uuid c s))),
         (''numPreviousAttempts'', Some (DynUInt8 (registration_options_get_num_previous_attempts c s))),
         (''features'', Some (DynTexts (registration_options_get_features c s)))],
      setters =
        [(''clientId'', Some (registration_options_set_client_id c (a_text a) s)),
         (''version'', Some (registration_options_set_version c (a_text a) s)),
         (''os'', Some (registration_options_set_os c (a_text a) s)),
         (''existingTunnelPolicy'', Some (registration_options_set_existing_tunnel_policy c (a_policy a) s)),
         (''poolName'', Some (registration_options_set_pool_name c (a_text a) s)),
         (''tags'', Some (registration_options_set_tags c (a_structs a) s)),
         (''connectionId'', Some (registration_options_set_connection_id c (a_u8 a) s)),
         (''originLocalIp'', Some (registration_options_set_origin_local_ip c (a_text a) s)),
         (''isAutoupdated'', Some (registration_options_set_is_autoupdated c (a_bool a) s)),
         (''runFromTerminal'', Some (registration_options_set_run_from_terminal c (a_bool a) s)),
         (''compressionQuality'', Some (registration_options_set_compression_quality c (a_u64 a) s)),
         (''uuid'', Some (registration_options_set_uuid c (a_text a) s)),
         (''numPreviousAttempts'', Some (registration_options_set_num_previous_attempts c (a_u8 a) s)),
         (''features'', Some (registration_options_set_features c (a_texts a) s))],
      presences =
        [(''clientId'', registration_options_has_client_id c s),
         (''version'', registration_options_has_version c s),
         (''os'', registration_options_has_os c s),
         (''poolName'', registration_options_has_pool_name c s),
         (''tags'', registration_options_has_tags c s),
         (''originLocalIp'', registration_options_has_origin_local_ip c s),
         (''uuid'', registration_options_has_uuid c s),
         (''features'', registration_options_has_features c s)],
      initialisers =
        [(''clientId'', Some (registration_options_init_client_id c (i_n a) (i_bytes a) s)),
         (''version'', Some (registration_options_init_version c (i_n a) (i_bytes a) s)),
         (''os'', Some (registration_options_init_os c (i_n a) (i_bytes a) s)),
         (''poolName'', Some (registration_options_init_pool_name c (i_n a) (i_bytes a) s)),
         (''tags'', Some (registration_options_init_tags c (i_n a) (i_structs a) s)),
         (''originLocalIp'', Some (registration_options_init_origin_local_ip c (i_n a) (i_bytes a) s)),
         (''uuid'', Some (registration_options_init_uuid c (i_n a) (i_bytes a) s)),
         (''features'', Some (registration_options_init_features c (i_n a) (i_texts a) s))]\<rparr>"

lemma registration_options_by_schema: "registration_options_accessors c a s = schema_accessors c registration_options_introspect a s"
  by (simp add: by_schema_simps registration_options_accessors_def registration_options_introspect_def registration_options_RAW_SCHEMA_def registration_options_decls
      registration_options_get_client_id_def registration_options_set_client_id_def
      registration_options_has_client_id_def registration_options_init_client_id_def
      registration_options_get_version_def registration_options_set_version_def
      registration_options_has_version_def registration_options_init_version_def
      registration_options_get_os_def registration_options_set_os_def
      registration_options_has_os_def registration_options_init_os_def
      registration_options_get_existing_tunnel_policy_def
      registration_options_set_existing_tunnel_policy_def registration_options_get_pool_name_def
      registration_options_set_pool_name_def registration_options_has_pool_name_def
      registration_options_init_pool_name_def registration_options_get_tags_def
      registration_options_set_tags_def registration_options_has_tags_def
      registration_options_init_tags_def registration_options_get_connection_id_def
      registration_options_set_connection_id_def registration_options_get_origin_local_ip_def
      registration_options_set_origin_local_ip_def registration_options_has_origin_local_ip_def
      registration_options_init_origin_local_ip_def registration_options_get_is_autoupdated_def
      registration_options_set_is_autoupdated_def registration_options_get_run_from_terminal_def
      registration_options_set_run_from_terminal_def
      registration_options_get_compression_quality_def
      registration_options_set_compression_quality_def registration_options_get_uuid_def
      registration_options_set_uuid_def registration_options_has_uuid_def
      registration_options_init_uuid_def registration_options_get_num_previous_attempts_def
      registration_options_set_num_previous_attempts_def registration_options_get_features_def
      registration_options_set_features_def registration_options_has_features_def
      registration_options_init_features_def)

definition server_info_accessors :: "('s, 'p) capnp \<Rightarrow> 's accessor_args \<Rightarrow> 's \<Rightarrow> 's accessor_rows" where
  "server_info_accessors c a s =
     \<lparr>getters =
        [(''locationName'', Some (DynText (server_info_get_location_name c s)))],
      setters =
        [(''locationName'', Some (server_info_set_location_name c (a_text a) s))],
      presences =
        [(''locationName'', server_info_has_location_name c s)],
      initialisers =
        [(''locationName'', Some (server_info_init_location_name c (i_n a) (i_bytes a) s))]\<rparr>"

lemma server_info_by_schema: "server_info_accessors c a s = schema_accessors c server_info_introspect a s"
  by (simp add: by_schema_simps server_info_accessors_def server_info_introspect_def server_info_RAW_SCHEMA_def server_info_decls
      server_info_get_location_name_def server_info_set_location_name_def
      server_info_has_location_name_def server_info_init_location_name_def)

definition authenticate_response_accessors :: "('s, 'p) capnp \<Rightarrow> 's accessor_args \<Rightarrow> 's \<Rightarrow> 's accessor_rows" where
  "authenticate_response_accessors c a s =
     \<lparr>getters =
        [(''permanentErr'', Some (DynText (authenticate_response_get_permanent_err c s))),
         (''retryableErr'', Some (DynText (authenticate_response_get_retryable_err c s))),
         (''jwt'', Some (DynData (authenticate_response_get_jwt c s))),
         (''hoursUntilRefresh'', Some (DynUInt8 (authenticate_response_get_hours_until_refresh c s)))],
      setters =
        [(''permanentErr'', Some (authenticate_response_set_permanent_err c (a_text a) s)),
         (''retryableErr'', Some (authenticate_response_set_retryable_err c (a_text a) s)),
         (''jwt'', Some (authenticate_response_set_jwt c (a_data a) s)),
         (''hoursUntilRefresh'', Some (authenticate_response_set_hours_until_refresh c (a_u8 a) s))],
      presences =
        [(''permanentErr'', authenticate_response_has_permanent_err c s),
         (''retryableErr'', authenticate_response_has_retryable_err c s),
         (''jwt'', authenticate_response_has_jwt c s)],
      initialisers =
        [(''permanentErr'', Some (authenticate_response_init_permanent_err c (i_n a) (i_bytes a) s)),
         (''retryableErr'', Some (authenticate_response_init_retryable_err c (i_n a) (i_bytes a) s)),
         (''jwt'', Some (authenticate_response_init_jwt c (i_n a) (i_bytes a) s))]\<rparr>"

lemma authenticate_response_by_schema: "authenticate_response_accessors c a s = schema_accessors c authenticate_response_introspect a s"
  by (simp add: by_schema_simps authenticate_response_accessors_def authenticate_response_introspect_def authenticate_response_RAW_SCHEMA_def authenticate_response_decls
      authenticate_response_get_permanent_err_def authenticate_response_set_permanent_err_def
      authenticate_response_has_permanent_err_def authenticate_response_init_permanent_err_def
      authenticate_response_get_retryable_err_def authenticate_response_set_retryable_err_def
      authenticate_response_has_retryable_err_def authenticate_response_init_retryable_err_def
      authenticate_response_get_jwt_def authenticate_response_set_jwt_def
      authenticate_response_has_jwt_def authenticate_response_init_jwt_def
      authenticate_response_get_hours_until_refresh_def
      authenticate_response_set_hours_until_refresh_def)

definition register_tunnel_params_accessors :: "('s, 'p) capnp \<Rightarrow> 's accessor_args \<Rightarrow> 's \<Rightarrow> 's accessor_rows" where
  "register_tunnel_params_accessors c a s =
     \<lparr>getters =
        [(''originCert'', Some (DynData (register_tunnel_params_get_origin_cert c s))),
         (''hostname'', Some (DynText (register_tunnel_params_get_hostname c s))),
         (''options'', Some (DynStruct (register_tunnel_params_get_options c s)))],
      setters =
        [(''originCert'', Some (register_tunnel_params_set_origin_cert c (a_data a) s)),
         (''hostname'', Some (register_tunnel_params_set_hostname c (a_text a) s)),
         (''options'', Some (register_tunnel_params_set_options c (a_struct a) s))],
      presences =
        [(''originCert'', register_tunnel_params_has_origin_cert c s),
         (''hostname'', register_tunnel_params_has_hostname c s),
         (''options'', register_tunnel_params_has_options c s)],
      initialisers =
        [(''originCert'', Some (register_tunnel_params_init_origin_cert c (i_n a) (i_bytes a) s)),
         (''hostname'', Some (register_tunnel_params_init_hostname c (i_n a) (i_bytes a) s)),
         (''options'', Some (register_tunnel_params_init_options c (i_struct a) s))]\<rparr>"

lemma register_tunnel_params_by_schema: "register_tunnel_params_accessors c a s = schema_accessors c register_tunnel_params_introspect a s"
  by (simp add: by_schema_simps register_tunnel_params_accessors_def register_tunnel_params_introspect_def register_tunnel_params_RAW_SCHEMA_def register_tunnel_params_decls
      register_tunnel_params_get_origin_cert_def register_tunnel_params_set_origin_cert_def
      register_tunnel_params_has_origin_cert_def register_tunnel_params_init_origin_cert_def
      register_tunnel_params_get_hostname_def register_tunnel_params_set_hostname_def
      register_tunnel_params_has_hostname_def register_tunnel_params_init_hostname_def
      register_tunnel_params_get_options_def register_tunnel_params_set_options_def
      register_tunnel_params_has_options_def register_tunnel_params_init_options_def)

definition register_tunnel_results_accessors :: "('s, 'p) capnp \<Rightarrow> 's accessor_args \<Rightarrow> 's \<Rightarrow> 's accessor_rows" where
  "register_tunnel_results_accessors c a s =
     \<lparr>getters =
        [(''result'', Some (DynStruct (register_tunnel_results_get_result c s)))],
      setters =
        [(''result'', Some (register_tunnel_results_set_result c (a_struct a) s))],
      presences =
        [(''result'', register_tunnel_results_has_result c s)],
      initialisers =
        [(''result'', Some (register_tunnel_results_init_result c (i_struct a) s))]\<rparr>"

lemma register_tunnel_results_by_schema: "register_tunnel_results_accessors c a s = schema_accessors c register_tunnel_results_introspect a s"
  by (simp add: by_schema_simps register_tunnel_results_accessors_def register_tunnel_results_introspect_def register_tunnel_results_RAW_SCHEMA_def register_tunnel_results_decls
      register_tunnel_results_get_result_def register_tunnel_results_set_result_def
      register_tunnel_results_has_result_def register_tunnel_results_init_result_def)

definition get_server_info_params_accessors :: "('s, 'p) capnp \<Rightarrow> 's accessor_args \<Rightarrow> 's \<Rightarrow> 's accessor_rows" where
  "get_server_info_params_accessors c a s =
     \<lparr>getters =
        [],
      setters =
        [],
      presences =
        [],
      initialisers =
        []\<rparr>"

lemma get_server_info_params_by_schema: "get_server_info_params_accessors c a s = schema_accessors c get_server_info_params_introspect a s"
  by (simp add: by_schema_simps get_server_info_params_accessors_def get_server_info_params_introspect_def get_server_info_params_RAW_SCHEMA_def get_server_info_params_decls)

definition get_server_info_results_accessors :: "('s, 'p) capnp \<Rightarrow> 's accessor_args \<Rightarrow> 's \<Rightarrow> 's accessor_rows" where
  "get_server_info_results_accessors c a s =
     \<lparr>getters =
        [(''result'', Some (DynStruct (get_server_info_results_get_result c s)))],
      setters =
        [(''result'', Some (get_server_info_results_set_result c (a_struct a) s))],
      presences =
        [(''result'', get_server_info_results_has_result c s)],
      initialisers =
        [(''result'', Some (get_server_info_results_init_result c (i_struct a) s))]\<rparr>"

lemma get_server_info_results_by_schema: "get_server_info_results_accessors c a s = schema_accessors c get_server_info_results_introspect a s"
  by (simp add: by_schema_simps get_server_info_results_accessors_def get_server_info_results_introspect_def get_server_info_results_RAW_SCHEMA_def get_server_info_results_decls
      get_server_info_results_get_result_def get_server_info_results_set_result_def
      get_server_info_results_has_result_def get_server_info_results_init_result_def)

definition unregister_tunnel_params_accessors :: "('s, 'p) capnp \<Rightarrow> 's accessor_args \<Rightarrow> 's \<Rightarrow> 's accessor_rows" where
  "unregister_tunnel_params_accessors c a s =
     \<lparr>getters =
        [(''gracePeriodNanoSec'', Some (DynInt64 (unregister_tunnel_params_get_grace_period_nano_sec c s)))],
      setters =
        [(''gracePeriodNanoSec'', Some (unregister_tunnel_params_set_grace_period_nano_sec c (a_i64 a) s))],
      presences =
        [],
      initialisers =
        []\<rparr>"

lemma unregister_tunnel_params_by_schema: "unregister_tunnel_params_accessors c a s = schema_accessors c unregister_tunnel_params_introspect a s"
  by (simp add: by_schema_simps unregister_tunnel_params_accessors_def unregister_tunnel_params_introspect_def unregister_tunnel_params_RAW_SCHEMA_def unregister_tunnel_params_decls
      unregister_tunnel_params_get_grace_period_nano_sec_def
      unregister_tunnel_params_set_grace_period_nano_sec_def)

definition unregister_tunnel_results_accessors :: "('s, 'p) capnp \<Rightarrow> 's accessor_args \<Rightarrow> 's \<Rightarrow> 's accessor_rows" where
  "unregister_tunnel_results_accessors c a s =
     \<lparr>getters =
        [],
      setters =
        [],
      presences =
        [],
      initialisers =
        []\<rparr>"

lemma unregister_tunnel_results_by_schema: "unregister_tunnel_results_accessors c a s = schema_accessors c unregister_tunnel_results_introspect a s"
  by (simp add: by_schema_simps unregister_tunnel_results_accessors_def unregister_tunnel_results_introspect_def unregister_tunnel_results_RAW_SCHEMA_def unregister_tunnel_results_decls)

definition obsolete_declarative_tunnel_connect_params_accessors :: "('s, 'p) capnp \<Rightarrow> 's accessor_args \<Rightarrow> 's \<Rightarrow> 's accessor_rows" where
  "obsolete_declarative_tunnel_connect_params_accessors c a s =
     \<lparr>getters =
        [],
      setters =
        [],
      presences =
        [],
      initialisers =
        []\<rparr>"

lemma obsolete_declarative_tunnel_connect_params_by_schema: "obsolete_declarative_tunnel_connect_params_accessors c a s = schema_accessors c obsolete_declarative_tunnel_connect_params_introspect a s"
  by (simp add: by_schema_simps obsolete_declarative_tunnel_connect_params_accessors_def obsolete_declarative_tunnel_connect_params_introspect_def obsolete_declarative_tunnel_connect_params_RAW_SCHEMA_def obsolete_declarative_tunnel_connect_params_decls)

definition obsolete_declarative_tunnel_connect_results_accessors :: "('s, 'p) capnp \<Rightarrow> 's accessor_args \<Rightarrow> 's \<Rightarrow> 's accessor_rows" where
  "obsolete_declarative_tunnel_connect_results_accessors c a s =
     \<lparr>getters =
        [],
      setters =
        [],
      presences =
        [],
      initialisers =
        []\<rparr>"

lemma obsolete_declarative_tunnel_connect_results_by_schema: "obsolete_declarative_tunnel_connect_results_accessors c a s = schema_accessors c obsolete_declarative_tunnel_connect_results_introspect a s"
  by (simp add: by_schema_simps obsolete_declarative_tunnel_connect_results_accessors_def obsolete_declarative_tunnel_connect_results_introspect_def obsolete_declarative_tunnel_connect_results_RAW_SCHEMA_def obsolete_declarative_tunnel_connect_results_decls)

definition authenticate_params_accessors :: "('s, 'p) capnp \<Rightarrow> 's accessor_args \<Rightarrow> 's \<Rightarrow> 's accessor_rows" where
  "authenticate_params_accessors c a s =
     \<lparr>getters =
        [(''originCert'', Some (DynData (authenticate_params_get_origin_cert c s))),
         (''hostname'', Some (DynText (authenticate_params_get_hostname c s))),
         (''options'', Some (DynStruct (authenticate_params_get_options c s)))],
      setters =
        [(''originCert'', Some (authenticate_params_set_origin_cert c (a_data a) s)),
         (''hostname'', Some (authenticate_params_set_hostname c (a_text a) s)),
         (''options'', Some (authenticate_params_set_options c (a_struct a) s))],
      presences =
        [(''originCert'', authenticate_params_has_origin_cert c s),
         (''hostname'', authenticate_params_has_hostname c s),
         (''options'', authenticate_params_has_options c s)],
      initialisers =
        [(''originCert'', Some (authenticate_params_init_origin_cert c (i_n a) (i_bytes a) s)),
         (''hostname'', Some (authenticate_params_init_hostname c (i_n a) (i_bytes a) s)),
         (''options'', Some (authenticate_params_init_options c (i_struct a) s))]\<rparr>"

lemma authenticate_params_by_schema: "authenticate_params_accessors c a s = schema_accessors c authenticate_params_introspect a s"
  by (simp add: by_schema_simps authenticate_params_accessors_def authenticate_params_introspect_def authenticate_params_RAW_SCHEMA_def authenticate_params_decls
      authenticate_params_get_origin_cert_def authenticate_params_set_origin_cert_def
      authenticate_params_has_origin_cert_def authenticate_params_init_origin_cert_def
      authenticate_params_get_hostname_def authenticate_params_set_hostname_def
      authenticate_params_has_hostname_def authenticate_params_init_hostname_def
      authenticate_params_get_options_def authenticate_params_set_options_def
      authenticate_params_has_options_def authenticate_params_init_options_def)

definition authenticate_results_accessors :: "('s, 'p) capnp \<Rightarrow> 's accessor_args \<Rightarrow> 's \<Rightarrow> 's accessor_rows" where
  "authenticate_results_accessors c a s =
     \<lparr>getters =
        [(''result'', Some (DynStruct (authenticate_results_get_result c s)))],
      setters =
        [(''result'', Some (authenticate_results_set_result c (a_struct a) s))],
      presences =
        [(''result'', authenticate_results_has_result c s)],
      initialisers =
        [(''result'', Some (authenticate_results_init_result c (i_struct a) s))]\<rparr>"

lemma authenticate_results_by_schema: "authenticate_results_accessors c a s = schema_accessors c authenticate_results_introspect a s"
  by (simp add: by_schema_simps authenticate_results_accessors_def authenticate_results_introspect_def authenticate_results_RAW_SCHEMA_def authenticate_results_decls
      authenticate_results_get_result_def authenticate_results_set_result_def
      authenticate_results_has_result_def authenticate_results_init_result_def)

definition reconnect_tunnel_params_accessors :: "('s, 'p) capnp \<Rightarrow> 's accessor_args \<Rightarrow> 's \<Rightarrow> 's accessor_rows" where
  "reconnect_tunnel_params_accessors c a s =
     \<lparr>getters =
        [(''jwt'', Some (DynData (reconnect_tunnel_params_get_jwt c s))),
         (''eventDigest'', Some (DynData (reconnect_tunnel_params_get_event_digest c s))),
         (''connDigest'', Some (DynData (reconnect_tunnel_params_get_conn_digest c s))),
         (''hostname'', Some (DynText (reconnect_tunnel_params_get_hostname c s))),
         (''options'', Some (DynStruct (reconnect_tunnel_params_get_options c s)))],
      setters =
        [(''jwt'', Some (reconnect_tunnel_params_set_jwt c (a_data a) s)),
         (''eventDigest'', Some (reconnect_tunnel_params_set_event_digest c (a_data a) s)),
         (''connDigest'', Some (reconnect_tunnel_params_set_conn_digest c (a_data a) s)),
         (''hostname'', Some (reconnect_tunnel_params_set_hostname c (a_text a) s)),
         (''options'', Some (reconnect_tunnel_params_set_options c (a_struct a) s))],
      presences =
        [(''jwt'', reconnect_tunnel_params_has_jwt c s),
         (''eventDigest'', reconnect_tunnel_params_has_event_digest c s),
         (''connDigest'', reconnect_tunnel_params_has_conn_digest c s),
         (''hostname'', reconnect_tunnel_params_has_hostname c s),
         (''options'', reconnect_tunnel_params_has_options c s)],
      initialisers =
        [(''jwt'', Some (reconnect_tunnel_params_init_jwt c (i_n a) (i_bytes a) s)),
         (''eventDigest'', Some (reconnect_tunnel_params_init_event_digest c (i_n a) (i_bytes a) s)),
         (''connDigest'', Some (reconnect_tunnel_params_init_conn_digest c (i_n a) (i_bytes a) s)),
         (''hostname'', Some (reconnect_tunnel_params_init_hostname c (i_n a) (i_bytes a) s)),
         (''options'', Some (reconnect_tunnel_params_init_options c (i_struct a) s))]\<rparr>"

lemma reconnect_tunnel_params_by_schema: "reconnect_tunnel_params_accessors c a s = schema_accessors c reconnect_tunnel_params_introspect a s"
  by (simp add: by_schema_simps reconnect_tunnel_params_accessors_def reconnect_tunnel_params_introspect_def reconnect_tunnel_params_RAW_SCHEMA_def reconnect_tunnel_params_decls
      reconnect_tunnel_params_get_jwt_def reconnect_tunnel_params_set_jwt_def
      reconnect_tunnel_params_has_jwt_def reconnect_tunnel_params_init_jwt_def
      reconnect_tunnel_params_get_event_digest_def reconnect_tunnel_params_set_event_digest_def
      reconnect_tunnel_params_has_event_digest_def reconnect_tunnel_params_init_event_digest_def
      reconnect_tunnel_params_get_conn_digest_def reconnect_tunnel_params_set_conn_digest_def
      reconnect_tunnel_params_has_conn_digest_def reconnect_tunnel_params_init_conn_digest_def
      reconnect_tunnel_params_get_hostname_def reconnect_tunnel_params_set_hostname_def
      reconnect_tunnel_params_has_hostname_def reconnect_tunnel_params_init_hostname_def
      reconnect_tunnel_params_get_options_def reconnect_tunnel_params_set_options_def
      reconnect_tunnel_params_has_options_def reconnect_tunnel_params_init_options_def)

definition reconnect_tunnel_results_accessors :: "('s, 'p) capnp \<Rightarrow> 's accessor_args \<Rightarrow> 's \<Rightarrow> 's accessor_rows" where
  "reconnect_tunnel_results_accessors c a s =
     \<lparr>getters =
        [(''result'', Some (DynStruct (reconnect_tunnel_results_get_result c s)))],
      setters =
        [(''result'', Some (reconnect_tunnel_results_set_result c (a_struct a) s))],
      presences =
        [(''result'', reconnect_tunnel_results_has_result c s)],
      initialisers =
        [(''result'', Some (reconnect_tunnel_results_init_result c (i_struct a) s))]\<rparr>"

lemma reconnect_tunnel_results_by_schema: "reconnect_tunnel_results_accessors c a s = schema_accessors c reconnect_tunnel_results_introspect a s"
  by (simp add: by_schema_simps reconnect_tunnel_results_accessors_def reconnect_tunnel_results_introspect_def reconnect_tunnel_results_RAW_SCHEMA_def reconnect_tunnel_results_decls
      reconnect_tunnel_results_get_result_def reconnect_tunnel_results_set_result_def
      reconnect_tunnel_results_has_result_def reconnect_tunnel_results_init_result_def)

definition tag_accessors :: "('s, 'p) capnp \<Rightarrow> 's accessor_args \<Rightarrow> 's \<Rightarrow> 's accessor_rows" where
  "tag_accessors c a s =
     \<lparr>getters =
        [(''name'', Some (DynText (tag_get_name c s))),
         (''value'', Some (DynText (tag_get_value c s)))],
      setters =
        [(''name'', Some (tag_set_name c (a_text a) s)),
         (''value'', Some (tag_set_value c (a_text a) s))],
      presences =
        [(''name'', tag_has_name c s),
         (''value'', tag_has_value c s)],
      initialisers =
        [(''name'', Some (tag_init_name c (i_n a) (i_bytes a) s)),
         (''value'', Some (tag_init_value c (i_n a) (i_bytes a) s))]\<rparr>"

lemma tag_by_schema: "tag_accessors c a s = schema_accessors c tag_introspect a s"
  by (simp add: by_schema_simps tag_accessors_def tag_introspect_def tag_RAW_SCHEMA_def tag_decls
      tag_get_name_def tag_set_name_def tag_has_name_def tag_init_name_def tag_get_value_def
      tag_set_value_def tag_has_value_def tag_init_value_def)

definition client_info_accessors :: "('s, 'p) capnp \<Rightarrow> 's accessor_args \<Rightarrow> 's \<Rightarrow> 's accessor_rows" where
  "client_info_accessors c a s =
     \<lparr>getters =
        [(''clientId'', Some (DynData (client_info_get_client_id c s))),
         (''features'', Some (DynTexts (client_info_get_features c s))),
         (''version'', Some (DynText (client_info_get_version c s))),
         (''arch'', Some (DynText (client_info_get_arch c s)))],
      setters =
        [(''clientId'', Some (client_info_set_client_id c (a_data a) s)),
         (''features'', Some (client_info_set_features c (a_texts a) s)),
         (''version'', Some (client_info_set_version c (a_text a) s)),
         (''arch'', Some (client_info_set_arch c (a_text a) s))],
      presences =
        [(''clientId'', client_info_has_client_id c s),
         (''features'', client_info_has_features c s),
         (''version'', client_info_has_version c s),
         (''arch'', client_info_has_arch c s)],
      initialisers =
        [(''clientId'', Some (client_info_init_client_id c (i_n a) (i_bytes a) s)),
         (''features'', Some (client_info_init_features c (i_n a) (i_texts a) s)),
         (''version'', Some (client_info_init_version c (i_n a) (i_bytes a) s)),
         (''arch'', Some (client_info_init_arch c (i_n a) (i_bytes a) s))]\<rparr>"

lemma client_info_by_schema: "client_info_accessors c a s = schema_accessors c client_info_introspect a s"
  by (simp add: by_schema_simps client_info_accessors_def client_info_introspect_def client_info_RAW_SCHEMA_def client_info_decls
      client_info_get_client_id_def client_info_set_client_id_def client_info_has_client_id_def
      client_info_init_client_id_def client_info_get_features_def client_info_set_features_def
      client_info_has_features_def client_info_init_features_def client_info_get_version_def
      client_info_set_version_def client_info_has_version_def client_info_init_version_def
      client_info_get_arch_def client_info_set_arch_def client_info_has_arch_def
      client_info_init_arch_def)

definition connection_options_accessors :: "('s, 'p) capnp \<Rightarrow> 's accessor_args \<Rightarrow> 's \<Rightarrow> 's accessor_rows" where
  "connection_options_accessors c a s =
     \<lparr>getters =
        [(''client'', Some (DynStruct (connection_options_get_client c s))),
         (''originLocalIp'', Some (DynData (connection_options_get_origin_local_ip c s))),
         (''replaceExisting'', Some (DynBool (connection_options_get_replace_existing c s))),
         (''compressionQuality'', Some (DynUInt8 (connection_options_get_compression_quality c s))),
         (''numPreviousAttempts'', Some (DynUInt8 (connection_options_get_num_previous_attempts c s)))],
      setters =
        [(''client'', Some (connection_options_set_client c (a_struct a) s)),
         (''originLocalIp'', Some (connection_options_set_origin_local_ip c (a_data a) s)),
         (''replaceExisting'', Some (connection_options_set_replace_existing c (a_bool a) s)),
         (''compressionQuality'', Some (connection_options_set_compression_quality c (a_u8 a) s)),
         (''numPreviousAttempts'', Some (connection_options_set_num_previous_attempts c (a_u8 a) s))],
      presences =
        [(''client'', connection_options_has_client c s),
         (''originLocalIp'', connection_options_has_origin_local_ip c s)],
      initialisers =
        [(''client'', Some (connection_options_init_client c (i_struct a) s)),
         (''originLocalIp'', Some (connection_options_init_origin_local_ip c (i_n a) (i_bytes a) s))]\<rparr>"

lemma connection_options_by_schema: "connection_options_accessors c a s = schema_accessors c connection_options_introspect a s"
  by (simp add: by_schema_simps connection_options_accessors_def connection_options_introspect_def connection_options_RAW_SCHEMA_def connection_options_decls
      connection_options_get_client_def connection_options_set_client_def
      connection_options_has_client_def connection_options_init_client_def
      connection_options_get_origin_local_ip_def connection_options_set_origin_local_ip_def
      connection_options_has_origin_local_ip_def connection_options_init_origin_local_ip_def
      connection_options_get_replace_existing_def connection_options_set_replace_existing_def
      connection_options_get_compression_quality_def connection_options_set_compression_quality_def
      connection_options_get_num_previous_attempts_def
      connection_options_set_num_previous_attempts_def)

definition connection_response_accessors :: "('s, 'p) capnp \<Rightarrow> 's accessor_args \<Rightarrow> 's \<Rightarrow> 's accessor_rows" where
  "connection_response_accessors c a s =
     \<lparr>getters =
        [(''result'', Some (DynStruct (Inr (connection_response_get_result s))))],
      setters =
        [],
      presences =
        [],
      initialisers =
        []\<rparr>"

lemma connection_response_by_schema: "connection_response_accessors c a s = schema_accessors c connection_response_introspect a s"
  by (simp add: by_schema_simps connection_response_accessors_def connection_response_introspect_def connection_response_RAW_SCHEMA_def connection_response_decls
      connection_response_get_result_def)

definition response_result_accessors :: "('s, 'p) capnp \<Rightarrow> 's accessor_args \<Rightarrow> 's \<Rightarrow> 's accessor_rows" where
  "response_result_accessors c a s =
     \<lparr>getters =
        [],
      setters =
        [(''error'', Some (response_result_set_error c (a_struct a) s)),
         (''connectionDetails'', Some (response_result_set_connection_details c (a_struct a) s))],
      presences =
        [],
      initialisers =
        [(''error'', Some (response_result_init_error c (i_struct a) s)),
         (''connectionDetails'', Some (response_result_init_connection_details c (i_struct a) s))]\<rparr>"

lemma response_result_by_schema: "response_result_accessors c a s = schema_accessors c response_result_introspect a s"
  by (simp add: by_schema_simps response_result_accessors_def response_result_introspect_def response_result_RAW_SCHEMA_def response_result_decls
      response_result_set_error_def response_result_init_error_def
      response_result_set_connection_details_def response_result_init_connection_details_def)

definition connection_error_accessors :: "('s, 'p) capnp \<Rightarrow> 's accessor_args \<Rightarrow> 's \<Rightarrow> 's accessor_rows" where
  "connection_error_accessors c a s =
     \<lparr>getters =
        [(''cause'', Some (DynText (connection_error_get_cause c s))),
         (''retryAfter'', Some (DynInt64 (connection_error_get_retry_after c s))),
         (''shouldRetry'', Some (DynBool (connection_error_get_should_retry c s)))],
      setters =
        [(''cause'', Some (connection_error_set_cause c (a_text a) s)),
         (''retryAfter'', Some (connection_error_set_retry_after c (a_i64 a) s)),
         (''shouldRetry'', Some (connection_error_set_should_retry c (a_bool a) s))],
      presences =
        [(''cause'', connection_error_has_cause c s)],
      initialisers =
        [(''cause'', Some (connection_error_init_cause c (i_n a) (i_bytes a) s))]\<rparr>"

lemma connection_error_by_schema: "connection_error_accessors c a s = schema_accessors c connection_error_introspect a s"
  by (simp add: by_schema_simps connection_error_accessors_def connection_error_introspect_def connection_error_RAW_SCHEMA_def connection_error_decls
      connection_error_get_cause_def connection_error_set_cause_def connection_error_has_cause_def
      connection_error_init_cause_def connection_error_get_retry_after_def
      connection_error_set_retry_after_def connection_error_get_should_retry_def
      connection_error_set_should_retry_def)

definition connection_details_accessors :: "('s, 'p) capnp \<Rightarrow> 's accessor_args \<Rightarrow> 's \<Rightarrow> 's accessor_rows" where
  "connection_details_accessors c a s =
     \<lparr>getters =
        [(''uuid'', Some (DynData (connection_details_get_uuid c s))),
         (''locationName'', Some (DynText (connection_details_get_location_name c s))),
         (''tunnelIsRemotelyManaged'', Some (DynBool (connection_details_get_tunnel_is_remotely_managed c s)))],
      setters =
        [(''uuid'', Some (connection_details_set_uuid c (a_data a) s)),
         (''locationName'', Some (connection_details_set_location_name c (a_text a) s)),
         (''tunnelIsRemotelyManaged'', Some (connection_details_set_tunnel_is_remotely_managed c (a_bool a) s))],
      presences =
        [(''uuid'', connection_details_has_uuid c s),
         (''locationName'', connection_details_has_location_name c s)],
      initialisers =
        [(''uuid'', Some (connection_details_init_uuid c (i_n a) (i_bytes a) s)),
         (''locationName'', Some (connection_details_init_location_name c (i_n a) (i_bytes a) s))]\<rparr>"

lemma connection_details_by_schema: "connection_details_accessors c a s = schema_accessors c connection_details_introspect a s"
  by (simp add: by_schema_simps connection_details_accessors_def connection_details_introspect_def connection_details_RAW_SCHEMA_def connection_details_decls
      connection_details_get_uuid_def connection_details_set_uuid_def
      connection_details_has_uuid_def connection_details_init_uuid_def
      connection_details_get_location_name_def connection_details_set_location_name_def
      connection_details_has_location_name_def connection_details_init_location_name_def
      connection_details_get_tunnel_is_remotely_managed_def
      connection_details_set_tunnel_is_remotely_managed_def)

definition tunnel_auth_accessors :: "('s, 'p) capnp \<Rightarrow> 's accessor_args \<Rightarrow> 's \<Rightarrow> 's accessor_rows" where
  "tunnel_auth_accessors c a s =
     \<lparr>getters =
        [(''accountTag'', Some (DynText (tunnel_auth_get_account_tag c s))),
         (''tunnelSecret'', Some (DynData (tunnel_auth_get_tunnel_secret c s)))],
      setters =
        [(''accountTag'', Some (tunnel_auth_set_account_tag c (a_text a) s)),
         (''tunnelSecret'', Some (tunnel_auth_set_tunnel_secret c (a_data a) s))],
      presences =
        [(''accountTag'', tunnel_auth_has_account_tag c s),
         (''tunnelSecret'', tunnel_auth_has_tunnel_secret c s)],
      initialisers =
        [(''accountTag'', Some (tunnel_auth_init_account_tag c (i_n a) (i_bytes a) s)),
         (''tunnelSecret'', Some (tunnel_auth_init_tunnel_secret c (i_n a) (i_bytes a) s))]\<rparr>"

lemma tunnel_auth_by_schema: "tunnel_auth_accessors c a s = schema_accessors c tunnel_auth_introspect a s"
  by (simp add: by_schema_simps tunnel_auth_accessors_def tunnel_auth_introspect_def tunnel_auth_RAW_SCHEMA_def tunnel_auth_decls
      tunnel_auth_get_account_tag_def tunnel_auth_set_account_tag_def
      tunnel_auth_has_account_tag_def tunnel_auth_init_account_tag_def
      tunnel_auth_get_tunnel_secret_def tunnel_auth_set_tunnel_secret_def
      tunnel_auth_has_tunnel_secret_def tunnel_auth_init_tunnel_secret_def)

definition register_connection_params_accessors :: "('s, 'p) capnp \<Rightarrow> 's accessor_args \<Rightarrow> 's \<Rightarrow> 's accessor_rows" where
  "register_connection_params_accessors c a s =
     \<lparr>getters =
        [(''auth'', Some (DynStruct (register_connection_params_get_auth c s))),
         (''tunnelId'', Some (DynData (register_connection_params_get_tunnel_id c s))),
         (''connIndex'', Some (DynUInt8 (register_connection_params_get_conn_index c s))),
         (''options'', Some (DynStruct (register_connection_params_get_options c s)))],
      setters =
        [(''auth'', Some (register_connection_params_set_auth c (a_struct a) s)),
         (''tunnelId'', Some (register_connection_params_set_tunnel_id c (a_data a) s)),
         (''connIndex'', Some (register_connection_params_set_conn_index c (a_u8 a) s)),
         (''options'', Some (register_connection_params_set_options c (a_struct a) s))],
      presences =
        [(''auth'', register_connection_params_has_auth c s),
         (''tunnelId'', register_connection_params_has_tunnel_id c s),
         (''options'', register_connection_params_has_options c s)],
      initialisers =
        [(''auth'', Some (register_connection_params_init_auth c (i_struct a) s)),
         (''tunnelId'', Some (register_connection_params_init_tunnel_id c (i_n a) (i_bytes a) s)),
         (''options'', Some (register_connection_params_init_options c (i_struct a) s))]\<rparr>"

lemma register_connection_params_by_schema: "register_connection_params_accessors c a s = schema_accessors c register_connection_params_introspect a s"
  by (simp add: by_schema_simps register_connection_params_accessors_def register_connection_params_introspect_def register_connection_params_RAW_SCHEMA_def register_connection_params_decls
      register_connection_params_get_auth_def register_connection_params_set_auth_def
      register_connection_params_has_auth_def register_connection_params_init_auth_def
      register_connection_params_get_tunnel_id_def register_connection_params_set_tunnel_id_def
      register_connection_params_has_tunnel_id_def register_connection_params_init_tunnel_id_def
      register_connection_params_get_conn_index_def register_connection_params_set_conn_index_def
      register_connection_params_get_options_def register_connection_params_set_options_def
      register_connection_params_has_options_def register_connection_params_init_options_def)

definition register_connection_results_accessors :: "('s, 'p) capnp \<Rightarrow> 's accessor_args \<Rightarrow> 's \<Rightarrow> 's accessor_rows" where
  "register_connection_results_accessors c a s =
     \<lparr>getters =
        [(''result'', Some (DynStruct (register_connection_results_get_result c s)))],
      setters =
        [(''result'', Some (register_connection_results_set_result c (a_struct a) s))],
      presences =
        [(''result'', register_connection_results_has_result c s)],
      initialisers =
        [(''result'', Some (register_connection_results_init_result c (i_struct a) s))]\<rparr>"

lemma register_connection_results_by_schema: "register_connection_results_accessors c a s = schema_accessors c register_connection_results_introspect a s"
  by (simp add: by_schema_simps register_connection_results_accessors_def register_connection_results_introspect_def register_connection_results_RAW_SCHEMA_def register_connection_results_decls
      register_connection_results_get_result_def register_connection_results_set_result_def
      register_connection_results_has_result_def register_connection_results_init_result_def)

definition unregister_connection_params_accessors :: "('s, 'p) capnp \<Rightarrow> 's accessor_args \<Rightarrow> 's \<Rightarrow> 's accessor_rows" where
  "unregister_connection_params_accessors c a s =
     \<lparr>getters =
        [],
      setters =
        [],
      presences =
        [],
      initialisers =
        []\<rparr>"

lemma unregister_connection_params_by_schema: "unregister_connection_params_accessors c a s = schema_accessors c unregister_connection_params_introspect a s"
  by (simp add: by_schema_simps unregister_connection_params_accessors_def unregister_connection_params_introspect_def unregister_connection_params_RAW_SCHEMA_def unregister_connection_params_decls)

definition unregister_connection_results_accessors :: "('s, 'p) capnp \<Rightarrow> 's accessor_args \<Rightarrow> 's \<Rightarrow> 's accessor_rows" where
  "unregister_connection_results_accessors c a s =
     \<lparr>getters =
        [],
      setters =
        [],
      presences =
        [],
      initialisers =
        []\<rparr>"

lemma unregister_connection_results_by_schema: "unregister_connection_results_accessors c a s = schema_accessors c unregister_connection_results_introspect a s"
  by (simp add: by_schema_simps unregister_connection_results_accessors_def unregister_connection_results_introspect_def unregister_connection_results_RAW_SCHEMA_def unregister_connection_results_decls)

definition update_local_configuration_params_accessors :: "('s, 'p) capnp \<Rightarrow> 's accessor_args \<Rightarrow> 's \<Rightarrow> 's accessor_rows" where
  "update_local_configuration_params_accessors c a s =
     \<lparr>getters =
        [(''config'', Some (DynData (update_local_configuration_params_get_config c s)))],
      setters =
        [(''config'', Some (update_local_configuration_params_set_config c (a_data a) s))],
      presences =
        [(''config'', update_local_configuration_params_has_config c s)],
      initialisers =
        [(''config'', Some (update_local_configuration_params_init_config c (i_n a) (i_bytes a) s))]\<rparr>"

lemma update_local_configuration_params_by_schema: "update_local_configuration_params_accessors c a s = schema_accessors c update_local_configuration_params_introspect a s"
  by (simp add: by_schema_simps update_local_configuration_params_accessors_def update_local_configuration_params_introspect_def update_local_configuration_params_RAW_SCHEMA_def update_local_configuration_params_decls
      update_local_configuration_params_get_config_def
      update_local_configuration_params_set_config_def
      update_local_configuration_params_has_config_def
      update_local_configuration_params_init_config_def)

definition update_local_configuration_results_accessors :: "('s, 'p) capnp \<Rightarrow> 's accessor_args \<Rightarrow> 's \<Rightarrow> 's accessor_rows" where
  "update_local_configuration_results_accessors c a s =
     \<lparr>getters =
        [],
      setters =
        [],
      presences =
        [],
      initialisers =
        []\<rparr>"

lemma update_local_configuration_results_by_schema: "update_local_configuration_results_accessors c a s = schema_accessors c update_local_configuration_results_introspect a s"
  by (simp add: by_schema_simps update_local_configuration_results_accessors_def update_local_configuration_results_introspect_def update_local_configuration_results_RAW_SCHEMA_def update_local_configuration_results_decls)

definition register_udp_session_response_accessors :: "('s, 'p) capnp \<Rightarrow> 's accessor_args \<Rightarrow> 's \<Rightarrow> 's accessor_rows" where
  "register_udp_session_response_accessors c a s =
     \<lparr>getters =
        [(''err'', Some (DynText (register_udp_session_response_get_err c s))),
         (''spans'', Some (DynData (register_udp_session_response_get_spans c s)))],
      setters =
        [(''err'', Some (register_udp_session_response_set_err c (a_text a) s)),
         (''spans'', Some (register_udp_session_response_set_spans c (a_data a) s))],
      presences =
        [(''err'', register_udp_session_response_has_err c s),
         (''spans'', register_udp_session_response_has_spans c s)],
      initialisers =
        [(''err'', Some (register_udp_session_response_init_err c (i_n a) (i_bytes a) s)),
         (''spans'', Some (register_udp_session_response_init_spans c (i_n a) (i_bytes a) s))]\<rparr>"

lemma register_udp_session_response_by_schema: "register_udp_session_response_accessors c a s = schema_accessors c register_udp_session_response_introspect a s"
  by (simp add: by_schema_simps register_udp_session_response_accessors_def register_udp_session_response_introspect_def register_udp_session_response_RAW_SCHEMA_def register_udp_session_response_decls
      register_udp_session_response_get_err_def register_udp_session_response_set_err_def
      register_udp_session_response_has_err_def register_udp_session_response_init_err_def
      register_udp_session_response_get_spans_def register_udp_session_response_set_spans_def
      register_udp_session_response_has_spans_def register_udp_session_response_init_spans_def)

definition register_udp_session_params_accessors :: "('s, 'p) capnp \<Rightarrow> 's accessor_args \<Rightarrow> 's \<Rightarrow> 's accessor_rows" where
  "register_udp_session_params_accessors c a s =
     \<lparr>getters =
        [(''sessionId'', Some (DynData (register_udp_session_params_get_session_id c s))),
         (''dstIp'', Some (DynData (register_udp_session_params_get_dst_ip c s))),
         (''dstPort'', Some (DynUInt16 (register_udp_session_params_get_dst_port c s))),
         (''closeAfterIdleHint'', Some (DynInt64 (register_udp_session_params_get_close_after_idle_hint c s))),
         (''traceContext'', Some (DynText (register_udp_session_params_get_trace_context c s)))],
      setters =
        [(''sessionId'', Some (register_udp_session_params_set_session_id c (a_data a) s)),
         (''dstIp'', Some (register_udp_session_params_set_dst_ip c (a_data a) s)),
         (''dstPort'', Some (register_udp_session_params_set_dst_port c (a_u16 a) s)),
         (''closeAfterIdleHint'', Some (register_udp_session_params_set_close_after_idle_hint c (a_i64 a) s)),
         (''traceContext'', Some (register_udp_session_params_set_trace_context c (a_text a) s))],
      presences =
        [(''sessionId'', register_udp_session_params_has_session_id c s),
         (''dstIp'', register_udp_session_params_has_dst_ip c s),
         (''traceContext'', register_udp_session_params_has_trace_context c s)],
      initialisers =
        [(''sessionId'', Some (register_udp_session_params_init_session_id c (i_n a) (i_bytes a) s)),
         (''dstIp'', Some (register_udp_session_params_init_dst_ip c (i_n a) (i_bytes a) s)),
         (''traceContext'', Some (register_udp_session_params_init_trace_context c (i_n a) (i_bytes a) s))]\<rparr>"

lemma register_udp_session_params_by_schema: "register_udp_session_params_accessors c a s = schema_accessors c register_udp_session_params_introspect a s"
  by (simp add: by_schema_simps register_udp_session_params_accessors_def register_udp_session_params_introspect_def register_udp_session_params_RAW_SCHEMA_def register_udp_session_params_decls
      register_udp_session_params_get_session_id_def register_udp_session_params_set_session_id_def
      register_udp_session_params_has_session_id_def
      register_udp_session_params_init_session_id_def register_udp_session_params_get_dst_ip_def
      register_udp_session_params_set_dst_ip_def register_udp_session_params_has_dst_ip_def
      register_udp_session_params_init_dst_ip_def register_udp_session_params_get_dst_port_def
      register_udp_session_params_set_dst_port_def
      register_udp_session_params_get_close_after_idle_hint_def
      register_udp_session_params_set_close_after_idle_hint_def
      register_udp_session_params_get_trace_context_def
      register_udp_session_params_set_trace_context_def
      register_udp_session_params_has_trace_context_def
      register_udp_session_params_init_trace_context_def)

definition register_udp_session_results_accessors :: "('s, 'p) capnp \<Rightarrow> 's accessor_args \<Rightarrow> 's \<Rightarrow> 's accessor_rows" where
  "register_udp_session_results_accessors c a s =
     \<lparr>getters =
        [(''result'', Some (DynStruct (register_udp_session_results_get_result c s)))],
      setters =
        [(''result'', Some (register_udp_session_results_set_result c (a_struct a) s))],
      presences =
        [(''result'', register_udp_session_results_has_result c s)],
      initialisers =
        [(''result'', Some (register_udp_session_results_init_result c (i_struct a) s))]\<rparr>"

lemma register_udp_session_results_by_schema: "register_udp_session_results_accessors c a s = schema_accessors c register_udp_session_results_introspect a s"
  by (simp add: by_schema_simps register_udp_session_results_accessors_def register_udp_session_results_introspect_def register_udp_session_results_RAW_SCHEMA_def register_udp_session_results_decls
      register_udp_session_results_get_result_def register_udp_session_results_set_result_def
      register_udp_session_results_has_result_def register_udp_session_results_init_result_def)

definition unregister_udp_session_params_accessors :: "('s, 'p) capnp \<Rightarrow> 's accessor_args \<Rightarrow> 's \<Rightarrow> 's accessor_rows" where
  "unregister_udp_session_params_accessors c a s =
     \<lparr>getters =
        [(''sessionId'', Some (DynData (unregister_udp_session_params_get_session_id c s))),
         (''message'', Some (DynText (unregister_udp_session_params_get_message c s)))],
      setters =
        [(''sessionId'', Some (unregister_udp_session_params_set_session_id c (a_data a) s)),
         (''message'', Some (unregister_udp_session_params_set_message c (a_text a) s))],
      presences =
        [(''sessionId'', unregister_udp_session_params_has_session_id c s),
         (''message'', unregister_udp_session_params_has_message c s)],
      initialisers =
        [(''sessionId'', Some (unregister_udp_session_params_init_session_id c (i_n a) (i_bytes a) s)),
         (''message'', Some (unregister_udp_session_params_init_message c (i_n a) (i_bytes a) s))]\<rparr>"

lemma unregister_udp_session_params_by_schema: "unregister_udp_session_params_accessors c a s = schema_accessors c unregister_udp_session_params_introspect a s"
  by (simp add: by_schema_simps unregister_udp_session_params_accessors_def unregister_udp_session_params_introspect_def unregister_udp_session_params_RAW_SCHEMA_def unregister_udp_session_params_decls
      unregister_udp_session_params_get_session_id_def
      unregister_udp_session_params_set_session_id_def
      unregister_udp_session_params_has_session_id_def
      unregister_udp_session_params_init_session_id_def
      unregister_udp_session_params_get_message_def unregister_udp_session_params_set_message_def
      unregister_udp_session_params_has_message_def unregister_udp_session_params_init_message_def)

definition unregister_udp_session_results_accessors :: "('s, 'p) capnp \<Rightarrow> 's accessor_args \<Rightarrow> 's \<Rightarrow> 's accessor_rows" where
  "unregister_udp_session_results_accessors c a s =
     \<lparr>getters =
        [],
      setters =
        [],
      presences =
        [],
      initialisers =
        []\<rparr>"

lemma unregister_udp_session_results_by_schema: "unregister_udp_session_results_accessors c a s = schema_accessors c unregister_udp_session_results_introspect a s"
  by (simp add: by_schema_simps unregister_udp_session_results_accessors_def unregister_udp_session_results_introspect_def unregister_udp_session_results_RAW_SCHEMA_def unregister_udp_session_results_decls)

definition update_configuration_response_accessors :: "('s, 'p) capnp \<Rightarrow> 's accessor_args \<Rightarrow> 's \<Rightarrow> 's accessor_rows" where
  "update_configuration_response_accessors c a s =
     \<lparr>getters =
        [(''latestAppliedVersion'', Some (DynInt32 (update_configuration_response_get_latest_applied_version c s))),
         (''err'', Some (DynText (update_configuration_response_get_err c s)))],
      setters =
        [(''latestAppliedVersion'', Some (update_configuration_response_set_latest_applied_version c (a_i32 a) s)),
         (''err'', Some (update_configuration_response_set_err c (a_text a) s))],
      presences =
        [(''err'', update_configuration_response_has_err c s)],
      initialisers =
        [(''err'', Some (update_configuration_response_init_err c (i_n a) (i_bytes a) s))]\<rparr>"

lemma update_configuration_response_by_schema: "update_configuration_response_accessors c a s = schema_accessors c update_configuration_response_introspect a s"
  by (simp add: by_schema_simps update_configuration_response_accessors_def update_configuration_response_introspect_def update_configuration_response_RAW_SCHEMA_def update_configuration_response_decls
      update_configuration_response_get_latest_applied_version_def
      update_configuration_response_set_latest_applied_version_def
      update_configuration_response_get_err_def update_configuration_response_set_err_def
      update_configuration_response_has_err_def update_configuration_response_init_err_def)

definition update_configuration_params_accessors :: "('s, 'p) capnp \<Rightarrow> 's accessor_args \<Rightarrow> 's \<Rightarrow> 's accessor_rows" where
  "update_configuration_params_accessors c a s =
     \<lparr>getters =
        [(''version'', Some (DynInt32 (update_configuration_params_get_version c s))),
         (''config'', Some (DynData (update_configuration_params_get_config c s)))],
      setters =
        [(''version'', Some (update_configuration_params_set_version c (a_i32 a) s)),
         (''config'', Some (update_configuration_params_set_config c (a_data a) s))],
      presences =
        [(''config'', update_configuration_params_has_config c s)],
      initialisers =
        [(''config'', Some (update_configuration_params_init_config c (i_n a) (i_bytes a) s))]\<rparr>"

lemma update_configuration_params_by_schema: "update_configuration_params_accessors c a s = schema_accessors c update_configuration_params_introspect a s"
  by (simp add: by_schema_simps update_configuration_params_accessors_def update_configuration_params_introspect_def update_configuration_params_RAW_SCHEMA_def update_configuration_params_decls
      update_configuration_params_get_version_def update_configuration_params_set_version_def
      update_configuration_params_get_config_def update_configuration_params_set_config_def
      update_configuration_params_has_config_def update_configuration_params_init_config_def)

definition update_configuration_results_accessors :: "('s, 'p) capnp \<Rightarrow> 's accessor_args \<Rightarrow> 's \<Rightarrow> 's accessor_rows" where
  "update_configuration_results_accessors c a s =
     \<lparr>getters =
        [(''result'', Some (DynStruct (update_configuration_results_get_result c s)))],
      setters =
        [(''result'', Some (update_configuration_results_set_result c (a_struct a) s))],
      presences =
        [(''result'', update_configuration_results_has_result c s)],
      initialisers =
        [(''result'', Some (update_configuration_results_init_result c (i_struct a) s))]\<rparr>"

lemma update_configuration_results_by_schema: "update_configuration_results_accessors c a s = schema_accessors c update_configuration_results_introspect a s"
  by (simp add: by_schema_simps update_configuration_results_accessors_def update_configuration_results_introspect_def update_configuration_results_RAW_SCHEMA_def update_configuration_results_decls
      update_configuration_results_get_result_def update_configuration_results_set_result_def
      update_configuration_results_has_result_def update_configuration_results_init_result_def)

lemmas all_by_schema =
  connect_request_by_schema metadata_by_schema connect_response_by_schema
  authentication_by_schema tunnel_registration_by_schema registration_options_by_schema
  server_info_by_schema authenticate_response_by_schema register_tunnel_params_by_schema
  register_tunnel_results_by_schema get_server_info_params_by_schema
  get_server_info_results_by_schema unregister_tunnel_params_by_schema
  unregister_tunnel_results_by_schema obsolete_declarative_tunnel_connect_params_by_schema
  obsolete_declarative_tunnel_connect_results_by_schema authenticate_params_by_schema
  authenticate_results_by_schema reconnect_tunnel_params_by_schema
  reconnect_tunnel_results_by_schema tag_by_schema client_info_by_schema
  connection_options_by_schema connection_response_by_schema response_result_by_schema
  connection_error_by_schema connection_details_by_schema tunnel_auth_by_schema
  register_connection_params_by_schema register_connection_results_by_schema
  unregister_connection_params_by_schema unregister_connection_results_by_schema
  update_local_configuration_params_by_schema update_local_configuration_results_by_schema
  register_udp_session_response_by_schema register_udp_session_params_by_schema
  register_udp_session_results_by_schema unregister_udp_session_params_by_schema
  unregister_udp_session_results_by_schema update_configuration_response_by_schema
  update_configuration_params_by_schema update_configuration_results_by_schema

definition all_accessors :: "('s, 'p) capnp \<Rightarrow> 's accessor_args \<Rightarrow> 's \<Rightarrow> 's accessor_rows list" where
  "all_accessors c a s =
    [connect_request_accessors c a s,
     metadata_accessors c a s,
     connect_response_accessors c a s,
     authentication_accessors c a s,
     tunnel_registration_accessors c a s,
     registration_options_accessors c a s,
     server_info_accessors c a s,
     authenticate_response_accessors c a s,
     register_tunnel_params_accessors c a s,
     register_tunnel_results_accessors c a s,
     get_server_info_params_accessors c a s,
     get_server_info_results_accessors c a s,
     unregister_tunnel_params_accessors c a s,
     unregister_tunnel_results_accessors c a s,
     obsolete_declarative_tunnel_connect_params_accessors c a s,
     obsolete_declarative_tunnel_connect_results_accessors c a s,
     authenticate_params_accessors c a s,
     authenticate_results_accessors c a s,
     reconnect_tunnel_params_accessors c a s,
     reconnect_tunnel_results_accessors c a s,
     tag_accessors c a s,
     client_info_accessors c a s,
     connection_options_accessors c a s,
     connection_response_accessors c a s,
     response_result_accessors c a s,
     connection_error_accessors c a s,
     connection_details_accessors c a s,
     tunnel_auth_accessors c a s,
     register_connection_params_accessors c a s,
     register_connection_results_accessors c a s,
     unregister_connection_params_accessors c a s,
     unregister_connection_results_accessors c a s,
     update_local_configuration_params_accessors c a s,
     update_local_configuration_results_accessors c a s,
     register_udp_session_response_accessors c a s,
     register_udp_session_params_accessors c a s,
     register_udp_session_results_accessors c a s,
     unregister_udp_session_params_accessors c a s,
     unregister_udp_session_results_accessors c a s,
     update_configuration_response_accessors c a s,
     update_configuration_params_accessors c a s,
     update_configuration_results_accessors c a s]"

section \<open>The union\<close>

text \<open>Which member the tag selects: its name and what it reads, or the unknown tag.\<close>

definition schema_which :: "('s, 'p) capnp \<Rightarrow> branded_schema \<Rightarrow> 's \<Rightarrow> nat + string \<times> 's dyn_value option" where
  "schema_which c b s =
     (let node = encoded_node (generic b); tag = get_field c 16 (node_discriminant_offset node) s;
          members = members_by_discriminant (generic b) in
      if tag < length members
      then (let d = field_decls node ! (members ! tag) in Inr (fd_name d, get_decl c d s))
      else Inl tag)"

fun which_row :: "nat + 's which_result \<Rightarrow> nat + string \<times> 's dyn_value option" where
  "which_row (Inl tag) = Inl tag"
| "which_row (Inr (WhichError r)) = Inr (''error'', Some (DynStruct r))"
| "which_row (Inr (WhichConnectionDetails r)) = Inr (''connectionDetails'', Some (DynStruct r))"

lemma response_result_which_by_schema:
  "which_row (response_result_which c s) = schema_which c response_result_introspect s"
  by (auto simp: schema_which_def response_result_which_def response_result_introspect_def
      response_result_RAW_SCHEMA_def response_result_decls response_result_node get_decl_def Let_def)

section \<open>Properties\<close>

text \<open>The readers and setters follow the encoded schema: for each of the structs, in the order of the files, the
  getters (with the default of \<open>traceContext\<close>), setters, \<open>has_\<close> tests and initialisers are those that
  its node describes, field by field, for every library, message and argument; a setter of a union member
  writes the member's tag first, an initialiser makes parts of their declared size, and the union of the
  reply tells its members apart by that tag.\<close>

lemma accessors_follow_encoded_schema:
  "all_accessors c a s = map (\<lambda>(tid, sz, b). schema_accessors c b a s) all_structs
   \<and> which_row (response_result_which c s) = schema_which c response_result_introspect s
   \<and> response_result_has_error c s = (get_field c 16 0 s = 0 \<and> \<not> ptr_null c (get_ptr c 0 s))
   \<and> response_result_has_connection_details c s = (get_field c 16 0 s = 1 \<and> \<not> ptr_null c (get_ptr c 0 s))"
proof (intro conjI)
  show "all_accessors c a s = map (\<lambda>(tid, sz, b). schema_accessors c b a s) all_structs"
    by (simp only: all_accessors_def all_structs_def list.map prod.case all_by_schema)
  show "which_row (response_result_which c s) = schema_which c response_result_introspect s"
    by (rule response_result_which_by_schema)
  show "response_result_has_error c s = (get_field c 16 0 s = 0 \<and> \<not> ptr_null c (get_ptr c 0 s))"
    "response_result_has_connection_details c s = (get_field c 16 0 s = 1 \<and> \<not> ptr_null c (get_ptr c 0 s))"
    by (simp_all add: response_result_has_error_def response_result_has_connection_details_def)
qed

end
