(* ===== verification/Message_Builders.thy ===== *)
theory Message_Builders
  imports Legacy_Schema Edge_Calls_Schema
begin

text \<open>
  The rest of the builders of \<^verbatim>\<open>src/proto_gen\<close>: getting a field for change, in every struct. A builder of a
  nested text, list or struct is a view into the message, so a getter takes what its caller does with that
  view and gives the changed message. A text, blob or list is written in place and keeps its length; one
  that is missing is an empty view and stays missing; a missing struct is made, and one that was written
  with a smaller size is first widened by the library, the parameter \<open>w\<close>. The laws of widening are the
  locale \<open>builder_api\<close>. Last come the pipelines, paths into a result that has not arrived.
\<close>

section \<open>Views\<close>

type_synonym 's widening = "nat \<times> nat \<Rightarrow> 's \<Rightarrow> 's"

definition in_place :: "('a list \<Rightarrow> 'a list) \<Rightarrow> 'a list \<Rightarrow> 'a list" where
  "in_place f xs = take (length xs) (f xs) @ drop (length (f xs)) xs"

definition edit_text :: "('s, 'p) capnp \<Rightarrow> (bytes \<Rightarrow> bytes) \<Rightarrow> 'p \<Rightarrow> string + 'p" where
  "edit_text c f q = (if ptr_null c q then Inr q else map_sum id (\<lambda>t. text_ptr c (in_place f t)) (ptr_text c q))"

definition edit_text_or :: "('s, 'p) capnp \<Rightarrow> string \<Rightarrow> (bytes \<Rightarrow> bytes) \<Rightarrow> 'p \<Rightarrow> string + 'p" where
  "edit_text_or c dflt f q = edit_text c f (if ptr_null c q then text_ptr c dflt else q)"

definition edit_data :: "('s, 'p) capnp \<Rightarrow> (bytes \<Rightarrow> bytes) \<Rightarrow> 'p \<Rightarrow> string + 'p" where
  "edit_data c f q = (if ptr_null c q then Inr q else map_sum id (\<lambda>t. data_ptr c (in_place f t)) (ptr_data c q))"

definition edit_texts :: "('s, 'p) capnp \<Rightarrow> (string list \<Rightarrow> string list) \<Rightarrow> 'p \<Rightarrow> string + 'p" where
  "edit_texts c f q = (if ptr_null c q then Inr q else map_sum id (\<lambda>ts. texts_ptr c (in_place f ts)) (ptr_texts c q))"

definition edit_structs ::
  "('s, 'p) capnp \<Rightarrow> 's widening \<Rightarrow> nat \<times> nat \<Rightarrow> ('s list \<Rightarrow> 's list) \<Rightarrow> 'p \<Rightarrow> string + 'p" where
  "edit_structs c w sz f q =
     (if ptr_null c q then Inr q else map_sum id (\<lambda>ss. structs_ptr c (in_place f (map (w sz) ss))) (ptr_structs c q))"

definition edit_struct ::
  "('s, 'p) capnp \<Rightarrow> 's widening \<Rightarrow> nat \<times> nat \<Rightarrow> ('s \<Rightarrow> 's) \<Rightarrow> 'p \<Rightarrow> string + 'p" where
  "edit_struct c w sz f q =
     (if ptr_null c q then Inr (struct_ptr c (f (new_struct c (fst sz) (snd sz))))
      else map_sum id (\<lambda>t. struct_ptr c (f (w sz t))) (ptr_struct c q))"

definition with_pointer :: "('s, 'p) capnp \<Rightarrow> nat \<Rightarrow> ('p \<Rightarrow> string + 'p) \<Rightarrow> 's \<Rightarrow> string + 's" where
  "with_pointer c k g s = map_sum id (\<lambda>q. set_ptr c k q s) (g (get_ptr c k s))"

definition clear_pointer :: "('s, 'p) capnp \<Rightarrow> nat \<Rightarrow> 's \<Rightarrow> 's" where
  "clear_pointer c k s = set_ptr c k (get_ptr c 0 (new_struct c 0 1)) s"

lemma in_place_length [simp]: "length (in_place f xs) = length xs"
  by (simp add: in_place_def min_def)

lemma in_place_id [simp]: "in_place (\<lambda>xs. xs) xs = xs"
  by (simp add: in_place_def)

section \<open>Laws of widening\<close>

text \<open>A widened struct has at least the sections asked for and keeps everything that it had.\<close>

locale builder_api = capnp_api c for c :: "('s, 'p) capnp" +
  fixes w :: "'s widening"
  assumes wide_words: "data_words c (w (d, p) s) = max d (data_words c s)"
    and wide_ptrs: "ptr_count c (w (d, p) s) = max p (ptr_count c s)"
    and wide_field: "field_fits n i (data_words c s) \<Longrightarrow> get_field c n i (w (d, p) s) = get_field c n i s"
    and wide_ptr: "k < ptr_count c s \<Longrightarrow> get_ptr c k (w (d, p) s) = get_ptr c k s"
    and wide_null: "ptr_count c s \<le> k \<Longrightarrow> ptr_null c (get_ptr c k (w (d, p) s))"
begin

text \<open>What a reader finds after a nested struct has been changed through its builder.\<close>

lemma edited_struct_read:
  assumes "with_pointer c k (edit_struct c w sz f) s = Inr s'" and "k < ptr_count c s"
  obtains t where "ptr_struct c (get_ptr c k s') = Inr (f t)" "\<not> ptr_null c (get_ptr c k s')"
    "if ptr_null c (get_ptr c k s) then t = new_struct c (fst sz) (snd sz)
     else \<exists>u. ptr_struct c (get_ptr c k s) = Inr u \<and> t = w sz u"
proof (cases "ptr_null c (get_ptr c k s)")
  case True
  with assms that [of "new_struct c (fst sz) (snd sz)"] show thesis
    by (auto simp: with_pointer_def edit_struct_def get_set_ptr struct_back struct_present)
next
  case False
  with assms(1) obtain u where "ptr_struct c (get_ptr c k s) = Inr u"
    by (cases "ptr_struct c (get_ptr c k s)") (auto simp: with_pointer_def edit_struct_def)
  with False assms that [of "w sz u"] show thesis
    by (auto simp: with_pointer_def edit_struct_def get_set_ptr struct_back struct_present)
qed

lemma edited_keeps:
  assumes "with_pointer c k g s = Inr s'"
  shows "data_words c s' = data_words c s" "ptr_count c s' = ptr_count c s"
    "get_field c n i s' = get_field c n i s" "l \<noteq> k \<Longrightarrow> get_ptr c l s' = get_ptr c l s"
  using assms by (auto simp: with_pointer_def set_ptr_words set_ptr_ptrs get_field_set_ptr get_set_ptr_other
      map_sum_def split: sum.splits)

lemma cleared_pointer: "k < ptr_count c s \<Longrightarrow> ptr_null c (get_ptr c k (clear_pointer c k s))"
  by (simp add: clear_pointer_def get_set_ptr new_null)

end

definition tree_widen :: "tree_struct widening" where
  "tree_widen sz s =
     TS (ts_bits s @ replicate (64 * fst sz - length (ts_bits s)) False)
        (ts_ptrs s @ replicate (snd sz - length (ts_ptrs s)) TNull)"

interpretation tree_builders: builder_api tree_api tree_widen
proof (intro builder_api.intro tree_capnp.capnp_api_axioms builder_api_axioms.intro, goal_cases)
  case (1 d p s)
  have "length (ts_bits s) + (64 * d - length (ts_bits s)) = max (length (ts_bits s)) (64 * d)" by simp
  moreover have "max n (64 * d) div 64 = max d (n div 64)" for n :: nat by (cases "n \<le> 64 * d") (auto simp: max_def)
  ultimately show ?case by (simp add: tree_api_def tree_widen_def)
next
  case (3 n i s d p)
  then have "(i + 1) * n \<le> length (ts_bits s)" by (simp add: field_fits_def tree_api_def)
  then have "n - (length (ts_bits s) - i * n) = 0" by simp
  then show ?case by (simp add: tree_api_def tree_widen_def bits_field_def)
qed (auto simp: tree_api_def tree_widen_def nth_append)

section \<open>The struct metadata\<close>

definition metadata_init_pointer :: "('s, 'p) capnp \<Rightarrow> ('s \<Rightarrow> 's) \<Rightarrow> 'p" where
  "metadata_init_pointer c f = struct_ptr c (f (new_struct c (fst metadata_STRUCT_SIZE) (snd metadata_STRUCT_SIZE)))"

definition metadata_get_from_pointer :: "('s, 'p) capnp \<Rightarrow> 's widening \<Rightarrow> ('s \<Rightarrow> 's) \<Rightarrow> 'p \<Rightarrow> string + 'p" where
  "metadata_get_from_pointer c w f = edit_struct c w metadata_STRUCT_SIZE f"

definition metadata_builder_get_key :: "('s, 'p) capnp \<Rightarrow> (bytes \<Rightarrow> bytes) \<Rightarrow> 's \<Rightarrow> string + 's" where
  "metadata_builder_get_key c f = with_pointer c 0 (edit_text c f)"

definition metadata_builder_has_key :: "('s, 'p) capnp \<Rightarrow> 's \<Rightarrow> bool" where
  "metadata_builder_has_key c s = (\<not> ptr_null c (get_ptr c 0 s))"

definition metadata_builder_get_val :: "('s, 'p) capnp \<Rightarrow> (bytes \<Rightarrow> bytes) \<Rightarrow> 's \<Rightarrow> string + 's" where
  "metadata_builder_get_val c f = with_pointer c 1 (edit_text c f)"

definition metadata_builder_has_val :: "('s, 'p) capnp \<Rightarrow> 's \<Rightarrow> bool" where
  "metadata_builder_has_val c s = (\<not> ptr_null c (get_ptr c 1 s))"

section \<open>The struct connect_request\<close>

definition connect_request_init_pointer :: "('s, 'p) capnp \<Rightarrow> ('s \<Rightarrow> 's) \<Rightarrow> 'p" where
  "connect_request_init_pointer c f = struct_ptr c (f (new_struct c (fst connect_request_STRUCT_SIZE) (snd connect_request_STRUCT_SIZE)))"

definition connect_request_get_from_pointer :: "('s, 'p) capnp \<Rightarrow> 's widening \<Rightarrow> ('s \<Rightarrow> 's) \<Rightarrow> 'p \<Rightarrow> string + 'p" where
  "connect_request_get_from_pointer c w f = edit_struct c w connect_request_STRUCT_SIZE f"

definition connect_request_builder_get_dest :: "('s, 'p) capnp \<Rightarrow> (bytes \<Rightarrow> bytes) \<Rightarrow> 's \<Rightarrow> string + 's" where
  "connect_request_builder_get_dest c f = with_pointer c 0 (edit_text c f)"

definition connect_request_builder_has_dest :: "('s, 'p) capnp \<Rightarrow> 's \<Rightarrow> bool" where
  "connect_request_builder_has_dest c s = (\<not> ptr_null c (get_ptr c 0 s))"

definition connect_request_builder_get_type :: "('s, 'p) capnp \<Rightarrow> 's \<Rightarrow> nat + wire_connection_type" where
  "connect_request_builder_get_type c s = connection_type_try_from (get_field c 16 0 s)"

definition connect_request_builder_get_metadata :: "('s, 'p) capnp \<Rightarrow> 's widening \<Rightarrow> ('s list \<Rightarrow> 's list) \<Rightarrow> 's \<Rightarrow> string + 's" where
  "connect_request_builder_get_metadata c w f = with_pointer c 1 (edit_structs c w metadata_STRUCT_SIZE f)"

definition connect_request_builder_has_metadata :: "('s, 'p) capnp \<Rightarrow> 's \<Rightarrow> bool" where
  "connect_request_builder_has_metadata c s = (\<not> ptr_null c (get_ptr c 1 s))"

section \<open>The struct connect_response\<close>

definition connect_response_init_pointer :: "('s, 'p) capnp \<Rightarrow> ('s \<Rightarrow> 's) \<Rightarrow> 'p" where
  "connect_response_init_pointer c f = struct_ptr c (f (new_struct c (fst connect_response_STRUCT_SIZE) (snd connect_response_STRUCT_SIZE)))"

definition connect_response_get_from_pointer :: "('s, 'p) capnp \<Rightarrow> 's widening \<Rightarrow> ('s \<Rightarrow> 's) \<Rightarrow> 'p \<Rightarrow> string + 'p" where
  "connect_response_get_from_pointer c w f = edit_struct c w connect_response_STRUCT_SIZE f"

definition connect_response_builder_get_error :: "('s, 'p) capnp \<Rightarrow> (bytes \<Rightarrow> bytes) \<Rightarrow> 's \<Rightarrow> string + 's" where
  "connect_response_builder_get_error c f = with_pointer c 0 (edit_text c f)"

definition connect_response_builder_has_error :: "('s, 'p) capnp \<Rightarrow> 's \<Rightarrow> bool" where
  "connect_response_builder_has_error c s = (\<not> ptr_null c (get_ptr c 0 s))"

definition connect_response_builder_get_metadata :: "('s, 'p) capnp \<Rightarrow> 's widening \<Rightarrow> ('s list \<Rightarrow> 's list) \<Rightarrow> 's \<Rightarrow> string + 's" where
  "connect_response_builder_get_metadata c w f = with_pointer c 1 (edit_structs c w metadata_STRUCT_SIZE f)"

definition connect_response_builder_has_metadata :: "('s, 'p) capnp \<Rightarrow> 's \<Rightarrow> bool" where
  "connect_response_builder_has_metadata c s = (\<not> ptr_null c (get_ptr c 1 s))"

section \<open>The struct authentication\<close>

definition authentication_init_pointer :: "('s, 'p) capnp \<Rightarrow> ('s \<Rightarrow> 's) \<Rightarrow> 'p" where
  "authentication_init_pointer c f = struct_ptr c (f (new_struct c (fst authentication_STRUCT_SIZE) (snd authentication_STRUCT_SIZE)))"

definition authentication_get_from_pointer :: "('s, 'p) capnp \<Rightarrow> 's widening \<Rightarrow> ('s \<Rightarrow> 's) \<Rightarrow> 'p \<Rightarrow> string + 'p" where
  "authentication_get_from_pointer c w f = edit_struct c w authentication_STRUCT_SIZE f"

definition authentication_builder_get_key :: "('s, 'p) capnp \<Rightarrow> (bytes \<Rightarrow> bytes) \<Rightarrow> 's \<Rightarrow> string + 's" where
  "authentication_builder_get_key c f = with_pointer c 0 (edit_text c f)"

definition authentication_builder_has_key :: "('s, 'p) capnp \<Rightarrow> 's \<Rightarrow> bool" where
  "authentication_builder_has_key c s = (\<not> ptr_null c (get_ptr c 0 s))"

definition authentication_builder_get_email :: "('s, 'p) capnp \<Rightarrow> (bytes \<Rightarrow> bytes) \<Rightarrow> 's \<Rightarrow> string + 's" where
  "authentication_builder_get_email c f = with_pointer c 1 (edit_text c f)"

definition authentication_builder_has_email :: "('s, 'p) capnp \<Rightarrow> 's \<Rightarrow> bool" where
  "authentication_builder_has_email c s = (\<not> ptr_null c (get_ptr c 1 s))"

definition authentication_builder_get_origin_c_a_key :: "('s, 'p) capnp \<Rightarrow> (bytes \<Rightarrow> bytes) \<Rightarrow> 's \<Rightarrow> string + 's" where
  "authentication_builder_get_origin_c_a_key c f = with_pointer c 2 (edit_text c f)"

definition authentication_builder_has_origin_c_a_key :: "('s, 'p) capnp \<Rightarrow> 's \<Rightarrow> bool" where
  "authentication_builder_has_origin_c_a_key c s = (\<not> ptr_null c (get_ptr c 2 s))"

section \<open>The struct tunnel_registration\<close>

definition tunnel_registration_init_pointer :: "('s, 'p) capnp \<Rightarrow> ('s \<Rightarrow> 's) \<Rightarrow> 'p" where
  "tunnel_registration_init_pointer c f = struct_ptr c (f (new_struct c (fst tunnel_registration_STRUCT_SIZE) (snd tunnel_registration_STRUCT_SIZE)))"

definition tunnel_registration_get_from_pointer :: "('s, 'p) capnp \<Rightarrow> 's widening \<Rightarrow> ('s \<Rightarrow> 's) \<Rightarrow> 'p \<Rightarrow> string + 'p" where
  "tunnel_registration_get_from_pointer c w f = edit_struct c w tunnel_registration_STRUCT_SIZE f"

definition tunnel_registration_builder_get_err :: "('s, 'p) capnp \<Rightarrow> (bytes \<Rightarrow> bytes) \<Rightarrow> 's \<Rightarrow> string + 's" where
  "tunnel_registration_builder_get_err c f = with_pointer c 0 (edit_text c f)"

definition tunnel_registration_builder_has_err :: "('s, 'p) capnp \<Rightarrow> 's \<Rightarrow> bool" where
  "tunnel_registration_builder_has_err c s = (\<not> ptr_null c (get_ptr c 0 s))"

definition tunnel_registration_builder_get_url :: "('s, 'p) capnp \<Rightarrow> (bytes \<Rightarrow> bytes) \<Rightarrow> 's \<Rightarrow> string + 's" where
  "tunnel_registration_builder_get_url c f = with_pointer c 1 (edit_text c f)"

definition tunnel_registration_builder_has_url :: "('s, 'p) capnp \<Rightarrow> 's \<Rightarrow> bool" where
  "tunnel_registration_builder_has_url c s = (\<not> ptr_null c (get_ptr c 1 s))"

definition tunnel_registration_builder_get_log_lines :: "('s, 'p) capnp \<Rightarrow> (string list \<Rightarrow> string list) \<Rightarrow> 's \<Rightarrow> string + 's" where
  "tunnel_registration_builder_get_log_lines c f = with_pointer c 2 (edit_texts c f)"

definition tunnel_registration_builder_has_log_lines :: "('s, 'p) capnp \<Rightarrow> 's \<Rightarrow> bool" where
  "tunnel_registration_builder_has_log_lines c s = (\<not> ptr_null c (get_ptr c 2 s))"

definition tunnel_registration_builder_get_permanent_failure :: "('s, 'p) capnp \<Rightarrow> 's \<Rightarrow> bool" where
  "tunnel_registration_builder_get_permanent_failure c s = (get_field c 1 0 s = 1)"

definition tunnel_registration_builder_get_tunnel_i_d :: "('s, 'p) capnp \<Rightarrow> (bytes \<Rightarrow> bytes) \<Rightarrow> 's \<Rightarrow> string + 's" where
  "tunnel_registration_builder_get_tunnel_i_d c f = with_pointer c 3 (edit_text c f)"

definition tunnel_registration_builder_has_tunnel_i_d :: "('s, 'p) capnp \<Rightarrow> 's \<Rightarrow> bool" where
  "tunnel_registration_builder_has_tunnel_i_d c s = (\<not> ptr_null c (get_ptr c 3 s))"

definition tunnel_registration_builder_get_retry_after_seconds :: "('s, 'p) capnp \<Rightarrow> 's \<Rightarrow> u16" where
  "tunnel_registration_builder_get_retry_after_seconds c s = word_of_nat (get_field c 16 1 s)"

definition tunnel_registration_builder_get_event_digest :: "('s, 'p) capnp \<Rightarrow> (bytes \<Rightarrow> bytes) \<Rightarrow> 's \<Rightarrow> string + 's" where
  "tunnel_registration_builder_get_event_digest c f = with_pointer c 4 (edit_data c f)"

definition tunnel_registration_builder_has_event_digest :: "('s, 'p) capnp \<Rightarrow> 's \<Rightarrow> bool" where
  "tunnel_registration_builder_has_event_digest c s = (\<not> ptr_null c (get_ptr c 4 s))"

definition tunnel_registration_builder_get_conn_digest :: "('s, 'p) capnp \<Rightarrow> (bytes \<Rightarrow> bytes) \<Rightarrow> 's \<Rightarrow> string + 's" where
  "tunnel_registration_builder_get_conn_digest c f = with_pointer c 5 (edit_data c f)"

definition tunnel_registration_builder_has_conn_digest :: "('s, 'p) capnp \<Rightarrow> 's \<Rightarrow> bool" where
  "tunnel_registration_builder_has_conn_digest c s = (\<not> ptr_null c (get_ptr c 5 s))"

section \<open>The struct tag\<close>

definition tag_init_pointer :: "('s, 'p) capnp \<Rightarrow> ('s \<Rightarrow> 's) \<Rightarrow> 'p" where
  "tag_init_pointer c f = struct_ptr c (f (new_struct c (fst tag_STRUCT_SIZE) (snd tag_STRUCT_SIZE)))"

definition tag_get_from_pointer :: "('s, 'p) capnp \<Rightarrow> 's widening \<Rightarrow> ('s \<Rightarrow> 's) \<Rightarrow> 'p \<Rightarrow> string + 'p" where
  "tag_get_from_pointer c w f = edit_struct c w tag_STRUCT_SIZE f"

definition tag_builder_get_name :: "('s, 'p) capnp \<Rightarrow> (bytes \<Rightarrow> bytes) \<Rightarrow> 's \<Rightarrow> string + 's" where
  "tag_builder_get_name c f = with_pointer c 0 (edit_text c f)"

definition tag_builder_has_name :: "('s, 'p) capnp \<Rightarrow> 's \<Rightarrow> bool" where
  "tag_builder_has_name c s = (\<not> ptr_null c (get_ptr c 0 s))"

definition tag_builder_get_value :: "('s, 'p) capnp \<Rightarrow> (bytes \<Rightarrow> bytes) \<Rightarrow> 's \<Rightarrow> string + 's" where
  "tag_builder_get_value c f = with_pointer c 1 (edit_text c f)"

definition tag_builder_has_value :: "('s, 'p) capnp \<Rightarrow> 's \<Rightarrow> bool" where
  "tag_builder_has_value c s = (\<not> ptr_null c (get_ptr c 1 s))"

section \<open>The struct registration_options\<close>

definition registration_options_init_pointer :: "('s, 'p) capnp \<Rightarrow> ('s \<Rightarrow> 's) \<Rightarrow> 'p" where
  "registration_options_init_pointer c f = struct_ptr c (f (new_struct c (fst registration_options_STRUCT_SIZE) (snd registration_options_STRUCT_SIZE)))"

definition registration_options_get_from_pointer :: "('s, 'p) capnp \<Rightarrow> 's widening \<Rightarrow> ('s \<Rightarrow> 's) \<Rightarrow> 'p \<Rightarrow> string + 'p" where
  "registration_options_get_from_pointer c w f = edit_struct c w registration_options_STRUCT_SIZE f"

definition registration_options_builder_get_client_id :: "('s, 'p) capnp \<Rightarrow> (bytes \<Rightarrow> bytes) \<Rightarrow> 's \<Rightarrow> string + 's" where
  "registration_options_builder_get_client_id c f = with_pointer c 0 (edit_text c f)"

definition registration_options_builder_has_client_id :: "('s, 'p) capnp \<Rightarrow> 's \<Rightarrow> bool" where
  "registration_options_builder_has_client_id c s = (\<not> ptr_null c (get_ptr c 0 s))"

definition registration_options_builder_get_version :: "('s, 'p) capnp \<Rightarrow> (bytes \<Rightarrow> bytes) \<Rightarrow> 's \<Rightarrow> string + 's" where
  "registration_options_builder_get_version c f = with_pointer c 1 (edit_text c f)"

definition registration_options_builder_has_version :: "('s, 'p) capnp \<Rightarrow> 's \<Rightarrow> bool" where
  "registration_options_builder_has_version c s = (\<not> ptr_null c (get_ptr c 1 s))"

definition registration_options_builder_get_os :: "('s, 'p) capnp \<Rightarrow> (bytes \<Rightarrow> bytes) \<Rightarrow> 's \<Rightarrow> string + 's" where
  "registration_options_builder_get_os c f = with_pointer c 2 (edit_text c f)"

definition registration_options_builder_has_os :: "('s, 'p) capnp \<Rightarrow> 's \<Rightarrow> bool" where
  "registration_options_builder_has_os c s = (\<not> ptr_null c (get_ptr c 2 s))"

definition registration_options_builder_get_existing_tunnel_policy :: "('s, 'p) capnp \<Rightarrow> 's \<Rightarrow> nat + existing_tunnel_policy" where
  "registration_options_builder_get_existing_tunnel_policy c s = existing_tunnel_policy_try_from (get_field c 16 0 s)"

definition registration_options_builder_get_pool_name :: "('s, 'p) capnp \<Rightarrow> (bytes \<Rightarrow> bytes) \<Rightarrow> 's \<Rightarrow> string + 's" where
  "registration_options_builder_get_pool_name c f = with_pointer c 3 (edit_text c f)"

definition registration_options_builder_has_pool_name :: "('s, 'p) capnp \<Rightarrow> 's \<Rightarrow> bool" where
  "registration_options_builder_has_pool_name c s = (\<not> ptr_null c (get_ptr c 3 s))"

definition registration_options_builder_get_tags :: "('s, 'p) capnp \<Rightarrow> 's widening \<Rightarrow> ('s list \<Rightarrow> 's list) \<Rightarrow> 's \<Rightarrow> string + 's" where
  "registration_options_builder_get_tags c w f = with_pointer c 4 (edit_structs c w tag_STRUCT_SIZE f)"

definition registration_options_builder_has_tags :: "('s, 'p) capnp \<Rightarrow> 's \<Rightarrow> bool" where
  "registration_options_builder_has_tags c s = (\<not> ptr_null c (get_ptr c 4 s))"

definition registration_options_builder_get_connection_id :: "('s, 'p) capnp \<Rightarrow> 's \<Rightarrow> u8" where
  "registration_options_builder_get_connection_id c s = word_of_nat (get_field c 8 2 s)"

definition registration_options_builder_get_origin_local_ip :: "('s, 'p) capnp \<Rightarrow> (bytes \<Rightarrow> bytes) \<Rightarrow> 's \<Rightarrow> string + 's" where
  "registration_options_builder_get_origin_local_ip c f = with_pointer c 5 (edit_text c f)"

definition registration_options_builder_has_origin_local_ip :: "('s, 'p) capnp \<Rightarrow> 's \<Rightarrow> bool" where
  "registration_options_builder_has_origin_local_ip c s = (\<not> ptr_null c (get_ptr c 5 s))"

definition registration_options_builder_get_is_autoupdated :: "('s, 'p) capnp \<Rightarrow> 's \<Rightarrow> bool" where
  "registration_options_builder_get_is_autoupdated c s = (get_field c 1 24 s = 1)"

definition registration_options_builder_get_run_from_terminal :: "('s, 'p) capnp \<Rightarrow> 's \<Rightarrow> bool" where
  "registration_options_builder_get_run_from_terminal c s = (get_field c 1 25 s = 1)"

definition registration_options_builder_get_compression_quality :: "('s, 'p) capnp \<Rightarrow> 's \<Rightarrow> u64" where
  "registration_options_builder_get_compression_quality c s = word_of_nat (get_field c 64 1 s)"

definition registration_options_builder_get_uuid :: "('s, 'p) capnp \<Rightarrow> (bytes \<Rightarrow> bytes) \<Rightarrow> 's \<Rightarrow> string + 's" where
  "registration_options_builder_get_uuid c f = with_pointer c 6 (edit_text c f)"

definition registration_options_builder_has_uuid :: "('s, 'p) capnp \<Rightarrow> 's \<Rightarrow> bool" where
  "registration_options_builder_has_uuid c s = (\<not> ptr_null c (get_ptr c 6 s))"

definition registration_options_builder_get_num_previous_attempts :: "('s, 'p) capnp \<Rightarrow> 's \<Rightarrow> u8" where
  "registration_options_builder_get_num_previous_attempts c s = word_of_nat (get_field c 8 4 s)"

definition registration_options_builder_get_features :: "('s, 'p) capnp \<Rightarrow> (string list \<Rightarrow> string list) \<Rightarrow> 's \<Rightarrow> string + 's" where
  "registration_options_builder_get_features c f = with_pointer c 7 (edit_texts c f)"

definition registration_options_builder_has_features :: "('s, 'p) capnp \<Rightarrow> 's \<Rightarrow> bool" where
  "registration_options_builder_has_features c s = (\<not> ptr_null c (get_ptr c 7 s))"

section \<open>The struct server_info\<close>

definition server_info_init_pointer :: "('s, 'p) capnp \<Rightarrow> ('s \<Rightarrow> 's) \<Rightarrow> 'p" where
  "server_info_init_pointer c f = struct_ptr c (f (new_struct c (fst server_info_STRUCT_SIZE) (snd server_info_STRUCT_SIZE)))"

definition server_info_get_from_pointer :: "('s, 'p) capnp \<Rightarrow> 's widening \<Rightarrow> ('s \<Rightarrow> 's) \<Rightarrow> 'p \<Rightarrow> string + 'p" where
  "server_info_get_from_pointer c w f = edit_struct c w server_info_STRUCT_SIZE f"

definition server_info_builder_get_location_name :: "('s, 'p) capnp \<Rightarrow> (bytes \<Rightarrow> bytes) \<Rightarrow> 's \<Rightarrow> string + 's" where
  "server_info_builder_get_location_name c f = with_pointer c 0 (edit_text c f)"

definition server_info_builder_has_location_name :: "('s, 'p) capnp \<Rightarrow> 's \<Rightarrow> bool" where
  "server_info_builder_has_location_name c s = (\<not> ptr_null c (get_ptr c 0 s))"

section \<open>The struct authenticate_response\<close>

definition authenticate_response_init_pointer :: "('s, 'p) capnp \<Rightarrow> ('s \<Rightarrow> 's) \<Rightarrow> 'p" where
  "authenticate_response_init_pointer c f = struct_ptr c (f (new_struct c (fst authenticate_response_STRUCT_SIZE) (snd authenticate_response_STRUCT_SIZE)))"

definition authenticate_response_get_from_pointer :: "('s, 'p) capnp \<Rightarrow> 's widening \<Rightarrow> ('s \<Rightarrow> 's) \<Rightarrow> 'p \<Rightarrow> string + 'p" where
  "authenticate_response_get_from_pointer c w f = edit_struct c w authenticate_response_STRUCT_SIZE f"

definition authenticate_response_builder_get_permanent_err :: "('s, 'p) capnp \<Rightarrow> (bytes \<Rightarrow> bytes) \<Rightarrow> 's \<Rightarrow> string + 's" where
  "authenticate_response_builder_get_permanent_err c f = with_pointer c 0 (edit_text c f)"

definition authenticate_response_builder_has_permanent_err :: "('s, 'p) capnp \<Rightarrow> 's \<Rightarrow> bool" where
  "authenticate_response_builder_has_permanent_err c s = (\<not> ptr_null c (get_ptr c 0 s))"

definition authenticate_response_builder_get_retryable_err :: "('s, 'p) capnp \<Rightarrow> (bytes \<Rightarrow> bytes) \<Rightarrow> 's \<Rightarrow> string + 's" where
  "authenticate_response_builder_get_retryable_err c f = with_pointer c 1 (edit_text c f)"

definition authenticate_response_builder_has_retryable_err :: "('s, 'p) capnp \<Rightarrow> 's \<Rightarrow> bool" where
  "authenticate_response_builder_has_retryable_err c s = (\<not> ptr_null c (get_ptr c 1 s))"

definition authenticate_response_builder_get_jwt :: "('s, 'p) capnp \<Rightarrow> (bytes \<Rightarrow> bytes) \<Rightarrow> 's \<Rightarrow> string + 's" where
  "authenticate_response_builder_get_jwt c f = with_pointer c 2 (edit_data c f)"

definition authenticate_response_builder_has_jwt :: "('s, 'p) capnp \<Rightarrow> 's \<Rightarrow> bool" where
  "authenticate_response_builder_has_jwt c s = (\<not> ptr_null c (get_ptr c 2 s))"

definition authenticate_response_builder_get_hours_until_refresh :: "('s, 'p) capnp \<Rightarrow> 's \<Rightarrow> u8" where
  "authenticate_response_builder_get_hours_until_refresh c s = word_of_nat (get_field c 8 0 s)"

section \<open>The struct register_tunnel_params\<close>

definition register_tunnel_params_init_pointer :: "('s, 'p) capnp \<Rightarrow> ('s \<Rightarrow> 's) \<Rightarrow> 'p" where
  "register_tunnel_params_init_pointer c f = struct_ptr c (f (new_struct c (fst register_tunnel_params_STRUCT_SIZE) (snd register_tunnel_params_STRUCT_SIZE)))"

definition register_tunnel_params_get_from_pointer :: "('s, 'p) capnp \<Rightarrow> 's widening \<Rightarrow> ('s \<Rightarrow> 's) \<Rightarrow> 'p \<Rightarrow> string + 'p" where
  "register_tunnel_params_get_from_pointer c w f = edit_struct c w register_tunnel_params_STRUCT_SIZE f"

definition register_tunnel_params_builder_get_origin_cert :: "('s, 'p) capnp \<Rightarrow> (bytes \<Rightarrow> bytes) \<Rightarrow> 's \<Rightarrow> string + 's" where
  "register_tunnel_params_builder_get_origin_cert c f = with_pointer c 0 (edit_data c f)"

definition register_tunnel_params_builder_has_origin_cert :: "('s, 'p) capnp \<Rightarrow> 's \<Rightarrow> bool" where
  "register_tunnel_params_builder_has_origin_cert c s = (\<not> ptr_null c (get_ptr c 0 s))"

definition register_tunnel_params_builder_get_hostname :: "('s, 'p) capnp \<Rightarrow> (bytes \<Rightarrow> bytes) \<Rightarrow> 's \<Rightarrow> string + 's" where
  "register_tunnel_params_builder_get_hostname c f = with_pointer c 1 (edit_text c f)"

definition register_tunnel_params_builder_has_hostname :: "('s, 'p) capnp \<Rightarrow> 's \<Rightarrow> bool" where
  "register_tunnel_params_builder_has_hostname c s = (\<not> ptr_null c (get_ptr c 1 s))"

definition register_tunnel_params_builder_get_options :: "('s, 'p) capnp \<Rightarrow> 's widening \<Rightarrow> ('s \<Rightarrow> 's) \<Rightarrow> 's \<Rightarrow> string + 's" where
  "register_tunnel_params_builder_get_options c w f = with_pointer c 2 (registration_options_get_from_pointer c w f)"

definition register_tunnel_params_builder_has_options :: "('s, 'p) capnp \<Rightarrow> 's \<Rightarrow> bool" where
  "register_tunnel_params_builder_has_options c s = (\<not> ptr_null c (get_ptr c 2 s))"

section \<open>The struct register_tunnel_results\<close>

definition register_tunnel_results_init_pointer :: "('s, 'p) capnp \<Rightarrow> ('s \<Rightarrow> 's) \<Rightarrow> 'p" where
  "register_tunnel_results_init_pointer c f = struct_ptr c (f (new_struct c (fst register_tunnel_results_STRUCT_SIZE) (snd register_tunnel_results_STRUCT_SIZE)))"

definition register_tunnel_results_get_from_pointer :: "('s, 'p) capnp \<Rightarrow> 's widening \<Rightarrow> ('s \<Rightarrow> 's) \<Rightarrow> 'p \<Rightarrow> string + 'p" where
  "register_tunnel_results_get_from_pointer c w f = edit_struct c w register_tunnel_results_STRUCT_SIZE f"

definition register_tunnel_results_builder_get_result :: "('s, 'p) capnp \<Rightarrow> 's widening \<Rightarrow> ('s \<Rightarrow> 's) \<Rightarrow> 's \<Rightarrow> string + 's" where
  "register_tunnel_results_builder_get_result c w f = with_pointer c 0 (tunnel_registration_get_from_pointer c w f)"

definition register_tunnel_results_builder_has_result :: "('s, 'p) capnp \<Rightarrow> 's \<Rightarrow> bool" where
  "register_tunnel_results_builder_has_result c s = (\<not> ptr_null c (get_ptr c 0 s))"

section \<open>The struct get_server_info_params\<close>

definition get_server_info_params_init_pointer :: "('s, 'p) capnp \<Rightarrow> ('s \<Rightarrow> 's) \<Rightarrow> 'p" where
  "get_server_info_params_init_pointer c f = struct_ptr c (f (new_struct c (fst get_server_info_params_STRUCT_SIZE) (snd get_server_info_params_STRUCT_SIZE)))"

definition get_server_info_params_get_from_pointer :: "('s, 'p) capnp \<Rightarrow> 's widening \<Rightarrow> ('s \<Rightarrow> 's) \<Rightarrow> 'p \<Rightarrow> string + 'p" where
  "get_server_info_params_get_from_pointer c w f = edit_struct c w get_server_info_params_STRUCT_SIZE f"

section \<open>The struct get_server_info_results\<close>

definition get_server_info_results_init_pointer :: "('s, 'p) capnp \<Rightarrow> ('s \<Rightarrow> 's) \<Rightarrow> 'p" where
  "get_server_info_results_init_pointer c f = struct_ptr c (f (new_struct c (fst get_server_info_results_STRUCT_SIZE) (snd get_server_info_results_STRUCT_SIZE)))"

definition get_server_info_results_get_from_pointer :: "('s, 'p) capnp \<Rightarrow> 's widening \<Rightarrow> ('s \<Rightarrow> 's) \<Rightarrow> 'p \<Rightarrow> string + 'p" where
  "get_server_info_results_get_from_pointer c w f = edit_struct c w get_server_info_results_STRUCT_SIZE f"

definition get_server_info_results_builder_get_result :: "('s, 'p) capnp \<Rightarrow> 's widening \<Rightarrow> ('s \<Rightarrow> 's) \<Rightarrow> 's \<Rightarrow> string + 's" where
  "get_server_info_results_builder_get_result c w f = with_pointer c 0 (server_info_get_from_pointer c w f)"

definition get_server_info_results_builder_has_result :: "('s, 'p) capnp \<Rightarrow> 's \<Rightarrow> bool" where
  "get_server_info_results_builder_has_result c s = (\<not> ptr_null c (get_ptr c 0 s))"

section \<open>The struct unregister_tunnel_params\<close>

definition unregister_tunnel_params_init_pointer :: "('s, 'p) capnp \<Rightarrow> ('s \<Rightarrow> 's) \<Rightarrow> 'p" where
  "unregister_tunnel_params_init_pointer c f = struct_ptr c (f (new_struct c (fst unregister_tunnel_params_STRUCT_SIZE) (snd unregister_tunnel_params_STRUCT_SIZE)))"

definition unregister_tunnel_params_get_from_pointer :: "('s, 'p) capnp \<Rightarrow> 's widening \<Rightarrow> ('s \<Rightarrow> 's) \<Rightarrow> 'p \<Rightarrow> string + 'p" where
  "unregister_tunnel_params_get_from_pointer c w f = edit_struct c w unregister_tunnel_params_STRUCT_SIZE f"

definition unregister_tunnel_params_builder_get_grace_period_nano_sec :: "('s, 'p) capnp \<Rightarrow> 's \<Rightarrow> int" where
  "unregister_tunnel_params_builder_get_grace_period_nano_sec c s = sint (word_of_nat (get_field c 64 0 s) :: u64)"

section \<open>The struct unregister_tunnel_results\<close>

definition unregister_tunnel_results_init_pointer :: "('s, 'p) capnp \<Rightarrow> ('s \<Rightarrow> 's) \<Rightarrow> 'p" where
  "unregister_tunnel_results_init_pointer c f = struct_ptr c (f (new_struct c (fst unregister_tunnel_results_STRUCT_SIZE) (snd unregister_tunnel_results_STRUCT_SIZE)))"

definition unregister_tunnel_results_get_from_pointer :: "('s, 'p) capnp \<Rightarrow> 's widening \<Rightarrow> ('s \<Rightarrow> 's) \<Rightarrow> 'p \<Rightarrow> string + 'p" where
  "unregister_tunnel_results_get_from_pointer c w f = edit_struct c w unregister_tunnel_results_STRUCT_SIZE f"

section \<open>The struct obsolete_declarative_tunnel_connect_params\<close>

definition obsolete_declarative_tunnel_connect_params_init_pointer :: "('s, 'p) capnp \<Rightarrow> ('s \<Rightarrow> 's) \<Rightarrow> 'p" where
  "obsolete_declarative_tunnel_connect_params_init_pointer c f = struct_ptr c (f (new_struct c (fst obsolete_declarative_tunnel_connect_params_STRUCT_SIZE) (snd obsolete_declarative_tunnel_connect_params_STRUCT_SIZE)))"

definition obsolete_declarative_tunnel_connect_params_get_from_pointer :: "('s, 'p) capnp \<Rightarrow> 's widening \<Rightarrow> ('s \<Rightarrow> 's) \<Rightarrow> 'p \<Rightarrow> string + 'p" where
  "obsolete_declarative_tunnel_connect_params_get_from_pointer c w f = edit_struct c w obsolete_declarative_tunnel_connect_params_STRUCT_SIZE f"

section \<open>The struct obsolete_declarative_tunnel_connect_results\<close>

definition obsolete_declarative_tunnel_connect_results_init_pointer :: "('s, 'p) capnp \<Rightarrow> ('s \<Rightarrow> 's) \<Rightarrow> 'p" where
  "obsolete_declarative_tunnel_connect_results_init_pointer c f = struct_ptr c (f (new_struct c (fst obsolete_declarative_tunnel_connect_results_STRUCT_SIZE) (snd obsolete_declarative_tunnel_connect_results_STRUCT_SIZE)))"

definition obsolete_declarative_tunnel_connect_results_get_from_pointer :: "('s, 'p) capnp \<Rightarrow> 's widening \<Rightarrow> ('s \<Rightarrow> 's) \<Rightarrow> 'p \<Rightarrow> string + 'p" where
  "obsolete_declarative_tunnel_connect_results_get_from_pointer c w f = edit_struct c w obsolete_declarative_tunnel_connect_results_STRUCT_SIZE f"

section \<open>The struct authenticate_params\<close>

definition authenticate_params_init_pointer :: "('s, 'p) capnp \<Rightarrow> ('s \<Rightarrow> 's) \<Rightarrow> 'p" where
  "authenticate_params_init_pointer c f = struct_ptr c (f (new_struct c (fst authenticate_params_STRUCT_SIZE) (snd authenticate_params_STRUCT_SIZE)))"

definition authenticate_params_get_from_pointer :: "('s, 'p) capnp \<Rightarrow> 's widening \<Rightarrow> ('s \<Rightarrow> 's) \<Rightarrow> 'p \<Rightarrow> string + 'p" where
  "authenticate_params_get_from_pointer c w f = edit_struct c w authenticate_params_STRUCT_SIZE f"

definition authenticate_params_builder_get_origin_cert :: "('s, 'p) capnp \<Rightarrow> (bytes \<Rightarrow> bytes) \<Rightarrow> 's \<Rightarrow> string + 's" where
  "authenticate_params_builder_get_origin_cert c f = with_pointer c 0 (edit_data c f)"

definition authenticate_params_builder_has_origin_cert :: "('s, 'p) capnp \<Rightarrow> 's \<Rightarrow> bool" where
  "authenticate_params_builder_has_origin_cert c s = (\<not> ptr_null c (get_ptr c 0 s))"

definition authenticate_params_builder_get_hostname :: "('s, 'p) capnp \<Rightarrow> (bytes \<Rightarrow> bytes) \<Rightarrow> 's \<Rightarrow> string + 's" where
  "authenticate_params_builder_get_hostname c f = with_pointer c 1 (edit_text c f)"

definition authenticate_params_builder_has_hostname :: "('s, 'p) capnp \<Rightarrow> 's \<Rightarrow> bool" where
  "authenticate_params_builder_has_hostname c s = (\<not> ptr_null c (get_ptr c 1 s))"

definition authenticate_params_builder_get_options :: "('s, 'p) capnp \<Rightarrow> 's widening \<Rightarrow> ('s \<Rightarrow> 's) \<Rightarrow> 's \<Rightarrow> string + 's" where
  "authenticate_params_builder_get_options c w f = with_pointer c 2 (registration_options_get_from_pointer c w f)"

definition authenticate_params_builder_has_options :: "('s, 'p) capnp \<Rightarrow> 's \<Rightarrow> bool" where
  "authenticate_params_builder_has_options c s = (\<not> ptr_null c (get_ptr c 2 s))"

section \<open>The struct authenticate_results\<close>

definition authenticate_results_init_pointer :: "('s, 'p) capnp \<Rightarrow> ('s \<Rightarrow> 's) \<Rightarrow> 'p" where
  "authenticate_results_init_pointer c f = struct_ptr c (f (new_struct c (fst authenticate_results_STRUCT_SIZE) (snd authenticate_results_STRUCT_SIZE)))"

definition authenticate_results_get_from_pointer :: "('s, 'p) capnp \<Rightarrow> 's widening \<Rightarrow> ('s \<Rightarrow> 's) \<Rightarrow> 'p \<Rightarrow> string + 'p" where
  "authenticate_results_get_from_pointer c w f = edit_struct c w authenticate_results_STRUCT_SIZE f"

definition authenticate_results_builder_get_result :: "('s, 'p) capnp \<Rightarrow> 's widening \<Rightarrow> ('s \<Rightarrow> 's) \<Rightarrow> 's \<Rightarrow> string + 's" where
  "authenticate_results_builder_get_result c w f = with_pointer c 0 (authenticate_response_get_from_pointer c w f)"

definition authenticate_results_builder_has_result :: "('s, 'p) capnp \<Rightarrow> 's \<Rightarrow> bool" where
  "authenticate_results_builder_has_result c s = (\<not> ptr_null c (get_ptr c 0 s))"

section \<open>The struct reconnect_tunnel_params\<close>

definition reconnect_tunnel_params_init_pointer :: "('s, 'p) capnp \<Rightarrow> ('s \<Rightarrow> 's) \<Rightarrow> 'p" where
  "reconnect_tunnel_params_init_pointer c f = struct_ptr c (f (new_struct c (fst reconnect_tunnel_params_STRUCT_SIZE) (snd reconnect_tunnel_params_STRUCT_SIZE)))"

definition reconnect_tunnel_params_get_from_pointer :: "('s, 'p) capnp \<Rightarrow> 's widening \<Rightarrow> ('s \<Rightarrow> 's) \<Rightarrow> 'p \<Rightarrow> string + 'p" where
  "reconnect_tunnel_params_get_from_pointer c w f = edit_struct c w reconnect_tunnel_params_STRUCT_SIZE f"

definition reconnect_tunnel_params_builder_get_jwt :: "('s, 'p) capnp \<Rightarrow> (bytes \<Rightarrow> bytes) \<Rightarrow> 's \<Rightarrow> string + 's" where
  "reconnect_tunnel_params_builder_get_jwt c f = with_pointer c 0 (edit_data c f)"

definition reconnect_tunnel_params_builder_has_jwt :: "('s, 'p) capnp \<Rightarrow> 's \<Rightarrow> bool" where
  "reconnect_tunnel_params_builder_has_jwt c s = (\<not> ptr_null c (get_ptr c 0 s))"

definition reconnect_tunnel_params_builder_get_event_digest :: "('s, 'p) capnp \<Rightarrow> (bytes \<Rightarrow> bytes) \<Rightarrow> 's \<Rightarrow> string + 's" where
  "reconnect_tunnel_params_builder_get_event_digest c f = with_pointer c 1 (edit_data c f)"

definition reconnect_tunnel_params_builder_has_event_digest :: "('s, 'p) capnp \<Rightarrow> 's \<Rightarrow> bool" where
  "reconnect_tunnel_params_builder_has_event_digest c s = (\<not> ptr_null c (get_ptr c 1 s))"

definition reconnect_tunnel_params_builder_get_conn_digest :: "('s, 'p) capnp \<Rightarrow> (bytes \<Rightarrow> bytes) \<Rightarrow> 's \<Rightarrow> string + 's" where
  "reconnect_tunnel_params_builder_get_conn_digest c f = with_pointer c 2 (edit_data c f)"

definition reconnect_tunnel_params_builder_has_conn_digest :: "('s, 'p) capnp \<Rightarrow> 's \<Rightarrow> bool" where
  "reconnect_tunnel_params_builder_has_conn_digest c s = (\<not> ptr_null c (get_ptr c 2 s))"

definition reconnect_tunnel_params_builder_get_hostname :: "('s, 'p) capnp \<Rightarrow> (bytes \<Rightarrow> bytes) \<Rightarrow> 's \<Rightarrow> string + 's" where
  "reconnect_tunnel_params_builder_get_hostname c f = with_pointer c 3 (edit_text c f)"

definition reconnect_tunnel_params_builder_has_hostname :: "('s, 'p) capnp \<Rightarrow> 's \<Rightarrow> bool" where
  "reconnect_tunnel_params_builder_has_hostname c s = (\<not> ptr_null c (get_ptr c 3 s))"

definition reconnect_tunnel_params_builder_get_options :: "('s, 'p) capnp \<Rightarrow> 's widening \<Rightarrow> ('s \<Rightarrow> 's) \<Rightarrow> 's \<Rightarrow> string + 's" where
  "reconnect_tunnel_params_builder_get_options c w f = with_pointer c 4 (registration_options_get_from_pointer c w f)"

definition reconnect_tunnel_params_builder_has_options :: "('s, 'p) capnp \<Rightarrow> 's \<Rightarrow> bool" where
  "reconnect_tunnel_params_builder_has_options c s = (\<not> ptr_null c (get_ptr c 4 s))"

section \<open>The struct reconnect_tunnel_results\<close>

definition reconnect_tunnel_results_init_pointer :: "('s, 'p) capnp \<Rightarrow> ('s \<Rightarrow> 's) \<Rightarrow> 'p" where
  "reconnect_tunnel_results_init_pointer c f = struct_ptr c (f (new_struct c (fst reconnect_tunnel_results_STRUCT_SIZE) (snd reconnect_tunnel_results_STRUCT_SIZE)))"

definition reconnect_tunnel_results_get_from_pointer :: "('s, 'p) capnp \<Rightarrow> 's widening \<Rightarrow> ('s \<Rightarrow> 's) \<Rightarrow> 'p \<Rightarrow> string + 'p" where
  "reconnect_tunnel_results_get_from_pointer c w f = edit_struct c w reconnect_tunnel_results_STRUCT_SIZE f"

definition reconnect_tunnel_results_builder_get_result :: "('s, 'p) capnp \<Rightarrow> 's widening \<Rightarrow> ('s \<Rightarrow> 's) \<Rightarrow> 's \<Rightarrow> string + 's" where
  "reconnect_tunnel_results_builder_get_result c w f = with_pointer c 0 (tunnel_registration_get_from_pointer c w f)"

definition reconnect_tunnel_results_builder_has_result :: "('s, 'p) capnp \<Rightarrow> 's \<Rightarrow> bool" where
  "reconnect_tunnel_results_builder_has_result c s = (\<not> ptr_null c (get_ptr c 0 s))"

section \<open>The struct client_info\<close>

definition client_info_init_pointer :: "('s, 'p) capnp \<Rightarrow> ('s \<Rightarrow> 's) \<Rightarrow> 'p" where
  "client_info_init_pointer c f = struct_ptr c (f (new_struct c (fst client_info_STRUCT_SIZE) (snd client_info_STRUCT_SIZE)))"

definition client_info_get_from_pointer :: "('s, 'p) capnp \<Rightarrow> 's widening \<Rightarrow> ('s \<Rightarrow> 's) \<Rightarrow> 'p \<Rightarrow> string + 'p" where
  "client_info_get_from_pointer c w f = edit_struct c w client_info_STRUCT_SIZE f"

definition client_info_builder_get_client_id :: "('s, 'p) capnp \<Rightarrow> (bytes \<Rightarrow> bytes) \<Rightarrow> 's \<Rightarrow> string + 's" where
  "client_info_builder_get_client_id c f = with_pointer c 0 (edit_data c f)"

definition client_info_builder_has_client_id :: "('s, 'p) capnp \<Rightarrow> 's \<Rightarrow> bool" where
  "client_info_builder_has_client_id c s = (\<not> ptr_null c (get_ptr c 0 s))"

definition client_info_builder_get_features :: "('s, 'p) capnp \<Rightarrow> (string list \<Rightarrow> string list) \<Rightarrow> 's \<Rightarrow> string + 's" where
  "client_info_builder_get_features c f = with_pointer c 1 (edit_texts c f)"

definition client_info_builder_has_features :: "('s, 'p) capnp \<Rightarrow> 's \<Rightarrow> bool" where
  "client_info_builder_has_features c s = (\<not> ptr_null c (get_ptr c 1 s))"

definition client_info_builder_get_version :: "('s, 'p) capnp \<Rightarrow> (bytes \<Rightarrow> bytes) \<Rightarrow> 's \<Rightarrow> string + 's" where
  "client_info_builder_get_version c f = with_pointer c 2 (edit_text c f)"

definition client_info_builder_has_version :: "('s, 'p) capnp \<Rightarrow> 's \<Rightarrow> bool" where
  "client_info_builder_has_version c s = (\<not> ptr_null c (get_ptr c 2 s))"

definition client_info_builder_get_arch :: "('s, 'p) capnp \<Rightarrow> (bytes \<Rightarrow> bytes) \<Rightarrow> 's \<Rightarrow> string + 's" where
  "client_info_builder_get_arch c f = with_pointer c 3 (edit_text c f)"

definition client_info_builder_has_arch :: "('s, 'p) capnp \<Rightarrow> 's \<Rightarrow> bool" where
  "client_info_builder_has_arch c s = (\<not> ptr_null c (get_ptr c 3 s))"

section \<open>The struct connection_options\<close>

definition connection_options_init_pointer :: "('s, 'p) capnp \<Rightarrow> ('s \<Rightarrow> 's) \<Rightarrow> 'p" where
  "connection_options_init_pointer c f = struct_ptr c (f (new_struct c (fst connection_options_STRUCT_SIZE) (snd connection_options_STRUCT_SIZE)))"

definition connection_options_get_from_pointer :: "('s, 'p) capnp \<Rightarrow> 's widening \<Rightarrow> ('s \<Rightarrow> 's) \<Rightarrow> 'p \<Rightarrow> string + 'p" where
  "connection_options_get_from_pointer c w f = edit_struct c w connection_options_STRUCT_SIZE f"

definition connection_options_builder_get_client :: "('s, 'p) capnp \<Rightarrow> 's widening \<Rightarrow> ('s \<Rightarrow> 's) \<Rightarrow> 's \<Rightarrow> string + 's" where
  "connection_options_builder_get_client c w f = with_pointer c 0 (client_info_get_from_pointer c w f)"

definition connection_options_builder_has_client :: "('s, 'p) capnp \<Rightarrow> 's \<Rightarrow> bool" where
  "connection_options_builder_has_client c s = (\<not> ptr_null c (get_ptr c 0 s))"

definition connection_options_builder_get_origin_local_ip :: "('s, 'p) capnp \<Rightarrow> (bytes \<Rightarrow> bytes) \<Rightarrow> 's \<Rightarrow> string + 's" where
  "connection_options_builder_get_origin_local_ip c f = with_pointer c 1 (edit_data c f)"

definition connection_options_builder_has_origin_local_ip :: "('s, 'p) capnp \<Rightarrow> 's \<Rightarrow> bool" where
  "connection_options_builder_has_origin_local_ip c s = (\<not> ptr_null c (get_ptr c 1 s))"

definition connection_options_builder_get_replace_existing :: "('s, 'p) capnp \<Rightarrow> 's \<Rightarrow> bool" where
  "connection_options_builder_get_replace_existing c s = (get_field c 1 0 s = 1)"

definition connection_options_builder_get_compression_quality :: "('s, 'p) capnp \<Rightarrow> 's \<Rightarrow> u8" where
  "connection_options_builder_get_compression_quality c s = word_of_nat (get_field c 8 1 s)"

definition connection_options_builder_get_num_previous_attempts :: "('s, 'p) capnp \<Rightarrow> 's \<Rightarrow> u8" where
  "connection_options_builder_get_num_previous_attempts c s = word_of_nat (get_field c 8 2 s)"

section \<open>The struct connection_response\<close>

definition connection_response_init_pointer :: "('s, 'p) capnp \<Rightarrow> ('s \<Rightarrow> 's) \<Rightarrow> 'p" where
  "connection_response_init_pointer c f = struct_ptr c (f (new_struct c (fst connection_response_STRUCT_SIZE) (snd connection_response_STRUCT_SIZE)))"

definition connection_response_get_from_pointer :: "('s, 'p) capnp \<Rightarrow> 's widening \<Rightarrow> ('s \<Rightarrow> 's) \<Rightarrow> 'p \<Rightarrow> string + 'p" where
  "connection_response_get_from_pointer c w f = edit_struct c w connection_response_STRUCT_SIZE f"

definition connection_response_builder_get_result :: "('s, 'p) capnp \<Rightarrow> ('s \<Rightarrow> 's) \<Rightarrow> 's \<Rightarrow> 's" where
  "connection_response_builder_get_result c f s = f s"

definition connection_response_init_result :: "('s, 'p) capnp \<Rightarrow> ('s \<Rightarrow> 's) \<Rightarrow> 's \<Rightarrow> 's" where
  "connection_response_init_result c f s = f (clear_pointer c 0 (set_field c 16 0 0 s))"

section \<open>The struct connection_error\<close>

definition connection_error_init_pointer :: "('s, 'p) capnp \<Rightarrow> ('s \<Rightarrow> 's) \<Rightarrow> 'p" where
  "connection_error_init_pointer c f = struct_ptr c (f (new_struct c (fst connection_error_STRUCT_SIZE) (snd connection_error_STRUCT_SIZE)))"

definition connection_error_get_from_pointer :: "('s, 'p) capnp \<Rightarrow> 's widening \<Rightarrow> ('s \<Rightarrow> 's) \<Rightarrow> 'p \<Rightarrow> string + 'p" where
  "connection_error_get_from_pointer c w f = edit_struct c w connection_error_STRUCT_SIZE f"

definition connection_error_builder_get_cause :: "('s, 'p) capnp \<Rightarrow> (bytes \<Rightarrow> bytes) \<Rightarrow> 's \<Rightarrow> string + 's" where
  "connection_error_builder_get_cause c f = with_pointer c 0 (edit_text c f)"

definition connection_error_builder_has_cause :: "('s, 'p) capnp \<Rightarrow> 's \<Rightarrow> bool" where
  "connection_error_builder_has_cause c s = (\<not> ptr_null c (get_ptr c 0 s))"

definition connection_error_builder_get_retry_after :: "('s, 'p) capnp \<Rightarrow> 's \<Rightarrow> int" where
  "connection_error_builder_get_retry_after c s = sint (word_of_nat (get_field c 64 0 s) :: u64)"

definition connection_error_builder_get_should_retry :: "('s, 'p) capnp \<Rightarrow> 's \<Rightarrow> bool" where
  "connection_error_builder_get_should_retry c s = (get_field c 1 64 s = 1)"

section \<open>The struct connection_details\<close>

definition connection_details_init_pointer :: "('s, 'p) capnp \<Rightarrow> ('s \<Rightarrow> 's) \<Rightarrow> 'p" where
  "connection_details_init_pointer c f = struct_ptr c (f (new_struct c (fst connection_details_STRUCT_SIZE) (snd connection_details_STRUCT_SIZE)))"

definition connection_details_get_from_pointer :: "('s, 'p) capnp \<Rightarrow> 's widening \<Rightarrow> ('s \<Rightarrow> 's) \<Rightarrow> 'p \<Rightarrow> string + 'p" where
  "connection_details_get_from_pointer c w f = edit_struct c w connection_details_STRUCT_SIZE f"

definition connection_details_builder_get_uuid :: "('s, 'p) capnp \<Rightarrow> (bytes \<Rightarrow> bytes) \<Rightarrow> 's \<Rightarrow> string + 's" where
  "connection_details_builder_get_uuid c f = with_pointer c 0 (edit_data c f)"

definition connection_details_builder_has_uuid :: "('s, 'p) capnp \<Rightarrow> 's \<Rightarrow> bool" where
  "connection_details_builder_has_uuid c s = (\<not> ptr_null c (get_ptr c 0 s))"

definition connection_details_builder_get_location_name :: "('s, 'p) capnp \<Rightarrow> (bytes \<Rightarrow> bytes) \<Rightarrow> 's \<Rightarrow> string + 's" where
  "connection_details_builder_get_location_name c f = with_pointer c 1 (edit_text c f)"

definition connection_details_builder_has_location_name :: "('s, 'p) capnp \<Rightarrow> 's \<Rightarrow> bool" where
  "connection_details_builder_has_location_name c s = (\<not> ptr_null c (get_ptr c 1 s))"

definition connection_details_builder_get_tunnel_is_remotely_managed :: "('s, 'p) capnp \<Rightarrow> 's \<Rightarrow> bool" where
  "connection_details_builder_get_tunnel_is_remotely_managed c s = (get_field c 1 0 s = 1)"

section \<open>The struct result\<close>

definition response_result_init_pointer :: "('s, 'p) capnp \<Rightarrow> ('s \<Rightarrow> 's) \<Rightarrow> 'p" where
  "response_result_init_pointer c f = struct_ptr c (f (new_struct c (fst response_result_STRUCT_SIZE) (snd response_result_STRUCT_SIZE)))"

definition response_result_get_from_pointer :: "('s, 'p) capnp \<Rightarrow> 's widening \<Rightarrow> ('s \<Rightarrow> 's) \<Rightarrow> 'p \<Rightarrow> string + 'p" where
  "response_result_get_from_pointer c w f = edit_struct c w response_result_STRUCT_SIZE f"

definition response_result_builder_has_error :: "('s, 'p) capnp \<Rightarrow> 's \<Rightarrow> bool" where
  "response_result_builder_has_error c s = (if get_field c 16 0 s \<noteq> 0 then False else \<not> ptr_null c (get_ptr c 0 s))"

definition response_result_builder_has_connection_details :: "('s, 'p) capnp \<Rightarrow> 's \<Rightarrow> bool" where
  "response_result_builder_has_connection_details c s = (if get_field c 16 0 s \<noteq> 1 then False else \<not> ptr_null c (get_ptr c 0 s))"

definition response_result_builder_which :: "('s, 'p) capnp \<Rightarrow> 's widening \<Rightarrow> ('s \<Rightarrow> 's) \<Rightarrow> ('s \<Rightarrow> 's) \<Rightarrow> 's \<Rightarrow> nat + (string + 's)" where
  "response_result_builder_which c w on_error on_details s =
     (if get_field c 16 0 s = 0 then Inr (with_pointer c 0 (connection_error_get_from_pointer c w on_error) s)
      else if get_field c 16 0 s = 1 then Inr (with_pointer c 0 (connection_details_get_from_pointer c w on_details) s)
      else Inl (get_field c 16 0 s))"

section \<open>The struct tunnel_auth\<close>

definition tunnel_auth_init_pointer :: "('s, 'p) capnp \<Rightarrow> ('s \<Rightarrow> 's) \<Rightarrow> 'p" where
  "tunnel_auth_init_pointer c f = struct_ptr c (f (new_struct c (fst tunnel_auth_STRUCT_SIZE) (snd tunnel_auth_STRUCT_SIZE)))"

definition tunnel_auth_get_from_pointer :: "('s, 'p) capnp \<Rightarrow> 's widening \<Rightarrow> ('s \<Rightarrow> 's) \<Rightarrow> 'p \<Rightarrow> string + 'p" where
  "tunnel_auth_get_from_pointer c w f = edit_struct c w tunnel_auth_STRUCT_SIZE f"

definition tunnel_auth_builder_get_account_tag :: "('s, 'p) capnp \<Rightarrow> (bytes \<Rightarrow> bytes) \<Rightarrow> 's \<Rightarrow> string + 's" where
  "tunnel_auth_builder_get_account_tag c f = with_pointer c 0 (edit_text c f)"

definition tunnel_auth_builder_has_account_tag :: "('s, 'p) capnp \<Rightarrow> 's \<Rightarrow> bool" where
  "tunnel_auth_builder_has_account_tag c s = (\<not> ptr_null c (get_ptr c 0 s))"

definition tunnel_auth_builder_get_tunnel_secret :: "('s, 'p) capnp \<Rightarrow> (bytes \<Rightarrow> bytes) \<Rightarrow> 's \<Rightarrow> string + 's" where
  "tunnel_auth_builder_get_tunnel_secret c f = with_pointer c 1 (edit_data c f)"

definition tunnel_auth_builder_has_tunnel_secret :: "('s, 'p) capnp \<Rightarrow> 's \<Rightarrow> bool" where
  "tunnel_auth_builder_has_tunnel_secret c s = (\<not> ptr_null c (get_ptr c 1 s))"

section \<open>The struct register_connection_params\<close>

definition register_connection_params_init_pointer :: "('s, 'p) capnp \<Rightarrow> ('s \<Rightarrow> 's) \<Rightarrow> 'p" where
  "register_connection_params_init_pointer c f = struct_ptr c (f (new_struct c (fst register_connection_params_STRUCT_SIZE) (snd register_connection_params_STRUCT_SIZE)))"

definition register_connection_params_get_from_pointer :: "('s, 'p) capnp \<Rightarrow> 's widening \<Rightarrow> ('s \<Rightarrow> 's) \<Rightarrow> 'p \<Rightarrow> string + 'p" where
  "register_connection_params_get_from_pointer c w f = edit_struct c w register_connection_params_STRUCT_SIZE f"

definition register_connection_params_builder_get_auth :: "('s, 'p) capnp \<Rightarrow> 's widening \<Rightarrow> ('s \<Rightarrow> 's) \<Rightarrow> 's \<Rightarrow> string + 's" where
  "register_connection_params_builder_get_auth c w f = with_pointer c 0 (tunnel_auth_get_from_pointer c w f)"

definition register_connection_params_builder_has_auth :: "('s, 'p) capnp \<Rightarrow> 's \<Rightarrow> bool" where
  "register_connection_params_builder_has_auth c s = (\<not> ptr_null c (get_ptr c 0 s))"

definition register_connection_params_builder_get_tunnel_id :: "('s, 'p) capnp \<Rightarrow> (bytes \<Rightarrow> bytes) \<Rightarrow> 's \<Rightarrow> string + 's" where
  "register_connection_params_builder_get_tunnel_id c f = with_pointer c 1 (edit_data c f)"

definition register_connection_params_builder_has_tunnel_id :: "('s, 'p) capnp \<Rightarrow> 's \<Rightarrow> bool" where
  "register_connection_params_builder_has_tunnel_id c s = (\<not> ptr_null c (get_ptr c 1 s))"

definition register_connection_params_builder_get_conn_index :: "('s, 'p) capnp \<Rightarrow> 's \<Rightarrow> u8" where
  "register_connection_params_builder_get_conn_index c s = word_of_nat (get_field c 8 0 s)"

definition register_connection_params_builder_get_options :: "('s, 'p) capnp \<Rightarrow> 's widening \<Rightarrow> ('s \<Rightarrow> 's) \<Rightarrow> 's \<Rightarrow> string + 's" where
  "register_connection_params_builder_get_options c w f = with_pointer c 2 (connection_options_get_from_pointer c w f)"

definition register_connection_params_builder_has_options :: "('s, 'p) capnp \<Rightarrow> 's \<Rightarrow> bool" where
  "register_connection_params_builder_has_options c s = (\<not> ptr_null c (get_ptr c 2 s))"

section \<open>The struct register_connection_results\<close>

definition register_connection_results_init_pointer :: "('s, 'p) capnp \<Rightarrow> ('s \<Rightarrow> 's) \<Rightarrow> 'p" where
  "register_connection_results_init_pointer c f = struct_ptr c (f (new_struct c (fst register_connection_results_STRUCT_SIZE) (snd register_connection_results_STRUCT_SIZE)))"

definition register_connection_results_get_from_pointer :: "('s, 'p) capnp \<Rightarrow> 's widening \<Rightarrow> ('s \<Rightarrow> 's) \<Rightarrow> 'p \<Rightarrow> string + 'p" where
  "register_connection_results_get_from_pointer c w f = edit_struct c w register_connection_results_STRUCT_SIZE f"

definition register_connection_results_builder_get_result :: "('s, 'p) capnp \<Rightarrow> 's widening \<Rightarrow> ('s \<Rightarrow> 's) \<Rightarrow> 's \<Rightarrow> string + 's" where
  "register_connection_results_builder_get_result c w f = with_pointer c 0 (connection_response_get_from_pointer c w f)"

definition register_connection_results_builder_has_result :: "('s, 'p) capnp \<Rightarrow> 's \<Rightarrow> bool" where
  "register_connection_results_builder_has_result c s = (\<not> ptr_null c (get_ptr c 0 s))"

section \<open>The struct unregister_connection_params\<close>

definition unregister_connection_params_init_pointer :: "('s, 'p) capnp \<Rightarrow> ('s \<Rightarrow> 's) \<Rightarrow> 'p" where
  "unregister_connection_params_init_pointer c f = struct_ptr c (f (new_struct c (fst unregister_connection_params_STRUCT_SIZE) (snd unregister_connection_params_STRUCT_SIZE)))"

definition unregister_connection_params_get_from_pointer :: "('s, 'p) capnp \<Rightarrow> 's widening \<Rightarrow> ('s \<Rightarrow> 's) \<Rightarrow> 'p \<Rightarrow> string + 'p" where
  "unregister_connection_params_get_from_pointer c w f = edit_struct c w unregister_connection_params_STRUCT_SIZE f"

section \<open>The struct unregister_connection_results\<close>

definition unregister_connection_results_init_pointer :: "('s, 'p) capnp \<Rightarrow> ('s \<Rightarrow> 's) \<Rightarrow> 'p" where
  "unregister_connection_results_init_pointer c f = struct_ptr c (f (new_struct c (fst unregister_connection_results_STRUCT_SIZE) (snd unregister_connection_results_STRUCT_SIZE)))"

definition unregister_connection_results_get_from_pointer :: "('s, 'p) capnp \<Rightarrow> 's widening \<Rightarrow> ('s \<Rightarrow> 's) \<Rightarrow> 'p \<Rightarrow> string + 'p" where
  "unregister_connection_results_get_from_pointer c w f = edit_struct c w unregister_connection_results_STRUCT_SIZE f"

section \<open>The struct update_local_configuration_params\<close>

definition update_local_configuration_params_init_pointer :: "('s, 'p) capnp \<Rightarrow> ('s \<Rightarrow> 's) \<Rightarrow> 'p" where
  "update_local_configuration_params_init_pointer c f = struct_ptr c (f (new_struct c (fst update_local_configuration_params_STRUCT_SIZE) (snd update_local_configuration_params_STRUCT_SIZE)))"

definition update_local_configuration_params_get_from_pointer :: "('s, 'p) capnp \<Rightarrow> 's widening \<Rightarrow> ('s \<Rightarrow> 's) \<Rightarrow> 'p \<Rightarrow> string + 'p" where
  "update_local_configuration_params_get_from_pointer c w f = edit_struct c w update_local_configuration_params_STRUCT_SIZE f"

definition update_local_configuration_params_builder_get_config :: "('s, 'p) capnp \<Rightarrow> (bytes \<Rightarrow> bytes) \<Rightarrow> 's \<Rightarrow> string + 's" where
  "update_local_configuration_params_builder_get_config c f = with_pointer c 0 (edit_data c f)"

definition update_local_configuration_params_builder_has_config :: "('s, 'p) capnp \<Rightarrow> 's \<Rightarrow> bool" where
  "update_local_configuration_params_builder_has_config c s = (\<not> ptr_null c (get_ptr c 0 s))"

section \<open>The struct update_local_configuration_results\<close>

definition update_local_configuration_results_init_pointer :: "('s, 'p) capnp \<Rightarrow> ('s \<Rightarrow> 's) \<Rightarrow> 'p" where
  "update_local_configuration_results_init_pointer c f = struct_ptr c (f (new_struct c (fst update_local_configuration_results_STRUCT_SIZE) (snd update_local_configuration_results_STRUCT_SIZE)))"

definition update_local_configuration_results_get_from_pointer :: "('s, 'p) capnp \<Rightarrow> 's widening \<Rightarrow> ('s \<Rightarrow> 's) \<Rightarrow> 'p \<Rightarrow> string + 'p" where
  "update_local_configuration_results_get_from_pointer c w f = edit_struct c w update_local_configuration_results_STRUCT_SIZE f"

section \<open>The struct register_udp_session_response\<close>

definition register_udp_session_response_init_pointer :: "('s, 'p) capnp \<Rightarrow> ('s \<Rightarrow> 's) \<Rightarrow> 'p" where
  "register_udp_session_response_init_pointer c f = struct_ptr c (f (new_struct c (fst register_udp_session_response_STRUCT_SIZE) (snd register_udp_session_response_STRUCT_SIZE)))"

definition register_udp_session_response_get_from_pointer :: "('s, 'p) capnp \<Rightarrow> 's widening \<Rightarrow> ('s \<Rightarrow> 's) \<Rightarrow> 'p \<Rightarrow> string + 'p" where
  "register_udp_session_response_get_from_pointer c w f = edit_struct c w register_udp_session_response_STRUCT_SIZE f"

definition register_udp_session_response_builder_get_err :: "('s, 'p) capnp \<Rightarrow> (bytes \<Rightarrow> bytes) \<Rightarrow> 's \<Rightarrow> string + 's" where
  "register_udp_session_response_builder_get_err c f = with_pointer c 0 (edit_text c f)"

definition register_udp_session_response_builder_has_err :: "('s, 'p) capnp \<Rightarrow> 's \<Rightarrow> bool" where
  "register_udp_session_response_builder_has_err c s = (\<not> ptr_null c (get_ptr c 0 s))"

definition register_udp_session_response_builder_get_spans :: "('s, 'p) capnp \<Rightarrow> (bytes \<Rightarrow> bytes) \<Rightarrow> 's \<Rightarrow> string + 's" where
  "register_udp_session_response_builder_get_spans c f = with_pointer c 1 (edit_data c f)"

definition register_udp_session_response_builder_has_spans :: "('s, 'p) capnp \<Rightarrow> 's \<Rightarrow> bool" where
  "register_udp_session_response_builder_has_spans c s = (\<not> ptr_null c (get_ptr c 1 s))"

section \<open>The struct register_udp_session_params\<close>

definition register_udp_session_params_init_pointer :: "('s, 'p) capnp \<Rightarrow> ('s \<Rightarrow> 's) \<Rightarrow> 'p" where
  "register_udp_session_params_init_pointer c f = struct_ptr c (f (new_struct c (fst register_udp_session_params_STRUCT_SIZE) (snd register_udp_session_params_STRUCT_SIZE)))"

definition register_udp_session_params_get_from_pointer :: "('s, 'p) capnp \<Rightarrow> 's widening \<Rightarrow> ('s \<Rightarrow> 's) \<Rightarrow> 'p \<Rightarrow> string + 'p" where
  "register_udp_session_params_get_from_pointer c w f = edit_struct c w register_udp_session_params_STRUCT_SIZE f"

definition register_udp_session_params_builder_get_session_id :: "('s, 'p) capnp \<Rightarrow> (bytes \<Rightarrow> bytes) \<Rightarrow> 's \<Rightarrow> string + 's" where
  "register_udp_session_params_builder_get_session_id c f = with_pointer c 0 (edit_data c f)"

definition register_udp_session_params_builder_has_session_id :: "('s, 'p) capnp \<Rightarrow> 's \<Rightarrow> bool" where
  "register_udp_session_params_builder_has_session_id c s = (\<not> ptr_null c (get_ptr c 0 s))"

definition register_udp_session_params_builder_get_dst_ip :: "('s, 'p) capnp \<Rightarrow> (bytes \<Rightarrow> bytes) \<Rightarrow> 's \<Rightarrow> string + 's" where
  "register_udp_session_params_builder_get_dst_ip c f = with_pointer c 1 (edit_data c f)"

definition register_udp_session_params_builder_has_dst_ip :: "('s, 'p) capnp \<Rightarrow> 's \<Rightarrow> bool" where
  "register_udp_session_params_builder_has_dst_ip c s = (\<not> ptr_null c (get_ptr c 1 s))"

definition register_udp_session_params_builder_get_dst_port :: "('s, 'p) capnp \<Rightarrow> 's \<Rightarrow> u16" where
  "register_udp_session_params_builder_get_dst_port c s = word_of_nat (get_field c 16 0 s)"

definition register_udp_session_params_builder_get_close_after_idle_hint :: "('s, 'p) capnp \<Rightarrow> 's \<Rightarrow> int" where
  "register_udp_session_params_builder_get_close_after_idle_hint c s = sint (word_of_nat (get_field c 64 1 s) :: u64)"

definition register_udp_session_params_builder_get_trace_context :: "('s, 'p) capnp \<Rightarrow> (bytes \<Rightarrow> bytes) \<Rightarrow> 's \<Rightarrow> string + 's" where
  "register_udp_session_params_builder_get_trace_context c f = with_pointer c 2 (edit_text_or c (text_at register_udp_session_params_DEFAULT_TRACE_CONTEXT 0) f)"

definition register_udp_session_params_builder_has_trace_context :: "('s, 'p) capnp \<Rightarrow> 's \<Rightarrow> bool" where
  "register_udp_session_params_builder_has_trace_context c s = (\<not> ptr_null c (get_ptr c 2 s))"

section \<open>The struct register_udp_session_results\<close>

definition register_udp_session_results_init_pointer :: "('s, 'p) capnp \<Rightarrow> ('s \<Rightarrow> 's) \<Rightarrow> 'p" where
  "register_udp_session_results_init_pointer c f = struct_ptr c (f (new_struct c (fst register_udp_session_results_STRUCT_SIZE) (snd register_udp_session_results_STRUCT_SIZE)))"

definition register_udp_session_results_get_from_pointer :: "('s, 'p) capnp \<Rightarrow> 's widening \<Rightarrow> ('s \<Rightarrow> 's) \<Rightarrow> 'p \<Rightarrow> string + 'p" where
  "register_udp_session_results_get_from_pointer c w f = edit_struct c w register_udp_session_results_STRUCT_SIZE f"

definition register_udp_session_results_builder_get_result :: "('s, 'p) capnp \<Rightarrow> 's widening \<Rightarrow> ('s \<Rightarrow> 's) \<Rightarrow> 's \<Rightarrow> string + 's" where
  "register_udp_session_results_builder_get_result c w f = with_pointer c 0 (register_udp_session_response_get_from_pointer c w f)"

definition register_udp_session_results_builder_has_result :: "('s, 'p) capnp \<Rightarrow> 's \<Rightarrow> bool" where
  "register_udp_session_results_builder_has_result c s = (\<not> ptr_null c (get_ptr c 0 s))"

section \<open>The struct unregister_udp_session_params\<close>

definition unregister_udp_session_params_init_pointer :: "('s, 'p) capnp \<Rightarrow> ('s \<Rightarrow> 's) \<Rightarrow> 'p" where
  "unregister_udp_session_params_init_pointer c f = struct_ptr c (f (new_struct c (fst unregister_udp_session_params_STRUCT_SIZE) (snd unregister_udp_session_params_STRUCT_SIZE)))"

definition unregister_udp_session_params_get_from_pointer :: "('s, 'p) capnp \<Rightarrow> 's widening \<Rightarrow> ('s \<Rightarrow> 's) \<Rightarrow> 'p \<Rightarrow> string + 'p" where
  "unregister_udp_session_params_get_from_pointer c w f = edit_struct c w unregister_udp_session_params_STRUCT_SIZE f"

definition unregister_udp_session_params_builder_get_session_id :: "('s, 'p) capnp \<Rightarrow> (bytes \<Rightarrow> bytes) \<Rightarrow> 's \<Rightarrow> string + 's" where
  "unregister_udp_session_params_builder_get_session_id c f = with_pointer c 0 (edit_data c f)"

definition unregister_udp_session_params_builder_has_session_id :: "('s, 'p) capnp \<Rightarrow> 's \<Rightarrow> bool" where
  "unregister_udp_session_params_builder_has_session_id c s = (\<not> ptr_null c (get_ptr c 0 s))"

definition unregister_udp_session_params_builder_get_message :: "('s, 'p) capnp \<Rightarrow> (bytes \<Rightarrow> bytes) \<Rightarrow> 's \<Rightarrow> string + 's" where
  "unregister_udp_session_params_builder_get_message c f = with_pointer c 1 (edit_text c f)"

definition unregister_udp_session_params_builder_has_message :: "('s, 'p) capnp \<Rightarrow> 's \<Rightarrow> bool" where
  "unregister_udp_session_params_builder_has_message c s = (\<not> ptr_null c (get_ptr c 1 s))"

section \<open>The struct unregister_udp_session_results\<close>

definition unregister_udp_session_results_init_pointer :: "('s, 'p) capnp \<Rightarrow> ('s \<Rightarrow> 's) \<Rightarrow> 'p" where
  "unregister_udp_session_results_init_pointer c f = struct_ptr c (f (new_struct c (fst unregister_udp_session_results_STRUCT_SIZE) (snd unregister_udp_session_results_STRUCT_SIZE)))"

definition unregister_udp_session_results_get_from_pointer :: "('s, 'p) capnp \<Rightarrow> 's widening \<Rightarrow> ('s \<Rightarrow> 's) \<Rightarrow> 'p \<Rightarrow> string + 'p" where
  "unregister_udp_session_results_get_from_pointer c w f = edit_struct c w unregister_udp_session_results_STRUCT_SIZE f"

section \<open>The struct update_configuration_response\<close>

definition update_configuration_response_init_pointer :: "('s, 'p) capnp \<Rightarrow> ('s \<Rightarrow> 's) \<Rightarrow> 'p" where
  "update_configuration_response_init_pointer c f = struct_ptr c (f (new_struct c (fst update_configuration_response_STRUCT_SIZE) (snd update_configuration_response_STRUCT_SIZE)))"

definition update_configuration_response_get_from_pointer :: "('s, 'p) capnp \<Rightarrow> 's widening \<Rightarrow> ('s \<Rightarrow> 's) \<Rightarrow> 'p \<Rightarrow> string + 'p" where
  "update_configuration_response_get_from_pointer c w f = edit_struct c w update_configuration_response_STRUCT_SIZE f"

definition update_configuration_response_builder_get_latest_applied_version :: "('s, 'p) capnp \<Rightarrow> 's \<Rightarrow> int" where
  "update_configuration_response_builder_get_latest_applied_version c s = sint (word_of_nat (get_field c 32 0 s) :: u32)"

definition update_configuration_response_builder_get_err :: "('s, 'p) capnp \<Rightarrow> (bytes \<Rightarrow> bytes) \<Rightarrow> 's \<Rightarrow> string + 's" where
  "update_configuration_response_builder_get_err c f = with_pointer c 0 (edit_text c f)"

definition update_configuration_response_builder_has_err :: "('s, 'p) capnp \<Rightarrow> 's \<Rightarrow> bool" where
  "update_configuration_response_builder_has_err c s = (\<not> ptr_null c (get_ptr c 0 s))"

section \<open>The struct update_configuration_params\<close>

definition update_configuration_params_init_pointer :: "('s, 'p) capnp \<Rightarrow> ('s \<Rightarrow> 's) \<Rightarrow> 'p" where
  "update_configuration_params_init_pointer c f = struct_ptr c (f (new_struct c (fst update_configuration_params_STRUCT_SIZE) (snd update_configuration_params_STRUCT_SIZE)))"

definition update_configuration_params_get_from_pointer :: "('s, 'p) capnp \<Rightarrow> 's widening \<Rightarrow> ('s \<Rightarrow> 's) \<Rightarrow> 'p \<Rightarrow> string + 'p" where
  "update_configuration_params_get_from_pointer c w f = edit_struct c w update_configuration_params_STRUCT_SIZE f"

definition update_configuration_params_builder_get_version :: "('s, 'p) capnp \<Rightarrow> 's \<Rightarrow> int" where
  "update_configuration_params_builder_get_version c s = sint (word_of_nat (get_field c 32 0 s) :: u32)"

definition update_configuration_params_builder_get_config :: "('s, 'p) capnp \<Rightarrow> (bytes \<Rightarrow> bytes) \<Rightarrow> 's \<Rightarrow> string + 's" where
  "update_configuration_params_builder_get_config c f = with_pointer c 0 (edit_data c f)"

definition update_configuration_params_builder_has_config :: "('s, 'p) capnp \<Rightarrow> 's \<Rightarrow> bool" where
  "update_configuration_params_builder_has_config c s = (\<not> ptr_null c (get_ptr c 0 s))"

section \<open>The struct update_configuration_results\<close>

definition update_configuration_results_init_pointer :: "('s, 'p) capnp \<Rightarrow> ('s \<Rightarrow> 's) \<Rightarrow> 'p" where
  "update_configuration_results_init_pointer c f = struct_ptr c (f (new_struct c (fst update_configuration_results_STRUCT_SIZE) (snd update_configuration_results_STRUCT_SIZE)))"

definition update_configuration_results_get_from_pointer :: "('s, 'p) capnp \<Rightarrow> 's widening \<Rightarrow> ('s \<Rightarrow> 's) \<Rightarrow> 'p \<Rightarrow> string + 'p" where
  "update_configuration_results_get_from_pointer c w f = edit_struct c w update_configuration_results_STRUCT_SIZE f"

definition update_configuration_results_builder_get_result :: "('s, 'p) capnp \<Rightarrow> 's widening \<Rightarrow> ('s \<Rightarrow> 's) \<Rightarrow> 's \<Rightarrow> string + 's" where
  "update_configuration_results_builder_get_result c w f = with_pointer c 0 (update_configuration_response_get_from_pointer c w f)"

definition update_configuration_results_builder_has_result :: "('s, 'p) capnp \<Rightarrow> 's \<Rightarrow> bool" where
  "update_configuration_results_builder_has_result c s = (\<not> ptr_null c (get_ptr c 0 s))"

lemmas builder_view_defs =
  metadata_init_pointer_def metadata_get_from_pointer_def metadata_builder_get_key_def
  metadata_builder_has_key_def metadata_builder_get_val_def metadata_builder_has_val_def
  connect_request_init_pointer_def connect_request_get_from_pointer_def
  connect_request_builder_get_dest_def connect_request_builder_has_dest_def
  connect_request_builder_get_type_def connect_request_builder_get_metadata_def
  connect_request_builder_has_metadata_def connect_response_init_pointer_def
  connect_response_get_from_pointer_def connect_response_builder_get_error_def
  connect_response_builder_has_error_def connect_response_builder_get_metadata_def
  connect_response_builder_has_metadata_def authentication_init_pointer_def
  authentication_get_from_pointer_def authentication_builder_get_key_def
  authentication_builder_has_key_def authentication_builder_get_email_def
  authentication_builder_has_email_def authentication_builder_get_origin_c_a_key_def
  authentication_builder_has_origin_c_a_key_def tunnel_registration_init_pointer_def
  tunnel_registration_get_from_pointer_def tunnel_registration_builder_get_err_def
  tunnel_registration_builder_has_err_def tunnel_registration_builder_get_url_def
  tunnel_registration_builder_has_url_def tunnel_registration_builder_get_log_lines_def
  tunnel_registration_builder_has_log_lines_def tunnel_registration_builder_get_permanent_failure_def
  tunnel_registration_builder_get_tunnel_i_d_def tunnel_registration_builder_has_tunnel_i_d_def
  tunnel_registration_builder_get_retry_after_seconds_def tunnel_registration_builder_get_event_digest_def
  tunnel_registration_builder_has_event_digest_def tunnel_registration_builder_get_conn_digest_def
  tunnel_registration_builder_has_conn_digest_def tag_init_pointer_def tag_get_from_pointer_def
  tag_builder_get_name_def tag_builder_has_name_def tag_builder_get_value_def tag_builder_has_value_def
  registration_options_init_pointer_def registration_options_get_from_pointer_def
  registration_options_builder_get_client_id_def registration_options_builder_has_client_id_def
  registration_options_builder_get_version_def registration_options_builder_has_version_def
  registration_options_builder_get_os_def registration_options_builder_has_os_def
  registration_options_builder_get_existing_tunnel_policy_def
  registration_options_builder_get_pool_name_def registration_options_builder_has_pool_name_def
  registration_options_builder_get_tags_def registration_options_builder_has_tags_def
  registration_options_builder_get_connection_id_def registration_options_builder_get_origin_local_ip_def
  registration_options_builder_has_origin_local_ip_def registration_options_builder_get_is_autoupdated_def
  registration_options_builder_get_run_from_terminal_def
  registration_options_builder_get_compression_quality_def registration_options_builder_get_uuid_def
  registration_options_builder_has_uuid_def registration_options_builder_get_num_previous_attempts_def
  registration_options_builder_get_features_def registration_options_builder_has_features_def
  server_info_init_pointer_def server_info_get_from_pointer_def server_info_builder_get_location_name_def
  server_info_builder_has_location_name_def authenticate_response_init_pointer_def
  authenticate_response_get_from_pointer_def authenticate_response_builder_get_permanent_err_def
  authenticate_response_builder_has_permanent_err_def authenticate_response_builder_get_retryable_err_def
  authenticate_response_builder_has_retryable_err_def authenticate_response_builder_get_jwt_def
  authenticate_response_builder_has_jwt_def authenticate_response_builder_get_hours_until_refresh_def
  register_tunnel_params_init_pointer_def register_tunnel_params_get_from_pointer_def
  register_tunnel_params_builder_get_origin_cert_def register_tunnel_params_builder_has_origin_cert_def
  register_tunnel_params_builder_get_hostname_def register_tunnel_params_builder_has_hostname_def
  register_tunnel_params_builder_get_options_def register_tunnel_params_builder_has_options_def
  register_tunnel_results_init_pointer_def register_tunnel_results_get_from_pointer_def
  register_tunnel_results_builder_get_result_def register_tunnel_results_builder_has_result_def
  get_server_info_params_init_pointer_def get_server_info_params_get_from_pointer_def
  get_server_info_results_init_pointer_def get_server_info_results_get_from_pointer_def
  get_server_info_results_builder_get_result_def get_server_info_results_builder_has_result_def
  unregister_tunnel_params_init_pointer_def unregister_tunnel_params_get_from_pointer_def
  unregister_tunnel_params_builder_get_grace_period_nano_sec_def
  unregister_tunnel_results_init_pointer_def unregister_tunnel_results_get_from_pointer_def
  obsolete_declarative_tunnel_connect_params_init_pointer_def
  obsolete_declarative_tunnel_connect_params_get_from_pointer_def
  obsolete_declarative_tunnel_connect_results_init_pointer_def
  obsolete_declarative_tunnel_connect_results_get_from_pointer_def authenticate_params_init_pointer_def
  authenticate_params_get_from_pointer_def authenticate_params_builder_get_origin_cert_def
  authenticate_params_builder_has_origin_cert_def authenticate_params_builder_get_hostname_def
  authenticate_params_builder_has_hostname_def authenticate_params_builder_get_options_def
  authenticate_params_builder_has_options_def authenticate_results_init_pointer_def
  authenticate_results_get_from_pointer_def authenticate_results_builder_get_result_def
  authenticate_results_builder_has_result_def reconnect_tunnel_params_init_pointer_def
  reconnect_tunnel_params_get_from_pointer_def reconnect_tunnel_params_builder_get_jwt_def
  reconnect_tunnel_params_builder_has_jwt_def reconnect_tunnel_params_builder_get_event_digest_def
  reconnect_tunnel_params_builder_has_event_digest_def reconnect_tunnel_params_builder_get_conn_digest_def
  reconnect_tunnel_params_builder_has_conn_digest_def reconnect_tunnel_params_builder_get_hostname_def
  reconnect_tunnel_params_builder_has_hostname_def reconnect_tunnel_params_builder_get_options_def
  reconnect_tunnel_params_builder_has_options_def reconnect_tunnel_results_init_pointer_def
  reconnect_tunnel_results_get_from_pointer_def reconnect_tunnel_results_builder_get_result_def
  reconnect_tunnel_results_builder_has_result_def client_info_init_pointer_def
  client_info_get_from_pointer_def client_info_builder_get_client_id_def
  client_info_builder_has_client_id_def client_info_builder_get_features_def
  client_info_builder_has_features_def client_info_builder_get_version_def
  client_info_builder_has_version_def client_info_builder_get_arch_def client_info_builder_has_arch_def
  connection_options_init_pointer_def connection_options_get_from_pointer_def
  connection_options_builder_get_client_def connection_options_builder_has_client_def
  connection_options_builder_get_origin_local_ip_def connection_options_builder_has_origin_local_ip_def
  connection_options_builder_get_replace_existing_def
  connection_options_builder_get_compression_quality_def
  connection_options_builder_get_num_previous_attempts_def connection_response_init_pointer_def
  connection_response_get_from_pointer_def connection_response_builder_get_result_def
  connection_response_init_result_def connection_error_init_pointer_def
  connection_error_get_from_pointer_def connection_error_builder_get_cause_def
  connection_error_builder_has_cause_def connection_error_builder_get_retry_after_def
  connection_error_builder_get_should_retry_def connection_details_init_pointer_def
  connection_details_get_from_pointer_def connection_details_builder_get_uuid_def
  connection_details_builder_has_uuid_def connection_details_builder_get_location_name_def
  connection_details_builder_has_location_name_def
  connection_details_builder_get_tunnel_is_remotely_managed_def response_result_init_pointer_def
  response_result_get_from_pointer_def response_result_builder_has_error_def
  response_result_builder_has_connection_details_def response_result_builder_which_def
  tunnel_auth_init_pointer_def tunnel_auth_get_from_pointer_def tunnel_auth_builder_get_account_tag_def
  tunnel_auth_builder_has_account_tag_def tunnel_auth_builder_get_tunnel_secret_def
  tunnel_auth_builder_has_tunnel_secret_def register_connection_params_init_pointer_def
  register_connection_params_get_from_pointer_def register_connection_params_builder_get_auth_def
  register_connection_params_builder_has_auth_def register_connection_params_builder_get_tunnel_id_def
  register_connection_params_builder_has_tunnel_id_def
  register_connection_params_builder_get_conn_index_def register_connection_params_builder_get_options_def
  register_connection_params_builder_has_options_def register_connection_results_init_pointer_def
  register_connection_results_get_from_pointer_def register_connection_results_builder_get_result_def
  register_connection_results_builder_has_result_def unregister_connection_params_init_pointer_def
  unregister_connection_params_get_from_pointer_def unregister_connection_results_init_pointer_def
  unregister_connection_results_get_from_pointer_def update_local_configuration_params_init_pointer_def
  update_local_configuration_params_get_from_pointer_def
  update_local_configuration_params_builder_get_config_def
  update_local_configuration_params_builder_has_config_def
  update_local_configuration_results_init_pointer_def
  update_local_configuration_results_get_from_pointer_def register_udp_session_response_init_pointer_def
  register_udp_session_response_get_from_pointer_def register_udp_session_response_builder_get_err_def
  register_udp_session_response_builder_has_err_def register_udp_session_response_builder_get_spans_def
  register_udp_session_response_builder_has_spans_def register_udp_session_params_init_pointer_def
  register_udp_session_params_get_from_pointer_def register_udp_session_params_builder_get_session_id_def
  register_udp_session_params_builder_has_session_id_def
  register_udp_session_params_builder_get_dst_ip_def register_udp_session_params_builder_has_dst_ip_def
  register_udp_session_params_builder_get_dst_port_def
  register_udp_session_params_builder_get_close_after_idle_hint_def
  register_udp_session_params_builder_get_trace_context_def
  register_udp_session_params_builder_has_trace_context_def register_udp_session_results_init_pointer_def
  register_udp_session_results_get_from_pointer_def register_udp_session_results_builder_get_result_def
  register_udp_session_results_builder_has_result_def unregister_udp_session_params_init_pointer_def
  unregister_udp_session_params_get_from_pointer_def
  unregister_udp_session_params_builder_get_session_id_def
  unregister_udp_session_params_builder_has_session_id_def
  unregister_udp_session_params_builder_get_message_def
  unregister_udp_session_params_builder_has_message_def unregister_udp_session_results_init_pointer_def
  unregister_udp_session_results_get_from_pointer_def update_configuration_response_init_pointer_def
  update_configuration_response_get_from_pointer_def
  update_configuration_response_builder_get_latest_applied_version_def
  update_configuration_response_builder_get_err_def update_configuration_response_builder_has_err_def
  update_configuration_params_init_pointer_def update_configuration_params_get_from_pointer_def
  update_configuration_params_builder_get_version_def update_configuration_params_builder_get_config_def
  update_configuration_params_builder_has_config_def update_configuration_results_init_pointer_def
  update_configuration_results_get_from_pointer_def update_configuration_results_builder_get_result_def
  update_configuration_results_builder_has_result_def

section \<open>Pipelines\<close>

text \<open>A pipeline is the path of pointer slots from the root of a result; a group adds no slot.\<close>

type_synonym pipeline = "nat list"

definition typeless_pointer_field :: "nat \<Rightarrow> pipeline \<Rightarrow> pipeline" where
  "typeless_pointer_field k path = path @ [k]"

text \<open>What the path leads to once the result is there.\<close>

primrec follow :: "('s, 'p) capnp \<Rightarrow> pipeline \<Rightarrow> 's \<Rightarrow> string + 's" where
  "follow c [] s = Inr s"
| "follow c (k # path) s = (case ptr_struct c (get_ptr c k s) of Inl e \<Rightarrow> Inl e | Inr t \<Rightarrow> follow c path t)"

lemma follow_append:
  "follow c (path @ path') s = (case follow c path s of Inl e \<Rightarrow> Inl e | Inr t \<Rightarrow> follow c path' t)"
  by (induction path arbitrary: s) (auto split: sum.splits)

definition register_tunnel_params_pipeline_get_options :: "pipeline \<Rightarrow> pipeline" where
  "register_tunnel_params_pipeline_get_options path = typeless_pointer_field 2 path"

definition register_tunnel_results_pipeline_get_result :: "pipeline \<Rightarrow> pipeline" where
  "register_tunnel_results_pipeline_get_result path = typeless_pointer_field 0 path"

definition get_server_info_results_pipeline_get_result :: "pipeline \<Rightarrow> pipeline" where
  "get_server_info_results_pipeline_get_result path = typeless_pointer_field 0 path"

definition authenticate_params_pipeline_get_options :: "pipeline \<Rightarrow> pipeline" where
  "authenticate_params_pipeline_get_options path = typeless_pointer_field 2 path"

definition authenticate_results_pipeline_get_result :: "pipeline \<Rightarrow> pipeline" where
  "authenticate_results_pipeline_get_result path = typeless_pointer_field 0 path"

definition reconnect_tunnel_params_pipeline_get_options :: "pipeline \<Rightarrow> pipeline" where
  "reconnect_tunnel_params_pipeline_get_options path = typeless_pointer_field 4 path"

definition reconnect_tunnel_results_pipeline_get_result :: "pipeline \<Rightarrow> pipeline" where
  "reconnect_tunnel_results_pipeline_get_result path = typeless_pointer_field 0 path"

definition connection_options_pipeline_get_client :: "pipeline \<Rightarrow> pipeline" where
  "connection_options_pipeline_get_client path = typeless_pointer_field 0 path"

definition connection_response_pipeline_get_result :: "pipeline \<Rightarrow> pipeline" where
  "connection_response_pipeline_get_result path = path"

definition register_connection_params_pipeline_get_auth :: "pipeline \<Rightarrow> pipeline" where
  "register_connection_params_pipeline_get_auth path = typeless_pointer_field 0 path"

definition register_connection_params_pipeline_get_options :: "pipeline \<Rightarrow> pipeline" where
  "register_connection_params_pipeline_get_options path = typeless_pointer_field 2 path"

definition register_connection_results_pipeline_get_result :: "pipeline \<Rightarrow> pipeline" where
  "register_connection_results_pipeline_get_result path = typeless_pointer_field 0 path"

definition register_udp_session_results_pipeline_get_result :: "pipeline \<Rightarrow> pipeline" where
  "register_udp_session_results_pipeline_get_result path = typeless_pointer_field 0 path"

definition update_configuration_results_pipeline_get_result :: "pipeline \<Rightarrow> pipeline" where
  "update_configuration_results_pipeline_get_result path = typeless_pointer_field 0 path"

lemmas pipeline_defs =
  register_tunnel_params_pipeline_get_options_def register_tunnel_results_pipeline_get_result_def
  get_server_info_results_pipeline_get_result_def authenticate_params_pipeline_get_options_def
  authenticate_results_pipeline_get_result_def reconnect_tunnel_params_pipeline_get_options_def
  reconnect_tunnel_results_pipeline_get_result_def connection_options_pipeline_get_client_def
  connection_response_pipeline_get_result_def register_connection_params_pipeline_get_auth_def
  register_connection_params_pipeline_get_options_def register_connection_results_pipeline_get_result_def
  register_udp_session_results_pipeline_get_result_def
  update_configuration_results_pipeline_get_result_def

text \<open>Following a pipeline's field gives what the reader's getter gives of the struct that the pipeline leads to.\<close>

lemma pipelines_follow_getters:
  assumes "follow c path root = Inr s"
  shows "follow c (register_tunnel_params_pipeline_get_options path) root = register_tunnel_params_get_options c s"
    "follow c (register_tunnel_results_pipeline_get_result path) root = register_tunnel_results_get_result c s"
    "follow c (get_server_info_results_pipeline_get_result path) root = get_server_info_results_get_result c s"
    "follow c (authenticate_params_pipeline_get_options path) root = authenticate_params_get_options c s"
    "follow c (authenticate_results_pipeline_get_result path) root = authenticate_results_get_result c s"
    "follow c (reconnect_tunnel_params_pipeline_get_options path) root = reconnect_tunnel_params_get_options c s"
    "follow c (reconnect_tunnel_results_pipeline_get_result path) root = reconnect_tunnel_results_get_result c s"
    "follow c (connection_options_pipeline_get_client path) root = connection_options_get_client c s"
    "follow c (connection_response_pipeline_get_result path) root = Inr s"
    "follow c (register_connection_params_pipeline_get_auth path) root = register_connection_params_get_auth c s"
    "follow c (register_connection_params_pipeline_get_options path) root = register_connection_params_get_options c s"
    "follow c (register_connection_results_pipeline_get_result path) root = register_connection_results_get_result c s"
    "follow c (register_udp_session_results_pipeline_get_result path) root = register_udp_session_results_get_result c s"
    "follow c (update_configuration_results_pipeline_get_result path) root = update_configuration_results_get_result c s"
  using assms
  by (simp_all add: pipeline_defs typeless_pointer_field_def follow_append
      register_tunnel_params_get_options_def
      register_tunnel_results_get_result_def
      get_server_info_results_get_result_def
      authenticate_params_get_options_def
      authenticate_results_get_result_def
      reconnect_tunnel_params_get_options_def
      reconnect_tunnel_results_get_result_def
      connection_options_get_client_def
      register_connection_params_get_auth_def
      register_connection_params_get_options_def
      register_connection_results_get_result_def
      register_udp_session_results_get_result_def
      update_configuration_results_get_result_def
      split: sum.split)

end
