(* ===== verification/Struct_Impls.thy ===== *)
theory Struct_Impls
  imports Schema_Sound Message_Builders
begin

text \<open>
  What every generated struct module of \<^verbatim>\<open>src/proto_gen\<close> has beside its accessors: the newtypes \<open>Reader\<close> and
  \<open>Builder\<close> over the library's struct views, and their trait implementations. The generator writes the same
  code for every struct; the modules differ in the type id, the size and the schema. So the implementations
  are two records of functions, \<open>reader_impl_of\<close> and \<open>builder_impl_of\<close> translate the code, and each struct's
  pair is an instance of them. The last section shows what a struct goes through when it is set into
  another message, read back and shown as a dynamic value.
\<close>

section \<open>Newtypes and the library\<close>

datatype 's struct_reader = StructReader (reader_view: 's)

datatype 's struct_builder = StructBuilder (builder_view: 's)

datatype 's dynamic_struct = DynamicStruct (dynamic_schema: branded_schema) (dynamic_view: 's)

text \<open>
  The rest of the library: the struct that a default's words encode, the size of a struct with all that it
  points to (words and capabilities), a capability table put into a view, the copy of a struct
  (canonical if asked for) and the debug text of a dynamic value. \<open>'k\<close> is the type of capability tables.
\<close>

record ('s, 'k) struct_library =
  struct_of_words :: "nat list list \<Rightarrow> string + 's"
  struct_total_size :: "'s \<Rightarrow> string + nat \<times> nat"
  struct_imbue :: "'k \<Rightarrow> 's \<Rightarrow> 's"
  struct_copy :: "bool \<Rightarrow> 's \<Rightarrow> string + 's"
  dynamic_debug :: "'s dynamic_struct \<Rightarrow> string"

text \<open>\<open>get_struct(default)\<close> of a pointer's reader and of its builder: a null pointer is the default, if there is one.\<close>

definition get_struct_reader ::
  "('s, 'p) capnp \<Rightarrow> ('s, 'k) struct_library \<Rightarrow> nat list list option \<Rightarrow> 'p \<Rightarrow> string + 's" where
  "get_struct_reader c l dflt q =
     (case dflt of
        Some ws \<Rightarrow> if ptr_null c q then struct_of_words l ws else ptr_struct c q
      | None \<Rightarrow> ptr_struct c q)"

definition get_struct_builder ::
  "('s, 'p) capnp \<Rightarrow> ('s, 'k) struct_library \<Rightarrow> 's widening \<Rightarrow> nat \<times> nat \<Rightarrow> nat list list option
   \<Rightarrow> ('s \<Rightarrow> 's) \<Rightarrow> 'p \<Rightarrow> string + 'p" where
  "get_struct_builder c l w sz dflt f q =
     (case dflt of
        Some ws \<Rightarrow>
          if ptr_null c q then map_sum id (\<lambda>t. struct_ptr c (f (w sz t))) (struct_of_words l ws)
          else edit_struct c w sz f q
      | None \<Rightarrow> edit_struct c w sz f q)"

section \<open>The implementations\<close>

text \<open>
  The traits of a \<open>Reader\<close> in the order of the code: \<open>Clone\<close>, \<open>HasTypeId\<close>, \<open>From\<close> a struct view,
  \<open>Into\<close> a dynamic value, \<open>Debug\<close>, \<open>FromPointerReader\<close>, \<open>IntoInternalStructReader\<close>, \<open>Imbue\<close>, and the
  methods \<open>reborrow\<close> and \<open>total_size\<close>.
\<close>

record ('s, 'p, 'k) reader_impl =
  ri_clone :: "'s struct_reader \<Rightarrow> 's struct_reader"
  ri_type_id :: nat
  ri_from :: "'s \<Rightarrow> 's struct_reader"
  ri_dynamic :: "'s struct_reader \<Rightarrow> 's dynamic_struct"
  ri_debug :: "'s struct_reader \<Rightarrow> string"
  ri_get_from_pointer :: "nat list list option \<Rightarrow> 'p \<Rightarrow> string + 's struct_reader"
  ri_internal :: "'s struct_reader \<Rightarrow> 's"
  ri_imbue :: "'k \<Rightarrow> 's struct_reader \<Rightarrow> 's struct_reader"
  ri_reborrow :: "'s struct_reader \<Rightarrow> 's struct_reader"
  ri_total_size :: "'s struct_reader \<Rightarrow> string + nat \<times> nat"

definition reader_impl_of ::
  "('s, 'p) capnp \<Rightarrow> ('s, 'k) struct_library \<Rightarrow> nat \<Rightarrow> branded_schema \<Rightarrow> ('s, 'p, 'k) reader_impl" where
  "reader_impl_of c l tid schema =
     \<lparr>ri_clone = (\<lambda>r. r),
      ri_type_id = tid,
      ri_from = StructReader,
      ri_dynamic = (\<lambda>r. DynamicStruct schema (reader_view r)),
      ri_debug = (\<lambda>r. dynamic_debug l (DynamicStruct schema (reader_view r))),
      ri_get_from_pointer = (\<lambda>dflt q. map_sum id StructReader (get_struct_reader c l dflt q)),
      ri_internal = reader_view,
      ri_imbue = (\<lambda>cap_table r. StructReader (struct_imbue l cap_table (reader_view r))),
      ri_reborrow = (\<lambda>r. StructReader (reader_view r)),
      ri_total_size = (\<lambda>r. struct_total_size l (reader_view r))\<rparr>"

text \<open>
  The traits of a \<open>Builder\<close>: \<open>HasStructSize\<close>, \<open>HasTypeId\<close>, \<open>From\<close> a struct view, \<open>Into\<close> a dynamic value,
  \<open>ImbueMut\<close>, \<open>FromPointerBuilder\<close> (for a caller that does \<open>f\<close> to the struct), the \<open>SetterInput\<close> of the
  \<open>Reader\<close>, and the methods \<open>into_reader\<close>, \<open>reborrow\<close>, \<open>reborrow_as_reader\<close> and \<open>total_size\<close>. The number
  that \<open>init_pointer\<close> is given is not used.
\<close>

record ('s, 'p, 'k) builder_impl =
  bi_struct_size :: "nat \<times> nat"
  bi_type_id :: nat
  bi_from :: "'s \<Rightarrow> 's struct_builder"
  bi_dynamic :: "'s struct_builder \<Rightarrow> 's dynamic_struct"
  bi_imbue_mut :: "'k \<Rightarrow> 's struct_builder \<Rightarrow> 's struct_builder"
  bi_init_pointer :: "u32 \<Rightarrow> ('s \<Rightarrow> 's) \<Rightarrow> 'p"
  bi_get_from_pointer :: "nat list list option \<Rightarrow> ('s \<Rightarrow> 's) \<Rightarrow> 'p \<Rightarrow> string + 'p"
  bi_set_pointer :: "'s struct_reader \<Rightarrow> bool \<Rightarrow> string + 'p"
  bi_into_reader :: "'s struct_builder \<Rightarrow> 's struct_reader"
  bi_reborrow :: "'s struct_builder \<Rightarrow> 's struct_builder"
  bi_reborrow_as_reader :: "'s struct_builder \<Rightarrow> 's struct_reader"
  bi_total_size :: "'s struct_builder \<Rightarrow> string + nat \<times> nat"

definition builder_impl_of ::
  "('s, 'p) capnp \<Rightarrow> ('s, 'k) struct_library \<Rightarrow> 's widening \<Rightarrow> nat \<Rightarrow> nat \<times> nat \<Rightarrow> branded_schema
   \<Rightarrow> ('s, 'p, 'k) builder_impl" where
  "builder_impl_of c l w tid sz schema =
     \<lparr>bi_struct_size = sz,
      bi_type_id = tid,
      bi_from = StructBuilder,
      bi_dynamic = (\<lambda>b. DynamicStruct schema (builder_view b)),
      bi_imbue_mut = (\<lambda>cap_table b. StructBuilder (struct_imbue l cap_table (builder_view b))),
      bi_init_pointer = (\<lambda>_ f. struct_ptr c (f (new_struct c (fst sz) (snd sz)))),
      bi_get_from_pointer = get_struct_builder c l w sz,
      bi_set_pointer = (\<lambda>r canonicalize. map_sum id (struct_ptr c) (struct_copy l canonicalize (reader_view r))),
      bi_into_reader = (\<lambda>b. StructReader (builder_view b)),
      bi_reborrow = (\<lambda>b. StructBuilder (builder_view b)),
      bi_reborrow_as_reader = (\<lambda>b. StructReader (builder_view b)),
      bi_total_size = (\<lambda>b. struct_total_size l (builder_view b))\<rparr>"

section \<open>Every struct\<close>

definition connect_request_reader_impl :: "('s, 'p) capnp \<Rightarrow> ('s, 'k) struct_library \<Rightarrow> ('s, 'p, 'k) reader_impl" where
  "connect_request_reader_impl c l = reader_impl_of c l connect_request_TYPE_ID connect_request_introspect"

definition connect_request_builder_impl ::
  "('s, 'p) capnp \<Rightarrow> ('s, 'k) struct_library \<Rightarrow> 's widening \<Rightarrow> ('s, 'p, 'k) builder_impl" where
  "connect_request_builder_impl c l w = builder_impl_of c l w connect_request_TYPE_ID connect_request_STRUCT_SIZE connect_request_introspect"

definition metadata_reader_impl :: "('s, 'p) capnp \<Rightarrow> ('s, 'k) struct_library \<Rightarrow> ('s, 'p, 'k) reader_impl" where
  "metadata_reader_impl c l = reader_impl_of c l metadata_TYPE_ID metadata_introspect"

definition metadata_builder_impl ::
  "('s, 'p) capnp \<Rightarrow> ('s, 'k) struct_library \<Rightarrow> 's widening \<Rightarrow> ('s, 'p, 'k) builder_impl" where
  "metadata_builder_impl c l w = builder_impl_of c l w metadata_TYPE_ID metadata_STRUCT_SIZE metadata_introspect"

definition connect_response_reader_impl :: "('s, 'p) capnp \<Rightarrow> ('s, 'k) struct_library \<Rightarrow> ('s, 'p, 'k) reader_impl" where
  "connect_response_reader_impl c l = reader_impl_of c l connect_response_TYPE_ID connect_response_introspect"

definition connect_response_builder_impl ::
  "('s, 'p) capnp \<Rightarrow> ('s, 'k) struct_library \<Rightarrow> 's widening \<Rightarrow> ('s, 'p, 'k) builder_impl" where
  "connect_response_builder_impl c l w = builder_impl_of c l w connect_response_TYPE_ID connect_response_STRUCT_SIZE connect_response_introspect"

definition authentication_reader_impl :: "('s, 'p) capnp \<Rightarrow> ('s, 'k) struct_library \<Rightarrow> ('s, 'p, 'k) reader_impl" where
  "authentication_reader_impl c l = reader_impl_of c l authentication_TYPE_ID authentication_introspect"

definition authentication_builder_impl ::
  "('s, 'p) capnp \<Rightarrow> ('s, 'k) struct_library \<Rightarrow> 's widening \<Rightarrow> ('s, 'p, 'k) builder_impl" where
  "authentication_builder_impl c l w = builder_impl_of c l w authentication_TYPE_ID authentication_STRUCT_SIZE authentication_introspect"

definition tunnel_registration_reader_impl :: "('s, 'p) capnp \<Rightarrow> ('s, 'k) struct_library \<Rightarrow> ('s, 'p, 'k) reader_impl" where
  "tunnel_registration_reader_impl c l = reader_impl_of c l tunnel_registration_TYPE_ID tunnel_registration_introspect"

definition tunnel_registration_builder_impl ::
  "('s, 'p) capnp \<Rightarrow> ('s, 'k) struct_library \<Rightarrow> 's widening \<Rightarrow> ('s, 'p, 'k) builder_impl" where
  "tunnel_registration_builder_impl c l w = builder_impl_of c l w tunnel_registration_TYPE_ID tunnel_registration_STRUCT_SIZE tunnel_registration_introspect"

definition registration_options_reader_impl :: "('s, 'p) capnp \<Rightarrow> ('s, 'k) struct_library \<Rightarrow> ('s, 'p, 'k) reader_impl" where
  "registration_options_reader_impl c l = reader_impl_of c l registration_options_TYPE_ID registration_options_introspect"

definition registration_options_builder_impl ::
  "('s, 'p) capnp \<Rightarrow> ('s, 'k) struct_library \<Rightarrow> 's widening \<Rightarrow> ('s, 'p, 'k) builder_impl" where
  "registration_options_builder_impl c l w = builder_impl_of c l w registration_options_TYPE_ID registration_options_STRUCT_SIZE registration_options_introspect"

definition server_info_reader_impl :: "('s, 'p) capnp \<Rightarrow> ('s, 'k) struct_library \<Rightarrow> ('s, 'p, 'k) reader_impl" where
  "server_info_reader_impl c l = reader_impl_of c l server_info_TYPE_ID server_info_introspect"

definition server_info_builder_impl ::
  "('s, 'p) capnp \<Rightarrow> ('s, 'k) struct_library \<Rightarrow> 's widening \<Rightarrow> ('s, 'p, 'k) builder_impl" where
  "server_info_builder_impl c l w = builder_impl_of c l w server_info_TYPE_ID server_info_STRUCT_SIZE server_info_introspect"

definition authenticate_response_reader_impl :: "('s, 'p) capnp \<Rightarrow> ('s, 'k) struct_library \<Rightarrow> ('s, 'p, 'k) reader_impl" where
  "authenticate_response_reader_impl c l = reader_impl_of c l authenticate_response_TYPE_ID authenticate_response_introspect"

definition authenticate_response_builder_impl ::
  "('s, 'p) capnp \<Rightarrow> ('s, 'k) struct_library \<Rightarrow> 's widening \<Rightarrow> ('s, 'p, 'k) builder_impl" where
  "authenticate_response_builder_impl c l w = builder_impl_of c l w authenticate_response_TYPE_ID authenticate_response_STRUCT_SIZE authenticate_response_introspect"

definition register_tunnel_params_reader_impl :: "('s, 'p) capnp \<Rightarrow> ('s, 'k) struct_library \<Rightarrow> ('s, 'p, 'k) reader_impl" where
  "register_tunnel_params_reader_impl c l = reader_impl_of c l register_tunnel_params_TYPE_ID register_tunnel_params_introspect"

definition register_tunnel_params_builder_impl ::
  "('s, 'p) capnp \<Rightarrow> ('s, 'k) struct_library \<Rightarrow> 's widening \<Rightarrow> ('s, 'p, 'k) builder_impl" where
  "register_tunnel_params_builder_impl c l w = builder_impl_of c l w register_tunnel_params_TYPE_ID register_tunnel_params_STRUCT_SIZE register_tunnel_params_introspect"

definition register_tunnel_results_reader_impl :: "('s, 'p) capnp \<Rightarrow> ('s, 'k) struct_library \<Rightarrow> ('s, 'p, 'k) reader_impl" where
  "register_tunnel_results_reader_impl c l = reader_impl_of c l register_tunnel_results_TYPE_ID register_tunnel_results_introspect"

definition register_tunnel_results_builder_impl ::
  "('s, 'p) capnp \<Rightarrow> ('s, 'k) struct_library \<Rightarrow> 's widening \<Rightarrow> ('s, 'p, 'k) builder_impl" where
  "register_tunnel_results_builder_impl c l w = builder_impl_of c l w register_tunnel_results_TYPE_ID register_tunnel_results_STRUCT_SIZE register_tunnel_results_introspect"

definition get_server_info_params_reader_impl :: "('s, 'p) capnp \<Rightarrow> ('s, 'k) struct_library \<Rightarrow> ('s, 'p, 'k) reader_impl" where
  "get_server_info_params_reader_impl c l = reader_impl_of c l get_server_info_params_TYPE_ID get_server_info_params_introspect"

definition get_server_info_params_builder_impl ::
  "('s, 'p) capnp \<Rightarrow> ('s, 'k) struct_library \<Rightarrow> 's widening \<Rightarrow> ('s, 'p, 'k) builder_impl" where
  "get_server_info_params_builder_impl c l w = builder_impl_of c l w get_server_info_params_TYPE_ID get_server_info_params_STRUCT_SIZE get_server_info_params_introspect"

definition get_server_info_results_reader_impl :: "('s, 'p) capnp \<Rightarrow> ('s, 'k) struct_library \<Rightarrow> ('s, 'p, 'k) reader_impl" where
  "get_server_info_results_reader_impl c l = reader_impl_of c l get_server_info_results_TYPE_ID get_server_info_results_introspect"

definition get_server_info_results_builder_impl ::
  "('s, 'p) capnp \<Rightarrow> ('s, 'k) struct_library \<Rightarrow> 's widening \<Rightarrow> ('s, 'p, 'k) builder_impl" where
  "get_server_info_results_builder_impl c l w = builder_impl_of c l w get_server_info_results_TYPE_ID get_server_info_results_STRUCT_SIZE get_server_info_results_introspect"

definition unregister_tunnel_params_reader_impl :: "('s, 'p) capnp \<Rightarrow> ('s, 'k) struct_library \<Rightarrow> ('s, 'p, 'k) reader_impl" where
  "unregister_tunnel_params_reader_impl c l = reader_impl_of c l unregister_tunnel_params_TYPE_ID unregister_tunnel_params_introspect"

definition unregister_tunnel_params_builder_impl ::
  "('s, 'p) capnp \<Rightarrow> ('s, 'k) struct_library \<Rightarrow> 's widening \<Rightarrow> ('s, 'p, 'k) builder_impl" where
  "unregister_tunnel_params_builder_impl c l w = builder_impl_of c l w unregister_tunnel_params_TYPE_ID unregister_tunnel_params_STRUCT_SIZE unregister_tunnel_params_introspect"

definition unregister_tunnel_results_reader_impl :: "('s, 'p) capnp \<Rightarrow> ('s, 'k) struct_library \<Rightarrow> ('s, 'p, 'k) reader_impl" where
  "unregister_tunnel_results_reader_impl c l = reader_impl_of c l unregister_tunnel_results_TYPE_ID unregister_tunnel_results_introspect"

definition unregister_tunnel_results_builder_impl ::
  "('s, 'p) capnp \<Rightarrow> ('s, 'k) struct_library \<Rightarrow> 's widening \<Rightarrow> ('s, 'p, 'k) builder_impl" where
  "unregister_tunnel_results_builder_impl c l w = builder_impl_of c l w unregister_tunnel_results_TYPE_ID unregister_tunnel_results_STRUCT_SIZE unregister_tunnel_results_introspect"

definition obsolete_declarative_tunnel_connect_params_reader_impl :: "('s, 'p) capnp \<Rightarrow> ('s, 'k) struct_library \<Rightarrow> ('s, 'p, 'k) reader_impl" where
  "obsolete_declarative_tunnel_connect_params_reader_impl c l = reader_impl_of c l obsolete_declarative_tunnel_connect_params_TYPE_ID obsolete_declarative_tunnel_connect_params_introspect"

definition obsolete_declarative_tunnel_connect_params_builder_impl ::
  "('s, 'p) capnp \<Rightarrow> ('s, 'k) struct_library \<Rightarrow> 's widening \<Rightarrow> ('s, 'p, 'k) builder_impl" where
  "obsolete_declarative_tunnel_connect_params_builder_impl c l w = builder_impl_of c l w obsolete_declarative_tunnel_connect_params_TYPE_ID obsolete_declarative_tunnel_connect_params_STRUCT_SIZE obsolete_declarative_tunnel_connect_params_introspect"

definition obsolete_declarative_tunnel_connect_results_reader_impl :: "('s, 'p) capnp \<Rightarrow> ('s, 'k) struct_library \<Rightarrow> ('s, 'p, 'k) reader_impl" where
  "obsolete_declarative_tunnel_connect_results_reader_impl c l = reader_impl_of c l obsolete_declarative_tunnel_connect_results_TYPE_ID obsolete_declarative_tunnel_connect_results_introspect"

definition obsolete_declarative_tunnel_connect_results_builder_impl ::
  "('s, 'p) capnp \<Rightarrow> ('s, 'k) struct_library \<Rightarrow> 's widening \<Rightarrow> ('s, 'p, 'k) builder_impl" where
  "obsolete_declarative_tunnel_connect_results_builder_impl c l w = builder_impl_of c l w obsolete_declarative_tunnel_connect_results_TYPE_ID obsolete_declarative_tunnel_connect_results_STRUCT_SIZE obsolete_declarative_tunnel_connect_results_introspect"

definition authenticate_params_reader_impl :: "('s, 'p) capnp \<Rightarrow> ('s, 'k) struct_library \<Rightarrow> ('s, 'p, 'k) reader_impl" where
  "authenticate_params_reader_impl c l = reader_impl_of c l authenticate_params_TYPE_ID authenticate_params_introspect"

definition authenticate_params_builder_impl ::
  "('s, 'p) capnp \<Rightarrow> ('s, 'k) struct_library \<Rightarrow> 's widening \<Rightarrow> ('s, 'p, 'k) builder_impl" where
  "authenticate_params_builder_impl c l w = builder_impl_of c l w authenticate_params_TYPE_ID authenticate_params_STRUCT_SIZE authenticate_params_introspect"

definition authenticate_results_reader_impl :: "('s, 'p) capnp \<Rightarrow> ('s, 'k) struct_library \<Rightarrow> ('s, 'p, 'k) reader_impl" where
  "authenticate_results_reader_impl c l = reader_impl_of c l authenticate_results_TYPE_ID authenticate_results_introspect"

definition authenticate_results_builder_impl ::
  "('s, 'p) capnp \<Rightarrow> ('s, 'k) struct_library \<Rightarrow> 's widening \<Rightarrow> ('s, 'p, 'k) builder_impl" where
  "authenticate_results_builder_impl c l w = builder_impl_of c l w authenticate_results_TYPE_ID authenticate_results_STRUCT_SIZE authenticate_results_introspect"

definition reconnect_tunnel_params_reader_impl :: "('s, 'p) capnp \<Rightarrow> ('s, 'k) struct_library \<Rightarrow> ('s, 'p, 'k) reader_impl" where
  "reconnect_tunnel_params_reader_impl c l = reader_impl_of c l reconnect_tunnel_params_TYPE_ID reconnect_tunnel_params_introspect"

definition reconnect_tunnel_params_builder_impl ::
  "('s, 'p) capnp \<Rightarrow> ('s, 'k) struct_library \<Rightarrow> 's widening \<Rightarrow> ('s, 'p, 'k) builder_impl" where
  "reconnect_tunnel_params_builder_impl c l w = builder_impl_of c l w reconnect_tunnel_params_TYPE_ID reconnect_tunnel_params_STRUCT_SIZE reconnect_tunnel_params_introspect"

definition reconnect_tunnel_results_reader_impl :: "('s, 'p) capnp \<Rightarrow> ('s, 'k) struct_library \<Rightarrow> ('s, 'p, 'k) reader_impl" where
  "reconnect_tunnel_results_reader_impl c l = reader_impl_of c l reconnect_tunnel_results_TYPE_ID reconnect_tunnel_results_introspect"

definition reconnect_tunnel_results_builder_impl ::
  "('s, 'p) capnp \<Rightarrow> ('s, 'k) struct_library \<Rightarrow> 's widening \<Rightarrow> ('s, 'p, 'k) builder_impl" where
  "reconnect_tunnel_results_builder_impl c l w = builder_impl_of c l w reconnect_tunnel_results_TYPE_ID reconnect_tunnel_results_STRUCT_SIZE reconnect_tunnel_results_introspect"

definition tag_reader_impl :: "('s, 'p) capnp \<Rightarrow> ('s, 'k) struct_library \<Rightarrow> ('s, 'p, 'k) reader_impl" where
  "tag_reader_impl c l = reader_impl_of c l tag_TYPE_ID tag_introspect"

definition tag_builder_impl ::
  "('s, 'p) capnp \<Rightarrow> ('s, 'k) struct_library \<Rightarrow> 's widening \<Rightarrow> ('s, 'p, 'k) builder_impl" where
  "tag_builder_impl c l w = builder_impl_of c l w tag_TYPE_ID tag_STRUCT_SIZE tag_introspect"

definition client_info_reader_impl :: "('s, 'p) capnp \<Rightarrow> ('s, 'k) struct_library \<Rightarrow> ('s, 'p, 'k) reader_impl" where
  "client_info_reader_impl c l = reader_impl_of c l client_info_TYPE_ID client_info_introspect"

definition client_info_builder_impl ::
  "('s, 'p) capnp \<Rightarrow> ('s, 'k) struct_library \<Rightarrow> 's widening \<Rightarrow> ('s, 'p, 'k) builder_impl" where
  "client_info_builder_impl c l w = builder_impl_of c l w client_info_TYPE_ID client_info_STRUCT_SIZE client_info_introspect"

definition connection_options_reader_impl :: "('s, 'p) capnp \<Rightarrow> ('s, 'k) struct_library \<Rightarrow> ('s, 'p, 'k) reader_impl" where
  "connection_options_reader_impl c l = reader_impl_of c l connection_options_TYPE_ID connection_options_introspect"

definition connection_options_builder_impl ::
  "('s, 'p) capnp \<Rightarrow> ('s, 'k) struct_library \<Rightarrow> 's widening \<Rightarrow> ('s, 'p, 'k) builder_impl" where
  "connection_options_builder_impl c l w = builder_impl_of c l w connection_options_TYPE_ID connection_options_STRUCT_SIZE connection_options_introspect"

definition connection_response_reader_impl :: "('s, 'p) capnp \<Rightarrow> ('s, 'k) struct_library \<Rightarrow> ('s, 'p, 'k) reader_impl" where
  "connection_response_reader_impl c l = reader_impl_of c l connection_response_TYPE_ID connection_response_introspect"

definition connection_response_builder_impl ::
  "('s, 'p) capnp \<Rightarrow> ('s, 'k) struct_library \<Rightarrow> 's widening \<Rightarrow> ('s, 'p, 'k) builder_impl" where
  "connection_response_builder_impl c l w = builder_impl_of c l w connection_response_TYPE_ID connection_response_STRUCT_SIZE connection_response_introspect"

definition response_result_reader_impl :: "('s, 'p) capnp \<Rightarrow> ('s, 'k) struct_library \<Rightarrow> ('s, 'p, 'k) reader_impl" where
  "response_result_reader_impl c l = reader_impl_of c l response_result_TYPE_ID response_result_introspect"

definition response_result_builder_impl ::
  "('s, 'p) capnp \<Rightarrow> ('s, 'k) struct_library \<Rightarrow> 's widening \<Rightarrow> ('s, 'p, 'k) builder_impl" where
  "response_result_builder_impl c l w = builder_impl_of c l w response_result_TYPE_ID response_result_STRUCT_SIZE response_result_introspect"

definition connection_error_reader_impl :: "('s, 'p) capnp \<Rightarrow> ('s, 'k) struct_library \<Rightarrow> ('s, 'p, 'k) reader_impl" where
  "connection_error_reader_impl c l = reader_impl_of c l connection_error_TYPE_ID connection_error_introspect"

definition connection_error_builder_impl ::
  "('s, 'p) capnp \<Rightarrow> ('s, 'k) struct_library \<Rightarrow> 's widening \<Rightarrow> ('s, 'p, 'k) builder_impl" where
  "connection_error_builder_impl c l w = builder_impl_of c l w connection_error_TYPE_ID connection_error_STRUCT_SIZE connection_error_introspect"

definition connection_details_reader_impl :: "('s, 'p) capnp \<Rightarrow> ('s, 'k) struct_library \<Rightarrow> ('s, 'p, 'k) reader_impl" where
  "connection_details_reader_impl c l = reader_impl_of c l connection_details_TYPE_ID connection_details_introspect"

definition connection_details_builder_impl ::
  "('s, 'p) capnp \<Rightarrow> ('s, 'k) struct_library \<Rightarrow> 's widening \<Rightarrow> ('s, 'p, 'k) builder_impl" where
  "connection_details_builder_impl c l w = builder_impl_of c l w connection_details_TYPE_ID connection_details_STRUCT_SIZE connection_details_introspect"

definition tunnel_auth_reader_impl :: "('s, 'p) capnp \<Rightarrow> ('s, 'k) struct_library \<Rightarrow> ('s, 'p, 'k) reader_impl" where
  "tunnel_auth_reader_impl c l = reader_impl_of c l tunnel_auth_TYPE_ID tunnel_auth_introspect"

definition tunnel_auth_builder_impl ::
  "('s, 'p) capnp \<Rightarrow> ('s, 'k) struct_library \<Rightarrow> 's widening \<Rightarrow> ('s, 'p, 'k) builder_impl" where
  "tunnel_auth_builder_impl c l w = builder_impl_of c l w tunnel_auth_TYPE_ID tunnel_auth_STRUCT_SIZE tunnel_auth_introspect"

definition register_connection_params_reader_impl :: "('s, 'p) capnp \<Rightarrow> ('s, 'k) struct_library \<Rightarrow> ('s, 'p, 'k) reader_impl" where
  "register_connection_params_reader_impl c l = reader_impl_of c l register_connection_params_TYPE_ID register_connection_params_introspect"

definition register_connection_params_builder_impl ::
  "('s, 'p) capnp \<Rightarrow> ('s, 'k) struct_library \<Rightarrow> 's widening \<Rightarrow> ('s, 'p, 'k) builder_impl" where
  "register_connection_params_builder_impl c l w = builder_impl_of c l w register_connection_params_TYPE_ID register_connection_params_STRUCT_SIZE register_connection_params_introspect"

definition register_connection_results_reader_impl :: "('s, 'p) capnp \<Rightarrow> ('s, 'k) struct_library \<Rightarrow> ('s, 'p, 'k) reader_impl" where
  "register_connection_results_reader_impl c l = reader_impl_of c l register_connection_results_TYPE_ID register_connection_results_introspect"

definition register_connection_results_builder_impl ::
  "('s, 'p) capnp \<Rightarrow> ('s, 'k) struct_library \<Rightarrow> 's widening \<Rightarrow> ('s, 'p, 'k) builder_impl" where
  "register_connection_results_builder_impl c l w = builder_impl_of c l w register_connection_results_TYPE_ID register_connection_results_STRUCT_SIZE register_connection_results_introspect"

definition unregister_connection_params_reader_impl :: "('s, 'p) capnp \<Rightarrow> ('s, 'k) struct_library \<Rightarrow> ('s, 'p, 'k) reader_impl" where
  "unregister_connection_params_reader_impl c l = reader_impl_of c l unregister_connection_params_TYPE_ID unregister_connection_params_introspect"

definition unregister_connection_params_builder_impl ::
  "('s, 'p) capnp \<Rightarrow> ('s, 'k) struct_library \<Rightarrow> 's widening \<Rightarrow> ('s, 'p, 'k) builder_impl" where
  "unregister_connection_params_builder_impl c l w = builder_impl_of c l w unregister_connection_params_TYPE_ID unregister_connection_params_STRUCT_SIZE unregister_connection_params_introspect"

definition unregister_connection_results_reader_impl :: "('s, 'p) capnp \<Rightarrow> ('s, 'k) struct_library \<Rightarrow> ('s, 'p, 'k) reader_impl" where
  "unregister_connection_results_reader_impl c l = reader_impl_of c l unregister_connection_results_TYPE_ID unregister_connection_results_introspect"

definition unregister_connection_results_builder_impl ::
  "('s, 'p) capnp \<Rightarrow> ('s, 'k) struct_library \<Rightarrow> 's widening \<Rightarrow> ('s, 'p, 'k) builder_impl" where
  "unregister_connection_results_builder_impl c l w = builder_impl_of c l w unregister_connection_results_TYPE_ID unregister_connection_results_STRUCT_SIZE unregister_connection_results_introspect"

definition update_local_configuration_params_reader_impl :: "('s, 'p) capnp \<Rightarrow> ('s, 'k) struct_library \<Rightarrow> ('s, 'p, 'k) reader_impl" where
  "update_local_configuration_params_reader_impl c l = reader_impl_of c l update_local_configuration_params_TYPE_ID update_local_configuration_params_introspect"

definition update_local_configuration_params_builder_impl ::
  "('s, 'p) capnp \<Rightarrow> ('s, 'k) struct_library \<Rightarrow> 's widening \<Rightarrow> ('s, 'p, 'k) builder_impl" where
  "update_local_configuration_params_builder_impl c l w = builder_impl_of c l w update_local_configuration_params_TYPE_ID update_local_configuration_params_STRUCT_SIZE update_local_configuration_params_introspect"

definition update_local_configuration_results_reader_impl :: "('s, 'p) capnp \<Rightarrow> ('s, 'k) struct_library \<Rightarrow> ('s, 'p, 'k) reader_impl" where
  "update_local_configuration_results_reader_impl c l = reader_impl_of c l update_local_configuration_results_TYPE_ID update_local_configuration_results_introspect"

definition update_local_configuration_results_builder_impl ::
  "('s, 'p) capnp \<Rightarrow> ('s, 'k) struct_library \<Rightarrow> 's widening \<Rightarrow> ('s, 'p, 'k) builder_impl" where
  "update_local_configuration_results_builder_impl c l w = builder_impl_of c l w update_local_configuration_results_TYPE_ID update_local_configuration_results_STRUCT_SIZE update_local_configuration_results_introspect"

definition register_udp_session_response_reader_impl :: "('s, 'p) capnp \<Rightarrow> ('s, 'k) struct_library \<Rightarrow> ('s, 'p, 'k) reader_impl" where
  "register_udp_session_response_reader_impl c l = reader_impl_of c l register_udp_session_response_TYPE_ID register_udp_session_response_introspect"

definition register_udp_session_response_builder_impl ::
  "('s, 'p) capnp \<Rightarrow> ('s, 'k) struct_library \<Rightarrow> 's widening \<Rightarrow> ('s, 'p, 'k) builder_impl" where
  "register_udp_session_response_builder_impl c l w = builder_impl_of c l w register_udp_session_response_TYPE_ID register_udp_session_response_STRUCT_SIZE register_udp_session_response_introspect"

definition register_udp_session_params_reader_impl :: "('s, 'p) capnp \<Rightarrow> ('s, 'k) struct_library \<Rightarrow> ('s, 'p, 'k) reader_impl" where
  "register_udp_session_params_reader_impl c l = reader_impl_of c l register_udp_session_params_TYPE_ID register_udp_session_params_introspect"

definition register_udp_session_params_builder_impl ::
  "('s, 'p) capnp \<Rightarrow> ('s, 'k) struct_library \<Rightarrow> 's widening \<Rightarrow> ('s, 'p, 'k) builder_impl" where
  "register_udp_session_params_builder_impl c l w = builder_impl_of c l w register_udp_session_params_TYPE_ID register_udp_session_params_STRUCT_SIZE register_udp_session_params_introspect"

definition register_udp_session_results_reader_impl :: "('s, 'p) capnp \<Rightarrow> ('s, 'k) struct_library \<Rightarrow> ('s, 'p, 'k) reader_impl" where
  "register_udp_session_results_reader_impl c l = reader_impl_of c l register_udp_session_results_TYPE_ID register_udp_session_results_introspect"

definition register_udp_session_results_builder_impl ::
  "('s, 'p) capnp \<Rightarrow> ('s, 'k) struct_library \<Rightarrow> 's widening \<Rightarrow> ('s, 'p, 'k) builder_impl" where
  "register_udp_session_results_builder_impl c l w = builder_impl_of c l w register_udp_session_results_TYPE_ID register_udp_session_results_STRUCT_SIZE register_udp_session_results_introspect"

definition unregister_udp_session_params_reader_impl :: "('s, 'p) capnp \<Rightarrow> ('s, 'k) struct_library \<Rightarrow> ('s, 'p, 'k) reader_impl" where
  "unregister_udp_session_params_reader_impl c l = reader_impl_of c l unregister_udp_session_params_TYPE_ID unregister_udp_session_params_introspect"

definition unregister_udp_session_params_builder_impl ::
  "('s, 'p) capnp \<Rightarrow> ('s, 'k) struct_library \<Rightarrow> 's widening \<Rightarrow> ('s, 'p, 'k) builder_impl" where
  "unregister_udp_session_params_builder_impl c l w = builder_impl_of c l w unregister_udp_session_params_TYPE_ID unregister_udp_session_params_STRUCT_SIZE unregister_udp_session_params_introspect"

definition unregister_udp_session_results_reader_impl :: "('s, 'p) capnp \<Rightarrow> ('s, 'k) struct_library \<Rightarrow> ('s, 'p, 'k) reader_impl" where
  "unregister_udp_session_results_reader_impl c l = reader_impl_of c l unregister_udp_session_results_TYPE_ID unregister_udp_session_results_introspect"

definition unregister_udp_session_results_builder_impl ::
  "('s, 'p) capnp \<Rightarrow> ('s, 'k) struct_library \<Rightarrow> 's widening \<Rightarrow> ('s, 'p, 'k) builder_impl" where
  "unregister_udp_session_results_builder_impl c l w = builder_impl_of c l w unregister_udp_session_results_TYPE_ID unregister_udp_session_results_STRUCT_SIZE unregister_udp_session_results_introspect"

definition update_configuration_response_reader_impl :: "('s, 'p) capnp \<Rightarrow> ('s, 'k) struct_library \<Rightarrow> ('s, 'p, 'k) reader_impl" where
  "update_configuration_response_reader_impl c l = reader_impl_of c l update_configuration_response_TYPE_ID update_configuration_response_introspect"

definition update_configuration_response_builder_impl ::
  "('s, 'p) capnp \<Rightarrow> ('s, 'k) struct_library \<Rightarrow> 's widening \<Rightarrow> ('s, 'p, 'k) builder_impl" where
  "update_configuration_response_builder_impl c l w = builder_impl_of c l w update_configuration_response_TYPE_ID update_configuration_response_STRUCT_SIZE update_configuration_response_introspect"

definition update_configuration_params_reader_impl :: "('s, 'p) capnp \<Rightarrow> ('s, 'k) struct_library \<Rightarrow> ('s, 'p, 'k) reader_impl" where
  "update_configuration_params_reader_impl c l = reader_impl_of c l update_configuration_params_TYPE_ID update_configuration_params_introspect"

definition update_configuration_params_builder_impl ::
  "('s, 'p) capnp \<Rightarrow> ('s, 'k) struct_library \<Rightarrow> 's widening \<Rightarrow> ('s, 'p, 'k) builder_impl" where
  "update_configuration_params_builder_impl c l w = builder_impl_of c l w update_configuration_params_TYPE_ID update_configuration_params_STRUCT_SIZE update_configuration_params_introspect"

definition update_configuration_results_reader_impl :: "('s, 'p) capnp \<Rightarrow> ('s, 'k) struct_library \<Rightarrow> ('s, 'p, 'k) reader_impl" where
  "update_configuration_results_reader_impl c l = reader_impl_of c l update_configuration_results_TYPE_ID update_configuration_results_introspect"

definition update_configuration_results_builder_impl ::
  "('s, 'p) capnp \<Rightarrow> ('s, 'k) struct_library \<Rightarrow> 's widening \<Rightarrow> ('s, 'p, 'k) builder_impl" where
  "update_configuration_results_builder_impl c l w = builder_impl_of c l w update_configuration_results_TYPE_ID update_configuration_results_STRUCT_SIZE update_configuration_results_introspect"

text \<open>In the order of \<open>all_structs\<close>.\<close>

definition all_reader_impls :: "('s, 'p) capnp \<Rightarrow> ('s, 'k) struct_library \<Rightarrow> ('s, 'p, 'k) reader_impl list" where
  "all_reader_impls c l =
     [connect_request_reader_impl c l,
      metadata_reader_impl c l,
      connect_response_reader_impl c l,
      authentication_reader_impl c l,
      tunnel_registration_reader_impl c l,
      registration_options_reader_impl c l,
      server_info_reader_impl c l,
      authenticate_response_reader_impl c l,
      register_tunnel_params_reader_impl c l,
      register_tunnel_results_reader_impl c l,
      get_server_info_params_reader_impl c l,
      get_server_info_results_reader_impl c l,
      unregister_tunnel_params_reader_impl c l,
      unregister_tunnel_results_reader_impl c l,
      obsolete_declarative_tunnel_connect_params_reader_impl c l,
      obsolete_declarative_tunnel_connect_results_reader_impl c l,
      authenticate_params_reader_impl c l,
      authenticate_results_reader_impl c l,
      reconnect_tunnel_params_reader_impl c l,
      reconnect_tunnel_results_reader_impl c l,
      tag_reader_impl c l,
      client_info_reader_impl c l,
      connection_options_reader_impl c l,
      connection_response_reader_impl c l,
      response_result_reader_impl c l,
      connection_error_reader_impl c l,
      connection_details_reader_impl c l,
      tunnel_auth_reader_impl c l,
      register_connection_params_reader_impl c l,
      register_connection_results_reader_impl c l,
      unregister_connection_params_reader_impl c l,
      unregister_connection_results_reader_impl c l,
      update_local_configuration_params_reader_impl c l,
      update_local_configuration_results_reader_impl c l,
      register_udp_session_response_reader_impl c l,
      register_udp_session_params_reader_impl c l,
      register_udp_session_results_reader_impl c l,
      unregister_udp_session_params_reader_impl c l,
      unregister_udp_session_results_reader_impl c l,
      update_configuration_response_reader_impl c l,
      update_configuration_params_reader_impl c l,
      update_configuration_results_reader_impl c l]"

definition all_builder_impls ::
  "('s, 'p) capnp \<Rightarrow> ('s, 'k) struct_library \<Rightarrow> 's widening \<Rightarrow> ('s, 'p, 'k) builder_impl list" where
  "all_builder_impls c l w =
     [connect_request_builder_impl c l w,
      metadata_builder_impl c l w,
      connect_response_builder_impl c l w,
      authentication_builder_impl c l w,
      tunnel_registration_builder_impl c l w,
      registration_options_builder_impl c l w,
      server_info_builder_impl c l w,
      authenticate_response_builder_impl c l w,
      register_tunnel_params_builder_impl c l w,
      register_tunnel_results_builder_impl c l w,
      get_server_info_params_builder_impl c l w,
      get_server_info_results_builder_impl c l w,
      unregister_tunnel_params_builder_impl c l w,
      unregister_tunnel_results_builder_impl c l w,
      obsolete_declarative_tunnel_connect_params_builder_impl c l w,
      obsolete_declarative_tunnel_connect_results_builder_impl c l w,
      authenticate_params_builder_impl c l w,
      authenticate_results_builder_impl c l w,
      reconnect_tunnel_params_builder_impl c l w,
      reconnect_tunnel_results_builder_impl c l w,
      tag_builder_impl c l w,
      client_info_builder_impl c l w,
      connection_options_builder_impl c l w,
      connection_response_builder_impl c l w,
      response_result_builder_impl c l w,
      connection_error_builder_impl c l w,
      connection_details_builder_impl c l w,
      tunnel_auth_builder_impl c l w,
      register_connection_params_builder_impl c l w,
      register_connection_results_builder_impl c l w,
      unregister_connection_params_builder_impl c l w,
      unregister_connection_results_builder_impl c l w,
      update_local_configuration_params_builder_impl c l w,
      update_local_configuration_results_builder_impl c l w,
      register_udp_session_response_builder_impl c l w,
      register_udp_session_params_builder_impl c l w,
      register_udp_session_results_builder_impl c l w,
      unregister_udp_session_params_builder_impl c l w,
      unregister_udp_session_results_builder_impl c l w,
      update_configuration_response_builder_impl c l w,
      update_configuration_params_builder_impl c l w,
      update_configuration_results_builder_impl c l w]"

lemmas impl_defs =
  connect_request_reader_impl_def connect_request_builder_impl_def
  metadata_reader_impl_def metadata_builder_impl_def
  connect_response_reader_impl_def connect_response_builder_impl_def
  authentication_reader_impl_def authentication_builder_impl_def
  tunnel_registration_reader_impl_def tunnel_registration_builder_impl_def
  registration_options_reader_impl_def registration_options_builder_impl_def
  server_info_reader_impl_def server_info_builder_impl_def
  authenticate_response_reader_impl_def authenticate_response_builder_impl_def
  register_tunnel_params_reader_impl_def register_tunnel_params_builder_impl_def
  register_tunnel_results_reader_impl_def register_tunnel_results_builder_impl_def
  get_server_info_params_reader_impl_def get_server_info_params_builder_impl_def
  get_server_info_results_reader_impl_def get_server_info_results_builder_impl_def
  unregister_tunnel_params_reader_impl_def unregister_tunnel_params_builder_impl_def
  unregister_tunnel_results_reader_impl_def unregister_tunnel_results_builder_impl_def
  obsolete_declarative_tunnel_connect_params_reader_impl_def obsolete_declarative_tunnel_connect_params_builder_impl_def
  obsolete_declarative_tunnel_connect_results_reader_impl_def obsolete_declarative_tunnel_connect_results_builder_impl_def
  authenticate_params_reader_impl_def authenticate_params_builder_impl_def
  authenticate_results_reader_impl_def authenticate_results_builder_impl_def
  reconnect_tunnel_params_reader_impl_def reconnect_tunnel_params_builder_impl_def
  reconnect_tunnel_results_reader_impl_def reconnect_tunnel_results_builder_impl_def
  tag_reader_impl_def tag_builder_impl_def
  client_info_reader_impl_def client_info_builder_impl_def
  connection_options_reader_impl_def connection_options_builder_impl_def
  connection_response_reader_impl_def connection_response_builder_impl_def
  response_result_reader_impl_def response_result_builder_impl_def
  connection_error_reader_impl_def connection_error_builder_impl_def
  connection_details_reader_impl_def connection_details_builder_impl_def
  tunnel_auth_reader_impl_def tunnel_auth_builder_impl_def
  register_connection_params_reader_impl_def register_connection_params_builder_impl_def
  register_connection_results_reader_impl_def register_connection_results_builder_impl_def
  unregister_connection_params_reader_impl_def unregister_connection_params_builder_impl_def
  unregister_connection_results_reader_impl_def unregister_connection_results_builder_impl_def
  update_local_configuration_params_reader_impl_def update_local_configuration_params_builder_impl_def
  update_local_configuration_results_reader_impl_def update_local_configuration_results_builder_impl_def
  register_udp_session_response_reader_impl_def register_udp_session_response_builder_impl_def
  register_udp_session_params_reader_impl_def register_udp_session_params_builder_impl_def
  register_udp_session_results_reader_impl_def register_udp_session_results_builder_impl_def
  unregister_udp_session_params_reader_impl_def unregister_udp_session_params_builder_impl_def
  unregister_udp_session_results_reader_impl_def unregister_udp_session_results_builder_impl_def
  update_configuration_response_reader_impl_def update_configuration_response_builder_impl_def
  update_configuration_params_reader_impl_def update_configuration_params_builder_impl_def
  update_configuration_results_reader_impl_def update_configuration_results_builder_impl_def

section \<open>What they have in common\<close>

text \<open>The type id and the size in the code are those that the encoded node of the struct gives.\<close>

definition schema_reader_impl ::
  "('s, 'p) capnp \<Rightarrow> ('s, 'k) struct_library \<Rightarrow> branded_schema \<Rightarrow> ('s, 'p, 'k) reader_impl" where
  "schema_reader_impl c l b = reader_impl_of c l (node_id (encoded_node (generic b))) b"

definition schema_builder_impl ::
  "('s, 'p) capnp \<Rightarrow> ('s, 'k) struct_library \<Rightarrow> 's widening \<Rightarrow> branded_schema \<Rightarrow> ('s, 'p, 'k) builder_impl" where
  "schema_builder_impl c l w b =
     builder_impl_of c l w (node_id (encoded_node (generic b))) (node_struct_size (encoded_node (generic b))) b"

lemma impls_instances:
  "all_reader_impls c l = map (\<lambda>(tid, sz, b). reader_impl_of c l tid b) all_structs"
  "all_builder_impls c l w = map (\<lambda>(tid, sz, b). builder_impl_of c l w tid sz b) all_structs"
  by (simp_all only: all_reader_impls_def all_builder_impls_def all_structs_def impl_defs list.map prod.case)

lemma impls_follow_schema:
  "all_reader_impls c l = map (\<lambda>(tid, sz, b). schema_reader_impl c l b) all_structs"
  "all_builder_impls c l w = map (\<lambda>(tid, sz, b). schema_builder_impl c l w b) all_structs"
  using structs_sound
  by (auto simp: impls_instances schema_reader_impl_def schema_builder_impl_def list_all_iff struct_sound_def)

text \<open>
  A copy reads like the original: the same bits in every field, the same pointers, though a canonical copy
  may have smaller sections.
\<close>

definition faithful_copies :: "('s, 'p) capnp \<Rightarrow> ('s, 'k) struct_library \<Rightarrow> bool" where
  "faithful_copies c l \<longleftrightarrow>
     (\<forall>canonicalize s t. struct_copy l canonicalize s = Inr t \<longrightarrow>
        (\<forall>n i. get_field c n i t = get_field c n i s) \<and> (\<forall>k. get_ptr c k t = get_ptr c k s))"

lemma get_decl_copy:
  assumes "\<forall>n i. get_field c n i t = get_field c n i s" and "\<forall>k. get_ptr c k t = get_ptr c k s"
    and "fd_offset d \<noteq> None"
  shows "get_decl c d t = get_decl c d s"
proof -
  have "value_at c dflt ty i t = value_at c dflt ty i s" for dflt ty i
    by (rule value_at_cong) (simp_all add: assms)
  then show ?thesis using assms(3) by (auto simp: get_decl_def)
qed

text \<open>
  Setting a struct into another message and reading it back: the reader gives every declared slot the
  value it had, and the dynamic value that debugging shows carries the schema that declares them.
\<close>

theorem struct_set_read_back:
  assumes "capnp_api c" and "faithful_copies c l" and "(tid, sz, b) \<in> set all_structs"
    and "bi_set_pointer (builder_impl_of c l w tid sz b) r canonicalize = Inr q"
  shows "\<exists>r'. ri_get_from_pointer (reader_impl_of c l tid b) dflt q = Inr r'
    \<and> ri_dynamic (reader_impl_of c l tid b) r' = DynamicStruct b (reader_view r')
    \<and> node_id (encoded_node (generic b)) = ri_type_id (reader_impl_of c l tid b)
    \<and> (\<forall>d \<in> set (field_decls (encoded_node (generic b))).
         fd_offset d \<noteq> None \<longrightarrow> get_decl c d (reader_view r') = get_decl c d (reader_view r))"
proof -
  from assms(4) obtain t where t: "struct_copy l canonicalize (reader_view r) = Inr t" "q = struct_ptr c t"
    by (cases "struct_copy l canonicalize (reader_view r)") (auto simp: builder_impl_of_def)
  have "get_struct_reader c l dflt q = Inr t"
    by (simp add: get_struct_reader_def t(2) capnp_api.struct_back [OF assms(1)] capnp_api.struct_present [OF assms(1)] split: option.splits)
  moreover have "get_decl c d t = get_decl c d (reader_view r)" if "fd_offset d \<noteq> None" for d
    using assms(2) t(1) that by (intro get_decl_copy) (auto simp: faithful_copies_def)
  moreover have "node_id (encoded_node (generic b)) = tid"
    using assms(3) structs_sound by (auto simp: list_all_iff struct_sound_def)
  ultimately show ?thesis by (simp add: reader_impl_of_def)
qed

end
