(* ===== verification/Builder_Accessors.thy ===== *)
theory Builder_Accessors
  imports Schema_Accessors Struct_Impls
begin

text \<open>
  The getters and \<open>has_\<close> tests of the builders in rows, as \<open>Schema_Accessors\<close> has those of the readers, and
  the rows that a struct's encoded schema gives. With them, all of the generated code follows the schema.
\<close>

record 's builder_rows =
  scalars :: "(string \<times> 's dyn_value option) list"
  edits :: "(string \<times> (string + 's)) list"
  present :: "(string \<times> bool) list"

text \<open>What the builder of a field does to its pointer, for a caller that makes the changes in \<open>a\<close>.\<close>

fun edit_typed ::
  "('s, 'p) capnp \<Rightarrow> 's widening \<Rightarrow> 's accessor_args \<Rightarrow> string option \<Rightarrow> introspect_type \<Rightarrow> 'p \<Rightarrow> string + 'p" where
  "edit_typed c w a dflt TyText =
     (case dflt of None \<Rightarrow> edit_text c (i_bytes a) | Some d \<Rightarrow> edit_text_or c d (i_bytes a))"
| "edit_typed c w a dflt TyData = edit_data c (i_bytes a)"
| "edit_typed c w a dflt (TyStruct t) = edit_struct c w (size_of_struct t) (i_struct a)"
| "edit_typed c w a dflt (TyList t) =
     (case t of
        TyStruct e \<Rightarrow> edit_structs c w (size_of_struct e) (i_structs a)
      | _ \<Rightarrow> edit_texts c (i_texts a))"
| "edit_typed c w a dflt _ = Inr"

definition edit_decl ::
  "('s, 'p) capnp \<Rightarrow> 's widening \<Rightarrow> 's accessor_args \<Rightarrow> field_decl \<Rightarrow> 's \<Rightarrow> string + 's" where
  "edit_decl c w a d = with_pointer c (the (fd_offset d)) (edit_typed c w a (fd_default d) (the (fd_type d)))"

definition schema_builders ::
  "('s, 'p) capnp \<Rightarrow> 's widening \<Rightarrow> branded_schema \<Rightarrow> 's accessor_args \<Rightarrow> 's \<Rightarrow> 's builder_rows" where
  "schema_builders c w b a s =
     (let ds = filter (\<lambda>d. \<not> in_union d \<and> fd_offset d \<noteq> None) (field_decls (encoded_node (generic b))) in
      \<lparr>scalars = map (\<lambda>d. (fd_name d, get_decl c d s)) (filter (\<lambda>d. \<not> is_pointer d) ds),
       edits = map (\<lambda>d. (fd_name d, edit_decl c w a d s)) (filter is_pointer ds),
       present = map (\<lambda>d. (fd_name d, decl_present c d s)) (filter is_pointer ds)\<rparr>)"

lemmas builders_by_schema_simps =
  schema_builders_def Let_def get_decl_def edit_decl_def decl_present_def is_pointer_def in_union_def
  with_slot_def all_nodes connection_type_TYPE_ID_def enum_raw_try_from default_trace_context sizes_of_structs


definition connect_request_builders :: "('s, 'p) capnp \<Rightarrow> 's widening \<Rightarrow> 's accessor_args \<Rightarrow> 's \<Rightarrow> 's builder_rows" where
  "connect_request_builders c w a s =
     \<lparr>scalars =
        [(''type'', Some (DynEnum (enum_raw connection_type_into (connect_request_builder_get_type c s))))],
      edits =
        [(''dest'', connect_request_builder_get_dest c (i_bytes a) s),
         (''metadata'', connect_request_builder_get_metadata c w (i_structs a) s)],
      present =
        [(''dest'', connect_request_builder_has_dest c s),
         (''metadata'', connect_request_builder_has_metadata c s)]\<rparr>"

lemma connect_request_builders_by_schema: "connect_request_builders c w a s = schema_builders c w connect_request_introspect a s"
  by (simp add: builders_by_schema_simps connect_request_builders_def connect_request_introspect_def connect_request_RAW_SCHEMA_def connect_request_decls
      connect_request_builder_get_dest_def connect_request_builder_has_dest_def
      connect_request_builder_get_type_def connect_request_builder_get_metadata_def
      connect_request_builder_has_metadata_def)

definition metadata_builders :: "('s, 'p) capnp \<Rightarrow> 's widening \<Rightarrow> 's accessor_args \<Rightarrow> 's \<Rightarrow> 's builder_rows" where
  "metadata_builders c w a s =
     \<lparr>scalars =
        [],
      edits =
        [(''key'', metadata_builder_get_key c (i_bytes a) s),
         (''val'', metadata_builder_get_val c (i_bytes a) s)],
      present =
        [(''key'', metadata_builder_has_key c s),
         (''val'', metadata_builder_has_val c s)]\<rparr>"

lemma metadata_builders_by_schema: "metadata_builders c w a s = schema_builders c w metadata_introspect a s"
  by (simp add: builders_by_schema_simps metadata_builders_def metadata_introspect_def metadata_RAW_SCHEMA_def metadata_decls
      metadata_builder_get_key_def metadata_builder_has_key_def metadata_builder_get_val_def
      metadata_builder_has_val_def)

definition connect_response_builders :: "('s, 'p) capnp \<Rightarrow> 's widening \<Rightarrow> 's accessor_args \<Rightarrow> 's \<Rightarrow> 's builder_rows" where
  "connect_response_builders c w a s =
     \<lparr>scalars =
        [],
      edits =
        [(''error'', connect_response_builder_get_error c (i_bytes a) s),
         (''metadata'', connect_response_builder_get_metadata c w (i_structs a) s)],
      present =
        [(''error'', connect_response_builder_has_error c s),
         (''metadata'', connect_response_builder_has_metadata c s)]\<rparr>"

lemma connect_response_builders_by_schema: "connect_response_builders c w a s = schema_builders c w connect_response_introspect a s"
  by (simp add: builders_by_schema_simps connect_response_builders_def connect_response_introspect_def connect_response_RAW_SCHEMA_def connect_response_decls
      connect_response_builder_get_error_def connect_response_builder_has_error_def
      connect_response_builder_get_metadata_def connect_response_builder_has_metadata_def)

definition authentication_builders :: "('s, 'p) capnp \<Rightarrow> 's widening \<Rightarrow> 's accessor_args \<Rightarrow> 's \<Rightarrow> 's builder_rows" where
  "authentication_builders c w a s =
     \<lparr>scalars =
        [],
      edits =
        [(''key'', authentication_builder_get_key c (i_bytes a) s),
         (''email'', authentication_builder_get_email c (i_bytes a) s),
         (''originCAKey'', authentication_builder_get_origin_c_a_key c (i_bytes a) s)],
      present =
        [(''key'', authentication_builder_has_key c s),
         (''email'', authentication_builder_has_email c s),
         (''originCAKey'', authentication_builder_has_origin_c_a_key c s)]\<rparr>"

lemma authentication_builders_by_schema: "authentication_builders c w a s = schema_builders c w authentication_introspect a s"
  by (simp add: builders_by_schema_simps authentication_builders_def authentication_introspect_def authentication_RAW_SCHEMA_def authentication_decls
      authentication_builder_get_key_def authentication_builder_has_key_def
      authentication_builder_get_email_def authentication_builder_has_email_def
      authentication_builder_get_origin_c_a_key_def authentication_builder_has_origin_c_a_key_def)

definition tunnel_registration_builders :: "('s, 'p) capnp \<Rightarrow> 's widening \<Rightarrow> 's accessor_args \<Rightarrow> 's \<Rightarrow> 's builder_rows" where
  "tunnel_registration_builders c w a s =
     \<lparr>scalars =
        [(''permanentFailure'', Some (DynBool (tunnel_registration_builder_get_permanent_failure c s))),
         (''retryAfterSeconds'', Some (DynUInt16 (tunnel_registration_builder_get_retry_after_seconds c s)))],
      edits =
        [(''err'', tunnel_registration_builder_get_err c (i_bytes a) s),
         (''url'', tunnel_registration_builder_get_url c (i_bytes a) s),
         (''logLines'', tunnel_registration_builder_get_log_lines c (i_texts a) s),
         (''tunnelID'', tunnel_registration_builder_get_tunnel_i_d c (i_bytes a) s),
         (''eventDigest'', tunnel_registration_builder_get_event_digest c (i_bytes a) s),
         (''connDigest'', tunnel_registration_builder_get_conn_digest c (i_bytes a) s)],
      present =
        [(''err'', tunnel_registration_builder_has_err c s),
         (''url'', tunnel_registration_builder_has_url c s),
         (''logLines'', tunnel_registration_builder_has_log_lines c s),
         (''tunnelID'', tunnel_registration_builder_has_tunnel_i_d c s),
         (''eventDigest'', tunnel_registration_builder_has_event_digest c s),
         (''connDigest'', tunnel_registration_builder_has_conn_digest c s)]\<rparr>"

lemma tunnel_registration_builders_by_schema: "tunnel_registration_builders c w a s = schema_builders c w tunnel_registration_introspect a s"
  by (simp add: builders_by_schema_simps tunnel_registration_builders_def tunnel_registration_introspect_def tunnel_registration_RAW_SCHEMA_def tunnel_registration_decls
      tunnel_registration_builder_get_err_def tunnel_registration_builder_has_err_def
      tunnel_registration_builder_get_url_def tunnel_registration_builder_has_url_def
      tunnel_registration_builder_get_log_lines_def tunnel_registration_builder_has_log_lines_def
      tunnel_registration_builder_get_permanent_failure_def
      tunnel_registration_builder_get_tunnel_i_d_def tunnel_registration_builder_has_tunnel_i_d_def
      tunnel_registration_builder_get_retry_after_seconds_def
      tunnel_registration_builder_get_event_digest_def
      tunnel_registration_builder_has_event_digest_def
      tunnel_registration_builder_get_conn_digest_def
      tunnel_registration_builder_has_conn_digest_def)

definition registration_options_builders :: "('s, 'p) capnp \<Rightarrow> 's widening \<Rightarrow> 's accessor_args \<Rightarrow> 's \<Rightarrow> 's builder_rows" where
  "registration_options_builders c w a s =
     \<lparr>scalars =
        [(''existingTunnelPolicy'', Some (DynEnum (enum_raw existing_tunnel_policy_into (registration_options_builder_get_existing_tunnel_policy c s)))),
         (''connectionId'', Some (DynUInt8 (registration_options_builder_get_connection_id c s))),
         (''isAutoupdated'', Some (DynBool (registration_options_builder_get_is_autoupdated c s))),
         (''runFromTerminal'', Some (DynBool (registration_options_builder_get_run_from_terminal c s))),
         (''compressionQuality'', Some (DynUInt64 (registration_options_builder_get_compression_quality c s))),
         (''numPreviousAttempts'', Some (DynUInt8 (registration_options_builder_get_num_previous_attempts c s)))],
      edits =
        [(''clientId'', registration_options_builder_get_client_id c (i_bytes a) s),
         (''version'', registration_options_builder_get_version c (i_bytes a) s),
         (''os'', registration_options_builder_get_os c (i_bytes a) s),
         (''poolName'', registration_options_builder_get_pool_name c (i_bytes a) s),
         (''tags'', registration_options_builder_get_tags c w (i_structs a) s),
         (''originLocalIp'', registration_options_builder_get_origin_local_ip c (i_bytes a) s),
         (''uuid'', registration_options_builder_get_uuid c (i_bytes a) s),
         (''features'', registration_options_builder_get_features c (i_texts a) s)],
      present =
        [(''clientId'', registration_options_builder_has_client_id c s),
         (''version'', registration_options_builder_has_version c s),
         (''os'', registration_options_builder_has_os c s),
         (''poolName'', registration_options_builder_has_pool_name c s),
         (''tags'', registration_options_builder_has_tags c s),
         (''originLocalIp'', registration_options_builder_has_origin_local_ip c s),
         (''uuid'', registration_options_builder_has_uuid c s),
         (''features'', registration_options_builder_has_features c s)]\<rparr>"

lemma registration_options_builders_by_schema: "registration_options_builders c w a s = schema_builders c w registration_options_introspect a s"
  by (simp add: builders_by_schema_simps registration_options_builders_def registration_options_introspect_def registration_options_RAW_SCHEMA_def registration_options_decls
      registration_options_builder_get_client_id_def registration_options_builder_has_client_id_def
      registration_options_builder_get_version_def registration_options_builder_has_version_def
      registration_options_builder_get_os_def registration_options_builder_has_os_def
      registration_options_builder_get_existing_tunnel_policy_def
      registration_options_builder_get_pool_name_def registration_options_builder_has_pool_name_def
      registration_options_builder_get_tags_def registration_options_builder_has_tags_def
      registration_options_builder_get_connection_id_def
      registration_options_builder_get_origin_local_ip_def
      registration_options_builder_has_origin_local_ip_def
      registration_options_builder_get_is_autoupdated_def
      registration_options_builder_get_run_from_terminal_def
      registration_options_builder_get_compression_quality_def
      registration_options_builder_get_uuid_def registration_options_builder_has_uuid_def
      registration_options_builder_get_num_previous_attempts_def
      registration_options_builder_get_features_def registration_options_builder_has_features_def)

definition server_info_builders :: "('s, 'p) capnp \<Rightarrow> 's widening \<Rightarrow> 's accessor_args \<Rightarrow> 's \<Rightarrow> 's builder_rows" where
  "server_info_builders c w a s =
     \<lparr>scalars =
        [],
      edits =
        [(''locationName'', server_info_builder_get_location_name c (i_bytes a) s)],
      present =
        [(''locationName'', server_info_builder_has_location_name c s)]\<rparr>"

lemma server_info_builders_by_schema: "server_info_builders c w a s = schema_builders c w server_info_introspect a s"
  by (simp add: builders_by_schema_simps server_info_builders_def server_info_introspect_def server_info_RAW_SCHEMA_def server_info_decls
      server_info_builder_get_location_name_def server_info_builder_has_location_name_def)

definition authenticate_response_builders :: "('s, 'p) capnp \<Rightarrow> 's widening \<Rightarrow> 's accessor_args \<Rightarrow> 's \<Rightarrow> 's builder_rows" where
  "authenticate_response_builders c w a s =
     \<lparr>scalars =
        [(''hoursUntilRefresh'', Some (DynUInt8 (authenticate_response_builder_get_hours_until_refresh c s)))],
      edits =
        [(''permanentErr'', authenticate_response_builder_get_permanent_err c (i_bytes a) s),
         (''retryableErr'', authenticate_response_builder_get_retryable_err c (i_bytes a) s),
         (''jwt'', authenticate_response_builder_get_jwt c (i_bytes a) s)],
      present =
        [(''permanentErr'', authenticate_response_builder_has_permanent_err c s),
         (''retryableErr'', authenticate_response_builder_has_retryable_err c s),
         (''jwt'', authenticate_response_builder_has_jwt c s)]\<rparr>"

lemma authenticate_response_builders_by_schema: "authenticate_response_builders c w a s = schema_builders c w authenticate_response_introspect a s"
  by (simp add: builders_by_schema_simps authenticate_response_builders_def authenticate_response_introspect_def authenticate_response_RAW_SCHEMA_def authenticate_response_decls
      authenticate_response_builder_get_permanent_err_def
      authenticate_response_builder_has_permanent_err_def
      authenticate_response_builder_get_retryable_err_def
      authenticate_response_builder_has_retryable_err_def authenticate_response_builder_get_jwt_def
      authenticate_response_builder_has_jwt_def
      authenticate_response_builder_get_hours_until_refresh_def)

definition register_tunnel_params_builders :: "('s, 'p) capnp \<Rightarrow> 's widening \<Rightarrow> 's accessor_args \<Rightarrow> 's \<Rightarrow> 's builder_rows" where
  "register_tunnel_params_builders c w a s =
     \<lparr>scalars =
        [],
      edits =
        [(''originCert'', register_tunnel_params_builder_get_origin_cert c (i_bytes a) s),
         (''hostname'', register_tunnel_params_builder_get_hostname c (i_bytes a) s),
         (''options'', register_tunnel_params_builder_get_options c w (i_struct a) s)],
      present =
        [(''originCert'', register_tunnel_params_builder_has_origin_cert c s),
         (''hostname'', register_tunnel_params_builder_has_hostname c s),
         (''options'', register_tunnel_params_builder_has_options c s)]\<rparr>"

lemma register_tunnel_params_builders_by_schema: "register_tunnel_params_builders c w a s = schema_builders c w register_tunnel_params_introspect a s"
  by (simp add: builders_by_schema_simps register_tunnel_params_builders_def register_tunnel_params_introspect_def register_tunnel_params_RAW_SCHEMA_def register_tunnel_params_decls
      register_tunnel_params_builder_get_origin_cert_def
      register_tunnel_params_builder_has_origin_cert_def
      register_tunnel_params_builder_get_hostname_def
      register_tunnel_params_builder_has_hostname_def
      register_tunnel_params_builder_get_options_def registration_options_get_from_pointer_def
      register_tunnel_params_builder_has_options_def)

definition register_tunnel_results_builders :: "('s, 'p) capnp \<Rightarrow> 's widening \<Rightarrow> 's accessor_args \<Rightarrow> 's \<Rightarrow> 's builder_rows" where
  "register_tunnel_results_builders c w a s =
     \<lparr>scalars =
        [],
      edits =
        [(''result'', register_tunnel_results_builder_get_result c w (i_struct a) s)],
      present =
        [(''result'', register_tunnel_results_builder_has_result c s)]\<rparr>"

lemma register_tunnel_results_builders_by_schema: "register_tunnel_results_builders c w a s = schema_builders c w register_tunnel_results_introspect a s"
  by (simp add: builders_by_schema_simps register_tunnel_results_builders_def register_tunnel_results_introspect_def register_tunnel_results_RAW_SCHEMA_def register_tunnel_results_decls
      register_tunnel_results_builder_get_result_def tunnel_registration_get_from_pointer_def
      register_tunnel_results_builder_has_result_def)

definition get_server_info_params_builders :: "('s, 'p) capnp \<Rightarrow> 's widening \<Rightarrow> 's accessor_args \<Rightarrow> 's \<Rightarrow> 's builder_rows" where
  "get_server_info_params_builders c w a s =
     \<lparr>scalars =
        [],
      edits =
        [],
      present =
        []\<rparr>"

lemma get_server_info_params_builders_by_schema: "get_server_info_params_builders c w a s = schema_builders c w get_server_info_params_introspect a s"
  by (simp add: builders_by_schema_simps get_server_info_params_builders_def get_server_info_params_introspect_def get_server_info_params_RAW_SCHEMA_def get_server_info_params_decls)

definition get_server_info_results_builders :: "('s, 'p) capnp \<Rightarrow> 's widening \<Rightarrow> 's accessor_args \<Rightarrow> 's \<Rightarrow> 's builder_rows" where
  "get_server_info_results_builders c w a s =
     \<lparr>scalars =
        [],
      edits =
        [(''result'', get_server_info_results_builder_get_result c w (i_struct a) s)],
      present =
        [(''result'', get_server_info_results_builder_has_result c s)]\<rparr>"

lemma get_server_info_results_builders_by_schema: "get_server_info_results_builders c w a s = schema_builders c w get_server_info_results_introspect a s"
  by (simp add: builders_by_schema_simps get_server_info_results_builders_def get_server_info_results_introspect_def get_server_info_results_RAW_SCHEMA_def get_server_info_results_decls
      get_server_info_results_builder_get_result_def server_info_get_from_pointer_def
      get_server_info_results_builder_has_result_def)

definition unregister_tunnel_params_builders :: "('s, 'p) capnp \<Rightarrow> 's widening \<Rightarrow> 's accessor_args \<Rightarrow> 's \<Rightarrow> 's builder_rows" where
  "unregister_tunnel_params_builders c w a s =
     \<lparr>scalars =
        [(''gracePeriodNanoSec'', Some (DynInt64 (unregister_tunnel_params_builder_get_grace_period_nano_sec c s)))],
      edits =
        [],
      present =
        []\<rparr>"

lemma unregister_tunnel_params_builders_by_schema: "unregister_tunnel_params_builders c w a s = schema_builders c w unregister_tunnel_params_introspect a s"
  by (simp add: builders_by_schema_simps unregister_tunnel_params_builders_def unregister_tunnel_params_introspect_def unregister_tunnel_params_RAW_SCHEMA_def unregister_tunnel_params_decls
      unregister_tunnel_params_builder_get_grace_period_nano_sec_def)

definition unregister_tunnel_results_builders :: "('s, 'p) capnp \<Rightarrow> 's widening \<Rightarrow> 's accessor_args \<Rightarrow> 's \<Rightarrow> 's builder_rows" where
  "unregister_tunnel_results_builders c w a s =
     \<lparr>scalars =
        [],
      edits =
        [],
      present =
        []\<rparr>"

lemma unregister_tunnel_results_builders_by_schema: "unregister_tunnel_results_builders c w a s = schema_builders c w unregister_tunnel_results_introspect a s"
  by (simp add: builders_by_schema_simps unregister_tunnel_results_builders_def unregister_tunnel_results_introspect_def unregister_tunnel_results_RAW_SCHEMA_def unregister_tunnel_results_decls)

definition obsolete_declarative_tunnel_connect_params_builders :: "('s, 'p) capnp \<Rightarrow> 's widening \<Rightarrow> 's accessor_args \<Rightarrow> 's \<Rightarrow> 's builder_rows" where
  "obsolete_declarative_tunnel_connect_params_builders c w a s =
     \<lparr>scalars =
        [],
      edits =
        [],
      present =
        []\<rparr>"

lemma obsolete_declarative_tunnel_connect_params_builders_by_schema: "obsolete_declarative_tunnel_connect_params_builders c w a s = schema_builders c w obsolete_declarative_tunnel_connect_params_introspect a s"
  by (simp add: builders_by_schema_simps obsolete_declarative_tunnel_connect_params_builders_def obsolete_declarative_tunnel_connect_params_introspect_def obsolete_declarative_tunnel_connect_params_RAW_SCHEMA_def obsolete_declarative_tunnel_connect_params_decls)

definition obsolete_declarative_tunnel_connect_results_builders :: "('s, 'p) capnp \<Rightarrow> 's widening \<Rightarrow> 's accessor_args \<Rightarrow> 's \<Rightarrow> 's builder_rows" where
  "obsolete_declarative_tunnel_connect_results_builders c w a s =
     \<lparr>scalars =
        [],
      edits =
        [],
      present =
        []\<rparr>"

lemma obsolete_declarative_tunnel_connect_results_builders_by_schema: "obsolete_declarative_tunnel_connect_results_builders c w a s = schema_builders c w obsolete_declarative_tunnel_connect_results_introspect a s"
  by (simp add: builders_by_schema_simps obsolete_declarative_tunnel_connect_results_builders_def obsolete_declarative_tunnel_connect_results_introspect_def obsolete_declarative_tunnel_connect_results_RAW_SCHEMA_def obsolete_declarative_tunnel_connect_results_decls)

definition authenticate_params_builders :: "('s, 'p) capnp \<Rightarrow> 's widening \<Rightarrow> 's accessor_args \<Rightarrow> 's \<Rightarrow> 's builder_rows" where
  "authenticate_params_builders c w a s =
     \<lparr>scalars =
        [],
      edits =
        [(''originCert'', authenticate_params_builder_get_origin_cert c (i_bytes a) s),
         (''hostname'', authenticate_params_builder_get_hostname c (i_bytes a) s),
         (''options'', authenticate_params_builder_get_options c w (i_struct a) s)],
      present =
        [(''originCert'', authenticate_params_builder_has_origin_cert c s),
         (''hostname'', authenticate_params_builder_has_hostname c s),
         (''options'', authenticate_params_builder_has_options c s)]\<rparr>"

lemma authenticate_params_builders_by_schema: "authenticate_params_builders c w a s = schema_builders c w authenticate_params_introspect a s"
  by (simp add: builders_by_schema_simps authenticate_params_builders_def authenticate_params_introspect_def authenticate_params_RAW_SCHEMA_def authenticate_params_decls
      authenticate_params_builder_get_origin_cert_def
      authenticate_params_builder_has_origin_cert_def authenticate_params_builder_get_hostname_def
      authenticate_params_builder_has_hostname_def authenticate_params_builder_get_options_def
      registration_options_get_from_pointer_def authenticate_params_builder_has_options_def)

definition authenticate_results_builders :: "('s, 'p) capnp \<Rightarrow> 's widening \<Rightarrow> 's accessor_args \<Rightarrow> 's \<Rightarrow> 's builder_rows" where
  "authenticate_results_builders c w a s =
     \<lparr>scalars =
        [],
      edits =
        [(''result'', authenticate_results_builder_get_result c w (i_struct a) s)],
      present =
        [(''result'', authenticate_results_builder_has_result c s)]\<rparr>"

lemma authenticate_results_builders_by_schema: "authenticate_results_builders c w a s = schema_builders c w authenticate_results_introspect a s"
  by (simp add: builders_by_schema_simps authenticate_results_builders_def authenticate_results_introspect_def authenticate_results_RAW_SCHEMA_def authenticate_results_decls
      authenticate_results_builder_get_result_def authenticate_response_get_from_pointer_def
      authenticate_results_builder_has_result_def)

definition reconnect_tunnel_params_builders :: "('s, 'p) capnp \<Rightarrow> 's widening \<Rightarrow> 's accessor_args \<Rightarrow> 's \<Rightarrow> 's builder_rows" where
  "reconnect_tunnel_params_builders c w a s =
     \<lparr>scalars =
        [],
      edits =
        [(''jwt'', reconnect_tunnel_params_builder_get_jwt c (i_bytes a) s),
         (''eventDigest'', reconnect_tunnel_params_builder_get_event_digest c (i_bytes a) s),
         (''connDigest'', reconnect_tunnel_params_builder_get_conn_digest c (i_bytes a) s),
         (''hostname'', reconnect_tunnel_params_builder_get_hostname c (i_bytes a) s),
         (''options'', reconnect_tunnel_params_builder_get_options c w (i_struct a) s)],
      present =
        [(''jwt'', reconnect_tunnel_params_builder_has_jwt c s),
         (''eventDigest'', reconnect_tunnel_params_builder_has_event_digest c s),
         (''connDigest'', reconnect_tunnel_params_builder_has_conn_digest c s),
         (''hostname'', reconnect_tunnel_params_builder_has_hostname c s),
         (''options'', reconnect_tunnel_params_builder_has_options c s)]\<rparr>"

lemma reconnect_tunnel_params_builders_by_schema: "reconnect_tunnel_params_builders c w a s = schema_builders c w reconnect_tunnel_params_introspect a s"
  by (simp add: builders_by_schema_simps reconnect_tunnel_params_builders_def reconnect_tunnel_params_introspect_def reconnect_tunnel_params_RAW_SCHEMA_def reconnect_tunnel_params_decls
      reconnect_tunnel_params_builder_get_jwt_def reconnect_tunnel_params_builder_has_jwt_def
      reconnect_tunnel_params_builder_get_event_digest_def
      reconnect_tunnel_params_builder_has_event_digest_def
      reconnect_tunnel_params_builder_get_conn_digest_def
      reconnect_tunnel_params_builder_has_conn_digest_def
      reconnect_tunnel_params_builder_get_hostname_def
      reconnect_tunnel_params_builder_has_hostname_def
      reconnect_tunnel_params_builder_get_options_def registration_options_get_from_pointer_def
      reconnect_tunnel_params_builder_has_options_def)

definition reconnect_tunnel_results_builders :: "('s, 'p) capnp \<Rightarrow> 's widening \<Rightarrow> 's accessor_args \<Rightarrow> 's \<Rightarrow> 's builder_rows" where
  "reconnect_tunnel_results_builders c w a s =
     \<lparr>scalars =
        [],
      edits =
        [(''result'', reconnect_tunnel_results_builder_get_result c w (i_struct a) s)],
      present =
        [(''result'', reconnect_tunnel_results_builder_has_result c s)]\<rparr>"

lemma reconnect_tunnel_results_builders_by_schema: "reconnect_tunnel_results_builders c w a s = schema_builders c w reconnect_tunnel_results_introspect a s"
  by (simp add: builders_by_schema_simps reconnect_tunnel_results_builders_def reconnect_tunnel_results_introspect_def reconnect_tunnel_results_RAW_SCHEMA_def reconnect_tunnel_results_decls
      reconnect_tunnel_results_builder_get_result_def tunnel_registration_get_from_pointer_def
      reconnect_tunnel_results_builder_has_result_def)

definition tag_builders :: "('s, 'p) capnp \<Rightarrow> 's widening \<Rightarrow> 's accessor_args \<Rightarrow> 's \<Rightarrow> 's builder_rows" where
  "tag_builders c w a s =
     \<lparr>scalars =
        [],
      edits =
        [(''name'', tag_builder_get_name c (i_bytes a) s),
         (''value'', tag_builder_get_value c (i_bytes a) s)],
      present =
        [(''name'', tag_builder_has_name c s),
         (''value'', tag_builder_has_value c s)]\<rparr>"

lemma tag_builders_by_schema: "tag_builders c w a s = schema_builders c w tag_introspect a s"
  by (simp add: builders_by_schema_simps tag_builders_def tag_introspect_def tag_RAW_SCHEMA_def tag_decls
      tag_builder_get_name_def tag_builder_has_name_def tag_builder_get_value_def
      tag_builder_has_value_def)

definition client_info_builders :: "('s, 'p) capnp \<Rightarrow> 's widening \<Rightarrow> 's accessor_args \<Rightarrow> 's \<Rightarrow> 's builder_rows" where
  "client_info_builders c w a s =
     \<lparr>scalars =
        [],
      edits =
        [(''clientId'', client_info_builder_get_client_id c (i_bytes a) s),
         (''features'', client_info_builder_get_features c (i_texts a) s),
         (''version'', client_info_builder_get_version c (i_bytes a) s),
         (''arch'', client_info_builder_get_arch c (i_bytes a) s)],
      present =
        [(''clientId'', client_info_builder_has_client_id c s),
         (''features'', client_info_builder_has_features c s),
         (''version'', client_info_builder_has_version c s),
         (''arch'', client_info_builder_has_arch c s)]\<rparr>"

lemma client_info_builders_by_schema: "client_info_builders c w a s = schema_builders c w client_info_introspect a s"
  by (simp add: builders_by_schema_simps client_info_builders_def client_info_introspect_def client_info_RAW_SCHEMA_def client_info_decls
      client_info_builder_get_client_id_def client_info_builder_has_client_id_def
      client_info_builder_get_features_def client_info_builder_has_features_def
      client_info_builder_get_version_def client_info_builder_has_version_def
      client_info_builder_get_arch_def client_info_builder_has_arch_def)

definition connection_options_builders :: "('s, 'p) capnp \<Rightarrow> 's widening \<Rightarrow> 's accessor_args \<Rightarrow> 's \<Rightarrow> 's builder_rows" where
  "connection_options_builders c w a s =
     \<lparr>scalars =
        [(''replaceExisting'', Some (DynBool (connection_options_builder_get_replace_existing c s))),
         (''compressionQuality'', Some (DynUInt8 (connection_options_builder_get_compression_quality c s))),
         (''numPreviousAttempts'', Some (DynUInt8 (connection_options_builder_get_num_previous_attempts c s)))],
      edits =
        [(''client'', connection_options_builder_get_client c w (i_struct a) s),
         (''originLocalIp'', connection_options_builder_get_origin_local_ip c (i_bytes a) s)],
      present =
        [(''client'', connection_options_builder_has_client c s),
         (''originLocalIp'', connection_options_builder_has_origin_local_ip c s)]\<rparr>"

lemma connection_options_builders_by_schema: "connection_options_builders c w a s = schema_builders c w connection_options_introspect a s"
  by (simp add: builders_by_schema_simps connection_options_builders_def connection_options_introspect_def connection_options_RAW_SCHEMA_def connection_options_decls
      connection_options_builder_get_client_def client_info_get_from_pointer_def
      connection_options_builder_has_client_def connection_options_builder_get_origin_local_ip_def
      connection_options_builder_has_origin_local_ip_def
      connection_options_builder_get_replace_existing_def
      connection_options_builder_get_compression_quality_def
      connection_options_builder_get_num_previous_attempts_def)

definition connection_response_builders :: "('s, 'p) capnp \<Rightarrow> 's widening \<Rightarrow> 's accessor_args \<Rightarrow> 's \<Rightarrow> 's builder_rows" where
  "connection_response_builders c w a s =
     \<lparr>scalars =
        [],
      edits =
        [],
      present =
        []\<rparr>"

lemma connection_response_builders_by_schema: "connection_response_builders c w a s = schema_builders c w connection_response_introspect a s"
  by (simp add: builders_by_schema_simps connection_response_builders_def connection_response_introspect_def connection_response_RAW_SCHEMA_def connection_response_decls)

definition response_result_builders :: "('s, 'p) capnp \<Rightarrow> 's widening \<Rightarrow> 's accessor_args \<Rightarrow> 's \<Rightarrow> 's builder_rows" where
  "response_result_builders c w a s =
     \<lparr>scalars =
        [],
      edits =
        [],
      present =
        []\<rparr>"

lemma response_result_builders_by_schema: "response_result_builders c w a s = schema_builders c w response_result_introspect a s"
  by (simp add: builders_by_schema_simps response_result_builders_def response_result_introspect_def response_result_RAW_SCHEMA_def response_result_decls)

definition connection_error_builders :: "('s, 'p) capnp \<Rightarrow> 's widening \<Rightarrow> 's accessor_args \<Rightarrow> 's \<Rightarrow> 's builder_rows" where
  "connection_error_builders c w a s =
     \<lparr>scalars =
        [(''retryAfter'', Some (DynInt64 (connection_error_builder_get_retry_after c s))),
         (''shouldRetry'', Some (DynBool (connection_error_builder_get_should_retry c s)))],
      edits =
        [(''cause'', connection_error_builder_get_cause c (i_bytes a) s)],
      present =
        [(''cause'', connection_error_builder_has_cause c s)]\<rparr>"

lemma connection_error_builders_by_schema: "connection_error_builders c w a s = schema_builders c w connection_error_introspect a s"
  by (simp add: builders_by_schema_simps connection_error_builders_def connection_error_introspect_def connection_error_RAW_SCHEMA_def connection_error_decls
      connection_error_builder_get_cause_def connection_error_builder_has_cause_def
      connection_error_builder_get_retry_after_def connection_error_builder_get_should_retry_def)

definition connection_details_builders :: "('s, 'p) capnp \<Rightarrow> 's widening \<Rightarrow> 's accessor_args \<Rightarrow> 's \<Rightarrow> 's builder_rows" where
  "connection_details_builders c w a s =
     \<lparr>scalars =
        [(''tunnelIsRemotelyManaged'', Some (DynBool (connection_details_builder_get_tunnel_is_remotely_managed c s)))],
      edits =
        [(''uuid'', connection_details_builder_get_uuid c (i_bytes a) s),
         (''locationName'', connection_details_builder_get_location_name c (i_bytes a) s)],
      present =
        [(''uuid'', connection_details_builder_has_uuid c s),
         (''locationName'', connection_details_builder_has_location_name c s)]\<rparr>"

lemma connection_details_builders_by_schema: "connection_details_builders c w a s = schema_builders c w connection_details_introspect a s"
  by (simp add: builders_by_schema_simps connection_details_builders_def connection_details_introspect_def connection_details_RAW_SCHEMA_def connection_details_decls
      connection_details_builder_get_uuid_def connection_details_builder_has_uuid_def
      connection_details_builder_get_location_name_def
      connection_details_builder_has_location_name_def
      connection_details_builder_get_tunnel_is_remotely_managed_def)

definition tunnel_auth_builders :: "('s, 'p) capnp \<Rightarrow> 's widening \<Rightarrow> 's accessor_args \<Rightarrow> 's \<Rightarrow> 's builder_rows" where
  "tunnel_auth_builders c w a s =
     \<lparr>scalars =
        [],
      edits =
        [(''accountTag'', tunnel_auth_builder_get_account_tag c (i_bytes a) s),
         (''tunnelSecret'', tunnel_auth_builder_get_tunnel_secret c (i_bytes a) s)],
      present =
        [(''accountTag'', tunnel_auth_builder_has_account_tag c s),
         (''tunnelSecret'', tunnel_auth_builder_has_tunnel_secret c s)]\<rparr>"

lemma tunnel_auth_builders_by_schema: "tunnel_auth_builders c w a s = schema_builders c w tunnel_auth_introspect a s"
  by (simp add: builders_by_schema_simps tunnel_auth_builders_def tunnel_auth_introspect_def tunnel_auth_RAW_SCHEMA_def tunnel_auth_decls
      tunnel_auth_builder_get_account_tag_def tunnel_auth_builder_has_account_tag_def
      tunnel_auth_builder_get_tunnel_secret_def tunnel_auth_builder_has_tunnel_secret_def)

definition register_connection_params_builders :: "('s, 'p) capnp \<Rightarrow> 's widening \<Rightarrow> 's accessor_args \<Rightarrow> 's \<Rightarrow> 's builder_rows" where
  "register_connection_params_builders c w a s =
     \<lparr>scalars =
        [(''connIndex'', Some (DynUInt8 (register_connection_params_builder_get_conn_index c s)))],
      edits =
        [(''auth'', register_connection_params_builder_get_auth c w (i_struct a) s),
         (''tunnelId'', register_connection_params_builder_get_tunnel_id c (i_bytes a) s),
         (''options'', register_connection_params_builder_get_options c w (i_struct a) s)],
      present =
        [(''auth'', register_connection_params_builder_has_auth c s),
         (''tunnelId'', register_connection_params_builder_has_tunnel_id c s),
         (''options'', register_connection_params_builder_has_options c s)]\<rparr>"

lemma register_connection_params_builders_by_schema: "register_connection_params_builders c w a s = schema_builders c w register_connection_params_introspect a s"
  by (simp add: builders_by_schema_simps register_connection_params_builders_def register_connection_params_introspect_def register_connection_params_RAW_SCHEMA_def register_connection_params_decls
      register_connection_params_builder_get_auth_def tunnel_auth_get_from_pointer_def
      register_connection_params_builder_has_auth_def
      register_connection_params_builder_get_tunnel_id_def
      register_connection_params_builder_has_tunnel_id_def
      register_connection_params_builder_get_conn_index_def
      register_connection_params_builder_get_options_def connection_options_get_from_pointer_def
      register_connection_params_builder_has_options_def)

definition register_connection_results_builders :: "('s, 'p) capnp \<Rightarrow> 's widening \<Rightarrow> 's accessor_args \<Rightarrow> 's \<Rightarrow> 's builder_rows" where
  "register_connection_results_builders c w a s =
     \<lparr>scalars =
        [],
      edits =
        [(''result'', register_connection_results_builder_get_result c w (i_struct a) s)],
      present =
        [(''result'', register_connection_results_builder_has_result c s)]\<rparr>"

lemma register_connection_results_builders_by_schema: "register_connection_results_builders c w a s = schema_builders c w register_connection_results_introspect a s"
  by (simp add: builders_by_schema_simps register_connection_results_builders_def register_connection_results_introspect_def register_connection_results_RAW_SCHEMA_def register_connection_results_decls
      register_connection_results_builder_get_result_def connection_response_get_from_pointer_def
      register_connection_results_builder_has_result_def)

definition unregister_connection_params_builders :: "('s, 'p) capnp \<Rightarrow> 's widening \<Rightarrow> 's accessor_args \<Rightarrow> 's \<Rightarrow> 's builder_rows" where
  "unregister_connection_params_builders c w a s =
     \<lparr>scalars =
        [],
      edits =
        [],
      present =
        []\<rparr>"

lemma unregister_connection_params_builders_by_schema: "unregister_connection_params_builders c w a s = schema_builders c w unregister_connection_params_introspect a s"
  by (simp add: builders_by_schema_simps unregister_connection_params_builders_def unregister_connection_params_introspect_def unregister_connection_params_RAW_SCHEMA_def unregister_connection_params_decls)

definition unregister_connection_results_builders :: "('s, 'p) capnp \<Rightarrow> 's widening \<Rightarrow> 's accessor_args \<Rightarrow> 's \<Rightarrow> 's builder_rows" where
  "unregister_connection_results_builders c w a s =
     \<lparr>scalars =
        [],
      edits =
        [],
      present =
        []\<rparr>"

lemma unregister_connection_results_builders_by_schema: "unregister_connection_results_builders c w a s = schema_builders c w unregister_connection_results_introspect a s"
  by (simp add: builders_by_schema_simps unregister_connection_results_builders_def unregister_connection_results_introspect_def unregister_connection_results_RAW_SCHEMA_def unregister_connection_results_decls)

definition update_local_configuration_params_builders :: "('s, 'p) capnp \<Rightarrow> 's widening \<Rightarrow> 's accessor_args \<Rightarrow> 's \<Rightarrow> 's builder_rows" where
  "update_local_configuration_params_builders c w a s =
     \<lparr>scalars =
        [],
      edits =
        [(''config'', update_local_configuration_params_builder_get_config c (i_bytes a) s)],
      present =
        [(''config'', update_local_configuration_params_builder_has_config c s)]\<rparr>"

lemma update_local_configuration_params_builders_by_schema: "update_local_configuration_params_builders c w a s = schema_builders c w update_local_configuration_params_introspect a s"
  by (simp add: builders_by_schema_simps update_local_configuration_params_builders_def update_local_configuration_params_introspect_def update_local_configuration_params_RAW_SCHEMA_def update_local_configuration_params_decls
      update_local_configuration_params_builder_get_config_def
      update_local_configuration_params_builder_has_config_def)

definition update_local_configuration_results_builders :: "('s, 'p) capnp \<Rightarrow> 's widening \<Rightarrow> 's accessor_args \<Rightarrow> 's \<Rightarrow> 's builder_rows" where
  "update_local_configuration_results_builders c w a s =
     \<lparr>scalars =
        [],
      edits =
        [],
      present =
        []\<rparr>"

lemma update_local_configuration_results_builders_by_schema: "update_local_configuration_results_builders c w a s = schema_builders c w update_local_configuration_results_introspect a s"
  by (simp add: builders_by_schema_simps update_local_configuration_results_builders_def update_local_configuration_results_introspect_def update_local_configuration_results_RAW_SCHEMA_def update_local_configuration_results_decls)

definition register_udp_session_response_builders :: "('s, 'p) capnp \<Rightarrow> 's widening \<Rightarrow> 's accessor_args \<Rightarrow> 's \<Rightarrow> 's builder_rows" where
  "register_udp_session_response_builders c w a s =
     \<lparr>scalars =
        [],
      edits =
        [(''err'', register_udp_session_response_builder_get_err c (i_bytes a) s),
         (''spans'', register_udp_session_response_builder_get_spans c (i_bytes a) s)],
      present =
        [(''err'', register_udp_session_response_builder_has_err c s),
         (''spans'', register_udp_session_response_builder_has_spans c s)]\<rparr>"

lemma register_udp_session_response_builders_by_schema: "register_udp_session_response_builders c w a s = schema_builders c w register_udp_session_response_introspect a s"
  by (simp add: builders_by_schema_simps register_udp_session_response_builders_def register_udp_session_response_introspect_def register_udp_session_response_RAW_SCHEMA_def register_udp_session_response_decls
      register_udp_session_response_builder_get_err_def
      register_udp_session_response_builder_has_err_def
      register_udp_session_response_builder_get_spans_def
      register_udp_session_response_builder_has_spans_def)

definition register_udp_session_params_builders :: "('s, 'p) capnp \<Rightarrow> 's widening \<Rightarrow> 's accessor_args \<Rightarrow> 's \<Rightarrow> 's builder_rows" where
  "register_udp_session_params_builders c w a s =
     \<lparr>scalars =
        [(''dstPort'', Some (DynUInt16 (register_udp_session_params_builder_get_dst_port c s))),
         (''closeAfterIdleHint'', Some (DynInt64 (register_udp_session_params_builder_get_close_after_idle_hint c s)))],
      edits =
        [(''sessionId'', register_udp_session_params_builder_get_session_id c (i_bytes a) s),
         (''dstIp'', register_udp_session_params_builder_get_dst_ip c (i_bytes a) s),
         (''traceContext'', register_udp_session_params_builder_get_trace_context c (i_bytes a) s)],
      present =
        [(''sessionId'', register_udp_session_params_builder_has_session_id c s),
         (''dstIp'', register_udp_session_params_builder_has_dst_ip c s),
         (''traceContext'', register_udp_session_params_builder_has_trace_context c s)]\<rparr>"

lemma register_udp_session_params_builders_by_schema: "register_udp_session_params_builders c w a s = schema_builders c w register_udp_session_params_introspect a s"
  by (simp add: builders_by_schema_simps register_udp_session_params_builders_def register_udp_session_params_introspect_def register_udp_session_params_RAW_SCHEMA_def register_udp_session_params_decls
      register_udp_session_params_builder_get_session_id_def
      register_udp_session_params_builder_has_session_id_def
      register_udp_session_params_builder_get_dst_ip_def
      register_udp_session_params_builder_has_dst_ip_def
      register_udp_session_params_builder_get_dst_port_def
      register_udp_session_params_builder_get_close_after_idle_hint_def
      register_udp_session_params_builder_get_trace_context_def
      register_udp_session_params_builder_has_trace_context_def)

definition register_udp_session_results_builders :: "('s, 'p) capnp \<Rightarrow> 's widening \<Rightarrow> 's accessor_args \<Rightarrow> 's \<Rightarrow> 's builder_rows" where
  "register_udp_session_results_builders c w a s =
     \<lparr>scalars =
        [],
      edits =
        [(''result'', register_udp_session_results_builder_get_result c w (i_struct a) s)],
      present =
        [(''result'', register_udp_session_results_builder_has_result c s)]\<rparr>"

lemma register_udp_session_results_builders_by_schema: "register_udp_session_results_builders c w a s = schema_builders c w register_udp_session_results_introspect a s"
  by (simp add: builders_by_schema_simps register_udp_session_results_builders_def register_udp_session_results_introspect_def register_udp_session_results_RAW_SCHEMA_def register_udp_session_results_decls
      register_udp_session_results_builder_get_result_def
      register_udp_session_response_get_from_pointer_def
      register_udp_session_results_builder_has_result_def)

definition unregister_udp_session_params_builders :: "('s, 'p) capnp \<Rightarrow> 's widening \<Rightarrow> 's accessor_args \<Rightarrow> 's \<Rightarrow> 's builder_rows" where
  "unregister_udp_session_params_builders c w a s =
     \<lparr>scalars =
        [],
      edits =
        [(''sessionId'', unregister_udp_session_params_builder_get_session_id c (i_bytes a) s),
         (''message'', unregister_udp_session_params_builder_get_message c (i_bytes a) s)],
      present =
        [(''sessionId'', unregister_udp_session_params_builder_has_session_id c s),
         (''message'', unregister_udp_session_params_builder_has_message c s)]\<rparr>"

lemma unregister_udp_session_params_builders_by_schema: "unregister_udp_session_params_builders c w a s = schema_builders c w unregister_udp_session_params_introspect a s"
  by (simp add: builders_by_schema_simps unregister_udp_session_params_builders_def unregister_udp_session_params_introspect_def unregister_udp_session_params_RAW_SCHEMA_def unregister_udp_session_params_decls
      unregister_udp_session_params_builder_get_session_id_def
      unregister_udp_session_params_builder_has_session_id_def
      unregister_udp_session_params_builder_get_message_def
      unregister_udp_session_params_builder_has_message_def)

definition unregister_udp_session_results_builders :: "('s, 'p) capnp \<Rightarrow> 's widening \<Rightarrow> 's accessor_args \<Rightarrow> 's \<Rightarrow> 's builder_rows" where
  "unregister_udp_session_results_builders c w a s =
     \<lparr>scalars =
        [],
      edits =
        [],
      present =
        []\<rparr>"

lemma unregister_udp_session_results_builders_by_schema: "unregister_udp_session_results_builders c w a s = schema_builders c w unregister_udp_session_results_introspect a s"
  by (simp add: builders_by_schema_simps unregister_udp_session_results_builders_def unregister_udp_session_results_introspect_def unregister_udp_session_results_RAW_SCHEMA_def unregister_udp_session_results_decls)

definition update_configuration_response_builders :: "('s, 'p) capnp \<Rightarrow> 's widening \<Rightarrow> 's accessor_args \<Rightarrow> 's \<Rightarrow> 's builder_rows" where
  "update_configuration_response_builders c w a s =
     \<lparr>scalars =
        [(''latestAppliedVersion'', Some (DynInt32 (update_configuration_response_builder_get_latest_applied_version c s)))],
      edits =
        [(''err'', update_configuration_response_builder_get_err c (i_bytes a) s)],
      present =
        [(''err'', update_configuration_response_builder_has_err c s)]\<rparr>"

lemma update_configuration_response_builders_by_schema: "update_configuration_response_builders c w a s = schema_builders c w update_configuration_response_introspect a s"
  by (simp add: builders_by_schema_simps update_configuration_response_builders_def update_configuration_response_introspect_def update_configuration_response_RAW_SCHEMA_def update_configuration_response_decls
      update_configuration_response_builder_get_latest_applied_version_def
      update_configuration_response_builder_get_err_def
      update_configuration_response_builder_has_err_def)

definition update_configuration_params_builders :: "('s, 'p) capnp \<Rightarrow> 's widening \<Rightarrow> 's accessor_args \<Rightarrow> 's \<Rightarrow> 's builder_rows" where
  "update_configuration_params_builders c w a s =
     \<lparr>scalars =
        [(''version'', Some (DynInt32 (update_configuration_params_builder_get_version c s)))],
      edits =
        [(''config'', update_configuration_params_builder_get_config c (i_bytes a) s)],
      present =
        [(''config'', update_configuration_params_builder_has_config c s)]\<rparr>"

lemma update_configuration_params_builders_by_schema: "update_configuration_params_builders c w a s = schema_builders c w update_configuration_params_introspect a s"
  by (simp add: builders_by_schema_simps update_configuration_params_builders_def update_configuration_params_introspect_def update_configuration_params_RAW_SCHEMA_def update_configuration_params_decls
      update_configuration_params_builder_get_version_def
      update_configuration_params_builder_get_config_def
      update_configuration_params_builder_has_config_def)

definition update_configuration_results_builders :: "('s, 'p) capnp \<Rightarrow> 's widening \<Rightarrow> 's accessor_args \<Rightarrow> 's \<Rightarrow> 's builder_rows" where
  "update_configuration_results_builders c w a s =
     \<lparr>scalars =
        [],
      edits =
        [(''result'', update_configuration_results_builder_get_result c w (i_struct a) s)],
      present =
        [(''result'', update_configuration_results_builder_has_result c s)]\<rparr>"

lemma update_configuration_results_builders_by_schema: "update_configuration_results_builders c w a s = schema_builders c w update_configuration_results_introspect a s"
  by (simp add: builders_by_schema_simps update_configuration_results_builders_def update_configuration_results_introspect_def update_configuration_results_RAW_SCHEMA_def update_configuration_results_decls
      update_configuration_results_builder_get_result_def
      update_configuration_response_get_from_pointer_def
      update_configuration_results_builder_has_result_def)

lemmas all_builders_by_schema =
  connect_request_builders_by_schema metadata_builders_by_schema
  connect_response_builders_by_schema authentication_builders_by_schema
  tunnel_registration_builders_by_schema registration_options_builders_by_schema
  server_info_builders_by_schema authenticate_response_builders_by_schema
  register_tunnel_params_builders_by_schema register_tunnel_results_builders_by_schema
  get_server_info_params_builders_by_schema get_server_info_results_builders_by_schema
  unregister_tunnel_params_builders_by_schema unregister_tunnel_results_builders_by_schema
  obsolete_declarative_tunnel_connect_params_builders_by_schema
  obsolete_declarative_tunnel_connect_results_builders_by_schema
  authenticate_params_builders_by_schema authenticate_results_builders_by_schema
  reconnect_tunnel_params_builders_by_schema reconnect_tunnel_results_builders_by_schema
  tag_builders_by_schema client_info_builders_by_schema connection_options_builders_by_schema
  connection_response_builders_by_schema response_result_builders_by_schema
  connection_error_builders_by_schema connection_details_builders_by_schema
  tunnel_auth_builders_by_schema register_connection_params_builders_by_schema
  register_connection_results_builders_by_schema unregister_connection_params_builders_by_schema
  unregister_connection_results_builders_by_schema
  update_local_configuration_params_builders_by_schema
  update_local_configuration_results_builders_by_schema
  register_udp_session_response_builders_by_schema register_udp_session_params_builders_by_schema
  register_udp_session_results_builders_by_schema
  unregister_udp_session_params_builders_by_schema
  unregister_udp_session_results_builders_by_schema
  update_configuration_response_builders_by_schema update_configuration_params_builders_by_schema
  update_configuration_results_builders_by_schema

definition all_builders :: "('s, 'p) capnp \<Rightarrow> 's widening \<Rightarrow> 's accessor_args \<Rightarrow> 's \<Rightarrow> 's builder_rows list" where
  "all_builders c w a s =
    [connect_request_builders c w a s,
     metadata_builders c w a s,
     connect_response_builders c w a s,
     authentication_builders c w a s,
     tunnel_registration_builders c w a s,
     registration_options_builders c w a s,
     server_info_builders c w a s,
     authenticate_response_builders c w a s,
     register_tunnel_params_builders c w a s,
     register_tunnel_results_builders c w a s,
     get_server_info_params_builders c w a s,
     get_server_info_results_builders c w a s,
     unregister_tunnel_params_builders c w a s,
     unregister_tunnel_results_builders c w a s,
     obsolete_declarative_tunnel_connect_params_builders c w a s,
     obsolete_declarative_tunnel_connect_results_builders c w a s,
     authenticate_params_builders c w a s,
     authenticate_results_builders c w a s,
     reconnect_tunnel_params_builders c w a s,
     reconnect_tunnel_results_builders c w a s,
     tag_builders c w a s,
     client_info_builders c w a s,
     connection_options_builders c w a s,
     connection_response_builders c w a s,
     response_result_builders c w a s,
     connection_error_builders c w a s,
     connection_details_builders c w a s,
     tunnel_auth_builders c w a s,
     register_connection_params_builders c w a s,
     register_connection_results_builders c w a s,
     unregister_connection_params_builders c w a s,
     unregister_connection_results_builders c w a s,
     update_local_configuration_params_builders c w a s,
     update_local_configuration_results_builders c w a s,
     register_udp_session_response_builders c w a s,
     register_udp_session_params_builders c w a s,
     register_udp_session_results_builders c w a s,
     unregister_udp_session_params_builders c w a s,
     unregister_udp_session_results_builders c w a s,
     update_configuration_response_builders c w a s,
     update_configuration_params_builders c w a s,
     update_configuration_results_builders c w a s]"

section \<open>The union and the group\<close>

text \<open>
  The builder of the reply's union edits the member that the tag selects. Initialising the group leaves the
  first member selected and missing.
\<close>

lemma builder_which_by_schema:
  "response_result_builder_which c w f g s =
     (case schema_which c response_result_introspect s of
        Inl tag \<Rightarrow> Inl tag
      | Inr (n, v) \<Rightarrow>
          Inr (with_pointer c 0
            (if n = ''error'' then connection_error_get_from_pointer c w f
             else connection_details_get_from_pointer c w g) s))"
  by (auto simp: response_result_builder_which_def schema_which_def response_result_introspect_def
      response_result_RAW_SCHEMA_def response_result_decls response_result_node get_decl_def Let_def)

context builder_api
begin

lemma init_result_selects_error:
  assumes "0 < data_words c s" and "0 < ptr_count c s"
  shows "get_field c 16 0 (connection_response_init_result c (\<lambda>s. s) s) = 0
    \<and> ptr_null c (get_ptr c 0 (connection_response_init_result c (\<lambda>s. s) s))"
  using assms get_set_u16 [of s 0 0] cleared_pointer [of 0 "set_field c 16 0 0 s"]
  by (simp add: connection_response_init_result_def clear_pointer_def get_field_set_ptr set_field_ptrs)

end

section \<open>Properties\<close>

text \<open>C9: The generated code follows the encoded schema. For each of the structs, in the order of the files, the
  readers' getters (with the default of \<open>traceContext\<close>), the setters, \<open>has_\<close> tests and initialisers, and
  the builders' getters and \<open>has_\<close> tests, are those that its node describes, field by field, for every
  library, message and argument; the trait implementations of its \<open>Reader\<close> and \<open>Builder\<close> have the node's
  id and size and hand out its schema. A setter of a union member writes the member's tag first, an initialiser
  makes parts of their declared size, a builder's getter opens the declared slot with the declared size, and
  reader and builder of the reply's union tell its members apart by the tag.
\<close>

theorem generated_code_follows_schema:
  "all_accessors c a s = map (\<lambda>(tid, sz, b). schema_accessors c b a s) all_structs
   \<and> all_reader_impls c l = map (\<lambda>(tid, sz, b). schema_reader_impl c l b) all_structs
   \<and> all_builder_impls c l w = map (\<lambda>(tid, sz, b). schema_builder_impl c l w b) all_structs
   \<and> all_builders c w a s = map (\<lambda>(tid, sz, b). schema_builders c w b a s) all_structs
   \<and> which_row (response_result_which c s) = schema_which c response_result_introspect s
   \<and> response_result_builder_which c w f g s =
       (case schema_which c response_result_introspect s of
          Inl tag \<Rightarrow> Inl tag
        | Inr (n, v) \<Rightarrow>
            Inr (with_pointer c 0
              (if n = ''error'' then connection_error_get_from_pointer c w f
               else connection_details_get_from_pointer c w g) s))
   \<and> response_result_has_error c s = (get_field c 16 0 s = 0 \<and> \<not> ptr_null c (get_ptr c 0 s))
   \<and> response_result_has_connection_details c s = (get_field c 16 0 s = 1 \<and> \<not> ptr_null c (get_ptr c 0 s))
   \<and> response_result_builder_has_error c s = response_result_has_error c s
   \<and> response_result_builder_has_connection_details c s = response_result_has_connection_details c s"
proof (intro conjI)
  show "all_reader_impls c l = map (\<lambda>(tid, sz, b). schema_reader_impl c l b) all_structs"
    "all_builder_impls c l w = map (\<lambda>(tid, sz, b). schema_builder_impl c l w b) all_structs"
    by (rule impls_follow_schema)+
  show "all_builders c w a s = map (\<lambda>(tid, sz, b). schema_builders c w b a s) all_structs"
    by (simp only: all_builders_def all_structs_def list.map prod.case all_builders_by_schema)
  show "response_result_builder_which c w f g s =
       (case schema_which c response_result_introspect s of
          Inl tag \<Rightarrow> Inl tag
        | Inr (n, v) \<Rightarrow>
            Inr (with_pointer c 0
              (if n = ''error'' then connection_error_get_from_pointer c w f
               else connection_details_get_from_pointer c w g) s))"
    by (rule builder_which_by_schema)
  show "response_result_builder_has_error c s = response_result_has_error c s"
    "response_result_builder_has_connection_details c s = response_result_has_connection_details c s"
    using accessors_follow_encoded_schema [of c a s]
    by (simp_all add: response_result_builder_has_error_def response_result_builder_has_connection_details_def)
qed (use accessors_follow_encoded_schema [of c a s] in blast)+

end
