(* ===== verification/Interfaces.thy ===== *)
theory Interfaces
  imports Legacy_Schema Edge_Calls_Schema
begin

text \<open>
  The interfaces of \<^verbatim>\<open>src/proto_gen/tunnelrpc_capnp.rs\<close>: the requests their clients make, the default
  methods of their server traits, and \<open>dispatch_call\<close>. \<open>TunnelServer\<close> extends \<open>RegistrationServer\<close> (the
  edge's side), \<open>CloudflaredServer\<close> extends \<open>SessionManager\<close> and \<open>ConfigurationManager\<close> (the client's side,
  for which \<^verbatim>\<open>src/rpc.rs\<close> exports a stub).
\<close>

section \<open>The contract of a dispatcher\<close>

text \<open>
  A call names an interface and a method. The dispatcher takes the call a client makes for a method to
  that method of the server, and refuses every other.
\<close>

locale rpc_dispatcher =
  fixes call :: "'m \<Rightarrow> u64 \<times> u16"
    and dispatch :: "('m \<Rightarrow> 'a) \<Rightarrow> u64 \<times> u16 \<Rightarrow> 'a"
    and refuse :: 'a
  assumes reaches: "dispatch srv (call m) = srv m"
    and refuses: "k \<notin> range call \<Longrightarrow> dispatch srv k = refuse"
begin

lemma dispatch_cases:
  obtains (served) m where "k = call m" "dispatch srv k = srv m"
    | (refused) "k \<notin> range call" "dispatch srv k = refuse"
proof (cases "k \<in> range call")
  case True
  then obtain m where "k = call m" by blast
  with served reaches show thesis by simp
next
  case False
  with refused refuses show thesis by simp
qed

lemma served_or_refused: "(\<exists>m. call m = k) \<or> dispatch srv k = refuse"
  by (cases k rule: dispatch_cases [where srv = srv]) auto

text \<open>Two methods that a server can tell apart have different calls.\<close>

lemma call_inj:
  assumes "a \<noteq> (b :: 'a)" and "call m = call m'"
  shows "m = m'"
proof -
  have "(if x = m then a else b) = dispatch (\<lambda>x. if x = m then a else b) (call x)" for x
    by (rule reaches [symmetric])
  then have "(if m = m then a else b) = (if m' = m then a else b)" using assms(2) by metis
  with assms(1) show ?thesis by (simp split: if_splits)
qed

text \<open>Wrapping a server's methods wraps what the dispatcher answers, up to refusals.\<close>

lemma dispatch_map: "f refuse = refuse \<Longrightarrow> dispatch (\<lambda>m. f (srv m)) k = f (dispatch srv k)"
  by (cases k rule: dispatch_cases [where srv = srv]) (auto simp: reaches refuses)

end

section \<open>The edge's side\<close>

datatype registration_method = RegisterConnection | UnregisterConnection | UpdateLocalConfiguration

datatype tunnel_method =
    RegisterTunnel
  | GetServerInfo
  | UnregisterTunnel
  | ObsoleteDeclarativeTunnelConnect
  | Authenticate
  | ReconnectTunnel

definition tunnel_server_TYPE_ID :: u64 where
  "tunnel_server_TYPE_ID = 0xea58385c65416035"

subsection \<open>Requests\<close>

definition register_tunnel_request :: "('s, 'p) capnp \<Rightarrow> 's rpc_request" where
  "register_tunnel_request c =
     \<lparr>rq_interface = tunnel_server_TYPE_ID, rq_method = 0,
      rq_params = new_struct c (fst register_tunnel_params_STRUCT_SIZE) (snd register_tunnel_params_STRUCT_SIZE)\<rparr>"

definition get_server_info_request :: "('s, 'p) capnp \<Rightarrow> 's rpc_request" where
  "get_server_info_request c =
     \<lparr>rq_interface = tunnel_server_TYPE_ID, rq_method = 1,
      rq_params = new_struct c (fst get_server_info_params_STRUCT_SIZE) (snd get_server_info_params_STRUCT_SIZE)\<rparr>"

definition unregister_tunnel_request :: "('s, 'p) capnp \<Rightarrow> 's rpc_request" where
  "unregister_tunnel_request c =
     \<lparr>rq_interface = tunnel_server_TYPE_ID, rq_method = 2,
      rq_params = new_struct c (fst unregister_tunnel_params_STRUCT_SIZE) (snd unregister_tunnel_params_STRUCT_SIZE)\<rparr>"

definition obsolete_declarative_tunnel_connect_request :: "('s, 'p) capnp \<Rightarrow> 's rpc_request" where
  "obsolete_declarative_tunnel_connect_request c =
     \<lparr>rq_interface = tunnel_server_TYPE_ID, rq_method = 3,
      rq_params = new_struct c (fst obsolete_declarative_tunnel_connect_params_STRUCT_SIZE) (snd obsolete_declarative_tunnel_connect_params_STRUCT_SIZE)\<rparr>"

definition authenticate_request :: "('s, 'p) capnp \<Rightarrow> 's rpc_request" where
  "authenticate_request c =
     \<lparr>rq_interface = tunnel_server_TYPE_ID, rq_method = 4,
      rq_params = new_struct c (fst authenticate_params_STRUCT_SIZE) (snd authenticate_params_STRUCT_SIZE)\<rparr>"

definition reconnect_tunnel_request :: "('s, 'p) capnp \<Rightarrow> 's rpc_request" where
  "reconnect_tunnel_request c =
     \<lparr>rq_interface = tunnel_server_TYPE_ID, rq_method = 5,
      rq_params = new_struct c (fst reconnect_tunnel_params_STRUCT_SIZE) (snd reconnect_tunnel_params_STRUCT_SIZE)\<rparr>"

definition update_local_configuration_request :: "('s, 'p) capnp \<Rightarrow> 's rpc_request" where
  "update_local_configuration_request c =
     \<lparr>rq_interface = registration_server_TYPE_ID, rq_method = 2,
      rq_params = new_struct c (fst update_local_configuration_params_STRUCT_SIZE) (snd update_local_configuration_params_STRUCT_SIZE)\<rparr>"

definition register_udp_session_request :: "('s, 'p) capnp \<Rightarrow> 's rpc_request" where
  "register_udp_session_request c =
     \<lparr>rq_interface = session_manager_TYPE_ID, rq_method = 0,
      rq_params = new_struct c (fst register_udp_session_params_STRUCT_SIZE) (snd register_udp_session_params_STRUCT_SIZE)\<rparr>"

definition unregister_udp_session_request :: "('s, 'p) capnp \<Rightarrow> 's rpc_request" where
  "unregister_udp_session_request c =
     \<lparr>rq_interface = session_manager_TYPE_ID, rq_method = 1,
      rq_params = new_struct c (fst unregister_udp_session_params_STRUCT_SIZE) (snd unregister_udp_session_params_STRUCT_SIZE)\<rparr>"

definition update_configuration_request :: "('s, 'p) capnp \<Rightarrow> 's rpc_request" where
  "update_configuration_request c =
     \<lparr>rq_interface = configuration_manager_TYPE_ID, rq_method = 0,
      rq_params = new_struct c (fst update_configuration_params_STRUCT_SIZE) (snd update_configuration_params_STRUCT_SIZE)\<rparr>"

primrec registration_call :: "('s, 'p) capnp \<Rightarrow> registration_method \<Rightarrow> 's rpc_request" where
  "registration_call c RegisterConnection = register_connection_request c"
| "registration_call c UnregisterConnection = unregister_connection_request c"
| "registration_call c UpdateLocalConfiguration = update_local_configuration_request c"

primrec tunnel_call :: "('s, 'p) capnp \<Rightarrow> tunnel_method \<Rightarrow> 's rpc_request" where
  "tunnel_call c RegisterTunnel = register_tunnel_request c"
| "tunnel_call c GetServerInfo = get_server_info_request c"
| "tunnel_call c UnregisterTunnel = unregister_tunnel_request c"
| "tunnel_call c ObsoleteDeclarativeTunnelConnect = obsolete_declarative_tunnel_connect_request c"
| "tunnel_call c Authenticate = authenticate_request c"
| "tunnel_call c ReconnectTunnel = reconnect_tunnel_request c"

subsection \<open>Servers\<close>

text \<open>A server gives each method a function of the parameters. The trait's defaults:\<close>

type_synonym ('s, 'r) handler = "'s \<Rightarrow> rpc_error + 'r"

primrec registration_default_method :: "registration_method \<Rightarrow> ('s, 'r) handler" where
  "registration_default_method RegisterConnection p =
     Inl (Unimplemented ''method registration_server::Server::register_connection not implemented'')"
| "registration_default_method UnregisterConnection p =
     Inl (Unimplemented ''method registration_server::Server::unregister_connection not implemented'')"
| "registration_default_method UpdateLocalConfiguration p =
     Inl (Unimplemented ''method registration_server::Server::update_local_configuration not implemented'')"

primrec tunnel_default_method :: "tunnel_method \<Rightarrow> ('s, 'r) handler" where
  "tunnel_default_method RegisterTunnel p =
     Inl (Unimplemented ''method tunnel_server::Server::register_tunnel not implemented'')"
| "tunnel_default_method GetServerInfo p =
     Inl (Unimplemented ''method tunnel_server::Server::get_server_info not implemented'')"
| "tunnel_default_method UnregisterTunnel p =
     Inl (Unimplemented ''method tunnel_server::Server::unregister_tunnel not implemented'')"
| "tunnel_default_method ObsoleteDeclarativeTunnelConnect p =
     Inl (Unimplemented ''method tunnel_server::Server::obsolete_declarative_tunnel_connect not implemented'')"
| "tunnel_default_method Authenticate p =
     Inl (Unimplemented ''method tunnel_server::Server::authenticate not implemented'')"
| "tunnel_default_method ReconnectTunnel p =
     Inl (Unimplemented ''method tunnel_server::Server::reconnect_tunnel not implemented'')"

definition not_implemented :: "('s, 'r) handler" where
  "not_implemented p = Inl (Unimplemented ''Method not implemented.'')"

definition registration_server_dispatch_internal :: "(registration_method \<Rightarrow> ('s, 'r) handler) \<Rightarrow> u16 \<Rightarrow> ('s, 'r) handler" where
  "registration_server_dispatch_internal server method_id =
     (if method_id = 0 then server RegisterConnection
      else if method_id = 1 then server UnregisterConnection
      else if method_id = 2 then server UpdateLocalConfiguration
      else not_implemented)"

definition registration_server_dispatch ::
  "(registration_method \<Rightarrow> ('s, 'r) handler) \<Rightarrow> u64 \<Rightarrow> u16 \<Rightarrow> ('s, 'r) handler" where
  "registration_server_dispatch server interface_id method_id =
     (if interface_id = registration_server_TYPE_ID
      then registration_server_dispatch_internal server method_id
      else not_implemented)"

definition tunnel_server_dispatch_internal :: "(tunnel_method \<Rightarrow> ('s, 'r) handler) \<Rightarrow> u16 \<Rightarrow> ('s, 'r) handler" where
  "tunnel_server_dispatch_internal server method_id =
     (if method_id = 0 then server RegisterTunnel
      else if method_id = 1 then server GetServerInfo
      else if method_id = 2 then server UnregisterTunnel
      else if method_id = 3 then server ObsoleteDeclarativeTunnelConnect
      else if method_id = 4 then server Authenticate
      else if method_id = 5 then server ReconnectTunnel
      else not_implemented)"

text \<open>The trait extends that of \<open>RegistrationServer\<close>: a server has the methods of both.\<close>

type_synonym edge_method = "registration_method + tunnel_method"

definition tunnel_server_dispatch ::
  "(edge_method \<Rightarrow> ('s, 'r) handler) \<Rightarrow> u64 \<Rightarrow> u16 \<Rightarrow> ('s, 'r) handler" where
  "tunnel_server_dispatch server interface_id method_id =
     (if interface_id = tunnel_server_TYPE_ID
      then tunnel_server_dispatch_internal (\<lambda>m. server (Inr m)) method_id
      else if interface_id = 0xf71695ec7fe85497
      then registration_server_dispatch_internal (\<lambda>m. server (Inl m)) method_id
      else not_implemented)"

section \<open>The client's side\<close>

primrec session_call :: "('s, 'p) capnp \<Rightarrow> server_method \<Rightarrow> 's rpc_request" where
  "session_call c RegisterUdpSession = register_udp_session_request c"
| "session_call c UnregisterUdpSession = unregister_udp_session_request c"
| "session_call c UpdateConfiguration = update_configuration_request c"

definition session_manager_dispatch_call :: "'r server \<Rightarrow> u64 \<Rightarrow> u16 \<Rightarrow> rpc_error + 'r" where
  "session_manager_dispatch_call server interface_id method_id =
     (if interface_id = session_manager_TYPE_ID then session_manager_dispatch server method_id
      else Inl (Unimplemented ''Method not implemented.''))"

definition configuration_manager_dispatch_call :: "'r server \<Rightarrow> u64 \<Rightarrow> u16 \<Rightarrow> rpc_error + 'r" where
  "configuration_manager_dispatch_call server interface_id method_id =
     (if interface_id = configuration_manager_TYPE_ID then configuration_manager_dispatch server method_id
      else Inl (Unimplemented ''Method not implemented.''))"

text \<open>\<open>StubCloudflaredServer\<close>: the bootstrap object the client exports implements no method itself.\<close>

definition stub_cloudflared_server :: "'r server" where
  "stub_cloudflared_server = default_method"

section \<open>Interpretations\<close>

text \<open>The interface and method a request names.\<close>

definition target :: "'s rpc_request \<Rightarrow> u64 \<times> u16" where
  "target rq = (rq_interface rq, rq_method rq)"

primrec edge_call :: "('s, 'p) capnp \<Rightarrow> edge_method \<Rightarrow> 's rpc_request" where
  "edge_call c (Inl m) = registration_call c m"
| "edge_call c (Inr m) = tunnel_call c m"

lemma method_sets:
  "(UNIV :: registration_method set) = {RegisterConnection, UnregisterConnection, UpdateLocalConfiguration}"
  "(UNIV :: tunnel_method set) =
     {RegisterTunnel, GetServerInfo, UnregisterTunnel, ObsoleteDeclarativeTunnelConnect, Authenticate, ReconnectTunnel}"
  "(UNIV :: server_method set) = {RegisterUdpSession, UnregisterUdpSession, UpdateConfiguration}"
  by (auto intro: registration_method.exhaust tunnel_method.exhaust server_method.exhaust)

lemmas request_defs =
  register_connection_request_def unregister_connection_request_def update_local_configuration_request_def
  register_tunnel_request_def get_server_info_request_def unregister_tunnel_request_def
  obsolete_declarative_tunnel_connect_request_def authenticate_request_def reconnect_tunnel_request_def
  register_udp_session_request_def unregister_udp_session_request_def update_configuration_request_def

lemmas interface_ids =
  registration_server_TYPE_ID_def tunnel_server_TYPE_ID_def session_manager_TYPE_ID_def
  configuration_manager_TYPE_ID_def cloudflared_server_TYPE_ID_def

lemma call_ranges:
  "range (\<lambda>m. target (registration_call c m)) = {registration_server_TYPE_ID} \<times> {0, 1, 2}"
  "range (\<lambda>m. target (tunnel_call c m)) = {tunnel_server_TYPE_ID} \<times> {0, 1, 2, 3, 4, 5}"
  "range (\<lambda>m. target (session_call c m)) =
     {session_manager_TYPE_ID} \<times> {0, 1} \<union> {configuration_manager_TYPE_ID} \<times> {0}"
  by (auto simp: method_sets target_def request_defs)

lemma edge_call_range:
  "range (\<lambda>m. target (edge_call c m)) =
     range (\<lambda>m. target (registration_call c m)) \<union> range (\<lambda>m. target (tunnel_call c m))"
  by (auto simp: image_iff) (metis edge_call.simps sum.exhaust)+

interpretation registration: rpc_dispatcher "\<lambda>m. target (registration_call c m)"
  "\<lambda>srv (i, n). registration_server_dispatch srv i n" not_implemented for c
proof (unfold_locales, goal_cases)
  case (1 srv m)
  show ?case
    by (cases m) (simp_all add: target_def request_defs registration_server_dispatch_def
        registration_server_dispatch_internal_def)
next
  case (2 k srv)
  then show ?case
    unfolding call_ranges
    by (cases k) (auto simp: registration_server_dispatch_def registration_server_dispatch_internal_def)
qed

lemma type_ids_distinct:
  "distinct [registration_server_TYPE_ID, tunnel_server_TYPE_ID, session_manager_TYPE_ID,
     configuration_manager_TYPE_ID, cloudflared_server_TYPE_ID]"
  by (simp add: interface_ids)

interpretation tunnel: rpc_dispatcher "\<lambda>m. target (edge_call c m)"
  "\<lambda>srv (i, n). tunnel_server_dispatch srv i n" not_implemented for c
proof (unfold_locales, goal_cases)
  case (1 srv m)
  show ?case
  proof (cases m)
    case (Inl r)
    then show ?thesis
      by (cases r) (simp_all add: target_def request_defs interface_ids tunnel_server_dispatch_def
          registration_server_dispatch_internal_def)
  next
    case (Inr t)
    then show ?thesis
      by (cases t) (simp_all add: target_def request_defs tunnel_server_dispatch_def
          tunnel_server_dispatch_internal_def)
  qed
next
  case (2 k srv)
  then show ?case
    unfolding edge_call_range call_ranges
    by (cases k) (auto simp: tunnel_server_dispatch_def tunnel_server_dispatch_internal_def
        registration_server_dispatch_internal_def registration_server_TYPE_ID_def)
qed

definition refused :: "rpc_error + 'r" where
  "refused = Inl (Unimplemented ''Method not implemented.'')"

interpretation cloudflared: rpc_dispatcher "\<lambda>m. target (session_call c m)"
  "\<lambda>srv (i, n). cloudflared_server_dispatch srv i n" refused for c
proof (unfold_locales, goal_cases)
  case (1 srv m)
  show ?case
    by (cases m) (simp_all add: target_def request_defs interface_ids dispatch_defs)
next
  case (2 k srv)
  then show ?case
    unfolding call_ranges
    by (cases k) (auto simp: dispatch_defs refused_def session_manager_TYPE_ID_def configuration_manager_TYPE_ID_def)
qed

section \<open>Properties\<close>

text \<open>C14: A call that a generated client makes reaches the method of that name on a server that the generated
  dispatcher serves, with the parameters as they are, and every other call, of whatever interface and method,
  is answered as unimplemented: for \<open>RegistrationServer\<close>, for \<open>TunnelServer\<close> with the methods it inherits,
  for \<open>CloudflaredServer\<close>, and for the \<open>SessionManager\<close> and the \<open>ConfigurationManager\<close> that the last
  extends. The stub the crate exports answers every call of the edge with an error, none with a result.\<close>

theorem calls_reach_their_methods:
  "registration_server_dispatch rsrv (rq_interface (registration_call c rm)) (rq_method (registration_call c rm)) = rsrv rm
   \<and> ((\<exists>m. target (registration_call c m) = (i, n))
      \<or> registration_server_dispatch rsrv i n p = Inl (Unimplemented ''Method not implemented.''))
   \<and> tunnel_server_dispatch tsrv (rq_interface (edge_call c em)) (rq_method (edge_call c em)) = tsrv em
   \<and> ((\<exists>m. target (edge_call c m) = (i, n))
      \<or> tunnel_server_dispatch tsrv i n p = Inl (Unimplemented ''Method not implemented.''))
   \<and> cloudflared_server_dispatch csrv (rq_interface (session_call c sm)) (rq_method (session_call c sm)) = csrv sm
   \<and> ((\<exists>m. target (session_call c m) = (i, n))
      \<or> cloudflared_server_dispatch csrv i n = Inl (Unimplemented ''Method not implemented.''))
   \<and> session_manager_dispatch_call csrv i n =
       (if target (register_udp_session_request c) = (i, n) then csrv RegisterUdpSession
        else if target (unregister_udp_session_request c) = (i, n) then csrv UnregisterUdpSession
        else Inl (Unimplemented ''Method not implemented.''))
   \<and> configuration_manager_dispatch_call csrv i n =
       (if target (update_configuration_request c) = (i, n) then csrv UpdateConfiguration
        else Inl (Unimplemented ''Method not implemented.''))
   \<and> (\<exists>e. cloudflared_server_dispatch (stub_cloudflared_server :: 'z server) i n = Inl e)"
proof (intro conjI)
  show "registration_server_dispatch rsrv (rq_interface (registration_call c rm)) (rq_method (registration_call c rm)) = rsrv rm"
    using registration.reaches [of rsrv c rm] by (simp add: target_def)
  show "(\<exists>m. target (registration_call c m) = (i, n))
      \<or> registration_server_dispatch rsrv i n p = Inl (Unimplemented ''Method not implemented.'')"
    using registration.served_or_refused [of c "(i, n)" rsrv] by (auto simp: fun_eq_iff not_implemented_def)
  show "tunnel_server_dispatch tsrv (rq_interface (edge_call c em)) (rq_method (edge_call c em)) = tsrv em"
    using tunnel.reaches [of tsrv c em] by (simp add: target_def)
  show "(\<exists>m. target (edge_call c m) = (i, n))
      \<or> tunnel_server_dispatch tsrv i n p = Inl (Unimplemented ''Method not implemented.'')"
    using tunnel.served_or_refused [of c "(i, n)" tsrv] by (auto simp: fun_eq_iff not_implemented_def)
  show "cloudflared_server_dispatch csrv (rq_interface (session_call c sm)) (rq_method (session_call c sm)) = csrv sm"
    using cloudflared.reaches [of csrv c sm] by (simp add: target_def)
  show "(\<exists>m. target (session_call c m) = (i, n))
      \<or> cloudflared_server_dispatch csrv i n = Inl (Unimplemented ''Method not implemented.'')"
    using cloudflared.served_or_refused [of c "(i, n)" csrv] by (simp add: refused_def)
  show "session_manager_dispatch_call csrv i n =
       (if target (register_udp_session_request c) = (i, n) then csrv RegisterUdpSession
        else if target (unregister_udp_session_request c) = (i, n) then csrv UnregisterUdpSession
        else Inl (Unimplemented ''Method not implemented.''))"
    by (auto simp: session_manager_dispatch_call_def dispatch_defs target_def request_defs)
  show "configuration_manager_dispatch_call csrv i n =
       (if target (update_configuration_request c) = (i, n) then csrv UpdateConfiguration
        else Inl (Unimplemented ''Method not implemented.''))"
    by (auto simp: configuration_manager_dispatch_call_def dispatch_defs target_def request_defs)
  let ?stub = "stub_cloudflared_server :: 'z server"
  show "\<exists>e. cloudflared_server_dispatch ?stub i n = Inl e"
  proof (cases "(i, n)" rule: cloudflared.dispatch_cases [of _ c ?stub])
    case (served m)
    have "\<exists>e. ?stub m = Inl e" by (cases m) (simp_all add: stub_cloudflared_server_def)
    moreover have "cloudflared_server_dispatch ?stub i n = ?stub m"
      using served(2) by (simp only: prod.case)
    ultimately show ?thesis by simp
  qed (simp add: refused_def)
qed

end
