(* ===== verification/Client_Impls.thy ===== *)
theory Client_Impls
  imports Interfaces Introspection
begin

text \<open>
  What the generated interface modules have beside their calls: the newtype \<open>Client\<close> over a capability with
  its trait implementations. Like those of the structs they are
  the same code for every interface, here the record \<open>client_impl_of\<close>. A hook of type \<open>'h\<close> is the library's
  handle of a capability.
\<close>

datatype 'h client = Client (client_hook: 'h)

text \<open>\<open>TypeVariant\<close>: no field of the schema is a capability, the \<open>Owned\<close> types of the interfaces are.\<close>

datatype type_variant = DataVariant introspect_type | CapabilityVariant

text \<open>The library: the capability that a pointer holds, a pointer that holds one, and one more reference.\<close>

record ('p, 'h) capability_library =
  get_capability :: "'p \<Rightarrow> string + 'h"
  capability_ptr :: "'h \<Rightarrow> 'p"
  add_ref :: "'h \<Rightarrow> 'h"

text \<open>
  \<open>FromClientHook\<close>, \<open>Introspect\<close>, \<open>FromPointerReader\<close>, \<open>FromPointerBuilder\<close> (\<open>None\<close> is the panic of
  \<open>unimplemented!()\<close>), \<open>SetterInput\<close>, \<open>HasTypeId\<close> and \<open>Clone\<close>. Defaults and sizes are not used.
\<close>

record ('p, 'h) client_impl =
  cl_new :: "'h \<Rightarrow> 'h client"
  cl_into_client_hook :: "'h client \<Rightarrow> 'h"
  cl_as_client_hook :: "'h client \<Rightarrow> 'h"
  cl_introspect :: type_variant
  cl_reader_get_from_pointer :: "'p \<Rightarrow> nat list list option \<Rightarrow> string + 'h client"
  cl_init_pointer :: "'p \<Rightarrow> u32 \<Rightarrow> 'h client option"
  cl_builder_get_from_pointer :: "'p \<Rightarrow> nat list list option \<Rightarrow> string + 'h client"
  cl_set_pointer :: "'h client \<Rightarrow> bool \<Rightarrow> string + 'p"
  cl_type_id :: u64
  cl_clone :: "'h client \<Rightarrow> 'h client"

definition client_impl_of :: "('p, 'h) capability_library \<Rightarrow> u64 \<Rightarrow> ('p, 'h) client_impl" where
  "client_impl_of l tid =
     \<lparr>cl_new = Client,
      cl_into_client_hook = client_hook,
      cl_as_client_hook = client_hook,
      cl_introspect = CapabilityVariant,
      cl_reader_get_from_pointer = (\<lambda>q _. map_sum id Client (get_capability l q)),
      cl_init_pointer = (\<lambda>_ _. None),
      cl_builder_get_from_pointer = (\<lambda>q _. map_sum id Client (get_capability l q)),
      cl_set_pointer = (\<lambda>from _. Inr (capability_ptr l (client_hook from))),
      cl_type_id = tid,
      cl_clone = (\<lambda>cl. Client (add_ref l (client_hook cl)))\<rparr>"

definition registration_server_client_impl :: "('p, 'h) capability_library \<Rightarrow> ('p, 'h) client_impl" where
  "registration_server_client_impl l = client_impl_of l registration_server_TYPE_ID"

definition tunnel_server_client_impl :: "('p, 'h) capability_library \<Rightarrow> ('p, 'h) client_impl" where
  "tunnel_server_client_impl l = client_impl_of l tunnel_server_TYPE_ID"

definition session_manager_client_impl :: "('p, 'h) capability_library \<Rightarrow> ('p, 'h) client_impl" where
  "session_manager_client_impl l = client_impl_of l session_manager_TYPE_ID"

definition configuration_manager_client_impl :: "('p, 'h) capability_library \<Rightarrow> ('p, 'h) client_impl" where
  "configuration_manager_client_impl l = client_impl_of l configuration_manager_TYPE_ID"

definition cloudflared_server_client_impl :: "('p, 'h) capability_library \<Rightarrow> ('p, 'h) client_impl" where
  "cloudflared_server_client_impl l = client_impl_of l cloudflared_server_TYPE_ID"

text \<open>
  A capability that a client of one interface put into a message comes out as a client of the same
  capability, whatever interface it is read as: the check of the interface is left to the peer.
\<close>

lemma capability_read_back:
  assumes "\<And>h. get_capability l (capability_ptr l h) = Inr h"
    and "cl_set_pointer (client_impl_of l tid) cl canonicalize = Inr q"
  shows "cl_reader_get_from_pointer (client_impl_of l tid') q dflt = Inr cl"
    and "cl_builder_get_from_pointer (client_impl_of l tid') q dflt = Inr cl"
  using assms by (auto simp: client_impl_of_def)

text \<open>The interfaces have different ids.\<close>

lemma client_type_ids_distinct:
  "distinct (map cl_type_id [registration_server_client_impl l, tunnel_server_client_impl l,
     session_manager_client_impl l, configuration_manager_client_impl l, cloudflared_server_client_impl l])"
  using type_ids_distinct
  by (simp add: registration_server_client_impl_def tunnel_server_client_impl_def
      session_manager_client_impl_def configuration_manager_client_impl_def
      cloudflared_server_client_impl_def client_impl_of_def)

end
