(* ===== verification/Stream_Effects.thy ===== *)
theory Stream_Effects
  imports Proxy_Correct
begin

text \<open>
  Streams side by side. The streams of all reactors share the pool and the two byte counters of
  \<^verbatim>\<open>src/supervisor.rs\<close> and are otherwise separate. Serving a request is \<open>isolated\<close> from what it shares: its
  course and its result do not depend on the counters and the pool, to which it only adds what it counted
  and gives back one socket. So it can be cut where other streams come in between, and every stream of the
  proxy takes part in the transition system \<open>pool_step\<close> of \<open>Pool\<close>.
\<close>

section \<open>The shared part of the state\<close>

definition share :: "u64 \<Rightarrow> u64 \<Rightarrow> tcp_stream pool \<Rightarrow> proxy_state \<Rightarrow> proxy_state" where
  "share i u p st = st\<lparr>bytes_in := i, bytes_out := u, conns := p\<rparr>"

definition give :: "tcp_stream option \<Rightarrow> instant \<Rightarrow> tcp_stream pool \<Rightarrow> tcp_stream pool" where
  "give k now p = (case k of None \<Rightarrow> p | Some s \<Rightarrow> release now s p)"

lemma give_simps [simp]: "give None now p = p" "give (Some s) now p = release now s p"
  by (simp_all add: give_def)

lemma share_fields [simp]:
  "bytes_in (share i u p st) = i" "bytes_out (share i u p st) = u" "conns (share i u p st) = p"
  "from_edge (share i u p st) = from_edge st" "to_edge (share i u p st) = to_edge st"
  "tcp_read (share i u p st) = tcp_read st" "tcp_write (share i u p st) = tcp_write st"
  by (simp_all add: share_def)

lemma share_updates [simp]:
  "(share i u p st)\<lparr>from_edge := x\<rparr> = share i u p (st\<lparr>from_edge := x\<rparr>)"
  "(share i u p st)\<lparr>to_edge := y\<rparr> = share i u p (st\<lparr>to_edge := y\<rparr>)"
  "(share i u p st)\<lparr>tcp_read := r\<rparr> = share i u p (st\<lparr>tcp_read := r\<rparr>)"
  "(share i u p st)\<lparr>tcp_write := w\<rparr> = share i u p (st\<lparr>tcp_write := w\<rparr>)"
  "(share i u p st)\<lparr>bytes_in := i'\<rparr> = share i' u p st"
  "(share i u p st)\<lparr>bytes_out := u'\<rparr> = share i u' p st"
  "(share i u p st)\<lparr>conns := p'\<rparr> = share i u p' st"
  by (simp_all add: share_def)

lemma share_self: "share (bytes_in st) (bytes_out st) (conns st) st = st"
  by (simp add: share_def)

text \<open>A step is isolated; if \<open>gives\<close> is false it leaves the pool alone.\<close>

definition isolated ::
  "bool \<Rightarrow> instant \<Rightarrow> (proxy_state \<Rightarrow> ('e, 'a) outcome \<times> proxy_state) \<Rightarrow> bool" where
  "isolated gives now f \<longleftrightarrow>
     (\<forall>st. \<exists>r s a b k. (k \<noteq> None \<longrightarrow> gives)
        \<and> (\<forall>i u p. f (share i u p st) = (r, share (i + a) (u + b) (give k now p) s)))"

lemma isolatedI:
  assumes "\<And>st. \<exists>r s a b k. (k \<noteq> None \<longrightarrow> gives)
    \<and> (\<forall>i u p. f (share i u p st) = (r, share (i + a) (u + b) (give k now p) s))"
  shows "isolated gives now f"
  using assms by (simp add: isolated_def)

lemma isolatedE:
  assumes "isolated gives now f"
  obtains r s a b k where "k \<noteq> None \<Longrightarrow> gives"
    "\<And>i u p. f (share i u p st) = (r, share (i + a) (u + b) (give k now p) s)"
  using assms unfolding isolated_def by metis

lemma isolated_weaken: "isolated False now f \<Longrightarrow> isolated True now f"
  unfolding isolated_def by metis

lemma isolated_bind:
  assumes "isolated False now f" and "\<And>x. isolated gives now (k x)"
  shows "isolated gives now (\<lambda>st. and_then (f st) k)"
proof (rule isolatedI)
  fix st
  obtain r s a b where f: "\<And>i u p. f (share i u p st) = (r, share (i + a) (u + b) p s)"
    using assms(1) by (rule isolatedE [where st = st]) (metis give_simps(1) option.exhaust)
  show "\<exists>r s a b h. (h \<noteq> None \<longrightarrow> gives)
    \<and> (\<forall>i u p. and_then (f (share i u p st)) k = (r, share (i + a) (u + b) (give h now p) s))"
  proof (cases r)
    case (Done x)
    obtain r' s' a' b' h where k: "h \<noteq> None \<Longrightarrow> gives"
      "\<And>i u p. k x (share i u p s) = (r', share (i + a') (u + b') (give h now p) s')"
      using assms(2) [of x] by (rule isolatedE [where st = s]) blast
    with f Done show ?thesis
      by (intro exI [of _ r'] exI [of _ s'] exI [of _ "a + a'"] exI [of _ "b + b'"] exI [of _ h])
        (simp add: add.assoc)
  next
    case (Failed e)
    with f show ?thesis
      by (intro exI [of _ "Failed e"] exI [of _ s] exI [of _ a] exI [of _ b] exI [of _ None]) simp
  next
    case Pending
    with f show ?thesis
      by (intro exI [of _ Pending] exI [of _ s] exI [of _ a] exI [of _ b] exI [of _ None]) simp
  qed
qed

lemma isolated_return: "isolated gives now (\<lambda>st. (r, st))"
proof (rule isolatedI)
  fix st
  show "\<exists>r' s a b k. (k \<noteq> None \<longrightarrow> gives)
    \<and> (\<forall>i u p. (r, share i u p st) = (r', share (i + a) (u + b) (give k now p) s))"
    by (intro exI [of _ r] exI [of _ st] exI [of _ 0] exI [of _ 0] exI [of _ None]) simp
qed

section \<open>The steps of a request\<close>

text \<open>A step that gives the same result and the same private state, and adds to the counters.\<close>

lemma isolated_plain:
  assumes "\<And>st. \<exists>r s a b. \<forall>i u p. f (share i u p st) = (r, share (i + a) (u + b) p s)"
  shows "isolated gives now f"
proof (rule isolatedI)
  fix st
  from assms [of st] obtain r s a b where "\<forall>i u p. f (share i u p st) = (r, share (i + a) (u + b) p s)"
    by blast
  then show "\<exists>r s a b k. (k \<noteq> None \<longrightarrow> gives)
    \<and> (\<forall>i u p. f (share i u p st) = (r, share (i + a) (u + b) (give k now p) s))"
    by (intro exI [of _ r] exI [of _ s] exI [of _ a] exI [of _ b] exI [of _ None]) simp
qed

lemma isolated_io:
  "isolated gives now (on_to_edge f)" "isolated gives now (on_tcp_read g)" "isolated gives now (on_tcp_write f)"
proof -
  show "isolated gives now (on_to_edge f)"
  proof (rule isolated_plain)
    fix st :: proxy_state
    obtain r k where "f (to_edge st) = (r, k)" by fastforce
    then show "\<exists>r s a b. \<forall>i u p. on_to_edge f (share i u p st) = (r, share (i + a) (u + b) p s)"
      by (intro exI [of _ r] exI [of _ "st\<lparr>to_edge := k\<rparr>"] exI [of _ 0]) (simp add: on_to_edge_def)
  qed
  show "isolated gives now (on_tcp_read g)"
  proof (rule isolated_plain)
    fix st :: proxy_state
    obtain r k where "g (rh_src (tcp_read st)) = (r, k)" by fastforce
    then show "\<exists>r s a b. \<forall>i u p. on_tcp_read g (share i u p st) = (r, share (i + a) (u + b) p s)"
      by (intro exI [of _ r] exI [of _ "st\<lparr>tcp_read := (tcp_read st)\<lparr>rh_src := k\<rparr>\<rparr>"] exI [of _ 0])
        (simp add: on_tcp_read_def)
  qed
  show "isolated gives now (on_tcp_write f)"
  proof (rule isolated_plain)
    fix st :: proxy_state
    obtain r k where "f (wh_sink (tcp_write st)) = (r, k)" by fastforce
    then show "\<exists>r s a b. \<forall>i u p. on_tcp_write f (share i u p st) = (r, share (i + a) (u + b) p s)"
      by (intro exI [of _ r] exI [of _ "st\<lparr>tcp_write := (tcp_write st)\<lparr>wh_sink := k\<rparr>\<rparr>"] exI [of _ 0])
        (simp add: on_tcp_write_def)
  qed
qed

lemma isolated_close: "isolated gives now close_to_edge"
  unfolding close_to_edge_def by (rule isolated_io)

lemma isolated_flush: "isolated gives now (flush_leftover l)"
proof (cases "l = []")
  case True
  then have "flush_leftover l = (\<lambda>st. (Done (), st))" by (simp add: flush_leftover_def fun_eq_iff)
  then show ?thesis by (simp add: isolated_return)
next
  case False
  have count: "isolated gives now (\<lambda>st. (Done (), st\<lparr>bytes_out := bytes_out st + of_nat (length l)\<rparr>) ::
      (tunnel_error, unit) outcome \<times> proxy_state)"
  proof (rule isolated_plain)
    fix st :: proxy_state
    show "\<exists>r s a b. \<forall>i u p. (Done (), (share i u p st)\<lparr>bytes_out := bytes_out (share i u p st) + of_nat (length l)\<rparr>)
        = (r, share (i + a) (u + b) p s)"
      by (intro exI [of _ "Done ()"] exI [of _ st] exI [of _ 0] exI [of _ "of_nat (length l)"]) simp
  qed
  have "flush_leftover l = (\<lambda>st. and_then
      (on_to_edge (\<lambda>k. io_err (\<lambda>e. Internal (''write leftover body: '' @ e)) (write_all l k)) st)
      (\<lambda>_ st. (Done (), st\<lparr>bytes_out := bytes_out st + of_nat (length l)\<rparr>)))"
    using False by (simp add: flush_leftover_def fun_eq_iff)
  then show ?thesis by (simp only:) (rule isolated_bind [OF isolated_io(1) count])
qed

text \<open>What a pump counts does not depend on where the counter stood.\<close>

lemma pump_counted_counts:
  "\<exists>r src' dst' a. \<forall>n. pump_counted src dst n = (r, src', dst', n + a)"
proof (induction "source_size src" arbitrary: src dst rule: less_induct)
  case less
  obtain x src1 where x: "read_some PUMP_BUF src = (x, src1)" by fastforce
  show ?case
  proof (cases "\<exists>bs dst1 v. x = Done bs \<and> bs \<noteq> [] \<and> write_all bs dst = (Done v, dst1)")
    case True
    then obtain bs dst1 v where h: "x = Done bs" "bs \<noteq> []" "write_all bs dst = (Done v, dst1)" by blast
    with x have "source_size src1 < source_size src" by (auto intro: read_some_size)
    from less.hyps [OF this, of dst1] obtain r s d a where
      ih: "\<forall>n. pump_counted src1 dst1 n = (r, s, d, n + a)" by blast
    have "pump_counted src dst n = (r, s, d, n + (of_nat (length bs) + a))" for n
      by (simp add: pump_counted.simps [of src] x h ih add.assoc)
    then show ?thesis by blast
  next
    case False
    obtain r s d where "\<forall>n. pump_counted src dst n = (r, s, d, n)"
    proof (cases x)
      case (Done bs)
      with False x that show thesis
        by (cases "write_all bs dst"; cases "fst (write_all bs dst)"; cases "bs = []")
          (simp_all add: pump_counted.simps [of src])
    qed (use x that in \<open>simp_all add: pump_counted.simps [of src]\<close>)
    then show ?thesis by (intro exI [of _ r] exI [of _ s] exI [of _ d] exI [of _ 0]) simp
  qed
qed

lemma pump_n_counts:
  "\<exists>r src' dst' a. \<forall>n. pump_n what src dst m n = (r, src', dst', n + a)"
proof (induction "source_size src" arbitrary: src dst m rule: less_induct)
  case less
  obtain x src1 where x: "read_some (min PUMP_BUF m) src = (x, src1)" by fastforce
  show ?case
  proof (cases "m \<noteq> 0 \<and> (\<exists>bs dst1 v. x = Done bs \<and> bs \<noteq> [] \<and> write_all bs dst = (Done v, dst1))")
    case True
    then obtain bs dst1 v where h: "m \<noteq> 0" "x = Done bs" "bs \<noteq> []" "write_all bs dst = (Done v, dst1)" by blast
    with x have "source_size src1 < source_size src" by (auto intro: read_some_size)
    from less.hyps [OF this, of dst1 "m - length bs"] obtain r s d a where
      ih: "\<forall>n. pump_n what src1 dst1 (m - length bs) n = (r, s, d, n + a)" by blast
    have "pump_n what src dst m n = (r, s, d, n + (of_nat (length bs) + a))" for n
      using h x ih by (simp add: pump_n.simps [of what src] add.assoc)
    then show ?thesis by blast
  next
    case False
    obtain r s d where "\<forall>n. pump_n what src dst m n = (r, s, d, n)"
    proof (cases "m = 0")
      case True
      with that show thesis by (simp add: pump_n.simps [of what src])
    next
      case m: False
      show thesis
      proof (cases x)
        case (Done bs)
        with False m x that show thesis
          by (cases "write_all bs dst"; cases "fst (write_all bs dst)"; cases "bs = []")
            (simp_all add: pump_n.simps [of what src])
      qed (use m x that in \<open>simp_all add: pump_n.simps [of what src]\<close>)
    qed
    then show ?thesis by (intro exI [of _ r] exI [of _ s] exI [of _ d] exI [of _ 0]) simp
  qed
qed

lemma isolated_pumps:
  "isolated gives now pump_futures_to_tokio_counted" "isolated gives now pump_tokio_to_futures_counted"
  "isolated gives now (pump_n_futures_to_tokio m)" "isolated gives now (pump_n_tokio_to_futures m)"
proof -
  let ?in = "\<lambda>st src dst. st\<lparr>from_edge := src, tcp_write := (tcp_write st)\<lparr>wh_sink := dst\<rparr>\<rparr>"
    and ?out = "\<lambda>st src dst. st\<lparr>tcp_read := (tcp_read st)\<lparr>rh_src := src\<rparr>, to_edge := dst\<rparr>"
  show "isolated gives now pump_futures_to_tokio_counted"
  proof (rule isolated_plain)
    fix st :: proxy_state
    obtain r s d a where "\<forall>n. pump_counted (from_edge st) (wh_sink (tcp_write st)) n = (r, s, d, n + a)"
      using pump_counted_counts by blast
    then show "\<exists>r s a b. \<forall>i u p. pump_futures_to_tokio_counted (share i u p st) = (r, share (i + a) (u + b) p s)"
      by (intro exI [of _ r] exI [of _ "?in st s d"] exI [of _ a] exI [of _ 0])
        (simp add: pump_futures_to_tokio_counted_def)
  qed
  show "isolated gives now pump_tokio_to_futures_counted"
  proof (rule isolated_plain)
    fix st :: proxy_state
    obtain r s d a where "\<forall>n. pump_counted (rh_src (tcp_read st)) (to_edge st) n = (r, s, d, n + a)"
      using pump_counted_counts by blast
    then show "\<exists>r s a b. \<forall>i u p. pump_tokio_to_futures_counted (share i u p st) = (r, share (i + a) (u + b) p s)"
      by (intro exI [of _ r] exI [of _ "?out st s d"] exI [of _ 0] exI [of _ a])
        (simp add: pump_tokio_to_futures_counted_def)
  qed
  show "isolated gives now (pump_n_futures_to_tokio m)"
  proof (rule isolated_plain)
    fix st :: proxy_state
    obtain r s d a where "\<forall>n. pump_n ''source'' (from_edge st) (wh_sink (tcp_write st)) m n = (r, s, d, n + a)"
      using pump_n_counts by blast
    then show "\<exists>r s a b. \<forall>i u p. pump_n_futures_to_tokio m (share i u p st) = (r, share (i + a) (u + b) p s)"
      by (intro exI [of _ r] exI [of _ "?in st s d"] exI [of _ a] exI [of _ 0])
        (simp add: pump_n_futures_to_tokio_def)
  qed
  show "isolated gives now (pump_n_tokio_to_futures m)"
  proof (rule isolated_plain)
    fix st :: proxy_state
    obtain r s d a where "\<forall>n. pump_n ''tcp'' (rh_src (tcp_read st)) (to_edge st) m n = (r, s, d, n + a)"
      using pump_n_counts by blast
    then show "\<exists>r s a b. \<forall>i u p. pump_n_tokio_to_futures m (share i u p st) = (r, share (i + a) (u + b) p s)"
      by (intro exI [of _ r] exI [of _ "?out st s d"] exI [of _ 0] exI [of _ a])
        (simp add: pump_n_tokio_to_futures_def)
  qed
qed

lemmas isolated_steps = isolated_io isolated_close isolated_flush isolated_pumps isolated_return

text \<open>A pump whose error is dropped, followed by a step.\<close>

lemma isolated_then:
  assumes "isolated False now f" and "isolated gives now g"
  shows "isolated gives now (\<lambda>st. case f st of (Pending, st) \<Rightarrow> (Pending, st) | (_, st) \<Rightarrow> g st)"
proof -
  have "isolated False now (\<lambda>st. case f st of (Pending, s) \<Rightarrow> (Pending, s) | (_, s) \<Rightarrow> (Done (), s))"
  proof (rule isolatedI)
    fix st
    obtain r s a b where f: "\<And>i u p. f (share i u p st) = (r, share (i + a) (u + b) p s)"
      using assms(1) by (rule isolatedE [where st = st]) (metis give_simps(1) option.exhaust)
    then show "\<exists>r s a b k. (k \<noteq> None \<longrightarrow> False) \<and> (\<forall>i u p.
        (case f (share i u p st) of (Pending, s) \<Rightarrow> (Pending, s) | (_, s) \<Rightarrow> (Done (), s))
        = (r, share (i + a) (u + b) (give k now p) s))"
      by (intro exI [of _ "case r of Pending \<Rightarrow> Pending | _ \<Rightarrow> Done ()"] exI [of _ s] exI [of _ a] exI [of _ b]
          exI [of _ None]) (simp split: outcome.split)
  qed
  then have "isolated gives now (\<lambda>st. and_then
      (case f st of (Pending, s) \<Rightarrow> (Pending, s) | (_, s) \<Rightarrow> (Done (), s)) (\<lambda>_ st. g st))"
    by (rule isolated_bind) (rule assms(2))
  moreover have "and_then (case f st of (Pending, s) \<Rightarrow> (Pending, s) | (_, s) \<Rightarrow> (Done (), s)) (\<lambda>_ st. g st)
      = (case f st of (Pending, st) \<Rightarrow> (Pending, st) | (_, st) \<Rightarrow> g st)" for st
    by (auto split: prod.split outcome.split)
  ultimately show ?thesis by simp
qed

lemma isolated_finish_framed: "isolated True now (finish_framed now len n)"
proof -
  have release: "isolated True now (\<lambda>st. (case reunite (tcp_read st) (tcp_write st) of
         Some socket \<Rightarrow> (Done (), st\<lparr>conns := release now socket (conns st)\<rparr>)
       | None \<Rightarrow> (Done (), st)) :: (tunnel_error, unit) outcome \<times> proxy_state)"
  proof (rule isolatedI)
    fix st
    show "\<exists>r s a b k. (k \<noteq> None \<longrightarrow> True) \<and> (\<forall>i u p.
      (case reunite (tcp_read (share i u p st)) (tcp_write (share i u p st)) of
         Some socket \<Rightarrow> (Done (), (share i u p st)\<lparr>conns := release now socket (conns (share i u p st))\<rparr>)
       | None \<Rightarrow> (Done (), share i u p st)) = (r, share (i + a) (u + b) (give k now p) s))"
      by (intro exI [of _ "Done ()"] exI [of _ st] exI [of _ 0]
          exI [of _ "reunite (tcp_read st) (tcp_write st)"]) (simp split: option.split)
  qed
  have rest: "isolated False now (\<lambda>st. if 0 < m then pump_n_tokio_to_futures m st else (Done (), st))" for m
    by (cases "0 < m") (simp_all add: isolated_steps)
  show ?thesis
    unfolding finish_framed_def Let_def
    by (intro isolated_bind rest isolated_close release)
qed

lemma isolated_finish_drained: "isolated gives now finish_drained"
proof -
  have "isolated gives now (\<lambda>st. case pump_tokio_to_futures_counted st of
      (Pending, st) \<Rightarrow> (Pending, st) | (_, st) \<Rightarrow> close_to_edge st)"
    by (intro isolated_then isolated_steps)
  then show ?thesis by (simp add: finish_drained_def [abs_def])
qed

lemma isolated_response:
  assumes "\<And>status headers leftover. isolated gives now (f status headers leftover)"
  shows "isolated gives now (\<lambda>st. and_then (on_tcp_read (read_http_response_head parse) st)
    (\<lambda>(status, headers, leftover) st.
      and_then (on_to_edge (write_connect_response c '''' (response_meta status headers)) st) (\<lambda>_ st.
      and_then (flush_leftover leftover st) (\<lambda>_ st. f status headers leftover st))))"
  by (rule isolated_bind [OF isolated_io(2)], clarsimp) (intro isolated_bind isolated_steps assms)

lemma isolated_relay_response: "isolated True now (relay_response c parse now)"
proof -
  have "isolated True now (\<lambda>st. case (if response_poolable (analyse_response status headers)
        then rs_content_length (analyse_response status headers) else None) of
         Some len \<Rightarrow> finish_framed now len (length leftover) st
       | None \<Rightarrow> finish_drained st)" for status headers and leftover :: bytes
    by (cases "response_poolable (analyse_response status headers)";
        cases "rs_content_length (analyse_response status headers)")
      (simp_all add: isolated_finish_framed isolated_finish_drained)
  from isolated_response [OF this] show ?thesis by (simp add: relay_response_def [abs_def] Let_def)
qed

lemma isolated_run_pooled: "isolated True now (run_pooled c parse now sh)"
proof -
  have "isolated False now (\<lambda>st. case rq_content_length sh of
          Some n \<Rightarrow> if 0 < n then pump_n_futures_to_tokio n st else (Done (), st)
        | None \<Rightarrow> (Done (), st))"
    by (cases "rq_content_length sh"; cases "0 < the (rq_content_length sh)") (simp_all add: isolated_steps)
  then show ?thesis
    unfolding run_pooled_def [abs_def] by (rule isolated_bind) (rule isolated_relay_response)
qed

lemma isolated_edge_to_local: "isolated gives now edge_to_local"
proof -
  have close: "isolated gives now (\<lambda>st. case on_tcp_write close_sink st of
      (Pending, st) \<Rightarrow> (Pending, st) | (_, st) \<Rightarrow> (Done (), st))"
    by (intro isolated_then isolated_steps)
  from isolated_then [OF isolated_pumps(1) close] show ?thesis
    by (simp add: edge_to_local_def [abs_def])
qed

lemma isolated_local_to_edge: "isolated gives now (local_to_edge c parse)"
  unfolding local_to_edge_def [abs_def] by (rule isolated_response) (rule isolated_pumps)

lemma isolated_run_bidi: "isolated True now (run_bidi c parse)"
proof (rule isolatedI)
  fix st
  obtain r1 s1 a1 b1 where e: "\<And>i u p. edge_to_local (share i u p st) = (r1, share (i + a1) (u + b1) p s1)"
    using isolated_edge_to_local [of False now] by (rule isolatedE [where st = st]) (metis give_simps(1) option.exhaust)
  obtain r2 s2 a2 b2 where l: "\<And>i u p. local_to_edge c parse (share i u p s1) = (r2, share (i + a2) (u + b2) p s2)"
    using isolated_local_to_edge [of False now c parse]
    by (rule isolatedE [where st = s1]) (metis give_simps(1) option.exhaust)
  obtain r3 s3 a3 b3 where k: "\<And>i u p. close_to_edge (share i u p s2) = (r3, share (i + a3) (u + b3) p s3)"
    using isolated_close [of False now] by (rule isolatedE [where st = s2]) (metis give_simps(1) option.exhaust)
  show "\<exists>r s a b h. (h \<noteq> None \<longrightarrow> True)
    \<and> (\<forall>i u p. run_bidi c parse (share i u p st) = (r, share (i + a) (u + b) (give h now p) s))"
  proof (cases "r1 = Pending \<or> r2 = Pending")
    case True
    then show ?thesis
      by (intro exI [of _ Pending] exI [of _ s2] exI [of _ "a1 + a2"] exI [of _ "b1 + b2"] exI [of _ None])
        (auto simp: run_bidi_def e l add.assoc)
  next
    case False
    show ?thesis
    proof (cases r2)
      case (Done x)
      with False show ?thesis
        by (intro exI [of _ r3] exI [of _ s3] exI [of _ "a1 + (a2 + a3)"] exI [of _ "b1 + (b2 + b3)"] exI [of _ None])
          (simp add: run_bidi_def e l k add.assoc)
    next
      case (Failed m)
      with False show ?thesis
        by (intro exI [of _ "Failed m"] exI [of _ s2] exI [of _ "a1 + a2"] exI [of _ "b1 + b2"] exI [of _ None])
          (simp add: run_bidi_def e l add.assoc)
    qed (use False in simp)
  qed
qed

lemma isolated_serve_http: "isolated True now (serve_http c parse now req)"
  unfolding serve_http_def [abs_def] Let_def
  by (rule isolated_bind [OF isolated_io(3)])
    (cases "request_poolable (analyse_request req)", simp_all add: isolated_run_pooled isolated_run_bidi)

section \<open>What a request does to what it shares\<close>

lemma serve_http_effect:
  obtains r s a b k where
    "\<And>i u p. serve_http c parse now req (share i u p st) = (r, share (i + a) (u + b) (give k now p) s)"
    "\<And>t. k = Some t \<Longrightarrow> r = Done () \<and> sock_id t = rh_id (tcp_read st)
       \<and> request_poolable (analyse_request req) \<and> framed_answer parse (rh_src (tcp_read st))"
proof -
  obtain r s a b k where e:
    "\<And>i u p. serve_http c parse now req (share i u p st) = (r, share (i + a) (u + b) (give k now p) s)"
    using isolated_serve_http [of now c parse req] by (rule isolatedE [where st = st]) blast
  show thesis
  proof (rule that [OF e])
    fix t assume k: "k = Some t"
    let ?p = "pool_new 0 :: tcp_stream pool"
    have "release now x ?p \<noteq> ?p" "release now x ?p = release now y ?p \<longleftrightarrow> x = y" for x y
      by (simp_all add: release_def pool_new_def DEFAULT_MAX_IDLE_def)
    with socket_kept_only_after_framed_answer [of c parse now req "share 0 0 ?p st"]
    show "r = Done () \<and> sock_id t = rh_id (tcp_read st)
       \<and> request_poolable (analyse_request req) \<and> framed_answer parse (rh_src (tcp_read st))"
      by (auto simp: e k pooled_back_def)
  qed
qed

lemma served_effect:
  obtains r st' a b k where
    "\<And>i u p. serve_http c parse now req (share i u p (with_tcp st s)) = (r, share (i + a) (u + b) (give k now p) st')"
    "\<And>t. k = Some t \<Longrightarrow> r = Done () \<and> sock_id t = sock_id s
       \<and> request_poolable (analyse_request req) \<and> framed_answer parse (sock_in s)"
proof (rule serve_http_effect [of c parse now req "with_tcp st s"],
    unfold with_tcp_fields owned_read_half.simps)
qed (rule that)

section \<open>Streams as steps of the pool\<close>

text \<open>The pool up to the identities of its sockets.\<close>

definition entry_id :: "tcp_stream idle_entry \<Rightarrow> nat idle_entry" where
  "entry_id e = \<lparr>id_stream = sock_id (id_stream e), released_at = released_at e\<rparr>"

definition pool_ids :: "tcp_stream pool \<Rightarrow> nat pool" where
  "pool_ids p =
     \<lparr>pool_port = pool_port p, idle_ttl = idle_ttl p, max_idle = max_idle p, idle = map entry_id (idle p)\<rparr>"

definition stream_sys :: "tcp_stream pool \<Rightarrow> nat set \<Rightarrow> nat pool_sys" where
  "stream_sys p own = \<lparr>sys_pool = pool_ids p, busy = own\<rparr>"

lemma acquire_loop_ids:
  "acquire_loop clock k ttl (map entry_id es) =
     map_prod (map_option sock_id) (map entry_id) (acquire_loop clock k ttl es)"
proof (induction clock k ttl es rule: acquire_loop.induct)
  case (1 clock k ttl es)
  show ?case
  proof (cases "es = []")
    case True
    then show ?thesis by (simp add: acquire_loop.simps)
  next
    case False
    with "1.IH" [OF False refl] show ?thesis
      by (simp add: acquire_loop.simps [of clock k ttl es] acquire_loop.simps [of clock k ttl "map entry_id es"]
          last_map map_butlast [symmetric] Let_def) (simp add: entry_id_def)
  qed
qed

lemma release_ids: "pool_ids (release now s p) = release now (sock_id s) (pool_ids p)"
  by (simp add: release_def pool_ids_def entry_id_def)

lemma acquire_fut_ids:
  assumes "acquire_fut clock connect p = (fut, p')"
  shows "(\<exists>s. fut = Ready 0 (Inr s) \<and> acquire clock conn (pool_ids p) = (Inr (sock_id s), pool_ids p'))
    \<or> fut = connect (pool_port p) \<and> acquire clock conn (pool_ids p) = (conn (pool_port p), pool_ids p')"
proof -
  obtain hit g where l: "acquire_loop clock 0 (idle_ttl p) (idle p) = (hit, g)" by fastforce
  have "pool_ids (p\<lparr>idle := g\<rparr>) = (pool_ids p)\<lparr>idle := map entry_id g\<rparr>" by (simp add: pool_ids_def)
  moreover have "acquire_loop clock 0 (idle_ttl (pool_ids p)) (idle (pool_ids p)) = (map_option sock_id hit, map entry_id g)"
    "pool_port (pool_ids p) = pool_port p"
    by (simp_all add: pool_ids_def acquire_loop_ids l)
  ultimately show ?thesis
    using assms l by (cases hit) (auto simp: acquire_fut_def acquire_def Let_def)
qed

definition conn_id :: "(string + tcp_stream) fut \<Rightarrow> string + nat" where
  "conn_id f = (case f of Ready t (Inr s) \<Rightarrow> Inr (sock_id s) | _ \<Rightarrow> Inl [])"

lemma conn_id_Inr: "conn_id f = Inr u \<longleftrightarrow> (\<exists>t s. f = Ready t (Inr s) \<and> u = sock_id s)"
  by (auto simp: conn_id_def split: fut.splits sum.splits)

lemma acquire_socket_id:
  assumes "acquire_fut clock connect p = (Ready t (Inr s), p')"
  shows "acquire clock (\<lambda>_. conn_id (connect (pool_port p))) (pool_ids p) = (Inr (sock_id s), pool_ids p')"
  using acquire_fut_ids [OF assms, of "\<lambda>_. conn_id (connect (pool_port p))"]
  by (auto simp: conn_id_def dest: sym)

lemma acquire_pool_step:
  assumes "acquire_fut clock connect p = (fut, p')"
    and "\<And>t s. connect (pool_port p) = Ready t (Inr s) \<Longrightarrow> sock_id s \<notin> own \<union> set (pool_sockets (pool_ids p))"
  shows "case timeout d fut of
      Some (Inr s) \<Rightarrow> pool_step (stream_sys p own) (stream_sys p' (insert (sock_id s) own))
    | _ \<Rightarrow> pool_step (stream_sys p own) (stream_sys p' own)"
proof (cases "timeout d fut")
  case None
  from acquire_fut_ids [OF assms(1), of "\<lambda>_. Inl ''timed out''"] None
  have "acquire clock (\<lambda>_. Inl ''timed out'') (pool_ids p) = (Inl ''timed out'', pool_ids p')"
    by (auto simp: timeout_def)
  with None show ?thesis
    using step_acquire_failed [of clock _ "stream_sys p own"] by (simp add: stream_sys_def)
next
  case (Some r)
  then obtain t where t: "fut = Ready t r" by (auto simp: timeout_Some_iff)
  show ?thesis
  proof (cases r)
    case (Inl e)
    from acquire_fut_ids [OF assms(1), of "\<lambda>_. Inl e"] t Inl
    have "acquire clock (\<lambda>_. Inl e) (pool_ids p) = (Inl e, pool_ids p')" by auto
    with Some Inl show ?thesis
      using step_acquire_failed [of clock _ "stream_sys p own"] by (simp add: stream_sys_def)
  next
    case (Inr s)
    let ?conn = "\<lambda>_ :: u16. conn_id (connect (pool_port p))"
    have "acquire clock ?conn (pool_ids p) = (Inr (sock_id s), pool_ids p')"
      using assms(1) by (intro acquire_socket_id) (simp add: t Inr)
    moreover have "u \<notin> own \<union> set (pool_sockets (pool_ids p))" if "?conn q = Inr u" for u and q :: u16
      using that assms(2) by (auto simp: conn_id_Inr)
    ultimately show ?thesis
      using Some Inr step_acquire [of clock ?conn "stream_sys p own" "sock_id s" "pool_ids p'"]
      by (simp add: stream_sys_def)
  qed
qed

lemma give_pool_step:
  assumes "\<And>t. k = Some t \<Longrightarrow> sock_id t = n" and "n \<in> own"
  shows "pool_step (stream_sys p own) (stream_sys (give k now p) (own - {n}))"
proof (cases k)
  case None
  with step_drop [of n "stream_sys p own"] assms(2) show ?thesis by (simp add: stream_sys_def)
next
  case (Some t)
  with step_release [of n "stream_sys p own" now] assms show ?thesis
    by (simp add: stream_sys_def release_ids)
qed

section \<open>Properties\<close>

text \<open>C5: Streams side by side. Whatever the other streams are doing, a stream that asks the pool for a socket
  takes a step of the pool's transition system: it gets a socket that no other stream owns, or none. From
  then on its course is its own: the result, what it reads and writes and what it adds to the byte counters
  do not depend on the counters and the pool that the others change, and its end is again a step, in
  whatever state the pool then is: the socket is dropped, or, after a request and an answer that both
  left it reusable, it goes back. So no interleaving of streams makes two of them share a socket.\<close>

theorem streams_share_safely:
  assumes "pool_reachable port (stream_sys p own)" and "acquire_fut clock connect p = (fut, p')"
    and "\<And>t s. connect (pool_port p) = Ready t (Inr s) \<Longrightarrow> sock_id s \<notin> own \<union> set (pool_sockets (pool_ids p))"
  shows "case timeout LOCAL_CONNECT_TIMEOUT fut of
      Some (Inr s) \<Rightarrow>
        sock_id s \<notin> own \<and> pool_reachable port (stream_sys p' (insert (sock_id s) own))
        \<and> (\<exists>r st' a b k. \<forall>i u q.
             serve_http c parse now req (share i u q (with_tcp st s))
               = (r, share (i + a) (u + b) (give k now q) st')
             \<and> (\<forall>others. pool_reachable port (stream_sys q others) \<and> sock_id s \<in> others \<longrightarrow>
                  pool_reachable port (stream_sys (give k now q) (others - {sock_id s})))
             \<and> (k \<noteq> None \<longrightarrow> r = Done () \<and> request_poolable (analyse_request req)
                  \<and> framed_answer parse (sock_in s)))
    | _ \<Rightarrow> pool_reachable port (stream_sys p' own)"
proof (cases "\<exists>s. timeout LOCAL_CONNECT_TIMEOUT fut = Some (Inr s)")
  case False
  with acquire_pool_step [OF assms(2,3), where d = LOCAL_CONNECT_TIMEOUT] pool_more [OF assms(1)]
  show ?thesis by (auto split: option.split sum.split)
next
  case True
  then obtain s where s: "timeout LOCAL_CONNECT_TIMEOUT fut = Some (Inr s)" by blast
  then have step: "pool_step (stream_sys p own) (stream_sys p' (insert (sock_id s) own))"
    using acquire_pool_step [OF assms(2,3), where d = LOCAL_CONNECT_TIMEOUT] by simp
  have fresh: "sock_id s \<notin> own"
  proof -
    obtain t where t: "fut = Ready t (Inr s)" using s by (auto simp: timeout_Some_iff)
    let ?conn = "\<lambda>_ :: u16. conn_id (connect (pool_port p))"
    have "exclusive (stream_sys p own)" by (rule pool_reachable_exclusive [OF assms(1)])
    moreover have "acquire clock ?conn (pool_ids p) = (Inr (sock_id s), pool_ids p')"
      using assms(2) by (intro acquire_socket_id) (simp add: t)
    ultimately show ?thesis
      using pool_cache.exclusive_acquire(1) [of "pool_ids p" own "(clock, ?conn)" "sock_id s" "pool_ids p'"] assms(3)
      by (auto simp: exclusive_def stream_sys_def conn_id_Inr)
  qed
  obtain r st' a b k where e:
    "\<And>i u p. serve_http c parse now req (share i u p (with_tcp st s)) = (r, share (i + a) (u + b) (give k now p) st')"
    and kept: "\<And>t. k = Some t \<Longrightarrow> r = Done () \<and> sock_id t = sock_id s
       \<and> request_poolable (analyse_request req) \<and> framed_answer parse (sock_in s)"
    by (rule served_effect [of c parse now req st s]) (rule that)
  have returned: "pool_reachable port (stream_sys (give k now q) (others - {sock_id s}))"
    if "pool_reachable port (stream_sys q others)" "sock_id s \<in> others" for q others
  proof (rule pool_more [OF that(1)], rule give_pool_step [OF _ that(2)])
    fix t assume "k = Some t"
    from kept [OF this] show "sock_id t = sock_id s" by (elim conjE)
  qed
  have safe: "k \<noteq> None \<longrightarrow> r = Done () \<and> request_poolable (analyse_request req) \<and> framed_answer parse (sock_in s)"
  proof (cases k)
    case None
    then show ?thesis by simp
  next
    case (Some t)
    from kept [OF this] show ?thesis by (elim conjE, intro impI conjI)
  qed
  show ?thesis
    unfolding s option.case sum.case
  proof (intro conjI fresh pool_more [OF assms(1) step] exI allI)
    fix i u q
    show "serve_http c parse now req (share i u q (with_tcp st s)) = (r, share (i + a) (u + b) (give k now q) st')"
      by (rule e)
    fix others
    show "pool_reachable port (stream_sys q others) \<and> sock_id s \<in> others \<longrightarrow>
        pool_reachable port (stream_sys (give k now q) (others - {sock_id s}))"
      by (intro impI, elim conjE) (rule returned)
  next
    show "k \<noteq> None \<longrightarrow> r = Done () \<and> request_poolable (analyse_request req) \<and> framed_answer parse (sock_in s)"
      by (rule safe)
  qed
qed


theorem streams_share_safely_witness:
  "1 \<notin> ({} :: nat set) \<and> pool_reachable 80 (stream_sys (pool_new 80) {1})
   \<and> (\<exists>r st' a b k. \<forall>i u q.
        serve_http tree_api ref_parse 5 sample_request
            (share i u q (with_tcp (sample_edge []) (sample_socket [Data sample_head])))
          = (r, share (i + a) (u + b) (give k 5 q) st')
        \<and> (\<forall>others. pool_reachable 80 (stream_sys q others) \<and> 1 \<in> others \<longrightarrow>
             pool_reachable 80 (stream_sys (give k 5 q) (others - {1})))
        \<and> (k \<noteq> None \<longrightarrow> r = Done () \<and> request_poolable (analyse_request sample_request)
             \<and> framed_answer ref_parse [Data sample_head]))"
proof -
  let ?s = "sample_socket [Data sample_head]"
  let ?connect = "\<lambda>_. Ready 0 (Inr ?s)"
  have "pool_reachable 80 (stream_sys (pool_new 80) {})"
    using pool_start [of 80] by (simp add: stream_sys_def pool_ids_def pool_new_def)
  moreover have "acquire_fut (\<lambda>_. 0) ?connect (pool_new 80) = (Ready 0 (Inr ?s), pool_new 80)"
    by (rule acquire_fut_new)
  moreover have "sock_id t \<notin> {} \<union> set (pool_sockets (pool_ids (pool_new 80)))" for t
    by (simp add: pool_ids_def pool_new_def pool_sockets_def)
  moreover have "timeout LOCAL_CONNECT_TIMEOUT (Ready 0 (Inr ?s)) = Some (Inr ?s :: string + tcp_stream)"
    by (simp add: timeout_def)
  moreover have "sock_id ?s = 1" "sock_in ?s = [Data sample_head]"
    by (simp_all add: sample_socket_def)
  ultimately show ?thesis
    using streams_share_safely [of 80 "pool_new 80" "{}" "\<lambda>_. 0" ?connect "Ready 0 (Inr ?s)" "pool_new 80"
      tree_api ref_parse 5 sample_request "sample_edge []"]
    by (simp only: option.case sum.case) blast
qed

end
