(* ===== verification/Serve_Example.thy ===== *)
theory Serve_Example
  imports Manager
begin

text \<open>
  \<^verbatim>\<open>examples/serve.rs\<close>: a command that opens a tunnel to a port given on the command line, reports it, and
  closes it on Ctrl+C. The output is the list of the lines printed, in UTF-8.
\<close>

section \<open>Parsing the port\<close>

text \<open>
  \<open>str::parse::<u16>\<close> with its errors: at every character the digit is looked at before the overflow of
  the multiplication, and that before the overflow of the addition.
\<close>

datatype parse_int_error = PieEmpty | PieInvalidDigit | PiePosOverflow

fun display_parse_int_error :: "parse_int_error \<Rightarrow> string" where
  "display_parse_int_error PieEmpty = ''cannot parse integer from empty string''"
| "display_parse_int_error PieInvalidDigit = ''invalid digit found in string''"
| "display_parse_int_error PiePosOverflow = ''number too large to fit in target type''"

fun parse_u16_digits :: "nat \<Rightarrow> string \<Rightarrow> parse_int_error + u16" where
  "parse_u16_digits acc [] = Inr (word_of_nat acc)"
| "parse_u16_digits acc (c # cs) =
     (if \<not> is_digit c then Inl PieInvalidDigit
      else if 2 ^ 16 \<le> acc * 10 then Inl PiePosOverflow
      else if 2 ^ 16 \<le> acc * 10 + digit_val c then Inl PiePosOverflow
      else parse_u16_digits (acc * 10 + digit_val c) cs)"

definition parse_u16 :: "string \<Rightarrow> parse_int_error + u16" where
  "parse_u16 s =
     (case s of [] \<Rightarrow> Inl PieEmpty
      | c # cs \<Rightarrow> if c = CHR ''+'' then (if cs = [] then Inl PieInvalidDigit else parse_u16_digits 0 cs)
                 else parse_u16_digits 0 s)"

text \<open>The first argument after the program's name, or the default.\<close>

definition port_argument :: "string list \<Rightarrow> string" where
  "port_argument args = (if 1 < length args then args ! 1 else ''8080'')"

definition serve_port :: "string list \<Rightarrow> string + u16" where
  "serve_port args =
     (case parse_u16 (port_argument args) of
        Inl e \<Rightarrow> Inl (''bad port: '' @ display_parse_int_error e)
      | Inr port \<Rightarrow> Inr port)"

section \<open>What is printed\<close>

definition ELLIPSIS :: bytes where
  "ELLIPSIS = [CHR 0xE2, CHR 0x80, CHR 0xA6]"

definition EN_DASH :: bytes where
  "EN_DASH = [CHR 0xE2, CHR 0x80, CHR 0x93]"

definition EM_DASH :: bytes where
  "EM_DASH = [CHR 0xE2, CHR 0x80, CHR 0x94]"

text \<open>A box drawing character: the code points from U+2500 to U+253F end in one byte.\<close>

definition box_char :: "nat \<Rightarrow> bytes" where
  "box_char n = [CHR 0xE2, CHR 0x94, char_of (0x80 + n)]"

definition box_rule :: bytes where
  "box_rule = concat (replicate 61 (box_char 0))"

text \<open>\<open>str::trim_start_matches\<close> with a string: the prefix is taken off as often as it is there.\<close>

function trim_start_matches :: "string \<Rightarrow> string \<Rightarrow> string" where
  "trim_start_matches p s =
     (if p \<noteq> [] \<and> starts_with s p then trim_start_matches p (drop (length p) s) else s)"
  by pat_completeness auto
termination
  by (relation "measure (\<lambda>(p, s). length s)") (auto simp: starts_with_iff)

declare trim_start_matches.simps [simp del]

definition provisioning_line :: "u16 \<Rightarrow> bytes" where
  "provisioning_line port = ''provisioning tunnel for 127.0.0.1:'' @ dec (unat port) @ ELLIPSIS"

definition live_lines :: "(uuid \<Rightarrow> string) \<Rightarrow> quick_tunnel_handle \<Rightarrow> bytes list" where
  "live_lines show_uuid h =
     [[],
      ''  '' @ box_char 0x0C @ box_rule,
      ''  '' @ box_char 0x02 @ ''  Public URL:  '' @ h_url h,
      ''  '' @ box_char 0x02 @ ''  Tunnel ID:   '' @ show_uuid (h_tunnel_id h),
      ''  '' @ box_char 0x02 @ ''  Edge POP:    '' @ h_location h,
      ''  '' @ box_char 0x14 @ box_rule,
      [],
      ''Tunnel is live. Routing usually warms up over the next ~20'' @ EN_DASH @ ''60s.'',
      ''Curl example (DNS cache override avoids local NXDOMAIN issues):'',
      ''  curl --resolve '' @ trim_start_matches ''https://'' (h_url h) @ '':443:104.16.230.132 '' @ h_url h @ ''/'',
      [],
      ''Press Ctrl+C to tear down the tunnel.'']"

definition tick_line :: "quick_tunnel_handle \<Rightarrow> bytes" where
  "tick_line h = ''['' @ h_url h @ ''] tick '' @ EM_DASH @ '' still up''"

definition closing_line :: "tunnel_metrics \<Rightarrow> bytes" where
  "closing_line m =
     ''shutting down: streams_total='' @ dec (unat (tm_streams_total m))
     @ '' bytes_in='' @ dec (unat (tm_bytes_in m)) @ '' bytes_out='' @ dec (unat (tm_bytes_out m))
     @ '' reconnects='' @ dec (unat (tm_reconnects m))"

section \<open>The command\<close>

text \<open>
  What happens while the tunnel is up: how often the thirty seconds of the metrics loop pass, how the wait
  for Ctrl+C ends (\<open>None\<close> while it does not), the counters and the reactors at that time, and what the
  reactors do during the shutdown.
\<close>

record serve_session =
  ss_ticks :: nat
  ss_ctrl_c :: "(string + unit) option"
  ss_metrics :: supervisor_metrics
  ss_reactors :: tunnel_sys
  ss_ending :: "(nat \<times> leg_event) list"

text \<open>
  \<open>open_tunnel\<close> is \<open>QuickTunnelManager::start\<close>, \<open>show\<close> the display of an error. The result comes with the lines
  printed; \<open>None\<close> is an ending the reactors cannot make.
\<close>

definition serve_live ::
  "(uuid \<Rightarrow> string) \<Rightarrow> (tunnel_error \<Rightarrow> string) \<Rightarrow> serve_session \<Rightarrow> quick_tunnel_handle
   \<Rightarrow> ((string, unit) outcome \<times> bytes list) option" where
  "serve_live show_uuid show ss h =
     (let out = live_lines show_uuid h @ replicate (ss_ticks ss) (tick_line h) in
      case ss_ctrl_c ss of
        None \<Rightarrow> Some (Pending, out)
      | Some (Inl e) \<Rightarrow> Some (Failed e, out)
      | Some (Inr _) \<Rightarrow>
          (let m = handle_metrics (ss_metrics ss) (ss_reactors ss);
               out = out @ [[], closing_line m]
           in case shutdown (ss_ending ss) (ss_reactors ss) of
                None \<Rightarrow> None
              | Some (Failed e) \<Rightarrow> Some (Failed (show e), out)
              | Some Pending \<Rightarrow> Some (Pending, out)
              | Some (Done _) \<Rightarrow> Some (Done (), out @ [''tunnel closed cleanly.''])))"

definition serve_main ::
  "(uuid \<Rightarrow> string) \<Rightarrow> (tunnel_error \<Rightarrow> string) \<Rightarrow> (quick_tunnel_manager \<Rightarrow> tunnel_error + quick_tunnel_handle)
   \<Rightarrow> serve_session \<Rightarrow> string list \<Rightarrow> ((string, unit) outcome \<times> bytes list) option" where
  "serve_main show_uuid show open_tunnel ss args =
     (case serve_port args of
        Inl e \<Rightarrow> Some (Failed e, [])
      | Inr port \<Rightarrow>
          (case open_tunnel (manager_new port) of
             Inl e \<Rightarrow> Some (Failed (show e), [provisioning_line port])
           | Inr h \<Rightarrow>
               map_option (\<lambda>(r, out). (r, provisioning_line port # out)) (serve_live show_uuid show ss h)))"

section \<open>Lemmas\<close>

lemma unat_u16: "n < 65536 \<Longrightarrow> unat (word_of_nat n :: u16) = n"
  by (simp add: unsigned_of_nat take_bit_nat_eq_self)

lemma code_plus: "code_of c = 43 \<longleftrightarrow> c = CHR ''+''"
proof -
  have "code_of (CHR ''+'') = (43 :: nat)" by simp
  then show ?thesis by (metis char_of_char)
qed

lemma parse_u16_digits_append:
  "parse_u16_digits acc s = Inr w \<Longrightarrow> acc < 2 ^ 16 \<Longrightarrow> parse_u16_digits acc (s @ t) = parse_u16_digits (unat w) t"
  by (induction s arbitrary: acc) (auto simp: unat_u16 split: if_splits)

lemma parse_u16_digits_dec: "n < 2 ^ 16 \<Longrightarrow> parse_u16_digits 0 (dec n) = Inr (word_of_nat n)"
proof (induction n rule: dec.induct)
  case (1 n)
  show ?case
  proof (cases "n < 10")
    case True
    then show ?thesis by (simp add: dec.simps [of n])
  next
    case False
    then have "parse_u16_digits 0 (dec (n div 10)) = Inr (word_of_nat (n div 10))"
      using "1.IH" "1.prems" by simp
    moreover have "unat (word_of_nat (n div 10) :: u16) = n div 10"
      using "1.prems" by (intro unat_u16) simp
    moreover have "n div 10 * 10 + n mod 10 = n" by simp
    ultimately show ?thesis
      using "1.prems" False
      by (simp add: dec.simps [of n] parse_u16_digits_append)
  qed
qed

text \<open>Every port is accepted in decimal, and the parser agrees with the wider one.\<close>

lemma parse_u16_dec: "parse_u16 (dec (unat (port :: u16))) = Inr port"
proof -
  obtain c cs where ds: "dec (unat port) = c # cs" by (cases "dec (unat port)") simp_all
  then have "is_digit c" using dec_digits [of c "unat port"] by simp
  then have "c \<noteq> CHR ''+''" by (auto simp: is_digit_def)
  moreover have "unat port < 2 ^ 16" using unsigned_less [of port, where ?'a = nat] by simp
  ultimately show ?thesis using parse_u16_digits_dec [of "unat port"] by (simp add: parse_u16_def ds)
qed

lemma parse_u16_digits_parse_digits:
  "acc < 2 ^ 16 \<Longrightarrow> parse_u16_digits acc s = Inr w \<Longrightarrow> parse_digits acc s = Some (unat w)"
  by (induction s arbitrary: acc) (auto simp: unat_u16 split: if_splits)

lemma parse_u16_parse_u64: "parse_u16 s = Inr w \<Longrightarrow> parse_u64 s = Some (unat w)"
  by (auto simp: parse_u16_def parse_u64_def parse_u16_digits_parse_digits code_plus simp del: parse_u16_digits.simps
      parse_digits.simps split: list.splits if_splits)

text \<open>The host that the curl line resolves is the host that \<open>start\<close> put into the URL.\<close>

lemma trim_start_url:
  assumes "\<not> starts_with host ''https://''"
  shows "trim_start_matches ''https://'' (tunnel_public_url host) = host"
proof -
  have "starts_with (''https://'' @ host) ''https://''" by (rule starts_with_append)
  with assms show ?thesis
    by (subst trim_start_matches.simps)
      (simp add: tunnel_public_url_def trim_start_matches.simps [of "''https://''" host])
qed

text \<open>
  The command ends well only after a port was read, the tunnel was up, Ctrl+C came and every reactor had
  ended; in every other case the line that says so is not printed.
\<close>

theorem serve_ends_cleanly:
  "serve_main show_uuid show open_tunnel ss args = Some (Done (), out) \<longleftrightarrow>
   (\<exists>port h. serve_port args = Inr port \<and> open_tunnel (manager_new port) = Inr h \<and> ss_ctrl_c ss = Some (Inr ())
      \<and> shutdown (ss_ending ss) (ss_reactors ss) = Some (Done ())
      \<and> out = provisioning_line port # live_lines show_uuid h @ replicate (ss_ticks ss) (tick_line h)
          @ [[], closing_line (handle_metrics (ss_metrics ss) (ss_reactors ss)), ''tunnel closed cleanly.''])"
  by (auto simp: serve_main_def serve_live_def Let_def split: sum.splits option.splits outcome.splits)

end
