(* ===== verification/Api_Tests.thy ===== *)
theory Api_Tests
  imports Tunnel_Api
begin

text \<open>
  The unit tests of \<^verbatim>\<open>src/api.rs\<close>, against a mock server. The JSON library and the base64 engine stay
  parameters: \<open>to_vec\<close> writes a JSON value, \<open>from_slice\<close> is the deserialiser of the envelope, \<open>decode\<close>
  the engine. What the tests need of them is \<open>serde_reads\<close>: a body written from a value is deserialised
  field by field, as the attributes of the structs say. \<open>sample_serde\<close> is an instance.
\<close>

section \<open>JSON values and the structs read from them\<close>

datatype json = JNull | JBool bool | JNum int | JStr string | JArr "json list" | JObj "(string \<times> json) list"

fun json_field :: "json \<Rightarrow> string \<Rightarrow> json option" where
  "json_field (JObj kvs) k = map_of kvs k"
| "json_field _ k = None"

fun json_string :: "json option \<Rightarrow> string option" where
  "json_string (Some (JStr s)) = Some s"
| "json_string _ = None"

fun json_i32 :: "json option \<Rightarrow> i32 option" where
  "json_i32 (Some (JNum n)) = (if - (2 ^ 31) \<le> n \<and> n < 2 ^ 31 then Some (word_of_int n) else None)"
| "json_i32 _ = None"

fun json_bool :: "json option \<Rightarrow> bool option" where
  "json_bool (Some (JBool b)) = Some b"
| "json_bool _ = None"

definition tunnel_of_json :: "(string \<Rightarrow> string + bytes) \<Rightarrow> json \<Rightarrow> quick_tunnel option" where
  "tunnel_of_json decode v =
     (case (json_string (json_field v ''id''), json_string (json_field v ''name''),
            json_string (json_field v ''hostname''), json_string (json_field v ''account_tag''),
            json_string (json_field v ''secret'')) of
        (Some i, Some n, Some h, Some a, Some s) \<Rightarrow>
          (case b64_deserialize decode (Inr s) of
             Inl e \<Rightarrow> None
           | Inr secret \<Rightarrow>
               Some \<lparr>qt_id = i, qt_name = n, qt_hostname = h, qt_account_tag = a, qt_secret = secret\<rparr>)
      | _ \<Rightarrow> None)"

definition api_error_of_json :: "json \<Rightarrow> api_error option" where
  "api_error_of_json v =
     (case (json_i32 (json_field v ''code''), json_string (json_field v ''message'')) of
        (Some n, Some m) \<Rightarrow> Some \<lparr>code = n, message = m\<rparr>
      | _ \<Rightarrow> None)"

text \<open>\<open>result\<close> and \<open>errors\<close> may be missing, and \<open>result\<close> may be null.\<close>

definition response_of_json :: "(string \<Rightarrow> string + bytes) \<Rightarrow> json \<Rightarrow> quick_tunnel_response option" where
  "response_of_json decode v =
     (case (json_bool (json_field v ''success''),
            case json_field v ''result'' of
              None \<Rightarrow> Some None
            | Some JNull \<Rightarrow> Some None
            | Some q \<Rightarrow> map_option Some (tunnel_of_json decode q),
            case json_field v ''errors'' of
              None \<Rightarrow> Some []
            | Some (JArr es) \<Rightarrow> those (map api_error_of_json es)
            | Some _ \<Rightarrow> None) of
        (Some ok, Some t, Some es) \<Rightarrow> Some \<lparr>success = ok, result = t, errors = es\<rparr>
      | _ \<Rightarrow> None)"

record serde =
  to_vec :: "json \<Rightarrow> bytes"
  from_slice :: "bytes \<Rightarrow> string + quick_tunnel_response"
  decode :: "string \<Rightarrow> string + bytes"

definition serde_reads :: "serde \<Rightarrow> json \<Rightarrow> bool" where
  "serde_reads l v \<longleftrightarrow> looks_like_json (to_vec l v)
     \<and> (\<forall>r. response_of_json (decode l) v = Some r \<longrightarrow> from_slice l (to_vec l v) = Inr r)"

section \<open>The mock server\<close>

text \<open>
  A mock answers requests to its path, the first ones up to its limit, if it has one; the mocks are tried
  in the order in which they were mounted, and a request no mock answers gets a 404. A POST was made for
  the first attempt and after every pause.
\<close>

record mock =
  mock_path :: string
  mock_limit :: "nat option"
  mock_reply :: "u16 \<times> bytes"

fun mock_server :: "mock list \<Rightarrow> string \<Rightarrow> nat \<Rightarrow> reply" where
  "mock_server [] path k = Inr (404, Inr [])"
| "mock_server (m # ms) path k =
     (if mock_path m \<noteq> path then mock_server ms path k
      else case mock_limit m of
        None \<Rightarrow> Inr (fst (mock_reply m), Inr (snd (mock_reply m)))
      | Some n \<Rightarrow> if k < n then Inr (fst (mock_reply m), Inr (snd (mock_reply m)))
                 else mock_server ms path (k - n))"

definition server_post :: "string \<Rightarrow> mock list \<Rightarrow> string \<Rightarrow> nat \<Rightarrow> reply" where
  "server_post uri mocks url k = mock_server mocks (drop (length uri) url) k"

definition posts_made :: "(tunnel_error + quick_tunnel) \<times> duration list \<Rightarrow> nat" where
  "posts_made r = Suc (length (snd r))"

text \<open>\<open>request_tunnel\<close> against the server at \<open>uri\<close>, with the HTTP client built.\<close>

definition request_from ::
  "serde \<Rightarrow> string \<Rightarrow> mock list \<Rightarrow> (tunnel_error + quick_tunnel) \<times> duration list" where
  "request_from l uri mocks =
     request_tunnel (from_slice l) (\<lambda>ua. None) (server_post uri mocks) uri DEFAULT_USER_AGENT"

section \<open>The tests\<close>

definition sample_ok_body :: json where
  "sample_ok_body =
     JObj [(''success'', JBool True),
           (''result'', JObj [(''id'', JStr ''8f6d3c2a-1111-4d2e-9b9b-aaaaaaaaaaaa''),
                              (''name'', JStr ''quick-tunnel-abc''),
                              (''hostname'', JStr ''abc-123.trycloudflare.com''),
                              (''account_tag'', JStr ''deadbeefcafef00d''),
                              (''secret'', JStr ''AQIDBAUGBwgJCgsMDQ4PEBESExQVFhcYGRobHB0eHyA='')]),
           (''errors'', JArr [])]"

definition happy_path_parses_credentials :: "serde \<Rightarrow> string \<Rightarrow> bool" where
  "happy_path_parses_credentials l uri =
     (let mocks = [\<lparr>mock_path = ''/tunnel'', mock_limit = None, mock_reply = (200, to_vec l sample_ok_body)\<rparr>];
          r = request_from l uri mocks
      in posts_made r = 1 \<and>
         (case fst r of
            Inl e \<Rightarrow> False
          | Inr t \<Rightarrow>
              qt_hostname t = ''abc-123.trycloudflare.com''
              \<and> qt_account_tag t = ''deadbeefcafef00d''
              \<and> length (qt_secret t) = 32
              \<and> take 4 (qt_secret t) = [CHR 0x01, CHR 0x02, CHR 0x03, CHR 0x04]))"

definition quota_body :: json where
  "quota_body =
     JObj [(''success'', JBool False),
           (''errors'', JArr [JObj [(''code'', JNum 1003), (''message'', JStr ''tunnel quota exceeded'')]])]"

definition business_error_does_not_retry :: "serde \<Rightarrow> string \<Rightarrow> bool" where
  "business_error_does_not_retry l uri =
     (let mocks = [\<lparr>mock_path = ''/tunnel'', mock_limit = None, mock_reply = (200, to_vec l quota_body)\<rparr>];
          r = request_from l uri mocks
      in posts_made r = 1 \<and>
         (case fst r of
            Inl (ApiBusiness errs) \<Rightarrow> length errs = 1 \<and> code (errs ! 0) = 1003
          | _ \<Rightarrow> False))"

definition html_body_surfaces_snippet :: "serde \<Rightarrow> string \<Rightarrow> bool" where
  "html_body_surfaces_snippet l uri =
     (let mocks = [\<lparr>mock_path = ''/tunnel'', mock_limit = None,
                    mock_reply = (429, ''<html><body>rate limited</body></html>'')\<rparr>];
          r = request_from l uri mocks
      in posts_made r = 1 \<and>
         (case fst r of
            Inl (ApiNonJson status body_snippet) \<Rightarrow>
              status = 429 \<and> contains_str body_snippet ''rate limited''
          | _ \<Rightarrow> False))"

definition five_xx_retries_then_succeeds :: "serde \<Rightarrow> string \<Rightarrow> bool" where
  "five_xx_retries_then_succeeds l uri =
     (let mocks = [\<lparr>mock_path = ''/tunnel'', mock_limit = Some 1, mock_reply = (503, ''service unavailable'')\<rparr>,
                   \<lparr>mock_path = ''/tunnel'', mock_limit = None, mock_reply = (200, to_vec l sample_ok_body)\<rparr>];
          r = request_from l uri mocks
      in posts_made r = 1 + 1 \<and>
         (case fst r of
            Inl e \<Rightarrow> False
          | Inr t \<Rightarrow> qt_hostname t = ''abc-123.trycloudflare.com''))"

definition bad_request_body :: json where
  "bad_request_body =
     JObj [(''success'', JBool False),
           (''errors'', JArr [JObj [(''code'', JNum 400), (''message'', JStr ''bad request'')]])]"

definition four_xx_does_not_retry :: "serde \<Rightarrow> string \<Rightarrow> bool" where
  "four_xx_does_not_retry l uri =
     (let mocks = [\<lparr>mock_path = ''/tunnel'', mock_limit = None, mock_reply = (400, to_vec l bad_request_body)\<rparr>];
          r = request_from l uri mocks
      in posts_made r = 1 \<and> (case fst r of Inl (ApiBusiness errs) \<Rightarrow> True | _ \<Rightarrow> False))"

definition looks_like_json_handles_leading_whitespace :: bool where
  "looks_like_json_handles_leading_whitespace =
     (looks_like_json (''  '' @ [LF] @ ''  {'') \<and> looks_like_json ''[''
      \<and> \<not> looks_like_json ''<html>'' \<and> \<not> looks_like_json '''')"

section \<open>The tests pass\<close>

text \<open>The server's address has no slash at its end.\<close>

lemma server_post_tunnel:
  "trim_end_matches (CHR ''/'') uri = uri \<Longrightarrow> server_post uri mocks (tunnel_url uri) k = mock_server mocks ''/tunnel'' k"
  by (simp add: server_post_def tunnel_url_def)

lemma request_from_eq:
  assumes "trim_end_matches (CHR ''/'') uri = uri"
  shows "request_from l uri mocks =
    retry_loop (\<lambda>k. try_once (from_slice l) (mock_server mocks ''/tunnel'' k)) [0, 1, 2, 3] (from_secs 1) None"
proof -
  have "server_post uri mocks (tunnel_url uri) = mock_server mocks ''/tunnel''"
    using assms by (intro ext) (rule server_post_tunnel)
  moreover have "[0..<Suc MAX_RETRIES] = [0, 1, 2, 3]" by (simp add: MAX_RETRIES_def upt_rec)
  ultimately show ?thesis
    by (simp only: request_from_def request_tunnel_def Let_def option.case)
qed

lemma looks_like_json_passes: looks_like_json_handles_leading_whitespace
  by (simp add: looks_like_json_handles_leading_whitespace_def looks_like_json_cons is_ascii_whitespace_def LF_def)

lemma lossy_ascii: "\<forall>b \<in> set bs. code_of b < 128 \<Longrightarrow> from_utf8_lossy bs = bs"
  by (simp add: from_utf8_lossy_valid utf8_ok_ascii)

lemma html_body_passes:
  assumes "trim_end_matches (CHR ''/'') uri = uri"
  shows "html_body_surfaces_snippet l uri"
proof -
  let ?html = "''<html><body>rate limited</body></html>''"
  have "\<not> looks_like_json ?html" by (simp add: looks_like_json_cons is_ascii_whitespace_def)
  moreover have "from_utf8_lossy ?html = ?html" by (rule lossy_ascii) simp
  ultimately show ?thesis
    by (simp add: html_body_surfaces_snippet_def request_from_eq [OF assms] try_once_def is_server_error_def
        posts_made_def contains_str_def Let_def)
qed

lemma read_bodies:
  "decode l ''AQIDBAUGBwgJCgsMDQ4PEBESExQVFhcYGRobHB0eHyA='' = Inr secret \<Longrightarrow>
   response_of_json (decode l) sample_ok_body = Some \<lparr>success = True,
     result = Some \<lparr>qt_id = ''8f6d3c2a-1111-4d2e-9b9b-aaaaaaaaaaaa'', qt_name = ''quick-tunnel-abc'',
       qt_hostname = ''abc-123.trycloudflare.com'', qt_account_tag = ''deadbeefcafef00d'', qt_secret = secret\<rparr>,
     errors = []\<rparr>"
  "response_of_json (decode l) quota_body = Some \<lparr>success = False, result = None,
     errors = [\<lparr>code = 1003, message = ''tunnel quota exceeded''\<rparr>]\<rparr>"
  "response_of_json (decode l) bad_request_body = Some \<lparr>success = False, result = None,
     errors = [\<lparr>code = 400, message = ''bad request''\<rparr>]\<rparr>"
  by (simp_all add: response_of_json_def sample_ok_body_def quota_body_def bad_request_body_def
      tunnel_of_json_def api_error_of_json_def b64_deserialize_def)

lemma api_tests_pass:
  assumes uri: "trim_end_matches (CHR ''/'') uri = uri"
    and serde: "serde_reads l sample_ok_body" "serde_reads l quota_body" "serde_reads l bad_request_body"
    and secret: "decode l ''AQIDBAUGBwgJCgsMDQ4PEBESExQVFhcYGRobHB0eHyA='' = Inr secret"
      "length secret = 32" "take 4 secret = [CHR 0x01, CHR 0x02, CHR 0x03, CHR 0x04]"
  shows "happy_path_parses_credentials l uri" "business_error_does_not_retry l uri"
    "five_xx_retries_then_succeeds l uri" "four_xx_does_not_retry l uri"
proof -
  note reads = serde [unfolded serde_reads_def read_bodies(1) [OF secret(1)] read_bodies(2,3), simplified]
  note run = request_from_eq [OF uri] try_once_def is_server_error_def posts_made_def Let_def reads
  show "happy_path_parses_credentials l uri"
    by (simp add: happy_path_parses_credentials_def run secret)
  show "business_error_does_not_retry l uri" "four_xx_does_not_retry l uri"
    by (simp_all add: business_error_does_not_retry_def four_xx_does_not_retry_def run)
  have "\<not> looks_like_json ''service unavailable''"
    by (simp add: looks_like_json_cons is_ascii_whitespace_def)
  then show "five_xx_retries_then_succeeds l uri"
    by (simp add: five_xx_retries_then_succeeds_def run MAX_RETRIES_def)
qed

section \<open>An instance of the libraries\<close>

text \<open>A compact printer, the table of the bodies that the tests send, and base64 with padding.\<close>

definition quoted :: "string \<Rightarrow> bytes" where
  "quoted s = [CHR 0x22] @ s @ [CHR 0x22]"

fun separated :: "bytes list \<Rightarrow> bytes" where
  "separated [] = []"
| "separated [b] = b"
| "separated (b # bs) = b @ '','' @ separated bs"

fun print_json :: "json \<Rightarrow> bytes" where
  "print_json JNull = ''null''"
| "print_json (JBool b) = (if b then ''true'' else ''false'')"
| "print_json (JNum n) = (if n < 0 then ''-'' else []) @ dec (nat \<bar>n\<bar>)"
| "print_json (JStr s) = quoted s"
| "print_json (JArr vs) = ''['' @ separated (map print_json vs) @ '']''"
| "print_json (JObj kvs) = ''{'' @ separated (map (\<lambda>kv. quoted (fst kv) @ '':'' @ print_json (snd kv)) kvs) @ ''}''"

definition b64_value :: "char \<Rightarrow> nat option" where
  "b64_value ch =
     (let n = code_of ch in
      if 65 \<le> n \<and> n \<le> 90 then Some (n - 65)
      else if 97 \<le> n \<and> n \<le> 122 then Some (n - 71)
      else if 48 \<le> n \<and> n \<le> 57 then Some (n + 4)
      else if n = 43 then Some 62
      else if n = 47 then Some 63
      else None)"

definition b64_group :: "char \<Rightarrow> char \<Rightarrow> char \<Rightarrow> char \<Rightarrow> bytes option" where
  "b64_group a b d e =
     (case (b64_value a, b64_value b, b64_value d, b64_value e) of
        (Some p, Some q, Some r, Some s) \<Rightarrow>
          Some [char_of (p * 4 + q div 16), char_of (q mod 16 * 16 + r div 4), char_of (r mod 4 * 64 + s)]
      | _ \<Rightarrow> None)"

fun b64_decode :: "string \<Rightarrow> bytes option" where
  "b64_decode [] = Some []"
| "b64_decode (a # b # d # e # rest) =
     (if e = CHR ''='' then
        (if rest \<noteq> [] then None
         else if d = CHR ''='' then map_option (take 1) (b64_group a b CHR ''A'' CHR ''A'')
         else map_option (take 2) (b64_group a b d CHR ''A''))
      else case (b64_group a b d e, b64_decode rest) of
        (Some g, Some bs) \<Rightarrow> Some (g @ bs)
      | _ \<Rightarrow> None)"
| "b64_decode _ = None"

definition sample_serde :: serde where
  "sample_serde =
     (let engine = (\<lambda>s. ok_or ''invalid base64'' (b64_decode s)) in
      \<lparr>to_vec = print_json,
       from_slice = (\<lambda>body.
         case find (\<lambda>v. print_json v = body) [sample_ok_body, quota_body, bad_request_body] of
           None \<Rightarrow> Inl ''expected value''
         | Some v \<Rightarrow> ok_or ''invalid type'' (response_of_json engine v)),
       decode = engine\<rparr>)"

lemma sample_secret:
  "decode sample_serde ''AQIDBAUGBwgJCgsMDQ4PEBESExQVFhcYGRobHB0eHyA='' = Inr (map char_of [1 :: nat..<33])"
  by (simp add: sample_serde_def b64_decode.simps b64_group_def b64_value_def Let_def; code_simp)

lemma sample_serde_reads:
  "serde_reads sample_serde sample_ok_body" "serde_reads sample_serde quota_body"
  "serde_reads sample_serde bad_request_body"
proof -
  have "print_json sample_ok_body \<noteq> print_json quota_body" "print_json sample_ok_body \<noteq> print_json bad_request_body"
    "print_json quota_body \<noteq> print_json bad_request_body"
    by (simp_all add: sample_ok_body_def quota_body_def bad_request_body_def quoted_def dec.simps digit_char_def)
  moreover have "looks_like_json (print_json v)" if "v \<in> {sample_ok_body, quota_body, bad_request_body}" for v
    using that by (auto simp: sample_ok_body_def quota_body_def bad_request_body_def looks_like_json_cons
        is_ascii_whitespace_def)
  ultimately show "serde_reads sample_serde sample_ok_body" "serde_reads sample_serde quota_body"
    "serde_reads sample_serde bad_request_body"
    by (simp_all add: serde_reads_def sample_serde_def Let_def)
qed

end
