(* ===== verification/Unit_Tests.thy ===== *)
theory Unit_Tests
  imports Api_Tests Stream_Framing Edge Quic_Dial Pool Http_Head Http_Shape Rpc Reactor
begin

text \<open>
  The unit tests of the crate, as executable specifications of the model. A test is a function that says
  whether its assertions hold; what a test takes from its surroundings (the clock, the hash of a shuffle,
  what the operating system and the libraries answer) is an argument. The lemmas show which of these
  arguments a test needs to pass, so that the model is held to what its authors check of the code.
  Tests that need the network (\<open>#[ignore]\<close>) are not modelled.
\<close>

definition from_millis :: "nat \<Rightarrow> duration" where
  "from_millis ms = ms * 1000000"

section \<open>Pure tests\<close>

subsection \<open>src/manager.rs\<close>

definition backoff_curve :: bool where
  "backoff_curve =
     (backoff 1 = from_secs 1 \<and> backoff 2 = from_secs 2 \<and> backoff 3 = from_secs 4
      \<and> backoff 4 = from_secs 8 \<and> backoff 5 = from_secs 16 \<and> backoff 6 = from_secs 30
      \<and> backoff 20 = from_secs 30)"

lemma backoff_curve_passes: backoff_curve
  by (simp add: backoff_curve_def backoff_closed)

subsection \<open>src/proxy.rs\<close>

definition extract_path_strips_scheme :: bool where
  "extract_path_strips_scheme =
     (extract_path ''https://abc.trycloudflare.com/path?q=1'' = ''/path?q=1''
      \<and> extract_path ''https://abc.trycloudflare.com'' = ''/''
      \<and> extract_path ''/relative/x'' = ''/relative/x'')"

lemma extract_path_strips_scheme_passes: extract_path_strips_scheme
  by (simp add: extract_path_strips_scheme_def extract_path_def)

definition ends_with :: "string \<Rightarrow> string \<Rightarrow> bool" where
  "ends_with s t = starts_with (rev s) (rev t)"

definition build_head_includes_method_host_path :: bool where
  "build_head_includes_method_host_path =
     (let req = \<lparr>dest = ''https://abc.trycloudflare.com/foo'', conn_type = Http,
                 metadata = [(HTTP_METHOD_KEY, ''POST''),
                             (HTTP_HOST_KEY, ''abc.trycloudflare.com''),
                             (HTTP_HEADER_KEY @ '':User-Agent'', ''x/1''),
                             (HTTP_HEADER_KEY @ '':X-Stuff'', ''yo'')]\<rparr>;
          head = build_request_head req True
      in starts_with head (''POST /foo HTTP/1.1'' @ CRLF)
         \<and> contains_str head (''Host: abc.trycloudflare.com'' @ CRLF)
         \<and> contains_str head (''User-Agent: x/1'' @ CRLF)
         \<and> contains_str head (''X-Stuff: yo'' @ CRLF)
         \<and> contains_str head (''Connection: keep-alive'' @ CRLF)
         \<and> ends_with head (CRLF @ CRLF))"

definition poolable_request_default :: bool where
  "poolable_request_default =
     (let req = \<lparr>dest = ''https://x/'', conn_type = Http,
                 metadata = [(HTTP_METHOD_KEY, ''GET''), (HTTP_HOST_KEY, ''x'')]\<rparr>;
          s = analyse_request req
      in request_poolable s \<and> rq_content_length s = None)"

definition websocket_request_not_poolable :: bool where
  "websocket_request_not_poolable =
     (let req = \<lparr>dest = ''https://x/ws'', conn_type = Websocket,
                 metadata = [(HTTP_METHOD_KEY, ''GET''), (HTTP_HOST_KEY, ''x''),
                             (HTTP_HEADER_KEY @ '':Upgrade'', ''websocket''),
                             (HTTP_HEADER_KEY @ '':Connection'', ''Upgrade'')]\<rparr>;
          s = analyse_request req
      in rq_is_upgrade s \<and> \<not> request_poolable s)"

definition chunked_request_not_poolable :: bool where
  "chunked_request_not_poolable =
     (let req = \<lparr>dest = ''https://x/upload'', conn_type = Http,
                 metadata = [(HTTP_METHOD_KEY, ''POST''),
                             (HTTP_HEADER_KEY @ '':Transfer-Encoding'', ''chunked'')]\<rparr>;
          s = analyse_request req
      in rq_is_chunked s \<and> \<not> request_poolable s)"

definition response_with_content_length_is_poolable :: bool where
  "response_with_content_length_is_poolable =
     (let hs = [(''Content-Length'', ''42'')];
          s = analyse_response 200 hs
      in response_poolable s \<and> rs_content_length s = Some 42)"

definition response_101_never_poolable :: bool where
  "response_101_never_poolable =
     (let hs = [(''Upgrade'', ''websocket'')];
          s = analyse_response 101 hs
      in rs_is_upgrade s \<and> \<not> response_poolable s)"

lemma test_header_names:
  "to_ascii_lowercase ''User-Agent'' = ''user-agent''" "to_ascii_lowercase ''X-Stuff'' = ''x-stuff''"
  "to_ascii_lowercase ''host'' = ''host''" "to_ascii_lowercase ''connection'' = ''connection''"
  "to_ascii_lowercase ''Upgrade'' = ''upgrade''" "to_ascii_lowercase ''Connection'' = ''connection''"
  "to_ascii_lowercase ''websocket'' = ''websocket''" "to_ascii_lowercase ''chunked'' = ''chunked''"
  "to_ascii_lowercase ''Transfer-Encoding'' = ''transfer-encoding''"
  "to_ascii_lowercase ''Content-Length'' = ''content-length''"
  by (simp_all add: to_ascii_lowercase_def ascii_lower_def; code_simp)+

lemmas test_request_simps =
  Let_def strip_prefix_def meta_def test_header_names HTTP_METHOD_KEY_def HTTP_HOST_KEY_def
  HTTP_HEADER_KEY_def contains_str_def

lemma build_head_passes: build_head_includes_method_host_path
  by (simp add: build_head_includes_method_host_path_def build_request_head_def head_step_def
      eq_ignore_ascii_case_def extract_path_def ends_with_def CRLF_def CR_def LF_def test_request_simps)

lemma analysis_tests_pass:
  "poolable_request_default" "websocket_request_not_poolable" "chunked_request_not_poolable"
  "response_with_content_length_is_poolable" "response_101_never_poolable"
  by (simp_all add: poolable_request_default_def websocket_request_not_poolable_def
      chunked_request_not_poolable_def response_with_content_length_is_poolable_def
      response_101_never_poolable_def analyse_request_def request_step_def request_poolable_def
      analyse_response_def response_step_def response_poolable_def test_request_simps
      parse_u64_def is_digit_def digit_val_def)

subsection \<open>src/rpc.rs\<close>

definition default_options_carry_features :: "uuid \<Rightarrow> string \<Rightarrow> string \<Rightarrow> bool" where
  "default_options_carry_features new_v4 os arch_name =
     (let o' = default_for_quick_tunnel new_v4 os arch_name ''test/0.1''
      in ''serialized_headers'' \<in> set (features o') \<and> length (client_id o') = 16
         \<and> contains_str (version o') ''test/0.1'')"

definition duplicate_sentinel_matches_upstream :: bool where
  "duplicate_sentinel_matches_upstream =
     (DUPLICATE_CONNECTION_ERROR
      = ''edge already has connection registered for the given connection identifier'')"

lemma default_options_carry_features_passes:
  "default_options_carry_features new_v4 os arch_name = (length new_v4 = 16)"
  by (simp add: default_options_carry_features_def default_for_quick_tunnel_def contains_str_def Let_def)

lemma duplicate_sentinel_passes: duplicate_sentinel_matches_upstream
  by (simp add: duplicate_sentinel_matches_upstream_def DUPLICATE_CONNECTION_ERROR_def)

section \<open>Tests with a clock and an environment\<close>

subsection \<open>src/edge.rs\<close>

definition ipv4_octets :: "u8 \<Rightarrow> u8 \<Rightarrow> u8 \<Rightarrow> u8 \<Rightarrow> ip_addr" where
  "ipv4_octets a b c d =
     IpV4 (ucast a * 0x1000000 + ucast b * 0x10000 + ucast c * 0x100 + ucast d)"

definition fake :: "u8 \<Rightarrow> edge_addr" where
  "fake ip = \<lparr>ea_ip = ipv4_octets 198 41 192 ip, ea_port = 7844, ea_version = V4\<rparr>"

definition filter_matches_auto :: bool where
  "filter_matches_auto =
     (let e = fake 1
      in edge_matches e Auto \<and> edge_matches e V4Only \<and> \<not> edge_matches e V6Only)"

lemma filter_matches_auto_passes: filter_matches_auto
  by (simp add: filter_matches_auto_def fake_def)

text \<open>The derived order of \<open>IpAddr\<close>: the variants in their order, then the address.\<close>

instantiation ip_addr :: linorder
begin

fun less_eq_ip_addr :: "ip_addr \<Rightarrow> ip_addr \<Rightarrow> bool" where
  "less_eq_ip_addr (IpV4 a) (IpV4 b) = (a \<le> b)"
| "less_eq_ip_addr (IpV4 a) (IpV6 b) = True"
| "less_eq_ip_addr (IpV6 a) (IpV4 b) = False"
| "less_eq_ip_addr (IpV6 a) (IpV6 b) = (a \<le> b)"

definition less_ip_addr :: "ip_addr \<Rightarrow> ip_addr \<Rightarrow> bool" where
  "less_ip_addr a b = (a \<le> b \<and> \<not> b \<le> a)"

instance
proof
  fix x y z :: ip_addr
  show "(x < y) = (x \<le> y \<and> \<not> y \<le> x)" by (rule less_ip_addr_def)
  show "x \<le> x" by (cases x) simp_all
  show "x \<le> y \<Longrightarrow> y \<le> z \<Longrightarrow> x \<le> z" by (cases x; cases y; cases z) simp_all
  show "x \<le> y \<Longrightarrow> y \<le> x \<Longrightarrow> x = y" by (cases x; cases y) simp_all
  show "x \<le> y \<or> y \<le> x" by (cases x; cases y) auto
qed

end

text \<open>\<open>h\<close> is the hash the shuffle draws.\<close>

definition shuffle_preserves_set :: "u64 \<Rightarrow> bool" where
  "shuffle_preserves_set h =
     (let input = map fake [0, 1, 2, 3, 4, 5, 6, 7];
          out = shuffled h input;
          in_ips = map ea_ip input;
          out_ips = map ea_ip out
      in length out = length input \<and> sort in_ips = sort out_ips)"

lemma shuffle_preserves_set_passes: "shuffle_preserves_set h"
proof -
  have "sort (map ea_ip xs) = sort (map ea_ip (shuffled h xs))" for xs
    by (rule properties_for_sort) simp_all
  then show ?thesis by (simp only: shuffle_preserves_set_def Let_def length_shuffled simp_thms)
qed

text \<open>
  The entry is stored at \<open>stored\<close> and asked for at \<open>now\<close>; \<open>disc\<close> is what a discovery would answer.
\<close>

definition registry_serves_cached_within_ttl ::
  "instant \<Rightarrow> instant \<Rightarrow> instant \<Rightarrow> u64 \<Rightarrow> (ip_version_filter \<Rightarrow> tunnel_error + edge_addr list) \<Rightarrow> bool" where
  "registry_serves_cached_within_ttl stored now now' h disc =
     (let reg = with_ttl (from_secs 60);
          reg = reg\<lparr>reg_inner := Some \<lparr>ca_edges = [fake 7, fake 8],
                                      ca_expires_at = stored + from_secs 60, ca_filter = Auto\<rparr>\<rparr>
      in case fst (get_or_refresh Auto now now' h disc reg) of
           Inl e \<Rightarrow> False
         | Inr got \<Rightarrow> length got = 2)"

lemma registry_serves_cached_passes:
  "now < stored + from_secs 60 \<Longrightarrow> registry_serves_cached_within_ttl stored now now' h disc"
  by (simp add: registry_serves_cached_within_ttl_def get_or_refresh_def with_ttl_def Let_def)

subsection \<open>src/pool.rs\<close>

text \<open>
  What happens between the three calls on the pool: the connects of the first and of the second acquire,
  the readings of the clock, and the local address of a socket. An \<open>unwrap\<close> of an error fails the test.
\<close>

record 't pool_run =
  first_connect :: "u16 \<Rightarrow> string + 't"
  first_clock :: "nat \<Rightarrow> instant"
  release_at :: instant
  second_connect :: "u16 \<Rightarrow> string + 't"
  second_clock :: "nat \<Rightarrow> instant"

definition acquire_release_acquire ::
  "'t pool_run \<Rightarrow> 't pool \<Rightarrow> ('t \<Rightarrow> 't \<Rightarrow> bool) \<Rightarrow> bool" where
  "acquire_release_acquire r pool assertion =
     (case acquire (first_clock r) (first_connect r) pool of
        (Inl e, _) \<Rightarrow> False
      | (Inr s1, pool) \<Rightarrow>
          (case acquire (second_clock r) (second_connect r) (release (release_at r) s1 pool) of
             (Inl e, _) \<Rightarrow> False
           | (Inr s2, _) \<Rightarrow> assertion s1 s2))"

definition acquire_after_release_returns_same_stream ::
  "u16 \<Rightarrow> ('t \<Rightarrow> 'a) \<Rightarrow> 't pool_run \<Rightarrow> bool" where
  "acquire_after_release_returns_same_stream port local_addr r =
     acquire_release_acquire r (pool_new port) (\<lambda>s1 s2. local_addr s2 = local_addr s1)"

definition pool_evicts_stale_entries :: "u16 \<Rightarrow> ('t \<Rightarrow> 'a) \<Rightarrow> 't pool_run \<Rightarrow> bool" where
  "pool_evicts_stale_entries port local_addr r =
     (let pool = (pool_new port)\<lparr>idle_ttl := from_millis 50\<rparr>
      in acquire_release_acquire r pool (\<lambda>s1 s2. local_addr s2 \<noteq> local_addr s1))"

lemma acquire_release_acquire_fresh:
  assumes "idle pool = []" and "0 < max_idle pool" and "first_connect r (pool_port pool) = Inr s"
  shows "acquire_release_acquire r pool P =
    (if elapsed (second_clock r 0) (release_at r) \<le> idle_ttl pool then P s s
     else case second_connect r (pool_port pool) of Inl e \<Rightarrow> False | Inr s2 \<Rightarrow> P s s2)"
  using assms
  by (simp add: acquire_release_acquire_def acquire_def release_def acquire_loop.simps Let_def
      split: sum.splits)

lemma pool_tests_pass:
  assumes "first_connect r port = Inr s"
  shows "elapsed (second_clock r 0) (release_at r) \<le> from_secs 30 \<Longrightarrow>
      acquire_after_release_returns_same_stream port local_addr r"
    and "release_at r + from_millis 100 \<le> second_clock r 0 \<Longrightarrow> second_connect r port = Inr s2 \<Longrightarrow>
      local_addr s2 \<noteq> local_addr s \<Longrightarrow> pool_evicts_stale_entries port local_addr r"
proof -
  have new: "idle ((pool_new port :: 'a pool)\<lparr>idle_ttl := ttl\<rparr>) = []"
    "max_idle ((pool_new port :: 'a pool)\<lparr>idle_ttl := ttl\<rparr>) = 16"
    "pool_port ((pool_new port :: 'a pool)\<lparr>idle_ttl := ttl\<rparr>) = port"
    "idle (pool_new port :: 'a pool) = []" "max_idle (pool_new port :: 'a pool) = 16"
    "pool_port (pool_new port :: 'a pool) = port" "idle_ttl (pool_new port :: 'a pool) = from_secs 30" for ttl
    by (simp_all add: pool_new_def DEFAULT_MAX_IDLE_def DEFAULT_IDLE_TTL_def)
  show "elapsed (second_clock r 0) (release_at r) \<le> from_secs 30 \<Longrightarrow>
      acquire_after_release_returns_same_stream port local_addr r"
    unfolding acquire_after_release_returns_same_stream_def
    by (subst acquire_release_acquire_fresh [where s = s]) (simp_all add: new assms)
  show "release_at r + from_millis 100 \<le> second_clock r 0 \<Longrightarrow> second_connect r port = Inr s2 \<Longrightarrow>
      local_addr s2 \<noteq> local_addr s \<Longrightarrow> pool_evicts_stale_entries port local_addr r"
    unfolding pool_evicts_stale_entries_def Let_def
    by (subst acquire_release_acquire_fresh [where s = s])
      (auto simp: new assms from_millis_def elapsed_def)
qed

subsection \<open>src/quic_dial.rs\<close>

text \<open>
  What the TLS libraries and the UDP bind answer to \<open>build_endpoint\<close>. Dropping the endpoint has no effect
  that the test sees. In the other tests \<open>build\<close> is what \<open>build_endpoint\<close> gave.
\<close>

record 'r tls_world =
  tw_once :: once_state
  tw_accepts :: "'r \<Rightarrow> bool"
  tw_native :: "string + 'r list"
  tw_pem :: "(string + 'r) list"
  tw_quic_refuses :: "'r tls_config \<Rightarrow> string option"
  tw_bind :: "string \<Rightarrow> string + unit"

definition endpoint_builds :: "'r tls_world \<Rightarrow> bool" where
  "endpoint_builds w =
     (case fst (build_endpoint (tw_once w)
             (build_client_config (tw_accepts w) (tw_native w) (tw_pem w) (tw_quic_refuses w)) (tw_bind w)) of
        Inl e \<Rightarrow> False
      | Inr endpoint \<Rightarrow> True)"

definition dial_any_empty_short_circuits ::
  "(tunnel_error \<Rightarrow> string) \<Rightarrow> tunnel_error + 'c endpoint \<Rightarrow> bool" where
  "dial_any_empty_short_circuits to_string build =
     (case build of
        Inl e \<Rightarrow> False
      | Inr endpoint \<Rightarrow>
          (case dial_any to_string endpoint [] of
             Never \<Rightarrow> False
           | Ready t (Inr c) \<Rightarrow> False
           | Ready t (Inl (QuicDial attempts last')) \<Rightarrow> attempts = 0
           | Ready t (Inl other) \<Rightarrow> False))"

definition dial_unreachable_addr_times_out_fast ::
  "(tunnel_error \<Rightarrow> string) \<Rightarrow> tunnel_error + 'c endpoint \<Rightarrow> bool" where
  "dial_unreachable_addr_times_out_fast to_string build =
     (case build of
        Inl e \<Rightarrow> False
      | Inr endpoint \<Rightarrow>
          (let bogus = \<lparr>ea_ip = ipv4_octets 192 0 2 1, ea_port = 7844, ea_version = V4\<rparr> in
           case timeout (from_secs 12) (dial_any to_string endpoint [bogus]) of
             None \<Rightarrow> False
           | Some (Inr c) \<Rightarrow> False
           | Some (Inl e) \<Rightarrow> True))"

text \<open>The native roots need not load, and no root need be accepted.\<close>

lemma endpoint_builds_passes:
  assumes "tw_bind w ''0.0.0.0:0'' = Inr ()" and "\<forall>tls. tw_quic_refuses w tls = None"
    and "\<forall>item \<in> set (tw_pem w). \<exists>c. item = Inr c"
  shows "endpoint_builds w"
proof -
  have "tw_pem w = map Inr (map projr (tw_pem w))"
    using assms(3) by (auto intro!: nth_equalityI simp: in_set_conv_nth) (metis nth_mem sum.sel(2))
  then have "load_embedded (tw_accepts w) (tw_pem w) rs 0
      = Inr (rs @ filter (tw_accepts w) (map projr (tw_pem w)),
             length (filter (tw_accepts w) (map projr (tw_pem w))))" for rs
    unfolding load_embedded_Inr_iff by (intro exI [of _ "map projr (tw_pem w)"]) simp
  with assms(1,2) show ?thesis
    by (simp add: endpoint_builds_def build_endpoint_def build_client_config_def Let_def)
qed

lemma dial_any_empty_passes: "dial_any_empty_short_circuits to_string (Inr endpoint)"
  by (simp add: dial_any_empty_short_circuits_def dial_any_def)

text \<open>The outer limit of the test is never reached, whatever the endpoint does.\<close>

lemma dial_unreachable_passes:
  "dial_unreachable_addr_times_out_fast to_string (Inr endpoint) \<longleftrightarrow>
   (\<nexists>c. answers endpoint \<lparr>ea_ip = ipv4_octets 192 0 2 1, ea_port = 7844, ea_version = V4\<rparr> c)"
proof -
  let ?b = "\<lparr>ea_ip = ipv4_octets 192 0 2 1, ea_port = 7844, ea_version = V4\<rparr>"
  obtain t r where r: "dial_any to_string endpoint [?b] = Ready t r" "t \<le> from_secs 10"
    using dial_any_ends [of "[?b]" to_string endpoint] by auto
  have "from_secs 10 \<le> from_secs 12" by simp
  with r have "timeout (from_secs 12) (dial_any to_string endpoint [?b]) = Some r"
    unfolding timeout_Some_iff by (meson order_trans)
  moreover have "(\<exists>c. r = Inr c) \<longleftrightarrow> (\<exists>c. answers endpoint ?b c)"
    using r(1) by (cases endpoint ?b rule: dial_cases) (auto simp: dial_any_def)
  ultimately show ?thesis
    by (auto simp: dial_unreachable_addr_times_out_fast_def split: sum.splits)
qed

subsection \<open>src/stream.rs\<close>

text \<open>A cursor over a vector takes every write.\<close>

definition cursor_writer :: sink where
  "cursor_writer = open_sink"

definition cursor_reader :: "bytes \<Rightarrow> source" where
  "cursor_reader buf = [Data buf]"

definition roundtrip_response_through_buffer :: "('s, 'p) capnp \<Rightarrow> bool" where
  "roundtrip_response_through_buffer c =
     (case write_connect_response c ''''
             [(''HttpStatus'', ''200''), (''HttpHeader:Content-Type'', ''text/plain'')] cursor_writer of
        (Done _, cursor) \<Rightarrow>
          (let buf = written cursor in
           take 6 buf = DATA_STREAM_SIGNATURE \<and> take 2 (drop 6 buf) = PROTOCOL_V1
           \<and> length buf > 8 + 8)
      | _ \<Rightarrow> False)"

definition rejects_wrong_signature :: "('s, 'p) capnp \<Rightarrow> bool" where
  "rejects_wrong_signature c =
     (let buf = replicate 16 (CHR 0x00)
      in case fst (read_connect_request c (cursor_reader buf)) of
           Failed (Internal s) \<Rightarrow> contains_str s ''signature''
         | _ \<Rightarrow> False)"

lemma roundtrip_response_passes:
  "roundtrip_response_through_buffer c \<longleftrightarrow>
   8 < length (write_message c (build_connect_response c ''''
     [(''HttpStatus'', ''200''), (''HttpHeader:Content-Type'', ''text/plain'')]))"
proof -
  have "healthy open_sink" by (simp add: healthy_def open_sink_def)
  then show ?thesis
    by (simp add: roundtrip_response_through_buffer_def cursor_writer_def write_connect_response_healthy
        response_frame_def open_sink_def DATA_STREAM_SIGNATURE_def PROTOCOL_V1_def Let_def)
qed

lemma rejects_wrong_signature_passes: "rejects_wrong_signature c"
proof -
  have r: "read_exact 6 (cursor_reader (replicate 16 (CHR 0x00)))
      = (Done (replicate 6 (CHR 0x00)), [Data (replicate 10 (CHR 0x00))])"
    by (simp add: cursor_reader_def read_exact.simps numeral_eq_Suc)
  have "contains_str (''unexpected stream signature: '' @ t) ''signature''" for t
    by (simp add: contains_str_def)
  moreover have "replicate 6 (CHR 0x00) \<noteq> DATA_STREAM_SIGNATURE"
    by (simp add: DATA_STREAM_SIGNATURE_def numeral_eq_Suc)
  ultimately show ?thesis
    unfolding rejects_wrong_signature_def Let_def read_connect_request_def r io_err_def by simp
qed

section \<open>All of them\<close>

text \<open>
  What the tests take from their surroundings: the libraries, the two pool runs, the clock of the registry,
  the endpoint and the platform.
\<close>

record ('s, 'p, 't, 'a, 'c, 'r) test_bench =
  tb_serde :: serde
  tb_uri :: string
  tb_capnp :: "('s, 'p) capnp"
  tb_port :: u16
  tb_local_addr :: "'t \<Rightarrow> 'a"
  tb_reuse :: "'t pool_run"
  tb_stale :: "'t pool_run"
  tb_stored :: instant
  tb_asked :: instant
  tb_refreshed :: instant
  tb_hash :: u64
  tb_discover :: "ip_version_filter \<Rightarrow> tunnel_error + edge_addr list"
  tb_tls :: "'r tls_world"
  tb_endpoint :: "'c endpoint"
  tb_show :: "tunnel_error \<Rightarrow> string"
  tb_uuid :: uuid
  tb_os :: string
  tb_arch :: string

definition all_unit_tests :: "('s, 'p, 't, 'a, 'c, 'r) test_bench \<Rightarrow> bool list" where
  "all_unit_tests b =
     [happy_path_parses_credentials (tb_serde b) (tb_uri b),
      business_error_does_not_retry (tb_serde b) (tb_uri b),
      html_body_surfaces_snippet (tb_serde b) (tb_uri b),
      five_xx_retries_then_succeeds (tb_serde b) (tb_uri b),
      four_xx_does_not_retry (tb_serde b) (tb_uri b),
      looks_like_json_handles_leading_whitespace,
      filter_matches_auto, shuffle_preserves_set (tb_hash b),
      registry_serves_cached_within_ttl (tb_stored b) (tb_asked b) (tb_refreshed b) (tb_hash b) (tb_discover b),
      backoff_curve,
      acquire_after_release_returns_same_stream (tb_port b) (tb_local_addr b) (tb_reuse b),
      pool_evicts_stale_entries (tb_port b) (tb_local_addr b) (tb_stale b),
      extract_path_strips_scheme, build_head_includes_method_host_path, poolable_request_default,
      websocket_request_not_poolable, chunked_request_not_poolable,
      response_with_content_length_is_poolable, response_101_never_poolable,
      endpoint_builds (tb_tls b), dial_any_empty_short_circuits (tb_show b) (Inr (tb_endpoint b)),
      dial_unreachable_addr_times_out_fast (tb_show b) (Inr (tb_endpoint b)),
      default_options_carry_features (tb_uuid b) (tb_os b) (tb_arch b), duplicate_sentinel_matches_upstream,
      roundtrip_response_through_buffer (tb_capnp b), rejects_wrong_signature (tb_capnp b)]"

text \<open>
  What the documentation of the libraries and of the platform promises to a test: JSON bodies are read field
  by field and base64 is decoded, a connect to the listener succeeds, a socket kept open has an address of
  its own, the sleep of the stale test lasts, the other tests take less than the times to live, nothing
  answers at a TEST-NET address, an id has 16 bytes, a message is
  longer than its first word, the embedded roots are well-formed PEM, and a UDP port can be bound.
\<close>

definition bench_libraries :: "('s, 'p, 't, 'a, 'c, 'r) test_bench \<Rightarrow> bool" where
  "bench_libraries b \<longleftrightarrow>
     trim_end_matches (CHR ''/'') (tb_uri b) = tb_uri b
     \<and> list_all (serde_reads (tb_serde b)) [sample_ok_body, quota_body, bad_request_body]
     \<and> decode (tb_serde b) ''AQIDBAUGBwgJCgsMDQ4PEBESExQVFhcYGRobHB0eHyA='' = Inr (map char_of [1 :: nat..<33])
     \<and> 8 < length (write_message (tb_capnp b) (build_connect_response (tb_capnp b) ''''
             [(''HttpStatus'', ''200''), (''HttpHeader:Content-Type'', ''text/plain'')]))
     \<and> length (tb_uuid b) = 16
     \<and> (\<forall>tls. tw_quic_refuses (tb_tls b) tls = None)
     \<and> (\<forall>item \<in> set (tw_pem (tb_tls b)). \<exists>c. item = Inr c)"

definition bench_platform :: "('s, 'p, 't, 'a, 'c, 'r) test_bench \<Rightarrow> bool" where
  "bench_platform b \<longleftrightarrow>
     (\<exists>s. first_connect (tb_reuse b) (tb_port b) = Inr s)
     \<and> elapsed (second_clock (tb_reuse b) 0) (release_at (tb_reuse b)) \<le> from_secs 30
     \<and> (\<exists>s s2. first_connect (tb_stale b) (tb_port b) = Inr s \<and> second_connect (tb_stale b) (tb_port b) = Inr s2
          \<and> tb_local_addr b s2 \<noteq> tb_local_addr b s)
     \<and> release_at (tb_stale b) + from_millis 100 \<le> second_clock (tb_stale b) 0
     \<and> tw_bind (tb_tls b) ''0.0.0.0:0'' = Inr ()
     \<and> tb_asked b < tb_stored b + from_secs 60
     \<and> (\<nexists>c. answers (tb_endpoint b) \<lparr>ea_ip = ipv4_octets 192 0 2 1, ea_port = 7844, ea_version = V4\<rparr> c)"

lemma test_secret:
  "length (map char_of [1 :: nat..<33]) = 32"
  "take 4 (map char_of [1 :: nat..<33]) = [CHR 0x01, CHR 0x02, CHR 0x03, CHR 0x04]"
  by (simp, code_simp)

text \<open>The tests of the crate. Every unit test that runs by default holds of the model, for any libraries
  that keep their documented laws and any machine on which the tests can run at all: a free port, a clock
  that gets past the time to live, and no edge behind the address reserved for documentation.\<close>

theorem unit_tests_hold:
  assumes "bench_libraries b" and "bench_platform b"
  shows "list_all (\<lambda>t. t) (all_unit_tests b)"
proof -
  have "endpoint_builds (tb_tls b)"
    using assms by (auto simp: bench_libraries_def bench_platform_def intro!: endpoint_builds_passes)
  moreover have "acquire_after_release_returns_same_stream (tb_port b) (tb_local_addr b) (tb_reuse b)"
    "pool_evicts_stale_entries (tb_port b) (tb_local_addr b) (tb_stale b)"
    using assms(2) by (auto simp: bench_platform_def intro: pool_tests_pass)
  moreover have "happy_path_parses_credentials (tb_serde b) (tb_uri b)"
    "business_error_does_not_retry (tb_serde b) (tb_uri b)" "html_body_surfaces_snippet (tb_serde b) (tb_uri b)"
    "five_xx_retries_then_succeeds (tb_serde b) (tb_uri b)" "four_xx_does_not_retry (tb_serde b) (tb_uri b)"
    using assms(1) api_tests_pass [OF _ _ _ _ _ test_secret, of "tb_uri b" "tb_serde b"]
    by (auto simp: bench_libraries_def html_body_passes)
  ultimately show ?thesis
    using assms
    by (simp add: all_unit_tests_def bench_libraries_def bench_platform_def looks_like_json_passes
        filter_matches_auto_passes shuffle_preserves_set_passes registry_serves_cached_passes
        backoff_curve_passes extract_path_strips_scheme_passes build_head_passes analysis_tests_pass
        dial_any_empty_passes dial_unreachable_passes default_options_carry_features_passes
        duplicate_sentinel_passes roundtrip_response_passes rejects_wrong_signature_passes)
qed

text \<open>A bench: sockets are numbers, the second connect gives another one, and no edge answers.\<close>

definition sample_run :: "instant \<Rightarrow> nat pool_run" where
  "sample_run again =
     \<lparr>first_connect = (\<lambda>_. Inr 1), first_clock = (\<lambda>_. 0), release_at = 5,
      second_connect = (\<lambda>_. Inr 2), second_clock = (\<lambda>_. again)\<rparr>"

definition sample_bench :: "(tree_struct, tree_ptr, nat, nat, unit, bytes) test_bench" where
  "sample_bench =
     \<lparr>tb_serde = sample_serde, tb_uri = ''http://127.0.0.1:4711'', tb_capnp = tree_api, tb_port = 80,
      tb_local_addr = (\<lambda>s. s), tb_reuse = sample_run 9, tb_stale = sample_run (from_secs 1),
      tb_stored = 0, tb_asked = 3, tb_refreshed = 4, tb_hash = 11, tb_discover = (\<lambda>_. Inl Shutdown),
      tb_tls = \<lparr>tw_once = \<lparr>once_done = False, installs = 0\<rparr>, tw_accepts = (\<lambda>_. True), tw_native = Inl ''no roots'',
                tw_pem = [Inr ''root'', Inr ''root2''], tw_quic_refuses = (\<lambda>_. None), tw_bind = (\<lambda>_. Inr ())\<rparr>,
      tb_endpoint = (\<lambda>_ _. Inr Never), tb_show = (\<lambda>_. ''''), tb_uuid = ''0123456789abcdef'',
      tb_os = ''linux'', tb_arch = ''x86_64''\<rparr>"

theorem unit_tests_hold_witness: "list_all (\<lambda>t. t) (all_unit_tests sample_bench)"
proof (rule unit_tests_hold)
  show "bench_platform sample_bench"
    by (simp add: bench_platform_def sample_bench_def sample_run_def elapsed_def from_secs_def from_millis_def
        answers_def)
  have "8 < length (write_message tree_api (build_connect_response tree_api ''''
             [(''HttpStatus'', ''200''), (''HttpHeader:Content-Type'', ''text/plain'')]))"
    by (simp add: build_connect_response_eq connect_response_set_metadata_def connect_response_set_error_def
        connect_response_STRUCT_SIZE_def tree_api_def tree_write_def enc_bytes_def enc_nat_def Let_def)
  moreover have "trim_end_matches (CHR ''/'') ''http://127.0.0.1:4711'' = ''http://127.0.0.1:4711''"
    by (simp add: trim_end_matches_def)
  ultimately show "bench_libraries sample_bench"
    by (simp add: bench_libraries_def sample_bench_def sample_secret sample_serde_reads)
qed

end
