(* ===== verification/Spec2Isabelle.thy ===== *)
theory Spec2Isabelle
  imports Tunnel_Api Edge Quic_Dial Spike Rpc Supervisor Manager Reactor_Loop Keep_Alive Schema_Agree
    Builder_Accessors Interfaces Client_Impls Accessor_Roundtrip Stream_Effects Serve_Example Unit_Tests
begin

text \<open>
  A model of \<^verbatim>\<open>cloudflare-quick-tunnel\<close>, a Rust client that opens a Cloudflare quick tunnel and
  proxies what the edge sends through it to a server on the same host.

  \<^bold>\<open>The program.\<close> \<open>QuickTunnelManager::start\<close> (\<^verbatim>\<open>src/manager.rs\<close>) asks an HTTP API for a tunnel
  (\<^verbatim>\<open>src/api.rs\<close>), and per connection finds the edge's addresses over DNS (\<^verbatim>\<open>src/edge.rs\<close>), dials one
  of them over QUIC (\<^verbatim>\<open>src/quic_dial.rs\<close>) and registers over Cap'n Proto RPC (\<^verbatim>\<open>src/rpc.rs\<close>,
  \<^verbatim>\<open>src/proto_gen\<close>). Each registered connection is owned by a reactor (\<^verbatim>\<open>src/manager.rs\<close>), which runs
  the accept loop (\<^verbatim>\<open>src/supervisor.rs\<close>) and reconnects when the connection is lost. Every accepted
  stream is a request: it is parsed (\<^verbatim>\<open>src/stream.rs\<close>) and proxied to a local socket
  (\<^verbatim>\<open>src/proxy.rs\<close>), which may come from and go back to a pool of idle sockets (\<^verbatim>\<open>src/pool.rs\<close>).
  Failures of all parts are the \<open>TunnelError\<close> of \<^verbatim>\<open>src/error.rs\<close>.

  \<^bold>\<open>The theories.\<close> Names of definitions are those of the functions and types they model.
  \<^item> \<^verbatim>\<open>Prelude\<close>: strings as byte lists, the routines of the Rust library the crate calls (number
    parsing and printing, UTF-8, ASCII case, searching), durations, futures and \<open>timeout\<close>, and the
    \<open>outcome\<close> of a computation: \<open>Done\<close>, \<open>Failed\<close> or \<open>Pending\<close> (it never returns).
  \<^item> \<^verbatim>\<open>Io\<close>: byte streams. A \<open>source\<close> is the script of what the peer does (chunks, an error,
    silence), a \<open>sink\<close> what was written and how the peer fails. \<open>avail\<close> and \<open>ending_of\<close> abstract a
    source from its chunks, and the lemmas about reading are stated with them.
  \<^item> \<^verbatim>\<open>Tunnel_Error\<close>: \<^verbatim>\<open>src/error.rs\<close> and \<open>is_transient\<close>.
  \<^item> \<^verbatim>\<open>Backoff\<close>: the contract of a backoff schedule, a locale; both schedules are interpretations.
  \<^item> \<^verbatim>\<open>Tunnel_Api\<close>: \<open>try_once\<close> and the retry loop of \<open>request_tunnel\<close>.
  \<^item> \<^verbatim>\<open>Edge\<close>: SRV resolution with its fallback, and the registry cache, as an interpretation of a
    locale of expiring caches; lookups of the registry one after the other.
  \<^item> \<^verbatim>\<open>Quic_Dial\<close>: \<open>dial\<close> and \<open>dial_any\<close> as futures, with the time they take, and the client configuration.
  \<^item> \<^verbatim>\<open>Pool\<close>: \<open>acquire\<close> and \<open>release\<close>, the contract of a socket cache as a locale, and the system of
    all streams that share the pool as a step relation.
  \<^item> \<^verbatim>\<open>Spike\<close>: \<^verbatim>\<open>src/spike/src/main.rs\<close>, the experiment before the library, compared with the two above.
  \<^item> \<^verbatim>\<open>Capnp\<close>: the operations of the Cap'n Proto library as a record, their laws as the locale
    \<open>capnp_api\<close>, and an implementation of the laws.
  \<^item> The generated files of \<^verbatim>\<open>src/proto_gen\<close>. Accessors: \<^verbatim>\<open>Quic_Metadata\<close> (request streams),
    \<^verbatim>\<open>Tunnel_Rpc_Schema\<close> (registration and the served interfaces), \<^verbatim>\<open>Legacy_Schema\<close> (the older tunnel
    protocol), \<^verbatim>\<open>Edge_Calls_Schema\<close> (session and configuration calls). The encoded schema:
    \<^verbatim>\<open>Schema_Nodes\<close> and \<^verbatim>\<open>Server_Nodes\<close>, with a reader of nodes. \<^verbatim>\<open>Introspection\<close>: the tables by which the
    library's reflection finds a struct's schema and field types. \<^verbatim>\<open>Interfaces\<close>: requests, default methods
    and dispatch, with the contract of a dispatcher as a locale.
  \<^item> \<^verbatim>\<open>Schema_Reader\<close>: what the encoded schema says of fields, and reading and writing a field by it.
    \<^verbatim>\<open>Schema_Layout\<close>, \<^verbatim>\<open>Schema_Decls\<close>, \<^verbatim>\<open>Schema_Sound\<close>: the tables of all 42 structs describe consistent
    layouts; \<^verbatim>\<open>Schema_Annotations\<close>: no node has an annotation. \<^verbatim>\<open>Schema_Agree\<close>, \<^verbatim>\<open>Schema_Accessors\<close>, \<^verbatim>\<open>Builder_Accessors\<close>: the accessors follow them;
    \<^verbatim>\<open>Accessor_Roundtrip\<close>: what the generated setters store, the generated getters give.
  \<^item> \<^verbatim>\<open>Message_Builders\<close>: the accessors of the generated builders and pipelines. \<^verbatim>\<open>Struct_Impls\<close>: the trait
    implementations of every struct's \<open>Reader\<close> and \<open>Builder\<close>. \<^verbatim>\<open>Client_Impls\<close>: those of the interface clients.
  \<^item> \<^verbatim>\<open>Connect_Request\<close> and \<^verbatim>\<open>Stream_Framing\<close>: \<^verbatim>\<open>src/stream.rs\<close>.
  \<^item> \<^verbatim>\<open>Http_Shape\<close>, \<^verbatim>\<open>Http_Head\<close>, \<^verbatim>\<open>Response_Head\<close>, \<^verbatim>\<open>Pumps\<close>, \<^verbatim>\<open>Proxy\<close>: \<^verbatim>\<open>src/proxy.rs\<close>, from the
    shape analysis to \<open>handle_inbound_stream\<close>. The response parser of httparse is a parameter whose
    laws are the locale \<open>http_parser\<close>. \<^verbatim>\<open>Proxy_Correct\<close> holds what they deliver.
  \<^item> \<^verbatim>\<open>Keep_Alive\<close>: the tasks that a supervisor spawns, over the shared counters and pool, when each ends
    before the next begins.
  \<^item> \<^verbatim>\<open>Stream_Effects\<close>: what a request does to the counters and the pool that it shares with all other
    streams, and streams as steps of the system in \<^verbatim>\<open>Pool\<close>.
  \<^item> \<^verbatim>\<open>Rpc\<close>: the register call, the reply, the driver thread's loop and what follows it, over the
    polls of the library's RPC runtime, and the control session.
  \<^item> \<^verbatim>\<open>Supervisor\<close>: the accept loop over the polls of its select.
  \<^item> \<^verbatim>\<open>Reactor\<close>: the retry loops as functions, and the life of all reactors with the shared
    \<open>Notify\<close> as a transition system; \<^verbatim>\<open>Reactor_Correct\<close> its invariant and what a shutdown does;
    \<^verbatim>\<open>Reactor_Loop\<close> the reactor tasks as whole functions, which refine the transition system, and a bound
    on the steps of the legs.
  \<^item> \<^verbatim>\<open>Manager\<close>: the builder, \<open>connect_cycle\<close>, \<open>start\<close>, and the handle with \<open>shutdown\<close>.
  \<^item> \<^verbatim>\<open>Serve_Example\<close>: \<^verbatim>\<open>examples/serve.rs\<close>, the command over the library.
  \<^item> \<^verbatim>\<open>Api_Tests\<close> and \<^verbatim>\<open>Unit_Tests\<close>: the unit tests of the crate, as functions of the libraries and of
    the machine they run on, with what a test needs of these to pass on the model.

  \<^bold>\<open>What the lemmas show.\<close> Framing and registration round trips for every cut of the bytes into
  chunks; equivalence of the header analyses, the head builder, the retry loops and the supervisor
  with reference definitions; that the pumps are exact; that the pool never shares a socket and only
  gets one back after an answer whose end was known, however streams interleave; that requests of known
  length that follow each other share one connection; that the reactors register with the right indices and
  flags; that the reactor function refines the legs' phases and holds one control session at a time; that the
  legs end when nothing registers any more; when a shutdown ends every reactor and when it is
  lost; that the generated accessors, tables and dispatchers agree with the schema that is encoded beside
  them; and, below, what a whole inbound stream delivers to both sides.

  \<^bold>\<open>Bounds.\<close> Counters are 64-bit words and wrap. Lengths and durations are natural numbers; the
  truncated subtraction of a response's remaining length is the code's saturating one, and parsed
  lengths are below \<open>2 ^ 64\<close>. No definition of the program needs fuel: each loop consumes its source
  or counts attempts. Only the sample message decoder in \<^verbatim>\<open>Capnp\<close> has fuel, which bounds the depth of
  a message and is written in front of it.

  \<^bold>\<open>Not modelled.\<close> Logging, the tokio runtime, TLS, QUIC and DNS themselves, and the RPC wire protocol.
  The tests against the live service and the ignored unit tests need the network, and \<^verbatim>\<open>src/lib.rs\<close> only
  declares modules. Of the generated files, what the library does behind the traits is a parameter: how a
  struct is copied, made canonical or given a table of capabilities, and what it makes of a dynamic value.
  A join of two pumps runs one after the other; \<open>join_order_irrelevant\<close> shows that this loses nothing.
\<close>

section \<open>Samples\<close>

lemma upgrade_not_poolable:
  "\<not> request_poolable (analyse_request
     \<lparr>dest = ''/ws'', conn_type = of_wire WireWebsocket, metadata = [(''HttpHeader:Upgrade'', ''websocket'')]\<rparr>)"
  by (simp add: request_poolable_iff request_headers_def List.map_filter_simps header_of_def HTTP_HEADER_KEY_def
      strip_prefix_def asks_upgrade_def header_is_def sample_names)

section \<open>An inbound stream end to end\<close>

text \<open>C1: An HTTP request of known length and an answer of known length, end to end: whatever the chunks in
  which the edge and the origin send, the origin receives the rewritten head with keep-alive and
  exactly the body, the edge receives the framed status and headers and exactly the answer's body and
  then the end of its stream, both counters grow by the body lengths, bytes after the request stay
  unread, and the drained socket goes back to the pool.\<close>

theorem handle_http_framed:
  assumes "capnp_api c" and "http_parser parse"
    and "avail (from_edge st) =
      DATA_STREAM_SIGNATURE @ ver @ write_message c (edge_request c d ty md) @ body @ rest"
    and "length ver = 2" and "message_fits c (edge_request c d ty md)"
    and "utf8_ok d" and "\<forall>(k, v) \<in> set md. utf8_ok k \<and> utf8_ok v" and "ty \<noteq> WireTcp"
    and "req = \<lparr>dest = d, conn_type = of_wire ty, metadata = md\<rparr>"
    and "request_poolable (analyse_request req)" and "length body = request_body_length req"
    and "acquire_fut clock connect (conns st) = (Ready t (Inr s), pool)" and "t \<le> LOCAL_CONNECT_TIMEOUT"
    and "avail (sock_in s) = head @ rbody"
    and "parse head = Inr (HComplete (length head) (Some status) hs)"
    and "length head + READ_HEAD_CHUNK \<le> MAX_HEADER_BYTES + 1"
    and "response_poolable (analyse_response status (decode_headers hs))"
    and "declared_length (decode_headers hs) = Some (length rbody)"
    and "healthy (to_edge st)" and "healthy (sock_out s)"
  shows "\<exists>st' r w. handle_inbound_stream c parse clock now connect port st = (Done (), st', Some (r, w))
    \<and> written (wh_sink w) = written (sock_out s) @ build_request_head req True @ body
    \<and> written (to_edge st') = written (to_edge st)
        @ response_frame c '''' (response_meta status (decode_headers hs)) @ rbody
    \<and> is_closed (to_edge st') \<and> avail (from_edge st') = rest
    \<and> bytes_in st' = bytes_in st + of_nat (length body)
    \<and> bytes_out st' = bytes_out st + of_nat (length rbody)
    \<and> avail (rh_src r) = []
    \<and> conns st' = release now \<lparr>sock_id = sock_id s, sock_in = rh_src r, sock_out = wh_sink w\<rparr> pool"
proof -
  let ?x = "\<lparr>fx_dest = d, fx_type = ty, fx_metadata = md, fx_version = ver, fx_body = body, fx_rest = rest,
    fx_head = head, fx_status = status, fx_headers = hs, fx_answer = rbody\<rparr>"
  have x: "fx_ok c parse ?x" "avail (from_edge st) = fx_sent c ?x" "avail (sock_in s) = fx_head ?x @ fx_answer ?x"
    using assms by (simp_all add: fx_ok_def fx_sent_def fx_request_def list_all_iff)
  from framed_stream [OF assms(1,2) x(1,2) assms(12,13) x(3) assms(19,20), of now port]
  show ?thesis
    unfolding fx_submitted_def fx_forwarded_def fx_request_def framed_exchange.simps assms(9) by blast
qed

theorem handle_http_framed_witness:
  "\<exists>st' r w. handle_inbound_stream tree_api ref_parse (\<lambda>_. 0) 9
      (\<lambda>_. Ready 0 (Inr (sample_socket (bytewise_source (sample_head @ ''hi''))))) 80
      (sample_edge (bytewise_source (DATA_STREAM_SIGNATURE @ ''01'' @ write_message tree_api
         (edge_request tree_api (dest sample_request) WireHttp (metadata sample_request)) @ ''ok'' @ ''rest'')))
      = (Done (), st', Some (r, w))
    \<and> written (wh_sink w) = build_request_head sample_request True @ ''ok''
    \<and> is_closed (to_edge st') \<and> avail (from_edge st') = ''rest'' \<and> length (idle (conns st')) = 1"
proof -
  let ?src = "bytewise_source (DATA_STREAM_SIGNATURE @ ''01'' @ write_message tree_api
         (edge_request tree_api (dest sample_request) WireHttp (metadata sample_request)) @ ''ok'' @ ''rest'')"
  have req: "sample_request = \<lparr>dest = dest sample_request, conn_type = of_wire WireHttp, metadata = metadata sample_request\<rparr>"
    by (simp add: sample_request_def of_wire_def)
  have from_edge: "avail (from_edge (sample_edge ?src)) = DATA_STREAM_SIGNATURE @ ''01'' @ write_message tree_api
         (edge_request tree_api (dest sample_request) WireHttp (metadata sample_request)) @ ''ok'' @ ''rest''"
    by (simp only: sample_edge_fields bytewise_source)
  have acq: "acquire_fut (\<lambda>_. 0) (\<lambda>_. Ready 0 (Inr (sample_socket (bytewise_source (sample_head @ ''hi'')))))
      (conns (sample_edge ?src)) = (Ready 0 (Inr (sample_socket (bytewise_source (sample_head @ ''hi'')))), pool_new 80)"
    by (simp add: acquire_fut_new)
  have sock: "avail (sock_in (sample_socket (bytewise_source (sample_head @ ''hi'')))) = sample_head @ ''hi''"
    by (simp only: sample_socket_fields bytewise_source)
  have fits: "message_fits tree_api s" for s by (simp add: tree_api_def)
  have utf8: "utf8_ok (dest sample_request)" "\<forall>(k, v) \<in> set (metadata sample_request). utf8_ok k \<and> utf8_ok v"
    by (simp_all add: sample_request_def utf8_ok_ascii)
  from handle_http_framed [OF tree_capnp.capnp_api_axioms ref_http.http_parser_axioms from_edge _ fits utf8 _ req
      sample_request_shape(1) _ acq _ sock sample_head_parsed sample_head_fields(3), of 9 80]
  show ?thesis
    by (auto simp: sample_request_shape sample_shape release_def pool_new_def DEFAULT_MAX_IDLE_def)
qed

text \<open>C2: Any other HTTP or WebSocket request, end to end: the origin receives the head, which asks it to close
  unless the request says otherwise, and everything the edge sends until its end, and its socket is shut
  down for writing; the edge receives the framed status and headers and everything the origin sends
  until its end, and then the end of its stream. The socket is not kept.\<close>

theorem handle_http_two_pumps:
  assumes "capnp_api c" and "http_parser parse"
    and "avail (from_edge st) =
      DATA_STREAM_SIGNATURE @ ver @ write_message c (edge_request c d ty md) @ body"
    and "length ver = 2" and "message_fits c (edge_request c d ty md)"
    and "utf8_ok d" and "\<forall>(k, v) \<in> set md. utf8_ok k \<and> utf8_ok v" and "ty \<noteq> WireTcp"
    and "req = \<lparr>dest = d, conn_type = of_wire ty, metadata = md\<rparr>"
    and "\<not> request_poolable (analyse_request req)" and "ending_of (from_edge st) \<noteq> AtStall"
    and "acquire_fut clock connect (conns st) = (Ready t (Inr s), pool)" and "t \<le> LOCAL_CONNECT_TIMEOUT"
    and "avail (sock_in s) = head @ rbody" and "ending_of (sock_in s) = AtEof"
    and "parse head = Inr (HComplete (length head) (Some status) hs)"
    and "length head + READ_HEAD_CHUNK \<le> MAX_HEADER_BYTES + 1"
    and "healthy (to_edge st)" and "healthy (sock_out s)"
  shows "\<exists>st' r w. handle_inbound_stream c parse clock now connect port st = (Done (), st', Some (r, w))
    \<and> written (wh_sink w) = written (sock_out s) @ build_request_head req False @ body \<and> is_closed (wh_sink w)
    \<and> written (to_edge st') = written (to_edge st)
        @ response_frame c '''' (response_meta status (decode_headers hs)) @ rbody
    \<and> is_closed (to_edge st')
    \<and> bytes_in st' = bytes_in st + of_nat (length body)
    \<and> bytes_out st' = bytes_out st + of_nat (length rbody)
    \<and> conns st' = pool"
proof -
  have av: "avail (from_edge st) = DATA_STREAM_SIGNATURE @ ver @ write_message c (edge_request c d ty md) @ body"
    by (rule assms(3))
  obtain reader where rd: "read_connect_request c (from_edge st) = (Done req, reader)"
    "avail reader = body" "ending_of reader = ending_of (from_edge st)"
    using capnp_api.read_edge_request [OF assms(1) av assms(4-7)] assms(9) by auto
  let ?st = "st\<lparr>from_edge := reader\<rparr>" and ?frame = "response_frame c [] (response_meta status (decode_headers hs))"
  let ?px = "with_tcp (?st\<lparr>conns := pool\<rparr>) s"
  have px: "avail (rh_src (tcp_read ?px)) = head @ rbody" "healthy (to_edge ?px)"
    "healthy (wh_sink (tcp_write ?px))" "ending_of (from_edge ?px) \<noteq> AtStall"
    "ending_of (rh_src (tcp_read ?px)) = AtEof"
    using rd(3) assms(11,14,15,18,19) by simp_all
  from http_parser.serve_http_bidi [OF assms(2,10,16) px(1) assms(17) px(2-5), where c = c and now = now]
  obtain s1 s2 where serve: "serve_http c parse now req ?px =
      (Done (), edge_closed (forwarded
         (local_closed (submitted ?px (build_request_head req False @ body) (length body) s1))
         (?frame @ rbody) (length rbody) s2))"
    using rd(2) by (auto simp del: append_assoc)
  have "handle_inbound_stream c parse clock now connect port st = proxy_http c parse clock now connect req ?st"
    using http_dispatch [OF rd(1), of ty] assms(8,9) by simp
  also have "\<dots> = (case serve_http c parse now req ?px of
       (r, st') \<Rightarrow> (r, edge_state.truncate st', Some (tcp_read st', tcp_write st')))"
    using assms(12,13) by (intro proxy_http_socket) simp_all
  finally show ?thesis using serve by simp
qed

theorem handle_http_two_pumps_witness:
  "\<exists>st' r w. handle_inbound_stream tree_api ref_parse (\<lambda>_. 0) 9
      (\<lambda>_. Ready 0 (Inr (sample_socket (bytewise_source (sample_head @ ''hello''))))) 80
      (sample_edge (bytewise_source (DATA_STREAM_SIGNATURE @ ''01'' @ write_message tree_api
         (edge_request tree_api ''/ws'' WireWebsocket [(''HttpHeader:Upgrade'', ''websocket'')]) @ ''frames'')))
      = (Done (), st', Some (r, w))
    \<and> is_closed (wh_sink w) \<and> bytes_in st' = of_nat 6 \<and> bytes_out st' = of_nat 5"
proof -
  let ?md = "[(''HttpHeader:Upgrade'', ''websocket'')]"
  let ?src = "bytewise_source (DATA_STREAM_SIGNATURE @ ''01'' @ write_message tree_api
         (edge_request tree_api ''/ws'' WireWebsocket ?md) @ ''frames'')"
  let ?sock = "sample_socket (bytewise_source (sample_head @ ''hello''))"
  have from_edge: "avail (from_edge (sample_edge ?src)) = DATA_STREAM_SIGNATURE @ ''01'' @ write_message tree_api
         (edge_request tree_api ''/ws'' WireWebsocket ?md) @ ''frames''"
    by (simp only: sample_edge_fields bytewise_source)
  have ends: "ending_of (from_edge (sample_edge ?src)) \<noteq> AtStall" "ending_of (sock_in ?sock) = AtEof"
    by (simp_all only: sample_edge_fields sample_socket_fields bytewise_source) simp
  have acq: "acquire_fut (\<lambda>_. 0) (\<lambda>_. Ready 0 (Inr ?sock)) (conns (sample_edge ?src)) = (Ready 0 (Inr ?sock), pool_new 80)"
    by (simp add: acquire_fut_new)
  have sock: "avail (sock_in ?sock) = sample_head @ ''hello''"
    by (simp only: sample_socket_fields bytewise_source)
  have fits: "message_fits tree_api s" for s by (simp add: tree_api_def)
  have utf8: "utf8_ok ''/ws''" "\<forall>(k, v) \<in> set ?md. utf8_ok k \<and> utf8_ok v"
    by (simp_all add: utf8_ok_ascii)
  from handle_http_two_pumps [OF tree_capnp.capnp_api_axioms ref_http.http_parser_axioms from_edge _ fits utf8 _ refl
      upgrade_not_poolable ends(1) acq _ sock ends(2) sample_head_parsed sample_head_fields(3), of 9 80]
  show ?thesis by auto
qed

end
